(* ===== verification/Prelude.thy ===== *)
theory Prelude
  imports Main "HOL-Library.Log_Nat"
begin

text \<open>
  Shared vocabulary of the development: the named collections the component
  theories extend, the Go types that need a convention (instants, durations,
  fixed-width integers), and generic facts on lists and options.

  \<^item> A \<open>time.Time\<close> is its distance in nanoseconds from Go's zero instant, so that
    \<open>t.IsZero()\<close> is \<open>t = 0\<close>; a \<open>*time.Time\<close> is an option.
  \<^item> A \<open>time.Duration\<close>, \<open>int\<close> and \<open>int64\<close> is an \<open>int\<close> kept in the signed 64-bit
    range by \<open>i64\<close> wherever the source does arithmetic on it.
  \<^item> A \<open>for ... range\<close> loop that returns at its first hit is \<open>first_hit\<close>.
\<close>

named_theorems go_float \<open>evaluation rules for binary64 operations\<close>
named_theorems om_defs \<open>definitions of order manager operations\<close>

type_synonym gtime = int
type_synonym duration = int

definition is_zero_time :: "gtime \<Rightarrow> bool" where
  "is_zero_time t \<longleftrightarrow> t = 0"

abbreviation millisecond :: duration where "millisecond \<equiv> 1000000"
abbreviation second :: duration where "second \<equiv> 1000000000"
abbreviation minute :: duration where "minute \<equiv> 60000000000"

subsection \<open>Signed 64-bit wrap-around\<close>

definition i64 :: "int \<Rightarrow> int" where
  "i64 x = (x + 2 ^ 63) mod 2 ^ 64 - 2 ^ 63"

lemma i64_range: "- (2 ^ 63) \<le> i64 x \<and> i64 x < 2 ^ 63"
proof -
  have "0 \<le> (x + 2 ^ 63) mod 2 ^ 64" "(x + 2 ^ 63) mod 2 ^ 64 < (2::int) ^ 64"
    by simp_all
  then show ?thesis unfolding i64_def by simp
qed

lemma i64_id: "- (2 ^ 63) \<le> x \<Longrightarrow> x < 2 ^ 63 \<Longrightarrow> i64 x = x"
  by (simp add: i64_def)

text \<open>The conversion to \<open>int32\<close> keeps the low 32 bits.\<close>

definition i32 :: "int \<Rightarrow> int" where
  "i32 x = (x + 2 ^ 31) mod 2 ^ 32 - 2 ^ 31"

lemma i32_id: "- (2 ^ 31) \<le> x \<Longrightarrow> x < 2 ^ 31 \<Longrightarrow> i32 x = x"
  by (simp add: i32_def)

lemma i32_small [simp]:
  "i32 0 = 0"
  "i32 1 = 1"
  "(numeral k :: int) < 2 ^ 31 \<Longrightarrow> i32 (numeral k) = numeral k"
  by (simp_all add: i32_id)

text \<open>Go's integer division rounds towards zero.\<close>

definition go_quot :: "int \<Rightarrow> int \<Rightarrow> int" where
  "go_quot a b = sgn a * sgn b * (\<bar>a\<bar> div \<bar>b\<bar>)"

subsection \<open>Loops that return at the first hit\<close>

fun first_hit :: "('a \<Rightarrow> 'b option) \<Rightarrow> 'b \<Rightarrow> 'a list \<Rightarrow> 'b" where
  "first_hit f d [] = d"
| "first_hit f d (x # xs) = (case f x of Some y \<Rightarrow> y | None \<Rightarrow> first_hit f d xs)"

lemma first_hit_append:
  "first_hit f d (xs @ ys) = first_hit f (first_hit f d ys) xs"
  by (induction xs) (auto split: option.splits)

lemma first_hit_none: "(\<forall>x \<in> set xs. f x = None) \<Longrightarrow> first_hit f d xs = d"
  by (induction xs) auto

lemma first_hit_Some_append:
  "x \<in> set xs \<Longrightarrow> f x \<noteq> None \<Longrightarrow> first_hit f d (xs @ ys) = first_hit f d xs"
  by (induction xs) (auto split: option.splits)

subsection \<open>Non-empty strings\<close>

definition non_empty :: "string \<Rightarrow> string option" where
  "non_empty s = (if s = '''' then None else Some s)"

lemma non_empty_simps [simp]:
  "non_empty [] = None"
  "non_empty (c # s) = Some (c # s)"
  by (simp_all add: non_empty_def)

subsection \<open>Lists\<close>

lemma foldl_invariant:
  assumes "P s" and "\<And>s x. P s \<Longrightarrow> x \<in> set xs \<Longrightarrow> P (f s x)"
  shows "P (foldl f s xs)"
  using assms by (induction xs arbitrary: s) auto

lemma foldl_mono_int:
  assumes "\<And>s x. (g s :: int) \<le> g (f s x)"
  shows "g s \<le> g (foldl f s xs)"
proof (induction xs arbitrary: s)
  case Nil
  then show ?case by simp
next
  case (Cons x xs)
  have "g s \<le> g (f s x)" by (rule assms)
  also have "\<dots> \<le> g (foldl f (f s x) xs)" by (rule Cons.IH)
  finally show ?case by simp
qed

lemma take_last_length:
  "length (drop (length xs - n) xs) = min n (length xs)"
  by simp

end
