(* ===== verification/Float64.thy ===== *)
theory Float64
  imports Complex_Main "HOL-Library.Log_Nat" Prelude
begin

text \<open>
  Go's \<open>float64\<close>: IEEE 754 binary64 with round-to-nearest, ties to even. A finite value
  is the rational it denotes, negative zero is kept apart, and every operation is
  executable. \<open>f64_of_rat\<close> rounds a rational to the nearest double; \<open>is_f64\<close> says
  which finite values the format has. The lemmas show that rounding is monotone, is the
  identity on doubles, and that every operation stays in the format.
\<close>

datatype float64 = FNaN | FInf bool | FNegZero | FFin rat

subsection \<open>Comparisons\<close>

fun f_key :: "float64 \<Rightarrow> (int \<times> rat) option" where
  "f_key FNaN = None"
| "f_key (FInf neg) = Some (if neg then -1 else 1, 0)"
| "f_key FNegZero = Some (0, 0)"
| "f_key (FFin q) = Some (0, q)"

definition f_lt :: "float64 \<Rightarrow> float64 \<Rightarrow> bool" where
  "f_lt a b = (case f_key a of None \<Rightarrow> False | Some (s, x) \<Rightarrow>
     (case f_key b of None \<Rightarrow> False | Some (t, y) \<Rightarrow> s < t \<or> (s = t \<and> x < y)))"

definition f_eq :: "float64 \<Rightarrow> float64 \<Rightarrow> bool" where
  "f_eq a b = (case f_key a of None \<Rightarrow> False | Some (s, x) \<Rightarrow>
     (case f_key b of None \<Rightarrow> False | Some (t, y) \<Rightarrow> s = t \<and> x = y))"

definition f_le :: "float64 \<Rightarrow> float64 \<Rightarrow> bool" where
  "f_le a b \<longleftrightarrow> f_lt a b \<or> f_eq a b"

abbreviation f0 :: float64 where "f0 \<equiv> FFin 0"

definition f_pos :: "float64 \<Rightarrow> bool" where "f_pos x = f_lt f0 x"

lemma f_cmp_Fin [simp, go_float]:
  "f_lt (FFin a) (FFin b) \<longleftrightarrow> a < b"
  "f_eq (FFin a) (FFin b) \<longleftrightarrow> a = b"
  "f_le (FFin a) (FFin b) \<longleftrightarrow> a \<le> b"
  by (auto simp: f_lt_def f_eq_def f_le_def)

lemma f_cmp_NaN [simp, go_float]:
  "\<not> f_lt FNaN a" "\<not> f_lt a FNaN" "\<not> f_eq FNaN a" "\<not> f_eq a FNaN"
  "\<not> f_le FNaN a" "\<not> f_le a FNaN"
  by (auto simp: f_lt_def f_eq_def f_le_def split: option.splits prod.splits)

lemma f_cmp_NegZero [simp, go_float]:
  "f_lt FNegZero (FFin b) \<longleftrightarrow> 0 < b" "f_lt (FFin b) FNegZero \<longleftrightarrow> b < 0"
  "f_eq FNegZero (FFin b) \<longleftrightarrow> b = 0" "f_eq (FFin b) FNegZero \<longleftrightarrow> b = 0"
  "\<not> f_lt FNegZero FNegZero" "f_eq FNegZero FNegZero"
  by (auto simp: f_lt_def f_eq_def)

lemma f_cmp_Inf [simp, go_float]:
  "f_lt (FFin b) (FInf s) \<longleftrightarrow> \<not> s" "f_lt (FInf s) (FFin b) \<longleftrightarrow> s"
  "\<not> f_eq (FInf s) (FFin b)" "\<not> f_eq (FFin b) (FInf s)"
  "f_lt (FInf s) (FInf t) \<longleftrightarrow> s \<and> \<not> t" "f_eq (FInf s) (FInf t) \<longleftrightarrow> s = t"
  "f_lt FNegZero (FInf s) \<longleftrightarrow> \<not> s" "f_lt (FInf s) FNegZero \<longleftrightarrow> s"
  "\<not> f_eq FNegZero (FInf s)" "\<not> f_eq (FInf s) FNegZero"
  by (auto simp: f_lt_def f_eq_def)

lemma f_lt_irrefl [simp]: "\<not> f_lt a a"
  by (cases a) auto

lemma f_lt_trans: "f_lt a b \<Longrightarrow> f_lt b c \<Longrightarrow> f_lt a c"
  by (auto simp: f_lt_def split: option.splits)

lemma f_lt_not_eq: "f_lt a b \<Longrightarrow> \<not> f_eq a b"
  by (auto simp: f_lt_def f_eq_def split: option.splits)

lemma f_lt_asym: "f_lt a b \<Longrightarrow> \<not> f_lt b a"
  by (auto simp: f_lt_def split: option.splits)

lemma f_linear: "a \<noteq> FNaN \<Longrightarrow> b \<noteq> FNaN \<Longrightarrow> f_lt a b \<or> f_eq a b \<or> f_lt b a"
  by (cases a; cases b) auto

lemma f_le_trans: "f_le a b \<Longrightarrow> f_le b c \<Longrightarrow> f_le a c"
  by (auto simp: f_le_def f_lt_def f_eq_def split: option.splits)

lemma f_pos_simps [simp]:
  "f_pos (FFin q) \<longleftrightarrow> 0 < q" "\<not> f_pos FNaN" "\<not> f_pos FNegZero" "f_pos (FInf s) \<longleftrightarrow> \<not> s"
  by (auto simp: f_pos_def)

lemma f_eq_pos: "f_eq a b \<Longrightarrow> f_pos a \<Longrightarrow> a = b"
  by (cases a; cases b) auto

lemma f_eq_sym: "f_eq a b \<Longrightarrow> f_eq b a"
  by (auto simp: f_eq_def split: option.splits)

lemma f_le_antisym_pos: "f_pos a \<Longrightarrow> f_le a b \<Longrightarrow> f_le b a \<Longrightarrow> b = a"
  using f_eq_pos [of a b] f_lt_asym [of a b] f_lt_asym [of b a] f_lt_not_eq [of a b] f_eq_sym [of b a]
  by (auto simp: f_le_def)

lemma f_pos_lt_trans: "f_pos a \<Longrightarrow> f_lt a b \<Longrightarrow> f_pos b"
  unfolding f_pos_def by (rule f_lt_trans)

subsection \<open>Rounding to binary64\<close>

definition round_half_even :: "rat \<Rightarrow> int" where
  "round_half_even x =
     (let f = \<lfloor>x\<rfloor>; r = x - of_int f in
      if r < 1 / 2 then f else if 1 / 2 < r then f + 1
      else if even f then f else f + 1)"

definition ilog2 :: "rat \<Rightarrow> int" where
  "ilog2 q = (let (n, d) = quotient_of q; k = bitlen n - bitlen d in
     if 2 powi k \<le> q then k else k - 1)"

definition bin_exp :: "rat \<Rightarrow> int" where
  "bin_exp q = max (ilog2 \<bar>q\<bar>) (-1022)"

definition rnd64 :: "rat \<Rightarrow> rat" where
  "rnd64 q = (if q = 0 then 0
     else let u = 2 powi (bin_exp q - 52) in of_int (round_half_even (q / u)) * u)"

definition f64_bound :: rat where
  "f64_bound = 2 ^ 1024"

lemma f64_bound_pos [simp]: "0 < f64_bound"
  by (simp add: f64_bound_def)

definition f64_of_rat :: "rat \<Rightarrow> float64" where
  "f64_of_rat q = (let v = rnd64 q in
     if f64_bound \<le> \<bar>v\<bar> then FInf (q < 0)
     else if v = 0 \<and> q < 0 then FNegZero else FFin v)"

fun is_f64 :: "float64 \<Rightarrow> bool" where
  "is_f64 (FFin q) \<longleftrightarrow> rnd64 q = q \<and> \<bar>q\<bar> < f64_bound"
| "is_f64 _ \<longleftrightarrow> True"

subsection \<open>Arithmetic\<close>

fun f_val :: "float64 \<Rightarrow> rat" where
  "f_val (FFin q) = q"
| "f_val _ = 0"

fun f_signbit :: "float64 \<Rightarrow> bool" where
  "f_signbit FNaN = False"
| "f_signbit (FInf s) = s"
| "f_signbit FNegZero = True"
| "f_signbit (FFin q) = (q < 0)"

definition f_zero :: "bool \<Rightarrow> float64" where
  "f_zero s = (if s then FNegZero else FFin 0)"

fun f_is_inf :: "float64 \<Rightarrow> bool" where
  "f_is_inf (FInf _) = True"
| "f_is_inf _ = False"

fun f_is_fin :: "float64 \<Rightarrow> bool" where
  "f_is_fin (FFin _) = True"
| "f_is_fin FNegZero = True"
| "f_is_fin _ = False"

fun f_neg :: "float64 \<Rightarrow> float64" where
  "f_neg FNaN = FNaN"
| "f_neg (FInf s) = FInf (\<not> s)"
| "f_neg FNegZero = FFin 0"
| "f_neg (FFin q) = (if q = 0 then FNegZero else FFin (- q))"

definition f_abs :: "float64 \<Rightarrow> float64" where
  "f_abs a = (if f_signbit a then f_neg a else a)"

definition f_add :: "float64 \<Rightarrow> float64 \<Rightarrow> float64" where
  "f_add a b =
     (if a = FNaN \<or> b = FNaN then FNaN
      else if f_is_inf a then (if f_is_inf b \<and> a \<noteq> b then FNaN else a)
      else if f_is_inf b then b
      else if a = FNegZero \<and> b = FNegZero then FNegZero
      else f64_of_rat (f_val a + f_val b))"

definition f_sub :: "float64 \<Rightarrow> float64 \<Rightarrow> float64" where
  "f_sub a b = f_add a (f_neg b)"

definition f_mul :: "float64 \<Rightarrow> float64 \<Rightarrow> float64" where
  "f_mul a b =
     (if a = FNaN \<or> b = FNaN then FNaN
      else let s = (f_signbit a \<noteq> f_signbit b) in
        if f_is_inf a \<or> f_is_inf b then
          (if f_is_fin a \<and> f_val a = 0 \<or> f_is_fin b \<and> f_val b = 0 then FNaN else FInf s)
        else if f_val a * f_val b = 0 then f_zero s
        else f64_of_rat (f_val a * f_val b))"

definition f_div :: "float64 \<Rightarrow> float64 \<Rightarrow> float64" where
  "f_div a b =
     (if a = FNaN \<or> b = FNaN then FNaN
      else let s = (f_signbit a \<noteq> f_signbit b) in
        if f_is_inf a then (if f_is_inf b then FNaN else FInf s)
        else if f_is_inf b then f_zero s
        else if f_val b = 0 then (if f_val a = 0 then FNaN else FInf s)
        else if f_val a = 0 then f_zero s
        else f64_of_rat (f_val a / f_val b))"

definition f_of_int :: "int \<Rightarrow> float64" where
  "f_of_int n = f64_of_rat (of_int n)"

text \<open>\<open>math.Max\<close> and \<open>math.Min\<close>, with Go's treatment of infinities, NaN and signed zero.\<close>

definition f_max :: "float64 \<Rightarrow> float64 \<Rightarrow> float64" where
  "f_max a b =
     (if a = FInf False \<or> b = FInf False then FInf False
      else if a = FNaN \<or> b = FNaN then FNaN
      else if f_eq a f0 \<and> f_eq b f0 then (if f_signbit a then b else a)
      else if f_lt b a then a else b)"

definition f_min :: "float64 \<Rightarrow> float64 \<Rightarrow> float64" where
  "f_min a b =
     (if a = FInf True \<or> b = FInf True then FInf True
      else if a = FNaN \<or> b = FNaN then FNaN
      else if f_eq a f0 \<and> f_eq b f0 then (if f_signbit a then a else b)
      else if f_lt a b then a else b)"

subsection \<open>Rounding is monotone and keeps doubles\<close>

lemma round_half_even_bounds:
  "\<lfloor>x\<rfloor> \<le> round_half_even x" "round_half_even x \<le> \<lfloor>x\<rfloor> + 1"
  by (auto simp: round_half_even_def Let_def)

lemma round_half_even_of_int [simp]: "round_half_even (of_int n) = n"
  by (simp add: round_half_even_def Let_def)

lemma round_half_even_mono:
  assumes "x \<le> y"
  shows "round_half_even x \<le> round_half_even y"
proof (cases "\<lfloor>x\<rfloor> = \<lfloor>y\<rfloor>")
  case True
  with assms show ?thesis by (auto simp: round_half_even_def Let_def)
next
  case False
  with assms have "\<lfloor>x\<rfloor> + 1 \<le> \<lfloor>y\<rfloor>"
    using floor_mono [OF assms] by linarith
  then show ?thesis
    using round_half_even_bounds [of x] round_half_even_bounds [of y] by linarith
qed

lemma round_half_even_near: "\<bar>of_int (round_half_even x) - x\<bar> \<le> 1 / 2"
proof -
  have "of_int \<lfloor>x\<rfloor> \<le> x" "x < of_int \<lfloor>x\<rfloor> + 1"
    using floor_correct [of x] by auto
  then show ?thesis
    by (auto simp: round_half_even_def Let_def abs_le_iff)
qed

lemma round_half_even_minus: "round_half_even (- x) = - round_half_even x"
proof (cases "x = of_int \<lfloor>x\<rfloor>")
  case True
  then obtain n where "x = of_int n" by blast
  then have "- x = of_int (- n)" by simp
  then show ?thesis using \<open>x = of_int n\<close> by (metis round_half_even_of_int)
next
  case False
  have lo: "of_int \<lfloor>x\<rfloor> < x" using False by (metis of_int_floor_le order_le_less)
  have hi: "x < of_int \<lfloor>x\<rfloor> + 1" using floor_correct [of x] by auto
  have fm: "\<lfloor>- x\<rfloor> = - \<lfloor>x\<rfloor> - 1"
    using lo hi by (intro floor_unique) auto
  show ?thesis
    unfolding round_half_even_def Let_def fm using lo hi by auto
qed

lemma powi_pos [simp]: "0 < (2::rat) powi k"
  by simp

lemma powi_add: "(2::rat) powi (a + b) = 2 powi a * 2 powi b"
  by (simp add: power_int_add)

lemma powi_nonneg_int: "0 \<le> k \<Longrightarrow> \<exists>m::int. (2::rat) powi k = of_int m"
  by (rule exI [of _ "2 ^ nat k"]) (simp add: power_int_def)

lemma powi_mono: "a \<le> b \<Longrightarrow> (2::rat) powi a \<le> 2 powi b"
  by (rule power_int_increasing) simp_all

lemma powi_less_iff: "(2::rat) powi a < 2 powi b \<longleftrightarrow> a < b"
  by (meson linorder_not_less powi_mono power_int_strict_increasing one_less_numeral_iff semiring_norm(76))

lemma bitlen_bracket:
  assumes "0 < n"
  shows "(2::rat) powi (bitlen n - 1) \<le> of_int n" "of_int n < (2::rat) powi bitlen n"
proof -
  have b: "2 ^ nat (bitlen n - 1) \<le> n" "n < 2 ^ nat (bitlen n)"
    using bitlen_bounds [OF assms] by auto
  have p: "0 < bitlen n" using assms b by (cases "0 < bitlen n") auto
  have "(2::rat) powi (bitlen n - 1) = of_int (2 ^ nat (bitlen n - 1))"
    using p by (simp add: power_int_def)
  also have "\<dots> \<le> of_int n" using b(1) by (simp only: of_int_le_iff)
  finally show "(2::rat) powi (bitlen n - 1) \<le> of_int n" .
  have "(of_int n :: rat) < of_int (2 ^ nat (bitlen n))" using b(2) by (simp only: of_int_less_iff)
  also have "\<dots> = 2 powi bitlen n" using p by (simp add: power_int_def)
  finally show "of_int n < (2::rat) powi bitlen n" .
qed

lemma ilog2_bracket:
  assumes "0 < q"
  shows "2 powi ilog2 q \<le> q" "q < 2 powi (ilog2 q + 1)"
proof -
  obtain n d where nd: "quotient_of q = (n, d)" by (cases "quotient_of q")
  have d: "0 < d" using quotient_of_denom_pos [OF nd] .
  have q: "q = of_int n / of_int d" using quotient_of_div [OF nd] .
  have n: "0 < n" using assms d unfolding q by (simp add: zero_less_divide_iff)
  let ?k = "bitlen n - bitlen d"
  have N: "(2::rat) powi (bitlen n - 1) \<le> of_int n" "of_int n < (2::rat) powi bitlen n"
    using bitlen_bracket [OF n] by auto
  have D: "(2::rat) powi (bitlen d - 1) \<le> of_int d" "of_int d < (2::rat) powi bitlen d"
    using bitlen_bracket [OF d] by auto
  have d': "(0::rat) < of_int d" using d by simp
  have lo: "2 powi (?k - 1) \<le> q"
  proof -
    have "(2::rat) powi (?k - 1) * of_int d \<le> 2 powi (?k - 1) * 2 powi bitlen d"
      using D(2) by (intro mult_left_mono) auto
    also have "\<dots> = 2 powi (bitlen n - 1)" by (simp flip: powi_add)
    also have "\<dots> \<le> of_int n" by (rule N(1))
    finally show ?thesis unfolding q using d' by (simp add: pos_le_divide_eq)
  qed
  have hi: "q < 2 powi (?k + 1)"
  proof -
    have "of_int n < (2::rat) powi bitlen n" by (rule N(2))
    also have "\<dots> = 2 powi (?k + 1) * 2 powi (bitlen d - 1)" by (simp flip: powi_add)
    also have "\<dots> \<le> 2 powi (?k + 1) * of_int d"
      using D(1) by (intro mult_left_mono) auto
    finally show ?thesis unfolding q using d' by (simp add: pos_divide_less_eq)
  qed
  show "2 powi ilog2 q \<le> q" "q < 2 powi (ilog2 q + 1)"
    using lo hi by (auto simp: ilog2_def nd Let_def)
qed

lemma ilog2_unique:
  assumes "0 < q" "2 powi k \<le> q" "q < 2 powi (k + 1)"
  shows "ilog2 q = k"
proof -
  have "(2::rat) powi ilog2 q < 2 powi (k + 1)" "(2::rat) powi k < 2 powi (ilog2 q + 1)"
    using ilog2_bracket [OF assms(1)] assms(2,3) by linarith+
  then show ?thesis by (simp add: powi_less_iff)
qed

lemma ilog2_mono:
  assumes "0 < x" "x \<le> y"
  shows "ilog2 x \<le> ilog2 y"
proof -
  have "(2::rat) powi ilog2 x < 2 powi (ilog2 y + 1)"
    using ilog2_bracket(1) [OF assms(1)] ilog2_bracket(2) [of y] assms by linarith
  then show ?thesis by (simp add: powi_less_iff)
qed

lemma powi_not_le [simp]: "\<not> (2::rat) powi k \<le> 0"
  by (simp add: not_le)

lemma bin_exp_ge: "-1022 \<le> bin_exp q"
  by (simp add: bin_exp_def)

lemma bin_exp_upper: "0 < q \<Longrightarrow> q < 2 powi (bin_exp q + 1)"
proof -
  assume q: "0 < q"
  have "q < 2 powi (ilog2 q + 1)" by (rule ilog2_bracket(2) [OF q])
  also have "\<dots> \<le> 2 powi (bin_exp q + 1)"
    using q by (intro powi_mono) (simp add: bin_exp_def)
  finally show ?thesis .
qed

lemma bin_exp_lower: "0 < q \<Longrightarrow> -1022 < bin_exp q \<Longrightarrow> 2 powi bin_exp q \<le> q"
  using ilog2_bracket(1) [of q] by (auto simp: bin_exp_def max_def split: if_splits)

lemma bin_exp_mono: "0 < x \<Longrightarrow> x \<le> y \<Longrightarrow> bin_exp x \<le> bin_exp y"
  using ilog2_mono [of x y] by (simp add: bin_exp_def max_def)

lemma bin_exp_minus [simp]: "bin_exp (- q) = bin_exp q"
  by (simp add: bin_exp_def)

lemma rnd64_0 [simp]: "rnd64 0 = 0"
  by (simp add: rnd64_def)

lemma rnd64_minus: "rnd64 (- q) = - rnd64 q"
proof -
  have "round_half_even (- q / u) = - round_half_even (q / u)" for u
    using round_half_even_minus [of "q / u"] by simp
  then show ?thesis by (simp add: rnd64_def Let_def)
qed

lemma powi_quantum: "(2::rat) powi (e + 1) = 2 ^ 53 * 2 powi (e - 52)"
  "(2::rat) powi e = 2 ^ 52 * 2 powi (e - 52)"
proof -
  have "(2::rat) ^ 53 = 2 powi 53" "(2::rat) ^ 52 = 2 powi 52"
    by (simp_all add: power_int_def)
  then show "(2::rat) powi (e + 1) = 2 ^ 53 * 2 powi (e - 52)"
    "(2::rat) powi e = 2 ^ 52 * 2 powi (e - 52)"
    by (simp_all only: powi_add [symmetric]) (simp_all add: add.commute)
qed

lemma rnd64_upper:
  assumes "0 < q"
  shows "rnd64 q \<le> 2 powi (bin_exp q + 1)"
proof -
  let ?u = "(2::rat) powi (bin_exp q - 52)"
  have "q / ?u \<le> of_int (2 ^ 53)"
    using bin_exp_upper [OF assms] by (simp add: powi_quantum(1) [of "bin_exp q"] pos_divide_le_eq)
  then have "round_half_even (q / ?u) \<le> 2 ^ 53"
    using round_half_even_mono [of "q / ?u" "of_int (2 ^ 53)"] by (simp only: round_half_even_of_int)
  then have "(of_int (round_half_even (q / ?u)) :: rat) \<le> of_int (2 ^ 53)"
    by (simp only: of_int_le_iff)
  then have "of_int (round_half_even (q / ?u)) * ?u \<le> 2 ^ 53 * ?u"
    by (intro mult_right_mono) simp_all
  then show ?thesis using assms by (simp add: rnd64_def Let_def powi_quantum(1) [of "bin_exp q"])
qed

lemma rnd64_lower:
  assumes "0 < q" "-1022 < bin_exp q"
  shows "2 powi bin_exp q \<le> rnd64 q"
proof -
  let ?u = "(2::rat) powi (bin_exp q - 52)"
  have "of_int (2 ^ 52) \<le> q / ?u"
    using bin_exp_lower [OF assms] by (simp add: powi_quantum(2) [of "bin_exp q"] pos_le_divide_eq)
  then have "2 ^ 52 \<le> round_half_even (q / ?u)"
    using round_half_even_mono [of "of_int (2 ^ 52)" "q / ?u"] by (simp only: round_half_even_of_int)
  then have "(of_int (2 ^ 52) :: rat) \<le> of_int (round_half_even (q / ?u))"
    by (simp only: of_int_le_iff)
  then have "2 ^ 52 * ?u \<le> of_int (round_half_even (q / ?u)) * ?u"
    by (intro mult_right_mono) simp_all
  then show ?thesis using assms by (simp add: rnd64_def Let_def powi_quantum(2) [of "bin_exp q"])
qed

lemma rnd64_nonneg: "0 \<le> q \<Longrightarrow> 0 \<le> rnd64 q"
proof (cases "q = 0")
  case False
  assume "0 \<le> q"
  have "round_half_even (of_int 0) \<le> round_half_even (q / 2 powi (bin_exp q - 52))"
    using \<open>0 \<le> q\<close> by (intro round_half_even_mono) simp
  then have "0 \<le> round_half_even (q / 2 powi (bin_exp q - 52))"
    by (simp only: round_half_even_of_int)
  then show ?thesis by (simp add: rnd64_def Let_def)
qed simp

lemma rnd64_mono_pos:
  assumes "0 < x" "x \<le> y"
  shows "rnd64 x \<le> rnd64 y"
proof (cases "bin_exp x = bin_exp y")
  case True
  have "round_half_even (x / 2 powi (bin_exp x - 52)) \<le> round_half_even (y / 2 powi (bin_exp x - 52))"
    using assms by (intro round_half_even_mono divide_right_mono) simp_all
  then have "(of_int (round_half_even (x / 2 powi (bin_exp x - 52))) :: rat)
      \<le> of_int (round_half_even (y / 2 powi (bin_exp x - 52)))"
    by (simp only: of_int_le_iff)
  then show ?thesis using assms True by (simp add: rnd64_def Let_def mult_right_mono)
next
  case False
  with bin_exp_mono [OF assms] have lt: "bin_exp x + 1 \<le> bin_exp y" by linarith
  have "rnd64 x \<le> 2 powi (bin_exp x + 1)" by (rule rnd64_upper [OF assms(1)])
  also have "\<dots> \<le> 2 powi bin_exp y" using lt by (rule powi_mono)
  also have "\<dots> \<le> rnd64 y"
    using assms lt bin_exp_ge [of x] by (intro rnd64_lower) linarith+
  finally show ?thesis .
qed

lemma rnd64_mono: "x \<le> y \<Longrightarrow> rnd64 x \<le> rnd64 y"
proof -
  assume le: "x \<le> y"
  consider "0 < x" | "x \<le> 0" "0 \<le> y" | "y < 0" by linarith
  then show ?thesis
  proof cases
    case 1
    then show ?thesis using le by (rule rnd64_mono_pos)
  next
    case 2
    have "rnd64 x \<le> 0" using rnd64_nonneg [of "- x"] 2 by (simp add: rnd64_minus)
    then show ?thesis using rnd64_nonneg [of y] 2 by linarith
  next
    case 3
    have "rnd64 (- y) \<le> rnd64 (- x)" using 3 le by (intro rnd64_mono_pos) auto
    then show ?thesis by (simp add: rnd64_minus)
  qed
qed

text \<open>A multiple of a large enough power of two with at most 53 significant bits is a double.\<close>

lemma rnd64_exact_lt:
  assumes "\<bar>m\<bar> < 2 ^ 53" "-1074 \<le> k" "0 < m"
  shows "rnd64 (of_int m * 2 powi k) = of_int m * 2 powi k"
proof -
  let ?q = "of_int m * 2 powi k :: rat"
  have q: "0 < ?q" using assms by simp
  have m: "(of_int m :: rat) < 2 powi 53"
  proof -
    have "(of_int m :: rat) < of_int (2 ^ 53)" using assms by (simp only: of_int_less_iff)
    then show ?thesis by (simp add: power_int_def)
  qed
  have "?q < 2 powi 53 * 2 powi k" using m by (intro mult_strict_right_mono) simp_all
  then have "?q < 2 powi (53 + k)" by (simp add: powi_add)
  then have "(2::rat) powi ilog2 ?q < 2 powi (53 + k)" using ilog2_bracket(1) [OF q] by linarith
  then have "ilog2 ?q < 53 + k" by (simp only: powi_less_iff)
  then have e: "bin_exp ?q - 52 \<le> k" using q assms(2) by (simp add: bin_exp_def)
  then obtain j where j: "(2::rat) powi (k - (bin_exp ?q - 52)) = of_int j"
    using powi_nonneg_int [of "k - (bin_exp ?q - 52)"] by auto
  have "?q / 2 powi (bin_exp ?q - 52) = of_int (m * j)"
    by (simp add: j [symmetric] power_int_diff)
  then have "rnd64 ?q = of_int (m * j) * 2 powi (bin_exp ?q - 52)"
    using q by (simp add: rnd64_def Let_def del: of_int_mult)
  also have "\<dots> = ?q" by (simp add: j [symmetric] power_int_diff)
  finally show ?thesis .
qed

lemma rnd64_exact:
  assumes "\<bar>m\<bar> \<le> 2 ^ 53" "-1074 \<le> k"
  shows "rnd64 (of_int m * 2 powi k) = of_int m * 2 powi k"
proof -
  have pos: "rnd64 (of_int n * 2 powi k) = of_int n * 2 powi k" if n: "0 < n" "n \<le> 2 ^ 53" for n :: int
  proof (cases "n = 2 ^ 53")
    case False
    with n assms(2) show ?thesis by (intro rnd64_exact_lt) auto
  next
    case True
    have "of_int n * (2::rat) powi k = of_int (2 ^ 52) * 2 powi (k + 1)"
      by (simp add: True power_int_add)
    then show ?thesis using rnd64_exact_lt [of "2 ^ 52" "k + 1"] assms(2) by simp
  qed
  consider "0 < m" | "m = 0" | "m < 0" by linarith
  then show ?thesis
  proof cases
    case 1
    then show ?thesis using pos assms(1) by auto
  next
    case 3
    then have "rnd64 (- (of_int m * 2 powi k)) = - (of_int m * 2 powi k)"
      using pos [of "- m"] assms(1) by simp
    then show ?thesis by (simp only: rnd64_minus neg_equal_iff_equal)
  qed simp
qed

lemma rnd64_of_int: "\<bar>m\<bar> \<le> 2 ^ 53 \<Longrightarrow> rnd64 (of_int m) = of_int m"
  using rnd64_exact [of m 0] by simp

lemma rnd64_idem: "rnd64 (rnd64 q) = rnd64 q"
proof -
  have pos: "rnd64 (rnd64 q) = rnd64 q" if q: "0 < q" for q
  proof -
    let ?e = "bin_exp q - 52" and ?m = "round_half_even (q / 2 powi (bin_exp q - 52))"
    have r: "rnd64 q = of_int ?m * 2 powi ?e" using q by (simp add: rnd64_def Let_def)
    have "of_int ?m * 2 powi ?e \<le> 2 ^ 53 * (2::rat) powi ?e"
      using rnd64_upper [OF q] unfolding r by (simp add: powi_quantum(1) [of "bin_exp q"])
    then have "(of_int ?m :: rat) \<le> of_int (2 ^ 53)" by simp
    then have "?m \<le> 2 ^ 53" by (simp only: of_int_le_iff)
    moreover have "0 \<le> ?m"
      using rnd64_nonneg [of q] q unfolding r by (auto simp: zero_le_mult_iff)
    ultimately show ?thesis unfolding r
      using bin_exp_ge [of q] by (intro rnd64_exact) auto
  qed
  consider "0 < q" | "q = 0" | "q < 0" by linarith
  then show ?thesis
  proof cases
    case 3
    then show ?thesis using pos [of "- q"] by (simp add: rnd64_minus)
  qed (use pos in simp_all)
qed

lemma f64_not_NaN [simp]: "f64_of_rat q \<noteq> FNaN" "FNaN \<noteq> f64_of_rat q"
  by (simp_all add: f64_of_rat_def Let_def)

lemma f64_of_rat_is_f64: "is_f64 (f64_of_rat q)"
  by (auto simp: f64_of_rat_def Let_def rnd64_idem)

lemma f64_of_rat_id: "is_f64 (FFin q) \<Longrightarrow> f64_of_rat q = FFin q"
  by (auto simp: f64_of_rat_def Let_def)

lemma f_neg_is_f64: "is_f64 a \<Longrightarrow> is_f64 (f_neg a)"
  by (cases a) (auto simp: rnd64_minus)

lemma f_add_is_f64: "is_f64 a \<Longrightarrow> is_f64 b \<Longrightarrow> is_f64 (f_add a b)"
  by (auto simp: f_add_def f64_of_rat_is_f64)

lemma f_sub_is_f64: "is_f64 a \<Longrightarrow> is_f64 b \<Longrightarrow> is_f64 (f_sub a b)"
  by (simp add: f_sub_def f_add_is_f64 f_neg_is_f64)

lemma f_mul_is_f64: "is_f64 (f_mul a b)"
  by (auto simp: f_mul_def Let_def f64_of_rat_is_f64 f_zero_def)

lemma f_div_is_f64: "is_f64 (f_div a b)"
  by (auto simp: f_div_def Let_def f64_of_rat_is_f64 f_zero_def)

lemmas f_ops_is_f64 = f_neg_is_f64 f_add_is_f64 f_sub_is_f64 f_mul_is_f64 f_div_is_f64
  f64_of_rat_is_f64

subsection \<open>Small integers are exact\<close>

lemma f64_of_rat_int:
  assumes "\<bar>m\<bar> \<le> 2 ^ 53"
  shows "f64_of_rat (of_int m) = FFin (of_int m)"
proof -
  have "\<bar>of_int m :: rat\<bar> \<le> of_int (2 ^ 53)"
    using assms by (simp only: of_int_abs [symmetric] of_int_le_iff)
  also have "\<dots> < f64_bound" by (simp add: f64_bound_def)
  finally show ?thesis
    using rnd64_of_int [OF assms] by (simp add: f64_of_rat_def Let_def)
qed

lemma f64_of_rat_small [go_float]:
  "f64_of_rat 0 = FFin 0" "f64_of_rat 1 = FFin 1" "f64_of_rat (- 1) = FFin (- 1)"
  "numeral n \<le> (2::int) ^ 53 \<Longrightarrow> f64_of_rat (numeral n) = FFin (numeral n)"
  "numeral n \<le> (2::int) ^ 53 \<Longrightarrow> f64_of_rat (- numeral n) = FFin (- numeral n)"
  using f64_of_rat_int [of 0] f64_of_rat_int [of 1] f64_of_rat_int [of "- 1"]
    f64_of_rat_int [of "numeral n"] f64_of_rat_int [of "- numeral n"] by simp_all

lemma f_arith_Fin [go_float]:
  "f_add (FFin a) (FFin b) = f64_of_rat (a + b)"
  "f_sub (FFin a) (FFin b) = f64_of_rat (a - b)"
  "0 < a \<Longrightarrow> 0 < b \<Longrightarrow> f_mul (FFin a) (FFin b) = f64_of_rat (a * b)"
  "0 < a \<Longrightarrow> 0 < b \<Longrightarrow> f_div (FFin a) (FFin b) = f64_of_rat (a / b)"
  by (auto simp: f_add_def f_sub_def f_mul_def f_div_def Let_def)


text \<open>
  Results whose sign matters to the callers: a quotient or product of positive values is not
  negative, and a difference of ordered values is not negative.
\<close>

lemma f64_of_rat_nonneg:
  assumes "0 \<le> q"
  shows "\<not> f_lt (f64_of_rat q) f0"
  using rnd64_nonneg [OF assms] assms by (auto simp: f64_of_rat_def Let_def)

lemma f64_of_rat_mono:
  assumes "x \<le> y"
  shows "f_le (f64_of_rat x) (f64_of_rat y)"
proof -
  have m: "rnd64 x \<le> rnd64 y" by (rule rnd64_mono [OF assms])
  have sx: "0 \<le> x \<Longrightarrow> 0 \<le> rnd64 x" and sy: "y \<le> 0 \<Longrightarrow> rnd64 y \<le> 0"
    and sy': "0 \<le> y \<Longrightarrow> 0 \<le> rnd64 y" and sx': "x \<le> 0 \<Longrightarrow> rnd64 x \<le> 0"
    using rnd64_nonneg [of x] rnd64_nonneg [of "- y"] rnd64_nonneg [of y] rnd64_nonneg [of "- x"]
    by (simp_all add: rnd64_minus)
  show ?thesis
    using m assms sx sy sx' sy'
    by (cases "0 \<le> x"; cases "0 \<le> y")
       (auto simp: f64_of_rat_def Let_def f_le_def f_lt_def f_eq_def abs_if not_less)
qed

lemma f_sub_nonneg:
  assumes "f_le b a"
  shows "\<not> f_lt (f_sub a b) f0"
proof -
  have "\<not> f_lt (f64_of_rat (f_val a - f_val b)) f0" if "f_val b \<le> f_val a"
    using that by (intro f64_of_rat_nonneg) simp
  moreover have "\<not> f_lt (f64_of_rat (f_val a)) f0" if "0 \<le> f_val a"
    using that by (intro f64_of_rat_nonneg) simp
  ultimately show ?thesis
    using assms by (cases a; cases b) (auto simp: f_sub_def f_add_def f_le_def split: if_splits)
qed

subsection \<open>Differences of doubles\<close>

lemma rnd64_multiple: "\<exists>m. rnd64 q = of_int m * 2 powi (-1074)"
proof (cases "q = 0")
  case True
  then show ?thesis by (auto intro: exI [of _ 0])
next
  case False
  have "-1022 \<le> bin_exp q" by (simp add: bin_exp_def)
  then obtain j where "(2::rat) powi (bin_exp q + 1022) = of_int j"
    using powi_nonneg_int [of "bin_exp q + 1022"] by auto
  moreover have "bin_exp q - 52 = bin_exp q + 1022 + (-1074)" by simp
  then have "(2::rat) powi (bin_exp q - 52) = 2 powi (bin_exp q + 1022) * 2 powi (-1074)"
    by (simp only: powi_add [of "bin_exp q + 1022" "-1074"])
  ultimately have "rnd64 q = of_int (round_half_even (q / 2 powi (bin_exp q - 52)) * j) * 2 powi (-1074)"
    using False by (simp add: rnd64_def Let_def)
  then show ?thesis by blast
qed

lemma rnd64_diff_pos:
  assumes "rnd64 a = a" "rnd64 b = b" "b < a"
  shows "0 < rnd64 (a - b)"
proof -
  obtain m n where m: "a = of_int m * 2 powi (-1074)" and n: "b = of_int n * 2 powi (-1074)"
    using rnd64_multiple [of a] rnd64_multiple [of b] assms by auto
  then have d: "a - b = of_int (m - n) * 2 powi (-1074)" by (simp add: algebra_simps)
  with assms(3) have "0 < of_int (m - n) * (2::rat) powi (-1074)" by simp
  then have "1 \<le> m - n" by (simp add: zero_less_mult_iff)
  then have "of_int 1 * (2::rat) powi (-1074) \<le> a - b" unfolding d by (intro mult_right_mono) (simp_all only: of_int_le_iff, simp)
  then have "rnd64 (of_int 1 * 2 powi (-1074)) \<le> rnd64 (a - b)" by (rule rnd64_mono)
  moreover have "rnd64 (of_int 1 * 2 powi (-1074)) = of_int 1 * 2 powi (-1074)" by (rule rnd64_exact) simp_all
  moreover have "0 < of_int 1 * (2::rat) powi (-1074)" by (simp only: of_int_1 mult_1) (rule zero_less_power_int, simp)
  ultimately show ?thesis by linarith
qed

lemma f64_of_rat_diff_pos:
  assumes "rnd64 a = a" "rnd64 b = b" "b < a"
  shows "f_pos (f64_of_rat (a - b))" and "f_lt (f64_of_rat (b - a)) f0"
  using rnd64_diff_pos [OF assms] rnd64_minus [of "a - b"] assms(3) by (auto simp: f64_of_rat_def Let_def)

text \<open>Two doubles whose difference is neither positive nor negative are equal.\<close>

lemma f_sub_zero:
  assumes "f_is_fin a" "f_is_fin b" "is_f64 a" "is_f64 b" "\<not> f_lt (f_sub a b) f0" "\<not> f_pos (f_sub a b)"
  shows "f_eq a b"
proof -
  have vals: "rnd64 (f_val a) = f_val a" "rnd64 (f_val b) = f_val b"
    using assms(1-4) by (cases a; cases b; simp)+
  have "f_sub a b = f64_of_rat (f_val a - f_val b)" if "f_val a \<noteq> f_val b"
    using that assms(1,2) by (cases a; cases b) (auto simp: f_sub_def f_add_def)
  then have "f_val a = f_val b"
    using f64_of_rat_diff_pos [OF vals] f64_of_rat_diff_pos [OF vals(2,1)] assms(5,6) by (metis linorder_less_linear)
  with assms(1,2) show ?thesis by (cases a; cases b) auto
qed

subsection \<open>The linear order behind \<open>cmp.Compare\<close>\<close>

text \<open>
  \<open>cmp.Compare\<close> puts NaN below every number. The order below refines it to a linear order
  (negative zero just below zero), so that the library's sorting applies to prices.
\<close>

fun f_rank :: "float64 \<Rightarrow> int \<times> rat \<times> int" where
  "f_rank FNaN = (-2, 0, 0)"
| "f_rank (FInf s) = (if s then -1 else 1, 0, 0)"
| "f_rank FNegZero = (0, 0, 0)"
| "f_rank (FFin q) = (0, q, 1)"

instantiation float64 :: linorder
begin

definition less_float64 :: "float64 \<Rightarrow> float64 \<Rightarrow> bool" where
  "less_float64 a b \<longleftrightarrow>
     (let (s, x, i) = f_rank a; (t, y, j) = f_rank b in
      s < t \<or> (s = t \<and> (x < y \<or> (x = y \<and> i < j))))"

definition less_eq_float64 :: "float64 \<Rightarrow> float64 \<Rightarrow> bool" where
  "less_eq_float64 a b \<longleftrightarrow> a < b \<or> a = b"

instance
proof
  fix x y z :: float64
  show "x < y \<longleftrightarrow> x \<le> y \<and> \<not> y \<le> x"
    by (auto simp: less_eq_float64_def less_float64_def Let_def split: prod.splits)
  show "x \<le> x" by (simp add: less_eq_float64_def)
  show "x \<le> y \<Longrightarrow> y \<le> z \<Longrightarrow> x \<le> z"
    by (auto simp: less_eq_float64_def less_float64_def Let_def split: prod.splits)
  show "x \<le> y \<Longrightarrow> y \<le> x \<Longrightarrow> x = y"
    by (auto simp: less_eq_float64_def less_float64_def Let_def split: prod.splits)
  show "x \<le> y \<or> y \<le> x"
    by (cases x; cases y)
       (auto simp: less_eq_float64_def less_float64_def Let_def split: prod.splits)
qed

end

lemma less_float64_f_lt: "f_pos a \<Longrightarrow> f_pos b \<Longrightarrow> a < b \<longleftrightarrow> f_lt a b"
  by (cases a; cases b) (auto simp: less_float64_def)

text \<open>
  Go's conversion of a float64 to an int64: truncation towards zero; a value that does not
  fit (or NaN) gives the least int64, as on amd64.
\<close>

definition f_to_i64 :: "float64 \<Rightarrow> int" where
  "f_to_i64 x = (case x of
     FFin q \<Rightarrow> (let t = (if 0 \<le> q then floor q else ceiling q)
                in if - (2 ^ 63) \<le> t \<and> t < 2 ^ 63 then t else - (2 ^ 63))
   | FNegZero \<Rightarrow> 0
   | _ \<Rightarrow> - (2 ^ 63))"

end
