(* ===== verification/DecMath.thy ===== *)
theory DecMath
  imports Float64
begin

text \<open>
  \<open>pkg/decmath/decmath.go\<close>: decimal arithmetic at float64 boundaries. The decimal type is
  the third-party package \<open>shopspring/decimal\<close>: it is the parameter \<open>'d dec_lib\<close> (the
  operations the source calls), and the locale \<open>decimal_lib\<close> states the documented laws
  through the rational value \<open>dval\<close> of a decimal: exact sum, difference and product,
  quotient rounded to 16 places, floor, ceiling, rounding half away from zero, and a
  reliable round trip with float64. A scale is converted to \<open>int32\<close> (\<open>i32\<close>). \<open>NewFromFloat\<close> panics on NaN and infinities: every
  function that converts returns an option, and None is that panic. \<open>exact_dec\<close> is an
  instance over the rationals.
\<close>

record 'd dec_lib =
  NewFromFloat :: "float64 \<Rightarrow> 'd option"
  InexactFloat64 :: "'d \<Rightarrow> float64"
  dec_New :: "int \<Rightarrow> int \<Rightarrow> 'd"
  dec_Add :: "'d \<Rightarrow> 'd \<Rightarrow> 'd"
  dec_Sub :: "'d \<Rightarrow> 'd \<Rightarrow> 'd"
  dec_Mul :: "'d \<Rightarrow> 'd \<Rightarrow> 'd"
  dec_Div :: "'d \<Rightarrow> 'd \<Rightarrow> 'd"
  dec_Floor :: "'d \<Rightarrow> 'd"
  dec_Ceil :: "'d \<Rightarrow> 'd"
  dec_Round :: "'d \<Rightarrow> int \<Rightarrow> 'd"
  dec_IsZero :: "'d \<Rightarrow> bool"
  dec_Equal :: "'d \<Rightarrow> 'd \<Rightarrow> bool"
  dec_GreaterThan :: "'d \<Rightarrow> 'd \<Rightarrow> bool"
  dec_LessThan :: "'d \<Rightarrow> 'd \<Rightarrow> bool"

subsection \<open>Decimal operations\<close>

definition RoundDecimalToScale :: "'d dec_lib \<Rightarrow> 'd \<Rightarrow> int \<Rightarrow> 'd" where
  "RoundDecimalToScale L v scale = dec_Round L v (i32 scale)"

definition FloorDecimalToScale :: "'d dec_lib \<Rightarrow> 'd \<Rightarrow> int \<Rightarrow> 'd" where
  "FloorDecimalToScale L v scale =
     (let p = dec_New L 1 (i32 scale) in dec_Div L (dec_Floor L (dec_Mul L v p)) p)"

definition CeilDecimalToScale :: "'d dec_lib \<Rightarrow> 'd \<Rightarrow> int \<Rightarrow> 'd" where
  "CeilDecimalToScale L v scale =
     (let p = dec_New L 1 (i32 scale) in dec_Div L (dec_Ceil L (dec_Mul L v p)) p)"

definition SnapDecimalToTickFloor :: "'d dec_lib \<Rightarrow> 'd \<Rightarrow> 'd \<Rightarrow> 'd" where
  "SnapDecimalToTickFloor L price tick =
     (if dec_IsZero L tick then price
      else dec_Mul L (dec_Floor L (dec_Div L price tick)) tick)"

definition SnapDecimalToTickCeil :: "'d dec_lib \<Rightarrow> 'd \<Rightarrow> 'd \<Rightarrow> 'd" where
  "SnapDecimalToTickCeil L price tick =
     (if dec_IsZero L tick then price
      else dec_Mul L (dec_Ceil L (dec_Div L price tick)) tick)"

definition DivDecimal :: "'d dec_lib \<Rightarrow> 'd \<Rightarrow> 'd \<Rightarrow> 'd" where
  "DivDecimal L a b = (if dec_IsZero L b then dec_New L 0 1 else dec_Div L a b)"

definition RatioToPercent :: "'d dec_lib \<Rightarrow> 'd \<Rightarrow> 'd" where
  "RatioToPercent L v = dec_Mul L v (dec_New L 100 0)"

definition PercentToRatio :: "'d dec_lib \<Rightarrow> 'd \<Rightarrow> 'd" where
  "PercentToRatio L v = dec_Div L v (dec_New L 100 0)"

subsection \<open>Float boundary\<close>

text \<open>\<open>FromFloat\<close> on one or two operands; None is the panic of \<open>NewFromFloat\<close>.\<close>

definition on_dec1 :: "'d dec_lib \<Rightarrow> ('d \<Rightarrow> 'r) \<Rightarrow> float64 \<Rightarrow> 'r option" where
  "on_dec1 L f v = map_option f (NewFromFloat L v)"

definition on_dec2 :: "'d dec_lib \<Rightarrow> ('d \<Rightarrow> 'd \<Rightarrow> 'r) \<Rightarrow> float64 \<Rightarrow> float64 \<Rightarrow> 'r option" where
  "on_dec2 L f a b = (case NewFromFloat L a of None \<Rightarrow> None
     | Some x \<Rightarrow> map_option (f x) (NewFromFloat L b))"

definition ToFloat :: "'d dec_lib \<Rightarrow> 'd \<Rightarrow> float64" where
  "ToFloat L v = InexactFloat64 L v"

definition RoundToScale :: "'d dec_lib \<Rightarrow> float64 \<Rightarrow> int \<Rightarrow> float64 option" where
  "RoundToScale L v scale = on_dec1 L (\<lambda>d. ToFloat L (RoundDecimalToScale L d scale)) v"

definition FloorToScale :: "'d dec_lib \<Rightarrow> float64 \<Rightarrow> int \<Rightarrow> float64 option" where
  "FloorToScale L v scale = on_dec1 L (\<lambda>d. ToFloat L (FloorDecimalToScale L d scale)) v"

definition CeilToScale :: "'d dec_lib \<Rightarrow> float64 \<Rightarrow> int \<Rightarrow> float64 option" where
  "CeilToScale L v scale = on_dec1 L (\<lambda>d. ToFloat L (CeilDecimalToScale L d scale)) v"

definition SnapToTickFloor :: "'d dec_lib \<Rightarrow> float64 \<Rightarrow> float64 \<Rightarrow> float64 option" where
  "SnapToTickFloor L = on_dec2 L (\<lambda>p t. ToFloat L (SnapDecimalToTickFloor L p t))"

definition SnapToTickCeil :: "'d dec_lib \<Rightarrow> float64 \<Rightarrow> float64 \<Rightarrow> float64 option" where
  "SnapToTickCeil L = on_dec2 L (\<lambda>p t. ToFloat L (SnapDecimalToTickCeil L p t))"

definition Mul :: "'d dec_lib \<Rightarrow> float64 \<Rightarrow> float64 \<Rightarrow> float64 option" where
  "Mul L = on_dec2 L (\<lambda>x y. ToFloat L (dec_Mul L x y))"

definition Div :: "'d dec_lib \<Rightarrow> float64 \<Rightarrow> float64 \<Rightarrow> float64 option" where
  "Div L = on_dec2 L (\<lambda>x y. ToFloat L (DivDecimal L x y))"

definition Add :: "'d dec_lib \<Rightarrow> float64 \<Rightarrow> float64 \<Rightarrow> float64 option" where
  "Add L = on_dec2 L (\<lambda>x y. ToFloat L (dec_Add L x y))"

definition Sub :: "'d dec_lib \<Rightarrow> float64 \<Rightarrow> float64 \<Rightarrow> float64 option" where
  "Sub L = on_dec2 L (\<lambda>x y. ToFloat L (dec_Sub L x y))"

definition Equal :: "'d dec_lib \<Rightarrow> float64 \<Rightarrow> float64 \<Rightarrow> bool option" where
  "Equal L = on_dec2 L (dec_Equal L)"

definition GreaterThan :: "'d dec_lib \<Rightarrow> float64 \<Rightarrow> float64 \<Rightarrow> bool option" where
  "GreaterThan L = on_dec2 L (dec_GreaterThan L)"

definition LessThan :: "'d dec_lib \<Rightarrow> float64 \<Rightarrow> float64 \<Rightarrow> bool option" where
  "LessThan L = on_dec2 L (dec_LessThan L)"

definition SignedTradingFee :: "float64 \<Rightarrow> float64" where
  "SignedTradingFee v = (if f_pos v then f_neg v else v)"

definition ClosedNetProfit :: "'d dec_lib \<Rightarrow> float64 \<Rightarrow> float64 \<Rightarrow> float64 option" where
  "ClosedNetProfit L profit fee = Add L profit (SignedTradingFee fee)"

definition CalcSpreadPct :: "'d dec_lib \<Rightarrow> float64 \<Rightarrow> float64 \<Rightarrow> float64 option" where
  "CalcSpreadPct L bestBid bestAsk =
     (if f_le bestBid f0 then Some f0
      else Option.bind (Sub L bestAsk bestBid) (\<lambda>d.
        Option.bind (Div L d bestBid) (\<lambda>r. Mul L r (FFin 100))))"

definition AbsInt64 :: "int \<Rightarrow> int" where
  "AbsInt64 v = (if v < 0 then i64 (- v) else v)"

definition TakeDecimalPlaces :: "'d dec_lib \<Rightarrow> float64 \<Rightarrow> int \<Rightarrow> float64 option" where
  "TakeDecimalPlaces L v scale = RoundToScale L v scale"

text \<open>\<open>strings.Split(s, ".")\<close>, of which \<open>DecimalPlaces\<close> reads the second part.\<close>

fun split_on :: "char \<Rightarrow> string \<Rightarrow> string list" where
  "split_on c [] = [[]]"
| "split_on c (x # xs) = (if x = c then [] # split_on c xs
     else (case split_on c xs of [] \<Rightarrow> [[x]] | p # ps \<Rightarrow> (x # p) # ps))"

definition DecimalPlaces :: "string \<Rightarrow> nat" where
  "DecimalPlaces s = (case split_on (CHR ''.'') s of
     _ # p # _ \<Rightarrow> length p | _ \<Rightarrow> 0)"

subsection \<open>The laws of the decimal package\<close>

definition round_half_away :: "rat \<Rightarrow> int" where
  "round_half_away x = (if 0 \<le> x then \<lfloor>x + 1 / 2\<rfloor> else - \<lfloor>- x + 1 / 2\<rfloor>)"

definition round_places :: "rat \<Rightarrow> int \<Rightarrow> rat" where
  "round_places x n = of_int (round_half_away (x * 10 powi n)) / 10 powi n"

lemma floor_half_near: "\<bar>of_int \<lfloor>y + 1 / 2\<rfloor> - (y::rat)\<bar> \<le> 1 / 2"
  using of_int_floor_le [of "y + 1 / 2"] floor_correct [of "y + 1 / 2"] by linarith

lemma round_half_away_near: "\<bar>of_int (round_half_away x) - x\<bar> \<le> 1 / 2"
proof (cases "0 \<le> x")
  case True
  then show ?thesis using floor_half_near [of x] by (simp add: round_half_away_def)
next
  case False
  then have "of_int (round_half_away x) - x = - (of_int \<lfloor>- x + 1 / 2\<rfloor> - (- x))"
    by (simp add: round_half_away_def)
  then show ?thesis using floor_half_near [of "- x"] by (simp only: abs_minus_cancel)
qed

lemma round_half_away_of_int [simp]: "round_half_away (of_int n) = n"
proof -
  have "\<bar>of_int (round_half_away (of_int n)) - (of_int n :: rat)\<bar> \<le> 1 / 2"
    by (rule round_half_away_near)
  then have "\<bar>of_int (round_half_away (of_int n) - n) :: rat\<bar> < of_int 1"
    by simp
  then have "\<bar>round_half_away (of_int n) - n\<bar> < 1"
    by (simp only: of_int_abs [symmetric] of_int_less_iff)
  then show ?thesis by simp
qed

lemma round_places_near: "\<bar>round_places x n - x\<bar> \<le> 1 / (2 * 10 powi n)"
proof -
  have p: "(0::rat) < 10 powi n" by simp
  have "round_places x n - x = (of_int (round_half_away (x * 10 powi n)) - x * 10 powi n) / 10 powi n"
    using p by (simp add: round_places_def field_simps)
  then have "\<bar>round_places x n - x\<bar>
      = \<bar>of_int (round_half_away (x * 10 powi n)) - x * 10 powi n\<bar> / 10 powi n"
    using p by (simp add: abs_divide)
  also have "\<dots> \<le> (1 / 2) / 10 powi n"
    using round_half_away_near p by (intro divide_right_mono) auto
  finally show ?thesis by simp
qed

lemma round_places_idem: "round_places (round_places x n) n = round_places x n"
  by (simp add: round_places_def)


lemma round_places_of_int: "round_places (of_int n) 16 = of_int n"
proof -
  have "round_half_away (of_int (n * 10 ^ 16)) = n * 10 ^ 16"
    by (rule round_half_away_of_int)
  then show ?thesis by (simp add: round_places_def)
qed

locale decimal_lib =
  fixes L :: "'d dec_lib" and dval :: "'d \<Rightarrow> rat"
  assumes from_float: "f_is_fin x \<Longrightarrow> \<exists>d. NewFromFloat L x = Some d"
    and from_float_panics: "\<not> f_is_fin x \<Longrightarrow> NewFromFloat L x = None"
    and from_float_round_trip: "NewFromFloat L x = Some d \<Longrightarrow> is_f64 x \<Longrightarrow>
      f64_of_rat (dval d) = (if x = FNegZero then FFin 0 else x)"
    and to_float: "InexactFloat64 L d = f64_of_rat (dval d)"
    and dval_New: "dval (dec_New L m e) = of_int m * 10 powi e"
    and dval_Add: "dval (dec_Add L a b) = dval a + dval b"
    and dval_Sub: "dval (dec_Sub L a b) = dval a - dval b"
    and dval_Mul: "dval (dec_Mul L a b) = dval a * dval b"
    and dval_Div: "dval b \<noteq> 0 \<Longrightarrow> dval (dec_Div L a b) = round_places (dval a / dval b) 16"
    and dval_Floor: "dval (dec_Floor L a) = of_int \<lfloor>dval a\<rfloor>"
    and dval_Ceil: "dval (dec_Ceil L a) = of_int \<lceil>dval a\<rceil>"
    and dval_Round: "dval (dec_Round L a n) = round_places (dval a) n"
    and dval_IsZero: "dec_IsZero L a \<longleftrightarrow> dval a = 0"
    and dval_Equal: "dec_Equal L a b \<longleftrightarrow> dval a = dval b"
    and dval_GreaterThan: "dec_GreaterThan L a b \<longleftrightarrow> dval b < dval a"
    and dval_LessThan: "dec_LessThan L a b \<longleftrightarrow> dval a < dval b"
begin

lemmas dvals = dval_New dval_Add dval_Sub dval_Mul dval_Floor dval_Ceil dval_Round
  dval_IsZero dval_Equal dval_GreaterThan dval_LessThan

lemma on_dec1_None: "on_dec1 L f v = None \<longleftrightarrow> \<not> f_is_fin v"
  using from_float [of v] from_float_panics [of v] by (auto simp: on_dec1_def)

lemma on_dec2_None: "on_dec2 L f a b = None \<longleftrightarrow> \<not> f_is_fin a \<or> \<not> f_is_fin b"
  using from_float [of a] from_float_panics [of a] from_float [of b] from_float_panics [of b]
  by (auto simp: on_dec2_def split: option.splits)

lemma ToFloat_is_f64: "is_f64 (ToFloat L d)"
  by (simp add: ToFloat_def to_float f64_of_rat_is_f64)

lemma from_float_value: "f_is_fin x \<Longrightarrow> is_f64 x \<Longrightarrow>
    \<exists>d. NewFromFloat L x = Some d \<and> f64_of_rat (dval d) = (if x = FNegZero then FFin 0 else x)"
  using from_float from_float_round_trip by blast

lemma quotient_error:
  assumes "0 < dval t"
  shows "\<bar>dval (dec_Div L p t) - dval p / dval t\<bar> \<le> 1 / (2 * 10 ^ 16)"
  using assms round_places_near [of "dval p / dval t" 16] by (simp add: dval_Div)

lemma snap_floor_bounds:
  assumes t: "0 < dval t"
  shows "\<exists>n. dval (SnapDecimalToTickFloor L p t) = of_int n * dval t"
    and "dval (SnapDecimalToTickFloor L p t) \<le> dval p + dval t / (2 * 10 ^ 16)"
    and "dval p - dval t - dval t / (2 * 10 ^ 16) < dval (SnapDecimalToTickFloor L p t)"
proof -
  let ?q = "dval (dec_Div L p t)"
  have v: "dval (SnapDecimalToTickFloor L p t) = of_int \<lfloor>?q\<rfloor> * dval t"
    using t by (simp add: SnapDecimalToTickFloor_def dvals)
  then show "\<exists>n. dval (SnapDecimalToTickFloor L p t) = of_int n * dval t" by blast
  have fl: "of_int \<lfloor>?q\<rfloor> \<le> ?q" "?q - 1 < of_int \<lfloor>?q\<rfloor>"
    using floor_correct [of ?q] by auto
  note e = quotient_error [OF t, of p]
  have "of_int \<lfloor>?q\<rfloor> * dval t \<le> (dval p / dval t + 1 / (2 * 10 ^ 16)) * dval t"
    using fl(1) e t by (intro mult_right_mono) linarith+
  also have "\<dots> = dval p + dval t / (2 * 10 ^ 16)" using t by (simp add: field_simps)
  finally show "dval (SnapDecimalToTickFloor L p t) \<le> dval p + dval t / (2 * 10 ^ 16)"
    by (simp only: v)
  have "dval p - dval t - dval t / (2 * 10 ^ 16) = (dval p / dval t - 1 - 1 / (2 * 10 ^ 16)) * dval t"
    using t by (simp add: field_simps)
  also have "\<dots> < of_int \<lfloor>?q\<rfloor> * dval t"
    using fl(2) e t by (intro mult_strict_right_mono) linarith+
  finally show "dval p - dval t - dval t / (2 * 10 ^ 16) < dval (SnapDecimalToTickFloor L p t)"
    by (simp only: v)
qed

lemma snap_floor_multiple:
  assumes t: "0 < dval t" and p: "dval p = of_int n * dval t"
  shows "dval (SnapDecimalToTickFloor L p t) = dval p"
  using t p by (simp add: SnapDecimalToTickFloor_def dvals dval_Div round_places_of_int)

lemma snap_ceil_multiple:
  assumes t: "0 < dval t" and p: "dval p = of_int n * dval t"
  shows "dval (SnapDecimalToTickCeil L p t) = dval p"
  using t p by (simp add: SnapDecimalToTickCeil_def dvals dval_Div round_places_of_int)

lemma snap_floor_snap_floor:
  assumes t: "0 < dval t"
  shows "dval (SnapDecimalToTickFloor L (SnapDecimalToTickFloor L p t) t)
    = dval (SnapDecimalToTickFloor L p t)"
  using snap_floor_bounds(1) [OF t, of p] snap_floor_multiple [OF t] by blast

end

text \<open>The rationals as decimals: the instance of the parameter used by the witnesses.\<close>

definition exact_dec :: "rat dec_lib" where
  "exact_dec = \<lparr>
     NewFromFloat = (\<lambda>x. case x of FFin q \<Rightarrow> Some q | FNegZero \<Rightarrow> Some 0 | _ \<Rightarrow> None),
     InexactFloat64 = f64_of_rat,
     dec_New = (\<lambda>m e. of_int m * 10 powi e),
     dec_Add = (+), dec_Sub = (-), dec_Mul = (*),
     dec_Div = (\<lambda>a b. round_places (a / b) 16),
     dec_Floor = (\<lambda>a. of_int \<lfloor>a\<rfloor>), dec_Ceil = (\<lambda>a. of_int \<lceil>a\<rceil>),
     dec_Round = round_places,
     dec_IsZero = (\<lambda>a. a = 0), dec_Equal = (=),
     dec_GreaterThan = (\<lambda>a b. b < a), dec_LessThan = (\<lambda>a b. a < b)\<rparr>"

interpretation exact: decimal_lib exact_dec "\<lambda>q. q"
proof
  fix x :: float64
  show "f_is_fin x \<Longrightarrow> \<exists>d. NewFromFloat exact_dec x = Some d"
    by (cases x) (auto simp: exact_dec_def)
  show "\<not> f_is_fin x \<Longrightarrow> NewFromFloat exact_dec x = None"
    by (cases x) (auto simp: exact_dec_def)
  fix d :: rat
  show "NewFromFloat exact_dec x = Some d \<Longrightarrow> is_f64 x \<Longrightarrow>
      f64_of_rat d = (if x = FNegZero then FFin 0 else x)"
    by (cases x) (auto simp: exact_dec_def f64_of_rat_id go_float)
qed (simp_all add: exact_dec_def)

lemmas exact_decimal_lib = exact.decimal_lib_axioms

end
