(* ===== verification/Domain.thy ===== *)
theory Domain
  imports Float64 GoStrings
begin

text \<open>
  \<open>internal/domain/types.go\<close> and the data types of
  \<open>internal/infrastructure/exchange/types.go\<close> the trading core passes around: trade
  sides with their parser and labels, order states, order books and public trades, and the
  exchange request and position records. A Go integer enum is a datatype with the declared
  constants and one constructor for every other integer.
\<close>

subsection \<open>Side\<close>

datatype Side = SideUnknown | SideOpenLong | SideCloseShort | SideOpenShort | SideCloseLong
  | SideOther int

fun side_code :: "Side \<Rightarrow> int" where
  "side_code SideUnknown = 0"
| "side_code SideOpenLong = 1"
| "side_code SideCloseShort = 2"
| "side_code SideOpenShort = 3"
| "side_code SideCloseLong = 4"
| "side_code (SideOther n) = n"

definition side_of_code :: "int \<Rightarrow> Side" where
  "side_of_code n =
     (if n = 0 then SideUnknown else if n = 1 then SideOpenLong
      else if n = 2 then SideCloseShort else if n = 3 then SideOpenShort
      else if n = 4 then SideCloseLong else SideOther n)"

definition IsLong :: "Side \<Rightarrow> bool" where
  "IsLong s \<longleftrightarrow> s = SideOpenLong \<or> s = SideCloseLong"

definition IsShort :: "Side \<Rightarrow> bool" where
  "IsShort s \<longleftrightarrow> s = SideOpenShort \<or> s = SideCloseShort"

definition IsClose :: "Side \<Rightarrow> bool" where
  "IsClose s \<longleftrightarrow> s = SideCloseLong \<or> s = SideCloseShort"

definition IsOpen :: "Side \<Rightarrow> bool" where
  "IsOpen s \<longleftrightarrow> s = SideOpenLong \<or> s = SideOpenShort"

fun Opposite :: "Side \<Rightarrow> Side" where
  "Opposite SideOpenLong = SideOpenShort"
| "Opposite SideOpenShort = SideOpenLong"
| "Opposite SideCloseLong = SideCloseShort"
| "Opposite SideCloseShort = SideCloseLong"
| "Opposite s = s"

definition CloseSideFor :: "Side \<Rightarrow> Side" where
  "CloseSideFor openSide = (if openSide = SideOpenLong then SideCloseLong else SideCloseShort)"

fun side_String :: "Side \<Rightarrow> string" where
  "side_String SideUnknown = ''UNKNOWN''"
| "side_String SideOpenLong = ''LONG''"
| "side_String SideOpenShort = ''SHORT''"
| "side_String SideCloseShort = ''CLOSE_SHORT''"
| "side_String SideCloseLong = ''CLOSE_LONG''"
| "side_String (SideOther _) = ''UNKNOWN''"

fun side_IsValid :: "Side \<Rightarrow> bool" where
  "side_IsValid (SideOther _) = False"
| "side_IsValid _ = True"

definition sideByString :: "string \<rightharpoonup> Side" where
  "sideByString = map_of [(''UNKNOWN'', SideUnknown), (''LONG'', SideOpenLong),
     (''OPEN_LONG'', SideOpenLong), (''CLOSE_SHORT'', SideCloseShort),
     (''SHORT'', SideOpenShort), (''OPEN_SHORT'', SideOpenShort),
     (''CLOSE_LONG'', SideCloseLong)]"

datatype side_error = SideEmpty | SideInvalidCode int | SideInvalidLabel string

definition ParseSide :: "string \<Rightarrow> side_error + Side" where
  "ParseSide value =
     (let normalized = to_upper (trim_space value) in
      if normalized = '''' then Inl SideEmpty
      else case atoi normalized of
        Some numeric \<Rightarrow>
          (let side = side_of_code numeric in
           if side_IsValid side then Inr side else Inl (SideInvalidCode numeric))
      | None \<Rightarrow>
          (case sideByString normalized of
             None \<Rightarrow> Inl (SideInvalidLabel value) | Some side \<Rightarrow> Inr side))"

definition side_MarshalJSON :: "Side \<Rightarrow> side_error + string" where
  "side_MarshalJSON s =
     (if \<not> side_IsValid s then Inl (SideInvalidCode (side_code s)) else Inr (side_String s))"

datatype db_value = DbNil | DbString string | DbInt int | DbOther

definition side_Scan :: "db_value \<Rightarrow> side_error option + Side" where
  "side_Scan v = (case v of
     DbNil \<Rightarrow> Inr SideUnknown
   | DbString t \<Rightarrow> (case ParseSide t of Inl e \<Rightarrow> Inl (Some e) | Inr s \<Rightarrow> Inr s)
   | DbInt n \<Rightarrow> Inr (side_of_code n)
   | DbOther \<Rightarrow> Inl None)"

lemma side_of_code_inverse: "side_IsValid s \<Longrightarrow> side_of_code (side_code s) = s"
  by (cases s) (simp_all add: side_of_code_def)

lemma side_code_inverse: "side_code (side_of_code n) = n"
  by (simp add: side_of_code_def)

lemma side_dir_cases: "side_IsValid s \<Longrightarrow> s = SideUnknown \<or> IsLong s \<noteq> IsShort s"
  by (cases s) (simp_all add: IsLong_def IsShort_def)

subsection \<open>Order state, order type, margin and position mode\<close>

datatype OrderState = OrderStateNew | OrderStatePartiallyFilled | OrderStateFilled
  | OrderStateCanceled | OrderStatePartial | OrderStateUntriggered | OrderStateOther int

definition IsNotFilledOrderState :: "OrderState \<Rightarrow> bool" where
  "IsNotFilledOrderState s \<longleftrightarrow>
     s = OrderStateNew \<or> s = OrderStateCanceled \<or> s = OrderStateUntriggered"

definition IsTerminalOrderState :: "OrderState \<Rightarrow> bool" where
  "IsTerminalOrderState s \<longleftrightarrow>
     s = OrderStateFilled \<or> s = OrderStateCanceled \<or> s = OrderStatePartial"

datatype ExOrderType = ExLimit | ExPostOnly | ExIOC | ExFOK | ExMarket

datatype OpenType = OpenTypeIsolated | OpenTypeCross

type_synonym MarginMode = string
type_synonym PositionMode = int

abbreviation MarginModeIsolated :: MarginMode where "MarginModeIsolated \<equiv> ''ISOLATED''"
abbreviation MarginModeCross :: MarginMode where "MarginModeCross \<equiv> ''CROSS''"
abbreviation PositionModeHedge :: PositionMode where "PositionModeHedge \<equiv> 1"
abbreviation PositionModeOneWay :: PositionMode where "PositionModeOneWay \<equiv> 2"

datatype PositionType = PositionTypeUnknown | PositionTypeLong | PositionTypeShort

subsection \<open>Market data\<close>

record OrderBookEntry =
  Price :: float64
  Volume :: float64

record OrderBook =
  ob_Symbol :: string
  FirstVersion :: int
  Version :: int
  ob_Timestamp :: gtime
  Asks :: "OrderBookEntry list"
  Bids :: "OrderBookEntry list"

record PublicTrade =
  pt_Symbol :: string
  pt_Price :: float64
  pt_Volume :: float64
  pt_Side :: Side
  pt_Timestamp :: gtime

record DepthCommit =
  dc_Version :: int
  dc_Asks :: "OrderBookEntry list"
  dc_Bids :: "OrderBookEntry list"

subsection \<open>Exchange requests and answers\<close>

record SubmitOrderRequest =
  so_Symbol :: string
  so_Price :: float64
  so_Vol :: float64
  so_Leverage :: int
  so_Side :: Side
  so_Type :: ExOrderType
  so_OpenType :: OpenType
  so_ExternalOID :: string
  so_PositionID :: int
  so_PositionMode :: PositionMode
  so_ReduceOnly :: bool
  so_FlashClose :: bool
  so_StopLossPrice :: float64
  so_TakeProfitPrice :: float64
  so_SkipRateLimit :: bool

record ChangeLeverageRequest =
  cl_Symbol :: string
  cl_Leverage :: int
  cl_OpenType :: "OpenType option"
  cl_PositionType :: PositionType

record TPSLRequest =
  tr_Symbol :: string
  tr_PositionMode :: PositionMode
  tr_Side :: Side
  tr_OpenType :: OpenType
  tr_TakeProfitPrice :: float64
  tr_StopLossPrice :: float64
  tr_Volume :: float64

record CreateOrderResult =
  cr_OrderID :: string
  cr_TPSLSubmitted :: bool
  cr_Time :: gtime

record OrderInfo =
  oi_OrderID :: string
  oi_Symbol :: string
  oi_Price :: float64
  oi_Vol :: float64
  oi_DealAvgPrice :: float64
  oi_DealVol :: float64
  oi_State :: OrderState
  oi_ExternalOID :: string
  oi_Side :: Side
  oi_PositionMode :: PositionMode
  oi_CreateTime :: int
  oi_UpdateTime :: int

record Position =
  po_Symbol :: string
  po_HoldVolContract :: float64
  po_HoldVolCoin :: float64
  po_RawHoldVol :: float64
  po_PositionType :: PositionType
  po_OpenAvgPrice :: float64
  po_HoldAvgPrice :: float64
  po_CloseAvgPrice :: float64
  po_CloseProfitLoss :: float64
  po_Fee :: float64
  po_HoldFee :: float64
  po_Leverage :: int

record PersonalPositionUpdate =
  pu_Symbol :: string
  pu_HoldVolContract :: float64
  pu_HoldVolCoin :: float64
  pu_PositionType :: PositionType
  pu_OpenAvgPrice :: float64
  pu_HoldAvgPrice :: float64
  pu_CloseVolContract :: float64
  pu_CloseVolCoin :: float64
  pu_CloseAvgPrice :: float64
  pu_CloseProfitLoss :: float64
  pu_Fee :: float64
  pu_HoldFee :: float64
  pu_Leverage :: int
  pu_LiquidatePrice :: float64
  pu_UpdateTime :: int

record ClosedPnLInfo =
  ci_Exchange :: string
  ci_Symbol :: string
  ci_Status :: OrderState
  ci_EntryPrice :: float64
  ci_ExitPrice :: float64
  ci_ClosedSizeContract :: "float64 option"
  ci_ClosedSizeCoin :: "float64 option"
  ci_GrossPnL :: float64
  ci_Fee :: float64
  ci_FundingFee :: float64
  ci_DurationMs :: int
  ci_NetPnl :: float64
  ci_PnLRate :: float64

end
