(* ===== verification/LocalOrderBook.thy ===== *)
theory LocalOrderBook
  imports Domain
begin

text \<open>
  \<open>internal/infrastructure/store/orderbook/local_orderbook.go\<close>: the in-memory level-2
  book of one symbol. A Go \<open>map[float64]float64\<close> is the list of its entries; a key is
  found by \<open>==\<close> on float64, so the two zeros are one key and NaN never matches. The book
  caches its best bid and best ask: \<open>side_ok\<close> says the cache is the extreme price of the
  side, \<open>book_inv\<close> that both caches are right, and every operation keeps it. Updates are
  related to a map from prices to volumes by \<open>level_get\<close>.
\<close>

type_synonym levels = "(float64 \<times> float64) list"

definition level_del :: "float64 \<Rightarrow> levels \<Rightarrow> levels" where
  "level_del p m = filter (\<lambda>(k, _). \<not> f_eq k p) m"

fun level_put :: "float64 \<Rightarrow> float64 \<Rightarrow> levels \<Rightarrow> levels" where
  "level_put p v [] = [(p, v)]"
| "level_put p v ((k, w) # m) = (if f_eq k p then (k, v) # m else (k, w) # level_put p v m)"

definition level_get :: "levels \<Rightarrow> float64 \<Rightarrow> float64 option" where
  "level_get m p = map_option snd (find (\<lambda>(k, _). f_eq k p) m)"

record local_book =
  lb_symbol :: string
  lb_bids :: levels
  lb_asks :: levels
  bestBid :: float64
  bestAsk :: float64
  lb_version :: int
  lastUpdatedAt :: gtime

definition NewLocalOrderBook :: "string \<Rightarrow> gtime \<Rightarrow> local_book" where
  "NewLocalOrderBook symbol now =
     \<lparr>lb_symbol = symbol, lb_bids = [], lb_asks = [], bestBid = f0, bestAsk = f0,
      lb_version = 0, lastUpdatedAt = now\<rparr>"

definition isBetterPrice :: "float64 \<Rightarrow> float64 \<Rightarrow> bool \<Rightarrow> bool" where
  "isBetterPrice p best isBid =
     (if f_eq best f0 then True else if isBid then f_lt best p else f_lt p best)"

definition findBestPrice :: "levels \<Rightarrow> bool \<Rightarrow> float64" where
  "findBestPrice bookMap isBid =
     foldl (\<lambda>best (p, _). if isBetterPrice p best isBid then p else best) f0 bookMap"

text \<open>One entry of \<open>LoadSnapshot\<close>'s loops; \<open>isBid\<close> picks the comparison.\<close>

definition load_entry :: "bool \<Rightarrow> levels \<times> float64 \<Rightarrow> OrderBookEntry \<Rightarrow> levels \<times> float64" where
  "load_entry isBid = (\<lambda>(m, best) e.
     if f_pos (Volume e) \<and> f_pos (Price e)
     then (level_put (Price e) (Volume e) m,
           if f_eq best f0 \<or> (if isBid then f_lt best (Price e) else f_lt (Price e) best)
           then Price e else best)
     else (m, best))"

definition LoadSnapshot :: "gtime \<Rightarrow> OrderBook option \<Rightarrow> local_book \<Rightarrow> local_book" where
  "LoadSnapshot now snap b = (case snap of None \<Rightarrow> b
     | Some ob \<Rightarrow>
        let (bs, bb) = foldl (load_entry True) ([], f0) (Bids ob);
            (as, ba) = foldl (load_entry False) ([], f0) (Asks ob)
        in b\<lparr>lb_bids := bs, bestBid := bb, lb_asks := as, bestAsk := ba,
             lb_version := Version ob,
             lastUpdatedAt := (if is_zero_time (ob_Timestamp ob) then now else ob_Timestamp ob)\<rparr>)"

text \<open>The loop of \<open>updatePriceLevels\<close>: the map, the running best and the recompute flag.\<close>

definition update_entry ::
    "bool \<Rightarrow> levels \<times> float64 \<times> bool \<Rightarrow> OrderBookEntry \<Rightarrow> levels \<times> float64 \<times> bool" where
  "update_entry isBid = (\<lambda>(m, best, recompute) e.
     if f_le (Price e) f0 then (m, best, recompute)
     else if f_le (Volume e) f0
     then (level_del (Price e) m, best, recompute \<or> f_eq (Price e) best)
     else (level_put (Price e) (Volume e) m,
           if isBetterPrice (Price e) best isBid then Price e else best, recompute))"

definition updatePriceLevels ::
    "OrderBookEntry list \<Rightarrow> levels \<Rightarrow> float64 \<Rightarrow> bool \<Rightarrow> levels \<times> float64" where
  "updatePriceLevels entries bookMap currentBest isBid =
     (let (m, best, recompute) = foldl (update_entry isBid) (bookMap, currentBest, False) entries
      in (m, if recompute then findBestPrice m isBid else best))"

definition ApplyDelta ::
    "OrderBookEntry list \<Rightarrow> OrderBookEntry list \<Rightarrow> int \<Rightarrow> gtime \<Rightarrow> gtime \<Rightarrow> local_book \<Rightarrow> local_book" where
  "ApplyDelta bids asks version t now b =
     (let (bs, bb) = updatePriceLevels bids (lb_bids b) (bestBid b) True;
          (as, ba) = updatePriceLevels asks (lb_asks b) (bestAsk b) False
      in b\<lparr>lb_bids := bs, bestBid := bb, lb_asks := as, bestAsk := ba, lb_version := version,
           lastUpdatedAt := (if is_zero_time t then now else t)\<rparr>)"

definition entry_of :: "float64 \<times> float64 \<Rightarrow> OrderBookEntry" where
  "entry_of = (\<lambda>(p, v). \<lparr>Price = p, Volume = v\<rparr>)"

definition sorted_desc :: "levels \<Rightarrow> levels" where
  "sorted_desc m = rev (sort_key fst m)"

definition sorted_asc :: "levels \<Rightarrow> levels" where
  "sorted_asc m = sort_key fst m"

definition depth_limit :: "int \<Rightarrow> 'a list \<Rightarrow> 'a list" where
  "depth_limit n xs = (if 0 < n \<and> n < int (length xs) then take (nat n) xs else xs)"

definition GetSnapshot :: "int \<Rightarrow> local_book \<Rightarrow> OrderBook" where
  "GetSnapshot depthLimit b =
     \<lparr>ob_Symbol = lb_symbol b, FirstVersion = 0, Version = lb_version b,
      ob_Timestamp = lastUpdatedAt b,
      Asks = depth_limit depthLimit (map entry_of (sorted_asc (lb_asks b))),
      Bids = depth_limit depthLimit (map entry_of (sorted_desc (lb_bids b)))\<rparr>"

definition GetBBO :: "local_book \<Rightarrow> (float64 \<times> float64) option" where
  "GetBBO b = (if f_le (bestBid b) f0 \<or> f_le (bestAsk b) f0 then None
     else Some (bestBid b, bestAsk b))"

definition book_Count :: "local_book \<Rightarrow> nat \<times> nat" where
  "book_Count b = (length (lb_bids b), length (lb_asks b))"

definition book_Clear :: "gtime \<Rightarrow> local_book \<Rightarrow> local_book" where
  "book_Clear now b = b\<lparr>lb_bids := [], lb_asks := [], bestBid := f0, bestAsk := f0,
     lb_version := 0, lastUpdatedAt := now\<rparr>"

subsection \<open>Well-formed sides\<close>

definition wf_levels :: "levels \<Rightarrow> bool" where
  "wf_levels m \<longleftrightarrow> distinct (map fst m) \<and> (\<forall>p \<in> fst ` set m. f_pos p)"

text \<open>
  \<open>side_ok isBid m best\<close>: the cached best price is 0 on an empty side and otherwise a
  price of the side that no other price beats.
\<close>

definition side_ok :: "bool \<Rightarrow> levels \<Rightarrow> float64 \<Rightarrow> bool" where
  "side_ok isBid m best \<longleftrightarrow>
     (if m = [] then best = f0
      else best \<in> fst ` set m \<and>
        (\<forall>p \<in> fst ` set m. \<not> (if isBid then f_lt best p else f_lt p best)))"

definition book_inv :: "local_book \<Rightarrow> bool" where
  "book_inv b \<longleftrightarrow> wf_levels (lb_bids b) \<and> wf_levels (lb_asks b) \<and>
     side_ok True (lb_bids b) (bestBid b) \<and> side_ok False (lb_asks b) (bestAsk b)"

text \<open>The prices of an update are numbers: the JSON feeds carry no NaN.\<close>

definition no_nan :: "OrderBookEntry list \<Rightarrow> bool" where
  "no_nan es \<longleftrightarrow> (\<forall>e \<in> set es. Price e \<noteq> FNaN)"

lemma not_le_zero_pos: "p \<noteq> FNaN \<Longrightarrow> \<not> f_le p f0 \<longleftrightarrow> f_pos p"
  by (cases p) (auto simp: f_le_def)

lemma f_eq_pos_iff: "f_pos p \<Longrightarrow> f_eq p q \<longleftrightarrow> p = q"
  by (cases p; cases q) auto

lemma f_eq_pos_iff': "f_pos q \<Longrightarrow> f_eq p q \<longleftrightarrow> p = q"
  by (cases p; cases q) auto

lemma f_eq_zero_pos [simp]: "f_pos p \<Longrightarrow> \<not> f_eq p f0"
  by (cases p) auto

lemma set_level_put:
  "f_pos p \<Longrightarrow> fst ` set (level_put p v m) = insert p (fst ` set m)"
proof (induction m)
  case (Cons a m)
  then show ?case by (cases a) (simp add: f_eq_pos_iff' insert_commute)
qed simp

lemma distinct_level_put:
  "f_pos p \<Longrightarrow> distinct (map fst m) \<Longrightarrow> distinct (map fst (level_put p v m))"
proof (induction m)
  case (Cons a m)
  then show ?case
    using set_level_put [of p v m] by (cases a) (auto simp: f_eq_pos_iff' image_iff)
qed simp

lemma wf_level_put: "f_pos p \<Longrightarrow> wf_levels m \<Longrightarrow> wf_levels (level_put p v m)"
  by (simp add: wf_levels_def set_level_put distinct_level_put)

lemma set_level_del: "f_pos p \<Longrightarrow> fst ` set (level_del p m) = fst ` set m - {p}"
  by (force simp: level_del_def f_eq_pos_iff')

lemma wf_level_del: "f_pos p \<Longrightarrow> wf_levels m \<Longrightarrow> wf_levels (level_del p m)"
  by (auto simp: wf_levels_def level_del_def distinct_map_filter)

lemma level_put_not_Nil [simp]: "level_put p v m \<noteq> []"
  by (cases m) (auto split: if_splits)

lemma level_get_put:
  "f_pos p \<Longrightarrow> level_get (level_put p v m) q = (if q = p then Some v else level_get m q)"
  by (induction m) (auto simp: level_get_def f_eq_pos_iff' f_eq_pos_iff)

lemma level_get_del:
  "f_pos p \<Longrightarrow> level_get (level_del p m) q = (if q = p then None else level_get m q)"
  by (induction m)
     (auto simp: level_get_def level_del_def f_eq_pos_iff' f_eq_pos_iff split: if_splits)

subsection \<open>The best price of a side\<close>

lemma better_best:
  "f_pos best \<or> best = f0 \<Longrightarrow>
   isBetterPrice p best isBid \<longleftrightarrow> best = f0 \<or> (if isBid then f_lt best p else f_lt p best)"
  by (auto simp: isBetterPrice_def)

lemma side_ok_pos: "wf_levels m \<Longrightarrow> side_ok isBid m best \<Longrightarrow> f_pos best \<or> best = f0"
  by (auto simp: side_ok_def wf_levels_def split: if_splits)

lemma side_ok_put:
  assumes wf: "wf_levels m" and ok: "side_ok isBid m best" and p: "f_pos p"
  shows "side_ok isBid (level_put p v m) (if isBetterPrice p best isBid then p else best)"
proof (cases "m = []")
  case True
  with ok show ?thesis by (simp add: side_ok_def isBetterPrice_def)
next
  case False
  with ok have mem: "best \<in> fst ` set m"
    and best: "\<forall>q \<in> fst ` set m. \<not> (if isBid then f_lt best q else f_lt q best)"
    by (auto simp: side_ok_def)
  from mem wf have bp: "f_pos best" by (auto simp: wf_levels_def)
  have tr: "\<not> f_lt best q \<Longrightarrow> f_lt best p \<Longrightarrow> \<not> f_lt p q" for q
    using f_lt_trans by blast
  have tr': "\<not> f_lt q best \<Longrightarrow> f_lt p best \<Longrightarrow> \<not> f_lt q p" for q
    using f_lt_trans by blast
  have bb: "isBetterPrice p best isBid \<longleftrightarrow> (if isBid then f_lt best p else f_lt p best)"
    using bp by (auto simp: isBetterPrice_def)
  show ?thesis
  proof (cases "if isBid then f_lt best p else f_lt p best")
    case True
    have "\<not> (if isBid then f_lt p q else f_lt q p)" if "q \<in> insert p (fst ` set m)" for q
      using that True best tr [of q] tr' [of q] by (cases isBid) (auto simp: f_lt_irrefl)
    then have "\<forall>q \<in> insert p (fst ` set m). \<not> (if isBid then f_lt p q else f_lt q p)" by blast
    then show ?thesis
      unfolding side_ok_def set_level_put [OF p] bb if_P [OF True] by simp
  next
    case False
    have "\<not> (if isBid then f_lt best q else f_lt q best)" if "q \<in> insert p (fst ` set m)" for q
      using that False best by blast
    then have "\<forall>q \<in> insert p (fst ` set m). \<not> (if isBid then f_lt best q else f_lt q best)" by blast
    with mem show ?thesis
      unfolding side_ok_def set_level_put [OF p] bb if_not_P [OF False] by simp
  qed
qed

lemma foldl_best:
  assumes "\<And>e. e \<in> set es \<Longrightarrow> f_pos (fst e)" and "f_pos b \<or> b = f0"
  shows "(let r = foldl (\<lambda>best (p, _). if isBetterPrice p best isBid then p else best) b es in
     (r = b \<or> r \<in> fst ` set es) \<and> (es \<noteq> [] \<or> f_pos b \<longrightarrow> f_pos r) \<and>
     (\<forall>q \<in> (if f_pos b then insert b (fst ` set es) else fst ` set es).
        \<not> (if isBid then f_lt r q else f_lt q r)))"
  using assms
proof (induction es arbitrary: b)
  case Nil
  then show ?case by (auto simp: Let_def)
next
  case (Cons e es)
  obtain p v where e: "e = (p, v)" by (cases e)
  have p: "f_pos p" using Cons.prems(1) [of e] e by simp
  let ?b = "if isBetterPrice p b isBid then p else b"
  have b': "f_pos ?b" using p Cons.prems(2) by (auto simp: isBetterPrice_def)
  have IH: "let r = foldl (\<lambda>best (p, _). if isBetterPrice p best isBid then p else best) ?b es in
     (r = ?b \<or> r \<in> fst ` set es) \<and> (es \<noteq> [] \<or> f_pos ?b \<longrightarrow> f_pos r) \<and>
     (\<forall>q \<in> (if f_pos ?b then insert ?b (fst ` set es) else fst ` set es).
        \<not> (if isBid then f_lt r q else f_lt q r))"
    using Cons.prems(1) b' by (intro Cons.IH) auto
  have tr: "\<not> f_lt r p \<Longrightarrow> f_lt b p \<Longrightarrow> \<not> f_lt r b"
    "\<not> f_lt r b \<Longrightarrow> \<not> f_lt b p \<Longrightarrow> f_pos b \<Longrightarrow> f_pos r \<Longrightarrow> \<not> f_lt r p"
    "\<not> f_lt p r \<Longrightarrow> f_lt p b \<Longrightarrow> \<not> f_lt b r"
    "\<not> f_lt b r \<Longrightarrow> \<not> f_lt p b \<Longrightarrow> f_pos b \<Longrightarrow> f_pos r \<Longrightarrow> \<not> f_lt p r" for r
    using p f_lt_trans f_linear f_lt_asym f_eq_pos by (metis f_pos_simps(2))+
  from IH b' p Cons.prems(2) show ?case
    unfolding e by (auto simp: Let_def isBetterPrice_def split: if_splits dest: tr)
qed

lemma findBestPrice_ok: "wf_levels m \<Longrightarrow> side_ok isBid m (findBestPrice m isBid)"
proof -
  assume wf: "wf_levels m"
  show ?thesis
  proof (cases "m = []")
    case True
    then show ?thesis by (simp add: side_ok_def findBestPrice_def)
  next
    case False
    have "let r = findBestPrice m isBid in
       (r = f0 \<or> r \<in> fst ` set m) \<and> (m \<noteq> [] \<or> f_pos f0 \<longrightarrow> f_pos r) \<and>
       (\<forall>q \<in> (if f_pos f0 then insert f0 (fst ` set m) else fst ` set m).
          \<not> (if isBid then f_lt r q else f_lt q r))"
      unfolding findBestPrice_def using wf by (intro foldl_best) (auto simp: wf_levels_def)
    with False show ?thesis by (auto simp: side_ok_def Let_def)
  qed
qed

text \<open>
  The loop invariant of \<open>updatePriceLevels\<close>: the map stays well formed, and until the best
  price is deleted the running best is right.
\<close>

definition upd_inv :: "bool \<Rightarrow> levels \<times> float64 \<times> bool \<Rightarrow> bool" where
  "upd_inv isBid = (\<lambda>(m, best, recompute).
     wf_levels m \<and> (f_pos best \<or> best = f0) \<and> (\<not> recompute \<longrightarrow> side_ok isBid m best))"

lemma side_ok_del:
  assumes "wf_levels m" "side_ok isBid m best" "f_pos p" "\<not> f_eq p best"
  shows "side_ok isBid (level_del p m) best"
proof (cases "m = []")
  case True
  with assms show ?thesis by (simp add: side_ok_def level_del_def)
next
  case False
  with assms(2,4) have "best \<in> fst ` set (level_del p m)"
    using set_level_del [OF assms(3), of m] assms(3)
    by (auto simp: side_ok_def f_eq_pos_iff image_iff)
  moreover from this have "level_del p m \<noteq> []" by auto
  ultimately show ?thesis
    using False assms(2) set_level_del [OF assms(3), of m] by (auto simp: side_ok_def)
qed

lemma update_entry_inv:
  assumes "upd_inv isBid s" "Price e \<noteq> FNaN"
  shows "upd_inv isBid (update_entry isBid s e)"
proof -
  obtain m best r where s: "s = (m, best, r)" by (cases s) auto
  have wf: "wf_levels m" and best: "f_pos best \<or> best = f0"
    and ok: "\<not> r \<longrightarrow> side_ok isBid m best"
    using assms(1) by (auto simp: s upd_inv_def)
  consider (skip) "f_le (Price e) f0" | (del) "\<not> f_le (Price e) f0" "f_le (Volume e) f0"
    | (put) "\<not> f_le (Price e) f0" "\<not> f_le (Volume e) f0" by blast
  then show ?thesis
  proof cases
    case skip
    then show ?thesis using assms(1) by (simp add: s update_entry_def)
  next
    case del
    have p: "f_pos (Price e)" using not_le_zero_pos [OF assms(2)] del by blast
    then show ?thesis using wf best ok del side_ok_del
      by (auto simp: s update_entry_def upd_inv_def wf_level_del)
  next
    case put
    have p: "f_pos (Price e)" using not_le_zero_pos [OF assms(2)] put by blast
    then show ?thesis using wf best ok put side_ok_put [OF wf _ p]
      by (auto simp: s update_entry_def upd_inv_def wf_level_put)
  qed
qed

lemma updatePriceLevels_ok:
  assumes "wf_levels m" "side_ok isBid m best" "no_nan es"
    "updatePriceLevels es m best isBid = (m', best')"
  shows "wf_levels m' \<and> side_ok isBid m' best'"
proof -
  have "upd_inv isBid (foldl (update_entry isBid) (m, best, False) es)"
  proof (rule foldl_invariant)
    show "upd_inv isBid (m, best, False)"
      using assms(1,2) side_ok_pos [OF assms(1,2)] by (simp add: upd_inv_def)
    show "upd_inv isBid (update_entry isBid s e)" if "upd_inv isBid s" "e \<in> set es" for s e
      using that assms(3) by (intro update_entry_inv) (auto simp: no_nan_def)
  qed
  with assms(4) show ?thesis
    by (auto simp: updatePriceLevels_def Let_def upd_inv_def findBestPrice_ok
             split: prod.splits if_splits)
qed

lemma load_entry_ok:
  assumes "wf_levels (fst s) \<and> side_ok isBid (fst s) (snd s)"
  shows "wf_levels (fst (load_entry isBid s e)) \<and>
    side_ok isBid (fst (load_entry isBid s e)) (snd (load_entry isBid s e))"
proof -
  obtain m best where s: "s = (m, best)" by (cases s)
  from assms have wf: "wf_levels m" and ok: "side_ok isBid m best" by (auto simp: s)
  show ?thesis
    using side_ok_put [OF wf ok, of "Price e" "Volume e"] wf ok
    by (cases "f_eq best f0"; cases isBid)
       (auto simp: s load_entry_def isBetterPrice_def wf_level_put split: if_splits)
qed

lemma load_side_ok:
  "foldl (load_entry isBid) ([], f0) es = (m, best) \<Longrightarrow> wf_levels m \<and> side_ok isBid m best"
proof -
  assume eq: "foldl (load_entry isBid) ([], f0) es = (m, best)"
  have "wf_levels (fst (foldl (load_entry isBid) ([], f0) es)) \<and>
    side_ok isBid (fst (foldl (load_entry isBid) ([], f0) es))
      (snd (foldl (load_entry isBid) ([], f0) es))"
    by (rule foldl_invariant [where P = "\<lambda>s. wf_levels (fst s) \<and> side_ok isBid (fst s) (snd s)"])
       (simp add: wf_levels_def side_ok_def, rule load_entry_ok)
  then show ?thesis by (simp add: eq)
qed

subsection \<open>The operations keep the invariant\<close>

lemma NewLocalOrderBook_inv [simp]: "book_inv (NewLocalOrderBook s now)"
  by (simp add: NewLocalOrderBook_def book_inv_def wf_levels_def side_ok_def)

lemma book_Clear_inv [simp]: "book_inv (book_Clear now b)"
  by (simp add: book_Clear_def book_inv_def wf_levels_def side_ok_def)

lemma LoadSnapshot_inv: "book_inv b \<Longrightarrow> book_inv (LoadSnapshot now snap b)"
proof (cases snap)
  case None
  assume "book_inv b"
  with None show ?thesis by (simp add: LoadSnapshot_def)
next
  case (Some ob)
  obtain bs bb where b: "foldl (load_entry True) ([], f0) (Bids ob) = (bs, bb)" by fastforce
  obtain as ba where a: "foldl (load_entry False) ([], f0) (Asks ob) = (as, ba)" by fastforce
  from load_side_ok [OF b] load_side_ok [OF a] show ?thesis
    by (simp add: LoadSnapshot_def Some a b book_inv_def)
qed

lemma book_inv_delta:
  assumes "book_inv b" "no_nan bids" "no_nan asks"
  shows "book_inv (ApplyDelta bids asks v t now b)"
proof -
  obtain bs bb where b: "updatePriceLevels bids (lb_bids b) (bestBid b) True = (bs, bb)" by fastforce
  obtain as ba where a: "updatePriceLevels asks (lb_asks b) (bestAsk b) False = (as, ba)" by fastforce
  have i: "wf_levels (lb_bids b)" "side_ok True (lb_bids b) (bestBid b)"
    "wf_levels (lb_asks b)" "side_ok False (lb_asks b) (bestAsk b)"
    using assms(1) by (simp_all add: book_inv_def)
  from updatePriceLevels_ok [OF i(1,2) assms(2) b] updatePriceLevels_ok [OF i(3,4) assms(3) a]
  show ?thesis by (simp add: ApplyDelta_def a b book_inv_def)
qed

text \<open>
  C29: applying a delta keeps both sides well formed and both cached best prices right:
  after it the best bid is the highest bid price (0 if there is none) and the best ask the
  lowest ask price.
\<close>

theorem ApplyDelta_inv:
  assumes "book_inv b" "no_nan bids" "no_nan asks"
  shows "book_inv (ApplyDelta bids asks v t now b)"
  using assms by (rule book_inv_delta)

theorem ApplyDelta_inv_witness:
  "book_inv (ApplyDelta [\<lparr>Price = FFin 100, Volume = FFin 2\<rparr>] [] 7 0 5 (NewLocalOrderBook ''BTC'' 1))"
  by (rule ApplyDelta_inv) (simp_all add: no_nan_def)

text \<open>A small book used by the concrete instances of the theorems.\<close>

definition sample_book :: local_book where
  "sample_book =
     ApplyDelta [\<lparr>Price = FFin 100, Volume = FFin 2\<rparr>, \<lparr>Price = FFin 99, Volume = FFin 5\<rparr>]
       [\<lparr>Price = FFin 101, Volume = FFin 3\<rparr>] 7 0 5 (NewLocalOrderBook ''BTC'' 1)"

lemma sample_book_inv: "book_inv sample_book"
  unfolding sample_book_def by (rule book_inv_delta) (simp_all add: no_nan_def)

lemma sample_book_eq:
  "sample_book = \<lparr>lb_symbol = ''BTC'', lb_bids = [(FFin 100, FFin 2), (FFin 99, FFin 5)],
     lb_asks = [(FFin 101, FFin 3)], bestBid = FFin 100, bestAsk = FFin 101, lb_version = 7,
     lastUpdatedAt = 5\<rparr>"
  by (simp add: sample_book_def ApplyDelta_def NewLocalOrderBook_def updatePriceLevels_def
      update_entry_def isBetterPrice_def is_zero_time_def)

subsection \<open>The best bid and offer\<close>

lemma f_le_zero_pos: "f_pos p \<Longrightarrow> \<not> f_le p f0"
  by (cases p) (auto simp: f_le_def f_pos_def f_lt_def f_eq_def)

lemma side_ok_zero: "wf_levels m \<Longrightarrow> side_ok isBid m best \<Longrightarrow> f_le best f0 \<longleftrightarrow> m = []"
proof (cases "m = []")
  case False
  assume "wf_levels m" "side_ok isBid m best"
  with False have "f_pos best" by (auto simp: side_ok_def wf_levels_def)
  with False show ?thesis by (simp add: f_le_zero_pos)
qed (simp add: side_ok_def f_le_def)

lemma side_ok_extreme:
  assumes "wf_levels m" "side_ok isBid m best" "m \<noteq> []"
  shows "best \<in> fst ` set m \<and> (\<forall>p \<in> fst ` set m. if isBid then p \<le> best else best \<le> p)"
proof -
  from assms have mem: "best \<in> fst ` set m"
    and ext: "\<forall>p \<in> fst ` set m. \<not> (if isBid then f_lt best p else f_lt p best)"
    by (simp_all add: side_ok_def)
  have pos: "f_pos p" if "p \<in> fst ` set m" for p using that assms(1) by (auto simp: wf_levels_def)
  have "if isBid then p \<le> best else best \<le> p" if "p \<in> fst ` set m" for p
  proof -
    have "\<not> (if isBid then f_lt best p else f_lt p best)" using ext that by blast
    then show ?thesis
      using less_float64_f_lt [OF pos [OF mem] pos [OF that]]
        less_float64_f_lt [OF pos [OF that] pos [OF mem]] by (simp add: not_less [symmetric] split: if_splits)
  qed
  with mem show ?thesis by blast
qed

lemma book_extreme:
  assumes "book_inv b"
  shows "(case GetBBO b of
      None \<Rightarrow> lb_bids b = [] \<or> lb_asks b = []
    | Some (bb, ba) \<Rightarrow>
        bb \<in> fst ` set (lb_bids b) \<and> (\<forall>p \<in> fst ` set (lb_bids b). p \<le> bb) \<and>
        ba \<in> fst ` set (lb_asks b) \<and> (\<forall>p \<in> fst ` set (lb_asks b). ba \<le> p))"
proof -
  have i: "wf_levels (lb_bids b)" "side_ok True (lb_bids b) (bestBid b)"
    "wf_levels (lb_asks b)" "side_ok False (lb_asks b) (bestAsk b)"
    using assms by (simp_all add: book_inv_def)
  show ?thesis
  proof (cases "lb_bids b = [] \<or> lb_asks b = []")
    case True
    then show ?thesis
      by (simp add: GetBBO_def side_ok_zero [OF i(1,2)] side_ok_zero [OF i(3,4)])
  next
    case False
    with side_ok_extreme [OF i(1,2)] side_ok_extreme [OF i(3,4)] show ?thesis
      by (simp add: GetBBO_def side_ok_zero [OF i(1,2)] side_ok_zero [OF i(3,4)])
  qed
qed

text \<open>
  On a book that satisfies the invariant the best bid and offer are reported exactly
  when both sides hold a level, and they are the highest bid and the lowest ask price.
\<close>

lemma GetBBO_extreme:
  assumes "book_inv b"
  shows "(case GetBBO b of
      None \<Rightarrow> lb_bids b = [] \<or> lb_asks b = []
    | Some (bb, ba) \<Rightarrow>
        bb \<in> fst ` set (lb_bids b) \<and> (\<forall>p \<in> fst ` set (lb_bids b). p \<le> bb) \<and>
        ba \<in> fst ` set (lb_asks b) \<and> (\<forall>p \<in> fst ` set (lb_asks b). ba \<le> p))"
  using assms by (rule book_extreme)

lemma GetBBO_extreme_witness:
  "case GetBBO sample_book of None \<Rightarrow> False
   | Some (bb, ba) \<Rightarrow> bb = FFin 100 \<and> bb \<in> fst ` set (lb_bids sample_book) \<and> ba \<in> fst ` set (lb_asks sample_book)"
  using GetBBO_extreme [OF sample_book_inv]
  by (simp add: GetBBO_def sample_book_eq)

subsection \<open>Updates as changes of the price-to-volume map\<close>

text \<open>What one entry of a delta means for the map from prices to volumes.\<close>

definition level_change :: "(float64 \<Rightarrow> float64 option) \<Rightarrow> OrderBookEntry \<Rightarrow> (float64 \<Rightarrow> float64 option)" where
  "level_change f e =
     (if \<not> f_pos (Price e) then f
      else if f_le (Volume e) f0 then f(Price e := None)
      else f(Price e \<mapsto> Volume e))"

lemma level_get_update_entry:
  assumes "Price e \<noteq> FNaN"
  shows "level_get (fst (update_entry isBid s e)) = level_change (level_get (fst s)) e"
proof -
  obtain m best r where s: "s = (m, best, r)" by (cases s) auto
  show ?thesis
    using not_le_zero_pos [OF assms]
    by (auto simp: s update_entry_def level_change_def level_get_put level_get_del fun_eq_iff)
qed

lemma level_get_update_fold:
  "no_nan es \<Longrightarrow>
   level_get (fst (foldl (update_entry isBid) s es)) = foldl level_change (level_get (fst s)) es"
  by (induction es arbitrary: s) (simp_all add: no_nan_def level_get_update_entry)

lemma updatePriceLevels_levels:
  "fst (updatePriceLevels es m best isBid) = fst (foldl (update_entry isBid) (m, best, False) es)"
  by (simp add: updatePriceLevels_def Let_def split: prod.splits)

lemma ApplyDelta_levels:
  "lb_bids (ApplyDelta bids asks v t now b) = fst (updatePriceLevels bids (lb_bids b) (bestBid b) True)"
  "lb_asks (ApplyDelta bids asks v t now b) = fst (updatePriceLevels asks (lb_asks b) (bestAsk b) False)"
  by (simp_all add: ApplyDelta_def Let_def split: prod.splits)

text \<open>
  C30: read as maps from prices to volumes, the two sides after a delta are the sides before
  it changed entry by entry, in the order of the delta: a non-positive price is ignored, a
  non-positive volume deletes its price, any other volume replaces the one stored.
\<close>

theorem ApplyDelta_get:
  assumes "no_nan bids" "no_nan asks"
  shows "level_get (lb_bids (ApplyDelta bids asks v t now b)) = foldl level_change (level_get (lb_bids b)) bids \<and>
    level_get (lb_asks (ApplyDelta bids asks v t now b)) = foldl level_change (level_get (lb_asks b)) asks"
  using assms by (simp add: ApplyDelta_levels updatePriceLevels_levels level_get_update_fold)

theorem ApplyDelta_get_witness:
  "level_get (lb_bids (ApplyDelta [\<lparr>Price = FFin 100, Volume = f0\<rparr>] [] 8 0 6 sample_book)) (FFin 100) = None"
  using ApplyDelta_get [of "[\<lparr>Price = FFin 100, Volume = f0\<rparr>]" "[]" 8 0 6 sample_book]
  by (simp add: no_nan_def level_change_def)

subsection \<open>Sorted snapshots\<close>

lemma sorted_key_strict:
  assumes "distinct (map fst m)"
  shows "sorted_wrt (<) (map fst (sort_key fst m))"
proof -
  have "sorted (map fst (sort_key fst m))" by simp
  moreover have "distinct (map fst (sort_key fst m))"
    using assms by (simp add: distinct_map)
  ultimately show ?thesis by (simp add: strict_sorted_iff)
qed

lemma map_entry_of: "map Price (map entry_of m) = map fst m"
  by (simp add: entry_of_def case_prod_beta)

lemma depth_limit_take: "\<exists>k. depth_limit n xs = take k xs"
  unfolding depth_limit_def by (metis take_all_iff order_refl)

text \<open>
  A snapshot of a well-formed book lists the bids with strictly falling prices and the
  asks with strictly rising prices; without a limit it holds exactly the levels of the
  book, and with a positive limit n the first n of them.
\<close>

lemma GetSnapshot_sorted:
  assumes "book_inv b"
  shows "sorted_wrt (>) (map Price (Bids (GetSnapshot n b))) \<and>
    sorted_wrt (<) (map Price (Asks (GetSnapshot n b))) \<and>
    set (Bids (GetSnapshot 0 b)) = entry_of ` set (lb_bids b) \<and>
    set (Asks (GetSnapshot 0 b)) = entry_of ` set (lb_asks b) \<and>
    Bids (GetSnapshot n b) = (if 0 < n then take (nat n) (Bids (GetSnapshot 0 b)) else Bids (GetSnapshot 0 b)) \<and>
    Asks (GetSnapshot n b) = (if 0 < n then take (nat n) (Asks (GetSnapshot 0 b)) else Asks (GetSnapshot 0 b))"
proof -
  have d: "distinct (map fst (lb_bids b))" "distinct (map fst (lb_asks b))"
    using assms by (simp_all add: book_inv_def wf_levels_def)
  have lim: "depth_limit n (xs :: 'a list) = (if 0 < n then take (nat n) xs else xs)" for xs n
    by (auto simp: depth_limit_def)
  have bids: "sorted_wrt (>) (map Price (map entry_of (sorted_desc (lb_bids b))))"
    using sorted_key_strict [OF d(1)]
    by (simp add: map_entry_of sorted_desc_def rev_map [symmetric] sorted_wrt_rev del: map_map)
  have asks: "sorted_wrt (<) (map Price (map entry_of (sorted_asc (lb_asks b))))"
    using sorted_key_strict [OF d(2)]
    by (simp add: map_entry_of sorted_asc_def del: map_map)
  show ?thesis
    using sorted_wrt_take [OF bids, of "nat n"] sorted_wrt_take [OF asks, of "nat n"] bids asks
    by (simp add: GetSnapshot_def lim take_map sorted_desc_def sorted_asc_def)
qed

lemma GetSnapshot_sorted_witness:
  "map Price (Bids (GetSnapshot 1 sample_book)) = [FFin 100] \<and>
   sorted_wrt (>) (map Price (Bids (GetSnapshot 0 sample_book)))"
  using GetSnapshot_sorted [OF sample_book_inv, of 0]
  by (simp add: GetSnapshot_def sample_book_eq depth_limit_def sorted_desc_def entry_of_def
      insort_key.simps less_eq_float64_def less_float64_def)

end
