(* ===== verification/BookSync.thy ===== *)
theory BookSync
  imports LocalOrderBook
begin

text \<open>
  \<open>internal/infrastructure/store/orderbook/worker.go\<close>, \<open>synchronizer.go\<close> and
  \<open>interfaces.go\<close>: one actor per symbol keeps a local book in step with an exchange. Its
  inbox is a bounded channel; the goroutines it spawns (a REST snapshot, a list of depth
  commits, a re-queued flush) are the list \<open>wk_pending\<close>, and each ends by putting one task
  into the inbox. Replies to \<open>InitializeSymbol\<close> callers are logged in \<open>wk_replies\<close>. A task
  is handled with one reading of the clock. \<open>slices.SortFunc\<close> is taken to be stable, which
  only matters for two staged deltas of the same version. Logging is left out.
\<close>

subsection \<open>Configuration and state\<close>

datatype sync_mode = SyncModeSnapshot | SyncModeIncremental

datatype sync_state =
  SyncStateUninitialized | SyncStateSyncing | SyncStateReady | SyncStateRecovering

record sync_config =
  Exchange :: string
  Mode :: sync_mode
  StrictSequence :: bool
  MaxBufferCapacity :: int
  SnapshotTimeout :: duration
  StaleTimeout :: duration
  CommitRecoverySize :: int

definition sync_Validate :: "sync_config \<Rightarrow> bool" where
  "sync_Validate c \<longleftrightarrow> Exchange c \<noteq> '''' \<and> 0 < MaxBufferCapacity c \<and> 0 < SnapshotTimeout c \<and>
     0 < CommitRecoverySize c"

datatype sync_error =
  ErrSnapshotFetchFailed string string
| ErrBufferOverflow
| ErrSequenceDiscontinuous

datatype worker_task =
  MsgUpdate "OrderBook option"
| MsgSnapshotLoaded "OrderBook option" "string option"
| MsgCommitsLoaded "DepthCommit list" "string option"
| MsgInit "nat option"
| MsgFlush "nat option"

datatype pending =
  FetchSnapshot duration
| FetchCommits duration int
| Requeue "nat option"

record symbol_worker =
  wk_symbol :: string
  wk_cfg :: sync_config
  wk_has_commits :: bool
  wk_book :: local_book
  wk_state :: sync_state
  wk_inbox :: "worker_task list"
  stagingBuffer :: "OrderBook list"
  initWaiters :: "nat list"
  lastSyncAt :: gtime
  lastSnapFailAt :: gtime
  wk_pending :: "pending list"
  wk_replies :: "(nat \<times> sync_error option) list"
  wk_closed :: "nat list"

definition newSymbolWorker :: "string \<Rightarrow> sync_config \<Rightarrow> bool \<Rightarrow> gtime \<Rightarrow> symbol_worker" where
  "newSymbolWorker symbol cfg hasCommits now =
     \<lparr>wk_symbol = symbol, wk_cfg = cfg, wk_has_commits = hasCommits,
      wk_book = NewLocalOrderBook symbol now, wk_state = SyncStateUninitialized, wk_inbox = [],
      stagingBuffer = [], initWaiters = [], lastSyncAt = 0, lastSnapFailAt = 0,
      wk_pending = [], wk_replies = [], wk_closed = []\<rparr>"

subsection \<open>The worker's operations\<close>

definition triggerAsyncSnapshot :: "symbol_worker \<Rightarrow> symbol_worker" where
  "triggerAsyncSnapshot w =
     (let timeout = (if SnapshotTimeout (wk_cfg w) \<le> 0 then 10 * second
                     else SnapshotTimeout (wk_cfg w))
      in w\<lparr>wk_state := SyncStateSyncing, wk_pending := wk_pending w @ [FetchSnapshot timeout]\<rparr>)"

definition triggerAsyncRecovery :: "symbol_worker \<Rightarrow> symbol_worker" where
  "triggerAsyncRecovery w0 =
     (let w = w0\<lparr>wk_state := SyncStateRecovering\<rparr> in
      if wk_has_commits w
      then (let limit = (if CommitRecoverySize (wk_cfg w) \<le> 0 then 1000
                         else CommitRecoverySize (wk_cfg w))
            in w\<lparr>wk_pending := wk_pending w @ [FetchCommits (5 * second) limit]\<rparr>)
      else triggerAsyncSnapshot w)"

definition notifyInitWaiters :: "sync_error option \<Rightarrow> symbol_worker \<Rightarrow> symbol_worker" where
  "notifyInitWaiters err w =
     w\<lparr>wk_replies := wk_replies w @ map (\<lambda>ch. (ch, err)) (initWaiters w), initWaiters := []\<rparr>"

definition worker_applyDelta ::
    "gtime \<Rightarrow> bool \<Rightarrow> OrderBookEntry list \<Rightarrow> OrderBookEntry list \<Rightarrow> int \<Rightarrow> int \<Rightarrow> local_book \<Rightarrow>
     local_book \<times> bool \<times> sync_error option" where
  "worker_applyDelta now strict bids asks firstVersion version b =
     (let currVersion = lb_version b in
      if 0 < version \<and> 0 < currVersion \<and> version \<le> currVersion then (b, False, None)
      else if strict \<and> 0 < currVersion \<and> 0 < version \<and>
        (if firstVersion = 0 then version else firstVersion) \<noteq> i64 (currVersion + 1)
      then (b, False, Some ErrSequenceDiscontinuous)
      else (ApplyDelta bids asks version now now b, True, None))"

fun apply_commit_list ::
    "gtime \<Rightarrow> bool \<Rightarrow> DepthCommit list \<Rightarrow> local_book \<Rightarrow> local_book \<times> sync_error option" where
  "apply_commit_list now strict [] b = (b, None)"
| "apply_commit_list now strict (c # cs) b =
     (case worker_applyDelta now strict (dc_Bids c) (dc_Asks c) (dc_Version c) (dc_Version c) b of
        (b', _, Some e) \<Rightarrow> (b', Some e)
      | (b', _, None) \<Rightarrow> apply_commit_list now strict cs b')"

definition applyCommits ::
    "gtime \<Rightarrow> DepthCommit list \<Rightarrow> symbol_worker \<Rightarrow> symbol_worker \<times> sync_error option" where
  "applyCommits now commits w =
     (let (b, err) = apply_commit_list now (StrictSequence (wk_cfg w)) (sort_key dc_Version commits) (wk_book w)
      in (w\<lparr>wk_book := b\<rparr>, err))"

definition replay_delta :: "gtime \<Rightarrow> local_book \<Rightarrow> OrderBook \<Rightarrow> local_book" where
  "replay_delta now b d = ApplyDelta (Bids d) (Asks d) (Version d) now now b"

definition replayStagedBuffer :: "gtime \<Rightarrow> symbol_worker \<Rightarrow> symbol_worker" where
  "replayStagedBuffer now w =
     (if stagingBuffer w = [] then w
      else
        let snapVer = lb_version (wk_book w) in
        w\<lparr>wk_book := foldl (\<lambda>b d. if Version d \<le> snapVer then b else replay_delta now b d)
             (wk_book w) (sort_key Version (stagingBuffer w)),
          stagingBuffer := []\<rparr>)"

definition handleInit :: "nat option \<Rightarrow> symbol_worker \<Rightarrow> symbol_worker" where
  "handleInit errCh w =
     (if wk_state w = SyncStateReady
      then (case errCh of None \<Rightarrow> w | Some ch \<Rightarrow> w\<lparr>wk_replies := wk_replies w @ [(ch, None)]\<rparr>)
      else
        let w1 = (case errCh of None \<Rightarrow> w | Some ch \<Rightarrow> w\<lparr>initWaiters := initWaiters w @ [ch]\<rparr>)
        in if wk_state w1 = SyncStateUninitialized then triggerAsyncSnapshot w1 else w1)"

definition handleUpdate :: "gtime \<Rightarrow> OrderBook \<Rightarrow> symbol_worker \<Rightarrow> symbol_worker" where
  "handleUpdate now ob w =
     (let staged = w\<lparr>stagingBuffer := stagingBuffer w @ [ob]\<rparr> in
      case wk_state w of
        SyncStateUninitialized \<Rightarrow>
          if \<not> is_zero_time (lastSnapFailAt w) \<and> now - lastSnapFailAt w < 2 * second then staged
          else triggerAsyncSnapshot staged
      | SyncStateReady \<Rightarrow>
          (case worker_applyDelta now (StrictSequence (wk_cfg w)) (Bids ob) (Asks ob)
                  (FirstVersion ob) (Version ob) (wk_book w) of
             (b, applied, None) \<Rightarrow>
               w\<lparr>wk_book := b, lastSyncAt := (if applied then now else lastSyncAt w)\<rparr>
           | (b, _, Some _) \<Rightarrow> triggerAsyncRecovery (staged\<lparr>wk_book := b\<rparr>))
      | _ \<Rightarrow>
          (if 5000 < length (stagingBuffer staged)
           then staged\<lparr>stagingBuffer :=
                  drop (length (stagingBuffer staged) - 2500) (stagingBuffer staged)\<rparr>
           else staged))"

definition handleSnapshotLoaded ::
    "gtime \<Rightarrow> OrderBook option \<Rightarrow> string option \<Rightarrow> symbol_worker \<Rightarrow> symbol_worker" where
  "handleSnapshotLoaded now snap err w = (case err of
     Some e \<Rightarrow>
       notifyInitWaiters (Some (ErrSnapshotFetchFailed (wk_symbol w) e))
         (w\<lparr>lastSnapFailAt := now, wk_state := SyncStateUninitialized, stagingBuffer := []\<rparr>)
   | None \<Rightarrow>
       let w1 = w\<lparr>lastSnapFailAt := 0, wk_book := LoadSnapshot now snap (wk_book w), lastSyncAt := now\<rparr>;
           w2 = (if Mode (wk_cfg w1) \<noteq> SyncModeSnapshot then replayStagedBuffer now w1
                 else w1\<lparr>stagingBuffer := []\<rparr>)
       in notifyInitWaiters None (w2\<lparr>wk_state := SyncStateReady\<rparr>))"

definition handleCommitsLoaded ::
    "gtime \<Rightarrow> DepthCommit list \<Rightarrow> string option \<Rightarrow> symbol_worker \<Rightarrow> symbol_worker" where
  "handleCommitsLoaded now commits err w =
     (if err = None \<and> commits \<noteq> []
      then (case applyCommits now commits w of
              (w1, None) \<Rightarrow>
                (replayStagedBuffer now w1)\<lparr>wk_state := SyncStateReady, lastSyncAt := now\<rparr>
            | (w1, Some _) \<Rightarrow> triggerAsyncSnapshot w1)
      else triggerAsyncSnapshot w)"

definition handleFlush :: "nat option \<Rightarrow> symbol_worker \<Rightarrow> symbol_worker" where
  "handleFlush doneCh w =
     (if wk_state w = SyncStateSyncing \<or> wk_state w = SyncStateRecovering
      then w\<lparr>wk_pending := wk_pending w @ [Requeue doneCh]\<rparr>
      else (case doneCh of None \<Rightarrow> w | Some ch \<Rightarrow> w\<lparr>wk_closed := wk_closed w @ [ch]\<rparr>))"

definition handleTask :: "gtime \<Rightarrow> worker_task \<Rightarrow> symbol_worker \<Rightarrow> symbol_worker" where
  "handleTask now task w = (case task of
     MsgUpdate None \<Rightarrow> w
   | MsgUpdate (Some ob) \<Rightarrow> handleUpdate now ob w
   | MsgSnapshotLoaded snap err \<Rightarrow> handleSnapshotLoaded now snap err w
   | MsgCommitsLoaded commits err \<Rightarrow> handleCommitsLoaded now commits err w
   | MsgInit errCh \<Rightarrow> handleInit errCh w
   | MsgFlush doneCh \<Rightarrow> handleFlush doneCh w)"

subsection \<open>The synchronizer\<close>

record synchronizer =
  sy_cfg :: sync_config
  sy_has_commits :: bool
  sy_workers :: "string \<Rightarrow> symbol_worker option"

definition NewSynchronizer :: "sync_config \<Rightarrow> bool \<Rightarrow> bool \<Rightarrow> synchronizer option" where
  "NewSynchronizer cfg hasSnap hasCommits =
     (if \<not> hasSnap \<or> \<not> sync_Validate cfg then None
      else Some \<lparr>sy_cfg = cfg, sy_has_commits = hasCommits, sy_workers = (\<lambda>_. None)\<rparr>)"

definition getOrCreateWorker :: "gtime \<Rightarrow> string \<Rightarrow> synchronizer \<Rightarrow> synchronizer \<times> symbol_worker" where
  "getOrCreateWorker now symbol s = (case sy_workers s symbol of
     Some w \<Rightarrow> (s, w)
   | None \<Rightarrow>
       let w = newSymbolWorker symbol (sy_cfg s) (sy_has_commits s) now
       in (s\<lparr>sy_workers := (sy_workers s)(symbol \<mapsto> w)\<rparr>, w))"

definition put_worker :: "string \<Rightarrow> symbol_worker \<Rightarrow> synchronizer \<Rightarrow> synchronizer" where
  "put_worker symbol w s = s\<lparr>sy_workers := (sy_workers s)(symbol \<mapsto> w)\<rparr>"

definition inbox_full :: "symbol_worker \<Rightarrow> bool" where
  "inbox_full w \<longleftrightarrow> MaxBufferCapacity (wk_cfg w) \<le> int (length (wk_inbox w))"

definition enqueue :: "worker_task \<Rightarrow> symbol_worker \<Rightarrow> symbol_worker" where
  "enqueue t w = w\<lparr>wk_inbox := wk_inbox w @ [t]\<rparr>"

text \<open>\<open>InitializeSymbol\<close> and \<open>Flush\<close> wait for room in the inbox: None is "still waiting".\<close>

definition InitializeSymbol :: "gtime \<Rightarrow> string \<Rightarrow> nat \<Rightarrow> synchronizer \<Rightarrow> synchronizer option" where
  "InitializeSymbol now symbol ch s =
     (let (s1, w) = getOrCreateWorker now symbol s in
      if inbox_full w then None else Some (put_worker symbol (enqueue (MsgInit (Some ch)) w) s1))"

definition ProcessUpdate :: "gtime \<Rightarrow> OrderBook option \<Rightarrow> synchronizer \<Rightarrow> synchronizer \<times> sync_error option" where
  "ProcessUpdate now ob s = (case ob of
     None \<Rightarrow> (s, None)
   | Some d \<Rightarrow>
       if ob_Symbol d = '''' then (s, None)
       else
         let (s1, w) = getOrCreateWorker now (ob_Symbol d) s in
         if Mode (sy_cfg s1) = SyncModeSnapshot
         then (put_worker (ob_Symbol d)
                 (w\<lparr>wk_book := LoadSnapshot now (Some d) (wk_book w), wk_state := SyncStateReady\<rparr>) s1, None)
         else if inbox_full w then (s1, Some ErrBufferOverflow)
         else (put_worker (ob_Symbol d) (enqueue (MsgUpdate (Some d)) w) s1, None))"

definition sync_Flush :: "string \<Rightarrow> nat \<Rightarrow> synchronizer \<Rightarrow> synchronizer option" where
  "sync_Flush symbol ch s = (case sy_workers s symbol of
     None \<Rightarrow> Some s
   | Some w \<Rightarrow> if inbox_full w then None else Some (put_worker symbol (enqueue (MsgFlush (Some ch)) w) s))"

definition ready_worker :: "string \<Rightarrow> synchronizer \<Rightarrow> symbol_worker option" where
  "ready_worker symbol s = (case sy_workers s symbol of
     None \<Rightarrow> None
   | Some w \<Rightarrow> if wk_state w \<noteq> SyncStateReady then None else Some w)"

definition sync_GetOrderBook :: "string \<Rightarrow> synchronizer \<Rightarrow> OrderBook option" where
  "sync_GetOrderBook symbol s = map_option (\<lambda>w. GetSnapshot 0 (wk_book w)) (ready_worker symbol s)"

definition sync_GetTopN :: "string \<Rightarrow> int \<Rightarrow> synchronizer \<Rightarrow> OrderBook option" where
  "sync_GetTopN symbol limit s = map_option (\<lambda>w. GetSnapshot limit (wk_book w)) (ready_worker symbol s)"

definition sync_GetBBO :: "string \<Rightarrow> synchronizer \<Rightarrow> (float64 \<times> float64) option" where
  "sync_GetBBO symbol s = Option.bind (ready_worker symbol s) (\<lambda>w. GetBBO (wk_book w))"

definition sync_GetState :: "string \<Rightarrow> synchronizer \<Rightarrow> sync_state" where
  "sync_GetState symbol s = (case sy_workers s symbol of
     None \<Rightarrow> SyncStateUninitialized | Some w \<Rightarrow> wk_state w)"

definition RemoveSymbol :: "string \<Rightarrow> synchronizer \<Rightarrow> synchronizer" where
  "RemoveSymbol symbol s = s\<lparr>sy_workers := (sy_workers s)(symbol := None)\<rparr>"

definition sync_Close :: "synchronizer \<Rightarrow> synchronizer" where
  "sync_Close s = s\<lparr>sy_workers := (\<lambda>_. None)\<rparr>"

subsection \<open>Steps of the running system\<close>

text \<open>The task with which a goroutine of the worker ends.\<close>

fun delivers :: "pending \<Rightarrow> worker_task \<Rightarrow> bool" where
  "delivers (FetchSnapshot _) (MsgSnapshotLoaded _ _) = True"
| "delivers (FetchCommits _ _) (MsgCommitsLoaded _ _) = True"
| "delivers (Requeue ch) (MsgFlush ch') = (ch = ch')"
| "delivers _ _ = False"

definition run_task :: "gtime \<Rightarrow> worker_task \<Rightarrow> worker_task list \<Rightarrow> symbol_worker \<Rightarrow> symbol_worker" where
  "run_task now t ts w = handleTask now t (w\<lparr>wk_inbox := ts\<rparr>)"

definition deliver :: "pending \<Rightarrow> worker_task \<Rightarrow> symbol_worker \<Rightarrow> symbol_worker" where
  "deliver p t w = enqueue t (w\<lparr>wk_pending := remove1 p (wk_pending w)\<rparr>)"

text \<open>\<open>task_ok feed t\<close>: every book the task carries came from the feed.\<close>

fun task_ok :: "(OrderBook \<Rightarrow> bool) \<Rightarrow> worker_task \<Rightarrow> bool" where
  "task_ok feed (MsgUpdate (Some d)) = feed d"
| "task_ok feed (MsgCommitsLoaded cs _) = list_all (\<lambda>c. feed
     \<lparr>ob_Symbol = '''', FirstVersion = dc_Version c, Version = dc_Version c, ob_Timestamp = 0,
      Asks = dc_Asks c, Bids = dc_Bids c\<rparr>) cs"
| "task_ok feed _ = True"

inductive sync_step :: "(OrderBook \<Rightarrow> bool) \<Rightarrow> synchronizer \<Rightarrow> synchronizer \<Rightarrow> bool"
  for feed :: "OrderBook \<Rightarrow> bool" where
  update: "feed d \<Longrightarrow> sync_step feed s (fst (ProcessUpdate now (Some d) s))"
| init: "InitializeSymbol now symbol ch s = Some s' \<Longrightarrow> sync_step feed s s'"
| flush: "sync_Flush symbol ch s = Some s' \<Longrightarrow> sync_step feed s s'"
| handle: "sy_workers s symbol = Some w \<Longrightarrow> wk_inbox w = t # ts \<Longrightarrow>
    sync_step feed s (put_worker symbol (run_task now t ts w) s)"
| arrive: "sy_workers s symbol = Some w \<Longrightarrow> p \<in> set (wk_pending w) \<Longrightarrow> delivers p t \<Longrightarrow>
    task_ok feed t \<Longrightarrow> \<not> inbox_full w \<Longrightarrow> sync_step feed s (put_worker symbol (deliver p t w) s)"
| remove: "sync_step feed s (RemoveSymbol symbol s)"
| close: "sync_step feed s (sync_Close s)"

inductive sync_reach :: "(OrderBook \<Rightarrow> bool) \<Rightarrow> synchronizer \<Rightarrow> bool" for feed where
  start: "NewSynchronizer cfg True hasCommits = Some s \<Longrightarrow> sync_reach feed s"
| step: "sync_reach feed s \<Longrightarrow> sync_step feed s s' \<Longrightarrow> sync_reach feed s'"

text \<open>The tasks callers of the synchronizer put into an inbox.\<close>

fun client_task :: "worker_task \<Rightarrow> bool" where
  "client_task (MsgUpdate _) = True"
| "client_task (MsgInit _) = True"
| "client_task (MsgFlush _) = True"
| "client_task _ = False"

subsection \<open>What the handlers leave alone\<close>

lemma wk_cfg_triggers [simp]:
  "wk_cfg (triggerAsyncSnapshot w) = wk_cfg w"
  "wk_cfg (triggerAsyncRecovery w) = wk_cfg w"
  "wk_cfg (notifyInitWaiters e w) = wk_cfg w"
  "wk_cfg (replayStagedBuffer now w) = wk_cfg w"
  by (simp_all add: triggerAsyncSnapshot_def triggerAsyncRecovery_def notifyInitWaiters_def
      replayStagedBuffer_def Let_def)

lemma wk_inbox_triggers [simp]:
  "wk_inbox (triggerAsyncSnapshot w) = wk_inbox w"
  "wk_inbox (triggerAsyncRecovery w) = wk_inbox w"
  "wk_inbox (notifyInitWaiters e w) = wk_inbox w"
  "wk_inbox (replayStagedBuffer now w) = wk_inbox w"
  by (simp_all add: triggerAsyncSnapshot_def triggerAsyncRecovery_def notifyInitWaiters_def
      replayStagedBuffer_def Let_def)

lemma wk_book_triggers [simp]:
  "wk_book (triggerAsyncSnapshot w) = wk_book w"
  "wk_book (triggerAsyncRecovery w) = wk_book w"
  "wk_book (notifyInitWaiters e w) = wk_book w"
  by (simp_all add: triggerAsyncSnapshot_def triggerAsyncRecovery_def notifyInitWaiters_def Let_def)

lemma stagingBuffer_triggers [simp]:
  "stagingBuffer (triggerAsyncSnapshot w) = stagingBuffer w"
  "stagingBuffer (triggerAsyncRecovery w) = stagingBuffer w"
  "stagingBuffer (notifyInitWaiters e w) = stagingBuffer w"
  "stagingBuffer (replayStagedBuffer now w) = []"
  by (simp_all add: triggerAsyncSnapshot_def triggerAsyncRecovery_def notifyInitWaiters_def
      replayStagedBuffer_def Let_def)

lemma wk_pending_others [simp]:
  "wk_pending (notifyInitWaiters e w) = wk_pending w"
  "wk_pending (replayStagedBuffer now w) = wk_pending w"
  "wk_state (notifyInitWaiters e w) = wk_state w"
  "wk_state (replayStagedBuffer now w) = wk_state w"
  by (simp_all add: notifyInitWaiters_def replayStagedBuffer_def Let_def)

lemma applyCommits_same [simp]:
  "wk_cfg (fst (applyCommits now cs w)) = wk_cfg w"
  "wk_inbox (fst (applyCommits now cs w)) = wk_inbox w"
  "wk_pending (fst (applyCommits now cs w)) = wk_pending w"
  "wk_state (fst (applyCommits now cs w)) = wk_state w"
  "stagingBuffer (fst (applyCommits now cs w)) = stagingBuffer w"
  by (simp_all add: applyCommits_def Let_def split: prod.splits)

lemma handleCommits_cases:
  "handleCommitsLoaded now cs err w =
     (if err = None \<and> cs \<noteq> [] \<and> snd (applyCommits now cs w) = None
      then (replayStagedBuffer now (fst (applyCommits now cs w)))\<lparr>wk_state := SyncStateReady, lastSyncAt := now\<rparr>
      else if err = None \<and> cs \<noteq> [] then triggerAsyncSnapshot (fst (applyCommits now cs w))
      else triggerAsyncSnapshot w)"
  by (auto simp: handleCommitsLoaded_def split: prod.splits option.splits)

lemmas worker_handlers = handleTask_def handleUpdate_def handleInit_def handleFlush_def
  handleSnapshotLoaded_def handleCommits_cases Let_def

lemma handleTask_cfg [simp]: "wk_cfg (handleTask now t w) = wk_cfg w"
  by (cases t; cases "wk_state w") (auto simp: worker_handlers split: option.splits prod.splits)

lemma handleTask_inbox [simp]: "wk_inbox (handleTask now t w) = wk_inbox w"
  by (cases t; cases "wk_state w") (auto simp: worker_handlers split: option.splits prod.splits)

subsection \<open>Invariants of the workers\<close>

text \<open>
  The contract of a per-worker invariant: it holds of a new worker and is kept by everything
  that happens to one. Such an invariant holds of every worker the synchronizer ever has.
\<close>

locale worker_invariant =
  fixes feed :: "OrderBook \<Rightarrow> bool" and I :: "symbol_worker \<Rightarrow> bool"
  assumes new: "I (newSymbolWorker symbol cfg hasCommits now)"
    and put: "I w \<Longrightarrow> task_ok feed t \<Longrightarrow> client_task t \<Longrightarrow> I (enqueue t w)"
    and load: "I w \<Longrightarrow> feed d \<Longrightarrow> Mode (wk_cfg w) = SyncModeSnapshot \<Longrightarrow>
      I (w\<lparr>wk_book := LoadSnapshot now (Some d) (wk_book w), wk_state := SyncStateReady\<rparr>)"
    and run: "I w \<Longrightarrow> wk_inbox w = t # ts \<Longrightarrow> I (run_task now t ts w)"
    and arr: "I w \<Longrightarrow> p \<in> set (wk_pending w) \<Longrightarrow> delivers p t \<Longrightarrow> task_ok feed t \<Longrightarrow> I (deliver p t w)"
begin

definition all_workers :: "synchronizer \<Rightarrow> bool" where
  "all_workers s \<longleftrightarrow>
     (\<forall>symbol w. sy_workers s symbol = Some w \<longrightarrow> I w \<and> wk_cfg w = sy_cfg s)"

lemma all_workers_put:
  "all_workers s \<Longrightarrow> I w \<Longrightarrow> wk_cfg w = sy_cfg s \<Longrightarrow> all_workers (put_worker symbol w s)"
  by (auto simp: all_workers_def put_worker_def)

lemma all_workers_get:
  assumes "all_workers s" "getOrCreateWorker now symbol s = (s1, w)"
  shows "all_workers s1 \<and> I w \<and> wk_cfg w = sy_cfg s1"
proof (cases "sy_workers s symbol")
  case None
  have "wk_cfg (newSymbolWorker symbol (sy_cfg s) hc now) = sy_cfg s" for hc
    by (simp add: newSymbolWorker_def)
  with None assms new show ?thesis
    by (auto simp: all_workers_def getOrCreateWorker_def Let_def split: if_splits)
next
  case (Some v)
  with assms show ?thesis by (auto simp: all_workers_def getOrCreateWorker_def)
qed

lemma all_workers_step:
  assumes "all_workers s" "sync_step feed s s'"
  shows "all_workers s'"
  using assms(2)
proof cases
  case (update d now)
  show ?thesis
  proof (cases "ob_Symbol d = ''''")
    case True
    then show ?thesis using assms(1) update by (simp add: ProcessUpdate_def)
  next
    case False
    obtain s1 w where g: "getOrCreateWorker now (ob_Symbol d) s = (s1, w)" by fastforce
    note w = all_workers_get [OF assms(1) g]
    have e: "I (enqueue (MsgUpdate (Some d)) w)" using put [of w "MsgUpdate (Some d)"] w update by simp
    have l: "Mode (sy_cfg s1) = SyncModeSnapshot \<Longrightarrow>
       I (w\<lparr>wk_book := LoadSnapshot now (Some d) (wk_book w), wk_state := SyncStateReady\<rparr>)"
      using load [of w d now] w update by simp
    show ?thesis
      using False w all_workers_put [of s1] e l
      by (simp add: update ProcessUpdate_def g enqueue_def)
  qed
next
  case (init now symbol ch)
  obtain s1 w where g: "getOrCreateWorker now symbol s = (s1, w)" by fastforce
  note w = all_workers_get [OF assms(1) g]
  have e: "I (enqueue (MsgInit (Some ch)) w)" using put [of w "MsgInit (Some ch)"] w by simp
  show ?thesis
    using init w all_workers_put [of s1 _ symbol] e
    by (auto simp: InitializeSymbol_def g enqueue_def split: if_splits)
next
  case (flush symbol ch)
  show ?thesis
  proof (cases "sy_workers s symbol")
    case None
    then show ?thesis using flush assms(1) by (simp add: sync_Flush_def)
  next
    case (Some w)
    have w: "I w \<and> wk_cfg w = sy_cfg s" using assms(1) Some by (simp add: all_workers_def)
    have e: "I (enqueue (MsgFlush (Some ch)) w)" using put [of w "MsgFlush (Some ch)"] w by simp
    show ?thesis
      using flush Some w e all_workers_put [OF assms(1), of _ symbol]
      by (auto simp: sync_Flush_def enqueue_def split: if_splits)
  qed
next
  case (handle symbol w t ts now)
  then have w: "I w \<and> wk_cfg w = sy_cfg s" using assms(1) by (simp add: all_workers_def)
  show ?thesis
    using w run [of w t ts now] handle all_workers_put [OF assms(1), of _ symbol]
    by (simp add: run_task_def)
next
  case (arrive symbol w p t)
  then have w: "I w \<and> wk_cfg w = sy_cfg s" using assms(1) by (simp add: all_workers_def)
  show ?thesis
    using w arr [of w p t] arrive all_workers_put [OF assms(1), of _ symbol]
    by (simp add: deliver_def enqueue_def)
next
  case (remove symbol)
  then show ?thesis using assms(1) by (auto simp: all_workers_def RemoveSymbol_def split: if_splits)
next
  case close
  then show ?thesis by (simp add: all_workers_def sync_Close_def)
qed

lemma reach_all_workers: "sync_reach feed s \<Longrightarrow> all_workers s"
proof (induction rule: sync_reach.induct)
  case (start cfg hasCommits s)
  then show ?case by (auto simp: NewSynchronizer_def all_workers_def split: if_splits)
next
  case (step s s')
  then show ?case using all_workers_step by blast
qed

lemma reach_worker:
  "sync_reach feed s \<Longrightarrow> sy_workers s symbol = Some w \<Longrightarrow> I w \<and> wk_cfg w = sy_cfg s"
  using reach_all_workers by (auto simp: all_workers_def)

end

subsection \<open>One fetch at a time\<close>

fun is_snap_fetch :: "pending \<Rightarrow> bool" where
  "is_snap_fetch (FetchSnapshot _) = True" | "is_snap_fetch _ = False"

fun is_commit_fetch :: "pending \<Rightarrow> bool" where
  "is_commit_fetch (FetchCommits _ _) = True" | "is_commit_fetch _ = False"

fun is_snap_task :: "worker_task \<Rightarrow> bool" where
  "is_snap_task (MsgSnapshotLoaded _ _) = True" | "is_snap_task _ = False"

fun is_commit_task :: "worker_task \<Rightarrow> bool" where
  "is_commit_task (MsgCommitsLoaded _ _) = True" | "is_commit_task _ = False"

definition count_if :: "('a \<Rightarrow> bool) \<Rightarrow> 'a list \<Rightarrow> nat" where
  "count_if P xs = length (filter P xs)"

lemma count_if_simps [simp]:
  "count_if P [] = 0" "count_if P (x # xs) = (if P x then 1 else 0) + count_if P xs"
  "count_if P (xs @ ys) = count_if P xs + count_if P ys"
  by (simp_all add: count_if_def)

lemma count_if_remove1:
  "x \<in> set xs \<Longrightarrow> count_if P xs = (if P x then 1 else 0) + count_if P (remove1 x xs)"
  by (induction xs) auto

text \<open>
  The outstanding snapshot (commit) answers of a worker: goroutines that still run and tasks
  that wait in the inbox.
\<close>

definition snaps_due :: "symbol_worker \<Rightarrow> nat" where
  "snaps_due w = count_if is_snap_fetch (wk_pending w) + count_if is_snap_task (wk_inbox w)"

definition commits_due :: "symbol_worker \<Rightarrow> nat" where
  "commits_due w = count_if is_commit_fetch (wk_pending w) + count_if is_commit_task (wk_inbox w)"

definition fetch_inv :: "symbol_worker \<Rightarrow> bool" where
  "fetch_inv w \<longleftrightarrow> (Mode (wk_cfg w) = SyncModeIncremental \<longrightarrow>
     snaps_due w = (if wk_state w = SyncStateSyncing then 1 else 0) \<and>
     commits_due w = (if wk_state w = SyncStateRecovering then 1 else 0))"

text \<open>The pending goroutines after a handler, in terms of those before it.\<close>

lemma triggerAsyncSnapshot_fields [simp]:
  "wk_pending (triggerAsyncSnapshot w) = wk_pending w @
     [FetchSnapshot (if SnapshotTimeout (wk_cfg w) \<le> 0 then 10 * second else SnapshotTimeout (wk_cfg w))]"
  "wk_state (triggerAsyncSnapshot w) = SyncStateSyncing"
  by (simp_all add: triggerAsyncSnapshot_def Let_def)

lemma fetch_run:
  assumes "fetch_inv w" "wk_inbox w = t # ts"
  shows "fetch_inv (run_task now t ts w)"
  using assms
  by (cases t; cases "wk_state w")
     (auto simp: run_task_def worker_handlers fetch_inv_def snaps_due_def commits_due_def
        triggerAsyncRecovery_def split: option.splits prod.splits if_splits)

lemma fetch_arrive:
  assumes "fetch_inv w" "p \<in> set (wk_pending w)" "delivers p t"
  shows "fetch_inv (deliver p t w)"
  using assms count_if_remove1 [OF assms(2), of is_snap_fetch] count_if_remove1 [OF assms(2), of is_commit_fetch]
  by (cases p; cases t)
     (auto simp: deliver_def enqueue_def fetch_inv_def snaps_due_def commits_due_def split: if_splits)

interpretation fetches: worker_invariant feed fetch_inv for feed
proof
  show "fetch_inv (newSymbolWorker symbol cfg hasCommits now)" for symbol cfg hasCommits now
    by (simp add: newSymbolWorker_def fetch_inv_def snaps_due_def commits_due_def)
  show "fetch_inv (enqueue t w)" if "fetch_inv w" "client_task t" for w t
    using that by (cases t) (auto simp: enqueue_def fetch_inv_def snaps_due_def commits_due_def)
  show "fetch_inv (w\<lparr>wk_book := LoadSnapshot now (Some d) (wk_book w), wk_state := SyncStateReady\<rparr>)"
    if "Mode (wk_cfg w) = SyncModeSnapshot" for w d now
    using that by (simp add: fetch_inv_def)
qed (simp_all add: fetch_run fetch_arrive)

text \<open>
  C7: in every reachable state of an incremental synchronizer, a worker has exactly one
  snapshot answer outstanding (running fetch or queued result) while it is syncing and none
  otherwise, and exactly one depth-commit answer outstanding while it is recovering and none
  otherwise. So no fetch is ever started twice, and a worker that is not ready and not
  uninitialized always has the answer on its way that ends that state.
\<close>

theorem sync_one_fetch:
  assumes "sync_reach feed s" "sy_workers s symbol = Some w" "Mode (sy_cfg s) = SyncModeIncremental"
  shows "snaps_due w = (if wk_state w = SyncStateSyncing then 1 else 0) \<and>
    commits_due w = (if wk_state w = SyncStateRecovering then 1 else 0)"
  using fetches.reach_worker [OF assms(1,2)] assms(3) by (simp add: fetch_inv_def)

text \<open>A reachable state used by the concrete instances: one symbol has begun to sync.\<close>

definition sample_cfg :: sync_config where
  "sample_cfg = \<lparr>Exchange = ''kucoin'', Mode = SyncModeIncremental, StrictSequence = True,
     MaxBufferCapacity = 100, SnapshotTimeout = 10 * second, StaleTimeout = 0,
     CommitRecoverySize = 50\<rparr>"

definition sample_delta :: "int \<Rightarrow> int \<Rightarrow> OrderBook" where
  "sample_delta first v = \<lparr>ob_Symbol = ''BTC'', FirstVersion = first, Version = v, ob_Timestamp = 0,
     Asks = [], Bids = [\<lparr>Price = FFin (of_int v), Volume = FFin 1\<rparr>]\<rparr>"

definition sample_worker :: symbol_worker where
  "sample_worker = run_task 9 (MsgUpdate (Some (sample_delta 0 8))) []
     (enqueue (MsgUpdate (Some (sample_delta 0 8))) (newSymbolWorker ''BTC'' sample_cfg True 5))"

definition sample_sync :: synchronizer where
  "sample_sync = \<lparr>sy_cfg = sample_cfg, sy_has_commits = True, sy_workers = [''BTC'' \<mapsto> sample_worker]\<rparr>"

lemma sample_worker_simps:
  "wk_state sample_worker = SyncStateSyncing" "wk_cfg sample_worker = sample_cfg"
  "wk_inbox sample_worker = []" "stagingBuffer sample_worker = [sample_delta 0 8]"
  "wk_book sample_worker = NewLocalOrderBook ''BTC'' 5"
  by (simp_all add: sample_worker_def run_task_def newSymbolWorker_def enqueue_def handleTask_def
      handleUpdate_def is_zero_time_def)

lemma sample_sync_reach:
  assumes "feed (sample_delta 0 8)"
  shows "sync_reach feed sample_sync"
proof -
  define s0 where "s0 = \<lparr>sy_cfg = sample_cfg, sy_has_commits = True, sy_workers = (\<lambda>_. None)\<rparr>"
  let ?t = "MsgUpdate (Some (sample_delta 0 8))"
  have 0: "sync_reach feed s0"
    by (rule sync_reach.start [of sample_cfg True])
       (simp add: NewSynchronizer_def sync_Validate_def sample_cfg_def s0_def)
  define s1 where "s1 = fst (ProcessUpdate 5 (Some (sample_delta 0 8)) s0)"
  have w: "sy_workers s1 ''BTC'' = Some (enqueue ?t (newSymbolWorker ''BTC'' sample_cfg True 5))"
    and s1: "s1 = s0\<lparr>sy_workers := [''BTC'' \<mapsto> enqueue ?t (newSymbolWorker ''BTC'' sample_cfg True 5)]\<rparr>"
    by (simp_all add: s1_def s0_def ProcessUpdate_def getOrCreateWorker_def put_worker_def
        sample_cfg_def sample_delta_def inbox_full_def newSymbolWorker_def Let_def)
  have 1: "sync_reach feed s1"
    unfolding s1_def by (rule sync_reach.step [OF 0 sync_step.update]) (rule assms)
  have "sync_reach feed (put_worker ''BTC'' (run_task 9 ?t []
     (enqueue ?t (newSymbolWorker ''BTC'' sample_cfg True 5))) s1)"
    by (rule sync_reach.step [OF 1 sync_step.handle, OF w])
       (simp add: enqueue_def newSymbolWorker_def)
  then show ?thesis
    by (simp add: s1 s0_def put_worker_def sample_sync_def sample_worker_def)
qed

theorem sync_one_fetch_witness:
  "snaps_due sample_worker = 1 \<and> commits_due sample_worker = 0"
  using sync_one_fetch [OF sample_sync_reach [where feed = "\<lambda>_. True"], of "''BTC''" sample_worker]
  by (simp add: sample_sync_def sample_worker_simps sample_cfg_def)

subsection \<open>The books of the workers\<close>

definition no_nan_book :: "OrderBook \<Rightarrow> bool" where
  "no_nan_book d \<longleftrightarrow> no_nan (Bids d) \<and> no_nan (Asks d)"

definition worker_book_inv :: "symbol_worker \<Rightarrow> bool" where
  "worker_book_inv w \<longleftrightarrow> book_inv (wk_book w) \<and> list_all no_nan_book (stagingBuffer w) \<and>
     list_all (task_ok no_nan_book) (wk_inbox w)"

lemma worker_applyDelta_inv:
  assumes "book_inv b" "no_nan bids" "no_nan asks"
  shows "book_inv (fst (worker_applyDelta now strict bids asks fv v b))"
  using assms by (simp add: worker_applyDelta_def Let_def book_inv_delta)

lemma apply_commit_list_inv:
  "book_inv b \<Longrightarrow> \<forall>c \<in> set cs. no_nan (dc_Bids c) \<and> no_nan (dc_Asks c) \<Longrightarrow>
   book_inv (fst (apply_commit_list now strict cs b))"
proof (induction cs arbitrary: b)
  case Nil
  then show ?case by simp
next
  case (Cons c cs)
  have "book_inv (fst (worker_applyDelta now strict (dc_Bids c) (dc_Asks c) (dc_Version c) (dc_Version c) b))"
    using Cons.prems by (intro worker_applyDelta_inv) auto
  with Cons show ?case by (auto split: prod.splits option.splits)
qed

lemma applyCommits_book:
  "wk_book (fst (applyCommits now cs w)) =
     fst (apply_commit_list now (StrictSequence (wk_cfg w)) (sort_key dc_Version cs) (wk_book w))"
  "snd (applyCommits now cs w) =
     snd (apply_commit_list now (StrictSequence (wk_cfg w)) (sort_key dc_Version cs) (wk_book w))"
  by (simp_all add: applyCommits_def Let_def split: prod.splits)

lemma applyCommits_inv:
  assumes "book_inv (wk_book w)" "\<forall>c \<in> set cs. no_nan (dc_Bids c) \<and> no_nan (dc_Asks c)"
  shows "book_inv (wk_book (fst (applyCommits now cs w)))"
  using apply_commit_list_inv [OF assms(1), of "sort_key dc_Version cs"] assms(2)
  by (simp add: applyCommits_book)

lemma replay_inv:
  assumes "book_inv (wk_book w)" "list_all no_nan_book (stagingBuffer w)"
  shows "book_inv (wk_book (replayStagedBuffer now w))"
proof -
  have "book_inv (foldl (\<lambda>b d. if Version d \<le> v then b else replay_delta now b d)
     (wk_book w) (sort_key Version (stagingBuffer w)))" for v
  proof (rule foldl_invariant [where P = book_inv])
    show "book_inv (wk_book w)" by (rule assms(1))
    show "book_inv (if Version d \<le> v then b else replay_delta now b d)"
      if "book_inv b" "d \<in> set (sort_key Version (stagingBuffer w))" for b d
      using that assms(2) by (simp add: replay_delta_def list_all_iff no_nan_book_def book_inv_delta)
  qed
  then show ?thesis using assms(1) by (simp add: replayStagedBuffer_def Let_def)
qed

lemma list_all_drop: "list_all P xs \<Longrightarrow> list_all P (drop n xs)"
  by (auto simp: list_all_iff dest: in_set_dropD)

lemma handleUpdate_book:
  assumes "book_inv (wk_book w)" "list_all no_nan_book (stagingBuffer w)" "no_nan_book ob"
  shows "book_inv (wk_book (handleUpdate now ob w)) \<and>
    list_all no_nan_book (stagingBuffer (handleUpdate now ob w))"
proof (cases "wk_state w = SyncStateReady")
  case True
  obtain b ap e where a: "worker_applyDelta now (StrictSequence (wk_cfg w)) (Bids ob) (Asks ob)
      (FirstVersion ob) (Version ob) (wk_book w) = (b, ap, e)" by (metis prod_cases3)
  have "book_inv b"
    using worker_applyDelta_inv [OF assms(1), of "Bids ob" "Asks ob" now "StrictSequence (wk_cfg w)"
      "FirstVersion ob" "Version ob"] assms(3) by (simp add: a no_nan_book_def)
  then show ?thesis using assms(2,3)
    by (cases e) (simp_all add: handleUpdate_def True a)
next
  case False
  then show ?thesis
    using assms by (cases "wk_state w") (simp_all add: handleUpdate_def Let_def list_all_drop)
qed

lemma handleTask_book:
  assumes "book_inv (wk_book w)" "list_all no_nan_book (stagingBuffer w)" "task_ok no_nan_book t"
  shows "book_inv (wk_book (handleTask now t w)) \<and>
    list_all no_nan_book (stagingBuffer (handleTask now t w))"
proof (cases t)
  case (MsgUpdate d)
  then show ?thesis using assms by (cases d) (auto simp: handleTask_def handleUpdate_book)
next
  case (MsgSnapshotLoaded snap err)
  have "book_inv (wk_book (replayStagedBuffer now
    (w\<lparr>lastSnapFailAt := 0, wk_book := LoadSnapshot now snap (wk_book w), lastSyncAt := now\<rparr>)))"
    using assms by (intro replay_inv) (simp_all add: LoadSnapshot_inv)
  with MsgSnapshotLoaded show ?thesis using assms(1)
    by (simp add: handleTask_def handleSnapshotLoaded_def Let_def LoadSnapshot_inv split: option.splits)
next
  case (MsgCommitsLoaded cs err)
  then have "\<forall>c \<in> set cs. no_nan (dc_Bids c) \<and> no_nan (dc_Asks c)"
    using assms(3) by (auto simp: list_all_iff no_nan_book_def)
  from applyCommits_inv [OF assms(1) this] have b: "book_inv (wk_book (fst (applyCommits now cs w)))" .
  then have "book_inv (wk_book (replayStagedBuffer now (fst (applyCommits now cs w))))"
    using assms(2) by (intro replay_inv) simp_all
  with b MsgCommitsLoaded show ?thesis using assms
    by (simp add: handleTask_def handleCommits_cases)
next
  case (MsgInit ch)
  then show ?thesis using assms by (simp add: handleTask_def handleInit_def Let_def split: option.splits)
next
  case (MsgFlush ch)
  then show ?thesis using assms by (simp add: handleTask_def handleFlush_def split: option.splits)
qed

interpretation books: worker_invariant no_nan_book worker_book_inv
proof
  show "worker_book_inv (newSymbolWorker symbol cfg hasCommits now)" for symbol cfg hasCommits now
    by (simp add: newSymbolWorker_def worker_book_inv_def)
  show "worker_book_inv (run_task now t ts w)"
    if "worker_book_inv w" "wk_inbox w = t # ts" for w t ts now
    using that handleTask_book [of "w\<lparr>wk_inbox := ts\<rparr>" t now]
    by (simp add: worker_book_inv_def run_task_def)
qed (simp_all add: worker_book_inv_def enqueue_def deliver_def LoadSnapshot_inv)

text \<open>
  C6: in every reachable state of a synchronizer whose feeds carry no NaN price, the best
  bid and offer it reports for a symbol come from a worker that is ready, and they are the
  highest bid and the lowest ask price of that worker's book.
\<close>

theorem sync_GetBBO_correct:
  assumes "sync_reach no_nan_book s" "sync_GetBBO symbol s = Some (bb, ba)"
  shows "\<exists>w. sy_workers s symbol = Some w \<and> wk_state w = SyncStateReady \<and>
    bb \<in> fst ` set (lb_bids (wk_book w)) \<and> (\<forall>p \<in> fst ` set (lb_bids (wk_book w)). p \<le> bb) \<and>
    ba \<in> fst ` set (lb_asks (wk_book w)) \<and> (\<forall>p \<in> fst ` set (lb_asks (wk_book w)). ba \<le> p)"
proof -
  from assms(2) obtain w where w: "sy_workers s symbol = Some w" "wk_state w = SyncStateReady"
    and g: "GetBBO (wk_book w) = Some (bb, ba)"
    by (auto simp: sync_GetBBO_def ready_worker_def bind_eq_Some_conv split: option.splits if_splits)
  have inv: "book_inv (wk_book w)"
    using books.reach_worker [OF assms(1) w(1)] by (simp add: worker_book_inv_def)
  from book_extreme [OF inv] g w show ?thesis by auto
qed

text \<open>The sample symbol after its REST snapshot has arrived and the staged delta was replayed.\<close>

definition sample_snapshot :: OrderBook where
  "sample_snapshot = \<lparr>ob_Symbol = ''BTC'', FirstVersion = 0, Version = 6, ob_Timestamp = 3,
     Asks = [\<lparr>Price = FFin 101, Volume = FFin 3\<rparr>], Bids = [\<lparr>Price = FFin 5, Volume = FFin 2\<rparr>]\<rparr>"

definition sample_ready :: symbol_worker where
  "sample_ready = run_task 11 (MsgSnapshotLoaded (Some sample_snapshot) None) []
     (deliver (FetchSnapshot (10 * second)) (MsgSnapshotLoaded (Some sample_snapshot) None) sample_worker)"

definition sample_ready_sync :: synchronizer where
  "sample_ready_sync = \<lparr>sy_cfg = sample_cfg, sy_has_commits = True, sy_workers = [''BTC'' \<mapsto> sample_ready]\<rparr>"

lemma sample_ready_sync_reach:
  assumes "feed (sample_delta 0 8)"
  shows "sync_reach feed sample_ready_sync"
proof -
  let ?p = "FetchSnapshot (10 * second)" and ?t = "MsgSnapshotLoaded (Some sample_snapshot) None"
  have p: "wk_pending sample_worker = [?p]"
    by (simp add: sample_worker_def run_task_def newSymbolWorker_def enqueue_def handleTask_def
        handleUpdate_def is_zero_time_def sample_cfg_def)
  define s1 where "s1 = put_worker ''BTC'' (deliver ?p ?t sample_worker) sample_sync"
  have 1: "sync_reach feed s1"
    unfolding s1_def
    by (rule sync_reach.step [OF sample_sync_reach [where feed = feed, OF assms] sync_step.arrive])
       (simp_all add: sample_sync_def p inbox_full_def sample_worker_simps sample_cfg_def)
  have "sync_reach feed (put_worker ''BTC'' (run_task 11 ?t [] (deliver ?p ?t sample_worker)) s1)"
    by (rule sync_reach.step [OF 1 sync_step.handle])
       (simp_all add: s1_def put_worker_def deliver_def enqueue_def sample_worker_simps)
  then show ?thesis
    by (simp add: s1_def put_worker_def sample_sync_def sample_ready_sync_def sample_ready_def)
qed

lemma wk_has_commits_sample: "wk_has_commits sample_worker"
  by (simp add: sample_worker_def run_task_def newSymbolWorker_def enqueue_def handleTask_def
      handleUpdate_def is_zero_time_def triggerAsyncSnapshot_def)

lemma sample_ready_simps:
  "wk_state sample_ready = SyncStateReady" "stagingBuffer sample_ready = []"
  "wk_cfg sample_ready = sample_cfg" "wk_has_commits sample_ready" "wk_inbox sample_ready = []"
  "wk_book sample_ready = \<lparr>lb_symbol = ''BTC'', lb_bids = [(FFin 5, FFin 2), (FFin 8, FFin 1)],
     lb_asks = [(FFin 101, FFin 3)], bestBid = FFin 8, bestAsk = FFin 101, lb_version = 8,
     lastUpdatedAt = 11\<rparr>"
  by (simp_all add: sample_ready_def run_task_def deliver_def enqueue_def handleTask_def
      handleSnapshotLoaded_def sample_worker_simps wk_has_commits_sample sample_cfg_def replayStagedBuffer_def Let_def
      LoadSnapshot_def sample_snapshot_def NewLocalOrderBook_def load_entry_def replay_delta_def
      sample_delta_def ApplyDelta_def updatePriceLevels_def update_entry_def isBetterPrice_def
      is_zero_time_def notifyInitWaiters_def)

theorem sync_GetBBO_correct_witness:
  "sync_GetBBO ''BTC'' sample_ready_sync = Some (FFin 8, FFin 101) \<and>
   (\<exists>w. sy_workers sample_ready_sync ''BTC'' = Some w \<and> (\<forall>p \<in> fst ` set (lb_bids (wk_book w)). p \<le> FFin 8))"
proof -
  have g: "sync_GetBBO ''BTC'' sample_ready_sync = Some (FFin 8, FFin 101)"
    by (simp add: sync_GetBBO_def ready_worker_def sample_ready_sync_def sample_ready_simps GetBBO_def)
  have "no_nan_book (sample_delta 0 8)" by (simp add: no_nan_book_def no_nan_def sample_delta_def)
  from sync_GetBBO_correct [OF sample_ready_sync_reach [where feed = no_nan_book, OF this] g] g show ?thesis by blast
qed

subsection \<open>Sequence numbers\<close>

lemma ApplyDelta_version [simp]: "lb_version (ApplyDelta bids asks v t now b) = v"
  by (simp add: ApplyDelta_def Let_def split: prod.splits)

lemma LoadSnapshot_version: "lb_version (LoadSnapshot now (Some d) b) = Version d"
  by (simp add: LoadSnapshot_def Let_def split: prod.splits)

lemma strict_update_eq:
  assumes "wk_state w = SyncStateReady" "StrictSequence (wk_cfg w)"
    "0 < lb_version (wk_book w)" "lb_version (wk_book w) < 2 ^ 63 - 1" "0 < Version ob"
  shows "handleUpdate now ob w =
    (if Version ob \<le> lb_version (wk_book w) then w
     else if (if FirstVersion ob = 0 then Version ob else FirstVersion ob) = lb_version (wk_book w) + 1
     then w\<lparr>wk_book := replay_delta now (wk_book w) ob, lastSyncAt := now\<rparr>
     else triggerAsyncRecovery (w\<lparr>stagingBuffer := stagingBuffer w @ [ob]\<rparr>))"
  using assms by (simp add: handleUpdate_def worker_applyDelta_def replay_delta_def Let_def i64_id)

text \<open>
  C25: a ready worker that requires strict sequences, holding version v > 0, treats an update
  of a positive version in exactly one of three ways: an update not newer than v changes
  nothing; one that starts at v + 1 is applied to the book, which takes its version; any
  other one leaves the book alone, is staged, and moves the worker to recovery (or to a new
  snapshot if the exchange has no depth commits).
\<close>

theorem strict_update:
  assumes "wk_state w = SyncStateReady" "StrictSequence (wk_cfg w)"
    "0 < lb_version (wk_book w)" "lb_version (wk_book w) < 2 ^ 63 - 1" "0 < Version ob"
  shows "handleUpdate now ob w =
    (if Version ob \<le> lb_version (wk_book w) then w
     else if (if FirstVersion ob = 0 then Version ob else FirstVersion ob) = lb_version (wk_book w) + 1
     then w\<lparr>wk_book := replay_delta now (wk_book w) ob, lastSyncAt := now\<rparr>
     else triggerAsyncRecovery (w\<lparr>stagingBuffer := stagingBuffer w @ [ob]\<rparr>))"
  using assms by (rule strict_update_eq)

theorem strict_update_witness:
  "handleUpdate 20 (sample_delta 9 12) sample_ready =
     sample_ready\<lparr>wk_book := replay_delta 20 (wk_book sample_ready) (sample_delta 9 12), lastSyncAt := 20\<rparr> \<and>
   wk_state (handleUpdate 20 (sample_delta 11 12) sample_ready) = SyncStateRecovering"
  using strict_update [of sample_ready "sample_delta 9 12" 20]
    strict_update [of sample_ready "sample_delta 11 12" 20]
  by (simp add: sample_ready_simps sample_cfg_def sample_delta_def triggerAsyncRecovery_def Let_def
      triggerAsyncSnapshot_def)

text \<open>A run of updates each of which starts right after the one before it.\<close>

fun contiguous :: "int \<Rightarrow> OrderBook list \<Rightarrow> bool" where
  "contiguous v [] = True"
| "contiguous v (d # ds) =
     ((if FirstVersion d = 0 then Version d else FirstVersion d) = v + 1 \<and> v < Version d \<and>
      Version d < 2 ^ 63 - 1 \<and> contiguous (Version d) ds)"

lemma contiguous_stream:
  assumes "wk_state w = SyncStateReady" "StrictSequence (wk_cfg w)"
    "0 < lb_version (wk_book w)" "lb_version (wk_book w) < 2 ^ 63 - 1"
    "contiguous (lb_version (wk_book w)) ds"
  shows "wk_book (foldl (\<lambda>w d. handleUpdate now d w) w ds) = foldl (replay_delta now) (wk_book w) ds \<and>
    wk_state (foldl (\<lambda>w d. handleUpdate now d w) w ds) = SyncStateReady \<and>
    stagingBuffer (foldl (\<lambda>w d. handleUpdate now d w) w ds) = stagingBuffer w"
  using assms
proof (induction ds arbitrary: w)
  case Nil
  then show ?case by simp
next
  case (Cons d ds)
  let ?w = "w\<lparr>wk_book := replay_delta now (wk_book w) d, lastSyncAt := now\<rparr>"
  have h: "handleUpdate now d w = ?w"
    using Cons.prems by (subst strict_update_eq) simp_all
  have "lb_version (wk_book ?w) = Version d" by (simp add: replay_delta_def)
  with Cons.IH [of ?w] Cons.prems show ?case by (simp add: h)
qed

text \<open>
  A ready strict worker that is fed a contiguous run of updates applies every one of
  them in order: its book is the old one with the updates replayed, it stays ready and
  stages nothing.
\<close>

lemma contiguous_stream_applied:
  assumes "wk_state w = SyncStateReady" "StrictSequence (wk_cfg w)"
    "0 < lb_version (wk_book w)" "lb_version (wk_book w) < 2 ^ 63 - 1"
    "contiguous (lb_version (wk_book w)) ds"
  shows "wk_book (foldl (\<lambda>w d. handleUpdate now d w) w ds) = foldl (replay_delta now) (wk_book w) ds \<and>
    wk_state (foldl (\<lambda>w d. handleUpdate now d w) w ds) = SyncStateReady \<and>
    stagingBuffer (foldl (\<lambda>w d. handleUpdate now d w) w ds) = stagingBuffer w"
  using assms by (rule contiguous_stream)

lemma contiguous_stream_applied_witness:
  "wk_state (foldl (\<lambda>w d. handleUpdate 30 d w) sample_ready [sample_delta 9 12, sample_delta 13 13]) =
     SyncStateReady"
  using contiguous_stream_applied [of sample_ready "[sample_delta 9 12, sample_delta 13 13]" 30]
  by (simp add: sample_ready_simps sample_cfg_def sample_delta_def)

end
