(* ===== verification/BookSyncLaws.thy ===== *)
theory BookSyncLaws
  imports BookSync
begin

text \<open>
  More about one worker of the synchronizer: what loading a snapshot does with the staged
  updates, versions that never fall, the bound on the staging buffer, and two defects.
\<close>

subsection \<open>Replaying the staged updates\<close>

lemma foldl_skip: "foldl (\<lambda>b d. if P d then b else g b d) b xs = foldl g b (filter (\<lambda>d. \<not> P d) xs)"
  by (induction xs arbitrary: b) simp_all

lemma replay_delta_version [simp]: "lb_version (replay_delta now b d) = Version d"
  by (simp add: replay_delta_def)

lemma foldl_replay_version:
  "lb_version (foldl (replay_delta now) b ds) = (if ds = [] then lb_version b else Version (last ds))"
  by (induction ds arbitrary: b) auto

lemma last_sorted_Max:
  assumes "sorted (map Version ds)" "ds \<noteq> []"
  shows "Version (last ds) = Max (Version ` set ds)"
proof (rule sym, rule Max_eqI)
  show "y \<le> Version (last ds)" if "y \<in> Version ` set ds" for y
    using that assms by (auto simp: in_set_conv_nth last_conv_nth sorted_iff_nth_mono)
qed (use assms in auto)

lemma replay_book:
  "wk_book (replayStagedBuffer now w) = foldl (replay_delta now) (wk_book w)
     (filter (\<lambda>d. lb_version (wk_book w) < Version d) (sort_key Version (stagingBuffer w)))"
  by (simp add: replayStagedBuffer_def Let_def foldl_skip not_le)

lemma replay_version:
  "lb_version (wk_book (replayStagedBuffer now w)) =
     Max (insert (lb_version (wk_book w)) (Version ` set (stagingBuffer w)))"
proof -
  let ?v = "lb_version (wk_book w)"
  let ?ds = "filter (\<lambda>d. ?v < Version d) (sort_key Version (stagingBuffer w))"
  have s: "sorted (map Version ?ds)" by (rule sorted_filter) simp
  show ?thesis
  proof (cases "?ds = []")
    case True
    then have "\<forall>d \<in> set (stagingBuffer w). Version d \<le> ?v" by (auto simp: filter_empty_conv not_less)
    then have "Max (insert ?v (Version ` set (stagingBuffer w))) = ?v"
      by (intro Max_eqI) auto
    with True show ?thesis by (simp add: replay_book foldl_replay_version)
  next
    case False
    have mem: "Version (last ?ds) \<in> Version ` set (stagingBuffer w)" "?v < Version (last ?ds)"
      using last_in_set [OF False] by auto
    have "Version d \<le> Version (last ?ds)" if d: "d \<in> set (stagingBuffer w)" for d
    proof (cases "?v < Version d")
      case True
      with d have "Version d \<le> Max (Version ` set ?ds)" by (intro Max_ge) auto
      then show ?thesis using last_sorted_Max [OF s False] by simp
    qed (use mem in simp)
    then have "Max (insert ?v (Version ` set (stagingBuffer w))) = Version (last ?ds)"
      using mem by (intro Max_eqI) auto
    with False show ?thesis by (simp add: replay_book foldl_replay_version)
  qed
qed

lemma snapshot_loaded:
  assumes "Mode (wk_cfg w) = SyncModeIncremental"
  shows "let w' = handleSnapshotLoaded now (Some snap) None w;
             newer = filter (\<lambda>d. Version snap < Version d) (sort_key Version (stagingBuffer w))
         in wk_state w' = SyncStateReady \<and> stagingBuffer w' = [] \<and> initWaiters w' = [] \<and>
            wk_replies w' = wk_replies w @ map (\<lambda>ch. (ch, None)) (initWaiters w) \<and>
            wk_book w' = foldl (replay_delta now) (LoadSnapshot now (Some snap) (wk_book w)) newer \<and>
            lb_version (wk_book w') = Max (insert (Version snap) (Version ` set (stagingBuffer w)))"
proof -
  let ?w = "w\<lparr>lastSnapFailAt := 0, wk_book := LoadSnapshot now (Some snap) (wk_book w), lastSyncAt := now\<rparr>"
  have "handleSnapshotLoaded now (Some snap) None w =
      notifyInitWaiters None ((replayStagedBuffer now ?w)\<lparr>wk_state := SyncStateReady\<rparr>)"
    using assms by (simp add: handleSnapshotLoaded_def)
  moreover have "stagingBuffer (replayStagedBuffer now ?w) = []"
    "initWaiters (replayStagedBuffer now ?w) = initWaiters w"
    "wk_replies (replayStagedBuffer now ?w) = wk_replies w"
    by (simp_all add: replayStagedBuffer_def Let_def)
  ultimately show ?thesis
    using replay_book [of now ?w] replay_version [of now ?w]
    by (simp add: notifyInitWaiters_def LoadSnapshot_version)
qed

text \<open>
  C22: a loaded snapshot makes an incremental worker ready with the snapshot's book, on which
  exactly the staged updates newer than the snapshot were applied, each once and in the order
  of their versions; the book has the highest version of the snapshot and the staged
  updates, nothing stays staged, and every caller that waits for the initialisation is
  answered without error.
\<close>

theorem snapshot_replay:
  assumes "Mode (wk_cfg w) = SyncModeIncremental"
  shows "let w' = handleSnapshotLoaded now (Some snap) None w;
             newer = filter (\<lambda>d. Version snap < Version d) (sort_key Version (stagingBuffer w))
         in wk_state w' = SyncStateReady \<and> stagingBuffer w' = [] \<and> initWaiters w' = [] \<and>
            wk_replies w' = wk_replies w @ map (\<lambda>ch. (ch, None)) (initWaiters w) \<and>
            wk_book w' = foldl (replay_delta now) (LoadSnapshot now (Some snap) (wk_book w)) newer \<and>
            lb_version (wk_book w') = Max (insert (Version snap) (Version ` set (stagingBuffer w)))"
  using assms by (rule snapshot_loaded)

theorem snapshot_replay_witness:
  "lb_version (wk_book (handleSnapshotLoaded 11 (Some sample_snapshot) None sample_worker)) = 8"
  using snapshot_replay [of sample_worker 11 sample_snapshot]
  by (simp add: sample_worker_simps sample_cfg_def Let_def sample_delta_def sample_snapshot_def)

subsection \<open>Versions\<close>

definition positive_task :: "worker_task \<Rightarrow> bool" where
  "positive_task t \<longleftrightarrow> (case t of
     MsgUpdate (Some d) \<Rightarrow> 0 < Version d
   | MsgCommitsLoaded cs _ \<Rightarrow> \<forall>c \<in> set cs. 0 < dc_Version c
   | MsgSnapshotLoaded _ _ \<Rightarrow> False
   | _ \<Rightarrow> True)"

lemma worker_applyDelta_mono:
  assumes "worker_applyDelta now strict bids asks f v b = (b', ok, e)" "0 < v"
  shows "lb_version b \<le> lb_version b'"
  using assms by (auto simp: worker_applyDelta_def Let_def split: if_splits)

lemma apply_commit_list_mono:
  "(\<forall>c \<in> set cs. 0 < dc_Version c) \<Longrightarrow> lb_version b \<le> lb_version (fst (apply_commit_list now strict cs b))"
proof (induction cs arbitrary: b)
  case (Cons c cs)
  obtain b' ok e where d: "worker_applyDelta now strict (dc_Bids c) (dc_Asks c) (dc_Version c) (dc_Version c) b = (b', ok, e)"
    by (metis prod_cases3)
  have "lb_version b \<le> lb_version b'"
    by (rule worker_applyDelta_mono [OF d]) (use Cons.prems in simp)
  moreover have "lb_version b' \<le> lb_version (fst (apply_commit_list now strict cs b'))"
    using Cons by simp
  ultimately show ?case by (cases e) (auto simp: d)
qed simp

lemma replay_mono: "lb_version (wk_book w) \<le> lb_version (wk_book (replayStagedBuffer now w))"
  by (simp add: replay_version)

lemma trigger_books [simp]:
  "wk_book (triggerAsyncSnapshot w) = wk_book w" "wk_book (triggerAsyncRecovery w) = wk_book w"
  by (simp_all add: triggerAsyncSnapshot_def triggerAsyncRecovery_def Let_def)

text \<open>
  C28: outside snapshots the version of a worker's book never falls: whatever the worker's
  state and whatever is staged, handling an update or depth commits with positive versions,
  an init or a flush request leaves the book at its version or a higher one.
\<close>

theorem handleTask_version_mono:
  assumes "positive_task t"
  shows "lb_version (wk_book w) \<le> lb_version (wk_book (handleTask now t w))"
proof (cases t)
  case (MsgUpdate ob)
  show ?thesis
  proof (cases ob)
    case (Some d)
    obtain b ok e where a: "worker_applyDelta now (StrictSequence (wk_cfg w)) (Bids d) (Asks d)
        (FirstVersion d) (Version d) (wk_book w) = (b, ok, e)" by (metis prod_cases3)
    have "lb_version (wk_book w) \<le> lb_version b"
      by (rule worker_applyDelta_mono [OF a]) (use assms MsgUpdate Some in \<open>simp add: positive_task_def\<close>)
    then show ?thesis
      by (simp add: handleTask_def MsgUpdate Some handleUpdate_def a Let_def
          split: sync_state.split option.split)
  qed (simp add: handleTask_def MsgUpdate)
next
  case (MsgCommitsLoaded cs err)
  let ?l = "apply_commit_list now (StrictSequence (wk_cfg w)) (sort_key dc_Version cs) (wk_book w)"
  have "lb_version (wk_book w) \<le> lb_version (fst ?l)"
    by (rule apply_commit_list_mono) (use assms MsgCommitsLoaded in \<open>simp add: positive_task_def\<close>)
  moreover obtain b e where "?l = (b, e)" by fastforce
  ultimately show ?thesis
    using replay_mono [of "w\<lparr>wk_book := b\<rparr>" now]
    by (auto simp: handleTask_def MsgCommitsLoaded handleCommitsLoaded_def applyCommits_def Let_def
        split: option.split)
qed (use assms in \<open>auto simp: handleTask_def positive_task_def handleInit_def handleFlush_def Let_def split: option.split\<close>)

theorem handleTask_version_mono_witness:
  "lb_version (wk_book sample_ready) \<le> lb_version (wk_book (handleTask 30 (MsgUpdate (Some (sample_delta 9 12))) sample_ready))"
  using handleTask_version_mono [of "MsgUpdate (Some (sample_delta 9 12))" sample_ready 30]
  by (simp add: positive_task_def sample_delta_def)

subsection \<open>The staging buffer\<close>

text \<open>
  An update that arrives while a worker is syncing or recovering is staged, and the
  buffer never holds more than 5000 updates: it keeps a run of the newest ones, in order,
  the new one last, and at least 2500 of them if there were as many.
\<close>

lemma staging_bounded:
  assumes "wk_state w = SyncStateSyncing \<or> wk_state w = SyncStateRecovering"
  shows "let buf = stagingBuffer (handleUpdate now ob w); all = stagingBuffer w @ [ob]
         in length buf \<le> 5000 \<and> last buf = ob \<and> buf = drop (length all - length buf) all \<and>
            min 2500 (length all) \<le> length buf"
  using assms by (auto simp: handleUpdate_def Let_def last_drop)

lemma staging_bounded_witness: "length (stagingBuffer (handleUpdate 12 (sample_delta 9 9) sample_worker)) \<le> 5000"
  using staging_bounded [of sample_worker 12 "sample_delta 9 9"]
  by (simp add: sample_worker_simps Let_def)

subsection \<open>Two defects\<close>

text \<open>
  C40: a recovery that succeeds makes the worker ready, but leaves every waiting caller of
  \<open>InitializeSymbol\<close> unanswered and still waiting.
\<close>

theorem commits_leave_waiters:
  assumes "wk_state (handleTask now (MsgCommitsLoaded commits err) w) = SyncStateReady" "wk_state w = SyncStateRecovering"
  shows "initWaiters (handleTask now (MsgCommitsLoaded commits err) w) = initWaiters w \<and>
    wk_replies (handleTask now (MsgCommitsLoaded commits err) w) = wk_replies w"
  using assms
  by (auto simp: handleTask_def handleCommitsLoaded_def applyCommits_def replayStagedBuffer_def Let_def
      triggerAsyncSnapshot_def split: if_splits option.splits prod.splits)

definition sample_recovering :: symbol_worker where
  "sample_recovering = handleInit (Some 7) (handleUpdate 20 (sample_delta 15 16) sample_ready)"

definition sample_commit :: DepthCommit where
  "sample_commit = \<lparr>dc_Version = 9, dc_Asks = [], dc_Bids = [\<lparr>Price = FFin 9, Volume = FFin 1\<rparr>]\<rparr>"

lemma initWaiters_sample_ready: "initWaiters sample_ready = []" "wk_replies sample_ready = []"
  by (simp_all add: sample_ready_def run_task_def handleTask_def handleSnapshotLoaded_def notifyInitWaiters_def Let_def
      replayStagedBuffer_def sample_worker_simps sample_cfg_def deliver_def enqueue_def sample_worker_def
      newSymbolWorker_def handleUpdate_def triggerAsyncSnapshot_def is_zero_time_def)

lemma sample_recovering_simps:
  "wk_state sample_recovering = SyncStateRecovering" "initWaiters sample_recovering = [7]"
  "wk_book sample_recovering = wk_book sample_ready" "wk_cfg sample_recovering = sample_cfg"
  "stagingBuffer sample_recovering = [sample_delta 15 16]"
  by (simp_all add: sample_recovering_def handleInit_def handleUpdate_def sample_ready_simps sample_cfg_def
      worker_applyDelta_def sample_delta_def triggerAsyncRecovery_def Let_def i64_def
      initWaiters_sample_ready)

theorem commits_leave_waiters_witness:
  "wk_state (handleTask 25 (MsgCommitsLoaded [sample_commit] None) sample_recovering) = SyncStateReady \<and>
   initWaiters (handleTask 25 (MsgCommitsLoaded [sample_commit] None) sample_recovering) = [7]"
proof -
  have r: "wk_state (handleTask 25 (MsgCommitsLoaded [sample_commit] None) sample_recovering) = SyncStateReady"
    by (simp add: handleTask_def handleCommitsLoaded_def applyCommits_def Let_def worker_applyDelta_def
        sample_recovering_simps sample_ready_simps sample_cfg_def sample_commit_def i64_def)
  then show ?thesis
    using commits_leave_waiters [OF r] by (simp add: sample_recovering_simps)
qed

text \<open>
  C39: the sequence check that a ready worker makes is skipped for staged updates: where a
  gap between the book and an update sends a ready strict worker into recovery, the same
  update staged while the snapshot was loaded is applied across the gap, and the worker is
  ready with a book that misses the updates in between.
\<close>

theorem replay_ignores_gap:
  assumes "Mode (wk_cfg w) = SyncModeIncremental" "StrictSequence (wk_cfg w)"
    "0 < Version snap" "Version snap + 1 < FirstVersion d" "FirstVersion d \<le> Version d" "Version d < 2 ^ 63"
    "stagingBuffer w = []"
  shows "wk_state (handleUpdate now d (handleSnapshotLoaded now (Some snap) None w)) \<noteq> SyncStateReady \<and>
    (let w' = handleSnapshotLoaded now (Some snap) None (w\<lparr>stagingBuffer := [d]\<rparr>)
     in wk_state w' = SyncStateReady \<and> lb_version (wk_book w') = Version d)"
proof
  let ?r = "handleSnapshotLoaded now (Some snap) None w"
  have i: "i64 (Version snap + 1) = Version snap + 1" using assms(3-6) by (simp add: i64_def)
  have c: "wk_cfg ?r = wk_cfg w"
    by (simp add: handleSnapshotLoaded_def Let_def)
  have r: "wk_state ?r = SyncStateReady" "lb_version (wk_book ?r) = Version snap"
    using snapshot_loaded [OF assms(1), of now snap] assms(7) by (simp_all add: Let_def LoadSnapshot_version)
  show "wk_state (handleUpdate now d ?r) \<noteq> SyncStateReady"
    using assms(2-6) i by (simp add: handleUpdate_def r c worker_applyDelta_def triggerAsyncRecovery_def
        triggerAsyncSnapshot_def Let_def)
  show "let w' = handleSnapshotLoaded now (Some snap) None (w\<lparr>stagingBuffer := [d]\<rparr>)
     in wk_state w' = SyncStateReady \<and> lb_version (wk_book w') = Version d"
    using snapshot_loaded [of "w\<lparr>stagingBuffer := [d]\<rparr>" now snap] assms by (simp add: Let_def)
qed

theorem replay_ignores_gap_witness:
  "wk_state (handleSnapshotLoaded 11 (Some sample_snapshot) None
     (newSymbolWorker ''BTC'' sample_cfg True 5\<lparr>stagingBuffer := [sample_delta 15 16]\<rparr>)) = SyncStateReady"
  using replay_ignores_gap [of "newSymbolWorker ''BTC'' sample_cfg True 5" sample_snapshot "sample_delta 15 16" 11]
  by (simp add: newSymbolWorker_def sample_cfg_def sample_snapshot_def sample_delta_def Let_def)

end
