(* ===== verification/OrderEvents.thy ===== *)
theory OrderEvents
  imports Domain
begin

text \<open>
  \<open>internal/trading/ordermanager/common/*.go\<close> and \<open>futures/events.go\<close>: the events of the
  order pipeline. A Go struct that embeds another is a record that extends it, so the
  promoted fields are the inherited ones; a field the outer struct declares again (the price
  and volume of a submitted order) gets its own name. Go's string enums (market, strategy
  and order types, outcomes) are strings, since the code compares and stores them as such.
  An event without a \<open>RefID\<close> has the empty one. The texts of notifications are left out.
\<close>

subsection \<open>Topics and string constants\<close>

abbreviation TopicOrderIntent :: string where "TopicOrderIntent \<equiv> ''ordermanager.futures.micro.intent''"
abbreviation TopicOrderPreFlightDone :: string where "TopicOrderPreFlightDone \<equiv> ''ordermanager.futures.micro.preflight_done''"
abbreviation TopicOrderFireWindowReached :: string where "TopicOrderFireWindowReached \<equiv> ''ordermanager.futures.micro.fire_window_reached''"
abbreviation TopicOrderSubmitted :: string where "TopicOrderSubmitted \<equiv> ''ordermanager.futures.micro.submitted''"
abbreviation TopicOrderResting :: string where "TopicOrderResting \<equiv> ''ordermanager.futures.micro.resting''"
abbreviation TopicOrderTPSLDispatched :: string where "TopicOrderTPSLDispatched \<equiv> ''ordermanager.futures.micro.tpsl_dispatched''"
abbreviation TopicOrderPositionWatchReady :: string where "TopicOrderPositionWatchReady \<equiv> ''ordermanager.futures.micro.position_watch_ready''"
abbreviation TopicOrderFilled :: string where "TopicOrderFilled \<equiv> ''ordermanager.futures.micro.order_filled''"
abbreviation TopicOrderPositionClosed :: string where "TopicOrderPositionClosed \<equiv> ''ordermanager.futures.micro.position_closed''"
abbreviation TopicOrderTimeoutScheduled :: string where "TopicOrderTimeoutScheduled \<equiv> ''ordermanager.futures.micro.timeout_scheduled''"
abbreviation TopicOrderTimeoutPositionChecked :: string where "TopicOrderTimeoutPositionChecked \<equiv> ''ordermanager.futures.micro.timeout_position_checked''"
abbreviation TopicOrderOutcomeResolved :: string where "TopicOrderOutcomeResolved \<equiv> ''ordermanager.futures.micro.outcome_resolved''"
abbreviation TopicOrderTimeoutExpired :: string where "TopicOrderTimeoutExpired \<equiv> ''ordermanager.futures.micro.timeout_expired''"
abbreviation TopicOrderBailoutExecuted :: string where "TopicOrderBailoutExecuted \<equiv> ''ordermanager.futures.micro.bailout_executed''"
abbreviation TopicOrderAborted :: string where "TopicOrderAborted \<equiv> ''ordermanager.futures.micro.aborted''"
abbreviation TopicOrderCanceled :: string where "TopicOrderCanceled \<equiv> ''ordermanager.futures.micro.canceled''"
abbreviation TopicOrderCompleted :: string where "TopicOrderCompleted \<equiv> ''ordermanager.futures.micro.completed''"
abbreviation TopicOrderTradeRecord :: string where "TopicOrderTradeRecord \<equiv> ''ordermanager.trade_record''"

abbreviation StatusAborted :: string where "StatusAborted \<equiv> ''aborted''"
abbreviation StatusCompleted :: string where "StatusCompleted \<equiv> ''completed''"

type_synonym market_type = string
type_synonym strategy_type = string
type_synonym order_type = string
type_synonym order_outcome = string

abbreviation MarketTypeSpot :: market_type where "MarketTypeSpot \<equiv> ''SPOT''"
abbreviation MarketTypeFutures :: market_type where "MarketTypeFutures \<equiv> ''FUTURE''"

abbreviation OrderTypeMarket :: order_type where "OrderTypeMarket \<equiv> ''MARKET''"
abbreviation OrderTypeLimit :: order_type where "OrderTypeLimit \<equiv> ''LIMIT''"
abbreviation OrderTypePostOnly :: order_type where "OrderTypePostOnly \<equiv> ''POST_ONLY''"
abbreviation OrderTypeIOC :: order_type where "OrderTypeIOC \<equiv> ''IOC''"
abbreviation OrderTypeFOK :: order_type where "OrderTypeFOK \<equiv> ''FOK''"

abbreviation OutcomeFilled :: order_outcome where "OutcomeFilled \<equiv> ''filled''"
abbreviation OutcomePartiallyFilled :: order_outcome where "OutcomePartiallyFilled \<equiv> ''partial_filled''"
abbreviation OutcomeCanceledNoFill :: order_outcome where "OutcomeCanceledNoFill \<equiv> ''canceled_no_fill''"
abbreviation OutcomeCanceled :: order_outcome where "OutcomeCanceled \<equiv> ''canceled''"
abbreviation OutcomeAborted :: order_outcome where "OutcomeAborted \<equiv> ''aborted''"
abbreviation OutcomeBailout :: order_outcome where "OutcomeBailout \<equiv> ''bailout''"
abbreviation OutcomeResting :: order_outcome where "OutcomeResting \<equiv> ''resting''"
abbreviation OutcomeRejected :: order_outcome where "OutcomeRejected \<equiv> ''rejected''"
abbreviation OutcomeUnknown :: order_outcome where "OutcomeUnknown \<equiv> ''unknown''"

definition order_type_ToDomain :: "order_type \<Rightarrow> ExOrderType" where
  "order_type_ToDomain t =
     (if t = OrderTypeMarket then ExMarket else if t = OrderTypeLimit then ExLimit
      else if t = OrderTypePostOnly then ExPostOnly else if t = OrderTypeIOC then ExIOC
      else if t = OrderTypeFOK then ExFOK else ExLimit)"

definition IsMaker :: "order_type \<Rightarrow> bool" where
  "IsMaker t \<longleftrightarrow> t = OrderTypePostOnly \<or> t = OrderTypeLimit"

definition IsTaker :: "order_type \<Rightarrow> bool" where
  "IsTaker t \<longleftrightarrow> t = OrderTypeIOC \<or> t = OrderTypeMarket \<or> t = OrderTypeFOK"

text \<open>The values of the \<open>Extra\<close> maps.\<close>

datatype any_value = AnyInt64 int | AnyFloat float64 | AnyString string | AnyBool bool | AnyNil

type_synonym extra_map = "(string \<times> any_value) list"

subsection \<open>The event structs\<close>

record base_event =
  ReqID :: string
  RefID :: string
  ClientOrderID :: string
  AccountID :: string
  Symbol :: string
  Exchange :: string
  MarketType :: market_type
  StrategyType :: strategy_type
  PreTopic :: string
  NextTopic :: string
  Timestamp :: gtime

record intent_event = base_event +
  it_Side :: Side
  it_OrderType :: order_type
  it_Price :: float64
  it_Volume :: float64
  it_ContractSize :: float64
  it_MarginMode :: MarginMode
  it_PositionMode :: PositionMode
  it_Leverage :: int
  it_MarginUSDT :: float64
  it_FundingRate :: float64
  it_Vol24hUSDT :: float64
  it_TakeProfitPrice :: float64
  it_StopLossPrice :: float64
  it_PositionCloseTimeout :: duration
  it_UnfilledCancelTimeout :: duration
  it_SkipPreFlight :: bool
  it_SkipRateLimit :: bool
  it_EnablePnLTrailing :: bool
  it_PnLTrailingDropPct :: float64
  it_PnLTrailingConfirmTicks :: int
  it_FireTime :: gtime
  it_MaxLatency :: duration
  it_SettleTime :: "gtime option"
  it_Extra :: extra_map

record preflight_event = intent_event +
  pf_AdjustedLeverage :: int
  pf_PreFlightDoneAt :: gtime

record watch_ready_event = preflight_event +
  wr_Timeout :: duration
  wr_WatchReadyAt :: gtime

record fire_window_event = watch_ready_event +
  fw_FireWindowReachedAt :: gtime

record submitted_event = fire_window_event +
  sb_OrderID :: string
  sb_Price :: float64
  sb_Volume :: float64
  sb_TPSLSubmitted :: bool
  sb_SubmittedAt :: gtime

record tpsl_event = base_event +
  td_TakeProfitPrice :: float64
  td_StopLossPrice :: float64
  td_DispatchedAt :: gtime

record resting_event = base_event +
  rs_OrderID :: string
  rs_Price :: float64
  rs_Volume :: float64
  rs_RestingAt :: gtime

record filled_event = base_event +
  fl_Side :: Side
  fl_FillPrice :: float64
  fl_FillVolContract :: float64
  fl_FillVolCoin :: float64
  fl_VolumeUSDT :: float64
  fl_SlippagePct :: float64
  fl_FilledAt :: gtime

record position_closed_event = base_event +
  pc_EntryPrice :: float64
  pc_ClosePrice :: float64
  pc_CloseVolContract :: float64
  pc_CloseVolCoin :: float64
  pc_Reason :: string
  pc_GrossProfit :: float64
  pc_NetProfit :: float64
  pc_PnLPct :: float64
  pc_VolumeUSDT :: float64
  pc_Fee :: float64
  pc_FundingFee :: float64
  pc_HoldDurationMs :: int
  pc_Method :: string

record timeout_scheduled_event = base_event +
  ts_Duration :: duration
  ts_ScheduledAt :: gtime

record timeout_checked_event = base_event +
  tc_Timeout :: duration
  tc_HoldVol :: float64
  tc_Error :: string
  tc_CheckedAt :: gtime

record outcome_event = base_event +
  oc_Outcome :: order_outcome
  oc_FilledVol :: float64
  oc_AvgPrice :: float64
  oc_Reason :: string
  oc_ResolvedAt :: gtime

record timeout_expired_event = base_event +
  te_HoldVol :: float64
  te_ExpiredAt :: gtime

record bailout_event = base_event +
  bo_Side :: Side
  bo_Volume :: float64
  bo_ExitPrice :: float64
  bo_CloseRetryCount :: int
  bo_Reason :: string
  bo_ExecutedAt :: gtime

record aborted_event = base_event +
  ab_OrderID :: string
  ab_Reason :: string
  ab_Error :: string
  ab_AbortedAt :: gtime

record canceled_event = base_event +
  cn_OrderID :: string
  cn_Reason :: string
  cn_CanceledAt :: gtime

record completed_event = base_event +
  cm_Side :: Side
  cm_OrderID :: string
  cm_Outcome :: order_outcome
  cm_EntryPrice :: float64
  cm_ExitPrice :: float64
  cm_CloseVolContract :: float64
  cm_CloseVolCoin :: float64
  cm_VolumeUSDT :: float64
  cm_ContractSize :: float64
  cm_GrossProfit :: float64
  cm_NetProfit :: float64
  cm_PnLPct :: float64
  cm_Fee :: float64
  cm_FundingFee :: float64
  cm_FundingRate :: float64
  cm_Vol24hUSDT :: float64
  cm_HoldDurationMs :: int
  cm_CloseRetryCount :: int
  cm_Reason :: string
  cm_SettleTime :: "gtime option"
  cm_Extra :: extra_map
  cm_CompletedAt :: gtime

text \<open>
  \<open>OrderTradeRecordEvent\<close>: its own \<open>ClientOrderID\<close> and \<open>MarketType\<close> are the fields
  \<open>r_ClientOrderID\<close> and \<open>r_MarketType\<close>; the inherited ones are those of its base.
\<close>

record trade_record = base_event +
  r_ClientOrderID :: string
  r_ExchangeOrderID :: string
  r_NormalizedSymbol :: string
  r_MarketType :: string
  r_Side :: string
  r_MarginUSDT :: float64
  r_Leverage :: int
  r_LatencyRTTMs :: int
  r_ActualSlippage :: float64
  r_OrderType :: string
  r_EntryPrice :: float64
  r_ExitPrice :: float64
  r_OrderVol :: float64
  r_FillVolContract :: float64
  r_FillVolCoin :: float64
  r_CloseVolContract :: float64
  r_CloseVolCoin :: float64
  r_ContractSize :: float64
  r_NotionalUSD :: float64
  r_GrossPnL :: float64
  r_NetPnL :: float64
  r_PnLPct :: float64
  r_Fee :: float64
  r_FundingFee :: float64
  r_HoldDurationMs :: int
  r_CloseRetryCount :: int
  r_ForceCloseAttempted :: bool
  r_ForceCloseSucceeded :: bool
  r_Outcome :: string
  r_Status :: string
  r_Reason :: string
  r_RecordedAt :: gtime
  r_FireAt :: "gtime option"
  r_SettleTime :: "gtime option"
  r_Extra :: extra_map

datatype order_event =
  IntentEv intent_event
| PreFlightEv preflight_event
| WatchReadyEv watch_ready_event
| FireWindowEv fire_window_event
| SubmittedEv submitted_event
| TPSLEv tpsl_event
| RestingEv resting_event
| FilledEv filled_event
| PositionClosedEv position_closed_event
| TimeoutScheduledEv timeout_scheduled_event
| TimeoutCheckedEv timeout_checked_event
| OutcomeEv outcome_event
| TimeoutExpiredEv timeout_expired_event
| BailoutEv bailout_event
| AbortedEv aborted_event
| CanceledEv canceled_event
| CompletedEv completed_event
| TradeRecordEv trade_record

subsection \<open>The methods every event has\<close>

text \<open>The embedded base struct, from which the \<open>Get...\<close> methods read.\<close>

fun ev_base :: "order_event \<Rightarrow> base_event" where
  "ev_base (IntentEv e) = base_event.truncate e"
| "ev_base (PreFlightEv e) = base_event.truncate e"
| "ev_base (WatchReadyEv e) = base_event.truncate e"
| "ev_base (FireWindowEv e) = base_event.truncate e"
| "ev_base (SubmittedEv e) = base_event.truncate e"
| "ev_base (TPSLEv e) = base_event.truncate e"
| "ev_base (RestingEv e) = base_event.truncate e"
| "ev_base (FilledEv e) = base_event.truncate e"
| "ev_base (PositionClosedEv e) = base_event.truncate e"
| "ev_base (TimeoutScheduledEv e) = base_event.truncate e"
| "ev_base (TimeoutCheckedEv e) = base_event.truncate e"
| "ev_base (OutcomeEv e) = base_event.truncate e"
| "ev_base (TimeoutExpiredEv e) = base_event.truncate e"
| "ev_base (BailoutEv e) = base_event.truncate e"
| "ev_base (AbortedEv e) = base_event.truncate e"
| "ev_base (CanceledEv e) = base_event.truncate e"
| "ev_base (CompletedEv e) = base_event.truncate e"
| "ev_base (TradeRecordEv e) = base_event.truncate e"

definition GetReqID :: "order_event \<Rightarrow> string" where "GetReqID e = ReqID (ev_base e)"
definition GetClientOrderID :: "order_event \<Rightarrow> string" where "GetClientOrderID e = ClientOrderID (ev_base e)"
definition GetAccountID :: "order_event \<Rightarrow> string" where "GetAccountID e = AccountID (ev_base e)"
definition GetSymbol :: "order_event \<Rightarrow> string" where "GetSymbol e = Symbol (ev_base e)"
definition GetExchange :: "order_event \<Rightarrow> string" where "GetExchange e = Exchange (ev_base e)"
definition GetMarketType :: "order_event \<Rightarrow> market_type" where "GetMarketType e = MarketType (ev_base e)"
definition GetStrategyType :: "order_event \<Rightarrow> strategy_type" where "GetStrategyType e = StrategyType (ev_base e)"
definition GetPreTopic :: "order_event \<Rightarrow> string" where "GetPreTopic e = PreTopic (ev_base e)"
definition GetNextTopic :: "order_event \<Rightarrow> string" where "GetNextTopic e = NextTopic (ev_base e)"
definition GetTimestamp :: "order_event \<Rightarrow> gtime" where "GetTimestamp e = Timestamp (ev_base e)"

lemmas getter_defs = GetReqID_def GetClientOrderID_def GetAccountID_def GetSymbol_def
  GetExchange_def GetMarketType_def GetStrategyType_def GetPreTopic_def GetNextTopic_def
  GetTimestamp_def

fun GetTopic :: "order_event \<Rightarrow> string" where
  "GetTopic (IntentEv _) = TopicOrderIntent"
| "GetTopic (PreFlightEv _) = TopicOrderPreFlightDone"
| "GetTopic (WatchReadyEv _) = TopicOrderPositionWatchReady"
| "GetTopic (FireWindowEv _) = TopicOrderFireWindowReached"
| "GetTopic (SubmittedEv _) = TopicOrderSubmitted"
| "GetTopic (TPSLEv _) = TopicOrderTPSLDispatched"
| "GetTopic (RestingEv _) = TopicOrderResting"
| "GetTopic (FilledEv _) = TopicOrderFilled"
| "GetTopic (PositionClosedEv _) = TopicOrderPositionClosed"
| "GetTopic (TimeoutScheduledEv _) = TopicOrderTimeoutScheduled"
| "GetTopic (TimeoutCheckedEv _) = TopicOrderTimeoutPositionChecked"
| "GetTopic (OutcomeEv _) = TopicOrderOutcomeResolved"
| "GetTopic (TimeoutExpiredEv _) = TopicOrderTimeoutExpired"
| "GetTopic (BailoutEv _) = TopicOrderBailoutExecuted"
| "GetTopic (AbortedEv _) = TopicOrderAborted"
| "GetTopic (CanceledEv _) = TopicOrderCanceled"
| "GetTopic (CompletedEv _) = TopicOrderCompleted"
| "GetTopic (TradeRecordEv _) = TopicOrderTradeRecord"

fun ShouldNotify :: "order_event \<Rightarrow> bool" where
  "ShouldNotify (SubmittedEv _) = True"
| "ShouldNotify (AbortedEv _) = True"
| "ShouldNotify (CompletedEv _) = True"
| "ShouldNotify _ = False"

fun DeduplicateKey :: "order_event \<Rightarrow> string" where
  "DeduplicateKey (OutcomeEv e) = ReqID e @ ''-'' @ NextTopic e @ ''-'' @ oc_Outcome e"
| "DeduplicateKey (TradeRecordEv e) =
     (if NextTopic e \<noteq> '''' then ReqID e @ ''-'' @ NextTopic e else ReqID e @ ''-'' @ StrategyType e)"
| "DeduplicateKey e = GetReqID e @ ''-'' @ GetNextTopic e"

subsection \<open>The symbol without its quote currency\<close>

definition GetNormalizedSymbol :: "string \<Rightarrow> string" where
  "GetNormalizedSymbol symbol =
     (let s = foldl (\<lambda>s p. replace_all p '''' s) (to_upper (trim_space symbol))
          [''-USDT-SWAP'', ''-USDT-PERPETUAL'', ''-SWAP-USDT'', ''_USDT'', ''-USDT'', ''USDTM'',
           ''USDT'', ''_USD'', ''-USD'', ''USD'']
      in if s = ''H'' then ''HOME'' else s)"

end
