(* ===== verification/OrderAggregate.thy ===== *)
theory OrderAggregate
  imports OrderEvents
begin

text \<open>
  \<open>internal/trading/ordermanager/futures/aggregate.go\<close>: the event-sourced state of one
  order. The aggregate holds the recorded events and a lifecycle state that only moves to
  states of at least its rank; its getters scan the events for the first that knows the
  answer, and the trade record is a fold over them. The list of events never holds a nil
  event, since \<open>Record\<close> refuses one and \<open>Replay\<close> skips it.
\<close>

subsection \<open>State and getters\<close>

datatype lifecycle_state =
  StateUnset | StateInit | StatePreFlightDone | StateFireWindow | StatePositionWatchReady
| StateSubmitted | StateResting | StateTPSLDispatched | StateTimeoutScheduled | StateFilled
| StatePositionClosed | StateOutcomeResolved | StateTimeoutChecked | StateBailout
| StateAborted | StateCanceled | StateCompleted

record aggregate =
  ag_reqID :: string
  ag_state :: lifecycle_state
  ag_version :: int
  ag_events :: "order_event list"

definition NewOrderExecutionAggregate :: "string \<Rightarrow> aggregate" where
  "NewOrderExecutionAggregate reqID =
     \<lparr>ag_reqID = reqID, ag_state = StateInit, ag_version = 0, ag_events = []\<rparr>"

definition agg_ReqID :: "aggregate \<Rightarrow> string" where
  "agg_ReqID a = (if ag_reqID a \<noteq> '''' then ag_reqID a
     else first_hit (\<lambda>e. non_empty (GetReqID e)) '''' (ag_events a))"

definition agg_RefID :: "aggregate \<Rightarrow> string" where
  "agg_RefID a = first_hit (\<lambda>e. case e of IntentEv i \<Rightarrow> non_empty (RefID i) | _ \<Rightarrow> None) ''''
     (ag_events a)"

definition agg_ClientOrderID :: "aggregate \<Rightarrow> string" where
  "agg_ClientOrderID a = first_hit (\<lambda>e. non_empty (GetClientOrderID e)) (ag_reqID a) (ag_events a)"

definition agg_OrderID :: "aggregate \<Rightarrow> string" where
  "agg_OrderID a = first_hit (\<lambda>e. case e of
       SubmittedEv s \<Rightarrow> non_empty (sb_OrderID s)
     | CompletedEv c \<Rightarrow> non_empty (cm_OrderID c)
     | AbortedEv b \<Rightarrow> non_empty (ab_OrderID b)
     | CanceledEv c \<Rightarrow> non_empty (cn_OrderID c)
     | _ \<Rightarrow> None) '''' (ag_events a)"

definition agg_Symbol :: "aggregate \<Rightarrow> string" where
  "agg_Symbol a = first_hit (\<lambda>e. non_empty (GetSymbol e)) '''' (ag_events a)"

definition agg_Exchange :: "aggregate \<Rightarrow> string" where
  "agg_Exchange a = first_hit (\<lambda>e. non_empty (GetExchange e)) '''' (ag_events a)"

definition agg_AccountID :: "aggregate \<Rightarrow> string" where
  "agg_AccountID a = first_hit (\<lambda>e. non_empty (GetAccountID e)) '''' (ag_events a)"

definition agg_MarketType :: "aggregate \<Rightarrow> market_type" where
  "agg_MarketType a = first_hit (\<lambda>e. non_empty (GetMarketType e)) MarketTypeFutures (ag_events a)"

definition agg_StrategyType :: "aggregate \<Rightarrow> strategy_type" where
  "agg_StrategyType a = first_hit (\<lambda>e. non_empty (GetStrategyType e)) '''' (ag_events a)"

definition agg_Side :: "aggregate \<Rightarrow> Side" where
  "agg_Side a = first_hit (\<lambda>e. case e of IntentEv i \<Rightarrow> Some (it_Side i) | _ \<Rightarrow> None) SideUnknown
     (ag_events a)"

definition pos_float :: "float64 \<Rightarrow> float64 option" where
  "pos_float x = (if f_pos x then Some x else None)"

definition pos_int :: "int \<Rightarrow> int option" where
  "pos_int n = (if 0 < n then Some n else None)"

definition agg_ContractSize :: "aggregate \<Rightarrow> float64" where
  "agg_ContractSize a = first_hit (\<lambda>e. case e of
       IntentEv i \<Rightarrow> pos_float (it_ContractSize i)
     | SubmittedEv s \<Rightarrow> pos_float (it_ContractSize s)
     | CompletedEv c \<Rightarrow> pos_float (cm_ContractSize c)
     | _ \<Rightarrow> None) (FFin 1) (ag_events a)"

definition agg_FillVolContract :: "aggregate \<Rightarrow> float64" where
  "agg_FillVolContract a = first_hit (\<lambda>e. case e of
       FilledEv f \<Rightarrow> pos_float (fl_FillVolContract f)
     | PositionClosedEv p \<Rightarrow> pos_float (pc_CloseVolContract p)
     | OutcomeEv p \<Rightarrow> pos_float (oc_FilledVol p)
     | _ \<Rightarrow> None) f0 (ag_events a)"

definition agg_FillVolCoin :: "aggregate \<Rightarrow> float64" where
  "agg_FillVolCoin a = first_hit (\<lambda>e. case e of
       FilledEv f \<Rightarrow> pos_float (fl_FillVolCoin f)
     | PositionClosedEv p \<Rightarrow> pos_float (pc_CloseVolCoin p)
     | _ \<Rightarrow> None) f0 (ag_events a)"

definition agg_EntryPrice :: "aggregate \<Rightarrow> float64" where
  "agg_EntryPrice a = first_hit (\<lambda>e. case e of
       FilledEv f \<Rightarrow> pos_float (fl_FillPrice f)
     | PositionClosedEv p \<Rightarrow> pos_float (pc_EntryPrice p)
     | OutcomeEv p \<Rightarrow> pos_float (oc_AvgPrice p)
     | _ \<Rightarrow> None) f0 (ag_events a)"

definition agg_PositionMode :: "aggregate \<Rightarrow> PositionMode" where
  "agg_PositionMode a = first_hit (\<lambda>e. case e of
       IntentEv i \<Rightarrow> (if it_PositionMode i \<noteq> 0 then Some (it_PositionMode i) else None)
     | SubmittedEv s \<Rightarrow> (if it_PositionMode s \<noteq> 0 then Some (it_PositionMode s) else None)
     | _ \<Rightarrow> None) PositionModeHedge (ag_events a)"

definition agg_Leverage :: "aggregate \<Rightarrow> int" where
  "agg_Leverage a = first_hit (\<lambda>e. case e of
       IntentEv i \<Rightarrow> pos_int (it_Leverage i)
     | PreFlightEv p \<Rightarrow> pos_int (pf_AdjustedLeverage p)
     | SubmittedEv s \<Rightarrow> pos_int (it_Leverage s)
     | _ \<Rightarrow> None) 1 (ag_events a)"

definition agg_OrderType :: "aggregate \<Rightarrow> order_type" where
  "agg_OrderType a = first_hit (\<lambda>e. case e of
       IntentEv i \<Rightarrow> non_empty (it_OrderType i)
     | SubmittedEv s \<Rightarrow> non_empty (it_OrderType s)
     | _ \<Rightarrow> None) '''' (ag_events a)"

definition agg_PositionCloseTimeout :: "aggregate \<Rightarrow> duration" where
  "agg_PositionCloseTimeout a = first_hit (\<lambda>e. case e of
       IntentEv i \<Rightarrow> pos_int (it_PositionCloseTimeout i)
     | SubmittedEv s \<Rightarrow> pos_int (it_PositionCloseTimeout s)
     | TimeoutScheduledEv t \<Rightarrow> pos_int (ts_Duration t)
     | _ \<Rightarrow> None) 0 (ag_events a)"

definition agg_UnfilledCancelTimeout :: "aggregate \<Rightarrow> duration" where
  "agg_UnfilledCancelTimeout a = first_hit (\<lambda>e. case e of
       IntentEv i \<Rightarrow> pos_int (it_UnfilledCancelTimeout i)
     | SubmittedEv s \<Rightarrow> pos_int (it_UnfilledCancelTimeout s)
     | _ \<Rightarrow> None) 0 (ag_events a)"

definition agg_EnablePnLTrailing :: "aggregate \<Rightarrow> bool" where
  "agg_EnablePnLTrailing a =
     list_ex (\<lambda>e. case e of IntentEv i \<Rightarrow> it_EnablePnLTrailing i | _ \<Rightarrow> False) (ag_events a)"

definition agg_PnLTrailingDropPct :: "aggregate \<Rightarrow> float64" where
  "agg_PnLTrailingDropPct a = first_hit (\<lambda>e. case e of
       IntentEv i \<Rightarrow> pos_float (it_PnLTrailingDropPct i) | _ \<Rightarrow> None) f0 (ag_events a)"

definition agg_PnLTrailingConfirmTicks :: "aggregate \<Rightarrow> int" where
  "agg_PnLTrailingConfirmTicks a = first_hit (\<lambda>e. case e of
       IntentEv i \<Rightarrow> pos_int (it_PnLTrailingConfirmTicks i) | _ \<Rightarrow> None) 2 (ag_events a)"

subsection \<open>The state machine\<close>

fun stateRank :: "lifecycle_state \<Rightarrow> int" where
  "stateRank StateInit = 1"
| "stateRank StatePreFlightDone = 2"
| "stateRank StatePositionWatchReady = 3"
| "stateRank StateFireWindow = 4"
| "stateRank StateSubmitted = 5"
| "stateRank StateResting = 6"
| "stateRank StateTPSLDispatched = 7"
| "stateRank StateTimeoutScheduled = 7"
| "stateRank StateFilled = 8"
| "stateRank StateOutcomeResolved = 8"
| "stateRank StateTimeoutChecked = 9"
| "stateRank StateBailout = 10"
| "stateRank StatePositionClosed = 10"
| "stateRank StateCompleted = 11"
| "stateRank StateAborted = 11"
| "stateRank StateCanceled = 11"
| "stateRank StateUnset = 0"

fun resolvePreExecutionNextState :: "order_event \<Rightarrow> lifecycle_state" where
  "resolvePreExecutionNextState (IntentEv _) = StateInit"
| "resolvePreExecutionNextState (PreFlightEv _) = StatePreFlightDone"
| "resolvePreExecutionNextState (WatchReadyEv _) = StatePositionWatchReady"
| "resolvePreExecutionNextState (FireWindowEv _) = StateFireWindow"
| "resolvePreExecutionNextState _ = StateUnset"

fun resolveExecutionNextState :: "order_event \<Rightarrow> lifecycle_state" where
  "resolveExecutionNextState (SubmittedEv _) = StateSubmitted"
| "resolveExecutionNextState (RestingEv _) = StateResting"
| "resolveExecutionNextState (TPSLEv _) = StateTPSLDispatched"
| "resolveExecutionNextState (TimeoutScheduledEv _) = StateTimeoutScheduled"
| "resolveExecutionNextState (FilledEv _) = StateFilled"
| "resolveExecutionNextState (PositionClosedEv _) = StatePositionClosed"
| "resolveExecutionNextState (OutcomeEv e) =
     (if oc_Outcome e = OutcomeResting then StateResting else StateOutcomeResolved)"
| "resolveExecutionNextState (TimeoutCheckedEv _) = StateTimeoutChecked"
| "resolveExecutionNextState _ = StateUnset"

fun resolveTerminalNextState :: "order_event \<Rightarrow> lifecycle_state" where
  "resolveTerminalNextState (BailoutEv _) = StateBailout"
| "resolveTerminalNextState (CompletedEv _) = StateCompleted"
| "resolveTerminalNextState (AbortedEv _) = StateAborted"
| "resolveTerminalNextState (CanceledEv _) = StateCanceled"
| "resolveTerminalNextState _ = StateUnset"

definition resolveEventNextState :: "order_event \<Rightarrow> lifecycle_state" where
  "resolveEventNextState e =
     (if resolvePreExecutionNextState e \<noteq> StateUnset then resolvePreExecutionNextState e
      else if resolveExecutionNextState e \<noteq> StateUnset then resolveExecutionNextState e
      else resolveTerminalNextState e)"

definition applyLocked :: "order_event \<Rightarrow> aggregate \<Rightarrow> aggregate" where
  "applyLocked e a =
     (let next = resolveEventNextState e in
      a\<lparr>ag_state := (if stateRank (ag_state a) \<le> stateRank next then next else ag_state a),
        ag_version := i64 (ag_version a + 1)\<rparr>)"

datatype agg_error = NilEvent

definition agg_Apply :: "order_event option \<Rightarrow> aggregate \<Rightarrow> agg_error + aggregate" where
  "agg_Apply evt a = (case evt of None \<Rightarrow> Inl NilEvent | Some e \<Rightarrow> Inr (applyLocked e a))"

definition record_event :: "order_event \<Rightarrow> aggregate \<Rightarrow> aggregate" where
  "record_event e a = (let a1 = applyLocked e a in a1\<lparr>ag_events := ag_events a1 @ [e]\<rparr>)"

definition agg_Record :: "order_event option \<Rightarrow> aggregate \<Rightarrow> agg_error + aggregate" where
  "agg_Record evt a = (case evt of None \<Rightarrow> Inl NilEvent | Some e \<Rightarrow> Inr (record_event e a))"

definition agg_Handle :: "order_event option \<Rightarrow> aggregate \<Rightarrow> agg_error + aggregate \<times> order_event list" where
  "agg_Handle evt a = (case evt of None \<Rightarrow> Inl NilEvent | Some e \<Rightarrow> Inr (record_event e a, [e]))"

definition agg_Replay :: "order_event option list \<Rightarrow> aggregate \<Rightarrow> aggregate" where
  "agg_Replay events a =
     foldl (\<lambda>a evt. case evt of None \<Rightarrow> a | Some e \<Rightarrow> record_event e a)
       (a\<lparr>ag_state := StateInit, ag_version := 0, ag_events := []\<rparr>) events"

definition ClearUncommittedEvents :: "aggregate \<Rightarrow> aggregate" where
  "ClearUncommittedEvents a = a\<lparr>ag_events := []\<rparr>"

fun is_submitted_ev :: "order_event \<Rightarrow> bool" where
  "is_submitted_ev (SubmittedEv _) = True" | "is_submitted_ev _ = False"

fun is_fill_ev :: "order_event \<Rightarrow> bool" where
  "is_fill_ev (FilledEv _) = True"
| "is_fill_ev (OutcomeEv e) = (oc_Outcome e = OutcomeFilled \<or> oc_Outcome e = OutcomePartiallyFilled)"
| "is_fill_ev (PositionClosedEv _) = True"
| "is_fill_ev _ = False"

definition HasSubmitted :: "aggregate \<Rightarrow> bool" where
  "HasSubmitted a \<longleftrightarrow> stateRank StateSubmitted \<le> stateRank (ag_state a) \<or>
     list_ex is_submitted_ev (ag_events a)"

definition HasFilled :: "aggregate \<Rightarrow> bool" where
  "HasFilled a \<longleftrightarrow> ag_state a = StateFilled \<or> ag_state a = StatePositionClosed \<or>
     list_ex is_fill_ev (ag_events a)"

definition is_terminal :: "lifecycle_state \<Rightarrow> bool" where
  "is_terminal s \<longleftrightarrow> s = StateCompleted \<or> s = StateAborted \<or> s = StateCanceled"

subsection \<open>The trade record\<close>

definition empty_record :: trade_record where
  "empty_record =
     \<lparr>ReqID = '''', RefID = '''', ClientOrderID = '''', AccountID = '''', Symbol = '''',
      Exchange = '''', MarketType = '''', StrategyType = '''', PreTopic = '''', NextTopic = '''',
      Timestamp = 0, r_ClientOrderID = '''', r_ExchangeOrderID = '''', r_NormalizedSymbol = '''',
      r_MarketType = '''', r_Side = '''', r_MarginUSDT = f0, r_Leverage = 0, r_LatencyRTTMs = 0,
      r_ActualSlippage = f0, r_OrderType = '''', r_EntryPrice = f0, r_ExitPrice = f0,
      r_OrderVol = f0, r_FillVolContract = f0, r_FillVolCoin = f0, r_CloseVolContract = f0,
      r_CloseVolCoin = f0, r_ContractSize = f0, r_NotionalUSD = f0, r_GrossPnL = f0,
      r_NetPnL = f0, r_PnLPct = f0, r_Fee = f0, r_FundingFee = f0, r_HoldDurationMs = 0,
      r_CloseRetryCount = 0, r_ForceCloseAttempted = False, r_ForceCloseSucceeded = False,
      r_Outcome = '''', r_Status = '''', r_Reason = '''', r_RecordedAt = 0, r_FireAt = None,
      r_SettleTime = None, r_Extra = []\<rparr>"

definition or_else :: "string \<Rightarrow> string \<Rightarrow> string" where
  "or_else new old = (if new \<noteq> '''' then new else old)"

definition applyEventBase :: "order_event \<Rightarrow> trade_record \<Rightarrow> trade_record" where
  "applyEventBase e r =
     r\<lparr>ReqID := or_else (GetReqID e) (ReqID r),
       r_ClientOrderID := or_else (GetClientOrderID e) (r_ClientOrderID r),
       ClientOrderID := or_else (GetClientOrderID e) (ClientOrderID r),
       Symbol := or_else (GetSymbol e) (Symbol r),
       r_NormalizedSymbol := (if GetSymbol e \<noteq> '''' then GetNormalizedSymbol (GetSymbol e)
                              else r_NormalizedSymbol r),
       Exchange := or_else (GetExchange e) (Exchange r),
       AccountID := or_else (GetAccountID e) (AccountID r),
       r_MarketType := or_else (GetMarketType e) (r_MarketType r),
       MarketType := or_else (GetMarketType e) (MarketType r),
       StrategyType := or_else (GetStrategyType e) (StrategyType r),
       PreTopic := or_else (GetPreTopic e) (PreTopic r),
       NextTopic := or_else (GetNextTopic e) (NextTopic r)\<rparr>"

definition pos_else :: "float64 \<Rightarrow> float64 \<Rightarrow> float64" where
  "pos_else new old = (if f_pos new then new else old)"

definition nz_else :: "float64 \<Rightarrow> float64 \<Rightarrow> float64" where
  "nz_else new old = (if f_eq new f0 then old else new)"

definition some_else :: "'a option \<Rightarrow> 'a option \<Rightarrow> 'a option" where
  "some_else new old = (case new of None \<Rightarrow> old | Some x \<Rightarrow> Some x)"

definition intent_margin :: "intent_event \<Rightarrow> float64 \<Rightarrow> float64" where
  "intent_margin e old =
     (let cs = (if f_le (it_ContractSize e) f0 then FFin 1 else it_ContractSize e) in
      if 0 < it_Leverage e \<and> f_pos (it_Price e) \<and> f_pos (it_Volume e)
      then f_div (f_mul (f_mul (it_Price e) (it_Volume e)) cs) (f_of_int (it_Leverage e))
      else old)"

definition intent_latency :: "intent_event \<Rightarrow> int \<Rightarrow> int" where
  "intent_latency e old = (case map_of (it_Extra e) ''latency_rtt_ms'' of
       Some (AnyInt64 v) \<Rightarrow> v
     | Some (AnyFloat v) \<Rightarrow> f_to_i64 v
     | _ \<Rightarrow> if 0 < it_MaxLatency e then it_MaxLatency e div millisecond else old)"

definition applyIntentPayload :: "intent_event \<Rightarrow> trade_record \<Rightarrow> trade_record" where
  "applyIntentPayload e r =
     r\<lparr>r_Side := side_String (it_Side e),
       r_OrderType := it_OrderType e,
       r_OrderVol := it_Volume e,
       r_ContractSize := pos_else (it_ContractSize e) (r_ContractSize r),
       r_Leverage := (if 0 < it_Leverage e then it_Leverage e else r_Leverage r),
       r_MarginUSDT := intent_margin e (r_MarginUSDT r),
       r_LatencyRTTMs := intent_latency e (r_LatencyRTTMs r),
       r_FireAt := (if is_zero_time (it_FireTime e) then r_FireAt r else Some (it_FireTime e)),
       r_SettleTime := some_else (it_SettleTime e) (r_SettleTime r),
       r_Extra := (if it_Extra e = [] then r_Extra r else it_Extra e)\<rparr>"

definition applyFilledPayload :: "filled_event \<Rightarrow> trade_record \<Rightarrow> trade_record" where
  "applyFilledPayload e r =
     r\<lparr>r_EntryPrice := pos_else (fl_FillPrice e) (r_EntryPrice r),
       r_FillVolContract := pos_else (fl_FillVolContract e) (r_FillVolContract r),
       r_CloseVolContract := (if f_pos (fl_FillVolContract e) \<and> f_eq (r_CloseVolContract r) f0
         then fl_FillVolContract e else r_CloseVolContract r),
       r_FillVolCoin := pos_else (fl_FillVolCoin e) (r_FillVolCoin r),
       r_CloseVolCoin := (if f_pos (fl_FillVolCoin e) \<and> f_eq (r_CloseVolCoin r) f0
         then fl_FillVolCoin e else r_CloseVolCoin r),
       r_ActualSlippage := pos_else (fl_SlippagePct e) (r_ActualSlippage r)\<rparr>"

definition applyClosedPayload :: "position_closed_event \<Rightarrow> trade_record \<Rightarrow> trade_record" where
  "applyClosedPayload e r =
     r\<lparr>r_EntryPrice := pc_EntryPrice e,
       r_ExitPrice := pc_ClosePrice e,
       r_CloseVolContract := pos_else (pc_CloseVolContract e) (r_CloseVolContract r),
       r_CloseVolCoin := pos_else (pc_CloseVolCoin e) (r_CloseVolCoin r),
       r_GrossPnL := pc_GrossProfit e,
       r_NetPnL := pc_NetProfit e,
       r_PnLPct := pc_PnLPct e,
       r_Fee := pc_Fee e,
       r_FundingFee := pc_FundingFee e,
       r_HoldDurationMs := pc_HoldDurationMs e,
       r_Reason := pc_Reason e,
       r_NotionalUSD := pos_else (pc_VolumeUSDT e) (r_NotionalUSD r)\<rparr>"

definition applyOutcomePayload :: "outcome_event \<Rightarrow> trade_record \<Rightarrow> trade_record" where
  "applyOutcomePayload e r =
     r\<lparr>r_Outcome := or_else (r_Outcome r) (oc_Outcome e),
       r_Reason := or_else (r_Reason r) (oc_Reason e),
       r_FillVolContract := (if f_pos (oc_FilledVol e) \<and> f_eq (r_FillVolContract r) f0 \<and>
           f_eq (r_FillVolCoin r) f0 then oc_FilledVol e else r_FillVolContract r)\<rparr>"

definition applyBailoutPayload :: "bailout_event \<Rightarrow> trade_record \<Rightarrow> trade_record" where
  "applyBailoutPayload e r =
     r\<lparr>r_ForceCloseAttempted := True,
       r_ForceCloseSucceeded := (f_pos (bo_ExitPrice e) \<or> bo_CloseRetryCount e < 3 \<or> r_ForceCloseSucceeded r),
       r_ExitPrice := bo_ExitPrice e,
       r_CloseRetryCount := bo_CloseRetryCount e,
       r_Reason := bo_Reason e,
       r_Outcome := OutcomeBailout,
       r_Status := StatusAborted\<rparr>"

definition applyAbortedPayload :: "aborted_event \<Rightarrow> trade_record \<Rightarrow> trade_record" where
  "applyAbortedPayload e r =
     (let reason = or_else (ab_Reason e) (r_Reason r) in
      r\<lparr>r_Outcome := or_else (r_Outcome r) OutcomeRejected,
        r_Status := StatusAborted,
        r_Reason := (if ab_Error e = '''' then reason
                     else if reason \<noteq> '''' \<and> reason \<noteq> ab_Error e then reason @ '': '' @ ab_Error e
                     else ab_Error e)\<rparr>)"

text \<open>\<open>completed_notional\<close> is the tail of \<open>applyCompletedPricingAndVolume\<close>.\<close>

definition completed_notional ::
    "float64 \<Rightarrow> float64 \<Rightarrow> float64 \<Rightarrow> float64 \<Rightarrow> float64 \<Rightarrow> float64 \<Rightarrow> float64" where
  "completed_notional volUSDT exitPrice volCoin volContract contractSize old =
     (let cs = (if f_le contractSize f0 then FFin 1 else contractSize) in
      if f_pos volUSDT then volUSDT
      else if f_pos exitPrice
      then (if f_pos volCoin then f_mul volCoin exitPrice
            else if f_pos volContract then f_mul (f_mul volContract exitPrice) cs
            else old)
      else old)"

definition applyCompletedPricingAndVolume :: "completed_event \<Rightarrow> trade_record \<Rightarrow> trade_record" where
  "applyCompletedPricingAndVolume e r =
     (let exit = pos_else (cm_ExitPrice e) (r_ExitPrice r);
          volContract = pos_else (cm_CloseVolContract e) (r_CloseVolContract r);
          volCoin = pos_else (cm_CloseVolCoin e) (r_CloseVolCoin r);
          contractSize = pos_else (cm_ContractSize e) (r_ContractSize r)
      in r\<lparr>r_ExchangeOrderID := or_else (cm_OrderID e) (r_ExchangeOrderID r),
           r_Side := or_else (side_String (cm_Side e)) (r_Side r),
           r_EntryPrice := pos_else (cm_EntryPrice e) (r_EntryPrice r),
           r_ExitPrice := exit, r_CloseVolContract := volContract, r_CloseVolCoin := volCoin,
           r_ContractSize := contractSize,
           r_NotionalUSD := completed_notional (cm_VolumeUSDT e) exit volCoin volContract
             contractSize (r_NotionalUSD r)\<rparr>)"

definition applyCompletedPnLAndFees :: "completed_event \<Rightarrow> trade_record \<Rightarrow> trade_record" where
  "applyCompletedPnLAndFees e r =
     r\<lparr>r_GrossPnL := nz_else (cm_GrossProfit e) (r_GrossPnL r),
       r_NetPnL := nz_else (cm_NetProfit e) (r_NetPnL r),
       r_PnLPct := nz_else (cm_PnLPct e) (r_PnLPct r),
       r_Fee := nz_else (cm_Fee e) (r_Fee r),
       r_FundingFee := nz_else (cm_FundingFee e) (r_FundingFee r),
       r_CloseRetryCount := (if 0 < cm_CloseRetryCount e then cm_CloseRetryCount e else r_CloseRetryCount r),
       r_Outcome := or_else (cm_Outcome e) (r_Outcome r),
       r_Reason := or_else (cm_Reason e) (r_Reason r),
       r_HoldDurationMs := (if 0 < cm_HoldDurationMs e then cm_HoldDurationMs e else r_HoldDurationMs r)\<rparr>"

definition completed_status :: "order_outcome \<Rightarrow> string \<Rightarrow> string" where
  "completed_status outcome old =
     (if outcome = OutcomeFilled \<or> outcome = OutcomePartiallyFilled \<or> outcome = OutcomeBailout \<or>
         outcome = ''completed'' then StatusCompleted
      else if outcome = OutcomeAborted \<or> outcome = OutcomeCanceledNoFill \<or> outcome = OutcomeCanceled
      then StatusAborted
      else or_else old StatusCompleted)"

definition applyCompletedPayload :: "completed_event \<Rightarrow> trade_record \<Rightarrow> trade_record" where
  "applyCompletedPayload e r0 =
     (let r = applyCompletedPnLAndFees e (applyCompletedPricingAndVolume e r0) in
      r\<lparr>r_Status := completed_status (cm_Outcome e) (r_Status r),
        r_RecordedAt := cm_CompletedAt e,
        Timestamp := cm_CompletedAt e,
        r_HoldDurationMs := cm_HoldDurationMs e,
        r_SettleTime := some_else (cm_SettleTime e) (r_SettleTime r)\<rparr>)"

fun applyEventPayload :: "order_event \<Rightarrow> trade_record \<Rightarrow> trade_record" where
  "applyEventPayload (IntentEv e) r = applyIntentPayload e r"
| "applyEventPayload (PreFlightEv e) r =
     (if 0 < pf_AdjustedLeverage e then r\<lparr>r_Leverage := pf_AdjustedLeverage e\<rparr> else r)"
| "applyEventPayload (FireWindowEv e) r =
     (if is_zero_time (fw_FireWindowReachedAt e) then r else r\<lparr>r_FireAt := Some (fw_FireWindowReachedAt e)\<rparr>)"
| "applyEventPayload (SubmittedEv e) r =
     (if sb_OrderID e \<noteq> '''' then r\<lparr>r_ExchangeOrderID := sb_OrderID e\<rparr> else r)"
| "applyEventPayload (FilledEv e) r = applyFilledPayload e r"
| "applyEventPayload (PositionClosedEv e) r = applyClosedPayload e r"
| "applyEventPayload (OutcomeEv e) r = applyOutcomePayload e r"
| "applyEventPayload (BailoutEv e) r = applyBailoutPayload e r"
| "applyEventPayload (CompletedEv e) r = applyCompletedPayload e r"
| "applyEventPayload (AbortedEv e) r = applyAbortedPayload e r"
| "applyEventPayload _ r = r"

definition record_step :: "trade_record \<Rightarrow> order_event \<Rightarrow> trade_record" where
  "record_step r e = applyEventPayload e (applyEventBase e r)"

definition BuildTradeRecord :: "aggregate \<Rightarrow> trade_record" where
  "BuildTradeRecord a =
     (foldl record_step empty_record (ag_events a))
       \<lparr>PreTopic := TopicOrderCompleted, NextTopic := TopicOrderTradeRecord\<rparr>"

subsection \<open>The lifecycle\<close>

lemma applyLocked_simps [simp]:
  "ag_reqID (applyLocked e a) = ag_reqID a" "ag_events (applyLocked e a) = ag_events a"
  "ag_version (applyLocked e a) = i64 (ag_version a + 1)"
  "ag_state (applyLocked e a) = (if stateRank (ag_state a) \<le> stateRank (resolveEventNextState e)
     then resolveEventNextState e else ag_state a)"
  by (simp_all add: applyLocked_def Let_def)

lemma record_event_simps [simp]:
  "ag_reqID (record_event e a) = ag_reqID a" "ag_events (record_event e a) = ag_events a @ [e]"
  "ag_version (record_event e a) = i64 (ag_version a + 1)"
  "ag_state (record_event e a) = (if stateRank (ag_state a) \<le> stateRank (resolveEventNextState e)
     then resolveEventNextState e else ag_state a)"
  by (simp_all add: record_event_def Let_def)

definition record_all :: "order_event list \<Rightarrow> aggregate \<Rightarrow> aggregate" where
  "record_all es a = foldl (\<lambda>a e. record_event e a) a es"

lemma record_all_simps [simp]:
  "record_all [] a = a" "record_all (e # es) a = record_all es (record_event e a)"
  "record_all (es @ fs) a = record_all fs (record_all es a)"
  by (simp_all add: record_all_def)

lemma record_all_reqID [simp]: "ag_reqID (record_all es a) = ag_reqID a"
  by (induction es arbitrary: a) simp_all

lemma record_all_events [simp]: "ag_events (record_all es a) = ag_events a @ es"
  by (induction es arbitrary: a) simp_all

lemma record_rank_mono: "stateRank (ag_state a) \<le> stateRank (ag_state (record_event e a))"
  by simp

lemma record_all_rank_mono: "stateRank (ag_state a) \<le> stateRank (ag_state (record_all es a))"
  unfolding record_all_def
  using foldl_mono_int [where g = "\<lambda>a. stateRank (ag_state a)" and f = "\<lambda>a e. record_event e a"]
    record_rank_mono by blast

lemma terminal_rank: "is_terminal s \<longleftrightarrow> stateRank s = 11"
  by (cases s) (simp_all add: is_terminal_def)

lemma stateRank_le: "stateRank s \<le> 11"
  by (cases s) simp_all

lemma i64_Suc: "i64 (i64 x + 1) = i64 (x + 1)"
  unfolding i64_def by (simp add: mod_simps algebra_simps)

lemma record_all_version: "ag_version (record_all es a) = (if es = [] then ag_version a else i64 (ag_version a + int (length es)))"
proof (induction es arbitrary: a)
  case (Cons e es)
  have "i64 (i64 (ag_version a + 1) + int (length es)) = i64 (ag_version a + 1 + int (length es))"
    unfolding i64_def by (simp add: mod_simps algebra_simps)
  with Cons show ?case by (auto simp: algebra_simps)
qed simp

lemma rank_forward:
  "stateRank (ag_state a) \<le> stateRank (ag_state (record_all es a)) \<and>
   (is_terminal (ag_state a) \<longrightarrow> is_terminal (ag_state (record_all es a)))"
  using record_all_rank_mono [of a es] stateRank_le [of "ag_state (record_all es a)"]
  by (auto simp: terminal_rank)

text \<open>
  C23: an order only moves forward in its lifecycle: however many events are recorded, in
  whatever order, the rank of the state never falls, so an order that reached a terminal
  state (completed, aborted, canceled) stays in a terminal state for ever.
\<close>

theorem lifecycle_forward:
  "stateRank (ag_state a) \<le> stateRank (ag_state (record_all es a)) \<and>
   (is_terminal (ag_state a) \<longrightarrow> is_terminal (ag_state (record_all es a)))"
  by (rule rank_forward)

text \<open>A completed order, used in the concrete instances.\<close>

definition sample_base :: base_event where
  "sample_base = \<lparr>ReqID = ''r1'', RefID = '''', ClientOrderID = ''c1'', AccountID = ''acc'',
     Symbol = ''BTC_USDT'', Exchange = ''mexc'', MarketType = MarketTypeFutures,
     StrategyType = ''GRID'', PreTopic = '''', NextTopic = '''', Timestamp = 5\<rparr>"

definition sample_canceled :: order_event where
  "sample_canceled = CanceledEv (base_event.extend sample_base
     (canceled_event.fields ''o1'' ''manual_cancel'' 9))"

definition sample_filled :: order_event where
  "sample_filled = FilledEv (base_event.extend sample_base
     (filled_event.fields SideOpenLong (FFin 100) (FFin 2) f0 f0 f0 8))"

theorem lifecycle_forward_witness:
  "is_terminal (ag_state (record_all [sample_filled] (record_all [sample_canceled] (NewOrderExecutionAggregate ''r1''))))"
proof -
  have "is_terminal (ag_state (record_all [sample_canceled] (NewOrderExecutionAggregate ''r1'')))"
    by (simp add: sample_canceled_def NewOrderExecutionAggregate_def resolveEventNextState_def is_terminal_def)
  with lifecycle_forward show ?thesis by blast
qed

lemma agg_Replay_record_all:
  "agg_Replay evts a = record_all (map the (filter (\<lambda>x. x \<noteq> None) evts))
     (a\<lparr>ag_state := StateInit, ag_version := 0, ag_events := []\<rparr>)"
proof -
  have "foldl (\<lambda>a evt. case evt of None \<Rightarrow> a | Some e \<Rightarrow> record_event e a) b evts =
    record_all (map the (filter (\<lambda>x. x \<noteq> None) evts)) b" for b
  proof (induction evts arbitrary: b)
    case (Cons x evts)
    then show ?case by (cases x) simp_all
  qed simp
  then show ?thesis by (simp add: agg_Replay_def)
qed

lemma replay_any:
  assumes "a = record_all es (NewOrderExecutionAggregate reqID)" "ag_reqID b = reqID"
    "map the (filter (\<lambda>x. x \<noteq> None) evts) = ag_events a"
  shows "agg_Replay evts b = a"
proof -
  have "b\<lparr>ag_state := StateInit, ag_version := 0, ag_events := []\<rparr> = NewOrderExecutionAggregate reqID"
    using assms(2) by (cases b) (simp add: NewOrderExecutionAggregate_def)
  with assms(1,3) show ?thesis
    by (simp add: agg_Replay_record_all) (simp add: NewOrderExecutionAggregate_def)
qed

text \<open>
  C24: event sourcing is a round trip: replaying the recorded events of an order, in a new
  or any other aggregate with the same request id, restores exactly the aggregate that
  recording them had built, nil events being skipped.
\<close>

theorem replay_restores:
  assumes "a = record_all es (NewOrderExecutionAggregate reqID)" "ag_reqID b = reqID"
    "map the (filter (\<lambda>x. x \<noteq> None) evts) = ag_events a"
  shows "agg_Replay evts b = a"
  using assms by (rule replay_any)

theorem replay_restores_witness:
  "agg_Replay [None, Some sample_filled] (record_all [sample_canceled] (NewOrderExecutionAggregate ''r1'')) =
     record_all [sample_filled] (NewOrderExecutionAggregate ''r1'')"
  by (rule replay_restores [where es = "[sample_filled]"])
     (simp_all add: NewOrderExecutionAggregate_def)

text \<open>What a recorded order knows it never forgets.\<close>

definition state_backed :: "aggregate \<Rightarrow> bool" where
  "state_backed a \<longleftrightarrow> (ag_state a = StateFilled \<or> ag_state a = StatePositionClosed \<longrightarrow>
     list_ex is_fill_ev (ag_events a))"

lemma fill_state_event:
  "resolveEventNextState e = StateFilled \<or> resolveEventNextState e = StatePositionClosed \<Longrightarrow> is_fill_ev e"
  by (cases e) (auto simp: resolveEventNextState_def split: if_splits)

lemma state_backed_record: "state_backed a \<Longrightarrow> state_backed (record_event e a)"
  using fill_state_event [of e] by (auto simp: state_backed_def)

lemma state_backed_all: "state_backed a \<Longrightarrow> state_backed (record_all es a)"
  by (induction es arbitrary: a) (simp_all add: state_backed_record)

lemma state_backed_new: "state_backed (NewOrderExecutionAggregate r)"
  by (simp add: state_backed_def NewOrderExecutionAggregate_def)

lemma facts_kept:
  assumes "a = record_all es (NewOrderExecutionAggregate reqID)"
  shows "(HasSubmitted a \<longrightarrow> HasSubmitted (record_all fs a)) \<and>
    (HasFilled a \<longrightarrow> HasFilled (record_all fs a)) \<and>
    (agg_Symbol a \<noteq> '''' \<longrightarrow> agg_Symbol (record_all fs a) = agg_Symbol a) \<and>
    (agg_Exchange a \<noteq> '''' \<longrightarrow> agg_Exchange (record_all fs a) = agg_Exchange a) \<and>
    (agg_AccountID a \<noteq> '''' \<longrightarrow> agg_AccountID (record_all fs a) = agg_AccountID a) \<and>
    (agg_OrderID a \<noteq> '''' \<longrightarrow> agg_OrderID (record_all fs a) = agg_OrderID a)"
proof -
  have keep: "first_hit f d (xs @ ys) = first_hit f d xs" if "first_hit f d xs \<noteq> d"
    for f :: "order_event \<Rightarrow> string option" and d xs ys
    using that first_hit_none [of xs f d] first_hit_Some_append by metis
  have b: "state_backed a" using assms state_backed_all state_backed_new by blast
  have s: "HasSubmitted a \<longrightarrow> HasSubmitted (record_all fs a)"
    using record_all_rank_mono [of a fs] by (auto simp: HasSubmitted_def)
  have f: "HasFilled a \<longrightarrow> HasFilled (record_all fs a)"
    using b by (auto simp: HasFilled_def state_backed_def)
  show ?thesis
    using s f by (simp add: agg_Symbol_def agg_Exchange_def agg_AccountID_def agg_OrderID_def keep)
qed

text \<open>
  The facts later handlers ask an order for are stable: once it has submitted or filled,
  and once its symbol, exchange, account or order id is known, recording more events never
  changes the answer.
\<close>

lemma facts_stable:
  assumes "a = record_all es (NewOrderExecutionAggregate reqID)"
  shows "(HasSubmitted a \<longrightarrow> HasSubmitted (record_all fs a)) \<and>
    (HasFilled a \<longrightarrow> HasFilled (record_all fs a)) \<and>
    (agg_Symbol a \<noteq> '''' \<longrightarrow> agg_Symbol (record_all fs a) = agg_Symbol a) \<and>
    (agg_Exchange a \<noteq> '''' \<longrightarrow> agg_Exchange (record_all fs a) = agg_Exchange a) \<and>
    (agg_AccountID a \<noteq> '''' \<longrightarrow> agg_AccountID (record_all fs a) = agg_AccountID a) \<and>
    (agg_OrderID a \<noteq> '''' \<longrightarrow> agg_OrderID (record_all fs a) = agg_OrderID a)"
  using assms by (rule facts_kept)

lemma facts_stable_witness:
  "HasFilled (record_all [sample_canceled] (record_all [sample_filled] (NewOrderExecutionAggregate ''r1'')))"
  using facts_stable [OF refl, of "[sample_filled]" "''r1''" "[sample_canceled]"]
  by (simp add: HasFilled_def sample_filled_def)

subsection \<open>The trade record\<close>

lemma applyEventBase_payload [simp]:
  "r_Status (applyEventBase e r) = r_Status r" "r_Outcome (applyEventBase e r) = r_Outcome r"
  "r_ForceCloseAttempted (applyEventBase e r) = r_ForceCloseAttempted r"
  "r_NetPnL (applyEventBase e r) = r_NetPnL r"
  by (simp_all add: applyEventBase_def)

lemma pos_else_idem [simp]: "pos_else x (pos_else x y) = pos_else x y"
  by (simp add: pos_else_def)

lemma nz_else_idem [simp]: "nz_else x (nz_else x y) = nz_else x y"
  by (simp add: nz_else_def)

lemma or_else_idem [simp]: "or_else x (or_else x y) = or_else x y" "or_else (or_else y x) x = or_else y x"
  by (simp_all add: or_else_def)

lemma f_pos_not_zero: "f_pos x \<Longrightarrow> \<not> f_eq x f0"
  by (cases x) auto

lemma not_f_pos_zero [simp]: "\<not> f_pos f0"
  by simp

lemma applyEventBase_idem:
  "applyEventBase e (applyEventBase e r) = applyEventBase e r"
  by (simp add: applyEventBase_def)

lemma payload_idem_helpers [simp]:
  "some_else x (some_else x y) = some_else x y"
  "intent_margin e (intent_margin e m) = intent_margin e m"
  "intent_latency e (intent_latency e n) = intent_latency e n"
  "completed_notional a b c d cs (completed_notional a b c d cs old) = completed_notional a b c d cs old"
  by (simp_all add: some_else_def intent_margin_def intent_latency_def completed_notional_def Let_def
      split: option.splits any_value.splits)

lemma completed_status_idem [simp]: "completed_status oc (completed_status oc s) = completed_status oc s"
  by (simp add: completed_status_def or_else_def)

lemma applyIntentPayload_idem: "applyIntentPayload e (applyIntentPayload e r) = applyIntentPayload e r"
  by (simp add: applyIntentPayload_def)

lemma applyFilledPayload_idem: "applyFilledPayload e (applyFilledPayload e r) = applyFilledPayload e r"
  by (simp add: applyFilledPayload_def f_pos_not_zero)

lemma applyClosedPayload_idem: "applyClosedPayload e (applyClosedPayload e r) = applyClosedPayload e r"
  by (simp add: applyClosedPayload_def)

lemma applyOutcomePayload_idem: "applyOutcomePayload e (applyOutcomePayload e r) = applyOutcomePayload e r"
  by (simp add: applyOutcomePayload_def f_pos_not_zero)

lemma applyBailoutPayload_idem: "applyBailoutPayload e (applyBailoutPayload e r) = applyBailoutPayload e r"
  by (cases "f_pos (bo_ExitPrice e) \<or> bo_CloseRetryCount e < 3") (auto simp: applyBailoutPayload_def)

lemma applyCompletedPayload_idem:
  "applyCompletedPayload e (applyCompletedPayload e r) = applyCompletedPayload e r"
  by (simp add: applyCompletedPayload_def applyCompletedPnLAndFees_def
      applyCompletedPricingAndVolume_def Let_def)

lemma applyAbortedPayload_idem:
  "ab_Reason e \<noteq> '''' \<or> ab_Error e = '''' \<Longrightarrow>
   applyAbortedPayload e (applyAbortedPayload e r) = applyAbortedPayload e r"
  by (auto simp: applyAbortedPayload_def or_else_def Let_def)

text \<open>
  An abort whose reason is empty would append its error text once more; every other event
  can be applied again without a change.
\<close>

definition repeatable :: "order_event \<Rightarrow> bool" where
  "repeatable e \<longleftrightarrow> (case e of AbortedEv b \<Rightarrow> ab_Reason b \<noteq> '''' \<or> ab_Error b = '''' | _ \<Rightarrow> True)"

lemma payload_idem:
  assumes "repeatable e"
  shows "applyEventPayload e (applyEventPayload e r) = applyEventPayload e r"
  using assms
  by (cases e) (simp_all add: repeatable_def applyIntentPayload_idem applyFilledPayload_idem
      applyClosedPayload_idem applyOutcomePayload_idem applyBailoutPayload_idem
      applyCompletedPayload_idem applyAbortedPayload_idem)

text \<open>The base and the payload of events write different fields of the record.\<close>

lemma base_commute:
  "applyIntentPayload i (applyEventBase e r) = applyEventBase e (applyIntentPayload i r)"
  "applyFilledPayload f (applyEventBase e r) = applyEventBase e (applyFilledPayload f r)"
  "applyClosedPayload p (applyEventBase e r) = applyEventBase e (applyClosedPayload p r)"
  "applyOutcomePayload u (applyEventBase e r) = applyEventBase e (applyOutcomePayload u r)"
  "applyBailoutPayload b (applyEventBase e r) = applyEventBase e (applyBailoutPayload b r)"
  by (simp_all add: applyEventBase_def applyIntentPayload_def applyFilledPayload_def
      applyClosedPayload_def applyOutcomePayload_def applyBailoutPayload_def)

lemma base_commute_aborted:
  "applyAbortedPayload b (applyEventBase e r) = applyEventBase e (applyAbortedPayload b r)"
  by (simp add: applyEventBase_def applyAbortedPayload_def Let_def)

lemma base_commute_completed:
  "applyCompletedPayload c (applyEventBase e r) = applyEventBase e (applyCompletedPayload c r)"
  by (simp add: applyEventBase_def applyCompletedPayload_def applyCompletedPnLAndFees_def
      applyCompletedPricingAndVolume_def Let_def)

lemma base_commute_field:
  "r_Leverage_update f (applyEventBase e r) = applyEventBase e (r_Leverage_update f r)"
  "r_FireAt_update g (applyEventBase e r) = applyEventBase e (r_FireAt_update g r)"
  "r_ExchangeOrderID_update h (applyEventBase e r) = applyEventBase e (r_ExchangeOrderID_update h r)"
  by (simp_all add: applyEventBase_def)

lemma payload_base_commute:
  "applyEventPayload e (applyEventBase e' r) = applyEventBase e' (applyEventPayload e r)"
  by (cases e) (simp_all add: base_commute base_commute_aborted base_commute_completed
      base_commute_field)

lemma record_step_idem: "repeatable e \<Longrightarrow> record_step (record_step r e) e = record_step r e"
  by (simp add: record_step_def payload_base_commute applyEventBase_idem payload_idem)

lemma BuildTradeRecord_snoc:
  "foldl record_step empty_record (ag_events a @ [e]) = record_step (foldl record_step empty_record (ag_events a)) e"
  by simp

text \<open>
  Delivering an event twice does not change the trade record: if the last event that was
  recorded is recorded again, the record that is built stays the same. The one exception is
  an abort without a reason but with an error text.
\<close>

lemma trade_record_redelivery:
  assumes "repeatable e"
  shows "BuildTradeRecord (record_event e (record_event e a)) = BuildTradeRecord (record_event e a)"
  using assms by (simp add: BuildTradeRecord_def record_step_idem)

lemma trade_record_redelivery_witness:
  "BuildTradeRecord (record_event sample_filled (record_event sample_filled (NewOrderExecutionAggregate ''r1''))) =
   BuildTradeRecord (record_event sample_filled (NewOrderExecutionAggregate ''r1''))"
  by (rule trade_record_redelivery) (simp add: repeatable_def sample_filled_def)

text \<open>The net profit of a record comes from the close of the position and its completion.\<close>

definition sets_pnl :: "order_event \<Rightarrow> bool" where
  "sets_pnl e \<longleftrightarrow> (case e of PositionClosedEv _ \<Rightarrow> True | CompletedEv _ \<Rightarrow> True | _ \<Rightarrow> False)"

lemma record_step_pnl:
  "r_NetPnL (record_step r e) = (case e of PositionClosedEv p \<Rightarrow> pc_NetProfit p
     | CompletedEv c \<Rightarrow> nz_else (cm_NetProfit c) (r_NetPnL r) | _ \<Rightarrow> r_NetPnL r)"
  by (cases e) (simp_all add: record_step_def applyIntentPayload_def applyFilledPayload_def
      applyClosedPayload_def applyOutcomePayload_def applyBailoutPayload_def applyAbortedPayload_def
      applyCompletedPayload_def applyCompletedPnLAndFees_def applyCompletedPricingAndVolume_def Let_def)

lemma fold_pnl_keep:
  "\<forall>e \<in> set es. \<not> sets_pnl e \<Longrightarrow> r_NetPnL (foldl record_step r es) = r_NetPnL r"
proof (induction es arbitrary: r)
  case (Cons e es)
  then show ?case by (cases e) (simp_all add: record_step_pnl sets_pnl_def)
qed simp

lemma completed_step:
  "r_Status (record_step r (CompletedEv c)) = completed_status (cm_Outcome c) (r_Status r)"
  "r_RecordedAt (record_step r (CompletedEv c)) = cm_CompletedAt c"
  "r_HoldDurationMs (record_step r (CompletedEv c)) = cm_HoldDurationMs c"
  by (simp_all add: record_step_def applyCompletedPayload_def applyCompletedPnLAndFees_def
      applyCompletedPricingAndVolume_def Let_def)

text \<open>
  The stored result of an order that closed its position and completed: its net profit
  is the one of the completion when that is not zero and otherwise the one of the close, its
  status is determined by the outcome of the completion, and it is stamped with the time of
  completion.
\<close>

lemma trade_record_settlement:
  assumes "ag_events a = pre @ [PositionClosedEv p] @ mid @ [CompletedEv c]"
    "\<forall>e \<in> set mid. \<not> sets_pnl e"
  shows "r_NetPnL (BuildTradeRecord a) =
      (if f_eq (cm_NetProfit c) f0 then pc_NetProfit p else cm_NetProfit c) \<and>
    r_RecordedAt (BuildTradeRecord a) = cm_CompletedAt c \<and>
    (cm_Outcome c = OutcomeFilled \<or> cm_Outcome c = OutcomePartiallyFilled \<or> cm_Outcome c = OutcomeBailout
       \<longrightarrow> r_Status (BuildTradeRecord a) = StatusCompleted) \<and>
    (cm_Outcome c = OutcomeAborted \<or> cm_Outcome c = OutcomeCanceled \<or> cm_Outcome c = OutcomeCanceledNoFill
       \<longrightarrow> r_Status (BuildTradeRecord a) = StatusAborted)"
  using assms(2)
  by (simp add: BuildTradeRecord_def assms(1) record_step_pnl completed_step fold_pnl_keep nz_else_def)
    (auto simp: completed_status_def)

definition sample_closed :: "position_closed_event" where
  "sample_closed = base_event.extend sample_base
     (position_closed_event.fields (FFin 100) (FFin 110) (FFin 2) f0 ''tp'' (FFin 20) (FFin 19) f0 f0
        (FFin 1) f0 1000 ''ws'')"

definition sample_completed :: "completed_event" where
  "sample_completed = base_event.extend sample_base
     (completed_event.fields SideOpenLong ''o1'' OutcomeFilled (FFin 100) (FFin 110) (FFin 2) f0 f0 (FFin 1)
        f0 f0 f0 f0 f0 f0 f0 1000 0 '''' None [] 77)"

lemma trade_record_settlement_witness:
  "r_NetPnL (BuildTradeRecord (record_all [sample_filled, PositionClosedEv sample_closed, CompletedEv sample_completed]
     (NewOrderExecutionAggregate ''r1''))) = FFin 19 \<and>
   r_Status (BuildTradeRecord (record_all [sample_filled, PositionClosedEv sample_closed, CompletedEv sample_completed]
     (NewOrderExecutionAggregate ''r1''))) = StatusCompleted"
  using trade_record_settlement [of "record_all [sample_filled, PositionClosedEv sample_closed, CompletedEv sample_completed]
     (NewOrderExecutionAggregate ''r1'')" "[sample_filled]" sample_closed "[]" sample_completed]
  by (simp add: NewOrderExecutionAggregate_def sample_closed_def sample_completed_def
      base_event.defs position_closed_event.defs completed_event.defs)

end
