(* ===== verification/OrderCalc.thy ===== *)
theory OrderCalc
  imports OrderAggregate DecMath
begin

text \<open>
  The calculations of \<open>internal/trading/ordermanager/futures/manager.go\<close> that touch neither
  the manager's state nor the exchange: floating profit and its trailing tracker, volumes,
  the requests built from events, the classification of an order's state, and the details a
  completion is assembled from. Where the source calls \<open>decmath\<close> the result is an option,
  None being the panic of the decimal library on NaN and infinities.
\<close>

subsection \<open>Volumes and floating profit\<close>

definition calculateFloatingPnL ::
    "'d dec_lib \<Rightarrow> Side \<Rightarrow> float64 \<Rightarrow> float64 \<Rightarrow> float64 \<Rightarrow> float64 \<Rightarrow> float64 \<Rightarrow> float64 option" where
  "calculateFloatingPnL L side entryPrice tradePrice volCoin volContract contractSize =
     Option.bind (if IsLong side then Sub L tradePrice entryPrice else Sub L entryPrice tradePrice)
       (\<lambda>priceDiff.
          if f_pos volCoin then Mul L priceDiff volCoin
          else Option.bind (Mul L priceDiff volContract) (\<lambda>x. Mul L x contractSize))"

definition calculateVolumeUSDT ::
    "'d dec_lib \<Rightarrow> float64 \<Rightarrow> float64 \<Rightarrow> float64 \<Rightarrow> float64 \<Rightarrow> float64 option" where
  "calculateVolumeUSDT L volCoin volContract price contractSize =
     Option.bind (Mul L volCoin price) (\<lambda>volUSDT.
       if f_eq volUSDT f0 \<and> f_pos price \<and> f_pos volContract
       then Option.bind (Mul L volContract price)
              (\<lambda>x. Mul L x (if f_le contractSize f0 then FFin 1 else contractSize))
       else Some volUSDT)"

definition normalizeVolume :: "float64 \<Rightarrow> float64 \<Rightarrow> float64 \<Rightarrow> float64 \<times> float64" where
  "normalizeVolume volContract volCoin contractSize =
     (let vc = (if f_eq volContract f0 \<and> f_pos volCoin \<and> f_pos contractSize
                then f_div volCoin contractSize else volContract);
          vn = (if f_eq volCoin f0 \<and> f_pos vc \<and> f_pos contractSize
                then f_mul vc contractSize else volCoin)
      in (vc, vn))"

definition shouldIgnoreZeroVolumeUpdate ::
    "aggregate \<Rightarrow> PersonalPositionUpdate \<Rightarrow> float64 \<Rightarrow> float64 \<Rightarrow> float64 \<Rightarrow> bool" where
  "shouldIgnoreZeroVolumeUpdate agg pos closePrice closeVolContract closeVolCoin =
     (if IsClose (agg_Side agg) then False
      else \<not> HasFilled agg \<and> f_eq (pu_CloseProfitLoss pos) f0 \<and> f_eq (pu_OpenAvgPrice pos) f0 \<and>
        f_eq closePrice f0 \<and> f_eq closeVolContract f0 \<and> f_eq closeVolCoin f0)"

text \<open>The volume still held, as the timeout guard and the bailout count it.\<close>

definition holdVolume :: "Position list \<Rightarrow> float64" where
  "holdVolume positions = foldl (\<lambda>v p.
     if f_pos (po_HoldVolContract p) then f_add v (po_HoldVolContract p)
     else if f_pos (po_HoldVolCoin p) then f_add v (po_HoldVolCoin p) else v) f0 positions"

definition sumRemainingHoldVolume :: "Position list \<Rightarrow> string \<Rightarrow> float64" where
  "sumRemainingHoldVolume positions symbol = foldl (\<lambda>remaining p.
     if symbol \<noteq> '''' \<and> po_Symbol p \<noteq> symbol then remaining
     else
       let v = (if f_eq (po_HoldVolCoin p) f0 then po_HoldVolContract p else po_HoldVolCoin p) in
       if f_pos v then f_add remaining v else remaining) f0 positions"

subsection \<open>The trailing profit tracker\<close>

record pnl_tracker =
  tk_ReqID :: string
  tk_AccountID :: string
  tk_Exchange :: string
  MaxPnL :: float64
  History :: "float64 list"

definition maxPnLHistory :: nat where
  "maxPnLHistory = 20"

definition IsConsecutiveDrop :: "float64 list \<Rightarrow> int \<Rightarrow> bool" where
  "IsConsecutiveDrop history k =
     (if int (length history) < k + 1 then False
      else list_all (\<lambda>i. \<not> f_le (history ! (i - 1)) (history ! i))
             [length history - nat k ..< length history])"

definition tracker_update :: "float64 \<Rightarrow> pnl_tracker \<Rightarrow> pnl_tracker \<times> bool" where
  "tracker_update pnl t =
     (let h = History t @ [pnl];
          h' = (if maxPnLHistory < length h then drop (length h - maxPnLHistory) h else h);
          t1 = t\<lparr>History := h'\<rparr>
      in if f_lt (MaxPnL t1) pnl then (t1\<lparr>MaxPnL := pnl\<rparr>, True) else (t1, False))"

definition dropExceeded :: "pnl_tracker \<Rightarrow> float64 \<Rightarrow> float64 \<Rightarrow> bool" where
  "dropExceeded t currentPnL threshold \<longleftrightarrow> f_pos (MaxPnL t) \<and>
     f_le threshold (f_mul (f_div (f_sub (MaxPnL t) currentPnL) (MaxPnL t)) (FFin 100))"

subsection \<open>Requests and classification\<close>

definition mapOrderType :: "order_type \<Rightarrow> ExOrderType" where
  "mapOrderType ot =
     (if ot = OrderTypePostOnly then ExPostOnly else if ot = OrderTypeIOC then ExIOC
      else if ot = OrderTypeMarket then ExMarket else ExLimit)"

definition mapOpenType :: "MarginMode \<Rightarrow> OpenType" where
  "mapOpenType mm = (if mm = MarginModeCross then OpenTypeCross else OpenTypeIsolated)"

definition buildSubmitOrderRequest :: "fire_window_event \<Rightarrow> SubmitOrderRequest" where
  "buildSubmitOrderRequest evt =
     \<lparr>so_Symbol = Symbol evt, so_Price = it_Price evt, so_Vol = it_Volume evt,
      so_Leverage = pf_AdjustedLeverage evt, so_Side = it_Side evt,
      so_Type = mapOrderType (it_OrderType evt), so_OpenType = mapOpenType (it_MarginMode evt),
      so_ExternalOID = ClientOrderID evt, so_PositionID = 0,
      so_PositionMode = it_PositionMode evt,
      so_ReduceOnly = (it_Side evt = SideCloseLong \<or> it_Side evt = SideCloseShort),
      so_FlashClose = False,
      so_StopLossPrice = it_StopLossPrice evt, so_TakeProfitPrice = it_TakeProfitPrice evt,
      so_SkipRateLimit = it_SkipRateLimit evt\<rparr>"

definition classifyOrderOutcome :: "OrderInfo option \<Rightarrow> order_outcome \<times> float64 \<times> float64" where
  "classifyOrderOutcome order = (case order of
     None \<Rightarrow> (OutcomeUnknown, f0, f0)
   | Some oi \<Rightarrow>
       ((case oi_State oi of
           OrderStateFilled \<Rightarrow> OutcomeFilled
         | OrderStatePartial \<Rightarrow> OutcomePartiallyFilled
         | OrderStatePartiallyFilled \<Rightarrow> OutcomePartiallyFilled
         | OrderStateCanceled \<Rightarrow> OutcomeCanceledNoFill
         | OrderStateNew \<Rightarrow> OutcomeResting
         | _ \<Rightarrow> OutcomeUnknown), oi_DealVol oi, oi_DealAvgPrice oi))"

definition isCancelableRestingState :: "lifecycle_state \<Rightarrow> bool" where
  "isCancelableRestingState s \<longleftrightarrow> s = StateSubmitted \<or> s = StateResting \<or> s = StateInit \<or>
     s = StatePreFlightDone \<or> s = StateFireWindow \<or> s = StatePositionWatchReady"

subsection \<open>The details of a completion\<close>

record pnl_metrics =
  pm_status :: OrderState
  pm_entryPrice :: float64
  pm_exitPrice :: float64
  pm_volume :: float64
  pm_closeVolContract :: float64
  pm_closeVolCoin :: float64
  pm_VolumeUSDT :: float64
  pm_grossPnL :: float64
  pm_netPnL :: float64
  pm_pnlPct :: float64
  pm_fee :: float64
  pm_fundingFee :: float64
  pm_holdDurationMs :: int

definition no_metrics :: pnl_metrics where
  "no_metrics =
     \<lparr>pm_status = OrderStateNew, pm_entryPrice = f0, pm_exitPrice = f0, pm_volume = f0,
      pm_closeVolContract = f0, pm_closeVolCoin = f0, pm_VolumeUSDT = f0, pm_grossPnL = f0,
      pm_netPnL = f0, pm_pnlPct = f0, pm_fee = f0, pm_fundingFee = f0, pm_holdDurationMs = 0\<rparr>"

text \<open>The metrics \<open>fetchClosedPnL\<close> reads off the exchange's answer.\<close>

definition metrics_of :: "float64 \<Rightarrow> ClosedPnLInfo \<Rightarrow> pnl_metrics" where
  "metrics_of contractSize info =
     (let (vc, vn) = normalizeVolume
            (case ci_ClosedSizeContract info of None \<Rightarrow> f0 | Some x \<Rightarrow> x)
            (case ci_ClosedSizeCoin info of None \<Rightarrow> f0 | Some x \<Rightarrow> x) contractSize
      in \<lparr>pm_status = ci_Status info, pm_entryPrice = ci_EntryPrice info,
          pm_exitPrice = ci_ExitPrice info,
          pm_volume = (if f_pos vc then vc else if f_pos vn then vn else f0),
          pm_closeVolContract = vc, pm_closeVolCoin = vn,
          pm_VolumeUSDT = f_mul vn (ci_ExitPrice info), pm_grossPnL = ci_GrossPnL info,
          pm_netPnL = ci_NetPnl info, pm_pnlPct = ci_PnLRate info, pm_fee = ci_Fee info,
          pm_fundingFee = ci_FundingFee info, pm_holdDurationMs = ci_DurationMs info\<rparr>)"

record completed_details =
  cd_refID :: string
  cd_side :: Side
  cd_fundingRate :: float64
  cd_vol24h :: float64
  cd_contractSize :: float64
  cd_extra :: extra_map
  cd_submittedAt :: gtime
  cd_settleTime :: "gtime option"
  cd_entryPrice :: float64
  cd_exitPrice :: float64
  cd_closeVolContract :: float64
  cd_closeVolCoin :: float64
  cd_VolumeUSDT :: float64
  cd_grossPnL :: float64
  cd_netPnL :: float64
  cd_pnlPct :: float64
  cd_fee :: float64
  cd_fundingFee :: float64
  cd_holdDurationMs :: int

definition no_details :: completed_details where
  "no_details =
     \<lparr>cd_refID = '''', cd_side = SideUnknown, cd_fundingRate = f0, cd_vol24h = f0,
      cd_contractSize = f0, cd_extra = [], cd_submittedAt = 0, cd_settleTime = None,
      cd_entryPrice = f0, cd_exitPrice = f0, cd_closeVolContract = f0, cd_closeVolCoin = f0,
      cd_VolumeUSDT = f0, cd_grossPnL = f0, cd_netPnL = f0, cd_pnlPct = f0, cd_fee = f0,
      cd_fundingFee = f0, cd_holdDurationMs = 0\<rparr>"

definition applyPositionClosedEvent :: "position_closed_event \<Rightarrow> completed_details \<Rightarrow> completed_details" where
  "applyPositionClosedEvent ev d =
     d\<lparr>cd_entryPrice := pos_else (pc_EntryPrice ev) (cd_entryPrice d),
       cd_exitPrice := pos_else (pc_ClosePrice ev) (cd_exitPrice d),
       cd_closeVolContract := pos_else (pc_CloseVolContract ev) (cd_closeVolContract d),
       cd_closeVolCoin := pos_else (pc_CloseVolCoin ev) (cd_closeVolCoin d),
       cd_grossPnL := nz_else (pc_GrossProfit ev) (cd_grossPnL d),
       cd_netPnL := nz_else (pc_NetProfit ev) (cd_netPnL d),
       cd_pnlPct := nz_else (pc_PnLPct ev) (cd_pnlPct d),
       cd_fee := nz_else (pc_Fee ev) (cd_fee d),
       cd_fundingFee := nz_else (pc_FundingFee ev) (cd_fundingFee d),
       cd_holdDurationMs := (if 0 < pc_HoldDurationMs ev then pc_HoldDurationMs ev else cd_holdDurationMs d),
       cd_VolumeUSDT :=
         (if f_pos (pc_VolumeUSDT ev) then pc_VolumeUSDT ev
          else if f_pos (pc_CloseVolCoin ev) \<and> f_pos (pc_ClosePrice ev)
          then f_mul (pc_CloseVolCoin ev) (pc_ClosePrice ev) else cd_VolumeUSDT d)\<rparr>"

definition zero_then :: "float64 \<Rightarrow> float64 \<Rightarrow> float64" where
  "zero_then old new = (if f_pos new \<and> f_eq old f0 then new else old)"

definition applyFilledEvent :: "filled_event \<Rightarrow> completed_details \<Rightarrow> completed_details" where
  "applyFilledEvent ev d =
     d\<lparr>cd_entryPrice := zero_then (cd_entryPrice d) (fl_FillPrice ev),
       cd_closeVolContract := zero_then (cd_closeVolContract d) (fl_FillVolContract ev),
       cd_closeVolCoin := zero_then (cd_closeVolCoin d) (fl_FillVolCoin ev),
       cd_VolumeUSDT := zero_then (cd_VolumeUSDT d) (fl_VolumeUSDT ev)\<rparr>"

definition applySubmittedEvent :: "submitted_event \<Rightarrow> completed_details \<Rightarrow> completed_details" where
  "applySubmittedEvent ev d =
     d\<lparr>cd_fundingRate := nz_else (it_FundingRate ev) (cd_fundingRate d),
       cd_vol24h := nz_else (it_Vol24hUSDT ev) (cd_vol24h d),
       cd_contractSize := nz_else (it_ContractSize ev) (cd_contractSize d),
       cd_extra := (if it_Extra ev \<noteq> [] then it_Extra ev else cd_extra d),
       cd_settleTime := some_else (cd_settleTime d) (it_SettleTime ev),
       cd_submittedAt :=
         (if \<not> is_zero_time (it_FireTime ev) then it_FireTime ev
          else if \<not> is_zero_time (sb_SubmittedAt ev) then sb_SubmittedAt ev
          else if \<not> is_zero_time (Timestamp ev) then Timestamp ev else cd_submittedAt d)\<rparr>"

definition applyIntentEvent :: "intent_event \<Rightarrow> completed_details \<Rightarrow> completed_details" where
  "applyIntentEvent ev d =
     d\<lparr>cd_refID := or_else (cd_refID d) (RefID ev),
       cd_fundingRate := nz_else (cd_fundingRate d) (it_FundingRate ev),
       cd_vol24h := nz_else (cd_vol24h d) (it_Vol24hUSDT ev),
       cd_contractSize := nz_else (cd_contractSize d) (it_ContractSize ev),
       cd_extra := (if cd_extra d = [] then it_Extra ev else cd_extra d),
       cd_settleTime := some_else (cd_settleTime d) (it_SettleTime ev),
       cd_submittedAt :=
         (if \<not> is_zero_time (it_FireTime ev) then it_FireTime ev
          else if is_zero_time (cd_submittedAt d) \<and> \<not> is_zero_time (Timestamp ev) then Timestamp ev
          else cd_submittedAt d)\<rparr>"

definition details_step :: "completed_details \<Rightarrow> order_event \<Rightarrow> completed_details" where
  "details_step d e = (case e of
     PositionClosedEv ev \<Rightarrow> applyPositionClosedEvent ev d
   | FilledEv ev \<Rightarrow> applyFilledEvent ev d
   | SubmittedEv ev \<Rightarrow> applySubmittedEvent ev d
   | IntentEv ev \<Rightarrow> applyIntentEvent ev d
   | _ \<Rightarrow> d)"

definition extractAggregateCompletedDetails :: "aggregate \<Rightarrow> completed_details" where
  "extractAggregateCompletedDetails agg =
     (let d = foldl details_step (no_details\<lparr>cd_side := agg_Side agg\<rparr>) (ag_events agg) in
      if cd_refID d = '''' then d\<lparr>cd_refID := agg_RefID agg\<rparr> else d)"

definition mergePnL :: "pnl_metrics \<Rightarrow> completed_details \<Rightarrow> completed_details" where
  "mergePnL pnl d =
     d\<lparr>cd_entryPrice := pos_else (pm_entryPrice pnl) (cd_entryPrice d),
       cd_exitPrice := pos_else (pm_exitPrice pnl) (cd_exitPrice d),
       cd_closeVolContract := pos_else (pm_closeVolContract pnl) (cd_closeVolContract d),
       cd_closeVolCoin := pos_else (pm_closeVolCoin pnl) (cd_closeVolCoin d),
       cd_VolumeUSDT := pos_else (pm_VolumeUSDT pnl) (cd_VolumeUSDT d),
       cd_grossPnL := nz_else (pm_grossPnL pnl) (cd_grossPnL d),
       cd_netPnL := nz_else (pm_netPnL pnl) (cd_netPnL d),
       cd_pnlPct := nz_else (pm_pnlPct pnl) (cd_pnlPct d),
       cd_fee := nz_else (pm_fee pnl) (cd_fee d),
       cd_fundingFee := nz_else (pm_fundingFee pnl) (cd_fundingFee d),
       cd_holdDurationMs := (if 0 < pm_holdDurationMs pnl then pm_holdDurationMs pnl
         else cd_holdDurationMs d)\<rparr>"

subsection \<open>The tracker\<close>

definition tracker_run :: "pnl_tracker \<Rightarrow> float64 list \<Rightarrow> pnl_tracker" where
  "tracker_run t ps = foldl (\<lambda>t p. fst (tracker_update p t)) t ps"

lemma tracker_run_simps [simp]:
  "tracker_run t [] = t" "tracker_run t (ps @ [p]) = fst (tracker_update p (tracker_run t ps))"
  by (simp_all add: tracker_run_def)

definition last_n :: "nat \<Rightarrow> 'a list \<Rightarrow> 'a list" where
  "last_n n xs = drop (length xs - n) xs"

lemma last_n_snoc: "last_n n (last_n n xs @ [x]) = last_n n (xs @ [x])"
  by (cases "n \<le> length xs") (auto simp: last_n_def Suc_diff_le)

lemma tracker_update_simps [simp]:
  "History (fst (tracker_update p t)) = last_n 20 (History t @ [p])"
  "MaxPnL (fst (tracker_update p t)) = (if f_lt (MaxPnL t) p then p else MaxPnL t)"
  by (simp_all add: tracker_update_def last_n_def maxPnLHistory_def Let_def)

lemma tracker_max:
  assumes "\<forall>q \<in> set qs. \<not> f_lt m q" "p \<noteq> FNaN" "m \<noteq> FNaN" "\<forall>q \<in> set qs. q \<noteq> FNaN"
  shows "\<forall>q \<in> set (qs @ [p]). \<not> f_lt (if f_lt m p then p else m) q"
  using assms f_lt_trans [of m p] by auto

text \<open>
  A tracker that started with one profit value and was fed others (none of them NaN)
  knows the peak, a value that occurred and that none of them exceeds, and keeps exactly the
  last twenty values, in order.
\<close>

lemma tracker_peak:
  assumes "MaxPnL t = p0" "History t = [p0]" "\<forall>p \<in> set (p0 # ps). p \<noteq> FNaN"
  shows "MaxPnL (tracker_run t ps) \<in> set (p0 # ps) \<and>
    (\<forall>p \<in> set (p0 # ps). \<not> f_lt (MaxPnL (tracker_run t ps)) p) \<and>
    History (tracker_run t ps) = drop (length (p0 # ps) - 20) (p0 # ps)"
  using assms(3)
proof (induction ps rule: rev_induct)
  case Nil
  then show ?case using assms(1,2) by simp
next
  case (snoc p ps)
  let ?t = "tracker_run t ps"
  have IH: "MaxPnL ?t \<in> set (p0 # ps)" "\<forall>q \<in> set (p0 # ps). \<not> f_lt (MaxPnL ?t) q"
    "History ?t = last_n 20 (p0 # ps)"
    using snoc by (auto simp: last_n_def)
  have "\<forall>q \<in> set ((p0 # ps) @ [p]). \<not> f_lt (if f_lt (MaxPnL ?t) p then p else MaxPnL ?t) q"
    using IH(1,2) snoc.prems by (intro tracker_max) auto
  moreover have "History (tracker_run t (ps @ [p])) = last_n 20 ((p0 # ps) @ [p])"
    by (simp add: IH(3) last_n_snoc)
  ultimately show ?case using IH(1) by (auto simp: last_n_def)
qed

lemma tracker_peak_witness:
  "MaxPnL (tracker_run \<lparr>tk_ReqID = ''r'', tk_AccountID = ''a'', tk_Exchange = ''x'', MaxPnL = FFin 1, History = [FFin 1]\<rparr>
     [FFin 5, FFin 3]) \<in> {FFin 1, FFin 5, FFin 3}"
  using tracker_peak [of "\<lparr>tk_ReqID = ''r'', tk_AccountID = ''a'', tk_Exchange = ''x'', MaxPnL = FFin 1, History = [FFin 1]\<rparr>"
      "FFin 1" "[FFin 5, FFin 3]"]
  by simp

text \<open>
  The test for falling profit holds exactly when there are more than k values and the
  last k + 1 of them fall strictly (for k at least 0 and a history without NaN).
\<close>

lemma consecutive_drop_iff:
  assumes "\<forall>p \<in> set h. p \<noteq> FNaN"
  shows "IsConsecutiveDrop h (int k) \<longleftrightarrow>
    k < length h \<and> sorted_wrt (\<lambda>x y. f_lt y x) (drop (length h - Suc k) h)"
proof (cases "k < length h")
  case False
  then show ?thesis by (simp add: IsConsecutiveDrop_def)
next
  case True
  let ?n = "length h - Suc k"
  have nle: "\<not> f_le a b \<longleftrightarrow> f_lt b a" if "a \<in> set h" "b \<in> set h" for a b
    using that assms f_linear [of a b] f_lt_asym [of b a] f_lt_not_eq [of b a] f_eq_sym [of a b]
    by (auto simp: f_le_def)
  have "sorted_wrt (\<lambda>x y. f_lt y x) (drop ?n h) \<longleftrightarrow>
      (\<forall>i. Suc i < length (drop ?n h) \<longrightarrow> f_lt (drop ?n h ! Suc i) (drop ?n h ! i))"
    by (subst sorted_wrt_iff_nth_Suc_transp) (auto intro: transpI f_lt_trans)
  also have "\<dots> \<longleftrightarrow> (\<forall>i. Suc i \<le> k \<longrightarrow> f_lt (h ! (?n + Suc i)) (h ! (?n + i)))"
    using True by (auto simp: less_Suc_eq_le)
  also have "\<dots> \<longleftrightarrow> (\<forall>j \<in> {length h - k ..< length h}. f_lt (h ! j) (h ! (j - 1)))"
  proof (intro iffI ballI allI impI)
    fix j assume *: "\<forall>i. Suc i \<le> k \<longrightarrow> f_lt (h ! (?n + Suc i)) (h ! (?n + i))"
      "j \<in> {length h - k ..< length h}"
    then have "Suc (j - (length h - k)) \<le> k" "?n + Suc (j - (length h - k)) = j"
      "?n + (j - (length h - k)) = j - 1" using True by auto
    with * show "f_lt (h ! j) (h ! (j - 1))" by metis
  next
    fix i assume *: "\<forall>j \<in> {length h - k ..< length h}. f_lt (h ! j) (h ! (j - 1))" "Suc i \<le> k"
    then have "?n + Suc i \<in> {length h - k ..< length h}" "?n + Suc i - 1 = ?n + i" using True by auto
    with * show "f_lt (h ! (?n + Suc i)) (h ! (?n + i))" by metis
  qed
  also have "\<dots> \<longleftrightarrow> (\<forall>j \<in> {length h - k ..< length h}. \<not> f_le (h ! (j - 1)) (h ! j))"
    using True by (intro ball_cong refl nle [symmetric]) (auto intro!: nth_mem)
  also have "\<dots> \<longleftrightarrow> IsConsecutiveDrop h (int k)"
    using True by (simp add: IsConsecutiveDrop_def list_all_iff)
  finally show ?thesis using True by simp
qed

lemma consecutive_drop_iff_witness:
  "IsConsecutiveDrop [FFin 9, FFin 7, FFin 5, FFin 2] 2"
  using consecutive_drop_iff [of "[FFin 9, FFin 7, FFin 5, FFin 2]" 2]
  by (simp add: numeral_2_eq_2)

end
