(* ===== verification/EventBus.thy ===== *)
theory EventBus
  imports Prelude
begin

text \<open>
  \<open>pkg/eventbus/bus.go\<close>: the in-memory bus. The deduplicator's key repository is
  Watermill's, so it is a parameter: one operation that reports an error, or whether a key was seen
  within the window, and remembers it otherwise, with the laws of \<open>dedup_repository\<close> as what the bus
  relies on; \<open>expiring_map\<close> is a repository that satisfies them. JSON encoding is the function
  \<open>wire\<close>: None when \<open>json.Marshal\<close> fails, and otherwise the value a subscriber decodes.
  Publishing puts one message per topic into flight; every subscriber of the topic gets it.
\<close>

type_synonym 'r is_duplicate = "gtime \<Rightarrow> string \<Rightarrow> 'r \<Rightarrow> (string + bool) \<times> 'r"

definition dedup_window :: duration where
  "dedup_window = 24 * 60 * minute"

record 'p log_entry =
  le_Time :: gtime
  le_Topic :: string
  le_Key :: string
  le_Payload :: 'p

record ('r, 'p) bus =
  bus_repo :: 'r
  bus_log :: "'p log_entry list"
  bus_closed :: bool

datatype bus_error = MarshalError | CheckDuplicate string | PublishClosed

text \<open>
  \<open>key\<close> is the deduplication key of the payload, empty when it has none. The log entry keeps
  it in place of the message id.
\<close>

definition bus_Publish ::
    "'r is_duplicate \<Rightarrow> ('p \<Rightarrow> 'p option) \<Rightarrow> gtime \<Rightarrow> string \<Rightarrow> string \<Rightarrow> 'p \<Rightarrow> ('r, 'p) bus \<Rightarrow>
     bus_error option \<times> 'p option \<times> ('r, 'p) bus" where
  "bus_Publish isDup wire now topic key payload b = (case wire payload of
     None \<Rightarrow> (Some MarshalError, None, b)
   | Some data \<Rightarrow>
       let (dup, repo) = (if key \<noteq> '''' then isDup now key (bus_repo b) else (Inr False, bus_repo b));
           b1 = b\<lparr>bus_repo := repo\<rparr>
       in case dup of
            Inl e \<Rightarrow> (Some (CheckDuplicate e), None, b1)
          | Inr True \<Rightarrow> (None, None, b1)
          | Inr False \<Rightarrow>
              (let b2 = b1\<lparr>bus_log := bus_log b1 @
                    [\<lparr>le_Time = now, le_Topic = topic, le_Key = key, le_Payload = data\<rparr>]\<rparr>
               in if bus_closed b2 then (Some PublishClosed, None, b2)
                  else (None, Some data, b2)))"

definition bus_Close :: "('r, 'p) bus \<Rightarrow> ('r, 'p) bus" where
  "bus_Close b = b\<lparr>bus_closed := True\<rparr>"

definition bus_Timeline :: "('r, 'p) bus \<Rightarrow> 'p log_entry list" where
  "bus_Timeline b = bus_log b"

subsection \<open>The key repository\<close>

text \<open>
  \<open>live r t k\<close>: the repository would not call \<open>k\<close> new at time t (it may fail). A key that is called
  new is live for the whole window, a live key is not called new, and no call makes a
  live key be forgotten before its time.
\<close>

locale dedup_repository =
  fixes isDup :: "'r is_duplicate" and live :: "'r \<Rightarrow> gtime \<Rightarrow> string \<Rightarrow> bool"
  assumes dup_live: "live r now k \<Longrightarrow> fst (isDup now k r) \<noteq> Inr False"
    and fresh_live: "fst (isDup now k r) = Inr False \<Longrightarrow> now \<le> t \<Longrightarrow> t < now + dedup_window \<Longrightarrow>
      live (snd (isDup now k r)) t k"
    and live_keep: "live r t k' \<Longrightarrow> now \<le> t \<Longrightarrow> live (snd (isDup now k r)) t k'"
begin

text \<open>Logged entries of the last window are live: none of their keys can be logged again.\<close>

definition log_live :: "gtime \<Rightarrow> ('r, 'p) bus \<Rightarrow> bool" where
  "log_live now b \<longleftrightarrow> (\<forall>e \<in> set (bus_log b). le_Time e \<le> now \<and>
     (le_Key e \<noteq> '''' \<longrightarrow> (\<forall>t. now \<le> t \<longrightarrow> t < le_Time e + dedup_window \<longrightarrow> live (bus_repo b) t (le_Key e))))"

lemma log_live_later: "log_live now b \<Longrightarrow> now \<le> now' \<Longrightarrow> log_live now' b"
  by (force simp: log_live_def)

definition spaced :: "'p log_entry list \<Rightarrow> bool" where
  "spaced es \<longleftrightarrow> sorted_wrt (\<lambda>x y. le_Key x = le_Key y \<and> le_Key x \<noteq> '''' \<longrightarrow>
     le_Time x + dedup_window \<le> le_Time y) es"

lemma publish_log_live:
  assumes "log_live now b" "spaced (bus_log b)" "now \<le> now'"
  shows "log_live now' (snd (snd (bus_Publish isDup wire now' topic key p b))) \<and>
    spaced (bus_log (snd (snd (bus_Publish isDup wire now' topic key p b))))"
proof (cases "wire p")
  case None
  then show ?thesis using assms log_live_later by (auto simp: bus_Publish_def)
next
  case (Some d)
  have l: "log_live now' b" using assms(1,3) by (rule log_live_later)
  show ?thesis
  proof (cases "key = ''''")
    case True
    with Some l assms(2) show ?thesis
      by (auto simp: bus_Publish_def Let_def log_live_def spaced_def sorted_wrt_append)
  next
    case False
    obtain dup repo where d: "isDup now' key (bus_repo b) = (dup, repo)" by fastforce
    have keep: "live (bus_repo b) t k \<Longrightarrow> now' \<le> t \<Longrightarrow> live repo t k" for t k
      using live_keep [of "bus_repo b" t k now' key] d by simp
    show ?thesis
    proof (cases "dup = Inr False")
      case dup: False
      then have "bus_log (snd (snd (bus_Publish isDup wire now' topic key p b))) = bus_log b"
        "bus_repo (snd (snd (bus_Publish isDup wire now' topic key p b))) = repo"
        using Some False d by (auto simp: bus_Publish_def Let_def split: sum.split bool.split)
      with l keep assms(2) show ?thesis by (simp add: log_live_def)
    next
      case nodup: True
      have fresh: "now' \<le> t \<Longrightarrow> t < now' + dedup_window \<Longrightarrow> live repo t key" for t
        using fresh_live [of now' key "bus_repo b" t] d nodup by simp
      have "le_Time e + dedup_window \<le> now'" if "e \<in> set (bus_log b)" "le_Key e = key" for e
      proof (rule ccontr)
        assume "\<not> le_Time e + dedup_window \<le> now'"
        with l that False have "live (bus_repo b) now' key" by (auto simp: log_live_def)
        with dup_live d nodup show False by fastforce
      qed
      with Some False d nodup l keep fresh assms(2) show ?thesis
        by (auto simp: bus_Publish_def Let_def log_live_def spaced_def sorted_wrt_append)
    qed
  qed
qed

end

subsection \<open>A repository that satisfies the laws\<close>

type_synonym expiring_map = "(string \<times> gtime) list"

definition expiring_IsDuplicate :: "expiring_map is_duplicate" where
  "expiring_IsDuplicate now k m =
     (let m1 = filter (\<lambda>(_, expiry). now < expiry) m in
      if k \<in> fst ` set m1 then (Inr True, m1) else (Inr False, (k, now + dedup_window) # m1))"

definition expiring_live :: "expiring_map \<Rightarrow> gtime \<Rightarrow> string \<Rightarrow> bool" where
  "expiring_live m t k \<longleftrightarrow> (\<exists>expiry. (k, expiry) \<in> set m \<and> t < expiry)"

interpretation expiring: dedup_repository expiring_IsDuplicate expiring_live
proof
  show "expiring_live r now k \<Longrightarrow> fst (expiring_IsDuplicate now k r) \<noteq> Inr False" for r now k
    by (auto simp: expiring_live_def expiring_IsDuplicate_def Let_def image_iff; force)
  show "expiring_live (snd (expiring_IsDuplicate now k r)) t k"
    if "fst (expiring_IsDuplicate now k r) = Inr False" "now \<le> t" "t < now + dedup_window" for now k r t
    using that by (auto simp: expiring_live_def expiring_IsDuplicate_def Let_def split: if_splits)
  show "expiring_live r t k' \<Longrightarrow> now \<le> t \<Longrightarrow> expiring_live (snd (expiring_IsDuplicate now k r)) t k'"
    for r t k' now k
    by (force simp: expiring_live_def expiring_IsDuplicate_def Let_def)
qed

lemma expiring_dedup_repository: "dedup_repository expiring_IsDuplicate expiring_live"
  by (rule expiring.dedup_repository_axioms)

text \<open>A run of publications, each with its time, topic, key and payload.\<close>

fun publish_all ::
    "'r is_duplicate \<Rightarrow> ('p \<Rightarrow> 'p option) \<Rightarrow> (gtime \<times> string \<times> string \<times> 'p) list \<Rightarrow> ('r, 'p) bus \<Rightarrow> ('r, 'p) bus" where
  "publish_all isDup wire [] b = b"
| "publish_all isDup wire ((now, topic, key, p) # ps) b =
     publish_all isDup wire ps (snd (snd (bus_Publish isDup wire now topic key p b)))"

definition new_bus :: "'r \<Rightarrow> ('r, 'p) bus" where
  "new_bus repo = \<lparr>bus_repo = repo, bus_log = [], bus_closed = False\<rparr>"

lemma publish_all_spaced:
  assumes "dedup_repository isDup live"
  shows "dedup_repository.log_live live now b \<Longrightarrow> dedup_repository.spaced (bus_log b) \<Longrightarrow>
    sorted (now # map fst ps) \<Longrightarrow> dedup_repository.spaced (bus_log (publish_all isDup wire ps b))"
proof (induction ps arbitrary: now b)
  case Nil
  then show ?case by simp
next
  case (Cons q ps)
  obtain t topic key p where q: "q = (t, topic, key, p)" by (cases q)
  let ?b = "snd (snd (bus_Publish isDup wire t topic key p b))"
  have "dedup_repository.log_live live t ?b \<and> dedup_repository.spaced (bus_log ?b)"
    by (rule dedup_repository.publish_log_live [OF assms Cons.prems(1,2)]) (use Cons.prems(3) q in simp)
  with Cons.IH [of t ?b] Cons.prems(3) show ?case by (simp add: q)
qed

text \<open>
  C32: with any key repository that remembers keys for the window, the bus never logs, and so
  never delivers, two messages with the same key less than 24 hours apart: of two entries of
  the timeline with one non-empty key, the later one is at least the window younger.
\<close>

theorem bus_deduplicates:
  assumes "dedup_repository isDup live" "sorted (map fst ps)"
    "i < j" "j < length (bus_Timeline (publish_all isDup wire ps (new_bus repo)))"
    "le_Key (bus_Timeline (publish_all isDup wire ps (new_bus repo)) ! i) = k"
    "le_Key (bus_Timeline (publish_all isDup wire ps (new_bus repo)) ! j) = k" "k \<noteq> ''''"
  shows "le_Time (bus_Timeline (publish_all isDup wire ps (new_bus repo)) ! i) + 24 * 60 * minute
    \<le> le_Time (bus_Timeline (publish_all isDup wire ps (new_bus repo)) ! j)"
proof -
  define now where "now = (if ps = [] then 0 else fst (hd ps))"
  have s: "sorted (now # map fst ps)"
    using assms(2) by (cases ps) (auto simp: now_def)
  have "dedup_repository.spaced (bus_log (publish_all isDup wire ps (new_bus repo)))"
    by (rule publish_all_spaced [OF assms(1) _ _ s])
      (simp_all add: new_bus_def dedup_repository.log_live_def [OF assms(1)]
        dedup_repository.spaced_def [OF assms(1)])
  from this [unfolded dedup_repository.spaced_def [OF assms(1)]] assms(3-7) show ?thesis
    by (auto simp: bus_Timeline_def dedup_window_def sorted_wrt_iff_nth_less)
qed

definition sample_pubs :: "(gtime \<times> string \<times> string \<times> nat) list" where
  "sample_pubs = [(0, ''t'', ''k'', 1), (5, ''t'', ''k'', 2), (24 * 60 * minute + 1, ''t'', ''k'', 3)]"

lemma sample_timeline:
  "bus_Timeline (publish_all expiring_IsDuplicate Some sample_pubs (new_bus [])) =
     [\<lparr>le_Time = 0, le_Topic = ''t'', le_Key = ''k'', le_Payload = 1\<rparr>,
      \<lparr>le_Time = 24 * 60 * minute + 1, le_Topic = ''t'', le_Key = ''k'', le_Payload = 3\<rparr>]"
  by (simp add: sample_pubs_def bus_Publish_def expiring_IsDuplicate_def new_bus_def
      bus_Timeline_def dedup_window_def)

lemma sample_sorted: "sorted (map fst sample_pubs)"
  by (simp add: sample_pubs_def)

theorem bus_deduplicates_witness:
  "length (bus_Timeline (publish_all expiring_IsDuplicate Some sample_pubs (new_bus []))) = 2 \<and>
   le_Time (bus_Timeline (publish_all expiring_IsDuplicate Some sample_pubs (new_bus [])) ! 0) + 24 * 60 * minute
     \<le> le_Time (bus_Timeline (publish_all expiring_IsDuplicate Some sample_pubs (new_bus [])) ! 1)"
  using bus_deduplicates [OF expiring_dedup_repository, of sample_pubs 0 1 Some "[]" "''k''"]
  by (simp add: sample_timeline sample_sorted)

end
