(* ===== verification/CombatMode.thy ===== *)
theory CombatMode
  imports Prelude
begin

text \<open>
  \<open>internal/trading/ordermanager/futures/combat_mode.go\<close>: the coordinator that switches
  Go's garbage collector off around settle times. The runtime's GC percent is the field
  \<open>gc_percent\<close>; the timers of \<open>time.AfterFunc\<close> that have not fired yet are \<open>cb_timers\<close>, each
  with the instant it is due; a callback, like an operation, reads the clock once. Hooks
  are left out.
\<close>

datatype combat_timer =
  StartTimer gtime gtime gtime
| ExitTimer gtime

record combat =
  leadDuration :: duration
  trailingDuration :: duration
  isActive :: bool
  activeUntil :: gtime
  originalGCPercent :: int
  cb_timers :: "combat_timer list"
  isClosed :: bool
  lastManualGCTime :: gtime
  gc_percent :: int
  gc_runs :: nat

definition NewCombatModeCoordinator :: "int \<Rightarrow> combat" where
  "NewCombatModeCoordinator percent =
     \<lparr>leadDuration = 15 * second, trailingDuration = 5 * second, isActive = False,
      activeUntil = 0, originalGCPercent = 100, cb_timers = [], isClosed = False,
      lastManualGCTime = 0, gc_percent = percent, gc_runs = 0\<rparr>"

definition SetDurations :: "duration \<Rightarrow> duration \<Rightarrow> combat \<Rightarrow> combat" where
  "SetDurations lead trailing c = c\<lparr>leadDuration := lead, trailingDuration := trailing\<rparr>"

definition combat_IsActive :: "gtime \<Rightarrow> combat \<Rightarrow> bool" where
  "combat_IsActive now c \<longleftrightarrow> isActive c \<and> now < activeUntil c"

definition exitLocked :: "gtime \<Rightarrow> combat \<Rightarrow> combat" where
  "exitLocked now c =
     (if \<not> isActive c \<or> isClosed c then c
      else c\<lparr>isActive := False, gc_percent := originalGCPercent c, gc_runs := Suc (gc_runs c),
             lastManualGCTime := now\<rparr>)"

definition scheduleExitCheckLocked :: "gtime \<Rightarrow> combat \<Rightarrow> combat" where
  "scheduleExitCheckLocked now c =
     (if isClosed c \<or> \<not> isActive c then c
      else
        let dur = activeUntil c - now in
        if dur \<le> 0 then exitLocked now c
        else c\<lparr>cb_timers := cb_timers c @ [ExitTimer (now + dur)]\<rparr>)"

definition enterLocked :: "gtime \<Rightarrow> gtime \<Rightarrow> gtime \<Rightarrow> combat \<Rightarrow> combat" where
  "enterLocked now targetTime windowEnd c =
     (if isClosed c then c
      else
        let c1 = (if activeUntil c < windowEnd then c\<lparr>activeUntil := windowEnd\<rparr> else c) in
        if isActive c1 then c1
        else
          let c2 = c1\<lparr>isActive := True\<rparr>;
              c3 = (if 2 * second < now - lastManualGCTime c2
                    then c2\<lparr>gc_runs := Suc (gc_runs c2), lastManualGCTime := now\<rparr> else c2);
              prev = gc_percent c3;
              c4 = c3\<lparr>gc_percent := -1,
                      originalGCPercent := (if prev \<noteq> -1 then prev else originalGCPercent c3)\<rparr>
          in scheduleExitCheckLocked now c4)"

definition RegisterTargetTime :: "gtime \<Rightarrow> gtime \<Rightarrow> combat \<Rightarrow> combat" where
  "RegisterTargetTime now targetTime c =
     (if is_zero_time targetTime \<or> isClosed c then c
      else
        let windowStart = targetTime - leadDuration c;
            windowEnd = targetTime + trailingDuration c
        in if windowEnd \<le> now then c
           else if windowStart \<le> now then enterLocked now targetTime windowEnd c
           else c\<lparr>cb_timers := cb_timers c @
                    [StartTimer (now + (windowStart - now)) targetTime windowEnd]\<rparr>)"

text \<open>What a timer's callback does.\<close>

definition combat_fire :: "gtime \<Rightarrow> combat_timer \<Rightarrow> combat \<Rightarrow> combat" where
  "combat_fire now t c0 =
     (let c = c0\<lparr>cb_timers := remove1 t (cb_timers c0)\<rparr> in
      case t of
        StartTimer _ targetTime windowEnd \<Rightarrow>
          if isClosed c then c else enterLocked now targetTime windowEnd c
      | ExitTimer _ \<Rightarrow>
          if isClosed c \<or> \<not> isActive c then c
          else if now < activeUntil c then scheduleExitCheckLocked now c
          else exitLocked now c)"

definition combat_Close :: "combat \<Rightarrow> combat" where
  "combat_Close c =
     (if isClosed c then c
      else
        let c1 = c\<lparr>isClosed := True, cb_timers := []\<rparr> in
        if isActive c1
        then c1\<lparr>isActive := False, gc_percent := originalGCPercent c1, gc_runs := Suc (gc_runs c1)\<rparr>
        else c1)"

subsection \<open>Runs of the coordinator\<close>

fun timer_due :: "combat_timer \<Rightarrow> gtime" where
  "timer_due (StartTimer due _ _) = due"
| "timer_due (ExitTimer due) = due"

inductive combat_reach :: "int \<Rightarrow> combat \<Rightarrow> bool" for percent :: int where
  new: "combat_reach percent (NewCombatModeCoordinator percent)"
| durations: "combat_reach percent c \<Longrightarrow> combat_reach percent (SetDurations lead trailing c)"
| register: "combat_reach percent c \<Longrightarrow> combat_reach percent (RegisterTargetTime now target c)"
| fire: "combat_reach percent c \<Longrightarrow> t \<in> set (cb_timers c) \<Longrightarrow> timer_due t \<le> now \<Longrightarrow>
    combat_reach percent (combat_fire now t c)"
| close: "combat_reach percent c \<Longrightarrow> combat_reach percent (combat_Close c)"

text \<open>What the end of combat mode restores: a percentage of -1, a collector that was switched off
  before, is not recorded, and the recorded percentage starts with 100.\<close>

definition restored :: "int \<Rightarrow> int" where
  "restored percent = (if percent = -1 then 100 else percent)"

definition combat_inv :: "int \<Rightarrow> combat \<Rightarrow> bool" where
  "combat_inv percent c \<longleftrightarrow> (percent = -1 \<longrightarrow> originalGCPercent c = 100) \<and>
     (if isActive c
      then \<not> isClosed c \<and> gc_percent c = -1 \<and> originalGCPercent c = restored percent \<and>
        (\<exists>due. ExitTimer due \<in> set (cb_timers c) \<and> due \<le> activeUntil c)
      else gc_percent c \<in> {percent, restored percent})"

lemma enterLocked_inv: "combat_inv percent c \<Longrightarrow> combat_inv percent (enterLocked now t e c)"
  by (auto simp: combat_inv_def enterLocked_def scheduleExitCheckLocked_def exitLocked_def Let_def restored_def
      split: if_splits; force)

lemma combat_inv_fire:
  assumes "combat_inv percent c" "t \<in> set (cb_timers c)" "timer_due t \<le> now"
  shows "combat_inv percent (combat_fire now t c)"
proof (cases t)
  case (StartTimer due target e)
  have i: "combat_inv percent (c\<lparr>cb_timers := remove1 t (cb_timers c)\<rparr>)"
  proof (cases "isActive c")
    case True
    with assms(1) obtain due where "ExitTimer due \<in> set (cb_timers c)" "due \<le> activeUntil c"
      by (auto simp: combat_inv_def)
    then have "ExitTimer due \<in> set (remove1 t (cb_timers c))" using StartTimer by simp
    with True assms(1) \<open>due \<le> activeUntil c\<close> show ?thesis by (auto simp: combat_inv_def)
  qed (use assms(1) in \<open>auto simp: combat_inv_def\<close>)
  with enterLocked_inv [OF i] StartTimer i show ?thesis
    by (simp add: combat_fire_def Let_def)
next
  case (ExitTimer due)
  then show ?thesis
    using assms by (auto simp: combat_inv_def combat_fire_def scheduleExitCheckLocked_def exitLocked_def Let_def)
qed

lemma combat_reach_inv: "combat_reach percent c \<Longrightarrow> combat_inv percent c"
proof (induction rule: combat_reach.induct)
  case new
  show ?case by (simp add: combat_inv_def NewCombatModeCoordinator_def)
next
  case (durations c lead trailing)
  then show ?case unfolding combat_inv_def SetDurations_def by auto
next
  case (register c now target)
  then have i: "combat_inv percent c" by simp
  then have "combat_inv percent (c\<lparr>cb_timers := cb_timers c @ ts\<rparr>)" for ts
    by (auto simp: combat_inv_def)
  with i enterLocked_inv [OF i] show ?case by (simp add: RegisterTargetTime_def Let_def)
next
  case (fire c t now)
  then show ?case by (intro combat_inv_fire) auto
next
  case (close c)
  then show ?case by (auto simp: combat_inv_def combat_Close_def Let_def split: if_splits)
qed

text \<open>
  C33: in every reachable state of the coordinator, the garbage collector is off while combat mode
  is active, and otherwise has its original percentage, also after Close. The one exception is an
  original percentage of -1 (a collector that was off before): outside combat mode it is then -1 or
  100, as every end of combat mode sets 100. While combat mode is active, an exit timer that is due no later
  than the end of the window is armed, and when it fires at or after that end, combat mode ends
  and the percentage is the restored one: the original, or 100 for -1; so does Close.
\<close>

theorem combat_gc_restored:
  assumes "combat_reach percent c"
  shows "(isActive c \<longrightarrow> gc_percent c = -1) \<and> (\<not> isActive c \<longrightarrow> gc_percent c = percent \<or> percent = -1 \<and> gc_percent c = 100) \<and>
    (gc_percent (combat_Close c) = percent \<or> percent = -1 \<and> gc_percent (combat_Close c) = 100) \<and>
    (isActive c \<longrightarrow> gc_percent (combat_Close c) = restored percent \<and>
       (\<exists>due. ExitTimer due \<in> set (cb_timers c) \<and> due \<le> activeUntil c)) \<and>
    (\<forall>due now. isActive c \<longrightarrow> activeUntil c \<le> now \<longrightarrow>
       \<not> isActive (combat_fire now (ExitTimer due) c) \<and>
       gc_percent (combat_fire now (ExitTimer due) c) = restored percent)"
proof -
  have i: "combat_inv percent c" using assms by (rule combat_reach_inv)
  have j: "combat_inv percent (combat_Close c)"
    using combat_reach.close [OF assms] by (rule combat_reach_inv)
  have k: "\<not> isActive (combat_Close c)" "isActive c \<longrightarrow> gc_percent (combat_Close c) = restored percent"
    using i by (auto simp: combat_Close_def Let_def combat_inv_def)
  have l: "isActive c \<longrightarrow> activeUntil c \<le> now \<longrightarrow> \<not> isActive (combat_fire now (ExitTimer due) c) \<and>
      gc_percent (combat_fire now (ExitTimer due) c) = restored percent" for due now
    using i by (auto simp: combat_inv_def combat_fire_def exitLocked_def Let_def)
  have m: "x \<in> {percent, restored percent} \<Longrightarrow> x = percent \<or> percent = -1 \<and> x = 100" for x
    by (auto simp: restored_def split: if_splits)
  show ?thesis
    using i j k l m [of "gc_percent c"] m [of "gc_percent (combat_Close c)"] by (auto simp: combat_inv_def)
qed

theorem combat_gc_restored_witness:
  "isActive (RegisterTargetTime 100000000000 101000000000 (NewCombatModeCoordinator 80)) \<and>
   gc_percent (combat_Close (RegisterTargetTime 100000000000 101000000000 (NewCombatModeCoordinator 80))) = 80"
  using combat_gc_restored [OF combat_reach.register [OF combat_reach.new [of 80], of 100000000000 101000000000]]
  by (simp add: RegisterTargetTime_def enterLocked_def NewCombatModeCoordinator_def is_zero_time_def
      scheduleExitCheckLocked_def)

end
