(* ===== verification/Effects.thy ===== *)
theory Effects
  imports Prelude "HOL-Library.State_Monad"
begin

text \<open>
  Handlers with effects, as state monad actions. A Go function that returns an error is an
  action with a sum as its result, \<open>and_then\<close> the \<open>if err != nil { return err }\<close> after a
  call. The error of the order manager is the text of the Go error or \<open>Panic\<close>.
\<close>

datatype om_error = Err string | Panic

abbreviation ret :: "'a \<Rightarrow> ('s, 'a) state" where "ret \<equiv> State_Monad.return"

definition gets :: "('s \<Rightarrow> 'a) \<Rightarrow> ('s, 'a) state" where
  "gets f = State (\<lambda>s. (f s, s))"

definition modify :: "('s \<Rightarrow> 's) \<Rightarrow> ('s, unit) state" where
  "modify f = State (\<lambda>s. ((), f s))"

text \<open>\<open>and_then m f\<close>: go on with the result of m, or return its error.\<close>

definition and_then :: "('s, 'e + 'a) state \<Rightarrow> ('a \<Rightarrow> ('s, 'e + 'b) state) \<Rightarrow> ('s, 'e + 'b) state" where
  "and_then m f = do { r \<leftarrow> m; case r of Inl e \<Rightarrow> ret (Inl e) | Inr x \<Rightarrow> f x }"

text \<open>\<open>fmt.Errorf("...: %w", err)\<close>.\<close>

definition wrap :: "string \<Rightarrow> string \<Rightarrow> om_error" where
  "wrap prefix e = Err (prefix @ '': '' @ e)"

definition wrapping :: "string \<Rightarrow> ('s, om_error + 'a) state \<Rightarrow> ('s, om_error + 'a) state" where
  "wrapping prefix m = do { r \<leftarrow> m; ret (case r of Inl (Err e) \<Rightarrow> Inl (wrap prefix e) | _ \<Rightarrow> r) }"

definition quoted :: "string \<Rightarrow> string" where
  "quoted s = ''\"'' @ s @ ''\"''"

text \<open>A decimal operation: None is a panic.\<close>

definition decimal :: "'a option \<Rightarrow> ('s, om_error + 'a) state" where
  "decimal x = ret (case x of None \<Rightarrow> Inl Panic | Some v \<Rightarrow> Inr v)"

end
