(* ===== verification/OrderManager.thy ===== *)
theory OrderManager
  imports OrderCalc EventBus CombatMode Effects "HOL-Library.AList"
begin

text \<open>
  \<open>internal/trading/ordermanager/futures/manager.go\<close> and \<open>execute.go\<close>: the manager's state,
  the exchange it talks to, and its handlers, as state monad actions.

  \<^item> The three go-caches (aggregates, exchange order ids, trackers) are maps; their one-hour
    expiry is \<open>expire_caches\<close>, a step of the pipeline between handlers. The aggregates are an
    association list, since \<open>GetActiveOrders\<close> lists them.
  \<^item> The exchange, the clocks and the database are parameters (\<open>env\<close>): the answer to a call is
    a function of a running call number, so any sequence of answers is possible. Every call
    is logged in \<open>om_log\<close> under the request it is made for.
  \<^item> \<open>om_mail\<close> holds the messages the bus has accepted and a subscriber has not handled yet.
    \<open>om_armed\<close> holds the runtime timers that have neither fired nor been stopped;
    \<open>om_timers\<close> is the manager's map from requests to timers.
  \<^item> Go's panics (which \<open>dispatchMessage\<close> recovers) are the error \<open>Panic\<close>. The policy of the
    backoff library is \<open>en_more\<close>: whether it tries once more, up to the maximal number of
    retries the source asks for.
  \<^item> A handler runs as one action: interleavings of the goroutines of different messages
    inside a handler are not modelled. Logging is left out, and so are the texts of the
    errors of the wiring (\<open>%q\<close> quotes a name without escapes).
\<close>

subsection \<open>The exchange\<close>

datatype client_call =
  CSyncNow
| CSwitchMarginMode string MarginMode int Side
| CSwitchPositionMode string PositionMode
| CChangeLeverage ChangeLeverageRequest
| CPrepareOrder SubmitOrderRequest
| CPreWarm
| CSleep duration
| CSleepUntil gtime
| CCreateOrder SubmitOrderRequest
| CCancelOrder string string
| CCancelAllOpenOrders string
| CCloseAllPositions string
| CClosePosition string Side float64 PositionMode int
| CGetOrder string string
| CGetOpenPositions string
| CGetOrderPNL string string
| CPlaceTPSL TPSLRequest
| CEnsurePersonalWS
| CSubscribePersonal string
| CUnsubscribePersonal string
| CSubscribeTrade string string
| CUnsubscribeTrade string string
| COnPositionUpdate string duration
| COnTradeUpdate string duration
| CCompletedCallbacks completed_event
| CSave trade_record
| CNotify order_event

record provider =
  pv_Client :: bool
  pv_LeverageOnOrder :: bool
  pv_PositionModeSwitcher :: bool
  pv_TPSLProvider :: bool
  pv_PreSignExecutor :: bool
  pv_PreWarmer :: bool
  pv_OrderExecutor :: bool
  pv_ClosedPnLProvider :: bool
  pv_Adapter :: bool
  pv_Watcher :: bool
  pv_TimeSync :: bool
  pv_SyncerClock :: bool
  pv_PrecisionClock :: bool

record ('d, 'r) env =
  en_dec :: "'d dec_lib"
  en_isDup :: "'r is_duplicate"
  en_AccountProviders :: "string \<Rightarrow> provider option"
  en_Providers :: "string \<Rightarrow> provider option"
  en_notifier :: bool
  en_clock :: "nat \<Rightarrow> gtime"
  en_wall :: "nat \<Rightarrow> gtime"
  en_fail :: "nat \<Rightarrow> client_call \<Rightarrow> string option"
  en_prepare :: "nat \<Rightarrow> SubmitOrderRequest \<Rightarrow> bool"
  en_create :: "nat \<Rightarrow> SubmitOrderRequest \<Rightarrow> string + CreateOrderResult"
  en_dispatch :: "nat \<Rightarrow> SubmitOrderRequest \<Rightarrow> string + CreateOrderResult"
  en_order :: "nat \<Rightarrow> string \<Rightarrow> string \<Rightarrow> string + OrderInfo option"
  en_positions :: "nat \<Rightarrow> string \<Rightarrow> string + Position list"
  en_closedPnL :: "nat \<Rightarrow> string \<Rightarrow> string \<Rightarrow> string + ClosedPnLInfo option"
  en_more :: "nat \<Rightarrow> bool"

subsection \<open>The manager's state\<close>

datatype timer_action =
  UnfilledCancel string string string string strategy_type market_type duration
| PositionClose string string string string strategy_type market_type duration string

datatype subscriber =
  SubPreFlight | SubWatchReady | SubFireTiming | SubExecute | SubTPSL | SubOutcome | SubUnfilled
| SubPositionTimeout | SubWaitDeadline | SubTimeoutChecked | SubOutcomeResolved
| SubPositionClosed | SubCompleted | SubTradeRecord | SubNotify

record 'r om =
  om_aggregates :: "(string \<times> aggregate) list"
  om_orderIDs :: "string \<Rightarrow> string option"
  om_trackers :: "string \<Rightarrow> pnl_tracker option"
  om_timers :: "string \<Rightarrow> nat option"
  om_armed :: "(nat \<times> timer_action) list"
  om_nextTimer :: nat
  om_combat :: combat
  om_bus :: "('r, order_event) bus"
  om_mail :: "(subscriber \<times> order_event) list"
  om_posWatch :: "(string \<times> string) list"
  om_tradeWatch :: "(string \<times> string) list"
  om_log :: "(string \<times> client_call) list"
  om_calls :: nat

type_synonym ('r, 'a) om_act = "('r om, 'a) state"
type_synonym ('r, 'a) om_res = "('r om, om_error + 'a) state"

definition next_call :: "('r, nat) om_act" where
  "next_call = do { n \<leftarrow> gets om_calls; modify (om_calls_update Suc); ret n }"

definition log_call :: "string \<Rightarrow> client_call \<Rightarrow> ('r, nat) om_act" where
  "log_call r c = do { modify (om_log_update (\<lambda>l. l @ [(r, c)])); next_call }"

definition clock_Now :: "('d, 'r) env \<Rightarrow> ('r, gtime) om_act" where
  "clock_Now env = do { n \<leftarrow> next_call; ret (en_clock env n) }"

definition wall_Now :: "('d, 'r) env \<Rightarrow> ('r, gtime) om_act" where
  "wall_Now env = do { n \<leftarrow> next_call; ret (en_wall env n) }"

text \<open>A call that answers with an error or nil.\<close>

definition do_call :: "('d, 'r) env \<Rightarrow> string \<Rightarrow> client_call \<Rightarrow> ('r, unit) om_res" where
  "do_call env r c = do {
     n \<leftarrow> log_call r c;
     ret (case en_fail env n c of None \<Rightarrow> Inr () | Some e \<Rightarrow> Inl (Err e)) }"

text \<open>A call whose error the caller only logs.\<close>

definition try_call :: "('d, 'r) env \<Rightarrow> string \<Rightarrow> client_call \<Rightarrow> ('r, unit) om_act" where
  "try_call env r c = do { _ \<leftarrow> do_call env r c; ret () }"

subsection \<open>Caches\<close>

definition GetAggregate :: "string \<Rightarrow> ('r, aggregate) om_act" where
  "GetAggregate reqID = do {
     aggs \<leftarrow> gets om_aggregates;
     case map_of aggs reqID of
       Some a \<Rightarrow> ret a
     | None \<Rightarrow>
         let a = NewOrderExecutionAggregate reqID in do {
           modify (om_aggregates_update (\<lambda>l. AList.update reqID a l));
           ret a } }"

text \<open>\<open>GetAggregate(reqID).Record(evt)\<close>.\<close>

definition RecordTo :: "string \<Rightarrow> order_event \<Rightarrow> ('r, unit) om_act" where
  "RecordTo reqID evt = do {
     a \<leftarrow> GetAggregate reqID;
     modify (om_aggregates_update (\<lambda>l. AList.update reqID (record_event evt a) l)) }"

text \<open>Entries that reached their hour are gone, in each cache those of some keys.\<close>

definition expire_caches :: "(string \<Rightarrow> bool) \<Rightarrow> (string \<Rightarrow> bool) \<Rightarrow> (string \<Rightarrow> bool) \<Rightarrow> 'r om \<Rightarrow> 'r om" where
  "expire_caches aggs ids trackers s = s\<lparr>
     om_aggregates := filter (\<lambda>(r, a). \<not> aggs r) (om_aggregates s),
     om_orderIDs := (\<lambda>r. if ids r then None else om_orderIDs s r),
     om_trackers := (\<lambda>r. if trackers r then None else om_trackers s r)\<rparr>"

definition SetExchangeOrderIDByReqID :: "string \<Rightarrow> string \<Rightarrow> ('r, unit) om_act" where
  "SetExchangeOrderIDByReqID reqID exchangeOrderID =
     (if reqID = '''' \<or> exchangeOrderID = '''' then ret ()
      else modify (om_orderIDs_update (\<lambda>m. m(reqID \<mapsto> exchangeOrderID))))"

definition GetExchangeOrderIDByReqID :: "string \<Rightarrow> ('r, string option) om_act" where
  "GetExchangeOrderIDByReqID reqID =
     (if reqID = '''' then ret None else gets (\<lambda>s. om_orderIDs s reqID))"

definition HasActiveOrder :: "string \<Rightarrow> 'r om \<Rightarrow> bool" where
  "HasActiveOrder reqID s = (case map_of (om_aggregates s) reqID of
     None \<Rightarrow> False | Some a \<Rightarrow> \<not> is_terminal (ag_state a))"

definition GetActiveOrdersForAccount :: "string \<Rightarrow> string \<Rightarrow> string \<Rightarrow> 'r om \<Rightarrow> aggregate list" where
  "GetActiveOrdersForAccount accountID exchangeName symbol s =
     filter (\<lambda>a. (accountID = '''' \<or> agg_AccountID a = accountID) \<and>
         (exchangeName = '''' \<or> agg_Exchange a = exchangeName) \<and>
         (symbol = '''' \<or> agg_Symbol a = symbol) \<and> \<not> is_terminal (ag_state a))
       (map snd (om_aggregates s))"

definition GetActiveOrders :: "string \<Rightarrow> string \<Rightarrow> 'r om \<Rightarrow> aggregate list" where
  "GetActiveOrders exchangeName symbol s = GetActiveOrdersForAccount '''' exchangeName symbol s"

subsection \<open>Providers\<close>

definition GetProvider :: "('d, 'r) env \<Rightarrow> string \<Rightarrow> string + provider" where
  "GetProvider env name = (case en_Providers env (to_lower name) of
     Some p \<Rightarrow> Inr p
   | None \<Rightarrow> Inl (''exchange provider '' @ quoted (to_lower name) @ '' not initialized or configured''))"

definition GetAccountProvider :: "('d, 'r) env \<Rightarrow> string \<Rightarrow> string + provider" where
  "GetAccountProvider env id0 =
     (let id = trim_space id0; lowerID = to_lower id in
      case en_AccountProviders env id of
        Some p \<Rightarrow> Inr p
      | None \<Rightarrow> (case en_AccountProviders env lowerID of
          Some p \<Rightarrow> Inr p
        | None \<Rightarrow> (case en_Providers env lowerID of
            Some p \<Rightarrow> Inr p
          | None \<Rightarrow> Inl (''account provider '' @ quoted id @ '' not initialized or configured''))))"

definition resolveAccountProvider :: "('d, 'r) env \<Rightarrow> string \<Rightarrow> string \<Rightarrow> string + provider" where
  "resolveAccountProvider env accountID0 exchangeName =
     (let accountID = trim_space accountID0;
          fallback = (case GetAccountProvider env exchangeName of
            Inl e \<Rightarrow> Inl (''failed to get provider for '' @ exchangeName @ '' (account: '' @ accountID @ ''): '' @ e)
          | Inr p \<Rightarrow> Inr p)
      in if accountID = '''' then fallback
         else case GetAccountProvider env accountID of Inr p \<Rightarrow> Inr p | Inl _ \<Rightarrow> fallback)"

definition resolveClientForAccount :: "('d, 'r) env \<Rightarrow> string \<Rightarrow> string \<Rightarrow> string + provider" where
  "resolveClientForAccount env accountID exchangeName =
     (case resolveAccountProvider env accountID exchangeName of
        Inl e \<Rightarrow> Inl (''failed to get provider for exchange '' @ quoted exchangeName @
                   '' (account '' @ quoted accountID @ ''): '' @ e)
      | Inr p \<Rightarrow>
          if pv_Client p then Inr p
          else Inl (''no exchange client available for exchange '' @ quoted exchangeName @
                    '' (account '' @ quoted accountID @ '')''))"

definition resolvePositionWatcherForAccount :: "('d, 'r) env \<Rightarrow> string \<Rightarrow> string \<Rightarrow> bool" where
  "resolvePositionWatcherForAccount env accountID exchangeName =
     (case resolveAccountProvider env accountID exchangeName of Inl _ \<Rightarrow> False | Inr p \<Rightarrow> pv_Watcher p)"

definition resolveAdapter :: "('d, 'r) env \<Rightarrow> string \<Rightarrow> bool" where
  "resolveAdapter env exchangeName =
     (case GetProvider env exchangeName of Inl _ \<Rightarrow> False | Inr p \<Rightarrow> pv_Adapter p)"

definition resolveAdapterForAccount :: "('d, 'r) env \<Rightarrow> string \<Rightarrow> string \<Rightarrow> bool" where
  "resolveAdapterForAccount env accountID exchangeName =
     (case resolveAccountProvider env accountID exchangeName of Inl _ \<Rightarrow> False | Inr p \<Rightarrow> pv_Adapter p)"

definition resolveClock :: "('d, 'r) env \<Rightarrow> string \<Rightarrow> string + provider" where
  "resolveClock env exchangeName = (case GetProvider env exchangeName of
     Inl e \<Rightarrow> Inl (''failed to get provider for exchange '' @ quoted exchangeName @ '': '' @ e)
   | Inr p \<Rightarrow> if pv_TimeSync p then Inr p
             else Inl (''no time sync clock available for exchange '' @ quoted exchangeName))"

definition resolve :: "(string + 'a) \<Rightarrow> ('s, om_error + 'a) state" where
  "resolve x = ret (case x of Inl e \<Rightarrow> Inl (Err e) | Inr v \<Rightarrow> Inr v)"

subsection \<open>JSON on the bus\<close>

text \<open>
  \<open>wire e\<close> is what a subscriber decodes from the JSON of \<open>e\<close>. Encoding fails on NaN and
  infinities and on an invalid side. Where an embedded struct and its outer struct share a
  JSON name, only the outer field travels: the intent's own price and volume inside a
  submitted order, and the base's client id and market type inside a trade record, come back
  empty. Integers in an \<open>Extra\<close> map come back as floats.
\<close>

definition wire_extra :: "extra_map \<Rightarrow> extra_map" where
  "wire_extra m = map (\<lambda>(k, v). (k, case v of AnyInt64 n \<Rightarrow> AnyFloat (f_of_int n) | _ \<Rightarrow> v)) m"

definition extra_floats :: "extra_map \<Rightarrow> float64 list" where
  "extra_floats m = concat (map (\<lambda>(_, v). case v of AnyFloat x \<Rightarrow> [x] | _ \<Rightarrow> []) m)"

definition intent_floats :: "('a intent_event_scheme) \<Rightarrow> float64 list" where
  "intent_floats e = [it_Price e, it_Volume e, it_ContractSize e, it_MarginUSDT e, it_FundingRate e,
     it_Vol24hUSDT e, it_TakeProfitPrice e, it_StopLossPrice e, it_PnLTrailingDropPct e]
     @ extra_floats (it_Extra e)"

fun json_floats :: "order_event \<Rightarrow> float64 list" where
  "json_floats (IntentEv e) = intent_floats e"
| "json_floats (PreFlightEv e) = intent_floats e"
| "json_floats (WatchReadyEv e) = intent_floats e"
| "json_floats (FireWindowEv e) = intent_floats e"
| "json_floats (SubmittedEv e) =
     [sb_Price e, sb_Volume e] @ drop 2 (intent_floats e)"
| "json_floats (TPSLEv e) = [td_TakeProfitPrice e, td_StopLossPrice e]"
| "json_floats (RestingEv e) = [rs_Price e, rs_Volume e]"
| "json_floats (FilledEv e) = [fl_FillPrice e, fl_FillVolContract e, fl_FillVolCoin e,
     fl_VolumeUSDT e, fl_SlippagePct e]"
| "json_floats (PositionClosedEv e) = [pc_EntryPrice e, pc_ClosePrice e, pc_CloseVolContract e,
     pc_CloseVolCoin e, pc_GrossProfit e, pc_NetProfit e, pc_PnLPct e, pc_VolumeUSDT e, pc_Fee e,
     pc_FundingFee e]"
| "json_floats (TimeoutScheduledEv e) = []"
| "json_floats (TimeoutCheckedEv e) = [tc_HoldVol e]"
| "json_floats (OutcomeEv e) = [oc_FilledVol e, oc_AvgPrice e]"
| "json_floats (TimeoutExpiredEv e) = [te_HoldVol e]"
| "json_floats (BailoutEv e) = [bo_Volume e, bo_ExitPrice e]"
| "json_floats (AbortedEv e) = []"
| "json_floats (CanceledEv e) = []"
| "json_floats (CompletedEv e) = [cm_EntryPrice e, cm_ExitPrice e, cm_CloseVolContract e,
     cm_CloseVolCoin e, cm_VolumeUSDT e, cm_ContractSize e, cm_GrossProfit e, cm_NetProfit e,
     cm_PnLPct e, cm_Fee e, cm_FundingFee e, cm_FundingRate e, cm_Vol24hUSDT e]
     @ extra_floats (cm_Extra e)"
| "json_floats (TradeRecordEv e) = [r_MarginUSDT e, r_ActualSlippage e, r_EntryPrice e, r_ExitPrice e,
     r_OrderVol e, r_FillVolContract e, r_FillVolCoin e, r_CloseVolContract e, r_CloseVolCoin e,
     r_ContractSize e, r_NotionalUSD e, r_GrossPnL e, r_NetPnL e, r_PnLPct e, r_Fee e,
     r_FundingFee e] @ extra_floats (r_Extra e)"

fun json_sides :: "order_event \<Rightarrow> Side list" where
  "json_sides (IntentEv e) = [it_Side e]"
| "json_sides (PreFlightEv e) = [it_Side e]"
| "json_sides (WatchReadyEv e) = [it_Side e]"
| "json_sides (FireWindowEv e) = [it_Side e]"
| "json_sides (SubmittedEv e) = [it_Side e]"
| "json_sides (FilledEv e) = [fl_Side e]"
| "json_sides (BailoutEv e) = [bo_Side e]"
| "json_sides (CompletedEv e) = [cm_Side e]"
| "json_sides _ = []"

fun json_decoded :: "order_event \<Rightarrow> order_event" where
  "json_decoded (IntentEv e) = IntentEv (e\<lparr>it_Extra := wire_extra (it_Extra e)\<rparr>)"
| "json_decoded (PreFlightEv e) = PreFlightEv (e\<lparr>it_Extra := wire_extra (it_Extra e)\<rparr>)"
| "json_decoded (WatchReadyEv e) = WatchReadyEv (e\<lparr>it_Extra := wire_extra (it_Extra e)\<rparr>)"
| "json_decoded (FireWindowEv e) = FireWindowEv (e\<lparr>it_Extra := wire_extra (it_Extra e)\<rparr>)"
| "json_decoded (SubmittedEv e) =
     SubmittedEv (e\<lparr>it_Extra := wire_extra (it_Extra e), it_Price := f0, it_Volume := f0\<rparr>)"
| "json_decoded (CompletedEv e) = CompletedEv (e\<lparr>cm_Extra := wire_extra (cm_Extra e)\<rparr>)"
| "json_decoded (TradeRecordEv e) =
     TradeRecordEv (e\<lparr>r_Extra := wire_extra (r_Extra e), ClientOrderID := '''', MarketType := ''''\<rparr>)"
| "json_decoded e = e"

definition wire :: "order_event \<Rightarrow> order_event option" where
  "wire e = (if list_all f_is_fin (json_floats e) \<and> list_all side_IsValid (json_sides e)
     then Some (json_decoded e) else None)"

subsection \<open>Publishing\<close>

definition subscribers :: "('d, 'r) env \<Rightarrow> string \<Rightarrow> subscriber list" where
  "subscribers env topic =
     (if topic = TopicOrderIntent then [SubPreFlight]
      else if topic = TopicOrderPreFlightDone then [SubWatchReady]
      else if topic = TopicOrderPositionWatchReady then [SubFireTiming]
      else if topic = TopicOrderFireWindowReached then [SubExecute]
      else if topic = TopicOrderSubmitted then [SubTPSL, SubOutcome, SubUnfilled]
      else if topic = TopicOrderFilled then [SubPositionTimeout]
      else if topic = TopicOrderTimeoutScheduled then [SubWaitDeadline]
      else if topic = TopicOrderTimeoutPositionChecked then [SubTimeoutChecked]
      else if topic = TopicOrderOutcomeResolved then [SubOutcomeResolved]
      else if topic = TopicOrderPositionClosed then [SubPositionClosed]
      else if topic = TopicOrderCompleted then [SubCompleted]
      else if topic = TopicOrderTradeRecord then [SubTradeRecord] else []) @
     (if en_notifier env \<and> (topic = TopicOrderSubmitted \<or> topic = TopicOrderAborted \<or>
         topic = TopicOrderCompleted) then [SubNotify] else [])"

definition bus_error_text :: "bus_error \<Rightarrow> string" where
  "bus_error_text e = (case e of MarshalError \<Rightarrow> ''eventbus: marshal payload'' | PublishClosed \<Rightarrow> ''eventbus: publish'')"

definition publishEvent :: "('d, 'r) env \<Rightarrow> string \<Rightarrow> order_event \<Rightarrow> ('r, unit) om_res" where
  "publishEvent env topic payload = do {
     _ \<leftarrow> (if (GetExchange payload = '''' \<or> GetAccountID payload = '''') \<and> GetReqID payload \<noteq> ''''
           then do { _ \<leftarrow> GetAggregate (GetReqID payload); ret () } else ret ());
     now \<leftarrow> wall_Now env;
     b \<leftarrow> gets om_bus;
     let (err, sent, b') =
       bus_Publish (en_isDup env) wire now topic (DeduplicateKey payload) payload b in do {
       modify (om_bus_update (\<lambda>_. b'));
       modify (om_mail_update (\<lambda>mail. mail @ (case sent of None \<Rightarrow> []
         | Some data \<Rightarrow> map (\<lambda>h. (h, data)) (subscribers env topic))));
       ret (case err of None \<Rightarrow> Inr () | Some e \<Rightarrow> Inl (Err (bus_error_text e))) } }"

definition Dispatch :: "('d, 'r) env \<Rightarrow> order_event option \<Rightarrow> ('r, unit) om_res" where
  "Dispatch env evt = (case evt of
     None \<Rightarrow> ret (Inl (Err ''cannot dispatch nil event''))
   | Some e \<Rightarrow> do { RecordTo (GetReqID e) e; publishEvent env (GetTopic e) e })"

text \<open>\<open>_ = m.publishEvent(...)\<close>.\<close>

definition publish_ignoring :: "('d, 'r) env \<Rightarrow> string \<Rightarrow> order_event \<Rightarrow> ('r, unit) om_act" where
  "publish_ignoring env topic e = do { _ \<leftarrow> publishEvent env topic e; ret () }"

subsection \<open>Timers and combat mode\<close>

definition arm_timer :: "string \<Rightarrow> timer_action \<Rightarrow> ('r, unit) om_act" where
  "arm_timer reqID act = do {
     i \<leftarrow> gets om_nextTimer;
     modify (\<lambda>s. s\<lparr>om_nextTimer := Suc i, om_armed := om_armed s @ [(i, act)],
       om_timers := (om_timers s)(reqID \<mapsto> i)\<rparr>) }"

definition CancelTimeoutGuard :: "string \<Rightarrow> ('r, bool) om_act" where
  "CancelTimeoutGuard reqID = do {
     t \<leftarrow> gets (\<lambda>s. om_timers s reqID);
     case t of
       None \<Rightarrow> ret False
     | Some i \<Rightarrow> do {
         armed \<leftarrow> gets om_armed;
         modify (\<lambda>s. s\<lparr>om_timers := (om_timers s)(reqID := None),
           om_armed := filter (\<lambda>(j, _). j \<noteq> i) (om_armed s)\<rparr>);
         ret (i \<in> fst ` set armed) } }"

definition registerCombatTarget :: "('d, 'r) env \<Rightarrow> gtime \<Rightarrow> gtime option \<Rightarrow> ('r, unit) om_act" where
  "registerCombatTarget env fireTime settleTime =
     (let targetTime = (case settleTime of
            Some t \<Rightarrow> if is_zero_time t then fireTime else t | None \<Rightarrow> fireTime)
      in if is_zero_time targetTime then ret ()
         else do { now \<leftarrow> wall_Now env;
                   modify (om_combat_update (RegisterTargetTime now targetTime)) })"

subsection \<open>Stream subscriptions\<close>

definition flowID :: "string \<Rightarrow> string \<Rightarrow> string" where
  "flowID strategyType reqID = strategyType @ ''_'' @ reqID"

definition SubscribePositionWatch :: "('d, 'r) env \<Rightarrow> string \<Rightarrow> string \<Rightarrow> string \<Rightarrow> ('r, unit) om_act" where
  "SubscribePositionWatch env exchangeName strategyType reqID = do {
     agg \<leftarrow> GetAggregate reqID;
     if agg_AccountID agg = '''' then ret ()
     else case resolveAccountProvider env (agg_AccountID agg) exchangeName of
       Inl _ \<Rightarrow> ret ()
     | Inr prov \<Rightarrow> do {
         _ \<leftarrow> log_call reqID CEnsurePersonalWS;
         if pv_Adapter prov then try_call env reqID (CSubscribePersonal (flowID strategyType reqID))
         else ret () } }"

definition UnsubscribePositionWatch :: "('d, 'r) env \<Rightarrow> string \<Rightarrow> string \<Rightarrow> string \<Rightarrow> ('r, unit) om_act" where
  "UnsubscribePositionWatch env exchangeName strategyType reqID = do {
     agg \<leftarrow> GetAggregate reqID;
     if agg_AccountID agg = '''' then ret ()
     else if resolveAdapterForAccount env (agg_AccountID agg) exchangeName
     then try_call env reqID (CUnsubscribePersonal (flowID strategyType reqID))
     else ret () }"

text \<open>\<open>SubscribeTradeWatch\<close> calls the adapter without a nil check.\<close>

definition SubscribeTradeWatch :: "('d, 'r) env \<Rightarrow> string \<Rightarrow> string \<Rightarrow> string \<Rightarrow> string \<Rightarrow> ('r, unit) om_res" where
  "SubscribeTradeWatch env exchangeName strategyType reqID symbol =
     (case GetProvider env exchangeName of
        Inl _ \<Rightarrow> ret (Inr ())
      | Inr prov \<Rightarrow> do {
          _ \<leftarrow> log_call reqID CEnsurePersonalWS;
          _ \<leftarrow> GetAggregate reqID;
          if pv_Adapter prov
          then do { try_call env reqID (CSubscribeTrade (flowID strategyType reqID) symbol); ret (Inr ()) }
          else ret (Inl Panic) })"

definition UnsubscribeTradeWatch :: "('d, 'r) env \<Rightarrow> string \<Rightarrow> string \<Rightarrow> string \<Rightarrow> string \<Rightarrow> ('r, unit) om_act" where
  "UnsubscribeTradeWatch env exchangeName strategyType reqID symbol0 =
     (if \<not> resolveAdapter env exchangeName then ret ()
      else do {
        agg \<leftarrow> GetAggregate reqID;
        let symbol = or_else symbol0 (agg_Symbol agg) in
        if symbol = '''' then ret ()
        else try_call env reqID (CUnsubscribeTrade (flowID strategyType reqID) symbol) })"

subsection \<open>Preparing an order\<close>

definition configureExchangeLeverage :: "('d, 'r) env \<Rightarrow> provider \<Rightarrow> intent_event \<Rightarrow> ('r, int) om_res" where
  "configureExchangeLeverage env client evt =
     (if 0 < it_Leverage evt \<and> \<not> pv_LeverageOnOrder client
      then and_then (wrapping ''change leverage failed'' (do_call env (ReqID evt)
             (CChangeLeverage \<lparr>cl_Symbol = Symbol evt, cl_Leverage = it_Leverage evt,
                cl_OpenType = None,
                cl_PositionType = (if IsLong (it_Side evt) then PositionTypeLong else PositionTypeShort)\<rparr>)))
             (\<lambda>_. ret (Inr (it_Leverage evt)))
      else ret (Inr (it_Leverage evt)))"

text \<open>The switches of margin mode, position mode and leverage before an opening order.\<close>

definition switchModes :: "('d, 'r) env \<Rightarrow> provider \<Rightarrow> intent_event \<Rightarrow> ('r, int) om_res" where
  "switchModes env client evt =
     (if IsClose (it_Side evt) \<or> it_SkipPreFlight evt then ret (Inr (it_Leverage evt))
      else and_then (wrapping ''switch margin mode failed'' (do_call env (ReqID evt)
             (CSwitchMarginMode (Symbol evt) (it_MarginMode evt) (it_Leverage evt) (it_Side evt))))
             (\<lambda>_. and_then
                (if pv_PositionModeSwitcher client \<and> 0 < it_PositionMode evt
                 then wrapping ''switch position mode failed'' (do_call env (ReqID evt)
                        (CSwitchPositionMode (Symbol evt) (it_PositionMode evt)))
                 else ret (Inr ()))
                (\<lambda>_. configureExchangeLeverage env client evt)))"

definition HandlePreFlight :: "('d, 'r) env \<Rightarrow> intent_event \<Rightarrow> ('r, preflight_event) om_res" where
  "HandlePreFlight env evt =
     and_then (resolve (resolveClientForAccount env (AccountID evt) (Exchange evt))) (\<lambda>client.
     and_then (wrapping ''pre-flight failed to resolve clock'' (resolve (resolveClock env (Exchange evt)))) (\<lambda>clock. do {
       _ \<leftarrow> (if \<not> it_SkipPreFlight evt \<and> pv_SyncerClock clock
             then do { _ \<leftarrow> log_call (ReqID evt) CSyncNow; ret () } else ret ());
       registerCombatTarget env (it_FireTime evt) (it_SettleTime evt);
       and_then (switchModes env client evt) (\<lambda>adjustedLeverage. do {
         now \<leftarrow> clock_Now env;
         ret (Inr (intent_event.extend
           (evt\<lparr>PreTopic := TopicOrderIntent, NextTopic := TopicOrderPreFlightDone\<rparr>)
           (preflight_event.fields adjustedLeverage now))) }) }))"

definition watch_timeout :: "duration \<Rightarrow> duration" where
  "watch_timeout closeTimeout =
     (if 0 < closeTimeout \<and> 30 * minute < i64 (closeTimeout * 2) then i64 (closeTimeout * 2) else 30 * minute)"

text \<open>The stream watches of an opening order.\<close>

definition watchStreams :: "('d, 'r) env \<Rightarrow> preflight_event \<Rightarrow> duration \<Rightarrow> ('r, unit) om_res" where
  "watchStreams env evt timeout =
     (if IsClose (it_Side evt) then ret (Inr ())
      else do {
        SubscribePositionWatch env (Exchange evt) (StrategyType evt) (ReqID evt);
        if resolvePositionWatcherForAccount env (AccountID evt) (Exchange evt)
        then do {
          _ \<leftarrow> log_call (ReqID evt) (COnPositionUpdate (Symbol evt) timeout);
          modify (om_posWatch_update (\<lambda>l. l @ [(ReqID evt, Symbol evt)]));
          if it_EnablePnLTrailing evt
          then and_then (SubscribeTradeWatch env (Exchange evt) (StrategyType evt) (ReqID evt) (Symbol evt)) (\<lambda>_. do {
                 _ \<leftarrow> log_call (ReqID evt) (COnTradeUpdate (Symbol evt) timeout);
                 modify (om_tradeWatch_update (\<lambda>l. l @ [(ReqID evt, Symbol evt)]));
                 ret (Inr ()) })
          else ret (Inr ()) }
        else ret (Inr ()) })"

definition HandlePositionWatchReady :: "('d, 'r) env \<Rightarrow> preflight_event \<Rightarrow> ('r, watch_ready_event) om_res" where
  "HandlePositionWatchReady env evt =
     (let timeout = watch_timeout (it_PositionCloseTimeout evt) in
      and_then (wrapping ''position watch failed to resolve clock'' (resolve (resolveClock env (Exchange evt)))) (\<lambda>_.
      and_then (watchStreams env evt timeout) (\<lambda>_. do {
        now \<leftarrow> clock_Now env;
        ret (Inr (preflight_event.extend
          (evt\<lparr>PreTopic := TopicOrderPreFlightDone, NextTopic := TopicOrderPositionWatchReady\<rparr>)
          (watch_ready_event.fields timeout now))) })))"

definition HandleFireTiming :: "('d, 'r) env \<Rightarrow> watch_ready_event \<Rightarrow> ('r, fire_window_event) om_res" where
  "HandleFireTiming env evt =
     and_then (wrapping ''fire timing failed to resolve clock'' (resolve (resolveClock env (Exchange evt)))) (\<lambda>_. do {
       now \<leftarrow> clock_Now env;
       ret (Inr (watch_ready_event.extend
         (evt\<lparr>PreTopic := TopicOrderPositionWatchReady, NextTopic := TopicOrderFireWindowReached\<rparr>)
         (fire_window_event.fields now))) })"

subsection \<open>Submitting an order\<close>

text \<open>\<open>preparePreSign\<close>: whether a pre-signed dispatch function is at hand.\<close>

definition preparePreSign :: "('d, 'r) env \<Rightarrow> provider \<Rightarrow> SubmitOrderRequest \<Rightarrow> string \<Rightarrow> ('r, bool) om_act" where
  "preparePreSign env client req reqID =
     (if pv_PreSignExecutor client
      then do { n \<leftarrow> log_call reqID (CPrepareOrder req); ret (en_prepare env n req) }
      else ret False)"

definition sleepUntilFireTime :: "('d, 'r) env \<Rightarrow> provider \<Rightarrow> string \<Rightarrow> gtime \<Rightarrow> ('r, unit) om_res" where
  "sleepUntilFireTime env clock reqID fireTime =
     (if is_zero_time fireTime then ret (Inr ())
      else if pv_PrecisionClock clock
      then wrapping ''precision sleep until fire time failed'' (do_call env reqID (CSleepUntil fireTime))
      else do {
        now \<leftarrow> clock_Now env;
        if 0 < fireTime - now
        then wrapping ''sleep until fire time failed'' (do_call env reqID (CSleep (fireTime - now)))
        else ret (Inr ()) })"

text \<open>Sending the order, with the pre-signed function when there is one (\<open>en_dispatch\<close> is what it
  answers for the request it was prepared for) and with \<open>CreateOrder\<close> otherwise. Both are a
  submission and logged as \<open>CCreateOrder\<close>.\<close>

definition createOrder :: "('d, 'r) env \<Rightarrow> string \<Rightarrow> bool \<Rightarrow> SubmitOrderRequest \<Rightarrow> ('r, CreateOrderResult) om_res" where
  "createOrder env reqID dispatchFn req = do {
     n \<leftarrow> log_call reqID (CCreateOrder req);
     ret (case (if dispatchFn then en_dispatch env n req else en_create env n req) of
            Inl e \<Rightarrow> Inl (Err e) | Inr res \<Rightarrow> Inr res) }"

definition HandleExecuteOrder :: "('d, 'r) env \<Rightarrow> fire_window_event \<Rightarrow> ('r, submitted_event) om_res" where
  "HandleExecuteOrder env evt =
     and_then (resolve (resolveClientForAccount env (AccountID evt) (Exchange evt))) (\<lambda>client.
     and_then (wrapping ''execute order failed to resolve clock'' (resolve (resolveClock env (Exchange evt)))) (\<lambda>clock.
       let req = buildSubmitOrderRequest evt in do {
       dispatchFn \<leftarrow> (if \<not> is_zero_time (it_FireTime evt)
             then do { fn \<leftarrow> preparePreSign env client req (ReqID evt);
                       registerCombatTarget env (it_FireTime evt) (it_SettleTime evt);
                       _ \<leftarrow> (if pv_PreWarmer client then try_call env (ReqID evt) CPreWarm else ret ());
                       ret fn }
             else ret False);
       and_then (sleepUntilFireTime env clock (ReqID evt) (it_FireTime evt)) (\<lambda>_. do {
         _ \<leftarrow> clock_Now env;
         and_then (wrapping ''create order failed'' (createOrder env (ReqID evt) dispatchFn req)) (\<lambda>resp. do {
           submittedAt \<leftarrow> clock_Now env;
           SetExchangeOrderIDByReqID (ReqID evt) (cr_OrderID resp);
           ret (Inr (fire_window_event.extend
             (evt\<lparr>PreTopic := TopicOrderFireWindowReached, NextTopic := TopicOrderSubmitted\<rparr>)
             (submitted_event.fields (cr_OrderID resp) (it_Price evt) (it_Volume evt)
                (cr_TPSLSubmitted resp) submittedAt))) }) }) }))"

definition HandleTPSLContingency :: "('d, 'r) env \<Rightarrow> submitted_event \<Rightarrow> ('r, tpsl_event option) om_res" where
  "HandleTPSLContingency env evt =
     (if sb_TPSLSubmitted evt \<or> (f_eq (it_TakeProfitPrice evt) f0 \<and> f_eq (it_StopLossPrice evt) f0)
      then ret (Inr None)
      else
        and_then (resolve (resolveClientForAccount env (AccountID evt) (Exchange evt))) (\<lambda>client.
        and_then (wrapping ''place TPSL failed to resolve clock'' (resolve (resolveClock env (Exchange evt)))) (\<lambda>_.
        if \<not> pv_TPSLProvider client then ret (Inr None)
        else
          let req = \<lparr>tr_Symbol = Symbol evt, tr_PositionMode = it_PositionMode evt, tr_Side = it_Side evt,
                tr_OpenType = mapOpenType (it_MarginMode evt), tr_TakeProfitPrice = it_TakeProfitPrice evt,
                tr_StopLossPrice = it_StopLossPrice evt, tr_Volume = sb_Volume evt\<rparr>
          in and_then (wrapping ''place TPSL failed'' (do_call env (ReqID evt) (CPlaceTPSL req))) (\<lambda>_. do {
               now \<leftarrow> clock_Now env;
               now' \<leftarrow> clock_Now env;
               ret (Inr (Some (base_event.extend
                 ((base_event.truncate evt)\<lparr>RefID := '''', PreTopic := TopicOrderSubmitted,
                    NextTopic := TopicOrderTPSLDispatched, Timestamp := now\<rparr>)
                 (tpsl_event.fields (it_TakeProfitPrice evt) (it_StopLossPrice evt) now')))) }))))"

definition HandleTPSLSubmission :: "('d, 'r) env \<Rightarrow> submitted_event \<Rightarrow> ('r, tpsl_event option) om_res" where
  "HandleTPSLSubmission env evt = HandleTPSLContingency env evt"

subsection \<open>Timeout guards\<close>

definition scheduleUnfilledCancelTimeoutInternal ::
    "('d, 'r) env \<Rightarrow> string \<Rightarrow> string \<Rightarrow> string \<Rightarrow> string \<Rightarrow> strategy_type \<Rightarrow> market_type \<Rightarrow> duration \<Rightarrow> ('r, unit) om_res" where
  "scheduleUnfilledCancelTimeoutInternal env reqID orderID symbol exchangeName st mt dur =
     and_then (wrapping ''schedule unfilled cancel timeout failed to resolve clock''
       (resolve (resolveClock env exchangeName))) (\<lambda>_. do {
         arm_timer reqID (UnfilledCancel reqID orderID symbol exchangeName st mt dur);
         ret (Inr ()) })"

definition schedulePositionCloseTimeoutInternal ::
    "('d, 'r) env \<Rightarrow> string \<Rightarrow> string \<Rightarrow> string \<Rightarrow> string \<Rightarrow> strategy_type \<Rightarrow> market_type \<Rightarrow> duration \<Rightarrow> string \<Rightarrow> ('r, unit) om_res" where
  "schedulePositionCloseTimeoutInternal env reqID clientOrderID symbol exchangeName st mt dur preTopic =
     and_then (wrapping ''schedule position close timeout failed to resolve clock''
       (resolve (resolveClock env exchangeName))) (\<lambda>_. do {
         _ \<leftarrow> GetAggregate reqID;
         arm_timer reqID (PositionClose reqID clientOrderID symbol exchangeName st mt dur preTopic);
         ret (Inr ()) })"

definition HandleScheduleUnfilledCancelTimeout :: "('d, 'r) env \<Rightarrow> submitted_event \<Rightarrow> ('r, unit) om_res" where
  "HandleScheduleUnfilledCancelTimeout env evt =
     (if IsMaker (it_OrderType evt)
      then (if it_UnfilledCancelTimeout evt \<le> 0 then ret (Inr ())
            else scheduleUnfilledCancelTimeoutInternal env (ReqID evt) (sb_OrderID evt) (Symbol evt)
                   (Exchange evt) (StrategyType evt) (MarketType evt) (it_UnfilledCancelTimeout evt))
      else if it_PositionCloseTimeout evt \<le> 0 then ret (Inr ())
      else schedulePositionCloseTimeoutInternal env (ReqID evt) (ClientOrderID evt) (Symbol evt)
             (Exchange evt) (StrategyType evt) (MarketType evt) (it_PositionCloseTimeout evt) TopicOrderSubmitted)"

definition HandleSchedulePositionCloseTimeout :: "('d, 'r) env \<Rightarrow> filled_event \<Rightarrow> ('r, unit) om_res" where
  "HandleSchedulePositionCloseTimeout env evt = do {
     agg \<leftarrow> GetAggregate (ReqID evt);
     t \<leftarrow> gets (\<lambda>s. om_timers s (ReqID evt));
     if agg_PositionCloseTimeout agg \<le> 0 \<or> t \<noteq> None then ret (Inr ())
     else schedulePositionCloseTimeoutInternal env (ReqID evt) (ClientOrderID evt) (Symbol evt)
            (Exchange evt) (StrategyType evt) (MarketType evt) (agg_PositionCloseTimeout agg) TopicOrderFilled }"

definition cancelRestingOrderOnTimeout :: "('d, 'r) env \<Rightarrow> string \<Rightarrow> string \<Rightarrow> string \<Rightarrow> string \<Rightarrow> string \<Rightarrow> ('r, unit) om_act" where
  "cancelRestingOrderOnTimeout env reqID accountID exchangeName symbol orderID =
     (if accountID = '''' \<or> orderID = '''' then ret ()
      else case resolveAccountProvider env accountID exchangeName of
        Inl _ \<Rightarrow> ret ()
      | Inr prov \<Rightarrow>
          if pv_Client prov \<and> pv_OrderExecutor prov
          then try_call env reqID (CCancelOrder symbol orderID) else ret ())"

text \<open>What a timer does when it goes off.\<close>

definition fire_action :: "('d, 'r) env \<Rightarrow> timer_action \<Rightarrow> ('r, unit) om_act" where
  "fire_action env act = (case act of
     UnfilledCancel reqID orderID symbol exchangeName st mt dur \<Rightarrow> do {
       modify (\<lambda>s. s\<lparr>om_timers := (om_timers s)(reqID := None)\<rparr>);
       agg \<leftarrow> GetAggregate reqID;
       if \<not> isCancelableRestingState (ag_state agg) then ret ()
       else do {
         cancelRestingOrderOnTimeout env reqID (agg_AccountID agg) exchangeName symbol orderID;
         now \<leftarrow> clock_Now env;
         let evt = OutcomeEv (base_event.extend
               \<lparr>ReqID = reqID, RefID = '''', ClientOrderID = '''', AccountID = agg_AccountID agg,
                Symbol = symbol, Exchange = exchangeName, MarketType = mt, StrategyType = st,
                PreTopic = TopicOrderSubmitted, NextTopic = TopicOrderOutcomeResolved, Timestamp = now\<rparr>
               (outcome_event.fields OutcomeCanceledNoFill f0 f0 ''resting_timeout_expired'' 0))
         in do { RecordTo reqID evt; publish_ignoring env TopicOrderOutcomeResolved evt } } }
   | PositionClose reqID clientOrderID symbol exchangeName st mt dur preTopic \<Rightarrow> do {
       modify (\<lambda>s. s\<lparr>om_timers := (om_timers s)(reqID := None)\<rparr>);
       agg \<leftarrow> GetAggregate reqID;
       now \<leftarrow> clock_Now env;
       now' \<leftarrow> clock_Now env;
       let evt = TimeoutScheduledEv (base_event.extend
             \<lparr>ReqID = reqID, RefID = '''', ClientOrderID = clientOrderID, AccountID = agg_AccountID agg,
              Symbol = symbol, Exchange = exchangeName, MarketType = mt, StrategyType = st,
              PreTopic = preTopic, NextTopic = TopicOrderTimeoutScheduled, Timestamp = now\<rparr>
             (timeout_scheduled_event.fields dur now'))
       in do { RecordTo reqID evt; publish_ignoring env TopicOrderTimeoutScheduled evt } })"

definition HandleWaitTimeoutDeadline :: "('d, 'r) env \<Rightarrow> timeout_scheduled_event \<Rightarrow> ('r, timeout_checked_event) om_res" where
  "HandleWaitTimeoutDeadline env evt =
     and_then (wrapping ''wait timeout deadline failed to resolve clock''
       (resolve (resolveClock env (Exchange evt)))) (\<lambda>_. do {
       q \<leftarrow> (case resolveClientForAccount env (AccountID evt) (Exchange evt) of
               Inl e \<Rightarrow> ret (Inl e)
             | Inr _ \<Rightarrow> do { n \<leftarrow> log_call (ReqID evt) (CGetOpenPositions (Symbol evt));
                            ret (en_positions env n (Symbol evt)) });
       now \<leftarrow> clock_Now env;
       now' \<leftarrow> clock_Now env;
       ret (Inr (base_event.extend
         ((base_event.truncate evt)\<lparr>RefID := '''', PreTopic := TopicOrderTimeoutScheduled,
            NextTopic := TopicOrderTimeoutPositionChecked, Timestamp := now\<rparr>)
         (timeout_checked_event.fields (ts_Duration evt)
            (case q of Inl _ \<Rightarrow> f0 | Inr positions \<Rightarrow> holdVolume positions)
            (case q of Inl e \<Rightarrow> e | Inr _ \<Rightarrow> '''') now'))) })"

subsection \<open>The outcome of a submitted order\<close>

text \<open>
  \<open>backoff.Retry\<close> of an operation that answers Ok or an error: at most \<open>retries + 1\<close>
  attempts; the last error is the error of the whole.
\<close>

fun retry :: "('d, 'r) env \<Rightarrow> nat \<Rightarrow> ('r, string + 'a) om_act \<Rightarrow> ('r, string + 'a) om_act" where
  "retry env 0 op = op"
| "retry env (Suc n) op = do {
     r \<leftarrow> op;
     case r of
       Inr x \<Rightarrow> ret (Inr x)
     | Inl e \<Rightarrow> do {
         k \<leftarrow> next_call;
         if en_more env k then retry env n op else ret (Inl e) } }"

text \<open>
  The polling loop also keeps the last order it saw, so its operation threads it.
\<close>

fun poll_order :: "('d, 'r) env \<Rightarrow> nat \<Rightarrow> string \<Rightarrow> string \<Rightarrow> string \<Rightarrow> OrderInfo option \<Rightarrow>
    ('r, OrderInfo option \<times> string option) om_act" where
  "poll_order env retries reqID symbol orderID seen = do {
     n \<leftarrow> log_call reqID (CGetOrder symbol orderID);
     let (seen', err) = (case en_order env n symbol orderID of
           Inl e \<Rightarrow> (seen, Some e)
         | Inr None \<Rightarrow> (seen, Some ''order not found'')
         | Inr (Some got) \<Rightarrow>
             (Some got, if IsTerminalOrderState (oi_State got) then None
                        else Some ''order state not terminal yet''))
     in case err of
          None \<Rightarrow> ret (seen', None)
        | Some e \<Rightarrow> (case retries of
            0 \<Rightarrow> ret (seen', Some e)
          | Suc m \<Rightarrow> do {
              k \<leftarrow> next_call;
              if en_more env k then poll_order env m reqID symbol orderID seen'
              else ret (seen', Some e) }) }"

declare poll_order.simps [simp del]

definition pollOrderUntilTerminal :: "('d, 'r) env \<Rightarrow> string \<Rightarrow> string \<Rightarrow> string \<Rightarrow> string \<Rightarrow> string \<Rightarrow>
    ('r, OrderInfo option \<times> string option) om_act" where
  "pollOrderUntilTerminal env reqID accountID exchangeName symbol orderID =
     (case resolveClientForAccount env accountID exchangeName of
        Inl e \<Rightarrow> ret (None, Some e)
      | Inr _ \<Rightarrow> poll_order env 5 reqID symbol orderID None)"

definition HandleOutcomeWatcher :: "('d, 'r) env \<Rightarrow> submitted_event \<Rightarrow> ('r, outcome_event) om_res" where
  "HandleOutcomeWatcher env evt =
     and_then (wrapping ''outcome watcher failed to resolve clock'' (resolve (resolveClock env (Exchange evt)))) (\<lambda>_.
     and_then (do_call env (ReqID evt) (CSleep (2 * second))) (\<lambda>_. do {
       exchangeOrderID \<leftarrow> GetExchangeOrderIDByReqID (ReqID evt);
       accountID \<leftarrow> (if AccountID evt = '''' then do { agg \<leftarrow> GetAggregate (ReqID evt); ret (agg_AccountID agg) }
                     else ret (AccountID evt));
       (order, err) \<leftarrow> pollOrderUntilTerminal env (ReqID evt) accountID (Exchange evt) (Symbol evt)
                        (case exchangeOrderID of None \<Rightarrow> '''' | Some i \<Rightarrow> i);
       let (outcome, filledVol, avgPrice) = classifyOrderOutcome order;
           resting = (IsMaker (it_OrderType evt) \<and> (outcome = OutcomeUnknown \<or> outcome = OutcomeResting) \<and>
             (case order of None \<Rightarrow> False | Some oi \<Rightarrow> oi_State oi = OrderStateNew));
           outcome' = (if resting then OutcomeResting else outcome);
           reason = (if resting then ''order_resting_on_book''
                     else case err of None \<Rightarrow> '''' | Some e \<Rightarrow> e)
       in do {
         now \<leftarrow> clock_Now env;
         now' \<leftarrow> clock_Now env;
         ret (Inr (base_event.extend
           ((base_event.truncate evt)\<lparr>RefID := '''', PreTopic := TopicOrderSubmitted,
              NextTopic := TopicOrderOutcomeResolved, Timestamp := now\<rparr>)
           (outcome_event.fields outcome' filledVol avgPrice reason now'))) } }))"

subsection \<open>Bailout\<close>

text \<open>
  The close loop: query, close what is left, try again. A round that finds nothing left ends
  it; \<open>attempt\<close> counts the close calls.
\<close>

fun bailout_loop :: "('d, 'r) env \<Rightarrow> nat \<Rightarrow> string \<Rightarrow> string \<Rightarrow> Side \<Rightarrow> PositionMode \<Rightarrow> int \<Rightarrow> int \<Rightarrow>
    ('r, string option \<times> int) om_act" where
  "bailout_loop env retries reqID symbol closeSide posMode leverage attempt = do {
     n \<leftarrow> log_call reqID (CGetOpenPositions symbol);
     (err, attempt') \<leftarrow> (case en_positions env n symbol of
         Inl e \<Rightarrow> ret (Some (''failed to query open positions: '' @ e), attempt)
       | Inr positions \<Rightarrow>
           let remainingVol = sumRemainingHoldVolume positions symbol in
           if f_le remainingVol f0 then ret (None, attempt)
           else do {
             r \<leftarrow> do_call env reqID (CClosePosition symbol closeSide remainingVol posMode leverage);
             ret (Some (case r of Inl (Err e) \<Rightarrow> ''ClosePosition for remaining vol failed: '' @ e
                        | _ \<Rightarrow> ''position '' @ symbol @ '' still open''), attempt + 1) });
     case err of
       None \<Rightarrow> ret (None, attempt')
     | Some e \<Rightarrow> (case retries of
         0 \<Rightarrow> ret (Some e, attempt')
       | Suc m \<Rightarrow> do {
           k \<leftarrow> next_call;
           if en_more env k then bailout_loop env m reqID symbol closeSide posMode leverage attempt'
           else ret (Some e, attempt') }) }"

declare bailout_loop.simps [simp del]

definition HandleExecuteBailout ::
    "('d, 'r) env \<Rightarrow> string \<Rightarrow> string \<Rightarrow> string \<Rightarrow> Side \<Rightarrow> float64 \<Rightarrow> string \<Rightarrow> ('r, bailout_event) om_res" where
  "HandleExecuteBailout env reqID exchangeName symbol side volume reason = do {
     agg \<leftarrow> GetAggregate reqID;
     let accountID = agg_AccountID agg in
     and_then (resolve (resolveClientForAccount env accountID exchangeName)) (\<lambda>_.
     and_then (wrapping ''bailout failed to resolve clock'' (resolve (resolveClock env exchangeName))) (\<lambda>_. do {
       try_call env reqID (CCloseAllPositions symbol);
       (err, retries) \<leftarrow> bailout_loop env 10 reqID symbol (CloseSideFor side) (agg_PositionMode agg)
                          (agg_Leverage agg) 0;
       case err of
         Some e \<Rightarrow> ret (Inl (wrap ''bailout failed after retries'' e))
       | None \<Rightarrow> do {
           now \<leftarrow> clock_Now env;
           now' \<leftarrow> clock_Now env;
           ret (Inr (base_event.extend
             \<lparr>ReqID = reqID, RefID = '''', ClientOrderID = agg_ClientOrderID agg, AccountID = accountID,
              Symbol = symbol, Exchange = exchangeName, MarketType = agg_MarketType agg,
              StrategyType = agg_StrategyType agg, PreTopic = TopicOrderTimeoutPositionChecked,
              NextTopic = TopicOrderBailoutExecuted, Timestamp = now\<rparr>
             (bailout_event.fields side volume f0 retries reason now'))) } })) }"

definition HandleTimeoutCheck :: "('d, 'r) env \<Rightarrow> timeout_scheduled_event \<Rightarrow> ('r, timeout_expired_event option) om_res" where
  "HandleTimeoutCheck env evt = do {
     accountID \<leftarrow> (if AccountID evt = '''' then do { agg \<leftarrow> GetAggregate (ReqID evt); ret (agg_AccountID agg) }
                   else ret (AccountID evt));
     and_then (wrapping ''query position on timeout failed'' (resolve (resolveClientForAccount env accountID (Exchange evt)))) (\<lambda>_.
     and_then (wrapping ''query position on timeout failed to resolve clock'' (resolve (resolveClock env (Exchange evt)))) (\<lambda>_. do {
       n \<leftarrow> log_call (ReqID evt) (CGetOpenPositions (Symbol evt));
       case en_positions env n (Symbol evt) of
         Inl e \<Rightarrow> ret (Inl (wrap ''query position on timeout failed'' e))
       | Inr positions \<Rightarrow>
           let holdVol = holdVolume positions in
           if f_le holdVol f0 then ret (Inr None)
           else do {
             now \<leftarrow> clock_Now env;
             now' \<leftarrow> clock_Now env;
             ret (Inr (Some (base_event.extend
               ((base_event.truncate evt)\<lparr>RefID := '''', AccountID := accountID,
                  PreTopic := TopicOrderTimeoutScheduled, NextTopic := TopicOrderTimeoutExpired,
                  Timestamp := now\<rparr>)
               (timeout_expired_event.fields holdVol now')))) } })) }"

subsection \<open>Completion\<close>

definition fetchClosedPnL :: "('d, 'r) env \<Rightarrow> string \<Rightarrow> string \<Rightarrow> string \<Rightarrow> string \<Rightarrow> string \<Rightarrow> float64 \<Rightarrow>
    ('r, pnl_metrics) om_act" where
  "fetchClosedPnL env reqID accountID exchangeName symbol exchangeOrderID contractSize =
     (if exchangeOrderID = '''' then ret no_metrics
      else case resolveClientForAccount env accountID exchangeName of
        Inl _ \<Rightarrow> ret no_metrics
      | Inr client \<Rightarrow>
          if \<not> pv_ClosedPnLProvider client then ret no_metrics
          else do {
            r \<leftarrow> retry env 10 (do {
              n \<leftarrow> log_call reqID (CGetOrderPNL symbol exchangeOrderID);
              ret (case en_closedPnL env n symbol exchangeOrderID of
                     Inl e \<Rightarrow> Inl e
                   | Inr None \<Rightarrow> Inl ''closed pnl info not ready yet''
                   | Inr (Some info) \<Rightarrow> Inr info) });
            ret (case r of Inl _ \<Rightarrow> no_metrics | Inr info \<Rightarrow> metrics_of contractSize info) })"

definition completed_of ::
    "completed_details \<Rightarrow> pnl_metrics \<Rightarrow> base_event \<Rightarrow> string \<Rightarrow> order_outcome \<Rightarrow> string \<Rightarrow> gtime \<Rightarrow> completed_event" where
  "completed_of details0 pnl base exchangeOrderID outcome reason now =
     (let d = mergePnL pnl details0 in
      base_event.extend (base\<lparr>RefID := cd_refID d\<rparr>)
        (completed_event.fields (cd_side d) exchangeOrderID
           (if pm_status pnl = OrderStateCanceled then OutcomeCanceledNoFill else outcome)
           (cd_entryPrice d) (cd_exitPrice d) (cd_closeVolContract d) (cd_closeVolCoin d)
           (cd_VolumeUSDT d) (cd_contractSize d) (cd_grossPnL d) (cd_netPnL d) (cd_pnlPct d)
           (cd_fee d) (cd_fundingFee d) (cd_fundingRate d) (cd_vol24h d) (cd_holdDurationMs d) 0
           reason (cd_settleTime d) (cd_extra d) now))"

definition HandleEnrichAndComplete ::
    "('d, 'r) env \<Rightarrow> string \<Rightarrow> string \<Rightarrow> string \<Rightarrow> string \<Rightarrow> strategy_type \<Rightarrow> order_outcome \<Rightarrow> string \<Rightarrow>
     ('r, completed_event) om_res" where
  "HandleEnrichAndComplete env exchangeName reqID clientOrderID symbol strategyType outcome reason =
     and_then (wrapping ''failed to resolve clock'' (resolve (resolveClock env exchangeName))) (\<lambda>_. do {
       _ \<leftarrow> GetAggregate reqID;
       try_call env reqID (CSleep (30 * second));
       exOID \<leftarrow> GetExchangeOrderIDByReqID reqID;
       agg \<leftarrow> GetAggregate reqID;
       let exchangeOrderID = (case exOID of None \<Rightarrow> '''' | Some i \<Rightarrow> i);
           details = extractAggregateCompletedDetails agg;
           contractSize = (if f_le (cd_contractSize details) f0 then FFin 1 else cd_contractSize details)
       in do {
         pnl \<leftarrow> fetchClosedPnL env reqID (agg_AccountID agg) exchangeName symbol exchangeOrderID contractSize;
         now \<leftarrow> clock_Now env;
         now' \<leftarrow> clock_Now env;
         ret (Inr (completed_of details pnl
           \<lparr>ReqID = reqID, RefID = '''', ClientOrderID = clientOrderID, AccountID = agg_AccountID agg,
            Symbol = symbol, Exchange = exchangeName, MarketType = MarketTypeFutures,
            StrategyType = strategyType, PreTopic = TopicOrderPositionClosed,
            NextTopic = TopicOrderCompleted, Timestamp = now\<rparr>
           exchangeOrderID outcome reason now')) } })"

text \<open>The end shared by all completing subscribers: record the completion and publish it.\<close>

definition complete_order ::
    "('d, 'r) env \<Rightarrow> string \<Rightarrow> string \<Rightarrow> string \<Rightarrow> string \<Rightarrow> strategy_type \<Rightarrow> order_outcome \<Rightarrow> string \<Rightarrow> ('r, unit) om_res" where
  "complete_order env exchangeName reqID clientOrderID symbol strategyType outcome reason =
     and_then (HandleEnrichAndComplete env exchangeName reqID clientOrderID symbol strategyType outcome reason)
       (\<lambda>completed. do {
         RecordTo reqID (CompletedEv completed);
         publishEvent env TopicOrderCompleted (CompletedEv completed) })"

subsection \<open>Position and trade streams\<close>

definition handlePositionFilled ::
    "('d, 'r) env \<Rightarrow> string \<Rightarrow> aggregate \<Rightarrow> PersonalPositionUpdate \<Rightarrow> float64 \<Rightarrow> float64 \<Rightarrow> float64 \<Rightarrow> ('r, unit) om_res" where
  "handlePositionFilled env reqID agg pos contractSize holdVolContract holdVolCoin =
     (if is_terminal (ag_state agg) then ret (Inr ())
      else
        let fillPrice = (if f_eq (pu_OpenAvgPrice pos) f0 then pu_HoldAvgPrice pos else pu_OpenAvgPrice pos) in
        and_then (decimal (calculateVolumeUSDT (en_dec env) holdVolCoin holdVolContract fillPrice contractSize))
          (\<lambda>volumeUSDT. do {
            now \<leftarrow> clock_Now env;
            now' \<leftarrow> clock_Now env;
            let evt = FilledEv (base_event.extend
                  \<lparr>ReqID = reqID, RefID = '''', ClientOrderID = agg_ClientOrderID agg,
                   AccountID = agg_AccountID agg, Symbol = pu_Symbol pos, Exchange = agg_Exchange agg,
                   MarketType = agg_MarketType agg, StrategyType = agg_StrategyType agg,
                   PreTopic = TopicOrderPositionWatchReady, NextTopic = TopicOrderFilled, Timestamp = now\<rparr>
                  (filled_event.fields (agg_Side agg) fillPrice holdVolContract holdVolCoin volumeUSDT f0 now'))
            in do { RecordTo reqID evt; publish_ignoring env TopicOrderFilled evt; ret (Inr ()) } }))"

definition handlePositionClosed ::
    "('d, 'r) env \<Rightarrow> string \<Rightarrow> aggregate \<Rightarrow> PersonalPositionUpdate \<Rightarrow> float64 \<Rightarrow> ('r, unit) om_res" where
  "handlePositionClosed env reqID agg pos contractSize =
     (if is_terminal (ag_state agg) then ret (Inr ())
      else
        let closePrice = (if f_eq (pu_CloseAvgPrice pos) f0 then pu_HoldAvgPrice pos else pu_CloseAvgPrice pos);
            (vc0, vn0) = normalizeVolume (pu_CloseVolContract pos) (pu_CloseVolCoin pos) contractSize;
            (vc, vn) = (if f_eq vc0 f0 \<and> f_eq vn0 f0
              then normalizeVolume (agg_FillVolContract agg) (agg_FillVolCoin agg) contractSize else (vc0, vn0))
        in if shouldIgnoreZeroVolumeUpdate agg pos closePrice vc vn then ret (Inr ())
           else
             and_then (decimal (calculateVolumeUSDT (en_dec env) vn vc closePrice contractSize)) (\<lambda>volUSDT. do {
             now \<leftarrow> clock_Now env;
             and_then (decimal (Option.bind (Sub (en_dec env) (pu_CloseProfitLoss pos) (pu_Fee pos))
                 (\<lambda>x. Add (en_dec env) x (pu_HoldFee pos)))) (\<lambda>netProfit.
               let evt = PositionClosedEv (base_event.extend
                     \<lparr>ReqID = reqID, RefID = '''', ClientOrderID = agg_ClientOrderID agg,
                      AccountID = agg_AccountID agg, Symbol = pu_Symbol pos, Exchange = agg_Exchange agg,
                      MarketType = agg_MarketType agg, StrategyType = agg_StrategyType agg,
                      PreTopic = TopicOrderFilled, NextTopic = TopicOrderPositionClosed, Timestamp = now\<rparr>
                     (position_closed_event.fields (pu_OpenAvgPrice pos) closePrice vc vn ''exchange_push''
                        (pu_CloseProfitLoss pos) netProfit f0 volUSDT (pu_Fee pos) (pu_HoldFee pos) 0 ''''))
               in do {
                 RecordTo reqID evt;
                 publish_ignoring env TopicOrderPositionClosed evt;
                 UnsubscribeTradeWatch env (agg_Exchange agg) (agg_StrategyType agg) reqID
                   (or_else (pu_Symbol pos) (agg_Symbol agg));
                 ret (Inr ()) }) }))"

definition HandlePositionUpdate :: "('d, 'r) env \<Rightarrow> string \<Rightarrow> PersonalPositionUpdate \<Rightarrow> ('r, unit) om_res" where
  "HandlePositionUpdate env reqID pos = do {
     agg \<leftarrow> GetAggregate reqID;
     if is_terminal (ag_state agg) then ret (Inr ())
     else case resolveClock env (agg_Exchange agg) of
       Inl _ \<Rightarrow> ret (Inr ())
     | Inr _ \<Rightarrow>
         let contractSize = agg_ContractSize agg;
             (vc, vn) = normalizeVolume (pu_HoldVolContract pos) (pu_HoldVolCoin pos) contractSize
         in if f_pos vc \<or> f_pos vn
            then (if HasFilled agg then ret (Inr ())
                  else handlePositionFilled env reqID agg pos contractSize vc vn)
            else do {
              modify (om_trackers_update (\<lambda>m. m(reqID := None)));
              handlePositionClosed env reqID agg pos contractSize } }"

definition executePnLBailout ::
    "('d, 'r) env \<Rightarrow> string \<Rightarrow> string \<Rightarrow> aggregate \<Rightarrow> float64 \<Rightarrow> float64 \<Rightarrow> ('r, unit) om_act" where
  "executePnLBailout env reqID symbol agg holdVolCoin holdVolContract = do {
     res \<leftarrow> HandleExecuteBailout env reqID (agg_Exchange agg) symbol (agg_Side agg)
       (if f_le holdVolCoin f0 then holdVolContract else holdVolCoin) ''pnl_reduction'';
     case res of
       Inl _ \<Rightarrow> ret ()
     | Inr b \<Rightarrow> do { RecordTo reqID (BailoutEv b); publish_ignoring env TopicOrderBailoutExecuted (BailoutEv b) } }"

text \<open>\<open>getOrInitPnLTracker\<close>: None when a tracker was started just now.\<close>

definition getOrInitPnLTracker :: "string \<Rightarrow> string \<Rightarrow> float64 \<Rightarrow> ('r, pnl_tracker option) om_act" where
  "getOrInitPnLTracker reqID exchangeName pnl = do {
     agg \<leftarrow> GetAggregate reqID;
     let accountID = agg_AccountID agg in do {
       t \<leftarrow> gets (\<lambda>s. om_trackers s reqID);
       case t of
         None \<Rightarrow> do {
           modify (om_trackers_update (\<lambda>m. m(reqID \<mapsto> \<lparr>tk_ReqID = reqID, tk_AccountID = accountID,
             tk_Exchange = exchangeName, MaxPnL = pnl, History = [pnl]\<rparr>)));
           ret None }
       | Some tr \<Rightarrow>
           ret (Some (tr\<lparr>tk_Exchange := or_else (tk_Exchange tr) exchangeName,
             tk_AccountID := or_else (tk_AccountID tr) accountID\<rparr>)) } }"

definition trackPositionPnL ::
    "('d, 'r) env \<Rightarrow> string \<Rightarrow> string \<Rightarrow> aggregate \<Rightarrow> float64 \<Rightarrow> float64 \<Rightarrow> float64 \<Rightarrow> ('r, unit) om_act" where
  "trackPositionPnL env reqID symbol agg currentPnL holdVolCoin holdVolContract =
     (if is_terminal (ag_state agg) \<or> ag_state agg = StateBailout \<or> \<not> agg_EnablePnLTrailing agg then ret ()
      else do {
        tr \<leftarrow> getOrInitPnLTracker reqID (agg_Exchange agg) currentPnL;
        case tr of
          None \<Rightarrow> ret ()
        | Some t0 \<Rightarrow>
            let (t, increased) = tracker_update currentPnL t0 in
            if increased then modify (om_trackers_update (\<lambda>m. m(reqID \<mapsto> t)))
            else do {
              modify (om_trackers_update (\<lambda>m. m(reqID \<mapsto> t)));
              (if dropExceeded t currentPnL (agg_PnLTrailingDropPct agg) \<and>
                  IsConsecutiveDrop (History t) (agg_PnLTrailingConfirmTicks agg)
               then executePnLBailout env reqID symbol agg holdVolCoin holdVolContract else ret ());
              modify (om_trackers_update (\<lambda>m. m(reqID \<mapsto> t))) } })"

definition HandleTradeUpdate :: "('d, 'r) env \<Rightarrow> string \<Rightarrow> string \<Rightarrow> PublicTrade list \<Rightarrow> ('r, unit) om_res" where
  "HandleTradeUpdate env reqID symbol trades =
     (if trades = [] then ret (Inr ())
      else do {
        agg \<leftarrow> GetAggregate reqID;
        if \<not> HasFilled agg \<or> \<not> agg_EnablePnLTrailing agg \<or> is_terminal (ag_state agg) \<or>
           ag_state agg = StateBailout \<or> ag_state agg = StatePositionClosed
        then ret (Inr ())
        else
          let tradePrice = pt_Price (last trades); entryPrice = agg_EntryPrice agg;
              cs = agg_ContractSize agg; contractSize = (if f_le cs f0 then FFin 1 else cs)
          in if f_le tradePrice f0 \<or> f_le entryPrice f0 then ret (Inr ())
             else and_then (decimal (calculateFloatingPnL (en_dec env) (agg_Side agg) entryPrice tradePrice
                    (agg_FillVolCoin agg) (agg_FillVolContract agg) contractSize))
                  (\<lambda>pnl. do {
                    trackPositionPnL env reqID symbol agg pnl (agg_FillVolCoin agg) (agg_FillVolContract agg);
                    ret (Inr ()) }) })"

subsection \<open>Cancellation\<close>

definition CancelOrder :: "('d, 'r) env \<Rightarrow> string \<Rightarrow> ('r, unit) om_res" where
  "CancelOrder env reqID = do {
     _ \<leftarrow> CancelTimeoutGuard reqID;
     agg \<leftarrow> GetAggregate reqID;
     let exchangeName = agg_Exchange agg; orderID = agg_OrderID agg in
     case resolveAccountProvider env (agg_AccountID agg) exchangeName of
       Inl e \<Rightarrow> ret (Inl (wrap (''failed to resolve exchange provider for '' @ exchangeName) e))
     | Inr prov \<Rightarrow>
         if \<not> pv_Client prov
         then ret (Inl (Err (''failed to resolve exchange provider for '' @ exchangeName)))
         else do {
           (if pv_OrderExecutor prov \<and> orderID \<noteq> ''''
            then try_call env reqID (CCancelOrder (agg_Symbol agg) orderID) else ret ());
           and_then (wrapping ''resolve clock failed'' (resolve (resolveClock env exchangeName))) (\<lambda>_. do {
             now \<leftarrow> clock_Now env;
             let evt = CanceledEv (base_event.extend
                   \<lparr>ReqID = reqID, RefID = '''', ClientOrderID = agg_ClientOrderID agg,
                    AccountID = agg_AccountID agg, Symbol = agg_Symbol agg, Exchange = exchangeName,
                    MarketType = agg_MarketType agg, StrategyType = agg_StrategyType agg,
                    PreTopic = TopicOrderSubmitted, NextTopic = TopicOrderCanceled, Timestamp = now\<rparr>
                   (canceled_event.fields orderID ''manual_cancel'' now))
             in do { RecordTo reqID evt; publishEvent env TopicOrderCanceled evt } }) } }"

text \<open>The provider whose client cancels all open orders of a symbol.\<close>

definition cancel_executor :: "('d, 'r) env \<Rightarrow> string \<Rightarrow> string \<Rightarrow> bool" where
  "cancel_executor env accountID exchangeName \<longleftrightarrow>
     (accountID \<noteq> '''' \<and> (case resolveAccountProvider env accountID exchangeName of
        Inl _ \<Rightarrow> False | Inr p \<Rightarrow> pv_Client p \<and> pv_OrderExecutor p)) \<or>
     (case GetProvider env exchangeName of Inl _ \<Rightarrow> False | Inr p \<Rightarrow> pv_Client p \<and> pv_OrderExecutor p)"

fun cancel_guards :: "aggregate list \<Rightarrow> ('r, unit) om_act" where
  "cancel_guards [] = ret ()"
| "cancel_guards (a # as) = do { _ \<leftarrow> CancelTimeoutGuard (agg_ReqID a); cancel_guards as }"

definition CancelOpenOrders :: "('d, 'r) env \<Rightarrow> string \<Rightarrow> string \<Rightarrow> string \<Rightarrow> ('r, unit) om_res" where
  "CancelOpenOrders env accountID exchangeName symbol =
     (if \<not> cancel_executor env accountID exchangeName
      then ret (Inl (Err (''failed to resolve exchange provider for '' @ exchangeName @
             '' (account: '' @ accountID @ '')'')))
      else and_then (wrapping (''cancel all open orders on '' @ exchangeName @ '' ('' @ accountID @ '')'')
             (do_call env '''' (CCancelAllOpenOrders symbol))) (\<lambda>_. do {
               active \<leftarrow> gets (GetActiveOrdersForAccount accountID exchangeName symbol);
               cancel_guards active;
               ret (Inr ()) }))"

end
