(* ===== verification/OrderPipeline.thy ===== *)
theory OrderPipeline
  imports OrderManager
begin

text \<open>
  \<open>internal/trading/ordermanager/futures/execute.go\<close>: the subscribers that chain the
  handlers of \<open>OrderManager\<close> over the bus, and the running pipeline as a step relation: a
  client dispatches an intent or cancels, a subscriber handles a message, a timer goes off,
  a position or trade update arrives, entries of the caches expire, in any order. A step runs one handler to its end. A
  message whose type does not fit its subscriber cannot occur: each topic carries one type.
\<close>

subsection \<open>Subscribers\<close>

definition abortOrder :: "('d, 'r) env \<Rightarrow> order_event \<Rightarrow> string \<Rightarrow> string \<Rightarrow> string \<Rightarrow> ('r, unit) om_res" where
  "abortOrder env evt preTopic reason errStr = do {
     _ \<leftarrow> CancelTimeoutGuard (GetReqID evt);
     UnsubscribePositionWatch env (GetExchange evt) (GetStrategyType evt) (GetReqID evt);
     UnsubscribeTradeWatch env (GetExchange evt) (GetStrategyType evt) (GetReqID evt) (GetSymbol evt);
     now \<leftarrow> wall_Now env;
     now' \<leftarrow> wall_Now env;
     let aborted = AbortedEv (base_event.extend
           ((ev_base evt)\<lparr>RefID := '''', PreTopic := preTopic, NextTopic := TopicOrderAborted,
              Timestamp := now\<rparr>)
           (aborted_event.fields '''' reason errStr now'))
     in do {
       RecordTo (GetReqID evt) aborted;
       publish_ignoring env TopicOrderAborted aborted;
       ret (Inl (Err errStr)) } }"

text \<open>Steps 1 to 4: hand the event on, or abort the order.\<close>

definition advance ::
    "('d, 'r) env \<Rightarrow> order_event \<Rightarrow> string \<Rightarrow> string \<Rightarrow> string \<Rightarrow> ('a \<Rightarrow> order_event) \<Rightarrow> ('r, 'a) om_res \<Rightarrow> ('r, unit) om_res" where
  "advance env evt topic reason nextTopic ev handler = do {
     res \<leftarrow> handler;
     case res of
       Inl Panic \<Rightarrow> ret (Inl Panic)
     | Inl (Err e) \<Rightarrow> abortOrder env evt topic reason e
     | Inr x \<Rightarrow> do { RecordTo (GetReqID evt) (ev x); publishEvent env nextTopic (ev x) } }"

definition record_and_publish :: "('d, 'r) env \<Rightarrow> string \<Rightarrow> string \<Rightarrow> order_event \<Rightarrow> ('r, unit) om_res" where
  "record_and_publish env reqID topic e = do { RecordTo reqID e; publishEvent env topic e }"

definition handleTimeoutNoPosition :: "('d, 'r) env \<Rightarrow> timeout_checked_event \<Rightarrow> ('r, unit) om_res" where
  "handleTimeoutNoPosition env evt = do {
     UnsubscribePositionWatch env (Exchange evt) (StrategyType evt) (ReqID evt);
     UnsubscribeTradeWatch env (Exchange evt) (StrategyType evt) (ReqID evt) (Symbol evt);
     agg \<leftarrow> GetAggregate (ReqID evt);
     if stateRank StateCompleted \<le> stateRank (ag_state agg) then ret (Inr ())
     else complete_order env (Exchange evt) (ReqID evt) (ClientOrderID evt) (Symbol evt) (agg_StrategyType agg)
            (if HasFilled agg then OutcomeFilled else OutcomeCanceledNoFill)
            (if HasFilled agg then ''timeout_position_already_closed'' else ''timeout_no_position'') }"

definition handleTimeoutBailout :: "('d, 'r) env \<Rightarrow> timeout_checked_event \<Rightarrow> ('r, unit) om_res" where
  "handleTimeoutBailout env evt = do {
     agg \<leftarrow> GetAggregate (ReqID evt);
     res \<leftarrow> HandleExecuteBailout env (ReqID evt) (Exchange evt) (Symbol evt) (agg_Side agg) (tc_HoldVol evt)
              ''timeout_position_open'';
     case res of
       Inl Panic \<Rightarrow> ret (Inl Panic)
     | Inl (Err e) \<Rightarrow>
         abortOrder env (TimeoutCheckedEv evt) TopicOrderTimeoutPositionChecked ''bailout_error'' e
     | Inr b \<Rightarrow>
         and_then (record_and_publish env (ReqID evt) TopicOrderBailoutExecuted (BailoutEv b)) (\<lambda>_.
           complete_order env (Exchange evt) (ReqID evt) (ClientOrderID evt) (Symbol evt)
             (agg_StrategyType agg) OutcomeBailout ''timeout_bailout_executed'') }"

definition handleTimeoutPositionChecked :: "('d, 'r) env \<Rightarrow> timeout_checked_event \<Rightarrow> ('r, unit) om_res" where
  "handleTimeoutPositionChecked env evt = do {
     _ \<leftarrow> GetAggregate (ReqID evt);
     if f_le (tc_HoldVol evt) f0 then handleTimeoutNoPosition env evt
     else handleTimeoutBailout env evt }"

definition handleOutcomeResolved :: "('d, 'r) env \<Rightarrow> outcome_event \<Rightarrow> ('r, unit) om_res" where
  "handleOutcomeResolved env evt =
     (if oc_Outcome evt = OutcomeResting then ret (Inr ())
      else do {
        agg \<leftarrow> GetAggregate (ReqID evt);
        let isCloseOrder = IsClose (agg_Side agg) in
        if oc_Outcome evt = OutcomeCanceledNoFill \<or>
           (oc_Outcome evt = OutcomeUnknown \<and> f_eq (oc_FilledVol evt) f0) \<or>
           (isCloseOrder \<and> oc_Outcome evt = OutcomeFilled)
        then do {
          _ \<leftarrow> CancelTimeoutGuard (ReqID evt);
          complete_order env (Exchange evt) (ReqID evt) (ClientOrderID evt) (Symbol evt)
            (agg_StrategyType agg) (oc_Outcome evt)
            (if oc_Reason evt = '''' \<and> isCloseOrder then ''close_order_filled'' else oc_Reason evt) }
        else ret (Inr ()) })"

definition handlePositionClosedEvent :: "('d, 'r) env \<Rightarrow> position_closed_event \<Rightarrow> ('r, unit) om_res" where
  "handlePositionClosedEvent env evt = do {
     _ \<leftarrow> CancelTimeoutGuard (ReqID evt);
     agg \<leftarrow> GetAggregate (ReqID evt);
     complete_order env (Exchange evt) (ReqID evt) (ClientOrderID evt) (Symbol evt) (agg_StrategyType agg)
       OutcomeFilled (pc_Reason evt) }"

definition handleOrderCompleted :: "('d, 'r) env \<Rightarrow> completed_event \<Rightarrow> ('r, unit) om_res" where
  "handleOrderCompleted env evt = do {
     _ \<leftarrow> log_call (ReqID evt) (CCompletedCallbacks evt);
     _ \<leftarrow> CancelTimeoutGuard (ReqID evt);
     UnsubscribePositionWatch env (Exchange evt) (StrategyType evt) (ReqID evt);
     UnsubscribeTradeWatch env (Exchange evt) (StrategyType evt) (ReqID evt) (Symbol evt);
     agg \<leftarrow> GetAggregate (ReqID evt);
     exOID \<leftarrow> GetExchangeOrderIDByReqID (ReqID evt);
     let built = BuildTradeRecord agg;
         rec = (if r_ExchangeOrderID built = ''''
                then built\<lparr>r_ExchangeOrderID := (case exOID of None \<Rightarrow> '''' | Some i \<Rightarrow> i)\<rparr> else built)
     in record_and_publish env (ReqID evt) TopicOrderTradeRecord (TradeRecordEv rec) }"

definition subscriber_action :: "('d, 'r) env \<Rightarrow> subscriber \<Rightarrow> order_event \<Rightarrow> ('r, unit) om_res" where
  "subscriber_action env h evt = (case h of
     SubPreFlight \<Rightarrow> (case evt of IntentEv e \<Rightarrow>
         advance env (IntentEv e) TopicOrderIntent ''preflight_error'' TopicOrderPreFlightDone
       PreFlightEv (HandlePreFlight env e)
       | _ \<Rightarrow> ret (Inr ()))
   | SubWatchReady \<Rightarrow> (case evt of PreFlightEv e \<Rightarrow>
         advance env (PreFlightEv e) TopicOrderPreFlightDone ''position_watch_ready_error''
       TopicOrderPositionWatchReady WatchReadyEv (HandlePositionWatchReady env e)
       | _ \<Rightarrow> ret (Inr ()))
   | SubFireTiming \<Rightarrow> (case evt of WatchReadyEv e \<Rightarrow>
         advance env (WatchReadyEv e) TopicOrderPositionWatchReady ''fire_timing_error''
       TopicOrderFireWindowReached FireWindowEv (HandleFireTiming env e)
       | _ \<Rightarrow> ret (Inr ()))
   | SubExecute \<Rightarrow> (case evt of FireWindowEv e \<Rightarrow>
         advance env (FireWindowEv e) TopicOrderFireWindowReached ''submit_error''
       TopicOrderSubmitted SubmittedEv (HandleExecuteOrder env e)
       | _ \<Rightarrow> ret (Inr ()))
   | SubTPSL \<Rightarrow> (case evt of SubmittedEv e \<Rightarrow>
         and_then (HandleTPSLSubmission env e) (\<lambda>res. case res of
       None \<Rightarrow> ret (Inr ())
     | Some t \<Rightarrow> record_and_publish env (ReqID e) TopicOrderTPSLDispatched (TPSLEv t))
       | _ \<Rightarrow> ret (Inr ()))
   | SubOutcome \<Rightarrow> (case evt of SubmittedEv e \<Rightarrow>
         and_then (HandleOutcomeWatcher env e) (\<lambda>res.
       record_and_publish env (ReqID e) TopicOrderOutcomeResolved (OutcomeEv res))
       | _ \<Rightarrow> ret (Inr ()))
   | SubUnfilled \<Rightarrow> (case evt of SubmittedEv e \<Rightarrow>
         HandleScheduleUnfilledCancelTimeout env e
       | _ \<Rightarrow> ret (Inr ()))
   | SubPositionTimeout \<Rightarrow> (case evt of FilledEv e \<Rightarrow>
         HandleSchedulePositionCloseTimeout env e
       | _ \<Rightarrow> ret (Inr ()))
   | SubWaitDeadline \<Rightarrow> (case evt of TimeoutScheduledEv e \<Rightarrow>
         and_then (HandleWaitTimeoutDeadline env e) (\<lambda>res.
       record_and_publish env (ReqID e) TopicOrderTimeoutPositionChecked (TimeoutCheckedEv res))
       | _ \<Rightarrow> ret (Inr ()))
   | SubTimeoutChecked \<Rightarrow> (case evt of TimeoutCheckedEv e \<Rightarrow>
         handleTimeoutPositionChecked env e
       | _ \<Rightarrow> ret (Inr ()))
   | SubOutcomeResolved \<Rightarrow> (case evt of OutcomeEv e \<Rightarrow>
         handleOutcomeResolved env e
       | _ \<Rightarrow> ret (Inr ()))
   | SubPositionClosed \<Rightarrow> (case evt of PositionClosedEv e \<Rightarrow>
         handlePositionClosedEvent env e
       | _ \<Rightarrow> ret (Inr ()))
   | SubCompleted \<Rightarrow> (case evt of CompletedEv e \<Rightarrow>
         handleOrderCompleted env e
       | _ \<Rightarrow> ret (Inr ()))
   | SubTradeRecord \<Rightarrow> (case evt of TradeRecordEv e \<Rightarrow>
         do_call env (ReqID e) (CSave e)
       | _ \<Rightarrow> ret (Inr ()))
   | SubNotify \<Rightarrow> ret (Inr ()))"

text \<open>
  What \<open>registerEventSubscription\<close> and \<open>registerNotificationHandler\<close> do with a message; the
  error is logged, a panic recovered.
\<close>

definition handle_message :: "('d, 'r) env \<Rightarrow> subscriber \<Rightarrow> order_event \<Rightarrow> ('r, unit) om_act" where
  "handle_message env h evt =
     (if h = SubNotify
      then (if ShouldNotify evt then try_call env (GetReqID evt) (CNotify evt) else ret ())
      else do {
        RecordTo (GetReqID evt) evt;
        _ \<leftarrow> subscriber_action env h evt;
        ret () })"

subsection \<open>The running pipeline\<close>

definition om_init :: "'r \<Rightarrow> int \<Rightarrow> 'r om" where
  "om_init repo gcPercent =
     \<lparr>om_aggregates = [], om_orderIDs = (\<lambda>_. None), om_trackers = (\<lambda>_. None), om_timers = (\<lambda>_. None),
      om_armed = [], om_nextTimer = 0, om_combat = NewCombatModeCoordinator gcPercent,
      om_bus = new_bus repo, om_mail = [], om_posWatch = [], om_tradeWatch = [], om_log = [],
      om_calls = 0\<rparr>"

definition run :: "('s, 'a) state \<Rightarrow> 's \<Rightarrow> 's" where
  "run m s = snd (run_state m s)"

inductive om_step :: "('d, 'r) env \<Rightarrow> 'r om \<Rightarrow> 'r om \<Rightarrow> bool" for env :: "('d, 'r) env" where
  dispatch: "om_step env s (run (Dispatch env (Some (IntentEv e))) s)"
| deliver: "(h, evt) \<in> set (om_mail s) \<Longrightarrow>
    om_step env s (run (handle_message env h evt) (s\<lparr>om_mail := remove1 (h, evt) (om_mail s)\<rparr>))"
| timer: "(i, act) \<in> set (om_armed s) \<Longrightarrow>
    om_step env s (run (fire_action env act) (s\<lparr>om_armed := remove1 (i, act) (om_armed s)\<rparr>))"
| position: "(r, symbol) \<in> set (om_posWatch s) \<Longrightarrow> om_step env s (run (HandlePositionUpdate env r pos) s)"
| trades: "(r, symbol) \<in> set (om_tradeWatch s) \<Longrightarrow> om_step env s (run (HandleTradeUpdate env r symbol ts) s)"
| cancel: "om_step env s (run (CancelOrder env r) s)"
| cancel_all: "om_step env s (run (CancelOpenOrders env acc ex symbol) s)"
| combat: "t \<in> set (cb_timers (om_combat s)) \<Longrightarrow>
    om_step env s (s\<lparr>om_combat := combat_fire now t (om_combat s)\<rparr>)"
| expire: "om_step env s (expire_caches aggs ids trackers s)"

inductive om_reach :: "('d, 'r) env \<Rightarrow> 'r \<Rightarrow> 'r om \<Rightarrow> bool" for env :: "('d, 'r) env" and repo :: 'r where
  init: "om_reach env repo (om_init repo gcPercent)"
| step: "om_reach env repo s \<Longrightarrow> om_step env s s' \<Longrightarrow> om_reach env repo s'"

end
