(* ===== verification/OrderFrames.thy ===== *)
theory OrderFrames
  imports OrderPipeline
begin

text \<open>
  What a handler cannot do: a frame is a preorder on states that holds between the states
  before and after every allowed client call and every allowed publication, and between
  states that agree on the log, the bus, the mail and the aggregates, and that is kept by creating
  and by recording into an aggregate. The locale proves, once, that every
  handler except the submission of an order and the saving of a record stays in such a
  frame.
\<close>

text \<open>The state parts that calls and publications are about.\<close>

definition same_io :: "'r om \<Rightarrow> 'r om \<Rightarrow> bool" where
  "same_io s s' \<longleftrightarrow> om_log s' = om_log s \<and> om_bus s' = om_bus s \<and> om_mail s' = om_mail s \<and>
     om_calls s \<le> om_calls s' \<and> om_aggregates s' = om_aggregates s"

fun is_create :: "client_call \<Rightarrow> bool" where
  "is_create (CCreateOrder _) = True" | "is_create _ = False"

fun is_save :: "client_call \<Rightarrow> bool" where
  "is_save (CSave _) = True" | "is_save _ = False"

locale pipeline_frame =
  fixes env :: "('d, 'r) env" and R :: "'r om \<Rightarrow> 'r om \<Rightarrow> bool" and okpub :: "string \<Rightarrow> order_event \<Rightarrow> bool"
  assumes io: "same_io s s' \<Longrightarrow> R s s'"
    and agg: "R s (run (GetAggregate r) s)"
    and recording: "R s (run (RecordTo r e) s)"
    and trans: "R s t \<Longrightarrow> R t u \<Longrightarrow> R s u"
    and call: "\<not> is_create c \<Longrightarrow> \<not> is_save c \<Longrightarrow> R s (om_log_update (\<lambda>l. l @ [(r, c)]) s)"
    and pub: "okpub topic e \<Longrightarrow> R s (run (publishEvent env topic e) s)"
    and okpub_other: "topic \<noteq> TopicOrderFireWindowReached \<Longrightarrow> topic \<noteq> TopicOrderTradeRecord \<Longrightarrow> okpub topic e"
begin

definition moves :: "('r, 'a) om_act \<Rightarrow> bool" where
  "moves m \<longleftrightarrow> (\<forall>s. R s (run m s))"

lemma moves_ret [intro!, simp]: "moves (ret x)"
  by (simp add: moves_def run_def io same_io_def)

lemma moves_bind [intro!]: "moves m \<Longrightarrow> (\<And>x. moves (f x)) \<Longrightarrow> moves (m \<bind> f)"
  unfolding moves_def run_def by (auto split: prod.splits intro: trans)

lemma moves_if [intro!]: "(b \<Longrightarrow> moves m) \<Longrightarrow> (\<not> b \<Longrightarrow> moves n) \<Longrightarrow> moves (if b then m else n)"
  by simp

lemma moves_let [intro!]: "moves (f x) \<Longrightarrow> moves (Let x f)"
  by simp

lemma moves_prod [intro!]: "(\<And>a b. moves (f a b)) \<Longrightarrow> moves (case p of (a, b) \<Rightarrow> f a b)"
  by (cases p) simp

lemma moves_option [intro!]:
  "moves m \<Longrightarrow> (\<And>x. moves (f x)) \<Longrightarrow> moves (case v of None \<Rightarrow> m | Some x \<Rightarrow> f x)"
  by (cases v) simp_all

lemma moves_sum [intro!]:
  "(\<And>x. moves (f x)) \<Longrightarrow> (\<And>x. moves (g x)) \<Longrightarrow> moves (case v of Inl x \<Rightarrow> f x | Inr x \<Rightarrow> g x)"
  by (cases v) simp_all

lemma moves_err [intro!]:
  "(\<And>x. moves (f x)) \<Longrightarrow> moves m \<Longrightarrow> moves (case v of Err x \<Rightarrow> f x | Panic \<Rightarrow> m)"
  by (cases v) simp_all

lemma moves_nat [intro!]:
  "moves m \<Longrightarrow> (\<And>x. moves (f x)) \<Longrightarrow> moves (case v of 0 \<Rightarrow> m | Suc x \<Rightarrow> f x)"
  by (cases v) simp_all

lemma moves_and_then [intro!]: "moves m \<Longrightarrow> (\<And>x. moves (f x)) \<Longrightarrow> moves (and_then m f)"
  unfolding and_then_def by blast

lemma moves_wrapping [intro!]: "moves m \<Longrightarrow> moves (wrapping p m)"
  unfolding wrapping_def by blast

lemma moves_gets [intro!, simp]: "moves (gets f)"
  by (simp add: moves_def run_def gets_def io same_io_def)

lemma moves_modify: "(\<And>s. same_io s (f s)) \<Longrightarrow> moves (modify f)"
  by (simp add: moves_def run_def modify_def io)

lemma moves_modifies [intro!, simp]:
  "moves (modify (om_calls_update Suc))"
  "moves (modify (om_orderIDs_update g2))"
  "moves (modify (om_trackers_update g3))"
  "moves (modify (om_combat_update g4))"
  "moves (modify (om_posWatch_update g5))"
  "moves (modify (om_tradeWatch_update g5))"
  by (rule moves_modify; simp add: same_io_def)+

lemma moves_basic [intro!, simp]:
  "moves next_call" "moves (clock_Now env)" "moves (wall_Now env)" "moves (resolve x)" "moves (decimal y)"
  unfolding next_call_def clock_Now_def wall_Now_def resolve_def decimal_def by auto

lemma moves_log_call [intro!]: "\<not> is_create c \<Longrightarrow> \<not> is_save c \<Longrightarrow> moves (log_call r c)"
proof -
  assume "\<not> is_create c" "\<not> is_save c"
  then have "moves (modify (om_log_update (\<lambda>l. l @ [(r, c)])))"
    by (simp add: moves_def run_def modify_def call)
  then show ?thesis unfolding log_call_def by blast
qed

lemma moves_do_call [intro!]: "\<not> is_create c \<Longrightarrow> \<not> is_save c \<Longrightarrow> moves (do_call env r c)"
  unfolding do_call_def by blast

lemma moves_try_call [intro!]: "\<not> is_create c \<Longrightarrow> \<not> is_save c \<Longrightarrow> moves (try_call env r c)"
  unfolding try_call_def by blast

lemma moves_aggregates [intro!, simp]:
  "moves (GetAggregate r)" "moves (RecordTo r e)" "moves (SetExchangeOrderIDByReqID r i)"
  "moves (GetExchangeOrderIDByReqID r)"
proof -
  show "moves (GetAggregate r)" "moves (RecordTo r e)" by (simp_all add: moves_def agg recording)
  show "moves (SetExchangeOrderIDByReqID r i)" "moves (GetExchangeOrderIDByReqID r)"
    unfolding SetExchangeOrderIDByReqID_def GetExchangeOrderIDByReqID_def by auto
qed

lemmas okpub_others [intro!] = okpub_other

lemma moves_publish [intro!]: "okpub topic e \<Longrightarrow> moves (publishEvent env topic e)"
  by (simp add: moves_def pub)

lemma moves_publish_ignoring [intro!]: "okpub topic e \<Longrightarrow> moves (publish_ignoring env topic e)"
  unfolding publish_ignoring_def by blast

lemma moves_timers [intro!, simp]: "moves (arm_timer r act)" "moves (CancelTimeoutGuard r)"
proof -
  show "moves (arm_timer r act)"
    unfolding arm_timer_def by (intro moves_bind moves_gets moves_modify) (simp add: same_io_def)
  show "moves (CancelTimeoutGuard r)"
    unfolding CancelTimeoutGuard_def
    by (intro moves_bind moves_gets moves_option moves_ret moves_modify) (simp add: same_io_def)
qed

lemma moves_combat [intro!, simp]: "moves (registerCombatTarget env t t')"
  unfolding registerCombatTarget_def by auto

lemma moves_streams [intro!, simp]:
  "moves (SubscribePositionWatch env x y z)" "moves (UnsubscribePositionWatch env x y z)"
  "moves (SubscribeTradeWatch env x y z v)" "moves (UnsubscribeTradeWatch env x y z v)"
  unfolding SubscribePositionWatch_def UnsubscribePositionWatch_def SubscribeTradeWatch_def
    UnsubscribeTradeWatch_def by (auto simp: Let_def)

lemma moves_preflight [intro!, simp]:
  "moves (configureExchangeLeverage env c e)" "moves (switchModes env c e)"
  unfolding configureExchangeLeverage_def switchModes_def
  by (auto simp: configureExchangeLeverage_def)

lemma moves_HandlePreFlight [intro!, simp]: "moves (HandlePreFlight env e)"
  unfolding HandlePreFlight_def by auto

lemma moves_watchStreams [intro!, simp]: "moves (watchStreams env e t)"
  unfolding watchStreams_def by auto

lemma moves_HandlePositionWatchReady [intro!, simp]: "moves (HandlePositionWatchReady env e)"
  unfolding HandlePositionWatchReady_def by auto

lemma moves_HandleFireTiming [intro!, simp]: "moves (HandleFireTiming env e)"
  unfolding HandleFireTiming_def by auto

lemma moves_submit_helpers [intro!, simp]:
  "moves (preparePreSign env c req r)" "moves (sleepUntilFireTime env p r t)"
  unfolding preparePreSign_def sleepUntilFireTime_def by auto

lemma moves_tpsl [intro!, simp]: "moves (HandleTPSLSubmission env e)"
  unfolding HandleTPSLSubmission_def HandleTPSLContingency_def by auto

lemma moves_schedule [intro!, simp]:
  "moves (scheduleUnfilledCancelTimeoutInternal env a b c d e f g)"
  "moves (schedulePositionCloseTimeoutInternal env a b c d e f g h)"
  unfolding scheduleUnfilledCancelTimeoutInternal_def schedulePositionCloseTimeoutInternal_def by auto

lemma moves_schedulers [intro!, simp]:
  "moves (HandleScheduleUnfilledCancelTimeout env e)" "moves (HandleSchedulePositionCloseTimeout env e')"
  unfolding HandleScheduleUnfilledCancelTimeout_def HandleSchedulePositionCloseTimeout_def by auto

lemma moves_cancelResting [intro!, simp]: "moves (cancelRestingOrderOnTimeout env r a x y z)"
  unfolding cancelRestingOrderOnTimeout_def by auto

lemma moves_clear_timer [intro!, simp]: "moves (modify (\<lambda>s. s\<lparr>om_timers := (om_timers s)(r := None)\<rparr>))"
  by (rule moves_modify) (simp add: same_io_def)

lemma moves_publishes [intro!]:
  "topic \<noteq> TopicOrderFireWindowReached \<Longrightarrow> topic \<noteq> TopicOrderTradeRecord \<Longrightarrow> moves (publishEvent env topic e)"
  "topic \<noteq> TopicOrderFireWindowReached \<Longrightarrow> topic \<noteq> TopicOrderTradeRecord \<Longrightarrow> moves (publish_ignoring env topic e)"
  "topic \<noteq> TopicOrderFireWindowReached \<Longrightarrow> topic \<noteq> TopicOrderTradeRecord \<Longrightarrow> moves (record_and_publish env r topic e)"
  using okpub_other unfolding record_and_publish_def by blast+

lemma moves_fire_action [intro!, simp]: "moves (fire_action env act)"
  by (cases act) (auto simp: fire_action_def Let_def)

lemma moves_HandleWaitTimeoutDeadline [intro!, simp]: "moves (HandleWaitTimeoutDeadline env e)"
  unfolding HandleWaitTimeoutDeadline_def by auto

lemma moves_poll_order [intro!, simp]: "moves (poll_order env n r x y z)"
proof (induction n arbitrary: z)
  case 0
  show ?case
    by (subst poll_order.simps)
      (intro moves_bind moves_log_call moves_let moves_prod moves_option moves_ret; simp)
next
  case (Suc n)
  show ?case
    by (subst poll_order.simps)
      (intro moves_bind moves_log_call moves_let moves_prod moves_option moves_if moves_ret; auto simp: Suc)
qed

lemma moves_HandleOutcomeWatcher [intro!, simp]: "moves (HandleOutcomeWatcher env e)"
  unfolding HandleOutcomeWatcher_def pollOrderUntilTerminal_def by (auto simp: Let_def)

lemma moves_bailout_loop [intro!, simp]: "moves (bailout_loop env n r x y z l a)"
proof (induction n arbitrary: a)
  case 0
  show ?case
    by (subst bailout_loop.simps)
      (intro moves_bind moves_log_call moves_do_call moves_let moves_prod moves_option moves_sum moves_if moves_ret; simp)
next
  case (Suc n)
  show ?case
    by (subst bailout_loop.simps)
      (intro moves_bind moves_log_call moves_do_call moves_let moves_prod moves_option moves_sum moves_if moves_ret;
       auto simp: Suc)
qed

lemma moves_HandleExecuteBailout [intro!, simp]: "moves (HandleExecuteBailout env r x y s v w)"
  unfolding HandleExecuteBailout_def by (auto simp: Let_def)

lemma moves_retry: "moves op \<Longrightarrow> moves (retry env n op)"
  by (induction n) auto

lemma moves_fetchClosedPnL [intro!, simp]: "moves (fetchClosedPnL env r a x y z c)"
  unfolding fetchClosedPnL_def by (auto intro!: moves_retry)

lemma moves_complete [intro!, simp]:
  "moves (HandleEnrichAndComplete env a b c d e f g)" "moves (complete_order env a b c d e f g)"
  unfolding complete_order_def HandleEnrichAndComplete_def by (auto simp: Let_def)

lemma moves_position [intro!, simp]:
  "moves (handlePositionFilled env r a p c v w)" "moves (handlePositionClosed env r a p c)"
  unfolding handlePositionFilled_def handlePositionClosed_def by (auto simp: Let_def)

lemma moves_HandlePositionUpdate [intro!, simp]: "moves (HandlePositionUpdate env r p)"
  unfolding HandlePositionUpdate_def by (auto simp: Let_def)

lemma moves_tracking [intro!, simp]:
  "moves (executePnLBailout env r x a v w)" "moves (getOrInitPnLTracker r x p)"
  unfolding executePnLBailout_def getOrInitPnLTracker_def by (auto simp: Let_def)

lemma moves_trades [intro!, simp]:
  "moves (trackPositionPnL env r x a p v w)" "moves (HandleTradeUpdate env r x ts)"
  unfolding trackPositionPnL_def HandleTradeUpdate_def by (auto simp: Let_def trackPositionPnL_def)

lemma moves_cancel [intro!, simp]: "moves (CancelOrder env r)"
  unfolding CancelOrder_def by (auto simp: Let_def)

lemma moves_cancel_guards [intro!, simp]: "moves (cancel_guards as)"
  by (induction as) auto

lemma moves_cancel_all [intro!, simp]: "moves (CancelOpenOrders env a x y)"
  unfolding CancelOpenOrders_def by auto

lemma moves_abortOrder [intro!, simp]: "moves (abortOrder env e t r x)"
  unfolding abortOrder_def by (auto simp: Let_def)

lemma moves_timeout_checked [intro!, simp]: "moves (handleTimeoutPositionChecked env e)"
  unfolding handleTimeoutPositionChecked_def handleTimeoutNoPosition_def handleTimeoutBailout_def
  by (auto simp: Let_def)

lemma moves_outcomes [intro!, simp]:
  "moves (handleOutcomeResolved env e)" "moves (handlePositionClosedEvent env e')"
  unfolding handleOutcomeResolved_def handlePositionClosedEvent_def by (auto simp: Let_def)

text \<open>A result that satisfies P whenever there is one.\<close>

lemma moves_bind_post:
  assumes "moves m" "\<And>s x. fst (run_state m s) = x \<Longrightarrow> P x" "\<And>x. P x \<Longrightarrow> moves (f x)"
  shows "moves (m \<bind> f)"
  unfolding moves_def run_def
proof
  fix s
  obtain x t where m: "run_state m s = (x, t)" by fastforce
  then have "R s t" using assms(1) by (auto simp: moves_def run_def dest: spec [of _ s])
  moreover have "R t (snd (run_state (f x) t))"
    using assms(2) [of s x] assms(3) [of x] m by (simp add: moves_def run_def)
  ultimately show "R s (snd (run_state (m \<bind> f) s))" by (auto simp: m intro: trans)
qed

lemma moves_advance:
  assumes "moves m" "topic \<noteq> TopicOrderFireWindowReached" "topic \<noteq> TopicOrderTradeRecord"
  shows "moves (advance env evt t r topic ev m)"
  unfolding advance_def using assms by (intro moves_bind moves_sum moves_err) auto

end

text \<open>
  Frames in which every call is allowed, and the two guarded publications as the handlers
  make them: then every step of the pipeline stays in the frame, but for the message that a
  delivery takes out of the mail and for the entries that expire.
\<close>

locale call_frame = pipeline_frame env R okpub
  for env :: "('d, 'r) env" and R :: "'r om \<Rightarrow> 'r om \<Rightarrow> bool" and okpub +
  assumes any_call: "R s (om_log_update (\<lambda>l. l @ [(r, c)]) s)"
    and okpub_fire: "NextTopic x = TopicOrderFireWindowReached \<Longrightarrow>
      okpub TopicOrderFireWindowReached (FireWindowEv x)"
    and okpub_record: "NextTopic y = TopicOrderTradeRecord \<Longrightarrow> okpub TopicOrderTradeRecord (TradeRecordEv y)"
begin

lemma moves_any_call: "moves (log_call r c)"
proof -
  have "moves (modify (om_log_update (\<lambda>l. l @ [(r, c)])))"
    by (simp add: moves_def run_def modify_def any_call)
  then show ?thesis unfolding log_call_def by blast
qed

lemma moves_HandleExecuteOrder: "moves (HandleExecuteOrder env e)"
proof -
  have "moves (createOrder env r fn req)" for r fn req
    unfolding createOrder_def by (intro moves_bind moves_any_call) simp
  then show ?thesis
    unfolding HandleExecuteOrder_def by (auto simp: Let_def)
qed

lemma HandleFireTiming_NextTopic:
  "fst (run_state (HandleFireTiming env e) s) = Inr x \<Longrightarrow> NextTopic x = TopicOrderFireWindowReached"
  by (auto simp: HandleFireTiming_def and_then_def wrapping_def resolve_def clock_Now_def next_call_def gets_def
      modify_def watch_ready_event.defs split: sum.splits)

lemma moves_fire_window: "moves (advance env evt t r TopicOrderFireWindowReached FireWindowEv (HandleFireTiming env e))"
  unfolding advance_def
proof (rule moves_bind_post [where P = "\<lambda>res. \<forall>x. res = Inr x \<longrightarrow> NextTopic x = TopicOrderFireWindowReached"])
  show "moves (HandleFireTiming env e)" by simp
  show "\<forall>x. res = Inr x \<longrightarrow> NextTopic x = TopicOrderFireWindowReached"
    if "fst (run_state (HandleFireTiming env e) s) = res" for s res
    using that HandleFireTiming_NextTopic by blast
  fix res :: "om_error + fire_window_event"
  assume res: "\<forall>x. res = Inr x \<longrightarrow> NextTopic x = TopicOrderFireWindowReached"
  show "moves (case res of Inl (Err e) \<Rightarrow> abortOrder env evt t r e | Inl Panic \<Rightarrow> ret (Inl Panic)
      | Inr x \<Rightarrow> do { RecordTo (GetReqID evt) (FireWindowEv x);
                      publishEvent env TopicOrderFireWindowReached (FireWindowEv x) })"
  proof (cases res)
    case (Inl e)
    then show ?thesis by (cases e) simp_all
  next
    case (Inr x)
    with res have "okpub TopicOrderFireWindowReached (FireWindowEv x)"
      by (simp add: okpub_fire)
    then show ?thesis unfolding Inr sum.case
      by (intro moves_bind moves_publish moves_aggregates)
  qed
qed

lemma moves_trade_record: "moves (handleOrderCompleted env e)"
  unfolding handleOrderCompleted_def record_and_publish_def Let_def
  by (intro moves_bind moves_publish moves_log_call)
    (simp_all add: okpub_record BuildTradeRecord_def)

lemma moves_subscriber_action: "moves (subscriber_action env h evt)"
proof -
  have adv: "moves m \<Longrightarrow> topic \<noteq> TopicOrderFireWindowReached \<Longrightarrow> topic \<noteq> TopicOrderTradeRecord \<Longrightarrow>
      moves (advance env evt t r topic ev m)" for m evt t r topic ev
    by (rule moves_advance)
  have save: "moves (do_call env r c)" for r c
    unfolding do_call_def by (intro moves_bind moves_any_call) simp
  show ?thesis
    by (cases h; cases evt)
      (auto simp: subscriber_action_def intro!: adv save moves_HandleExecuteOrder moves_fire_window
        moves_trade_record moves_and_then)
qed

lemma moves_handle_message: "moves (handle_message env h evt)"
  unfolding handle_message_def by (auto intro: moves_subscriber_action)

lemma moves_Dispatch: "moves (Dispatch env (Some (IntentEv e)))"
  unfolding Dispatch_def option.case
  by (intro moves_bind moves_aggregates moves_publish okpub_other) simp_all

lemma step_frame:
  assumes "om_step env s s'"
  shows "R s s' \<or> (\<exists>h evt. (h, evt) \<in> set (om_mail s) \<and>
    s' = run (handle_message env h evt) (s\<lparr>om_mail := remove1 (h, evt) (om_mail s)\<rparr>)) \<or>
    (\<exists>aggs ids trackers. s' = expire_caches aggs ids trackers s)"
  using assms
proof (cases rule: om_step.cases)
  case (dispatch e)
  then show ?thesis using moves_Dispatch by (auto simp: moves_def)
next
  case (deliver h evt)
  then show ?thesis by blast
next
  case (timer i act)
  have "R s (s\<lparr>om_armed := remove1 (i, act) (om_armed s)\<rparr>)" by (rule io) (simp add: same_io_def)
  moreover have "R (s\<lparr>om_armed := remove1 (i, act) (om_armed s)\<rparr>) s'"
    using moves_fire_action timer by (auto simp: moves_def)
  ultimately show ?thesis using trans by blast
next
  case (position r symbol pos)
  then show ?thesis using moves_HandlePositionUpdate by (auto simp: moves_def)
next
  case (trades r symbol ts)
  then show ?thesis using moves_trades(2) by (auto simp: moves_def)
next
  case (cancel r)
  then show ?thesis using moves_cancel by (auto simp: moves_def)
next
  case (cancel_all acc ex symbol)
  then show ?thesis using moves_cancel_all by (auto simp: moves_def)
next
  case (combat t now)
  then have "R s s'" by (intro io) (simp add: same_io_def)
  then show ?thesis ..
next
  case (expire aggs ids trackers)
  then show ?thesis by blast
qed

end

end
