(* ===== verification/OrderSafety.thy ===== *)
theory OrderSafety
  imports OrderFrames
begin

text \<open>
  What holds of every run of the pipeline: two frames (what is counted in the call log, and
  how the mail, the bus log and the key repository fit together), the invariant they give,
  and the safety properties that follow from it.
\<close>

subsection \<open>Counting calls\<close>

definition creates :: "string \<Rightarrow> 'r om \<Rightarrow> nat" where
  "creates r s = length (filter (\<lambda>(r', c). r' = r \<and> is_create c) (om_log s))"

definition saves :: "string \<Rightarrow> 'r om \<Rightarrow> nat" where
  "saves r s = length (filter (\<lambda>(r', c). r' = r \<and> is_save c) (om_log s))"

definition same_counts :: "'r om \<Rightarrow> 'r om \<Rightarrow> bool" where
  "same_counts s s' \<longleftrightarrow> (\<forall>r. creates r s' = creates r s \<and> saves r s' = saves r s)"

lemma om_log_GetAggregate [simp]: "om_log (run (GetAggregate r) s) = om_log s"
  by (auto simp: run_def GetAggregate_def gets_def modify_def Let_def split: option.splits)

lemma RecordTo_log [simp]: "om_log (run (RecordTo r e) s) = om_log s"
  by (auto simp: run_def RecordTo_def GetAggregate_def gets_def modify_def Let_def split: option.splits)

lemma publishEvent_log [simp]: "om_log (run (publishEvent env topic e) s) = om_log s"
  by (auto simp: run_def publishEvent_def GetAggregate_def gets_def modify_def wall_Now_def next_call_def Let_def
      split: option.splits prod.splits)

interpretation counts: pipeline_frame env same_counts "\<lambda>_ _. True" for env
proof
  show "same_io s s' \<Longrightarrow> same_counts s s'" for s s' :: "'r om"
    by (simp add: same_io_def same_counts_def creates_def saves_def)
  show "same_counts s (run (GetAggregate r) s)" "same_counts s (run (RecordTo r e) s)" for r e and s :: "'r om"
    by (simp_all add: same_counts_def creates_def saves_def)
  show "same_counts s t \<Longrightarrow> same_counts t u \<Longrightarrow> same_counts s u" for s t u :: "'r om"
    by (simp add: same_counts_def)
  show "\<not> is_create c \<Longrightarrow> \<not> is_save c \<Longrightarrow> same_counts s (om_log_update (\<lambda>l. l @ [(r, c)]) s)"
    for c r and s :: "'r om"
    by (simp add: same_counts_def creates_def saves_def)
  show "same_counts s (run (publishEvent env topic e) s)" for topic e s
    by (simp add: same_counts_def creates_def saves_def)
qed simp

text \<open>\<open>adds r k j m\<close>: m submits at most k orders and saves at most j records for r.\<close>

definition adds :: "string \<Rightarrow> nat \<Rightarrow> nat \<Rightarrow> ('r, 'a) om_act \<Rightarrow> bool" where
  "adds r k j m \<longleftrightarrow> (\<forall>s. creates r (run m s) \<le> creates r s + k \<and> saves r (run m s) \<le> saves r s + j)"

lemma adds_bind: "adds r k j m \<Longrightarrow> (\<And>x. adds r k' j' (f x)) \<Longrightarrow> adds r (k + k') (j + j') (m \<bind> f)"
proof -
  assume m: "adds r k j m" and f: "\<And>x. adds r k' j' (f x)"
  show ?thesis
    unfolding adds_def
  proof
    fix s
    obtain x t where t: "run_state m s = (x, t)" by fastforce
    have "creates r t \<le> creates r s + k" "saves r t \<le> saves r s + j"
      using m t by (auto simp: adds_def run_def dest: spec [of _ s])
    moreover have "creates r (snd (run_state (f x) t)) \<le> creates r t + k'"
      "saves r (snd (run_state (f x) t)) \<le> saves r t + j'"
      using f [of x] by (auto simp: adds_def run_def dest: spec [of _ t])
    ultimately show "creates r (run (m \<bind> f) s) \<le> creates r s + (k + k') \<and>
        saves r (run (m \<bind> f) s) \<le> saves r s + (j + j')"
      by (auto simp: run_def t)
  qed
qed

lemma adds_moves: "counts.moves m \<Longrightarrow> adds r k j m"
  by (auto simp: adds_def counts.moves_def same_counts_def)

lemma adds_bind_l: "adds r k j m \<Longrightarrow> (\<And>x. counts.moves (f x)) \<Longrightarrow> adds r k j (m \<bind> f)"
  using adds_bind [of r k j m 0 0 f] adds_moves by force

lemma adds_bind_r: "counts.moves m \<Longrightarrow> (\<And>x. adds r k j (f x)) \<Longrightarrow> adds r k j (m \<bind> f)"
  using adds_bind [of r 0 0 m k j f] adds_moves by force

lemma adds_and_then_r: "counts.moves m \<Longrightarrow> (\<And>x. adds r k j (f x)) \<Longrightarrow> adds r k j (and_then m f)"
  unfolding and_then_def
  by (rule adds_bind_r) (auto split: sum.splits intro: adds_moves)

lemma adds_and_then_l: "adds r k j m \<Longrightarrow> (\<And>x. counts.moves (f x)) \<Longrightarrow> adds r k j (and_then m f)"
  unfolding and_then_def by (rule adds_bind_l) auto

lemma adds_createOrder: "adds r (of_bool (r' = r)) 0 (createOrder env r' fn req)"
  by (auto simp: adds_def createOrder_def log_call_def next_call_def modify_def gets_def run_def
      creates_def saves_def)

lemma adds_save: "adds r 0 (of_bool (r' = r)) (do_call env r' (CSave e))"
  by (auto simp: adds_def do_call_def log_call_def next_call_def modify_def gets_def run_def
      creates_def saves_def)

lemma adds_HandleExecuteOrder: "adds r (of_bool (ReqID e = r)) 0 (HandleExecuteOrder env e)"
  unfolding HandleExecuteOrder_def Let_def wrapping_def
  by (intro adds_and_then_r adds_bind_r adds_and_then_l adds_bind_l adds_createOrder) auto

lemma counts_moves_subscribers:
  assumes "h \<noteq> SubExecute" "h \<noteq> SubTradeRecord"
  shows "counts.moves (subscriber_action env h evt)"
proof -
  have pub: "counts.moves (publishEvent env topic e)" for topic e
    by (rule counts.moves_publish) simp
  have adv: "counts.moves m \<Longrightarrow> counts.moves (advance env evt t r topic ev m)" for m evt t r topic ev
    unfolding advance_def by (intro counts.moves_bind counts.moves_sum counts.moves_err) (auto simp: pub)
  show ?thesis
    using assms
    by (cases h; cases evt)
      (auto simp: subscriber_action_def record_and_publish_def handleOrderCompleted_def Let_def
        intro!: adv pub counts.moves_and_then)
qed

lemma adds_handle_message:
  "adds r (of_bool (h = SubExecute \<and> GetReqID evt = r)) (of_bool (h = SubTradeRecord \<and> GetReqID evt = r))
     (handle_message env h evt)"
proof (cases "h = SubExecute \<or> h = SubTradeRecord")
  case True
  have pub: "counts.moves (publishEvent env topic e)" for topic e
    by (rule counts.moves_publish) simp
  have exec: "adds r (of_bool (GetReqID evt = r)) 0 (subscriber_action env SubExecute evt)"
  proof (cases evt)
    case (FireWindowEv e)
    have "adds r (of_bool (ReqID e = r)) 0
        (advance env evt t r' topic ev (HandleExecuteOrder env e))" for t r' topic ev
      unfolding advance_def by (intro adds_bind_l adds_HandleExecuteOrder counts.moves_sum counts.moves_err)
        (auto simp: pub)
    then show ?thesis
      by (simp add: FireWindowEv subscriber_action_def GetReqID_def base_event.truncate_def del: split_of_bool)
  qed (auto simp: subscriber_action_def intro: adds_moves)
  have save: "adds r 0 (of_bool (GetReqID evt = r)) (subscriber_action env SubTradeRecord evt)"
    by (cases evt) (simp_all add: subscriber_action_def GetReqID_def base_event.truncate_def adds_moves adds_save
        del: split_of_bool)
  have frame: "adds r k j m \<Longrightarrow> adds r k j (do { RecordTo (GetReqID evt) evt; _ \<leftarrow> m; ret () })" for k j m
    by (intro adds_bind_r [OF counts.moves_aggregates(2)] adds_bind_l) simp_all
  from True show ?thesis
    unfolding handle_message_def using frame [OF exec] frame [OF save] by (elim disjE) simp_all
next
  case False
  then show ?thesis
    unfolding handle_message_def
    by (auto intro!: adds_moves counts_moves_subscribers)
qed

end
