(* ===== verification/OrderDelivery.thy ===== *)
theory OrderDelivery
  imports OrderSafety
begin

text \<open>
  The second frame: how the mail, the bus log and the key repository fit together. A message
  to the order executor or to the trade recorder is in the mail only because the bus logged
  it, and the bus logs a request's message on these topics once within the window. With the
  first frame this gives: one submission and one saved record per request.
\<close>

subsection \<open>Mail and log\<close>

definition mail_count :: "subscriber \<Rightarrow> string \<Rightarrow> (subscriber \<times> order_event) list \<Rightarrow> nat" where
  "mail_count h r l = length (filter (\<lambda>(h', e). h' = h \<and> GetReqID e = r) l)"

definition mails :: "subscriber \<Rightarrow> string \<Rightarrow> 'r om \<Rightarrow> nat" where
  "mails h r s = mail_count h r (om_mail s)"

lemma mail_count_append [simp]: "mail_count h r (l @ l') = mail_count h r l + mail_count h r l'"
  by (simp add: mail_count_def)

lemma mail_count_Nil [simp]: "mail_count h r [] = 0"
  by (simp add: mail_count_def)

lemma mail_count_remove1:
  "(h', e) \<in> set l \<Longrightarrow> mail_count h r (remove1 (h', e) l) + of_bool (h' = h \<and> GetReqID e = r) = mail_count h r l"
  by (induction l) (auto simp: mail_count_def)

lemma mail_count_subscribers [simp]:
  "mail_count SubExecute r (map (\<lambda>h. (h, d)) (subscribers env topic)) =
     of_bool (topic = TopicOrderFireWindowReached \<and> GetReqID d = r)"
  "mail_count SubTradeRecord r (map (\<lambda>h. (h, d)) (subscribers env topic)) =
     of_bool (topic = TopicOrderTradeRecord \<and> GetReqID d = r)"
  by (simp_all add: subscribers_def mail_count_def)

definition logs :: "string \<Rightarrow> string \<Rightarrow> 'r om \<Rightarrow> nat" where
  "logs topic r s = length (filter (\<lambda>x. le_Topic x = topic \<and> GetReqID (le_Payload x) = r) (bus_log (om_bus s)))"

text \<open>What is guarded by its key: the entries of the two topics carry the request's key.\<close>

definition keyed :: "string \<Rightarrow> order_event \<Rightarrow> string \<Rightarrow> bool" where
  "keyed topic e k \<longleftrightarrow> (topic = TopicOrderFireWindowReached \<or> topic = TopicOrderTradeRecord \<longrightarrow>
     k = GetReqID e @ ''-'' @ topic)"

lemma wire_ReqID: "wire e = Some d \<Longrightarrow> GetReqID d = GetReqID e"
  by (cases e) (auto simp: wire_def GetReqID_def base_event.truncate_def split: if_splits)

locale pipeline_delivery = dedup_repository "en_isDup env" live
  for env :: "('d, 'r) env" and live +
  assumes wall_mono: "mono (en_wall env)"
begin

definition bus_ok :: "'r om \<Rightarrow> bool" where
  "bus_ok s \<longleftrightarrow> log_live (en_wall env (om_calls s)) (om_bus s) \<and> spaced (bus_log (om_bus s)) \<and>
     (\<forall>x \<in> set (bus_log (om_bus s)). le_Time x \<in> range (en_wall env) \<and>
       keyed (le_Topic x) (le_Payload x) (le_Key x))"

definition delivers :: "'r om \<Rightarrow> 'r om \<Rightarrow> bool" where
  "delivers s s' \<longleftrightarrow> om_calls s \<le> om_calls s' \<and> (bus_ok s \<longrightarrow> bus_ok s') \<and>
     (\<forall>r. mails SubExecute r s' + logs TopicOrderFireWindowReached r s
            \<le> mails SubExecute r s + logs TopicOrderFireWindowReached r s' \<and>
          mails SubTradeRecord r s' + logs TopicOrderTradeRecord r s
            \<le> mails SubTradeRecord r s + logs TopicOrderTradeRecord r s')"

lemma bus_ok_later:
  assumes "bus_ok s" "om_bus s' = om_bus s" "om_calls s \<le> om_calls s'"
  shows "bus_ok s'"
  using assms log_live_later [OF _ monoD [OF wall_mono assms(3)]] by (auto simp: bus_ok_def)

lemma bus_ok_publish:
  assumes ok: "bus_ok s" and key: "keyed topic p (DeduplicateKey p)" and n: "om_calls s \<le> n" "n \<le> om_calls s'"
    and b: "om_bus s' = snd (snd (bus_Publish (en_isDup env) wire (en_wall env n) topic (DeduplicateKey p) p (om_bus s)))"
  shows "bus_ok s'"
proof -
  let ?b = "snd (snd (bus_Publish (en_isDup env) wire (en_wall env n) topic (DeduplicateKey p) p (om_bus s)))"
  have "log_live (en_wall env n) ?b \<and> spaced (bus_log ?b)"
    using ok by (intro publish_log_live [OF _ _ monoD [OF wall_mono n(1)]]) (auto simp: bus_ok_def)
  moreover have "\<forall>x \<in> set (bus_log ?b). x \<in> set (bus_log (om_bus s)) \<or>
      (le_Time x = en_wall env n \<and> le_Topic x = topic \<and> le_Key x = DeduplicateKey p \<and>
       wire p = Some (le_Payload x))"
    by (auto simp: bus_Publish_def Let_def split: option.splits prod.splits sum.splits bool.splits)
  ultimately show ?thesis
    using ok key log_live_later [OF _ monoD [OF wall_mono n(2)]] unfolding bus_ok_def b
    by (auto simp: keyed_def dest!: wire_ReqID; fastforce)
qed

lemma publishEvent_state:
  "\<exists>n k. om_calls s \<le> n \<and> n < k \<and>
     (let (err, sent, b') = bus_Publish (en_isDup env) wire (en_wall env n) topic (DeduplicateKey p) p (om_bus s);
          s' = run (publishEvent env topic p) s
      in om_bus s' = b' \<and> om_calls s' = k \<and>
         om_mail s' = om_mail s @ (case sent of None \<Rightarrow> [] | Some d \<Rightarrow> map (\<lambda>h. (h, d)) (subscribers env topic)))"
  by (auto simp: run_def publishEvent_def GetAggregate_def gets_def modify_def wall_Now_def next_call_def Let_def
      split: option.splits prod.splits)

lemma published_mail:
  assumes "bus_Publish isDup wire now topic (DeduplicateKey p) p b = (err, sent, b')"
  shows "length (filter (\<lambda>x. le_Topic x = T \<and> GetReqID (le_Payload x) = r) (bus_log b')) =
      length (filter (\<lambda>x. le_Topic x = T \<and> GetReqID (le_Payload x) = r) (bus_log b)) \<and> sent = None \<or>
    length (filter (\<lambda>x. le_Topic x = T \<and> GetReqID (le_Payload x) = r) (bus_log b')) =
      length (filter (\<lambda>x. le_Topic x = T \<and> GetReqID (le_Payload x) = r) (bus_log b)) +
        of_bool (topic = T \<and> GetReqID p = r) \<and> (sent = None \<or> (\<exists>d. sent = Some d \<and> GetReqID d = GetReqID p))"
  using assms wire_ReqID by (fastforce simp: bus_Publish_def Let_def split: option.splits prod.splits if_splits sum.splits bool.splits)

lemma delivers_publish:
  assumes "keyed topic p (DeduplicateKey p)"
  shows "delivers s (run (publishEvent env topic p) s)"
proof -
  let ?s = "run (publishEvent env topic p) s"
  obtain n k err sent b' where n: "om_calls s \<le> n" "n < k"
    and b: "bus_Publish (en_isDup env) wire (en_wall env n) topic (DeduplicateKey p) p (om_bus s) = (err, sent, b')"
    and s: "om_bus ?s = b'" "om_calls ?s = k"
      "om_mail ?s = om_mail s @ (case sent of None \<Rightarrow> [] | Some d \<Rightarrow> map (\<lambda>h. (h, d)) (subscribers env topic))"
    using publishEvent_state [of s topic p] by (auto simp: Let_def)
  have "bus_ok ?s" if "bus_ok s"
    by (rule bus_ok_publish [OF that assms n(1)]) (use b s n(2) in simp_all)
  moreover have "mails SubExecute r ?s + logs TopicOrderFireWindowReached r s
      \<le> mails SubExecute r s + logs TopicOrderFireWindowReached r ?s" for r
    using published_mail [OF b, of TopicOrderFireWindowReached r]
    by (auto simp: mails_def logs_def s)
  moreover have "mails SubTradeRecord r ?s + logs TopicOrderTradeRecord r s
      \<le> mails SubTradeRecord r s + logs TopicOrderTradeRecord r ?s" for r
    using published_mail [OF b, of TopicOrderTradeRecord r]
    by (auto simp: mails_def logs_def s)
  ultimately show ?thesis using n s(2) by (simp add: delivers_def)
qed

lemma delivers_io:
  "om_log s' = om_log s \<Longrightarrow> om_bus s' = om_bus s \<Longrightarrow> om_mail s' = om_mail s \<Longrightarrow> om_calls s \<le> om_calls s' \<Longrightarrow>
     delivers s s'"
  using bus_ok_later [of s s'] by (simp add: delivers_def mails_def logs_def)

lemma aggregates_io:
  "om_bus (run (GetAggregate r) s) = om_bus s" "om_mail (run (GetAggregate r) s) = om_mail s"
  "om_calls (run (GetAggregate r) s) = om_calls s"
  "om_bus (run (RecordTo r e) s) = om_bus s" "om_mail (run (RecordTo r e) s) = om_mail s"
  "om_calls (run (RecordTo r e) s) = om_calls s"
  by (auto simp: run_def RecordTo_def GetAggregate_def gets_def modify_def Let_def split: option.splits)

sublocale frame: call_frame env delivers "\<lambda>topic e. keyed topic e (DeduplicateKey e)"
proof
  show "delivers s s'" if "same_io s s'" for s s' :: "'r om"
    using that by (intro delivers_io) (simp_all add: same_io_def)
  show "delivers s (run (GetAggregate r) s)" "delivers s (run (RecordTo r e) s)" for r e and s :: "'r om"
    by (rule delivers_io; simp add: aggregates_io)+
  show "delivers s u" if "delivers s t" "delivers t u" for s t u :: "'r om"
    unfolding delivers_def
  proof (intro conjI allI)
    fix r
    have "mails SubExecute r t + logs TopicOrderFireWindowReached r s
        \<le> mails SubExecute r s + logs TopicOrderFireWindowReached r t"
      "mails SubExecute r u + logs TopicOrderFireWindowReached r t
        \<le> mails SubExecute r t + logs TopicOrderFireWindowReached r u"
      using that by (auto simp: delivers_def)
    then show "mails SubExecute r u + logs TopicOrderFireWindowReached r s
        \<le> mails SubExecute r s + logs TopicOrderFireWindowReached r u" by linarith
    have "mails SubTradeRecord r t + logs TopicOrderTradeRecord r s
        \<le> mails SubTradeRecord r s + logs TopicOrderTradeRecord r t"
      "mails SubTradeRecord r u + logs TopicOrderTradeRecord r t
        \<le> mails SubTradeRecord r t + logs TopicOrderTradeRecord r u"
      using that by (auto simp: delivers_def)
    then show "mails SubTradeRecord r u + logs TopicOrderTradeRecord r s
        \<le> mails SubTradeRecord r s + logs TopicOrderTradeRecord r u" by linarith
  qed (use that in \<open>auto simp: delivers_def\<close>)
  show "delivers s (om_log_update (\<lambda>l. l @ [(r, c)]) s)" "delivers s (om_log_update (\<lambda>l. l @ [(r, c)]) s)"
    for r c and s :: "'r om"
    using bus_ok_later [of s "om_log_update (\<lambda>l. l @ [(r, c)]) s"]
    by (simp_all add: delivers_def mails_def logs_def)
qed (auto simp: keyed_def GetReqID_def GetNextTopic_def base_event.truncate_def intro: delivers_publish)

definition one_each :: "'r om \<Rightarrow> bool" where
  "one_each s \<longleftrightarrow> bus_ok s \<and>
     (\<forall>r. creates r s + mails SubExecute r s \<le> logs TopicOrderFireWindowReached r s \<and>
          saves r s + mails SubTradeRecord r s \<le> logs TopicOrderTradeRecord r s)"

lemma one_each_moves:
  assumes "counts.moves m" "frame.moves m" "one_each s"
  shows "one_each (run m s)"
proof -
  have "delivers s (run m s)" "same_counts s (run m s)"
    using assms(1,2) by (simp_all add: counts.moves_def frame.moves_def)
  then have d: "bus_ok s \<longrightarrow> bus_ok (run m s)" "creates r (run m s) = creates r s" "saves r (run m s) = saves r s"
      "mails SubExecute r (run m s) + logs TopicOrderFireWindowReached r s
         \<le> mails SubExecute r s + logs TopicOrderFireWindowReached r (run m s)"
      "mails SubTradeRecord r (run m s) + logs TopicOrderTradeRecord r s
         \<le> mails SubTradeRecord r s + logs TopicOrderTradeRecord r (run m s)" for r
    by (simp_all add: delivers_def same_counts_def)
  show ?thesis
    unfolding one_each_def
  proof (intro conjI allI)
    show "bus_ok (run m s)" using d(1) assms(3) by (simp add: one_each_def)
    fix r
    have "creates r s + mails SubExecute r s \<le> logs TopicOrderFireWindowReached r s"
      "saves r s + mails SubTradeRecord r s \<le> logs TopicOrderTradeRecord r s"
      using assms(3) by (auto simp: one_each_def)
    then show "creates r (run m s) + mails SubExecute r (run m s) \<le> logs TopicOrderFireWindowReached r (run m s)"
      "saves r (run m s) + mails SubTradeRecord r (run m s) \<le> logs TopicOrderTradeRecord r (run m s)"
      using d(2-5) [of r] by linarith+
  qed
qed

lemma one_each_same_io: "one_each s \<Longrightarrow> same_io s s' \<Longrightarrow> one_each s'"
  using bus_ok_later [of s s'] by (auto simp: one_each_def same_io_def creates_def saves_def mails_def logs_def)

lemma one_each_expire: "one_each s \<Longrightarrow> one_each (expire_caches aggs ids trackers s)"
  using bus_ok_later [of s "expire_caches aggs ids trackers s"]
  by (auto simp: one_each_def expire_caches_def creates_def saves_def mails_def logs_def)

lemma one_each_deliver:
  assumes "one_each s" "(h, evt) \<in> set (om_mail s)"
  shows "one_each (run (handle_message env h evt) (s\<lparr>om_mail := remove1 (h, evt) (om_mail s)\<rparr>))"
proof -
  let ?t = "s\<lparr>om_mail := remove1 (h, evt) (om_mail s)\<rparr>"
  let ?u = "run (handle_message env h evt) ?t"
  have t: "bus_ok ?t" using assms(1) bus_ok_later [of s ?t] by (simp add: one_each_def)
  have d: "delivers ?t ?u" using frame.moves_handle_message by (simp add: frame.moves_def)
  have m: "mails h' r ?t + of_bool (h = h' \<and> GetReqID evt = r) = mails h' r s" for h' r
    using mail_count_remove1 [OF assms(2)] by (simp add: mails_def)
  have same: "creates r ?t = creates r s" "saves r ?t = saves r s" "logs T r ?t = logs T r s" for r T
    by (simp_all add: creates_def saves_def logs_def)
  have a: "creates r ?u \<le> creates r s + of_bool (h = SubExecute \<and> GetReqID evt = r)"
    "saves r ?u \<le> saves r s + of_bool (h = SubTradeRecord \<and> GetReqID evt = r)" for r
    using adds_handle_message [of r h evt env] same unfolding adds_def by metis+
  show ?thesis
    unfolding one_each_def
  proof (intro conjI allI)
    show "bus_ok ?u" using d t by (simp add: delivers_def)
    fix r
    have d': "mails SubExecute r ?u + logs TopicOrderFireWindowReached r s
          \<le> mails SubExecute r ?t + logs TopicOrderFireWindowReached r ?u"
      "mails SubTradeRecord r ?u + logs TopicOrderTradeRecord r s
          \<le> mails SubTradeRecord r ?t + logs TopicOrderTradeRecord r ?u"
      using d by (auto simp: delivers_def same)
    have s: "creates r s + mails SubExecute r s \<le> logs TopicOrderFireWindowReached r s"
      "saves r s + mails SubTradeRecord r s \<le> logs TopicOrderTradeRecord r s"
      using assms(1) by (auto simp: one_each_def)
    show "creates r ?u + mails SubExecute r ?u \<le> logs TopicOrderFireWindowReached r ?u"
      using d'(1) s(1) a(1) [of r] m [of SubExecute r] by linarith
    show "saves r ?u + mails SubTradeRecord r ?u \<le> logs TopicOrderTradeRecord r ?u"
      using d'(2) s(2) a(2) [of r] m [of SubTradeRecord r] by linarith
  qed
qed

lemma one_each_step: "om_step env s s' \<Longrightarrow> one_each s \<Longrightarrow> one_each s'"
proof (induction rule: om_step.induct)
  case (dispatch s e)
  have "counts.moves (Dispatch env (Some (IntentEv e)))"
    unfolding Dispatch_def option.case
    by (intro counts.moves_bind counts.moves_aggregates counts.moves_publish TrueI)
  moreover have "frame.moves (Dispatch env (Some (IntentEv e)))" by (rule frame.moves_Dispatch)
  ultimately show ?case using dispatch by (rule one_each_moves)
next
  case (deliver h evt s)
  then show ?case by (rule one_each_deliver [rotated])
next
  case (timer i act s)
  from timer.prems have "one_each (s\<lparr>om_armed := remove1 (i, act) (om_armed s)\<rparr>)"
    by (rule one_each_same_io) (simp add: same_io_def)
  then show ?case by (rule one_each_moves [OF counts.moves_fire_action frame.moves_fire_action])
next
  case (combat t s now)
  from combat.prems show ?case by (rule one_each_same_io) (simp add: same_io_def)
next
  case (position r symbol s pos)
  from position.prems show ?case by (rule one_each_moves [OF counts.moves_HandlePositionUpdate frame.moves_HandlePositionUpdate])
next
  case (trades r symbol s ts)
  from trades.prems show ?case by (rule one_each_moves [OF counts.moves_trades(2) frame.moves_trades(2)])
next
  case (cancel s r)
  from cancel.prems show ?case by (rule one_each_moves [OF counts.moves_cancel frame.moves_cancel])
next
  case (cancel_all s acc ex symbol)
  from cancel_all.prems show ?case by (rule one_each_moves [OF counts.moves_cancel_all frame.moves_cancel_all])
next
  case (expire s aggs ids trackers)
  from expire.prems show ?case by (rule one_each_expire)
qed

lemma one_each_reach: "om_reach env repo s \<Longrightarrow> one_each s"
proof (induction rule: om_reach.induct)
  case (init gcPercent)
  then show ?case
    by (simp add: one_each_def om_init_def new_bus_def bus_ok_def log_live_def spaced_def creates_def saves_def
        mails_def logs_def)
next
  case (step s s')
  then show ?case using one_each_step by blast
qed

text \<open>Within one window a key is logged once.\<close>

lemma logged_once:
  assumes "bus_ok s" "\<And>n m. en_wall env n < en_wall env m + dedup_window"
    and T: "T = TopicOrderFireWindowReached \<or> T = TopicOrderTradeRecord"
  shows "logs T r s \<le> 1"
proof -
  let ?P = "\<lambda>x. le_Topic x = T \<and> GetReqID (le_Payload x) = r"
  let ?l = "filter ?P (bus_log (om_bus s))"
  have key: "le_Key x = r @ ''-'' @ T" "le_Time x \<in> range (en_wall env)" if "x \<in> set ?l" for x
    using assms(1) T that by (auto simp: bus_ok_def keyed_def)
  have "spaced ?l"
    using assms(1) by (auto simp: bus_ok_def spaced_def intro: sorted_wrt_filter)
  then have "\<not> 1 < length ?l"
  proof (intro notI)
    assume sp: "spaced ?l" and "1 < length ?l"
    then obtain x y zs where l: "?l = x # y # zs"
      by (cases ?l rule: remdups_adj.cases) simp_all
    from sp l key(1) [of x] key(1) [of y] have "le_Time x + dedup_window \<le> le_Time y"
      by (simp add: spaced_def)
    moreover obtain n m where "le_Time x = en_wall env n" "le_Time y = en_wall env m"
      using key(2) [of x] key(2) [of y] l by auto
    ultimately show False using assms(2) [of m n] by simp
  qed
  then show ?thesis by (simp add: logs_def)
qed

lemma once:
  assumes "om_reach env repo s" "\<And>n m. en_wall env n < en_wall env m + dedup_window"
  shows "creates r s \<le> 1 \<and> saves r s \<le> 1"
proof -
  have o: "one_each s" by (rule one_each_reach [OF assms(1)])
  then have "logs TopicOrderFireWindowReached r s \<le> 1" "logs TopicOrderTradeRecord r s \<le> 1"
    using logged_once [of s] assms(2) by (auto simp: one_each_def)
  moreover have "creates r s + mails SubExecute r s \<le> logs TopicOrderFireWindowReached r s"
    "saves r s + mails SubTradeRecord r s \<le> logs TopicOrderTradeRecord r s"
    using o by (auto simp: one_each_def)
  ultimately show ?thesis by linarith
qed

end

end
