(* ===== verification/OrderStore.thy ===== *)
theory OrderStore
  imports OrderFrames
begin

text \<open>
  The manager's store of aggregates: a third frame, in which every aggregate the manager
  holds is the fold of its recorded events and, until it expires, only grows by further events,
  and what the lifecycle of an order then means for the running pipeline.
\<close>

definition sourced :: "string \<Rightarrow> aggregate \<Rightarrow> bool" where
  "sourced r a \<longleftrightarrow> (\<exists>es. a = record_all es (NewOrderExecutionAggregate r))"

definition grows :: "'r om \<Rightarrow> 'r om \<Rightarrow> bool" where
  "grows s s' \<longleftrightarrow>
     (\<forall>r a. map_of (om_aggregates s) r = Some a \<longrightarrow>
        (\<exists>es. map_of (om_aggregates s') r = Some (record_all es a))) \<and>
     ((\<forall>r a. map_of (om_aggregates s) r = Some a \<longrightarrow> sourced r a) \<longrightarrow>
      (\<forall>r a. map_of (om_aggregates s') r = Some a \<longrightarrow> sourced r a))"

lemma sourced_record: "sourced r a \<Longrightarrow> sourced r (record_event e a)"
  unfolding sourced_def by (metis record_all_simps)

lemma sourced_new: "sourced r (NewOrderExecutionAggregate r)"
  unfolding sourced_def by (metis record_all_simps(1))

lemma grows_same: "om_aggregates s' = om_aggregates s \<Longrightarrow> grows s s'"
  unfolding grows_def by (metis record_all_simps(1))

lemma grows_trans: "grows s t \<Longrightarrow> grows t u \<Longrightarrow> grows s u"
  unfolding grows_def by (metis record_all_simps(3))

lemma grows_GetAggregate: "grows s (run (GetAggregate r) s)"
proof (cases "map_of (om_aggregates s) r")
  case None
  then have "map_of (om_aggregates (run (GetAggregate r) s)) = (map_of (om_aggregates s))(r \<mapsto> NewOrderExecutionAggregate r)"
    by (simp add: run_def GetAggregate_def gets_def modify_def update_conv' Let_def)
  with None show ?thesis
    unfolding grows_def by (auto simp: sourced_new intro: exI [of _ "[]"])
next
  case (Some a)
  then have "run (GetAggregate r) s = s"
    by (simp add: run_def GetAggregate_def gets_def)
  then show ?thesis by (simp add: grows_same)
qed

lemma RecordTo_aggregates:
  "map_of (om_aggregates (run (RecordTo r e) s)) = (map_of (om_aggregates s))(r \<mapsto>
     record_event e (case map_of (om_aggregates s) r of None \<Rightarrow> NewOrderExecutionAggregate r | Some a \<Rightarrow> a))"
  by (auto simp: run_def RecordTo_def GetAggregate_def gets_def modify_def update_conv' Let_def split: option.splits)

lemma grows_RecordTo: "grows s (run (RecordTo r e) s)"
proof -
  have "\<exists>es. record_event e a = record_all es a" for a by (rule exI [of _ "[e]"]) simp
  then show ?thesis
    unfolding grows_def RecordTo_aggregates
    by (auto simp: sourced_record sourced_new split: option.split intro: exI [of _ "[]"])
qed

lemma publishEvent_aggregates:
  "om_aggregates (run (publishEvent env topic p) s) = om_aggregates s \<or>
   om_aggregates (run (publishEvent env topic p) s) = om_aggregates (run (GetAggregate (GetReqID p)) s)"
  by (auto simp: run_def publishEvent_def GetAggregate_def gets_def modify_def wall_Now_def next_call_def Let_def
      split: option.splits prod.splits)

interpretation store: call_frame env grows "\<lambda>_ _. True"
  for env :: "('d, 'r) env"
proof
  show "grows s s'" if "same_io s s'" for s s' :: "'r om"
    using that by (intro grows_same) (simp add: same_io_def)
  show "grows s (run (publishEvent env topic e) s)" for topic e and s :: "'r om"
    using publishEvent_aggregates [of env topic e s] grows_same grows_GetAggregate
    by (metis grows_trans)
qed (auto intro: grows_GetAggregate grows_RecordTo grows_same elim: grows_trans)

lemma expire_aggregates:
  "map_of (om_aggregates (expire_caches aggs ids trackers s)) r = (if aggs r then None else map_of (om_aggregates s) r)"
proof -
  have "map_of (filter (\<lambda>(r, a). \<not> aggs r) l) r = (if aggs r then None else map_of l r)" for l :: "(string \<times> aggregate) list"
    by (induction l) auto
  then show ?thesis by (simp add: expire_caches_def)
qed

text \<open>A step lets the orders grow, or lets entries of the caches expire.\<close>

lemma grows_step: "om_step env s s' \<Longrightarrow> grows s s' \<or> (\<exists>aggs ids trackers. s' = expire_caches aggs ids trackers s)"
proof -
  assume "om_step env s s'"
  from store.step_frame [OF this] show ?thesis
  proof (elim disjE exE conjE)
    fix h evt
    assume "s' = run (handle_message env h evt) (s\<lparr>om_mail := remove1 (h, evt) (om_mail s)\<rparr>)"
    moreover have "grows s (s\<lparr>om_mail := remove1 (h, evt) (om_mail s)\<rparr>)"
      by (rule grows_same) simp
    ultimately show ?thesis using store.moves_handle_message
      by (metis grows_trans store.moves_def)
  qed blast+
qed

lemma reach_sourced:
  "om_reach env repo s \<Longrightarrow> map_of (om_aggregates s) r = Some a \<Longrightarrow> sourced r a"
proof (induction arbitrary: r a rule: om_reach.induct)
  case (init gcPercent)
  then show ?case by (simp add: om_init_def)
next
  case (step s s')
  from grows_step [OF step.hyps(2)] show ?case
  proof (elim disjE exE)
    assume "grows s s'"
    then show ?thesis using step.IH step.prems by (auto simp: grows_def)
  next
    fix aggs ids trackers
    assume "s' = expire_caches aggs ids trackers s"
    then show ?thesis using step.IH step.prems by (simp add: expire_aggregates split: if_splits)
  qed
qed

lemma reach_replay:
  assumes "om_reach env repo s" "map_of (om_aggregates s) r = Some a" "ag_reqID b = r"
  shows "ag_reqID a = r \<and> agg_Replay (map Some (ag_events a)) b = a"
proof -
  from reach_sourced [OF assms(1,2)] obtain es where a: "a = record_all es (NewOrderExecutionAggregate r)"
    by (auto simp: sourced_def)
  have "ag_reqID (record_all es c) = ag_reqID c" for c by (induction es arbitrary: c) auto
  then have "ag_reqID a = r" by (simp add: a NewOrderExecutionAggregate_def)
  moreover have "map the (filter (\<lambda>x. x \<noteq> None) (map Some xs)) = xs" for xs :: "order_event list"
    by (induction xs) auto
  ultimately show ?thesis using replay_any [OF a assms(3)] by simp
qed

text \<open>
  C18: the manager is event sourced. In every reachable state of the pipeline, the aggregate
  it keeps for a request carries that request's id, and replaying its recorded events into
  any aggregate of the request gives exactly the aggregate that is kept: no handler changes
  an order except by recording an event.
\<close>

theorem orders_event_sourced:
  assumes "om_reach env repo s" "map_of (om_aggregates s) r = Some a" "ag_reqID b = r"
  shows "ag_reqID a = r \<and> agg_Replay (map Some (ag_events a)) b = a"
  using assms by (rule reach_replay)

text \<open>
  C19: until its entry expires, an order only moves forward. Whatever is dispatched, delivered,
  fired, reported or canceled, in every step an order the manager knows stays known, its recorded
  events stay the beginning of its events, its lifecycle rank never falls, an order that was
  submitted or filled stays so, and a terminal order does not become active; the one exception is
  the step in which the cache drops the order's entry (an hour after it was created), which
  changes nothing else of the running pipeline than the three caches, and after which the manager
  does not know the order any more.
\<close>

theorem orders_forward:
  assumes "om_reach env repo s" "om_step env s s'" "map_of (om_aggregates s) r = Some a"
  shows "(\<exists>aggs ids trackers. s' = expire_caches aggs ids trackers s \<and> aggs r \<and> map_of (om_aggregates s') r = None) \<or>
    (\<exists>a'. map_of (om_aggregates s') r = Some a' \<and>
      take (length (ag_events a)) (ag_events a') = ag_events a \<and>
      stateRank (ag_state a) \<le> stateRank (ag_state a') \<and>
      (HasSubmitted a \<longrightarrow> HasSubmitted a') \<and> (HasFilled a \<longrightarrow> HasFilled a') \<and>
      (is_terminal (ag_state a) \<longrightarrow> \<not> HasActiveOrder r s'))"
proof -
  from reach_sourced [OF assms(1,3)] obtain fs where a: "a = record_all fs (NewOrderExecutionAggregate r)"
    by (auto simp: sourced_def)
  from grows_step [OF assms(2)] show ?thesis
  proof (elim disjE exE)
    assume "grows s s'"
    then obtain es where s': "map_of (om_aggregates s') r = Some (record_all es a)"
      using assms(3) unfolding grows_def by blast
    show ?thesis
      using s' facts_kept [OF a, of es] rank_forward [of a es] by (intro disjI2) (auto simp: HasActiveOrder_def)
  next
    fix aggs ids trackers
    assume s': "s' = expire_caches aggs ids trackers s"
    show ?thesis
    proof (cases "aggs r")
      case True
      with s' show ?thesis by (auto simp: expire_aggregates)
    next
      case False
      then show ?thesis using assms(3)
        by (intro disjI2 exI [of _ a]) (simp add: s' expire_aggregates HasActiveOrder_def)
    qed
  qed
qed

text \<open>After the expiry, anything that asks for the order starts a new one, which is active.\<close>

lemma expired_starts_afresh:
  assumes "map_of (om_aggregates s) r = None"
  shows "map_of (om_aggregates (run (GetAggregate r) s)) r = Some (NewOrderExecutionAggregate r)"
    "HasActiveOrder r (run (GetAggregate r) s)"
  using assms
  by (simp_all add: run_def GetAggregate_def gets_def modify_def update_conv' Let_def HasActiveOrder_def is_terminal_def
      NewOrderExecutionAggregate_def)

definition empty_env :: "(rat, expiring_map) env" where
  "empty_env = \<lparr>en_dec = exact_dec, en_isDup = expiring_IsDuplicate,
     en_AccountProviders = (\<lambda>_. None), en_Providers = (\<lambda>_. None),
     en_notifier = False, en_clock = (\<lambda>_. 5), en_wall = (\<lambda>_. 5), en_fail = (\<lambda>_ _. None),
     en_prepare = (\<lambda>_ _. True), en_create = (\<lambda>_ _. Inl ''down''), en_dispatch = (\<lambda>_ _. Inl ''down''),
     en_order = (\<lambda>_ _ _. Inr None), en_positions = (\<lambda>_ _. Inr []),
     en_closedPnL = (\<lambda>_ _ _. Inr None), en_more = (\<lambda>_. True)\<rparr>"

definition sample_intent :: intent_event where
  "sample_intent = base_event.extend (sample_base\<lparr>NextTopic := TopicOrderIntent\<rparr>)
     (intent_event.fields SideOpenLong OrderTypeLimit (FFin 100) (FFin 2) (FFin 1) MarginModeIsolated 1 5
        (FFin 40) f0 f0 f0 f0 0 0 False False False f0 3 0 0 None [])"

definition sample_start :: "expiring_map om" where
  "sample_start = run (Dispatch empty_env (Some (IntentEv sample_intent))) (om_init [] 100)"

lemma sample_start_reach: "om_reach empty_env [] sample_start"
  unfolding sample_start_def by (rule om_reach.step [OF om_reach.init om_step.dispatch])

lemma sample_start_order:
  "map_of (om_aggregates sample_start) ''r1'' =
     Some (record_all [IntentEv sample_intent] (NewOrderExecutionAggregate ''r1''))"
proof -
  have r: "GetReqID (IntentEv sample_intent) = ''r1''"
    by (simp add: GetReqID_def sample_intent_def base_event.defs sample_base_def)
  let ?s = "run (RecordTo ''r1'' (IntentEv sample_intent)) (om_init [] 100 :: expiring_map om)"
  have m: "map_of (om_aggregates ?s) ''r1'' = Some (record_all [IntentEv sample_intent] (NewOrderExecutionAggregate ''r1''))"
    by (simp add: RecordTo_aggregates om_init_def)
  have "run (GetAggregate ''r1'') ?s = ?s"
    using m by (simp add: run_def GetAggregate_def gets_def)
  moreover have "sample_start = run (publishEvent empty_env TopicOrderIntent (IntentEv sample_intent)) ?s"
    by (simp add: sample_start_def Dispatch_def r run_def case_prod_beta)
  ultimately show ?thesis
    using publishEvent_aggregates [of empty_env TopicOrderIntent "IntentEv sample_intent" ?s] m
    by (auto simp: r)
qed

theorem orders_event_sourced_witness:
  "agg_Replay [Some (IntentEv sample_intent)] (NewOrderExecutionAggregate ''r1'') =
     record_all [IntentEv sample_intent] (NewOrderExecutionAggregate ''r1'')"
  using orders_event_sourced [OF sample_start_reach sample_start_order, of "NewOrderExecutionAggregate ''r1''"]
  by (simp add: NewOrderExecutionAggregate_def)

theorem orders_forward_witness:
  "\<exists>a'. map_of (om_aggregates (run (CancelOrder empty_env ''r1'') sample_start)) ''r1'' = Some a' \<and>
     take 1 (ag_events a') = [IntentEv sample_intent]"
proof -
  have "map_of (om_aggregates (run (CancelOrder empty_env ''r1'') sample_start)) ''r1'' \<noteq> None"
    using store.moves_cancel [of empty_env "''r1''"] sample_start_order unfolding store.moves_def grows_def by force
  then show ?thesis
    using orders_forward [OF sample_start_reach om_step.cancel sample_start_order, of "''r1''"]
    by (auto simp: NewOrderExecutionAggregate_def)
qed

end
