(* ===== verification/OrderRuns.thy ===== *)
theory OrderRuns
  imports OrderDelivery OrderStore
begin

text \<open>
  A run of the pipeline on a sample exchange, and what holds of every run: a request is
  submitted once and its record saved once.
\<close>

definition sample_provider :: provider where
  "sample_provider = \<lparr>pv_Client = True, pv_LeverageOnOrder = False, pv_PositionModeSwitcher = True,
     pv_TPSLProvider = True, pv_PreSignExecutor = True, pv_PreWarmer = True, pv_OrderExecutor = True,
     pv_ClosedPnLProvider = False, pv_Adapter = True, pv_Watcher = True, pv_TimeSync = True,
     pv_SyncerClock = True, pv_PrecisionClock = True\<rparr>"

definition sample_order :: OrderInfo where
  "sample_order = \<lparr>oi_OrderID = ''o1'', oi_Symbol = ''BTC_USDT'', oi_Price = FFin 100, oi_Vol = FFin 2,
     oi_DealAvgPrice = FFin 0, oi_DealVol = FFin 0, oi_State = OrderStateCanceled, oi_ExternalOID = ''c1'',
     oi_Side = SideOpenLong, oi_PositionMode = 1, oi_CreateTime = 0, oi_UpdateTime = 0\<rparr>"

text \<open>An exchange that accepts everything and then reports the order canceled.\<close>

definition sample_env :: "(rat, expiring_map) env" where
  "sample_env = \<lparr>en_dec = exact_dec, en_isDup = expiring_IsDuplicate,
     en_AccountProviders = (\<lambda>_. Some sample_provider), en_Providers = (\<lambda>_. Some sample_provider),
     en_notifier = True, en_clock = (\<lambda>_. 5), en_wall = (\<lambda>_. 5), en_fail = (\<lambda>_ _. None),
     en_prepare = (\<lambda>_ _. True),
     en_create = (\<lambda>_ _. Inr \<lparr>cr_OrderID = ''o1'', cr_TPSLSubmitted = False, cr_Time = 0\<rparr>),
     en_dispatch = (\<lambda>_ _. Inr \<lparr>cr_OrderID = ''o1'', cr_TPSLSubmitted = False, cr_Time = 0\<rparr>),
     en_order = (\<lambda>_ _ _. Inr (Some sample_order)), en_positions = (\<lambda>_ _. Inr []),
     en_closedPnL = (\<lambda>_ _ _. Inr None), en_more = (\<lambda>_. True)\<rparr>"

text \<open>The oldest message is handled next.\<close>

definition deliver_first :: "('d, 'r) env \<Rightarrow> 'r om \<Rightarrow> 'r om" where
  "deliver_first env s = (case om_mail s of [] \<Rightarrow> s
     | (h, e) # _ \<Rightarrow> run (handle_message env h e) (s\<lparr>om_mail := remove1 (h, e) (om_mail s)\<rparr>))"

fun deliver_all :: "('d, 'r) env \<Rightarrow> nat \<Rightarrow> 'r om \<Rightarrow> 'r om" where
  "deliver_all env 0 s = s"
| "deliver_all env (Suc n) s = deliver_all env n (deliver_first env s)"

lemma reach_deliver_all: "om_reach env repo s \<Longrightarrow> om_reach env repo (deliver_all env n s)"
proof (induction n arbitrary: s)
  case 0
  then show ?case by simp
next
  case (Suc n)
  have "om_reach env repo (deliver_first env s)"
  proof (cases "om_mail s")
    case Nil
    then show ?thesis using Suc.prems by (simp add: deliver_first_def)
  next
    case (Cons m ms)
    then have "om_step env s (deliver_first env s)"
      using om_step.deliver [of "fst m" "snd m" s env] by (cases m) (simp add: deliver_first_def)
    then show ?thesis by (rule om_reach.step [OF Suc.prems])
  qed
  then show ?case by (simp add: Suc.IH)
qed

definition sample_run :: "expiring_map om" where
  "sample_run = deliver_all sample_env 4
     (run (Dispatch sample_env (Some (IntentEv sample_intent)))
       (run (Dispatch sample_env (Some (IntentEv sample_intent))) (om_init [] 100)))"

lemma sample_run_reach: "om_reach sample_env [] sample_run"
  unfolding sample_run_def
  by (intro reach_deliver_all om_reach.step [OF _ om_step.dispatch] om_reach.init)

lemma sample_run_creates: "creates ''r1'' sample_run = 1"
  by code_simp

interpretation sample: pipeline_delivery sample_env expiring_live
proof -
  have "dedup_repository (en_isDup sample_env) expiring_live"
    by (simp add: sample_env_def expiring_dedup_repository)
  then show "pipeline_delivery sample_env expiring_live"
    by (rule pipeline_delivery.intro) (unfold_locales, simp add: sample_env_def monoI)
qed

text \<open>
  C1: an order is submitted once. With a key repository that remembers keys for 24 hours,
  and in any run of the pipeline that lasts less than that, whatever the order in which
  intents are dispatched (also repeatedly), messages delivered, timers fired, positions and
  trades reported, orders canceled and cached entries expired, and whatever the exchange and the
  database answer: the order is submitted to the exchange (by CreateOrder or by the function
  signed in advance) at most once for each request, and its trade record is
  saved at most once.
\<close>

theorem submitted_once:
  assumes "dedup_repository (en_isDup env) live" "mono (en_wall env)"
    "\<And>n m. en_wall env n < en_wall env m + 24 * 60 * minute"
    "om_reach env repo s"
  shows "creates r s \<le> 1 \<and> saves r s \<le> 1"
  using pipeline_delivery.once [OF pipeline_delivery.intro [OF assms(1)] assms(4)] assms(2,3)
  by (simp add: pipeline_delivery_axioms_def dedup_window_def)

theorem submitted_once_witness: "creates ''r1'' sample_run = 1 \<and> saves ''r1'' sample_run \<le> 1"
  using submitted_once [of sample_env expiring_live "[]" sample_run "''r1''"]
  by (simp add: sample_run_creates sample_run_reach) (simp add: sample_env_def expiring_dedup_repository monoI)

end
