(* ===== verification/OrderLaws.thy ===== *)
theory OrderLaws
  imports OrderRuns
begin

text \<open>
  What single handlers promise: which orders they submit, when a bailout counts as done, how
  long an order is polled, what triggers the trailing stop, and what a failed position query
  leads to.
\<close>

subsection \<open>Quiet actions\<close>





subsection \<open>Submitting\<close>









subsection \<open>Polling an order\<close>

definition order_queries :: "(string \<times> client_call) list \<Rightarrow> nat" where
  "order_queries l = length (filter (\<lambda>(_, c). case c of CGetOrder _ _ \<Rightarrow> True | _ \<Rightarrow> False) l)"

definition logged :: "string \<Rightarrow> client_call \<Rightarrow> 'r om \<Rightarrow> 'r om" where
  "logged r c s = om_calls_update Suc (om_log_update (\<lambda>l. l @ [(r, c)]) s)"

lemma logged_simps [simp]:
  "om_log (logged r c s) = om_log s @ [(r, c)]" "om_calls (logged r c s) = Suc (om_calls s)"
  by (simp_all add: logged_def)

lemma run_log_call [simp]: "run_state (log_call r c) s = (om_calls s, logged r c s)"
  by (simp add: log_call_def next_call_def gets_def modify_def logged_def)

lemma run_next_call [simp]: "run_state next_call s = (om_calls s, om_calls_update Suc s)"
  by (simp add: next_call_def gets_def modify_def)

text \<open>What one query tells the polling loop.\<close>

definition poll_answer :: "('d, 'r) env \<Rightarrow> nat \<Rightarrow> string \<Rightarrow> string \<Rightarrow> OrderInfo option \<Rightarrow> OrderInfo option \<times> string option" where
  "poll_answer env k symbol oid seen = (case en_order env k symbol oid of
     Inl e \<Rightarrow> (seen, Some e)
   | Inr None \<Rightarrow> (seen, Some ''order not found'')
   | Inr (Some got) \<Rightarrow> (Some got, if IsTerminalOrderState (oi_State got) then None
                                  else Some ''order state not terminal yet''))"

text \<open>What the queries of some call numbers reported, the errors and missing orders left out.\<close>

definition reported :: "('d, 'r) env \<Rightarrow> string \<Rightarrow> string \<Rightarrow> nat list \<Rightarrow> OrderInfo list" where
  "reported env symbol oid ks = concat (map (\<lambda>k. case en_order env k symbol oid of Inr (Some got) \<Rightarrow> [got] | _ \<Rightarrow> []) ks)"

definition last_seen :: "OrderInfo option \<Rightarrow> OrderInfo list \<Rightarrow> OrderInfo option" where
  "last_seen seen ois = (if ois = [] then seen else Some (List.last ois))"

lemma reported_Cons: "reported env symbol oid (k # ks) =
    (case en_order env k symbol oid of Inr (Some got) \<Rightarrow> [got] | _ \<Rightarrow> []) @ reported env symbol oid ks"
  by (simp add: reported_def)

lemma poll_answer_seen: "fst (poll_answer env k symbol oid seen) = last_seen seen (reported env symbol oid [k])"
  by (auto simp: poll_answer_def reported_def last_seen_def split: sum.split option.split)

lemma poll_answer_done:
  "snd (poll_answer env k symbol oid seen) = None \<longleftrightarrow>
     (\<exists>oi. en_order env k symbol oid = Inr (Some oi) \<and> IsTerminalOrderState (oi_State oi))"
  by (auto simp: poll_answer_def split: sum.split option.split)

lemma last_seen_append: "last_seen seen (xs @ ys) = last_seen (last_seen seen xs) ys"
  by (simp add: last_seen_def)

text \<open>A poll: the numbers of its queries, in order; every order but perhaps the last one reported was
  not terminal.\<close>

definition polled :: "('d, 'r) env \<Rightarrow> string \<Rightarrow> string \<Rightarrow> string \<Rightarrow> OrderInfo option \<Rightarrow> 'r om \<Rightarrow>
    (OrderInfo option \<times> string option) \<times> 'r om \<Rightarrow> nat list \<Rightarrow> bool" where
  "polled env r symbol oid seen s res ks \<longleftrightarrow> (let ((ord, err), s') = res in
     (\<exists>l. om_log s' = om_log s @ l \<and> order_queries l = length ks) \<and> ks \<noteq> [] \<and> sorted_wrt (<) ks \<and>
     (\<forall>k \<in> set ks. om_calls s \<le> k \<and> k < om_calls s') \<and>
     ord = last_seen seen (reported env symbol oid ks) \<and>
     (\<forall>k \<in> set (butlast ks). \<forall>oi. en_order env k symbol oid = Inr (Some oi) \<longrightarrow> \<not> IsTerminalOrderState (oi_State oi)) \<and>
     (err = None \<longleftrightarrow> (\<exists>oi. en_order env (List.last ks) symbol oid = Inr (Some oi) \<and> IsTerminalOrderState (oi_State oi))))"

lemma poll_order_0: "run_state (poll_order env 0 r symbol oid seen) s =
    (poll_answer env (om_calls s) symbol oid seen, logged r (CGetOrder symbol oid) s)"
  by (subst poll_order.simps) (simp add: poll_answer_def Let_def split: sum.split option.split)

lemma poll_order_Suc: "run_state (poll_order env (Suc n) r symbol oid seen) s =
    (let (seen', err) = poll_answer env (om_calls s) symbol oid seen;
         t = logged r (CGetOrder symbol oid) s
     in if err = None then ((seen', None), t)
        else if en_more env (om_calls t) then run_state (poll_order env n r symbol oid seen') (om_calls_update Suc t)
        else ((seen', err), om_calls_update Suc t))"
  by (subst poll_order.simps) (simp add: poll_answer_def Let_def split: sum.split option.split)

lemma polled_one:
  "poll_answer env (om_calls s) symbol oid seen = (ord, err) \<Longrightarrow>
     polled env r symbol oid seen s ((ord, err), logged r (CGetOrder symbol oid) s) [om_calls s]"
  using poll_answer_seen [of env "om_calls s" symbol oid seen] poll_answer_done [of env "om_calls s" symbol oid seen]
  by (simp add: polled_def order_queries_def)

lemma polled_later:
  "polled env r symbol oid seen s (res, s') ks \<Longrightarrow> om_log s'' = om_log s' \<Longrightarrow> om_calls s' \<le> om_calls s'' \<Longrightarrow>
     polled env r symbol oid seen s (res, s'') ks"
  unfolding polled_def by (fastforce simp: Let_def split: prod.splits)

lemma polled_more:
  assumes "poll_answer env (om_calls s) symbol oid seen = (seen', Some e)"
    and "polled env r symbol oid seen' (om_calls_update Suc (logged r (CGetOrder symbol oid) s)) res ks"
  shows "polled env r symbol oid seen s res (om_calls s # ks)"
proof -
  let ?k = "om_calls s"
  obtain ord err s' where res: "res = ((ord, err), s')" by (metis prod.collapse)
  have "seen' = last_seen seen (reported env symbol oid [?k])"
    using poll_answer_seen [of env ?k symbol oid seen] assms(1) by simp
  then have "last_seen seen' (reported env symbol oid ks) = last_seen seen (reported env symbol oid (?k # ks))"
    by (simp add: last_seen_append [symmetric] reported_def)
  moreover have "\<forall>oi. en_order env ?k symbol oid = Inr (Some oi) \<longrightarrow> \<not> IsTerminalOrderState (oi_State oi)"
    using poll_answer_done [of env ?k symbol oid seen] assms(1) by simp
  moreover obtain l where "om_log s' = om_log s @ (r, CGetOrder symbol oid) # l" "order_queries l = length ks"
    using assms(2) by (auto simp: polled_def res)
  then have "\<exists>l. om_log s' = om_log s @ l \<and> order_queries l = length (?k # ks)"
    by (intro exI [of _ "(r, CGetOrder symbol oid) # l"]) (simp add: order_queries_def)
  moreover have ks: "ks \<noteq> []" "sorted_wrt (<) ks" "\<forall>k \<in> set ks. Suc (Suc ?k) \<le> k \<and> k < om_calls s'"
      "ord = last_seen seen' (reported env symbol oid ks)"
      "\<forall>k \<in> set (butlast ks). \<forall>oi. en_order env k symbol oid = Inr (Some oi) \<longrightarrow> \<not> IsTerminalOrderState (oi_State oi)"
      "err = None \<longleftrightarrow> (\<exists>oi. en_order env (List.last ks) symbol oid = Inr (Some oi) \<and> IsTerminalOrderState (oi_State oi))"
    using assms(2) by (simp_all add: polled_def res)
  moreover have "\<forall>k \<in> set ks. ?k < k \<and> k < om_calls s'" "?k < om_calls s'"
    using ks(1,3) by (fastforce simp: neq_Nil_conv)+
  ultimately show ?thesis unfolding polled_def res Let_def prod.case by (simp add: less_imp_le)
qed

lemma poll_order_result:
  "\<exists>ks. polled env r symbol oid seen s (run_state (poll_order env n r symbol oid seen) s) ks \<and> length ks \<le> Suc n"
proof (induction n arbitrary: seen s)
  case 0
  obtain ord err where a: "poll_answer env (om_calls s) symbol oid seen = (ord, err)" by fastforce
  from polled_one [OF this, of r] show ?case unfolding poll_order_0 a by (intro exI [of _ "[om_calls s]"]) simp
next
  case (Suc n)
  obtain seen' e where a: "poll_answer env (om_calls s) symbol oid seen = (seen', e)" by fastforce
  note one = polled_one [OF a, of r]
  let ?t = "logged r (CGetOrder symbol oid) s"
  show ?case
  proof (cases e)
    case None
    with one show ?thesis unfolding poll_order_Suc a by (intro exI [of _ "[om_calls s]"]) simp
  next
    case (Some err)
    show ?thesis
    proof (cases "en_more env (om_calls ?t)")
      case True
      obtain ks where "polled env r symbol oid seen' (om_calls_update Suc ?t)
          (run_state (poll_order env n r symbol oid seen') (om_calls_update Suc ?t)) ks" "length ks \<le> Suc n"
        using Suc.IH by blast
      with polled_more [OF a [unfolded Some] this(1)] True Some show ?thesis
        unfolding poll_order_Suc a by (intro exI [of _ "om_calls s # ks"]) (simp add: Let_def)
    next
      case False
      with Some polled_later [OF one, of "om_calls_update Suc ?t"] show ?thesis
        unfolding poll_order_Suc a by (intro exI [of _ "[om_calls s]"]) (simp add: Let_def)
    qed
  qed
qed

text \<open>
  C27: polling an order ends. Without a client for the account nothing is asked and there is no
  order, only the error. With one, the exchange is asked at least once and at most six times, and
  the answers decide: the order returned is the last one that an answer reported, none when no
  answer reported one, whether or not there is an error beside it; there is no error exactly when
  the last answer reported an order in a terminal state, which is then the order returned; and no
  answer before the last did, so the poll stops at the first terminal order.
\<close>

theorem poll_bounded:
  assumes "run_state (pollOrderUntilTerminal env r acc ex symbol oid) s = ((ord, err), s')"
  shows "case resolveClientForAccount env acc ex of
      Inl e \<Rightarrow> ord = None \<and> err = Some e \<and> s' = s
    | Inr p \<Rightarrow> \<exists>l ks. om_log s' = om_log s @ l \<and> order_queries l = length ks \<and> 1 \<le> length ks \<and> length ks \<le> 6 \<and>
        sorted_wrt (<) ks \<and> (\<forall>k \<in> set ks. om_calls s \<le> k \<and> k < om_calls s') \<and>
        ord = (let seen = reported env symbol oid ks in if seen = [] then None else Some (List.last seen)) \<and>
        (err = None \<longleftrightarrow> (\<exists>oi. en_order env (List.last ks) symbol oid = Inr (Some oi) \<and> IsTerminalOrderState (oi_State oi))) \<and>
        (\<forall>oi. err = None \<and> en_order env (List.last ks) symbol oid = Inr (Some oi) \<longrightarrow> ord = Some oi) \<and>
        (\<forall>k \<in> set (butlast ks). \<forall>oi. en_order env k symbol oid = Inr (Some oi) \<longrightarrow> \<not> IsTerminalOrderState (oi_State oi))"
proof (cases "resolveClientForAccount env acc ex")
  case (Inl e)
  with assms show ?thesis by (simp add: pollOrderUntilTerminal_def)
next
  case (Inr p)
  with assms have "run_state (poll_order env 5 r symbol oid None) s = ((ord, err), s')"
    by (simp add: pollOrderUntilTerminal_def)
  then obtain ks where ks: "polled env r symbol oid None s ((ord, err), s') ks" "length ks \<le> 6"
    using poll_order_result [of env r symbol oid None s 5] by auto
  then have "ks = butlast ks @ [List.last ks]" by (simp add: polled_def)
  then have "reported env symbol oid ks = reported env symbol oid (butlast ks) @ reported env symbol oid [List.last ks]"
    by (metis reported_def concat_append map_append)
  then have "ord = Some oi" if "en_order env (List.last ks) symbol oid = Inr (Some oi)" for oi
    using ks(1) that by (simp add: polled_def last_seen_def reported_def)
  moreover have "1 \<le> length ks" using ks(1) by (cases ks) (simp_all add: polled_def)
  moreover obtain l where "om_log s' = om_log s @ l" "order_queries l = length ks" using ks(1) by (auto simp: polled_def)
  ultimately show ?thesis
    using ks unfolding Inr sum.case polled_def last_seen_def Let_def by (intro exI [of _ l] exI [of _ ks]) (auto split: prod.splits)
qed

subsection \<open>Bailout\<close>

fun is_close :: "client_call \<Rightarrow> bool" where
  "is_close (CClosePosition _ _ _ _ _) = True" | "is_close _ = False"

text \<open>One round of the close loop.\<close>

definition bailout_round :: "('d, 'r) env \<Rightarrow> string \<Rightarrow> string \<Rightarrow> Side \<Rightarrow> PositionMode \<Rightarrow> int \<Rightarrow> int \<Rightarrow> 'r om \<Rightarrow>
    (string option \<times> int) \<times> 'r om" where
  "bailout_round env r symbol side pm lev a s =
     (let t = logged r (CGetOpenPositions symbol) s in
      case en_positions env (om_calls s) symbol of
        Inl e \<Rightarrow> ((Some (''failed to query open positions: '' @ e), a), t)
      | Inr ps \<Rightarrow>
          let v = sumRemainingHoldVolume ps symbol; c = CClosePosition symbol side v pm lev in
          if f_le v f0 then ((None, a), t)
          else ((Some (case en_fail env (om_calls t) c of
                   Some e \<Rightarrow> ''ClosePosition for remaining vol failed: '' @ e
                 | None \<Rightarrow> ''position '' @ symbol @ '' still open''), a + 1), logged r c t))"

lemma bailout_loop_0: "run_state (bailout_loop env 0 r symbol side pm lev a) s = bailout_round env r symbol side pm lev a s"
  by (subst bailout_loop.simps)
    (simp add: bailout_round_def do_call_def Let_def split: sum.split option.split)

lemma bailout_loop_Suc: "run_state (bailout_loop env (Suc n) r symbol side pm lev a) s =
    (let ((err, a'), t) = bailout_round env r symbol side pm lev a s
     in if err = None then ((None, a'), t)
        else if en_more env (om_calls t)
        then run_state (bailout_loop env n r symbol side pm lev a') (om_calls_update Suc t)
        else ((err, a'), om_calls_update Suc t))"
  by (subst bailout_loop.simps)
    (simp add: bailout_round_def do_call_def Let_def split: sum.split option.split)

definition close_calls :: "(string \<times> client_call) list \<Rightarrow> client_call list" where
  "close_calls l = filter is_close (map snd l)"

definition flat_seen :: "('d, 'r) env \<Rightarrow> string \<Rightarrow> 'r om \<Rightarrow> 'r om \<Rightarrow> bool" where
  "flat_seen env symbol s s' \<longleftrightarrow> (\<exists>k ps. om_calls s \<le> k \<and> k < om_calls s' \<and> en_positions env k symbol = Inr ps \<and>
     f_le (sumRemainingHoldVolume ps symbol) f0)"

text \<open>What a part of the close loop may do: find the position closed, or send closes for it.\<close>

definition bailout_part :: "('d, 'r) env \<Rightarrow> string \<Rightarrow> Side \<Rightarrow> PositionMode \<Rightarrow> int \<Rightarrow> nat \<Rightarrow>
    (string option \<times> int) \<times> 'r om \<Rightarrow> int \<Rightarrow> 'r om \<Rightarrow> bool" where
  "bailout_part env symbol side pm lev n res a s \<longleftrightarrow> (let ((err, a'), s') = res in
     om_calls s \<le> om_calls s' \<and> (err = None \<longrightarrow> flat_seen env symbol s s') \<and>
     (\<exists>l. om_log s' = om_log s @ l \<and> int (length (close_calls l)) = a' - a \<and>
       length (close_calls l) + of_bool (err = None) \<le> n \<and>
       (\<forall>c \<in> set (close_calls l). \<exists>v. c = CClosePosition symbol side v pm lev \<and> \<not> f_le v f0)))"

lemma bailout_round_part: "bailout_part env symbol side pm lev 1 (bailout_round env r symbol side pm lev a s) a s"
  by (auto simp: bailout_part_def bailout_round_def Let_def flat_seen_def close_calls_def
      split: sum.split option.split)

lemma om_calls_after: "om_calls (om_calls_update Suc s) = Suc (om_calls s)"
  by simp

lemma bailout_loop_part:
  "bailout_part env symbol side pm lev (Suc n) (run_state (bailout_loop env n r symbol side pm lev a) s) a s"
proof (induction n arbitrary: a s)
  case 0
  show ?case using bailout_round_part by (simp add: bailout_loop_0)
next
  case (Suc n)
  obtain err a' t where b: "bailout_round env r symbol side pm lev a s = ((err, a'), t)" by (metis prod.collapse)
  have p: "bailout_part env symbol side pm lev 1 ((err, a'), t) a s"
    using bailout_round_part [of env symbol side pm lev r a s] by (simp add: b)
  then obtain l where l: "om_calls s \<le> om_calls t" "err = None \<longrightarrow> flat_seen env symbol s t"
    "om_log t = om_log s @ l" "int (length (close_calls l)) = a' - a"
    "length (close_calls l) + of_bool (err = None) \<le> 1"
    "\<forall>c \<in> set (close_calls l). \<exists>v. c = CClosePosition symbol side v pm lev \<and> \<not> f_le v f0"
    by (auto simp: bailout_part_def)
  show ?case
  proof (cases "err \<noteq> None \<and> en_more env (om_calls t)")
    case True
    obtain err2 a2 s2 where r: "run_state (bailout_loop env n r symbol side pm lev a') (om_calls_update Suc t) = ((err2, a2), s2)"
      by (metis prod.collapse)
    from Suc.IH [of a' "om_calls_update Suc t"] obtain l2 where l2:
      "Suc (om_calls t) \<le> om_calls s2" "err2 = None \<longrightarrow> flat_seen env symbol (om_calls_update Suc t) s2"
      "om_log s2 = om_log t @ l2" "int (length (close_calls l2)) = a2 - a'"
      "length (close_calls l2) + of_bool (err2 = None) \<le> Suc n"
      "\<forall>c \<in> set (close_calls l2). \<exists>v. c = CClosePosition symbol side v pm lev \<and> \<not> f_le v f0"
      by (auto simp: bailout_part_def r)
    have "flat_seen env symbol s s2" if "err2 = None"
      using that l2(2) l(1) unfolding flat_seen_def by (metis Suc_leD le_trans om_calls_after)
    then show ?thesis
      using l l2 True
      by (auto simp: bailout_loop_Suc b r bailout_part_def Let_def close_calls_def intro!: exI [of _ "l @ l2"])
  next
    case False
    have "flat_seen env symbol s t" if "err = None" using that l(2) by simp
    then show ?thesis
      using False l by (auto simp: bailout_loop_Suc b bailout_part_def Let_def intro!: exI [of _ l])
  qed
qed

lemma bailout_result:
  assumes "run_state (HandleExecuteBailout env r ex symbol side vol reason) s = (Inr b, s')"
  shows "flat_seen env symbol s s' \<and> 0 \<le> bo_CloseRetryCount b \<and> bo_CloseRetryCount b \<le> 10 \<and>
    (\<exists>l. om_log s' = om_log s @ l \<and> int (length (close_calls l)) = bo_CloseRetryCount b \<and>
      (\<forall>c \<in> set (close_calls l). \<exists>v pm lev. c = CClosePosition symbol (CloseSideFor side) v pm lev \<and> \<not> f_le v f0))"
proof -
  obtain agg s1 where g: "run_state (GetAggregate r) s = (agg, s1)" by fastforce
  have s1: "om_log s1 = om_log s" "om_calls s1 = om_calls s"
    using g by (auto simp: GetAggregate_def gets_def modify_def Let_def split: option.splits)
  let ?s2 = "logged r (CCloseAllPositions symbol) s1"
  obtain err n t where l: "run_state (bailout_loop env 10 r symbol (CloseSideFor side) (agg_PositionMode agg)
      (agg_Leverage agg) 0) ?s2 = ((err, n), t)" by (metis prod.collapse)
  have e: "err = None" and b: "bo_CloseRetryCount b = n" and s': "om_log s' = om_log t" "om_calls t \<le> om_calls s'"
    using assms g l
    by (auto simp: HandleExecuteBailout_def and_then_def resolve_def wrapping_def try_call_def do_call_def
        clock_Now_def bailout_event.defs base_event.defs Let_def split: sum.splits option.splits)
  obtain m where m: "Suc (om_calls s1) \<le> om_calls t" "flat_seen env symbol ?s2 t" "om_log t = om_log ?s2 @ m"
    "int (length (close_calls m)) = n" "length (close_calls m) + 1 \<le> 11"
    "\<forall>c \<in> set (close_calls m). \<exists>v. c = CClosePosition symbol (CloseSideFor side) v (agg_PositionMode agg) (agg_Leverage agg) \<and>
       \<not> f_le v f0"
    using bailout_loop_part [of env symbol "CloseSideFor side" "agg_PositionMode agg" "agg_Leverage agg" 10 r 0 ?s2]
    by (auto simp: bailout_part_def l e)
  have "flat_seen env symbol s s'"
    using m(2) s1 s' unfolding flat_seen_def by (metis Suc_leD le_trans less_le_trans logged_simps(2))
  then show ?thesis
    using m s1 s' b
    by (auto simp: close_calls_def intro!: exI [of _ "(r, CCloseAllPositions symbol) # m"])
qed

text \<open>
  C20: a bailout reports success only when the exchange, asked during that very bailout,
  reported no remaining volume of the symbol; it sent at most ten closing orders, as many as
  it reports, and each was for the symbol, on the closing side of the position, and for a
  volume that is not zero or negative.
\<close>

theorem bailout_done_when_flat:
  assumes "run_state (HandleExecuteBailout env r ex symbol side vol reason) s = (Inr b, s')"
  shows "(\<exists>k ps. om_calls s \<le> k \<and> k < om_calls s' \<and> en_positions env k symbol = Inr ps \<and>
      f_le (sumRemainingHoldVolume ps symbol) f0) \<and> 0 \<le> bo_CloseRetryCount b \<and> bo_CloseRetryCount b \<le> 10 \<and>
    (\<exists>l. om_log s' = om_log s @ l \<and> int (length (close_calls l)) = bo_CloseRetryCount b \<and>
      (\<forall>c \<in> set (close_calls l). \<exists>v pm lev. c = CClosePosition symbol (CloseSideFor side) v pm lev \<and> \<not> f_le v f0))"
  using bailout_result [OF assms] by (simp add: flat_seen_def)

lemma sample_resolve:
  "resolveClientForAccount sample_env acc ex = Inr sample_provider"
  "resolveClock sample_env ex = Inr sample_provider"
  by (simp_all add: resolveClientForAccount_def resolveAccountProvider_def GetAccountProvider_def resolveClock_def
      GetProvider_def sample_env_def sample_provider_def Let_def)

lemma sample_poll:
  "run_state (pollOrderUntilTerminal sample_env ''r1'' ''acc'' ''mexc'' ''BTC_USDT'' ''o1'') sample_run =
     ((Some sample_order, None), logged ''r1'' (CGetOrder ''BTC_USDT'' ''o1'') sample_run)"
proof -
  have "poll_answer sample_env k symbol oid seen = (Some sample_order, None)" for k symbol oid seen
    by (simp add: poll_answer_def sample_env_def sample_order_def IsTerminalOrderState_def)
  then show ?thesis
    using poll_order_Suc [of sample_env 4] by (simp add: pollOrderUntilTerminal_def sample_resolve Let_def)
qed

theorem poll_bounded_witness:
  "\<exists>l ks. om_log (logged ''r1'' (CGetOrder ''BTC_USDT'' ''o1'') sample_run) = om_log sample_run @ l \<and>
     order_queries l = length ks \<and> length ks \<le> 6 \<and>
     Some sample_order = (let seen = reported sample_env ''BTC_USDT'' ''o1'' ks in if seen = [] then None else Some (List.last seen))"
  using poll_bounded [OF sample_poll] unfolding sample_resolve sum.case by blast

definition sample_bailout :: "(om_error + bailout_event) \<times> expiring_map om" where
  "sample_bailout = run_state (HandleExecuteBailout sample_env ''r1'' ''mexc'' ''BTC_USDT'' SideOpenLong (FFin 2) ''test'') sample_run"

lemma sample_bailout_loop:
  "run_state (bailout_loop sample_env 10 r symbol side pm lev a) s =
     ((None, a), logged r (CGetOpenPositions symbol) s)"
proof -
  have "bailout_round sample_env r symbol side pm lev a s =
      ((None, a), logged r (CGetOpenPositions symbol) s)"
    by (simp add: bailout_round_def sample_env_def sumRemainingHoldVolume_def Let_def)
  then show ?thesis
    using bailout_loop_Suc [of sample_env 9] by (simp add: Let_def)
qed

lemma sample_fail: "en_fail sample_env k c = None"
  by (simp add: sample_env_def)

lemma sample_bailout_Inr: "\<exists>b s'. sample_bailout = (Inr b, s') \<and> bo_Volume b = FFin 2"
proof -
  obtain agg s1 where g: "run_state (GetAggregate ''r1'') sample_run = (agg, s1)" by fastforce
  then show ?thesis
    by (simp add: sample_bailout_loop sample_fail sample_bailout_def HandleExecuteBailout_def g sample_resolve and_then_def resolve_def
        wrapping_def try_call_def do_call_def clock_Now_def bailout_event.defs base_event.defs Let_def)
qed

theorem bailout_done_when_flat_witness:
  "\<exists>b. fst sample_bailout = Inr b \<and> bo_CloseRetryCount b \<le> 10"
proof -
  obtain b s' where b: "sample_bailout = (Inr b, s')" using sample_bailout_Inr by blast
  from bailout_done_when_flat [OF b [unfolded sample_bailout_def]] have "bo_CloseRetryCount b \<le> 10" by blast
  moreover have "fst sample_bailout = Inr b" unfolding b by simp
  ultimately show ?thesis by auto
qed

subsection \<open>The trailing stop\<close>

lemma quiet_aggs: "om_log (run (getOrInitPnLTracker r ex pnl) s) = om_log s"
  by (auto simp: run_def getOrInitPnLTracker_def GetAggregate_def gets_def modify_def Let_def split: option.splits)

text \<open>
  C26: the trailing stop acts only for a reason. If evaluating a profit value calls the
  exchange at all, then the order has trailing switched on and is neither terminal nor in a
  bailout, a tracker was already running for it, the value is no new peak, the peak is
  positive, the drop from it has reached the configured percentage, and the value was
  preceded by the configured number of falls in a row.
\<close>

theorem trailing_stop_reason:
  assumes "om_log (run (trackPositionPnL env r symbol agg pnl vcoin vcont) s) \<noteq> om_log s"
  shows "agg_EnablePnLTrailing agg \<and> \<not> is_terminal (ag_state agg) \<and> ag_state agg \<noteq> StateBailout \<and>
    (\<exists>t0. om_trackers s r = Some t0 \<and> \<not> f_lt (MaxPnL t0) pnl \<and> f_pos (MaxPnL t0) \<and>
       f_le (agg_PnLTrailingDropPct agg) (f_mul (f_div (f_sub (MaxPnL t0) pnl) (MaxPnL t0)) (FFin 100)) \<and>
       IsConsecutiveDrop (History (fst (tracker_update pnl t0))) (agg_PnLTrailingConfirmTicks agg))"
proof -
  have on: "agg_EnablePnLTrailing agg" "\<not> is_terminal (ag_state agg)" "ag_state agg \<noteq> StateBailout"
    using assms by (auto simp: trackPositionPnL_def run_def split: if_splits)
  obtain tr s1 where g: "run_state (getOrInitPnLTracker r (agg_Exchange agg) pnl) s = (tr, s1)" by fastforce
  have s1: "om_log s1 = om_log s"
    using quiet_aggs [of r "agg_Exchange agg" pnl s] g by (simp add: run_def)
  show ?thesis
  proof (cases tr)
    case None
    with on assms g s1 show ?thesis by (simp add: trackPositionPnL_def run_def)
  next
    case (Some t0)
    obtain t00 where t00: "om_trackers s r = Some t00" "MaxPnL t0 = MaxPnL t00" "History t0 = History t00"
      using g Some by (auto simp: getOrInitPnLTracker_def GetAggregate_def gets_def modify_def Let_def
          split: option.splits prod.splits)
    obtain t inc where u: "tracker_update pnl t0 = (t, inc)" by fastforce
    have t: "inc \<longleftrightarrow> f_lt (MaxPnL t00) pnl" "\<not> inc \<longrightarrow> MaxPnL t = MaxPnL t00"
      "History t = History (fst (tracker_update pnl t00))"
      using u t00 by (auto simp: tracker_update_def Let_def split: if_splits)
    have "\<not> inc \<and> dropExceeded t pnl (agg_PnLTrailingDropPct agg) \<and>
        IsConsecutiveDrop (History t) (agg_PnLTrailingConfirmTicks agg)"
    proof (rule ccontr)
      assume "\<not> ?thesis"
      then have "om_log (run (trackPositionPnL env r symbol agg pnl vcoin vcont) s) = om_log s"
        using on g Some u s1 by (auto simp: trackPositionPnL_def run_def modify_def)
      with assms show False by simp
    qed
    with on t t00 show ?thesis by (auto simp: dropExceeded_def)
  qed
qed

definition trailing_agg :: aggregate where
  "trailing_agg = record_all [IntentEv (sample_intent\<lparr>it_EnablePnLTrailing := True, it_PnLTrailingDropPct := FFin 10,
     it_PnLTrailingConfirmTicks := 1\<rparr>), sample_filled] (NewOrderExecutionAggregate ''r1'')"

definition trailing_state :: "expiring_map om" where
  "trailing_state = (om_init [] 100)\<lparr>om_aggregates := [(''r1'', trailing_agg)],
     om_trackers := [''r1'' \<mapsto> \<lparr>tk_ReqID = ''r1'', tk_AccountID = ''acc'', tk_Exchange = ''mexc'', MaxPnL = FFin 10,
       History = [FFin 10]\<rparr>]\<rparr>"

lemma bailout_logs: "om_log (run (executePnLBailout sample_env r symbol agg v w) s) =
    om_log s @ [(r, CCloseAllPositions symbol), (r, CGetOpenPositions symbol)]"
proof -
  obtain agg' s1 where g: "run_state (GetAggregate r) s = (agg', s1)" by fastforce
  have s1: "om_log s1 = om_log s" using g om_log_GetAggregate [of r s] by (simp add: run_def)
  have rec: "om_log (snd (run_state (RecordTo r e) t)) = om_log t"
    and pub: "om_log (snd (run_state (publishEvent sample_env T e) t)) = om_log t" for t T e
    using RecordTo_log [of r e t] publishEvent_log [of sample_env T e t] by (simp_all add: run_def)
  show ?thesis
    by (simp add: executePnLBailout_def HandleExecuteBailout_def g sample_resolve and_then_def resolve_def
        wrapping_def try_call_def do_call_def clock_Now_def Let_def sample_bailout_loop sample_fail run_def
        publish_ignoring_def rec pub s1 case_prod_beta)
qed

lemma trailing_agg_facts:
  "agg_EnablePnLTrailing trailing_agg" "ag_state trailing_agg = StateFilled" "agg_PnLTrailingDropPct trailing_agg = FFin 10"
  "agg_PnLTrailingConfirmTicks trailing_agg = 1"
  by code_simp+

theorem trailing_stop_reason_witness:
  "IsConsecutiveDrop (History (fst (tracker_update (FFin 0) (the (om_trackers trailing_state ''r1'')))))
     (agg_PnLTrailingConfirmTicks trailing_agg)"
proof -
  have "om_log (run (trackPositionPnL sample_env ''r1'' ''BTC_USDT'' trailing_agg (FFin 0) f0 f0) trailing_state) \<noteq>
      om_log trailing_state"
  proof -
    have g: "run_state (GetAggregate ''r1'') trailing_state = (trailing_agg, trailing_state)"
      by (simp add: GetAggregate_def gets_def trailing_state_def)
    have d: "dropExceeded \<lparr>tk_ReqID = ''r1'', tk_AccountID = ''acc'', tk_Exchange = ''mexc'', MaxPnL = FFin 10,
        History = [FFin 10, FFin 0]\<rparr> (FFin 0) (FFin 10)" "IsConsecutiveDrop [FFin 10, FFin 0] 1"
      by (simp_all add: dropExceeded_def go_float IsConsecutiveDrop_def)
    let ?tr = "\<lparr>tk_ReqID = ''r1'', tk_AccountID = ''acc'', tk_Exchange = ''mexc'', MaxPnL = FFin 10,
        History = [FFin 10, FFin 0]\<rparr>"
    let ?t = "om_trackers_update (\<lambda>m. m(''r1'' \<mapsto> ?tr)) trailing_state"
    have tr: "om_trackers trailing_state ''r1'' = Some (?tr\<lparr>History := [FFin 10]\<rparr>)"
      by (simp add: trailing_state_def)
    obtain t' where e: "run_state (executePnLBailout sample_env ''r1'' ''BTC_USDT'' trailing_agg f0 f0) ?t = ((), t')"
      by (cases "run_state (executePnLBailout sample_env ''r1'' ''BTC_USDT'' trailing_agg f0 f0) ?t") simp
    have "om_log t' \<noteq> om_log trailing_state"
      using bailout_logs [of "''r1''" "''BTC_USDT''" trailing_agg f0 f0 ?t] by (simp add: run_def e)
    moreover have "om_log (run (trackPositionPnL sample_env ''r1'' ''BTC_USDT'' trailing_agg (FFin 0) f0 f0) trailing_state) =
        om_log t'"
      using d e by (simp add: trackPositionPnL_def run_def trailing_agg_facts is_terminal_def getOrInitPnLTracker_def g
          tr gets_def modify_def Let_def tracker_update_def maxPnLHistory_def or_else_def)
    ultimately show ?thesis by simp
  qed
  from trailing_stop_reason [OF this] show ?thesis by auto
qed

subsection \<open>A failed position query\<close>

text \<open>
  C34: the deadline of a position is decided by the reported position, but a failed query
  counts as a closed position. When the exchange answers, the check event carries the volume
  it reported, and when it fails, the event carries the volume 0 beside the error; the next
  handler looks at the volume only, so after a failed query it goes the way of an order
  without a position (which completes the order) and starts no bailout.
\<close>

theorem deadline_query:
  assumes "run_state (HandleWaitTimeoutDeadline env evt) s = (Inr res, s')"
    "resolveClientForAccount env (AccountID evt) (Exchange evt) = Inr client"
  shows "(case en_positions env (om_calls s) (Symbol evt) of
      Inr ps \<Rightarrow> tc_HoldVol res = holdVolume ps \<and> tc_Error res = ''''
    | Inl e \<Rightarrow> tc_HoldVol res = f0 \<and> tc_Error res = e \<and>
        handleTimeoutPositionChecked env res =
          do { _ \<leftarrow> GetAggregate (ReqID evt); handleTimeoutNoPosition env res })"
proof -
  have r: "tc_HoldVol res = (case en_positions env (om_calls s) (Symbol evt) of Inl _ \<Rightarrow> f0 | Inr ps \<Rightarrow> holdVolume ps)"
    "tc_Error res = (case en_positions env (om_calls s) (Symbol evt) of Inl e \<Rightarrow> e | Inr _ \<Rightarrow> '''')"
    "ReqID res = ReqID evt"
    using assms
    by (auto simp: HandleWaitTimeoutDeadline_def and_then_def wrapping_def resolve_def clock_Now_def
        timeout_checked_event.defs base_event.defs Let_def split: sum.splits)
  show ?thesis
    using r by (auto simp: handleTimeoutPositionChecked_def split: sum.split)
qed

definition down_env :: "(rat, expiring_map) env" where
  "down_env = sample_env\<lparr>en_positions := (\<lambda>_ _. Inl ''timeout'')\<rparr>"

definition sample_deadline :: timeout_scheduled_event where
  "sample_deadline = base_event.extend sample_base (timeout_scheduled_event.fields second 5)"

theorem deadline_query_witness:
  "\<exists>res. fst (run_state (HandleWaitTimeoutDeadline down_env sample_deadline) sample_run) = Inr res \<and>
     tc_HoldVol res = f0 \<and> tc_Error res = ''timeout''"
proof -
  have c: "resolveClientForAccount down_env acc ex = Inr sample_provider"
    "resolveClock down_env ex = Inr sample_provider" for acc ex
    by (simp_all add: down_env_def resolveClientForAccount_def resolveAccountProvider_def GetAccountProvider_def
        resolveClock_def GetProvider_def sample_env_def sample_provider_def Let_def)
  obtain res s' where r: "run_state (HandleWaitTimeoutDeadline down_env sample_deadline) sample_run = (Inr res, s')"
    by (simp add: HandleWaitTimeoutDeadline_def and_then_def wrapping_def resolve_def clock_Now_def c Let_def)
  have "en_positions down_env k sym = Inl ''timeout''" for k sym by (simp add: down_env_def)
  with deadline_query [OF r c(1)] r show ?thesis by auto
qed

end
