(* ===== verification/TradeCalc.thy ===== *)
theory TradeCalc
  imports DecMath Domain "HOL-Library.Monad_Syntax"
begin

text \<open>
  \<open>pkg/tradecalc/calc.go\<close>: prices and volumes of orders. None is the panic of the decimal
  conversion on NaN and infinities; the package's own sentinel errors are \<open>tc_error\<close>. The
  package's \<open>Side\<close> and \<open>OrderBookEntry\<close> are those of \<open>Domain\<close>.
\<close>

datatype tc_error = ErrInvalidSide | ErrInvalidPriceUnit | ErrZeroRefPrice | ErrZeroIOCPrice

definition CalculateSlippage :: "'d dec_lib \<Rightarrow> float64 \<Rightarrow> float64 \<Rightarrow> float64 \<Rightarrow> float64 option" where
  "CalculateSlippage L refPrice maxPriceDiffPercent priceUnit = do {
     a \<leftarrow> Mul L refPrice (f_div maxPriceDiffPercent (FFin 100));
     b \<leftarrow> Mul L priceUnit (FFin 2);
     Some (f_max a b) }"

text \<open>The sanity check at the end: a price short of the reference becomes one tick beyond it.\<close>

definition ioc_cross :: "'d dec_lib \<Rightarrow> Side \<Rightarrow> float64 \<Rightarrow> float64 \<Rightarrow> int \<Rightarrow> float64 \<Rightarrow> float64 option" where
  "ioc_cross L side refPrice priceUnit priceScale iocPrice = do {
     below \<leftarrow> (if side = SideOpenLong then LessThan L iocPrice refPrice else Some False);
     above \<leftarrow> (if \<not> below \<and> side = SideOpenShort then GreaterThan L iocPrice refPrice else Some False);
     if below then do { x \<leftarrow> Add L refPrice priceUnit; RoundToScale L x priceScale }
     else if above then do { x \<leftarrow> Sub L refPrice priceUnit; RoundToScale L x priceScale }
     else Some iocPrice }"

text \<open>The price for one direction: snap, round, and make it cross the reference price.\<close>

definition ioc_price ::
    "'d dec_lib \<Rightarrow> Side \<Rightarrow> float64 \<Rightarrow> float64 \<Rightarrow> (float64 \<Rightarrow> float64 \<Rightarrow> float64 option) \<Rightarrow> float64 \<Rightarrow> float64 \<Rightarrow>
     int \<Rightarrow> (tc_error + float64) option" where
  "ioc_price L side refPrice direction snapToTick maxPriceDiffPercent priceUnit priceScale =
     (if f_le refPrice f0 then Some (Inl ErrZeroRefPrice)
      else do {
        slippage \<leftarrow> CalculateSlippage L refPrice maxPriceDiffPercent priceUnit;
        d \<leftarrow> Mul L direction slippage;
        offsetPrice \<leftarrow> Add L refPrice d;
        snapped \<leftarrow> snapToTick offsetPrice priceUnit;
        iocPrice \<leftarrow> RoundToScale L snapped priceScale;
        final \<leftarrow> ioc_cross L side refPrice priceUnit priceScale iocPrice;
        Some (if f_le final f0 then Inl ErrZeroIOCPrice else Inr final) })"

definition CalculateIOCPrice ::
    "'d dec_lib \<Rightarrow> Side \<Rightarrow> float64 \<Rightarrow> float64 \<Rightarrow> float64 \<Rightarrow> float64 \<Rightarrow> int \<Rightarrow> (tc_error + float64) option" where
  "CalculateIOCPrice L side bestBid bestAsk maxPriceDiffPercent priceUnit priceScale =
     (if f_le priceUnit f0 then Some (Inl ErrInvalidPriceUnit)
      else case side of
        SideOpenLong \<Rightarrow> ioc_price L side bestAsk (FFin 1) (SnapToTickFloor L) maxPriceDiffPercent priceUnit priceScale
      | SideOpenShort \<Rightarrow> ioc_price L side bestBid (FFin (-1)) (SnapToTickCeil L) maxPriceDiffPercent priceUnit priceScale
      | _ \<Rightarrow> Some (Inl ErrInvalidSide))"

definition CalculateVolume ::
    "'d dec_lib \<Rightarrow> float64 \<Rightarrow> float64 \<Rightarrow> float64 \<Rightarrow> float64 \<Rightarrow> float64 \<Rightarrow> int \<Rightarrow> float64 option" where
  "CalculateVolume L margin leverage contractSize refPrice minVol volScale =
     (if f_le contractSize f0 \<or> f_le refPrice f0 then Some f0
      else do {
        notional \<leftarrow> Mul L margin leverage;
        denom \<leftarrow> Mul L contractSize refPrice;
        q \<leftarrow> Div L notional denom;
        vol \<leftarrow> FloorToScale L q volScale;
        Some (if f_lt vol minVol then minVol else vol) })"

definition ExecutionRefPrice :: "Side \<Rightarrow> float64 \<Rightarrow> float64 \<Rightarrow> float64 \<Rightarrow> float64" where
  "ExecutionRefPrice side lastPrice bestBid bestAsk =
     (if side = SideOpenLong \<and> f_pos bestAsk then bestAsk
      else if side = SideOpenShort \<and> f_pos bestBid then bestBid else lastPrice)"

definition CalculateVolumeForNotional ::
    "'d dec_lib \<Rightarrow> float64 \<Rightarrow> float64 \<Rightarrow> float64 \<Rightarrow> float64 \<Rightarrow> int \<Rightarrow> float64 option" where
  "CalculateVolumeForNotional L notional refPrice contractSize minVol volScale =
     (if f_le contractSize f0 \<or> f_le refPrice f0 \<or> f_le notional f0 then Some f0
      else do {
        denom \<leftarrow> Mul L contractSize refPrice;
        q \<leftarrow> Div L notional denom;
        vol \<leftarrow> FloorToScale L q volScale;
        Some (if f_lt vol minVol then minVol else vol) })"

definition ReversionNotionalUSDT :: "'d dec_lib \<Rightarrow> float64 \<Rightarrow> int \<Rightarrow> float64 option" where
  "ReversionNotionalUSDT L margin leverage = Mul L margin (f_of_int leverage)"

definition NotionalForVolume :: "'d dec_lib \<Rightarrow> float64 \<Rightarrow> float64 \<Rightarrow> float64 \<Rightarrow> float64 option" where
  "NotionalForVolume L volume refPrice contractSize =
     (if f_le contractSize f0 \<or> f_le volume f0 \<or> f_le refPrice f0 then Some f0
      else do { x \<leftarrow> Mul L volume contractSize; Mul L x refPrice })"

definition GetPeakPrice :: "Side \<Rightarrow> float64 \<Rightarrow> float64 \<Rightarrow> float64" where
  "GetPeakPrice side bestBid bestAsk = (if side = SideOpenLong then bestAsk else bestBid)"

definition FindWallPrice :: "float64 \<Rightarrow> OrderBookEntry list \<Rightarrow> Side \<Rightarrow> int \<Rightarrow> float64 \<Rightarrow> float64" where
  "FindWallPrice entryPrice levels side minWallLevels wallMultiplier =
     (if int (length levels) < minWallLevels then f0
      else
        let totalVol = foldl (\<lambda>v l. f_add v (Volume l)) f0 levels;
            avgVol = f_div totalVol (f_of_int (int (length levels)));
            threshold = f_mul avgVol wallMultiplier
        in if f_le entryPrice f0 then f0
           else first_hit (\<lambda>l.
             if f_lt (Volume l) threshold then None
             else if side = SideOpenLong \<and> f_lt entryPrice (Price l) then Some (Price l)
             else if side = SideOpenShort \<and> f_lt (Price l) entryPrice then Some (Price l)
             else None) f0 levels)"

definition CalculateStaticExitPrice ::
    "'d dec_lib \<Rightarrow> Side \<Rightarrow> float64 \<Rightarrow> float64 \<Rightarrow> bool \<Rightarrow> float64 \<Rightarrow> int \<Rightarrow> float64 option" where
  "CalculateStaticExitPrice L side entryPrice pct favorable priceUnit priceScale =
     (if (side = SideOpenLong \<and> favorable) \<or> (side = SideOpenShort \<and> \<not> favorable)
      then do { f \<leftarrow> Add L (FFin 1) pct; price \<leftarrow> Mul L entryPrice f;
                s \<leftarrow> SnapToTickFloor L price priceUnit; RoundToScale L s priceScale }
      else do { f \<leftarrow> Sub L (FFin 1) pct; price \<leftarrow> Mul L entryPrice f;
                s \<leftarrow> SnapToTickCeil L price priceUnit; RoundToScale L s priceScale })"

definition CalculateStopLossPrice ::
    "'d dec_lib \<Rightarrow> Side \<Rightarrow> float64 \<Rightarrow> float64 \<Rightarrow> float64 \<Rightarrow> int \<Rightarrow> float64 option" where
  "CalculateStopLossPrice L side entryPrice slPct priceUnit priceScale =
     (if f_le slPct f0 \<or> f_le entryPrice f0 \<or> f_le priceUnit f0 then Some f0
      else CalculateStaticExitPrice L side entryPrice slPct False priceUnit priceScale)"

definition CalculateStaticTakeProfitPrice ::
    "'d dec_lib \<Rightarrow> Side \<Rightarrow> float64 \<Rightarrow> float64 \<Rightarrow> float64 \<Rightarrow> int \<Rightarrow> float64 option" where
  "CalculateStaticTakeProfitPrice L side entryPrice tpPct priceUnit priceScale =
     (if f_le tpPct f0 \<or> f_le entryPrice f0 \<or> f_le priceUnit f0 then Some f0
      else CalculateStaticExitPrice L side entryPrice tpPct True priceUnit priceScale)"

subsection \<open>An immediate-or-cancel price crosses the book\<close>

lemma round_half_away_mono: "x \<le> y \<Longrightarrow> round_half_away x \<le> round_half_away y"
proof -
  assume le: "x \<le> y"
  consider "0 \<le> x" | "x < 0" "0 \<le> y" | "y < 0" by linarith
  then show ?thesis
  proof cases
    case 1
    with le show ?thesis by (simp add: round_half_away_def floor_mono)
  next
    case 2
    then have "0 \<le> \<lfloor>- x + 1 / 2\<rfloor>" "0 \<le> \<lfloor>y + 1 / 2\<rfloor>" by (simp_all add: zero_le_floor)
    then have "- \<lfloor>- x + 1 / 2\<rfloor> \<le> \<lfloor>y + 1 / 2\<rfloor>" by linarith
    with 2 show ?thesis by (simp add: round_half_away_def)
  next
    case 3
    with le show ?thesis by (simp add: round_half_away_def floor_mono)
  qed
qed

lemma round_places_mono: "x \<le> y \<Longrightarrow> round_places x n \<le> round_places y n"
  by (simp add: round_places_def divide_right_mono round_half_away_mono mult_right_mono)

context decimal_lib begin

lemma RoundToScale_value: "RoundToScale L x n = Some y \<Longrightarrow>
    \<exists>d. NewFromFloat L x = Some d \<and> y = f64_of_rat (round_places (dval d) (i32 n))"
  by (auto simp: RoundToScale_def on_dec1_def ToFloat_def RoundDecimalToScale_def to_float dval_Round)

lemma RoundToScale_is_f64: "RoundToScale L x n = Some y \<Longrightarrow> is_f64 y"
  by (auto dest!: RoundToScale_value simp: f64_of_rat_is_f64)

lemma from_float_pos:
  assumes "NewFromFloat L x = Some d" "is_f64 x" "f_pos x"
  shows "f64_of_rat (dval d) = x"
  using from_float_round_trip [OF assms(1,2)] assms(3) by (auto simp: f_pos_def)

text \<open>Rounding a price on the far side of a reference that has few places stays on that side.\<close>

lemma round_beyond:
  assumes r: "NewFromFloat L ref = Some dr" "is_f64 ref" "f_pos ref" "round_places (dval dr) (i32 n) = dval dr"
    and x: "NewFromFloat L x = Some dx" "is_f64 x" "RoundToScale L x n = Some y"
  shows "f_le ref x \<Longrightarrow> f_le ref y" "f_le x ref \<Longrightarrow> f_le y ref"
proof -
  have ref: "f64_of_rat (dval dr) = ref" by (rule from_float_pos [OF r(1-3)])
  have y: "y = f64_of_rat (round_places (dval dx) (i32 n))"
    using RoundToScale_value [OF x(3)] x(1) by auto
  have rx: "f64_of_rat (dval dx) = (if x = FNegZero then FFin 0 else x)"
    by (rule from_float_round_trip [OF x(1,2)])
  have same: "f_le ref x \<and> f_le x ref \<Longrightarrow> dx = dr"
    using f_le_antisym_pos [OF r(3), of x] r(1) x(1) by auto
  show "f_le ref y" if le: "f_le ref x"
  proof (cases "dval dr \<le> dval dx")
    case True
    then show ?thesis
      using f64_of_rat_mono [OF round_places_mono [OF True, of "i32 n"]] by (simp add: y r(4) ref)
  next
    case False
    then have "f_le x ref"
      using f64_of_rat_mono [of "dval dx" "dval dr"] rx ref le r(3)
      by (cases ref) (auto simp: f_le_def f_lt_def f_eq_def f_pos_def split: if_splits)
    with same le False show ?thesis by simp
  qed
  show "f_le y ref" if le: "f_le x ref"
  proof (cases "dval dx \<le> dval dr")
    case True
    then show ?thesis
      using f64_of_rat_mono [OF round_places_mono [OF True, of "i32 n"]] by (simp add: y r(4) ref)
  next
    case False
    then have "f_le ref x"
      using f64_of_rat_mono [of "dval dr" "dval dx"] rx ref le r(3)
      by (cases ref) (auto simp: f_le_def f_lt_def f_eq_def f_pos_def split: if_splits)
    with same le False show ?thesis by simp
  qed
qed

lemma from_float_sign:
  assumes "NewFromFloat L u = Some d" "is_f64 u" "f_pos u"
  shows "0 \<le> dval d"
proof (rule ccontr)
  assume "\<not> 0 \<le> dval d"
  then have "f_le (f64_of_rat (dval d)) (f64_of_rat 0)" by (intro f64_of_rat_mono) simp
  then show False
    using from_float_pos [OF assms] assms(3) by (cases u) (auto simp: f_pos_def f_le_def go_float)
qed

lemma finite_from_float: "RoundToScale L x n = Some y \<Longrightarrow> \<exists>d. NewFromFloat L x = Some d"
  using RoundToScale_value by blast

lemma Add_beyond:
  assumes "NewFromFloat L ref = Some dr" "is_f64 ref" "f_pos ref" "is_f64 u" "f_pos u" "Add L ref u = Some x"
  shows "f_le ref x \<and> is_f64 x"
proof -
  obtain du where du: "NewFromFloat L u = Some du" "x = f64_of_rat (dval dr + dval du)"
    using assms(1,6) by (auto simp: Add_def on_dec2_def ToFloat_def to_float dval_Add)
  have "f_le (f64_of_rat (dval dr)) x"
    unfolding du(2) using from_float_sign [OF du(1) assms(4,5)] by (intro f64_of_rat_mono) simp
  then show ?thesis using from_float_pos [OF assms(1-3)] du(2) by (simp add: f64_of_rat_is_f64)
qed

lemma Sub_beyond:
  assumes "NewFromFloat L ref = Some dr" "is_f64 ref" "f_pos ref" "is_f64 u" "f_pos u" "Sub L ref u = Some x"
  shows "f_le x ref \<and> is_f64 x"
proof -
  obtain du where du: "NewFromFloat L u = Some du" "x = f64_of_rat (dval dr - dval du)"
    using assms(1,6) by (auto simp: Sub_def on_dec2_def ToFloat_def to_float dval_Sub)
  have "f_le x (f64_of_rat (dval dr))"
    unfolding du(2) using from_float_sign [OF du(1) assms(4,5)] by (intro f64_of_rat_mono) simp
  then show ?thesis using from_float_pos [OF assms(1-3)] du(2) by (simp add: f64_of_rat_is_f64)
qed

lemma not_LessThan:
  assumes "NewFromFloat L ref = Some dr" "is_f64 ref" "f_pos ref" "is_f64 p"
  shows "LessThan L p ref = Some False \<Longrightarrow> f_le ref p" "GreaterThan L p ref = Some False \<Longrightarrow> f_le p ref"
proof -
  have ref: "f64_of_rat (dval dr) = ref" by (rule from_float_pos [OF assms(1-3)])
  show "f_le ref p" if l: "LessThan L p ref = Some False"
  proof -
    obtain d where d: "NewFromFloat L p = Some d" "dval dr \<le> dval d"
      using l assms(1) by (auto simp: LessThan_def on_dec2_def dval_LessThan split: option.splits)
    have "f_le ref (f64_of_rat (dval d))" using f64_of_rat_mono [OF d(2)] ref by simp
    then show ?thesis
      using from_float_round_trip [OF d(1) assms(4)] by (auto simp: f_le_def f_lt_def f_eq_def split: if_splits option.splits)
  qed
  show "f_le p ref" if l: "GreaterThan L p ref = Some False"
  proof -
    obtain d where d: "NewFromFloat L p = Some d" "dval d \<le> dval dr"
      using l assms(1) by (auto simp: GreaterThan_def on_dec2_def dval_GreaterThan split: option.splits)
    have "f_le (f64_of_rat (dval d)) ref" using f64_of_rat_mono [OF d(2)] ref by simp
    then show ?thesis
      using from_float_round_trip [OF d(1) assms(4)] by (auto simp: f_le_def f_lt_def f_eq_def split: if_splits option.splits)
  qed
qed

lemma ioc_cross_crosses:
  assumes p: "ioc_cross L side ref unit n q = Some p" "is_f64 q"
    and r: "NewFromFloat L ref = Some dr" "is_f64 ref" "f_pos ref" "round_places (dval dr) (i32 n) = dval dr"
    and u: "is_f64 unit" "f_pos unit"
  shows "side = SideOpenLong \<Longrightarrow> f_le ref p" "side = SideOpenShort \<Longrightarrow> f_le p ref"
proof -
  note beyond = round_beyond [OF r]
  show "f_le ref p" if s: "side = SideOpenLong"
  proof (cases "LessThan L q ref = Some True")
    case True
    with p s obtain x where x: "Add L ref unit = Some x" "RoundToScale L x n = Some p"
      by (auto simp: ioc_cross_def bind_eq_Some_conv)
    obtain dx where "NewFromFloat L x = Some dx" using finite_from_float [OF x(2)] by blast
    then show ?thesis using Add_beyond [OF r(1-3) u x(1)] beyond(1) x(2) by blast
  next
    case False
    with p s have "LessThan L q ref = Some False" "p = q" by (auto simp: ioc_cross_def bind_eq_Some_conv)
    then show ?thesis using not_LessThan(1) [OF r(1-3) p(2)] by simp
  qed
  show "f_le p ref" if s: "side = SideOpenShort"
  proof (cases "GreaterThan L q ref = Some True")
    case True
    with p s obtain x where x: "Sub L ref unit = Some x" "RoundToScale L x n = Some p"
      by (auto simp: ioc_cross_def bind_eq_Some_conv)
    obtain dx where "NewFromFloat L x = Some dx" using finite_from_float [OF x(2)] by blast
    then show ?thesis using Sub_beyond [OF r(1-3) u x(1)] beyond(2) x(2) by blast
  next
    case False
    with p s have "GreaterThan L q ref = Some False" "p = q" by (auto simp: ioc_cross_def bind_eq_Some_conv)
    then show ?thesis using not_LessThan(2) [OF r(1-3) p(2)] by simp
  qed
qed

lemma ioc_cross_rounded: "ioc_cross L side ref unit n q = Some p \<Longrightarrow> p = q \<or> (\<exists>x. RoundToScale L x n = Some p)"
  by (auto simp: ioc_cross_def bind_eq_Some_conv split: if_splits)

lemma RoundToScale_not_NaN: "RoundToScale L x n = Some p \<Longrightarrow> \<not> f_le p f0 \<Longrightarrow> f_pos p"
  by (cases p) (auto dest!: RoundToScale_value simp: f_pos_def f_le_def)

lemma ioc_price_crosses:
  assumes p: "ioc_price L side ref dir snap diff unit n = Some (Inr p)"
    and r: "NewFromFloat L ref = Some dr" "is_f64 ref" "round_places (dval dr) (i32 n) = dval dr"
    and u: "is_f64 unit" "\<not> f_le unit f0"
  shows "f_pos p \<and> (side = SideOpenLong \<longrightarrow> f_le ref p) \<and> (side = SideOpenShort \<longrightarrow> f_le p ref)"
proof -
  have fin: "f_is_fin ref" using r(1) from_float_panics [of ref] by (cases "f_is_fin ref") auto
  have "\<not> f_le ref f0" using p by (auto simp: ioc_price_def split: if_splits)
  then have ref: "f_pos ref" using fin by (cases ref) (auto simp: f_pos_def f_le_def)
  obtain sl where sl: "CalculateSlippage L ref diff unit = Some sl"
    using p by (auto simp: ioc_price_def bind_eq_Some_conv split: if_splits)
  then have "f_is_fin unit" using on_dec2_None [of "\<lambda>x y. ToFloat L (dec_Mul L x y)" unit "FFin 2"]
    by (auto simp: CalculateSlippage_def Mul_def bind_eq_Some_conv)
  then have upos: "f_pos unit" using u(2) by (cases unit) (auto simp: f_pos_def f_le_def)
  obtain snapped q where q: "RoundToScale L snapped n = Some q" "ioc_cross L side ref unit n q = Some p" "\<not> f_le p f0"
    using p by (auto simp: ioc_price_def bind_eq_Some_conv split: if_splits)
  have "f_pos p" using ioc_cross_rounded [OF q(2)] q(1,3) RoundToScale_not_NaN by blast
  with ioc_cross_crosses [OF q(2) RoundToScale_is_f64 [OF q(1)] r(1,2) ref r(3) u(1) upos]
  show ?thesis by blast
qed

lemma IOC_not_NaN:
  assumes "CalculateIOCPrice L side bid ask diff unit n = Some (Inr p)"
  shows "p \<noteq> FNaN"
proof -
  have "\<exists>snapped q ref. RoundToScale L snapped n = Some q \<and> ioc_cross L side ref unit n q = Some p"
    using assms by (auto simp: CalculateIOCPrice_def ioc_price_def bind_eq_Some_conv split: if_splits Side.splits)
  then have "\<exists>x. RoundToScale L x n = Some p" using ioc_cross_rounded by blast
  then show ?thesis by (auto dest!: RoundToScale_value)
qed

end

lemma crosses_book:
  assumes "decimal_lib L dval"
    and "CalculateIOCPrice L side bestBid bestAsk diff unit n = Some (Inr p)"
    and "NewFromFloat L (if side = SideOpenLong then bestAsk else bestBid) = Some dr"
    and "round_places (dval dr) (i32 n) = dval dr"
    and "is_f64 bestBid" "is_f64 bestAsk" "is_f64 unit"
  shows "f_pos p \<and> (side = SideOpenLong \<and> f_le bestAsk p \<or> side = SideOpenShort \<and> f_le p bestBid)"
proof -
  have unit: "\<not> f_le unit f0" using assms(2) by (auto simp: CalculateIOCPrice_def split: if_splits)
  note crosses = decimal_lib.ioc_price_crosses [OF assms(1) _ _ _ assms(4,7) unit]
  show ?thesis
  proof (cases side)
    case SideOpenLong
    with assms(2,3,6) unit show ?thesis
      using crosses [of SideOpenLong bestAsk] by (auto simp: CalculateIOCPrice_def)
  next
    case SideOpenShort
    with assms(2,3,5) unit show ?thesis
      using crosses [of SideOpenShort bestBid] by (auto simp: CalculateIOCPrice_def)
  qed (use assms(2) unit in \<open>auto simp: CalculateIOCPrice_def\<close>)
qed

text \<open>
  C9: an immediate-or-cancel price crosses the book. When the best price of the other side has
  no more decimals than the contract's price scale (taken modulo \<open>2 ^ 32\<close>, as the rounding converts
  the scale to \<open>int32\<close>), the price that is calculated is positive
  and at least the best ask for a long order, at most the best bid for a short one, whatever
  the slippage, the tick and the rounding do; and there is no price for any other side.
\<close>

theorem ioc_crosses:
  assumes "decimal_lib L dval"
    and "CalculateIOCPrice L side bestBid bestAsk diff unit n = Some (Inr p)"
    and "NewFromFloat L (if side = SideOpenLong then bestAsk else bestBid) = Some dr"
    and "round_places (dval dr) (i32 n) = dval dr"
    and "is_f64 bestBid" "is_f64 bestAsk" "is_f64 unit"
  shows "f_pos p \<and> (side = SideOpenLong \<and> f_le bestAsk p \<or> side = SideOpenShort \<and> f_le p bestBid)"
  using assms by (rule crosses_book)

lemma exact_ops:
  "Mul exact_dec (FFin a) (FFin b) = Some (f64_of_rat (a * b))"
  "Add exact_dec (FFin a) (FFin b) = Some (f64_of_rat (a + b))"
  "Sub exact_dec (FFin a) (FFin b) = Some (f64_of_rat (a - b))"
  "LessThan exact_dec (FFin a) (FFin b) = Some (a < b)"
  "GreaterThan exact_dec (FFin a) (FFin b) = Some (b < a)"
  "RoundToScale exact_dec (FFin a) n = Some (f64_of_rat (round_places a (i32 n)))"
  "b \<noteq> 0 \<Longrightarrow> Div exact_dec (FFin a) (FFin b) = Some (f64_of_rat (round_places (a / b) 16))"
  "FloorToScale exact_dec (FFin a) 0 = Some (f64_of_rat (of_int \<lfloor>a\<rfloor>))"
  "SnapToTickFloor exact_dec (FFin a) (FFin 1) = Some (f64_of_rat (of_int \<lfloor>round_places a 16\<rfloor>))"
  "SnapToTickCeil exact_dec (FFin a) (FFin 1) = Some (f64_of_rat (of_int \<lceil>round_places a 16\<rceil>))"
  by (simp_all add: Mul_def Add_def Sub_def LessThan_def GreaterThan_def RoundToScale_def SnapToTickFloor_def
      SnapToTickCeil_def Div_def DivDecimal_def FloorToScale_def FloorDecimalToScale_def round_places_of_int
      RoundDecimalToScale_def SnapDecimalToTickFloor_def SnapDecimalToTickCeil_def on_dec1_def on_dec2_def
      ToFloat_def exact_dec_def)

lemma quarter_f64: "f64_of_rat (1 / 4) = FFin (1 / 4)"
  using rnd64_exact [of 1 "- 2"] by (simp add: f64_of_rat_def f64_bound_def)

lemma round_places_numeral: "0 \<le> n \<Longrightarrow> round_places (numeral k) n = numeral k"
proof -
  assume "0 \<le> n"
  then have "(numeral k :: rat) * 10 powi n = of_int (numeral k * 10 ^ nat n)" by (simp add: power_int_def)
  then show ?thesis unfolding round_places_def by (simp only: round_half_away_of_int) simp
qed

theorem ioc_crosses_witness:
  "CalculateIOCPrice exact_dec SideOpenLong (FFin 99) (FFin 100) (FFin 25) (FFin 1) 0 = Some (Inr (FFin 125)) \<and>
   f_le (FFin 100) (FFin 125)"
proof
  show price: "CalculateIOCPrice exact_dec SideOpenLong (FFin 99) (FFin 100) (FFin 25) (FFin 1) 0 = Some (Inr (FFin 125))"
    by (simp add: CalculateIOCPrice_def ioc_price_def ioc_cross_def CalculateSlippage_def exact_ops
        f_max_def go_float quarter_f64 round_places_numeral)
  have "is_f64 (FFin 99)" "is_f64 (FFin 100)" "is_f64 (FFin 1)" "round_places 100 0 = 100"
    "NewFromFloat exact_dec (FFin 100) = Some 100"
    using rnd64_of_int [of 99] rnd64_of_int [of 100] rnd64_of_int [of 1] round_half_away_of_int [of 100]
    by (simp_all add: round_places_def exact_dec_def f64_bound_def)
  then show "f_le (FFin 100) (FFin 125)"
    using ioc_crosses [OF exact_decimal_lib price, of 100] by simp
qed

end
