(* ===== verification/GoSort.thy ===== *)
theory GoSort
  imports Prelude "HOL-Library.Multiset"
begin

text \<open>
  \<open>sort.SliceStable\<close> and \<open>slices.SortFunc\<close>: sorting by a \<open>less\<close> function that the caller
  supplies. For a strict weak order \<open>stable_sort\<close> is the stable sorted permutation. Where the
  source uses \<open>sort.Slice\<close>, which leaves the order of equal elements open, the model takes
  the stable one.
\<close>

fun insert_by :: "('a \<Rightarrow> 'a \<Rightarrow> bool) \<Rightarrow> 'a \<Rightarrow> 'a list \<Rightarrow> 'a list" where
  "insert_by before x [] = [x]"
| "insert_by before x (y # ys) = (if before y x then y # insert_by before x ys else x # y # ys)"

definition stable_sort :: "('a \<Rightarrow> 'a \<Rightarrow> bool) \<Rightarrow> 'a list \<Rightarrow> 'a list" where
  "stable_sort before xs = foldr (insert_by before) xs []"

lemma stable_sort_simps [simp]:
  "stable_sort before [] = []" "stable_sort before (x # xs) = insert_by before x (stable_sort before xs)"
  by (simp_all add: stable_sort_def)

lemma mset_insert_by [simp]: "mset (insert_by before x ys) = add_mset x (mset ys)"
  by (induction ys) auto

lemma mset_stable_sort [simp]: "mset (stable_sort before xs) = mset xs"
  by (induction xs) auto

lemma set_stable_sort [simp]: "set (stable_sort before xs) = set xs"
  by (metis mset_stable_sort set_mset_mset)

lemma length_stable_sort [simp]: "length (stable_sort before xs) = length xs"
  by (metis mset_stable_sort size_mset)

text \<open>A strict weak order on a set: irreflexive, transitive, with transitive incomparability.\<close>

definition weak_order_on :: "'a set \<Rightarrow> ('a \<Rightarrow> 'a \<Rightarrow> bool) \<Rightarrow> bool" where
  "weak_order_on A before \<longleftrightarrow>
     (\<forall>x \<in> A. \<forall>y \<in> A. before x y \<longrightarrow> \<not> before y x) \<and>
     (\<forall>x \<in> A. \<forall>y \<in> A. \<forall>z \<in> A. before x z \<longrightarrow> before x y \<or> before y z)"

lemma sorted_insert_by:
  assumes "weak_order_on A before" "x \<in> A" "set ys \<subseteq> A" "sorted_wrt (\<lambda>a b. \<not> before b a) ys"
  shows "sorted_wrt (\<lambda>a b. \<not> before b a) (insert_by before x ys)"
  using assms(3,4)
proof (induction ys)
  case (Cons y ys)
  have set: "set (insert_by before x ys) = insert x (set ys)" by (metis mset_insert_by set_mset_add_mset_insert set_mset_mset)
  show ?case
  proof (cases "before y x")
    case True
    with Cons assms(1,2) show ?thesis by (auto simp: set weak_order_on_def)
  next
    case False
    have "\<not> before b x" if "b \<in> set ys" for b
    proof
      assume b: "before b x"
      have "b \<in> A" "y \<in> A" using Cons.prems(1) that by auto
      with b assms(1,2) have "before b y \<or> before y x" unfolding weak_order_on_def by blast
      with False Cons.prems(2) that show False by auto
    qed
    with False Cons show ?thesis by auto
  qed
qed simp

lemma sorted_stable_sort:
  "weak_order_on A before \<Longrightarrow> set xs \<subseteq> A \<Longrightarrow> sorted_wrt (\<lambda>a b. \<not> before b a) (stable_sort before xs)"
  by (induction xs) (auto intro!: sorted_insert_by [of A])

end
