(* ===== verification/FundingDomain.thy ===== *)
theory FundingDomain
  imports TradeCalc GoSort
begin

text \<open>
  \<open>internal/bots/funding/domain\<close>: the candidate of the funding bot with its value objects,
  the scan of funding rates, prices and volumes, take profit and stop loss, the safety
  checks, the leverage limits, the allocation of margin and the depth imbalance. A struct
  that the source embeds is a field of the candidate, and its promoted fields are
  abbreviations. Methods with a pointer receiver return the changed candidate. None is the
  panic of the decimal conversion, a rejection is a value of \<open>reject_reason\<close> with the
  numbers the source prints.
\<close>

subsection \<open>The candidate\<close>

record PnLTrailingConfig =
  pl_Enabled :: bool
  pl_DropPct :: float64
  pl_ConfirmTicks :: int

record DynamicTPConfig =
  dy_Enabled :: bool
  dy_TPMultiplier :: float64
  dy_MinTakeProfitPct :: float64
  dy_MaxTakeProfitPct :: float64

record FundingReversionConfig =
  fv_Enabled :: bool
  fv_TakeProfitPct :: float64
  fv_StopLossPct :: float64
  fv_MaxLatency :: duration
  fv_BufferTime :: duration
  fv_PostSettleTimeout :: duration
  fv_PnLTrailing :: PnLTrailingConfig
  fv_DynamicTP :: DynamicTPConfig

record TradeConfig =
  tg_AccountID :: string
  tg_Symbol :: string
  tg_Exchange :: string
  tg_SimulateSettle :: string
  tg_MaxPriceDiffPercent :: float64
  tg_MarginUSDT :: float64
  tg_Leverage :: int
  tg_FundingReversion :: FundingReversionConfig
  tg_MinFundingRate :: float64
  tg_MinVol24USD :: float64
  tg_ParsedOpenType :: int
  tg_ParsedPositionMode :: int

record TradeIntent =
  ti_Symbol :: string
  ti_FundingRate :: float64
  ti_Side :: Side
  ti_CloseSide :: Side
  ti_RefPriceType :: string
  ti_ExternalID :: string

record ContractSpec =
  cs_PriceUnit :: float64
  cs_VolUnit :: int
  cs_MinVol :: int
  cs_MaxVol :: int
  cs_PriceScale :: int
  cs_VolScale :: int
  cs_ContractSize :: float64
  cs_TakerFeeRate :: float64
  cs_MakerFeeRate :: float64
  cs_MaxLeverage :: int

record MarketData =
  md_LastPrice :: float64
  md_BestBid :: float64
  md_BestAsk :: float64
  md_Volume24 :: float64
  md_Vol24USDT :: float64

datatype reject_reason =
  Vol24Below float64 float64
| InvalidRefPrice
| MinVolumeAboveSafe float64 float64
| InsufficientBudget float64 float64
| InsufficientMargin float64 int

record SafetyResult =
  sr_Passed :: bool
  sr_RejectReason :: "reject_reason option"
  sr_DesiredNotionalUSDT :: float64
  sr_ActualNotionalUSDT :: float64
  sr_MaxSafeNotionalUSDT :: float64
  sr_AvgMinuteVolumeUSDT :: float64
  sr_ImpactRatio :: float64
  sr_EstSlippage :: float64
  sr_ExpectedProfit :: float64
  sr_SizedDown :: bool

record SafetyLimits =
  sl_MaxImpactRatio :: float64
  sl_MinVol24USD :: float64

record TradePlan =
  tp_Volume :: float64
  tp_CoinScore :: float64
  tp_ExpectedProfit :: float64
  tp_ImpactRatio :: float64
  tp_Slippage :: float64
  tp_ImbalanceRatio :: float64
  tp_SafetyResult :: "SafetyResult option"

record Candidate =
  c_Config :: TradeConfig
  c_Intent :: TradeIntent
  c_Spec :: ContractSpec
  c_Market :: MarketData
  c_Plan :: TradePlan
  c_SettleTime :: gtime

abbreviation "c_Symbol c \<equiv> ti_Symbol (c_Intent c)"
abbreviation "c_FundingRate c \<equiv> ti_FundingRate (c_Intent c)"
abbreviation "c_Side c \<equiv> ti_Side (c_Intent c)"
abbreviation "c_BestBid c \<equiv> md_BestBid (c_Market c)"
abbreviation "c_BestAsk c \<equiv> md_BestAsk (c_Market c)"
abbreviation "c_LastPrice c \<equiv> md_LastPrice (c_Market c)"
abbreviation "c_Vol24USDT c \<equiv> md_Vol24USDT (c_Market c)"
abbreviation "c_PriceUnit c \<equiv> cs_PriceUnit (c_Spec c)"
abbreviation "c_PriceScale c \<equiv> cs_PriceScale (c_Spec c)"
abbreviation "c_ContractSize c \<equiv> cs_ContractSize (c_Spec c)"
abbreviation "c_Volume c \<equiv> tp_Volume (c_Plan c)"
abbreviation "c_MarginUSDT c \<equiv> tg_MarginUSDT (c_Config c)"
abbreviation "c_Leverage c \<equiv> tg_Leverage (c_Config c)"
abbreviation "c_Reversion c \<equiv> tg_FundingReversion (c_Config c)"

definition set_Volume :: "float64 \<Rightarrow> Candidate \<Rightarrow> Candidate" where
  "set_Volume v c = c\<lparr>c_Plan := (c_Plan c)\<lparr>tp_Volume := v\<rparr>\<rparr>"

definition set_Margin :: "float64 \<Rightarrow> Candidate \<Rightarrow> Candidate" where
  "set_Margin m c = c\<lparr>c_Config := (c_Config c)\<lparr>tg_MarginUSDT := m\<rparr>\<rparr>"

definition set_Leverage :: "int \<Rightarrow> Candidate \<Rightarrow> Candidate" where
  "set_Leverage l c = c\<lparr>c_Config := (c_Config c)\<lparr>tg_Leverage := l\<rparr>\<rparr>"

lemma set_simps [simp]:
  "c_Config (set_Volume v c) = c_Config c" "c_Intent (set_Volume v c) = c_Intent c"
  "c_Spec (set_Volume v c) = c_Spec c" "c_Market (set_Volume v c) = c_Market c"
  "c_Volume (set_Volume v c) = v" "c_SettleTime (set_Volume v c) = c_SettleTime c"
  "c_MarginUSDT (set_Margin m c) = m" "c_Leverage (set_Margin m c) = c_Leverage c"
  "c_Intent (set_Margin m c) = c_Intent c" "c_Spec (set_Margin m c) = c_Spec c"
  "c_Market (set_Margin m c) = c_Market c" "c_Plan (set_Margin m c) = c_Plan c"
  "c_MarginUSDT (set_Leverage l c) = c_MarginUSDT c" "c_Leverage (set_Leverage l c) = l"
  "c_Intent (set_Leverage l c) = c_Intent c" "c_Spec (set_Leverage l c) = c_Spec c"
  "c_Market (set_Leverage l c) = c_Market c" "c_Plan (set_Leverage l c) = c_Plan c"
  by (simp_all add: set_Volume_def set_Leverage_def set_Margin_def)

lemma set_Margin_twice [simp]: "set_Margin m (set_Margin m' c) = set_Margin m c"
  by (simp add: set_Margin_def)

definition zero_plan :: TradePlan where
  "zero_plan = \<lparr>tp_Volume = f0, tp_CoinScore = f0, tp_ExpectedProfit = f0, tp_ImpactRatio = f0,
     tp_Slippage = f0, tp_ImbalanceRatio = f0, tp_SafetyResult = None\<rparr>"

definition zero_spec :: ContractSpec where
  "zero_spec = \<lparr>cs_PriceUnit = f0, cs_VolUnit = 0, cs_MinVol = 0, cs_MaxVol = 0, cs_PriceScale = 0,
     cs_VolScale = 0, cs_ContractSize = f0, cs_TakerFeeRate = f0, cs_MakerFeeRate = f0, cs_MaxLeverage = 0\<rparr>"

definition zero_reversion :: FundingReversionConfig where
  "zero_reversion = \<lparr>fv_Enabled = False, fv_TakeProfitPct = f0, fv_StopLossPct = f0, fv_MaxLatency = 0,
     fv_BufferTime = 0, fv_PostSettleTimeout = 0,
     fv_PnLTrailing = \<lparr>pl_Enabled = False, pl_DropPct = f0, pl_ConfirmTicks = 0\<rparr>,
     fv_DynamicTP = \<lparr>dy_Enabled = False, dy_TPMultiplier = f0, dy_MinTakeProfitPct = f0, dy_MaxTakeProfitPct = f0\<rparr>\<rparr>"

definition zero_config :: TradeConfig where
  "zero_config = \<lparr>tg_AccountID = '''', tg_Symbol = '''', tg_Exchange = '''', tg_SimulateSettle = '''',
     tg_MaxPriceDiffPercent = f0, tg_MarginUSDT = f0, tg_Leverage = 0, tg_FundingReversion = zero_reversion,
     tg_MinFundingRate = f0, tg_MinVol24USD = f0, tg_ParsedOpenType = 0, tg_ParsedPositionMode = 0\<rparr>"

subsection \<open>Scanning funding rates\<close>

record ScanResult =
  sn_Symbol :: string
  sn_FundingRate :: float64
  sn_LastPrice :: float64
  sn_BestBid :: float64
  sn_BestAsk :: float64
  sn_Volume24 :: float64
  sn_AmountUSDT24 :: float64

record ScanConfig =
  sg_Symbol :: string
  sg_MinFundingRate :: float64
  sg_MinVol24USD :: float64

text \<open>The turnover in USDT, estimated from the volume where the exchange does not report it.\<close>

definition turnover :: "float64 \<Rightarrow> float64 \<Rightarrow> float64 \<Rightarrow> float64" where
  "turnover amount volume lastPrice =
     (if f_eq amount f0 \<and> f_pos volume \<and> f_pos lastPrice then f_mul volume lastPrice else amount)"

definition sided_intent :: "string \<Rightarrow> float64 \<Rightarrow> bool \<Rightarrow> TradeIntent" where
  "sided_intent symbol rate long =
     (if long then \<lparr>ti_Symbol = symbol, ti_FundingRate = rate, ti_Side = SideOpenLong,
        ti_CloseSide = SideCloseLong, ti_RefPriceType = ''bestAsk'', ti_ExternalID = ''''\<rparr>
      else \<lparr>ti_Symbol = symbol, ti_FundingRate = rate, ti_Side = SideOpenShort,
        ti_CloseSide = SideCloseShort, ti_RefPriceType = ''bestBid'', ti_ExternalID = ''''\<rparr>)"

definition scan_one :: "(string \<rightharpoonup> ScanResult) \<Rightarrow> ScanConfig \<Rightarrow> Candidate option" where
  "scan_one tickerMap sc = (case tickerMap (sg_Symbol sc) of
     None \<Rightarrow> None
   | Some t \<Rightarrow>
       (let amtUSDT = turnover (sn_AmountUSDT24 t) (sn_Volume24 t) (sn_LastPrice t) in
        if f_lt (f_abs (sn_FundingRate t)) (sg_MinFundingRate sc) then None
        else if f_pos (sg_MinVol24USD sc) \<and> f_lt amtUSDT (sg_MinVol24USD sc) then None
        else Some \<lparr>c_Config = zero_config,
          c_Intent = sided_intent (sn_Symbol t) (sn_FundingRate t) (f_pos (sn_FundingRate t)),
          c_Spec = zero_spec,
          c_Market = \<lparr>md_LastPrice = sn_LastPrice t, md_BestBid = sn_BestBid t, md_BestAsk = sn_BestAsk t,
            md_Volume24 = sn_Volume24 t, md_Vol24USDT = amtUSDT\<rparr>,
          c_Plan = zero_plan, c_SettleTime = 0\<rparr>))"

definition ScanFundingRates :: "ScanResult list \<Rightarrow> ScanConfig list \<Rightarrow> Candidate list" where
  "ScanFundingRates tickers configs =
     List.map_filter (scan_one (map_of (rev (map (\<lambda>t. (sn_Symbol t, t)) tickers)))) configs"

definition EnrichWithContractSpec :: "Candidate list \<Rightarrow> (string \<rightharpoonup> ContractSpec) \<Rightarrow> Candidate list" where
  "EnrichWithContractSpec candidates specs =
     map (\<lambda>c. case specs (c_Symbol c) of Some spec \<Rightarrow> c\<lparr>c_Spec := spec\<rparr> | None \<Rightarrow> c) candidates"

subsection \<open>Prices and volumes\<close>

definition cand_CalculateIOCPrice :: "'d dec_lib \<Rightarrow> Candidate \<Rightarrow> (tc_error + float64) option" where
  "cand_CalculateIOCPrice L c = CalculateIOCPrice L (c_Side c) (c_BestBid c) (c_BestAsk c)
     (tg_MaxPriceDiffPercent (c_Config c)) (c_PriceUnit c) (c_PriceScale c)"

definition cand_ExecutionRefPrice :: "Candidate \<Rightarrow> float64" where
  "cand_ExecutionRefPrice c = ExecutionRefPrice (c_Side c) (c_LastPrice c) (c_BestBid c) (c_BestAsk c)"

text \<open>\<open>if c.MaxVol > 0 && vol > float64(c.MaxVol)\<close>\<close>

definition cap_MaxVol :: "Candidate \<Rightarrow> float64 \<Rightarrow> float64" where
  "cap_MaxVol c vol = (if 0 < cs_MaxVol (c_Spec c) \<and> f_lt (f_of_int (cs_MaxVol (c_Spec c))) vol
     then f_of_int (cs_MaxVol (c_Spec c)) else vol)"

definition cand_CalculateVolume :: "'d dec_lib \<Rightarrow> Candidate \<Rightarrow> float64 option" where
  "cand_CalculateVolume L c = map_option (cap_MaxVol c)
     (CalculateVolume L (c_MarginUSDT c) (f_of_int (c_Leverage c)) (c_ContractSize c)
        (cand_ExecutionRefPrice c) (f_of_int (cs_MinVol (c_Spec c))) (cs_VolScale (c_Spec c)))"

definition cand_CalculateVolumeForNotional :: "'d dec_lib \<Rightarrow> Candidate \<Rightarrow> float64 \<Rightarrow> float64 \<Rightarrow> float64 option" where
  "cand_CalculateVolumeForNotional L c notional refPrice = map_option (cap_MaxVol c)
     (CalculateVolumeForNotional L notional refPrice (c_ContractSize c)
        (f_of_int (cs_MinVol (c_Spec c))) (cs_VolScale (c_Spec c)))"

definition cand_ReversionNotionalUSDT :: "'d dec_lib \<Rightarrow> Candidate \<Rightarrow> float64 option" where
  "cand_ReversionNotionalUSDT L c = ReversionNotionalUSDT L (c_MarginUSDT c) (c_Leverage c)"

definition cand_NotionalForVolume :: "'d dec_lib \<Rightarrow> Candidate \<Rightarrow> float64 \<Rightarrow> float64 \<Rightarrow> float64 option" where
  "cand_NotionalForVolume L c volume refPrice = NotionalForVolume L volume refPrice (c_ContractSize c)"

definition cand_GetPeakPrice :: "Candidate \<Rightarrow> float64" where
  "cand_GetPeakPrice c = GetPeakPrice (c_Side c) (c_BestBid c) (c_BestAsk c)"

definition CalculateOpportunityScore :: "float64 \<Rightarrow> float64 \<Rightarrow> float64 \<Rightarrow> float64 \<Rightarrow> float64 \<Rightarrow> float64" where
  "CalculateOpportunityScore fundingRate vol24hUSDT rateWeight0 volWeight0 maxVolScore0 =
     (let rateWeight = (if f_le rateWeight0 f0 then FFin 1 else rateWeight0);
          volWeight = (if f_le volWeight0 f0 then FFin (1 / 2) else volWeight0);
          maxVolScore = (if f_le maxVolScore0 f0 then FFin 5 else maxVolScore0);
          absRate = (if f_lt fundingRate f0 then f_neg fundingRate else fundingRate);
          rateScore = f_mul (f_div absRate (f64_of_rat (1 / 1000))) rateWeight;
          volScore = f_mul (f_div vol24hUSDT (FFin 1000000)) volWeight;
          volScore' = (if f_pos maxVolScore \<and> f_lt maxVolScore volScore then maxVolScore else volScore)
      in f_add rateScore volScore')"

subsection \<open>Take profit and stop loss\<close>

definition ResolveTakeProfitPct :: "Candidate \<Rightarrow> float64" where
  "ResolveTakeProfitPct c =
     (let cfg = fv_DynamicTP (c_Reversion c) in
      if \<not> dy_Enabled cfg \<or> f_le (dy_TPMultiplier cfg) f0 then fv_TakeProfitPct (c_Reversion c)
      else
        let r = f_mul (f_abs (c_FundingRate c)) (dy_TPMultiplier cfg);
            lo = (if f_pos (dy_MinTakeProfitPct cfg) \<and> f_lt r (dy_MinTakeProfitPct cfg)
                  then dy_MinTakeProfitPct cfg else r)
        in if f_pos (dy_MaxTakeProfitPct cfg) \<and> f_lt (dy_MaxTakeProfitPct cfg) lo
           then dy_MaxTakeProfitPct cfg else lo)"

definition cand_CalculateStaticTakeProfitPrice :: "'d dec_lib \<Rightarrow> Candidate \<Rightarrow> float64 \<Rightarrow> float64 option" where
  "cand_CalculateStaticTakeProfitPrice L c entryPrice =
     CalculateStaticTakeProfitPrice L (c_Side c) entryPrice (ResolveTakeProfitPct c) (c_PriceUnit c) (c_PriceScale c)"

definition entryRefPrice :: "Candidate \<Rightarrow> float64" where
  "entryRefPrice c = (if c_Side c = SideOpenLong then c_BestAsk c else c_BestBid c)"

definition cand_FindWallPrice :: "Candidate \<Rightarrow> OrderBookEntry list \<Rightarrow> Side \<Rightarrow> float64" where
  "cand_FindWallPrice c levels side = FindWallPrice (entryRefPrice c) levels side 3 (FFin 3)"

definition cand_CalculateStopLossPrice :: "'d dec_lib \<Rightarrow> Candidate \<Rightarrow> float64 \<Rightarrow> float64 option" where
  "cand_CalculateStopLossPrice L c entryPrice =
     CalculateStopLossPrice L (c_Side c) entryPrice (fv_StopLossPct (c_Reversion c)) (c_PriceUnit c) (c_PriceScale c)"

definition validateTPSLDirection :: "Side \<Rightarrow> float64 \<Rightarrow> float64 \<Rightarrow> float64 \<Rightarrow> float64 \<times> float64" where
  "validateTPSLDirection side iocPrice tpPrice slPrice =
     (if side = SideOpenLong then
        (if f_pos tpPrice \<and> f_le tpPrice iocPrice then f0 else tpPrice,
         if f_pos slPrice \<and> f_le iocPrice slPrice then f0 else slPrice)
      else
        (if f_pos tpPrice \<and> f_le iocPrice tpPrice then f0 else tpPrice,
         if f_pos slPrice \<and> f_le slPrice iocPrice then f0 else slPrice))"

definition CalculateOrderTPSL :: "'d dec_lib \<Rightarrow> Candidate \<Rightarrow> float64 \<Rightarrow> (float64 \<times> float64) option" where
  "CalculateOrderTPSL L c iocPrice = do {
     tpPrice \<leftarrow> (if f_pos (ResolveTakeProfitPct c)
                  then cand_CalculateStaticTakeProfitPrice L c (cand_GetPeakPrice c) else Some f0);
     slPrice \<leftarrow> cand_CalculateStopLossPrice L c (cand_GetPeakPrice c);
     Some (validateTPSLDirection (c_Side c) iocPrice tpPrice slPrice) }"

subsection \<open>Safety\<close>

definition reject :: "reject_reason \<Rightarrow> SafetyResult \<Rightarrow> SafetyResult" where
  "reject why r = r\<lparr>sr_Passed := False, sr_RejectReason := Some why\<rparr>"

definition evaluateTradeSafety :: "'d dec_lib \<Rightarrow> Candidate \<Rightarrow> SafetyResult \<Rightarrow> SafetyResult option" where
  "evaluateTradeSafety L c result = do {
     requiredNotional \<leftarrow> cand_NotionalForVolume L c (c_Volume c) (cand_ExecutionRefPrice c);
     budgetNotional \<leftarrow> cand_ReversionNotionalUSDT L c;
     if f_pos budgetNotional \<and> f_lt (f_mul budgetNotional (f64_of_rat (101 / 100))) requiredNotional
     then Some (reject (InsufficientBudget requiredNotional budgetNotional) result)
     else if f_lt (c_Volume c) (f_of_int (cs_MinVol (c_Spec c)))
     then Some (reject (InsufficientMargin (c_Volume c) (cs_MinVol (c_Spec c))) result)
     else
       let slippage = (if f_pos (tp_Slippage (c_Plan c)) then tp_Slippage (c_Plan c)
                       else tg_MaxPriceDiffPercent (c_Config c)) in do {
       fee \<leftarrow> Mul L (cs_TakerFeeRate (c_Spec c)) (FFin 100);
       feePct \<leftarrow> Mul L fee (FFin 2);
       gross \<leftarrow> Mul L (c_FundingRate c) (FFin 100);
       d \<leftarrow> Sub L (f_abs gross) slippage;
       profit \<leftarrow> Sub L d feePct;
       Some (result\<lparr>sr_EstSlippage := slippage, sr_ExpectedProfit := profit\<rparr>) } }"

text \<open>The candidate with its turnover filled in, which \<open>EvaluateSafety\<close> leaves behind.\<close>

definition with_turnover :: "Candidate \<Rightarrow> Candidate" where
  "with_turnover c = c\<lparr>c_Market := (c_Market c)
     \<lparr>md_Vol24USDT := turnover (c_Vol24USDT c) (md_Volume24 (c_Market c)) (c_LastPrice c)\<rparr>\<rparr>"

definition passing :: "float64 \<Rightarrow> SafetyResult" where
  "passing notional = \<lparr>sr_Passed = True, sr_RejectReason = None, sr_DesiredNotionalUSDT = notional,
     sr_ActualNotionalUSDT = notional, sr_MaxSafeNotionalUSDT = f0, sr_AvgMinuteVolumeUSDT = f0,
     sr_ImpactRatio = f0, sr_EstSlippage = f0, sr_ExpectedProfit = f0, sr_SizedDown = False\<rparr>"

definition impact_limits :: "'d dec_lib \<Rightarrow> SafetyLimits \<Rightarrow> Candidate \<Rightarrow> SafetyResult \<Rightarrow> SafetyResult option" where
  "impact_limits L limits c result =
     (if \<not> f_pos (c_Vol24USDT c) then Some result
      else do {
        avg \<leftarrow> Div L (c_Vol24USDT c) (FFin 1440);
        safe \<leftarrow> Mul L avg (sl_MaxImpactRatio limits);
        let down = (f_pos safe \<and> f_lt safe (sr_DesiredNotionalUSDT result));
            actual = (if down then safe else sr_ActualNotionalUSDT result) in do {
        ratio \<leftarrow> (if f_pos avg then Div L actual avg else Some (sr_ImpactRatio result));
        Some (result\<lparr>sr_AvgMinuteVolumeUSDT := avg, sr_MaxSafeNotionalUSDT := safe,
          sr_ActualNotionalUSDT := actual, sr_SizedDown := down, sr_ImpactRatio := ratio\<rparr>) } })"

definition EvaluateSafety :: "'d dec_lib \<Rightarrow> SafetyLimits \<Rightarrow> Candidate \<Rightarrow> (SafetyResult \<times> Candidate) option" where
  "EvaluateSafety L limits c0 = (let c = with_turnover c0 in do {
     desiredNotional \<leftarrow> cand_ReversionNotionalUSDT L c;
     let result = passing desiredNotional in
     if f_pos (sl_MinVol24USD limits) \<and> f_lt (c_Vol24USDT c) (sl_MinVol24USD limits)
     then Some (reject (Vol24Below (c_Vol24USDT c) (sl_MinVol24USD limits)) result, c)
     else do {
       r \<leftarrow> impact_limits L limits c result;
       r' \<leftarrow> evaluateTradeSafety L c r;
       Some (r', c) } })"

definition resize :: "'d dec_lib \<Rightarrow> SafetyResult \<Rightarrow> float64 \<Rightarrow> Candidate \<Rightarrow> Candidate option" where
  "resize L result refPrice c =
     (if sr_SizedDown result
      then map_option (\<lambda>v. set_Volume v c)
             (cand_CalculateVolumeForNotional L c (sr_ActualNotionalUSDT result) refPrice)
      else Some c)"

definition check_sized :: "'d dec_lib \<Rightarrow> SafetyResult \<Rightarrow> float64 \<Rightarrow> Candidate \<Rightarrow> SafetyResult option" where
  "check_sized L result refPrice c = do {
     actual \<leftarrow> cand_NotionalForVolume L c (c_Volume c) refPrice;
     let r = result\<lparr>sr_ActualNotionalUSDT := actual\<rparr>; safe = sr_MaxSafeNotionalUSDT r in
     if f_pos safe \<and> f_lt safe actual then Some (reject (MinVolumeAboveSafe actual safe) r)
     else do {
       ratio \<leftarrow> (if f_pos (sr_AvgMinuteVolumeUSDT r) then Div L actual (sr_AvgMinuteVolumeUSDT r)
                 else Some (sr_ImpactRatio r));
       evaluateTradeSafety L c (r\<lparr>sr_ImpactRatio := ratio\<rparr>) } }"

definition ApplySafetySizing :: "'d dec_lib \<Rightarrow> SafetyLimits \<Rightarrow> Candidate \<Rightarrow> (SafetyResult \<times> Candidate) option" where
  "ApplySafetySizing L limits c0 = do {
     (result, c) \<leftarrow> EvaluateSafety L limits c0;
     let refPrice = cand_ExecutionRefPrice c in
     if \<not> sr_Passed result then Some (result, c)
     else if f_le refPrice f0 then Some (reject InvalidRefPrice result, c)
     else do {
       c' \<leftarrow> resize L result refPrice c;
       r \<leftarrow> check_sized L result refPrice c';
       Some (r, c') } }"

subsection \<open>Depth imbalance\<close>

record DepthImbalanceResult =
  di_BidNotional :: float64
  di_AskNotional :: float64
  di_Ratio :: float64
  di_SuggestSkip :: bool

fun sum_notional :: "'d dec_lib \<Rightarrow> (float64 \<Rightarrow> bool) \<Rightarrow> float64 \<Rightarrow> OrderBookEntry list \<Rightarrow> float64 option" where
  "sum_notional L beyond acc [] = Some acc"
| "sum_notional L beyond acc (e # es) =
     (if beyond (Price e) then Some acc
      else do { n \<leftarrow> Mul L (Price e) (Volume e); acc' \<leftarrow> Add L acc n; sum_notional L beyond acc' es })"

definition calcDepthNotionals :: "'d dec_lib \<Rightarrow> OrderBook \<Rightarrow> float64 \<Rightarrow> (float64 \<times> float64) option" where
  "calcDepthNotionals L ob depthPct =
     (let bestBid = Price (hd (Bids ob)); bestAsk = Price (hd (Asks ob)) in
      if f_le bestBid f0 \<or> f_le bestAsk f0 then Some (f0, f0)
      else do {
        lo \<leftarrow> Sub L (FFin 1) depthPct;
        bidThreshold \<leftarrow> Mul L bestBid lo;
        hi \<leftarrow> Add L (FFin 1) depthPct;
        askThreshold \<leftarrow> Mul L bestAsk hi;
        bidNotional \<leftarrow> sum_notional L (\<lambda>p. f_lt p bidThreshold) f0 (Bids ob);
        askNotional \<leftarrow> sum_notional L (\<lambda>p. f_lt askThreshold p) f0 (Asks ob);
        Some (bidNotional, askNotional) })"

definition calculateDepthRatio :: "'d dec_lib \<Rightarrow> float64 \<Rightarrow> float64 \<Rightarrow> float64 option" where
  "calculateDepthRatio L bidNotional askNotional =
     (if f_pos askNotional then Div L bidNotional askNotional
      else Some (if f_pos bidNotional then FFin 10 else FFin 1))"

definition checkSkipCondition :: "'d dec_lib \<Rightarrow> Side \<Rightarrow> float64 \<Rightarrow> float64 \<Rightarrow> float64 \<Rightarrow> float64 \<Rightarrow> bool option" where
  "checkSkipCondition L side bidNotional askNotional ratio threshold =
     (if IsShort side \<and> f_le threshold ratio then Some True
      else if IsLong side then map_option (f_le threshold) (calculateDepthRatio L askNotional bidNotional)
      else Some False)"

definition EvaluateDepthImbalance ::
    "'d dec_lib \<Rightarrow> OrderBook option \<Rightarrow> Side \<Rightarrow> float64 \<Rightarrow> float64 \<Rightarrow> DepthImbalanceResult option" where
  "EvaluateDepthImbalance L ob0 side depthPct0 threshold0 = (case ob0 of
     None \<Rightarrow> Some \<lparr>di_BidNotional = f0, di_AskNotional = f0, di_Ratio = FFin 1, di_SuggestSkip = False\<rparr>
   | Some ob \<Rightarrow>
       if Bids ob = [] \<or> Asks ob = []
       then Some \<lparr>di_BidNotional = f0, di_AskNotional = f0, di_Ratio = FFin 1, di_SuggestSkip = False\<rparr>
       else
         let depthPct = (if f_le depthPct0 f0 then f64_of_rat (1 / 100) else depthPct0);
             threshold = (if f_le threshold0 (FFin 1) then FFin (3 / 2) else threshold0) in do {
         (bidNotional, askNotional) \<leftarrow> calcDepthNotionals L ob depthPct;
         ratio \<leftarrow> calculateDepthRatio L bidNotional askNotional;
         skip \<leftarrow> checkSkipCondition L side bidNotional askNotional ratio threshold;
         Some \<lparr>di_BidNotional = bidNotional, di_AskNotional = askNotional, di_Ratio = ratio, di_SuggestSkip = skip\<rparr> })"

subsection \<open>A candidate for the examples\<close>

definition sample_candidate :: Candidate where
  "sample_candidate = \<lparr>
     c_Config = zero_config\<lparr>tg_AccountID := ''a1'', tg_Symbol := ''BTC_USDT'', tg_Exchange := ''mexc_futures'',
       tg_MaxPriceDiffPercent := FFin 25, tg_MarginUSDT := FFin 100, tg_Leverage := 2,
       tg_MinFundingRate := FFin (1 / 256), tg_FundingReversion := zero_reversion\<lparr>fv_Enabled := True,
         fv_TakeProfitPct := FFin (1 / 2), fv_StopLossPct := FFin (1 / 4), fv_BufferTime := 5000000\<rparr>\<rparr>,
     c_Intent = (sided_intent ''BTC_USDT'' (FFin (1 / 128)) True)\<lparr>ti_ExternalID := ''x1''\<rparr>,
     c_Spec = zero_spec\<lparr>cs_PriceUnit := FFin 1, cs_VolUnit := 1, cs_MinVol := 1, cs_MaxVol := 100,
       cs_ContractSize := FFin 1, cs_MaxLeverage := 50\<rparr>,
     c_Market = \<lparr>md_LastPrice = FFin 100, md_BestBid = FFin 99, md_BestAsk = FFin 100,
       md_Volume24 = FFin 14400, md_Vol24USDT = FFin 1152000\<rparr>,
     c_Plan = zero_plan, c_SettleTime = 7200000000000\<rparr>"

lemma sample_candidate_simps:
  "c_MarginUSDT sample_candidate = FFin 100" "c_Leverage sample_candidate = 2"
  "tg_MaxPriceDiffPercent (c_Config sample_candidate) = FFin 25" "tg_AccountID (c_Config sample_candidate) = ''a1''"
  "tg_Exchange (c_Config sample_candidate) = ''mexc_futures''"
  "tg_MinFundingRate (c_Config sample_candidate) = FFin (1 / 256)" "tg_MinVol24USD (c_Config sample_candidate) = f0"
  "c_Intent sample_candidate = (sided_intent ''BTC_USDT'' (FFin (1 / 128)) True)\<lparr>ti_ExternalID := ''x1''\<rparr>"
  "c_Market sample_candidate = \<lparr>md_LastPrice = FFin 100, md_BestBid = FFin 99, md_BestAsk = FFin 100,
     md_Volume24 = FFin 14400, md_Vol24USDT = FFin 1152000\<rparr>"
  "c_Spec sample_candidate = \<lparr>cs_PriceUnit = FFin 1, cs_VolUnit = 1, cs_MinVol = 1, cs_MaxVol = 100,
     cs_PriceScale = 0, cs_VolScale = 0, cs_ContractSize = FFin 1, cs_TakerFeeRate = f0, cs_MakerFeeRate = f0,
     cs_MaxLeverage = 50\<rparr>"
  "c_Plan sample_candidate = zero_plan" "c_SettleTime sample_candidate = 7200000000000"
  by (simp_all add: sample_candidate_def zero_spec_def zero_config_def)

end
