(* ===== verification/FundingConfig.thy ===== *)
theory FundingConfig
  imports FundingDomain
begin

text \<open>
  \<open>internal/bots/funding/config\<close>: the layers of the reversion settings (common defaults, an
  exchange's overrides, an account's overrides), how they become the settings of a symbol,
  and the blacklist. Reading and parsing the files, the struct validator and the settings of
  the notifier and of the sync jobs are not modelled. A Go map is a map; where the source
  ranges over one, every entry is treated alike.
\<close>

record ExchangeReversionConfig =
  er_TakeProfitPct :: float64
  er_StopLossPct :: float64
  er_BufferTime :: duration
  er_PostSettleTimeout :: duration
  er_Leverage :: int
  er_MarginUSD :: float64
  er_MinVol24USD :: float64
  er_MinFundingRate :: float64
  er_MaxCandidateTrade :: int
  er_MaxMarginUSDOfCandidate :: float64
  er_ScoringRateWeight :: float64
  er_ScoringVolumeWeight :: float64
  er_MaxVolumeScore :: float64
  er_PnLTrailing :: PnLTrailingConfig
  er_DynamicTP :: DynamicTPConfig

record SafetyConfig =
  sf_MaxImpactRatio :: float64
  sf_MaxLatency :: duration
  sf_MaxPriceDiffPercent :: float64
  sf_MaxSymbolUSDTPrice :: float64
  sf_normalized :: bool

record ReversionConfig =
  rc_Enabled :: bool
  rc_OpenType :: string
  rc_PositionMode :: string
  rc_TradeSide :: string
  rc_Default :: ExchangeReversionConfig
  rc_Exchanges :: "string \<rightharpoonup> ExchangeReversionConfig"
  rc_Safety :: SafetyConfig

record SymbolConfig =
  sy_AccountID :: string
  sy_Symbol :: string
  sy_Exchange :: string
  sy_SimulateSettle :: string
  sy_MaxPriceDiffPercent :: float64
  sy_MarginUSDT :: float64
  sy_Leverage :: int
  sy_OpenType :: string
  sy_PositionMode :: string
  sy_MinFundingRate :: float64
  sy_MinVol24USD :: float64
  sy_FundingReversion :: FundingReversionConfig
  sy_ParsedOpenType :: int
  sy_ParsedPositionMode :: int

record AccountBotConfig =
  ab_Exchange :: string
  ab_Enabled :: bool
  ab_Configured :: bool
  ab_Schedule :: bool
  ab_Reversion :: "ReversionConfig option"
  ab_Symbols :: "SymbolConfig list"

type_synonym BlacklistConfig = "string \<rightharpoonup> string list"

record Config =
  cf_Blacklist :: "BlacklistConfig option"
  cf_Accounts :: "string \<rightharpoonup> AccountBotConfig"

subsection \<open>Overlaying settings\<close>

text \<open>\<open>if src.X > 0 { dest.X = src.X }\<close> for floats and integers.\<close>

definition over_f :: "float64 \<Rightarrow> float64 \<Rightarrow> float64" where
  "over_f d s = (if f_pos s then s else d)"

definition over_i :: "int \<Rightarrow> int \<Rightarrow> int" where
  "over_i d s = (if 0 < s then s else d)"

definition over_d :: "duration \<Rightarrow> duration \<Rightarrow> duration" where
  "over_d d s = (if s \<noteq> 0 then s else d)"

definition mergeReversionCore :: "ExchangeReversionConfig \<Rightarrow> ExchangeReversionConfig \<Rightarrow> ExchangeReversionConfig" where
  "mergeReversionCore d s = d\<lparr>
     er_TakeProfitPct := over_f (er_TakeProfitPct d) (er_TakeProfitPct s),
     er_StopLossPct := over_f (er_StopLossPct d) (er_StopLossPct s),
     er_BufferTime := over_d (er_BufferTime d) (er_BufferTime s),
     er_PostSettleTimeout := over_d (er_PostSettleTimeout d) (er_PostSettleTimeout s),
     er_Leverage := over_i (er_Leverage d) (er_Leverage s),
     er_MarginUSD := over_f (er_MarginUSD d) (er_MarginUSD s),
     er_MinVol24USD := over_f (er_MinVol24USD d) (er_MinVol24USD s),
     er_MinFundingRate := over_f (er_MinFundingRate d) (er_MinFundingRate s)\<rparr>"

definition mergeRiskAndScoring :: "ExchangeReversionConfig \<Rightarrow> ExchangeReversionConfig \<Rightarrow> ExchangeReversionConfig" where
  "mergeRiskAndScoring d s = d\<lparr>
     er_MaxCandidateTrade := over_i (er_MaxCandidateTrade d) (er_MaxCandidateTrade s),
     er_MaxMarginUSDOfCandidate := over_f (er_MaxMarginUSDOfCandidate d) (er_MaxMarginUSDOfCandidate s),
     er_ScoringRateWeight := over_f (er_ScoringRateWeight d) (er_ScoringRateWeight s),
     er_ScoringVolumeWeight := over_f (er_ScoringVolumeWeight d) (er_ScoringVolumeWeight s),
     er_MaxVolumeScore := over_f (er_MaxVolumeScore d) (er_MaxVolumeScore s)\<rparr>"

definition mergePnLTrailing :: "ExchangeReversionConfig \<Rightarrow> ExchangeReversionConfig \<Rightarrow> ExchangeReversionConfig" where
  "mergePnLTrailing d s = d\<lparr>er_PnLTrailing := \<lparr>
     pl_Enabled = (if pl_Enabled (er_PnLTrailing s) then True else pl_Enabled (er_PnLTrailing d)),
     pl_DropPct = over_f (pl_DropPct (er_PnLTrailing d)) (pl_DropPct (er_PnLTrailing s)),
     pl_ConfirmTicks = over_i (pl_ConfirmTicks (er_PnLTrailing d)) (pl_ConfirmTicks (er_PnLTrailing s))\<rparr>\<rparr>"

definition mergeDynamicTP :: "ExchangeReversionConfig \<Rightarrow> ExchangeReversionConfig \<Rightarrow> ExchangeReversionConfig" where
  "mergeDynamicTP d s = d\<lparr>er_DynamicTP := \<lparr>
     dy_Enabled = (if dy_Enabled (er_DynamicTP s) then True else dy_Enabled (er_DynamicTP d)),
     dy_TPMultiplier = over_f (dy_TPMultiplier (er_DynamicTP d)) (dy_TPMultiplier (er_DynamicTP s)),
     dy_MinTakeProfitPct = over_f (dy_MinTakeProfitPct (er_DynamicTP d)) (dy_MinTakeProfitPct (er_DynamicTP s)),
     dy_MaxTakeProfitPct = over_f (dy_MaxTakeProfitPct (er_DynamicTP d)) (dy_MaxTakeProfitPct (er_DynamicTP s))\<rparr>\<rparr>"

definition MergeExchangeReversionConfig ::
    "ExchangeReversionConfig \<Rightarrow> ExchangeReversionConfig \<Rightarrow> ExchangeReversionConfig" where
  "MergeExchangeReversionConfig d s =
     mergeDynamicTP (mergePnLTrailing (mergeRiskAndScoring (mergeReversionCore d s) s) s) s"

definition applyReversionDefaults :: "ReversionConfig \<Rightarrow> ReversionConfig" where
  "applyReversionDefaults r =
     (let d = (rc_Default r)\<lparr>er_MaxCandidateTrade :=
                 (if er_MaxCandidateTrade (rc_Default r) \<le> 0 then 1 else er_MaxCandidateTrade (rc_Default r))\<rparr>;
          side = to_lower (trim_space (rc_TradeSide r));
          impact = sf_MaxImpactRatio (rc_Safety r)
      in r\<lparr>rc_Default := d,
        rc_Exchanges := map_option (\<lambda>e. if er_MaxCandidateTrade e \<le> 0
            then e\<lparr>er_MaxCandidateTrade := er_MaxCandidateTrade d\<rparr> else e) \<circ> rc_Exchanges r,
        rc_TradeSide := (if side = '''' then ''both'' else side),
        rc_Safety := (if sf_normalized (rc_Safety r) then rc_Safety r
          else (rc_Safety r)\<lparr>sf_MaxImpactRatio := (if f_lt (FFin 1) impact then f_div impact (FFin 100) else impact),
                 sf_normalized := True\<rparr>)\<rparr>)"

text \<open>\<open>strings.TrimSuffix(s, suffix)\<close>\<close>

definition trim_suffix :: "string \<Rightarrow> string \<Rightarrow> string" where
  "trim_suffix s suffix = (if length suffix \<le> length s \<and> drop (length s - length suffix) s = suffix
     then take (length s - length suffix) s else s)"

text \<open>The names an account's exchange goes by: as written, without its market, and its futures.\<close>

definition exchange_names :: "string \<Rightarrow> string list" where
  "exchange_names accountExchange =
     (let rawExch = trim_space accountExchange;
          baseExch = trim_suffix (trim_suffix rawExch ''_spot'') ''_futures'';
          futuresExch = baseExch @ ''_futures''
      in if rawExch = '''' then []
         else [rawExch] @ (if baseExch \<noteq> rawExch then [baseExch] else []) @
              (if futuresExch \<noteq> rawExch then [futuresExch] else []))"

definition override_exchange :: "ExchangeReversionConfig \<Rightarrow> ReversionConfig \<Rightarrow> string \<Rightarrow> ReversionConfig" where
  "override_exchange acc res exch = res\<lparr>rc_Exchanges := (rc_Exchanges res)(exch \<mapsto>
     (case rc_Exchanges res exch of
        None \<Rightarrow> rc_Default res | Some cfg \<Rightarrow> MergeExchangeReversionConfig cfg acc))\<rparr>"

definition mergeAccountExchangeOverride :: "ReversionConfig \<Rightarrow> ExchangeReversionConfig \<Rightarrow> string \<Rightarrow> ReversionConfig" where
  "mergeAccountExchangeOverride res acc accountExchange =
     foldl (override_exchange acc) res (exchange_names accountExchange)"

definition MergeReversionConfig ::
    "ReversionConfig \<Rightarrow> ExchangeReversionConfig option \<Rightarrow> string \<Rightarrow> ReversionConfig" where
  "MergeReversionConfig base acc accountExchange = (case acc of
     None \<Rightarrow> applyReversionDefaults base
   | Some a \<Rightarrow> applyReversionDefaults (mergeAccountExchangeOverride
       (base\<lparr>rc_Default := MergeExchangeReversionConfig (rc_Default base) a\<rparr>) a accountExchange))"

definition ReversionForAccount :: "Config \<Rightarrow> string \<Rightarrow> ReversionConfig option" where
  "ReversionForAccount cfg accountID =
     (if trim_space accountID = '''' then None
      else Option.bind (cf_Accounts cfg accountID) ab_Reversion)"

text \<open>The default settings with those of one exchange laid over them.\<close>

definition exchange_settings :: "ReversionConfig \<Rightarrow> string \<Rightarrow> ExchangeReversionConfig" where
  "exchange_settings rcfg exch = (case rc_Exchanges rcfg exch of
     None \<Rightarrow> rc_Default rcfg | Some specific \<Rightarrow> MergeExchangeReversionConfig (rc_Default rcfg) specific)"

subsection \<open>The settings of a symbol\<close>

definition f_or :: "float64 \<Rightarrow> float64 \<Rightarrow> float64" where
  "f_or v d = (if f_eq v f0 then d else v)"

definition i_or :: "int \<Rightarrow> int \<Rightarrow> int" where
  "i_or v d = (if v = 0 then d else v)"

definition mergeSymbolPnLTrailing :: "PnLTrailingConfig \<Rightarrow> PnLTrailingConfig \<Rightarrow> PnLTrailingConfig" where
  "mergeSymbolPnLTrailing p e = \<lparr>pl_Enabled = (pl_Enabled p \<or> pl_Enabled e),
     pl_DropPct = f_or (pl_DropPct p) (pl_DropPct e), pl_ConfirmTicks = i_or (pl_ConfirmTicks p) (pl_ConfirmTicks e)\<rparr>"

definition mergeSymbolDynamicTP :: "DynamicTPConfig \<Rightarrow> DynamicTPConfig \<Rightarrow> DynamicTPConfig" where
  "mergeSymbolDynamicTP p e = \<lparr>dy_Enabled = (dy_Enabled p \<or> dy_Enabled e),
     dy_TPMultiplier = f_or (dy_TPMultiplier p) (dy_TPMultiplier e),
     dy_MinTakeProfitPct = f_or (dy_MinTakeProfitPct p) (dy_MinTakeProfitPct e),
     dy_MaxTakeProfitPct = f_or (dy_MaxTakeProfitPct p) (dy_MaxTakeProfitPct e)\<rparr>"

definition mergeFundingReversion ::
    "FundingReversionConfig \<Rightarrow> bool \<Rightarrow> ExchangeReversionConfig \<Rightarrow> duration \<Rightarrow> FundingReversionConfig" where
  "mergeFundingReversion fr enabled e maxLatency =
     (if \<not> fv_Enabled fr \<and> enabled then
        \<lparr>fv_Enabled = True, fv_TakeProfitPct = er_TakeProfitPct e, fv_StopLossPct = er_StopLossPct e,
         fv_MaxLatency = maxLatency, fv_BufferTime = er_BufferTime e,
         fv_PostSettleTimeout = er_PostSettleTimeout e,
         fv_PnLTrailing = er_PnLTrailing e, fv_DynamicTP = er_DynamicTP e\<rparr>
      else if fv_Enabled fr then
        fr\<lparr>fv_MaxLatency := i_or (fv_MaxLatency fr) maxLatency,
           fv_TakeProfitPct := f_or (fv_TakeProfitPct fr) (er_TakeProfitPct e),
           fv_StopLossPct := f_or (fv_StopLossPct fr) (er_StopLossPct e),
           fv_BufferTime := i_or (fv_BufferTime fr) (er_BufferTime e),
           fv_PnLTrailing := mergeSymbolPnLTrailing (fv_PnLTrailing fr) (er_PnLTrailing e),
           fv_DynamicTP := mergeSymbolDynamicTP (fv_DynamicTP fr) (er_DynamicTP e)\<rparr>
      else fr)"

definition s_or :: "string \<Rightarrow> string \<Rightarrow> string" where
  "s_or v d = (if v = '''' then d else v)"

definition applyAccountDefaults :: "ReversionConfig \<Rightarrow> SymbolConfig \<Rightarrow> SymbolConfig" where
  "applyAccountDefaults rcfg sc =
     (let e = exchange_settings rcfg (sy_Exchange sc) in
      sc\<lparr>sy_MaxPriceDiffPercent := f_or (sy_MaxPriceDiffPercent sc) (sf_MaxPriceDiffPercent (rc_Safety rcfg)),
         sy_MinFundingRate := f_or (sy_MinFundingRate sc) (er_MinFundingRate e),
         sy_MinVol24USD := f_or (sy_MinVol24USD sc) (er_MinVol24USD e),
         sy_Leverage := i_or (sy_Leverage sc) (er_Leverage e),
         sy_MarginUSDT := f_or (sy_MarginUSDT sc) (er_MarginUSD e),
         sy_OpenType := s_or (sy_OpenType sc) (rc_OpenType rcfg),
         sy_PositionMode := s_or (sy_PositionMode sc) (rc_PositionMode rcfg),
         sy_FundingReversion := mergeFundingReversion (sy_FundingReversion sc) (rc_Enabled rcfg) e
           (sf_MaxLatency (rc_Safety rcfg))\<rparr>)"

definition normalizePercentRatio :: "float64 \<Rightarrow> float64" where
  "normalizePercentRatio v =
     (if f_le v f0 then v else if f_le v (f64_of_rat (1 / 5)) then v else f_div v (FFin 100))"

definition normalizeFundingRateThreshold :: "float64 \<Rightarrow> float64" where
  "normalizeFundingRateThreshold v =
     (if f_le v f0 then v else if f_le v (f64_of_rat (1 / 20)) then v else f_div v (FFin 100))"

definition normalize_reversion :: "FundingReversionConfig \<Rightarrow> FundingReversionConfig" where
  "normalize_reversion fr =
     (if \<not> fv_Enabled fr then fr
      else
        let tp = (if f_le (fv_TakeProfitPct fr) f0 then FFin 20 else fv_TakeProfitPct fr);
            sl = (if f_le (fv_StopLossPct fr) f0 then FFin 5 else fv_StopLossPct fr);
            dy = fv_DynamicTP fr;
            norm = (\<lambda>v. if f_pos v then normalizePercentRatio v else v)
        in fr\<lparr>fv_MaxLatency := i_or (fv_MaxLatency fr) (200 * millisecond),
              fv_PostSettleTimeout := i_or (fv_PostSettleTimeout fr) (60 * second),
              fv_TakeProfitPct := normalizePercentRatio tp, fv_StopLossPct := normalizePercentRatio sl,
              fv_DynamicTP := dy\<lparr>dy_MinTakeProfitPct := norm (dy_MinTakeProfitPct dy),
                dy_MaxTakeProfitPct := norm (dy_MaxTakeProfitPct dy)\<rparr>\<rparr>)"

definition normalizeSymbolMetrics :: "SymbolConfig \<Rightarrow> SymbolConfig" where
  "normalizeSymbolMetrics sc =
     sc\<lparr>sy_MinFundingRate := normalizeFundingRateThreshold (sy_MinFundingRate sc),
        sy_FundingReversion := normalize_reversion (sy_FundingReversion sc)\<rparr>"

definition defaultSymbolModes :: "SymbolConfig \<Rightarrow> SymbolConfig" where
  "defaultSymbolModes sc =
     sc\<lparr>sy_ParsedOpenType := (if to_upper (sy_OpenType sc) = ''CROSS'' then 2 else 1),
        sy_ParsedPositionMode := (if to_upper (sy_PositionMode sc) = ''ONE_WAY'' then 2 else 1)\<rparr>"

definition NewAccountSymbolConfig :: "Config \<Rightarrow> string \<Rightarrow> string \<Rightarrow> string \<Rightarrow> SymbolConfig option" where
  "NewAccountSymbolConfig cfg accountID exchangeName symbol =
     map_option (\<lambda>rcfg. defaultSymbolModes (normalizeSymbolMetrics (applyAccountDefaults rcfg
        \<lparr>sy_AccountID = accountID, sy_Symbol = symbol, sy_Exchange = exchangeName, sy_SimulateSettle = '''',
         sy_MaxPriceDiffPercent = f0, sy_MarginUSDT = f0, sy_Leverage = 0, sy_OpenType = '''',
         sy_PositionMode = '''', sy_MinFundingRate = f0, sy_MinVol24USD = f0,
         sy_FundingReversion = zero_reversion, sy_ParsedOpenType = 0, sy_ParsedPositionMode = 0\<rparr>)))
       (ReversionForAccount cfg accountID)"

subsection \<open>The blacklist\<close>

definition GetCommonBlacklist :: "BlacklistConfig \<Rightarrow> string list" where
  "GetCommonBlacklist b = (case b ''common'' of None \<Rightarrow> [] | Some l \<Rightarrow> l)"

definition GetExchangeBlacklist :: "BlacklistConfig \<Rightarrow> string \<Rightarrow> string list" where
  "GetExchangeBlacklist b exch = (case b (to_lower (trim_space exch)) of None \<Rightarrow> [] | Some l \<Rightarrow> l)"

definition IsBlacklisted :: "BlacklistConfig \<Rightarrow> string \<Rightarrow> string \<Rightarrow> bool" where
  "IsBlacklisted b exch symbol =
     (let sym = to_upper (trim_space symbol);
          hit = (\<lambda>s. to_upper (trim_space s) = sym)
      in list_ex hit (GetCommonBlacklist b) \<or> list_ex hit (GetExchangeBlacklist b exch))"

subsection \<open>The account has the last word\<close>

lemma over_simps:
  "over_f (over_f d a) (over_f s a) = over_f (over_f d s) a" "over_f x x = x"
  "over_i (over_i i k) (over_i j k) = over_i (over_i i j) k" "over_i i i = i"
  "over_d (over_d i k) (over_d j k) = over_d (over_d i j) k" "over_d i i = i"
  by (simp_all add: over_f_def over_i_def over_d_def)

lemmas merge_defs = MergeExchangeReversionConfig_def mergeReversionCore_def mergeRiskAndScoring_def
  mergePnLTrailing_def mergeDynamicTP_def

lemma merge_last:
  "MergeExchangeReversionConfig (MergeExchangeReversionConfig d a) (MergeExchangeReversionConfig s a) =
   MergeExchangeReversionConfig (MergeExchangeReversionConfig d s) a"
  by (simp add: merge_defs over_simps)

lemma merge_same [simp]: "MergeExchangeReversionConfig x x = x"
  by (simp add: merge_defs over_simps)

lemma merge_MaxCandidateTrade:
  "er_MaxCandidateTrade (MergeExchangeReversionConfig d s) = over_i (er_MaxCandidateTrade d) (er_MaxCandidateTrade s)"
  "MergeExchangeReversionConfig (d\<lparr>er_MaxCandidateTrade := m\<rparr>) (s\<lparr>er_MaxCandidateTrade := n\<rparr>) =
     (MergeExchangeReversionConfig d s)\<lparr>er_MaxCandidateTrade := over_i m n\<rparr>"
  by (simp_all add: merge_defs)

definition at_least_one :: "ExchangeReversionConfig \<Rightarrow> ExchangeReversionConfig" where
  "at_least_one e = e\<lparr>er_MaxCandidateTrade := (if er_MaxCandidateTrade e \<le> 0 then 1 else er_MaxCandidateTrade e)\<rparr>"

lemma exchange_names_distinct:
  assumes "trim_space exch = exch" "exch \<noteq> ''''"
  shows "\<exists>more. exchange_names exch = exch # more \<and> exch \<notin> set more"
  using assms by (auto simp: exchange_names_def Let_def)

lemma override_exchange_simps [simp]:
  "rc_Default (override_exchange a res e) = rc_Default res"
  "e \<noteq> exch \<Longrightarrow> rc_Exchanges (override_exchange a res e) exch = rc_Exchanges res exch"
  by (simp_all add: override_exchange_def)

lemma override_others:
  "exch \<notin> set es \<Longrightarrow> rc_Exchanges (foldl (override_exchange a) res es) exch = rc_Exchanges res exch"
  by (induction es arbitrary: res) auto

lemma override_Default: "rc_Default (foldl (override_exchange a) res es) = rc_Default res"
  by (induction es arbitrary: res) auto

lemma settings_of_merged:
  assumes "trim_space exch = exch" "exch \<noteq> ''''"
  shows "exchange_settings (MergeReversionConfig base (Some acc) exch) exch =
    at_least_one (MergeExchangeReversionConfig (exchange_settings base exch) acc)"
proof -
  let ?M = MergeExchangeReversionConfig
  let ?d = "?M (rc_Default base) acc"
  let ?res = "mergeAccountExchangeOverride (base\<lparr>rc_Default := ?d\<rparr>) acc exch"
  obtain more where more: "exchange_names exch = exch # more" "exch \<notin> set more"
    using exchange_names_distinct [OF assms] by blast
  define s where "s = (case rc_Exchanges base exch of None \<Rightarrow> ?d | Some cfg \<Rightarrow> ?M cfg acc)"
  have res: "rc_Default ?res = ?d" "rc_Exchanges ?res exch = Some s"
    using more by (simp_all add: mergeAccountExchangeOverride_def override_Default override_others
        override_exchange_def s_def split: option.split)
  let ?m = "er_MaxCandidateTrade"
  have "exchange_settings (MergeReversionConfig base (Some acc) exch) exch =
      ?M (at_least_one ?d) (if ?m s \<le> 0 then s\<lparr>er_MaxCandidateTrade := ?m (at_least_one ?d)\<rparr> else s)"
    using res by (simp add: MergeReversionConfig_def applyReversionDefaults_def Let_def exchange_settings_def
        at_least_one_def)
  also have "\<dots> = (?M ?d s)\<lparr>er_MaxCandidateTrade :=
      (if ?m s \<le> 0 then if ?m ?d \<le> 0 then 1 else ?m ?d else ?m s)\<rparr>"
    using merge_MaxCandidateTrade(2) [where d = ?d and s = s and m = "?m (at_least_one ?d)" and n = "?m s"]
      merge_MaxCandidateTrade(2) [where d = ?d and s = s and m = "?m (at_least_one ?d)" and n = "?m (at_least_one ?d)"]
    by (auto simp: at_least_one_def over_i_def)
  also have "?M ?d s = ?M (exchange_settings base exch) acc"
    by (cases "rc_Exchanges base exch") (simp_all add: s_def exchange_settings_def merge_last)
  also have "(if ?m s \<le> 0 then if ?m ?d \<le> 0 then 1 else ?m ?d else ?m s) =
      (let m = ?m (?M (exchange_settings base exch) acc) in if m \<le> 0 then 1 else m)"
    by (cases "rc_Exchanges base exch")
      (auto simp: s_def exchange_settings_def merge_MaxCandidateTrade(1) over_i_def Let_def)
  finally show ?thesis by (simp add: at_least_one_def Let_def)
qed

text \<open>
  C13: the account has the last word. The settings that hold for an account on its exchange
  are the common defaults, overlaid with the common settings of that exchange, overlaid with
  the account's own settings, whether or not the common configuration mentions the exchange;
  only the number of candidates is raised to one when nobody sets it.
\<close>

theorem account_settings_win:
  assumes "trim_space exch = exch" "exch \<noteq> ''''"
  shows "exchange_settings (MergeReversionConfig base (Some acc) exch) exch =
    at_least_one (MergeExchangeReversionConfig (exchange_settings base exch) acc)"
  using assms by (rule settings_of_merged)

definition sample_settings :: ExchangeReversionConfig where
  "sample_settings = \<lparr>er_TakeProfitPct = FFin 1, er_StopLossPct = FFin 1, er_BufferTime = 0, er_PostSettleTimeout = 0,
     er_Leverage = 5, er_MarginUSD = FFin 100, er_MinVol24USD = f0, er_MinFundingRate = f0, er_MaxCandidateTrade = 0,
     er_MaxMarginUSDOfCandidate = f0, er_ScoringRateWeight = f0, er_ScoringVolumeWeight = f0, er_MaxVolumeScore = f0,
     er_PnLTrailing = \<lparr>pl_Enabled = False, pl_DropPct = f0, pl_ConfirmTicks = 0\<rparr>,
     er_DynamicTP = \<lparr>dy_Enabled = False, dy_TPMultiplier = f0, dy_MinTakeProfitPct = f0, dy_MaxTakeProfitPct = f0\<rparr>\<rparr>"

definition sample_reversion :: ReversionConfig where
  "sample_reversion = \<lparr>rc_Enabled = True, rc_OpenType = ''ISOLATED'', rc_PositionMode = ''HEDGE'',
     rc_TradeSide = ''both'', rc_Default = sample_settings,
     rc_Exchanges = [''mexc_futures'' \<mapsto> sample_settings\<lparr>er_Leverage := 7\<rparr>],
     rc_Safety = \<lparr>sf_MaxImpactRatio = FFin (1 / 2), sf_MaxLatency = 200000000, sf_MaxPriceDiffPercent = FFin 1,
       sf_MaxSymbolUSDTPrice = FFin 100, sf_normalized = True\<rparr>\<rparr>"

theorem account_settings_win_witness:
  "er_Leverage (exchange_settings (MergeReversionConfig sample_reversion
     (Some (sample_settings\<lparr>er_Leverage := 20\<rparr>)) ''mexc_futures'') ''mexc_futures'') = 20"
proof -
  have "trim_space ''mexc_futures'' = ''mexc_futures''" by code_simp
  from account_settings_win [OF this, of sample_reversion "sample_settings\<lparr>er_Leverage := 20\<rparr>"]
  show ?thesis by (simp add: at_least_one_def merge_defs over_i_def)
qed

end
