(* ===== verification/FundingReversion.thy ===== *)
theory FundingReversion
  imports FundingConfig OrderManager
begin

text \<open>
  \<open>internal/bots/funding/application/reversion\<close>: the chain of handlers that turns a candidate
  into an order intent (arm, plan, safety, wait, recheck, fire). A handler is a function of
  the event and of what the world answers while it runs (\<open>rv_env\<close>); its effects are collected
  in a list. None of the decimal functions is the panic of the conversion, which stops the
  handler (and, unrecovered, the program). The texts of notifications are not modelled.
\<close>

abbreviation "TopicReversionCandidate \<equiv> ''funding.reversion.candidate''"
abbreviation "TopicReversionArmMarketReady \<equiv> ''funding.reversion.arm_market_ready''"
abbreviation "TopicReversionArmPlanCalculated \<equiv> ''funding.reversion.arm_plan_calculated''"
abbreviation "TopicReversionSafetyChecked \<equiv> ''funding.reversion.safety_checked''"
abbreviation "TopicReversionArmed \<equiv> ''funding.reversion.armed''"
abbreviation "TopicReversionWaitComplete \<equiv> ''funding.reversion.wait_complete''"
abbreviation "TopicReversionConfirmed \<equiv> ''funding.reversion.confirmed''"
abbreviation "TopicReversionMarginModeReady \<equiv> ''funding.reversion.margin_mode_ready''"
abbreviation "TopicReversionFireTimingReady \<equiv> ''funding.reversion.fire_timing_ready''"
abbreviation "TopicReversionFirePlanChecked \<equiv> ''funding.reversion.fire_plan_checked''"
abbreviation "TopicReversionAbort \<equiv> ''funding.reversion.abort''"
abbreviation "FlowIDFundingReversion \<equiv> ''FUNDING_REVERSION''"

subsection \<open>Events\<close>

record BaseReversionEvent =
  rb_Flow :: string
  rb_ReqID :: string
  rb_AccountID :: string
  rb_Symbol :: string
  rb_Exchange :: string
  rb_OrderID :: string
  rb_ExternalID :: string
  rb_Timestamp :: gtime
  rb_EventID :: string
  rb_Seq :: int
  rb_Topic :: string
  rb_PreviousTopic :: string
  rb_SettleTime :: gtime
  rb_Side :: Side
  rb_FundingRate :: float64
  rb_Vol24hUSDT :: float64
  rb_ContractSize :: float64

datatype abort_reason =
  SubscribeFailed string | FreshPriceFailed string | RefreshPriceFailed string
| IOCCalcFailed tc_error | SafetyFailed "reject_reason option" | WaitFailed string
| NoFundingData | FRSignFlip | FRBelowThreshold | NoSettleTime | LatencyTooHigh
| SwitchMarginFailed string | SwitchPositionFailed string | ChangeLeverageFailed string
| WaitSnapshotFailed string | PlanRejected "reject_reason option"

text \<open>The event structs: the embedded base, the candidate, and their own fields.\<close>

record plan =
  pn_LatencyRTTMs :: int
  pn_FireOffsetMs :: int
  pn_IOCPrice :: float64
  pn_RefPrice :: float64
  pn_AdjustedVolume :: float64
  pn_Passed :: bool
  pn_RejectReason :: "reject_reason option"

datatype reversion_event =
  CandidateFound (re_base: BaseReversionEvent) (re_cand: Candidate)
| ArmMarketReady (re_base: BaseReversionEvent) (re_cand: Candidate) (re_MaxWaitMs: int)
| ArmPlanCalculated (re_base: BaseReversionEvent) (re_cand: Candidate) (re_IOCPrice: float64) (re_RefPrice: float64)
| SafetyChecked (re_base: BaseReversionEvent) (re_cand: Candidate) (re_IOCPrice: float64) (re_RefPrice: float64)
    (re_AdjustedVolume: float64) (re_Passed: bool) (re_RejectReason: "reject_reason option")
| Armed (re_base: BaseReversionEvent) (re_cand: Candidate)
| WaitComplete (re_base: BaseReversionEvent) (re_cand: Candidate)
| Confirmed (re_base: BaseReversionEvent) (re_cand: Candidate)
| MarginModeReady (re_base: BaseReversionEvent) (re_cand: Candidate)
| FireTimingReady (re_base: BaseReversionEvent) (re_cand: Candidate) (re_LatencyRTTMs: int)
    (re_FireOffsetMs: int) (re_SnapshotOffsetMs: int)
| FirePlanChecked (re_base: BaseReversionEvent) (re_cand: Candidate) (re_plan: plan)
| ReversionAbort (re_base: BaseReversionEvent) (re_reason: abort_reason)

definition reversion_DeduplicateKey :: "BaseReversionEvent \<Rightarrow> string" where
  "reversion_DeduplicateKey b =
     (if rb_ReqID b \<noteq> '''' \<and> rb_Topic b \<noteq> '''' then rb_ReqID b @ ''-'' @ rb_Topic b
      else if rb_ExternalID b = '''' \<or> rb_Topic b = '''' then ''''
      else rb_ExternalID b @ rb_Topic b)"

definition nextReversionBase :: "BaseReversionEvent \<Rightarrow> string \<Rightarrow> gtime \<Rightarrow> BaseReversionEvent" where
  "nextReversionBase prev symbol timestamp =
     \<lparr>rb_Flow = FlowIDFundingReversion, rb_ReqID = rb_ReqID prev, rb_AccountID = rb_AccountID prev,
      rb_Symbol = symbol, rb_Exchange = rb_Exchange prev, rb_OrderID = rb_OrderID prev,
      rb_ExternalID = rb_ExternalID prev, rb_Timestamp = timestamp, rb_EventID = '''',
      rb_Seq = (if 0 < rb_Seq prev then i64 (rb_Seq prev + 1) else 0), rb_Topic = '''',
      rb_PreviousTopic = rb_Topic prev, rb_SettleTime = rb_SettleTime prev, rb_Side = rb_Side prev,
      rb_FundingRate = rb_FundingRate prev, rb_Vol24hUSDT = rb_Vol24hUSDT prev,
      rb_ContractSize = rb_ContractSize prev\<rparr>"

subsection \<open>What a handler sees and does\<close>

record PriceData =
  pd_Symbol :: string
  pd_LastPrice :: float64
  pd_BestBid :: float64
  pd_BestAsk :: float64
  pd_FairPrice :: float64
  pd_Volume24 :: float64
  pd_UpdatedAt :: gtime

record Ticker =
  tk_Symbol :: string
  tk_LastPrice :: float64
  tk_Bid1 :: float64
  tk_Ask1 :: float64
  tk_Volume24 :: float64
  tk_AmountUSDT24 :: float64
  tk_Timestamp :: int

text \<open>
  The answers during one run of a handler: clock (\<open>rv_latency\<close> in milliseconds, \<open>rv_wall\<close> is \<open>time.Now\<close>), price store,
  exchange, bus and configuration. An interface the source tests for is an option.
\<close>

record 'd rv_env =
  rv_dec :: "'d dec_lib"
  rv_now :: gtime
  rv_wall :: gtime
  rv_until :: "gtime \<Rightarrow> duration"
  rv_sleep :: "string option"
  rv_ctx_err :: "string option"
  rv_latency :: int
  rv_syncer :: bool
  rv_event_id :: string
  rv_publish :: "string option"
  rv_ws_subscribe :: "string option option"
  rv_has_store :: bool
  rv_store_writer :: bool
  rv_first_price :: "string + PriceData"
  rv_updates :: "PriceData option list"
  rv_rest_wait :: "string + Ticker list"
  rv_price :: "string + PriceData option"
  rv_rest :: "string + Ticker list"
  rv_rates :: "string + float64 list"
  rv_depth_store :: "(string + OrderBook option) option"
  rv_depth :: "(string + OrderBook option) option"
  rv_switch_margin :: "string option"
  rv_switch_position :: "string option option"
  rv_leverage_on_order :: bool
  rv_change_leverage :: "string option"
  rv_config :: "ReversionConfig option"

datatype rv_effect =
  Published string reversion_event
| Dispatched intent_event
| Notified string
| SyncedClock
| SubscribedTicker string
| UnsubscribedTicker string
| WrotePrice string PriceData
| SwitchedMargin string MarginMode int Side
| SwitchedPosition string PositionMode
| ChangedLeverage ChangeLeverageRequest

datatype rv_stop = Aborted abort_reason | PublishFailed string | RvPanic

type_synonym 'a rv_act = "(rv_effect list, rv_stop + 'a) state"

definition emit :: "rv_effect \<Rightarrow> unit rv_act" where
  "emit e = do { modify (\<lambda>l. l @ [e]); ret (Inr ()) }"

definition rv_decimal :: "'a option \<Rightarrow> 'a rv_act" where
  "rv_decimal x = ret (case x of None \<Rightarrow> Inl RvPanic | Some v \<Rightarrow> Inr v)"

fun set_base :: "BaseReversionEvent \<Rightarrow> reversion_event \<Rightarrow> reversion_event" where
  "set_base b (CandidateFound _ c) = CandidateFound b c"
| "set_base b (ArmMarketReady _ c w) = ArmMarketReady b c w"
| "set_base b (ArmPlanCalculated _ c i r) = ArmPlanCalculated b c i r"
| "set_base b (SafetyChecked _ c i r v p j) = SafetyChecked b c i r v p j"
| "set_base b (Armed _ c) = Armed b c"
| "set_base b (WaitComplete _ c) = WaitComplete b c"
| "set_base b (Confirmed _ c) = Confirmed b c"
| "set_base b (MarginModeReady _ c) = MarginModeReady b c"
| "set_base b (FireTimingReady _ c l f s) = FireTimingReady b c l f s"
| "set_base b (FirePlanChecked _ c p) = FirePlanChecked b c p"
| "set_base b (ReversionAbort _ r) = ReversionAbort b r"

definition stampEventTrace :: "string \<Rightarrow> string \<Rightarrow> reversion_event \<Rightarrow> reversion_event" where
  "stampEventTrace eventID topic e = (let b = re_base e in
     set_base (b\<lparr>rb_EventID := (if rb_EventID b = '''' then eventID else rb_EventID b), rb_Topic := topic\<rparr>) e)"

definition rv_publishEvent :: "'d rv_env \<Rightarrow> string \<Rightarrow> reversion_event \<Rightarrow> unit rv_act" where
  "rv_publishEvent env topic payload = (case rv_publish env of
     Some e \<Rightarrow> ret (Inl (PublishFailed e))
   | None \<Rightarrow> do {
       _ \<leftarrow> emit (Published topic (stampEventTrace (rv_event_id env) topic payload));
       if topic = TopicReversionArmed \<or> topic = TopicReversionAbort then emit (Notified topic) else ret (Inr ()) })"

text \<open>\<open>r.abortAfter(...)\<close> and the return of the error.\<close>

definition abortAfter :: "'d rv_env \<Rightarrow> BaseReversionEvent \<Rightarrow> string \<Rightarrow> abort_reason \<Rightarrow> 'a rv_act" where
  "abortAfter env prev symbol reason = do {
     _ \<leftarrow> rv_publishEvent env TopicReversionAbort (ReversionAbort (nextReversionBase prev symbol (rv_now env)) reason);
     ret (Inl (Aborted reason)) }"

text \<open>Go on with a value, or abort with the reason made of the error.\<close>

definition or_abort :: "'d rv_env \<Rightarrow> BaseReversionEvent \<Rightarrow> string \<Rightarrow> ('e \<Rightarrow> abort_reason) \<Rightarrow> 'e + 'a \<Rightarrow> 'a rv_act" where
  "or_abort env prev symbol why r = (case r of
     Inl e \<Rightarrow> abortAfter env prev symbol (why e) | Inr x \<Rightarrow> ret (Inr x))"

definition err_of :: "string option \<Rightarrow> string + unit" where
  "err_of e = (case e of None \<Rightarrow> Inr () | Some m \<Rightarrow> Inl m)"

definition sync_now :: "'d rv_env \<Rightarrow> unit rv_act" where
  "sync_now env = (if rv_syncer env then emit SyncedClock else ret (Inr ()))"

subsection \<open>Prices\<close>

definition quoted_price :: "PriceData \<Rightarrow> bool" where
  "quoted_price pd \<longleftrightarrow> f_pos (pd_BestBid pd) \<and> f_pos (pd_BestAsk pd)"

definition fallbackRESTPrice :: "'d rv_env \<Rightarrow> string \<Rightarrow> (string + PriceData)" where
  "fallbackRESTPrice env symbol = (case rv_rest_wait env of
     Inl e \<Rightarrow> Inl e
   | Inr tickers \<Rightarrow> (case find (\<lambda>t. tk_Symbol t = symbol) tickers of
       None \<Rightarrow> Inl ''symbol not found in REST tickers''
     | Some t \<Rightarrow>
         if \<not> rv_store_writer env then Inl ''price store does not support PriceWriter''
         else Inr \<lparr>pd_Symbol = tk_Symbol t, pd_LastPrice = tk_LastPrice t, pd_BestBid = tk_Bid1 t,
                   pd_BestAsk = tk_Ask1 t, pd_FairPrice = f0, pd_Volume24 = f0, pd_UpdatedAt = rv_wall env\<rparr>))"

text \<open>
  The price the wait ends with: one already stored, one among the updates until the
  subscription closes or times out, or else one fetched over REST, which is stored.
\<close>

definition waitForFreshPrice :: "'d rv_env \<Rightarrow> string \<Rightarrow> (string + unit) rv_act" where
  "waitForFreshPrice env symbol =
     (if rv_has_store env \<and>
         ((case rv_first_price env of Inr pd \<Rightarrow> quoted_price pd | Inl _ \<Rightarrow> False) \<or>
          list_ex (\<lambda>u. case u of Some pd \<Rightarrow> quoted_price pd | None \<Rightarrow> False) (rv_updates env))
      then ret (Inr (Inr ()))
      else case fallbackRESTPrice env symbol of
        Inl e \<Rightarrow> ret (Inr (Inl e))
      | Inr pd \<Rightarrow> do { _ \<leftarrow> emit (WrotePrice symbol pd); ret (Inr (Inr ())) })"

definition set_prices :: "float64 \<Rightarrow> float64 \<Rightarrow> float64 \<Rightarrow> Candidate \<Rightarrow> Candidate" where
  "set_prices bid ask lastPx c = c\<lparr>c_Market := (c_Market c)\<lparr>md_BestBid := bid, md_BestAsk := ask, md_LastPrice := lastPx\<rparr>\<rparr>"

definition rest_price :: "'d rv_env \<Rightarrow> Candidate \<Rightarrow> (string + Candidate)" where
  "rest_price env c = (case rv_rest env of
     Inl e \<Rightarrow> Inl ''REST API fallback failed''
   | Inr [] \<Rightarrow> Inl ''REST API fallback returned no tickers''
   | Inr (t # _) \<Rightarrow> Inr (set_prices (tk_Bid1 t) (tk_Ask1 t) (tk_LastPrice t) c))"

definition refreshPrice :: "'d rv_env \<Rightarrow> Candidate \<Rightarrow> (string + Candidate)" where
  "refreshPrice env c = (case rv_price env of
     Inr (Some pd) \<Rightarrow>
       if quoted_price pd then Inr (set_prices (pd_BestBid pd) (pd_BestAsk pd) (pd_LastPrice pd) c) else rest_price env c
   | _ \<Rightarrow> rest_price env c)"

subsection \<open>Arm\<close>

definition handleArm :: "'d rv_env \<Rightarrow> BaseReversionEvent \<Rightarrow> Candidate \<Rightarrow> unit rv_act" where
  "handleArm env b c = do {
     _ \<leftarrow> sync_now env;
     and_then (case rv_ws_subscribe env of
         None \<Rightarrow> ret (Inr ())
       | Some err \<Rightarrow> do { _ \<leftarrow> emit (SubscribedTicker (c_Symbol c)); or_abort env b (c_Symbol c) SubscribeFailed (err_of err) }) (\<lambda>_.
     and_then (waitForFreshPrice env (c_Symbol c)) (\<lambda>fresh.
     and_then (or_abort env b (c_Symbol c) FreshPriceFailed fresh) (\<lambda>_.
     and_then (or_abort env b (c_Symbol c) RefreshPriceFailed (refreshPrice env c)) (\<lambda>c'.
     rv_publishEvent env TopicReversionArmMarketReady
       (ArmMarketReady (nextReversionBase b (c_Symbol c') (rv_now env)) c' 5000))))) }"

definition reversion_refPrice :: "Candidate \<Rightarrow> float64" where
  "reversion_refPrice c = (if c_Side c = SideOpenLong then c_BestAsk c else c_BestBid c)"

text \<open>The slippage of an IOC price against the reference price, in percent.\<close>

definition with_slippage :: "'d dec_lib \<Rightarrow> float64 \<Rightarrow> Candidate \<Rightarrow> Candidate option" where
  "with_slippage L ioc c = (let refPrice = reversion_refPrice c in
     if f_pos ioc \<and> f_pos refPrice then do {
       d \<leftarrow> Sub L ioc refPrice;
       r \<leftarrow> Div L (f_abs d) refPrice;
       s \<leftarrow> Mul L r (FFin 100);
       Some (c\<lparr>c_Plan := (c_Plan c)\<lparr>tp_Slippage := s\<rparr>\<rparr>) }
     else Some c)"

definition handleArmMarketReady :: "'d rv_env \<Rightarrow> BaseReversionEvent \<Rightarrow> Candidate \<Rightarrow> unit rv_act" where
  "handleArmMarketReady env b c =
     and_then (rv_decimal (cand_CalculateIOCPrice (rv_dec env) c)) (\<lambda>r.
     and_then (or_abort env b (c_Symbol c) IOCCalcFailed r) (\<lambda>ioc.
     and_then (rv_decimal (with_slippage (rv_dec env) ioc c)) (\<lambda>c1.
     and_then (rv_decimal (cand_CalculateVolume (rv_dec env) c1)) (\<lambda>v.
     let c2 = set_Volume v c1 in
     rv_publishEvent env TopicReversionArmPlanCalculated
       (ArmPlanCalculated (nextReversionBase b (c_Symbol c2) (rv_now env)) c2 ioc (reversion_refPrice c))))))"

definition safety_limits :: "'d rv_env \<Rightarrow> Candidate \<Rightarrow> SafetyLimits" where
  "safety_limits env c = \<lparr>
     sl_MaxImpactRatio = (case rv_config env of None \<Rightarrow> f0 | Some rcfg \<Rightarrow> sf_MaxImpactRatio (rc_Safety rcfg)),
     sl_MinVol24USD = tg_MinVol24USD (c_Config c)\<rparr>"

definition set_SafetyResult :: "SafetyResult \<Rightarrow> Candidate \<Rightarrow> Candidate" where
  "set_SafetyResult r c = c\<lparr>c_Plan := (c_Plan c)\<lparr>tp_SafetyResult := Some r\<rparr>\<rparr>"

definition handleArmPlanCalculated ::
    "'d rv_env \<Rightarrow> BaseReversionEvent \<Rightarrow> Candidate \<Rightarrow> float64 \<Rightarrow> float64 \<Rightarrow> unit rv_act" where
  "handleArmPlanCalculated env b c ioc refPrice =
     and_then (rv_decimal (ApplySafetySizing (rv_dec env) (safety_limits env c) c)) (\<lambda>(r, c').
     let c2 = set_SafetyResult r c' in
     rv_publishEvent env TopicReversionSafetyChecked
       (SafetyChecked (nextReversionBase b (c_Symbol c2) (rv_now env)) c2 ioc refPrice (c_Volume c2)
          (sr_Passed r) (sr_RejectReason r)))"

definition handleSafetyChecked ::
    "'d rv_env \<Rightarrow> BaseReversionEvent \<Rightarrow> Candidate \<Rightarrow> bool \<Rightarrow> reject_reason option \<Rightarrow> unit rv_act" where
  "handleSafetyChecked env b c passed why =
     (if \<not> passed then abortAfter env b (c_Symbol c) (SafetyFailed why)
      else rv_publishEvent env TopicReversionArmed (Armed (nextReversionBase b (c_Symbol c) (rv_now env)) c))"

subsection \<open>Wait and recheck\<close>

definition waitUntilFuture :: "'d rv_env \<Rightarrow> gtime \<Rightarrow> string + unit" where
  "waitUntilFuture env target =
     (if rv_until env target \<le> 0
      then Inl (case rv_ctx_err env of Some e \<Rightarrow> e | None \<Rightarrow> ''timer target already passed'')
      else err_of (rv_sleep env))"

definition handleWait :: "'d rv_env \<Rightarrow> BaseReversionEvent \<Rightarrow> Candidate \<Rightarrow> unit rv_act" where
  "handleWait env b c =
     (let next = WaitComplete (nextReversionBase b (rb_Symbol b) (rv_now env)) c in
      if is_zero_time (rb_SettleTime b) then rv_publishEvent env TopicReversionWaitComplete next
      else and_then (or_abort env b (rb_Symbol b) WaitFailed (waitUntilFuture env (rb_SettleTime b - 5 * second))) (\<lambda>_.
        rv_publishEvent env TopicReversionWaitComplete next))"

definition fetchOrderBook :: "'d rv_env \<Rightarrow> string + OrderBook option" where
  "fetchOrderBook env =
     (let from_client = (case rv_depth env of None \<Rightarrow> Inl ''no depth provider or depth store available'' | Some r \<Rightarrow> r) in
      case rv_depth_store env of
        Some (Inr (Some ob)) \<Rightarrow> if Bids ob \<noteq> [] \<and> Asks ob \<noteq> [] then Inr (Some ob) else from_client
      | _ \<Rightarrow> from_client)"

definition checkDepthImbalance :: "'d rv_env \<Rightarrow> Candidate \<Rightarrow> Candidate option" where
  "checkDepthImbalance env c = (case fetchOrderBook env of
     Inl _ \<Rightarrow> Some c
   | Inr ob \<Rightarrow> map_option (\<lambda>r. c\<lparr>c_Plan := (c_Plan c)\<lparr>tp_ImbalanceRatio := di_Ratio r\<rparr>\<rparr>)
       (EvaluateDepthImbalance (rv_dec env) ob (c_Side c) (f64_of_rat (1 / 100)) (FFin (3 / 2))))"

definition recheck_rate :: "Candidate \<Rightarrow> string + float64 list \<Rightarrow> abort_reason + float64" where
  "recheck_rate c rates = (case rates of
     Inl _ \<Rightarrow> Inl NoFundingData
   | Inr [] \<Rightarrow> Inl NoFundingData
   | Inr (fundingRate # _) \<Rightarrow>
       if f_pos fundingRate \<noteq> f_pos (c_FundingRate c) then Inl FRSignFlip
       else if f_lt (f_abs fundingRate) (tg_MinFundingRate (c_Config c)) then Inl FRBelowThreshold
       else Inr fundingRate)"

definition handleRecheck :: "'d rv_env \<Rightarrow> BaseReversionEvent \<Rightarrow> Candidate \<Rightarrow> unit rv_act" where
  "handleRecheck env b c = do {
     _ \<leftarrow> sync_now env;
     and_then (or_abort env b (c_Symbol c) id (recheck_rate c (rv_rates env))) (\<lambda>fundingRate.
     and_then (rv_decimal (checkDepthImbalance env c)) (\<lambda>c'.
     rv_publishEvent env TopicReversionConfirmed
       (Confirmed ((nextReversionBase b (c_Symbol c') (rv_now env))\<lparr>rb_FundingRate := fundingRate\<rparr>) c'))) }"

subsection \<open>Fire\<close>

definition handleFireIOC :: "'d rv_env \<Rightarrow> BaseReversionEvent \<Rightarrow> Candidate \<Rightarrow> unit rv_act" where
  "handleFireIOC env b c =
     (if is_zero_time (rb_SettleTime b) then abortAfter env b (rb_Symbol b) NoSettleTime
      else if 0 < fv_MaxLatency (c_Reversion c) \<and> fv_MaxLatency (c_Reversion c) < i64 (rv_latency env * millisecond)
      then abortAfter env b (rb_Symbol b) LatencyTooHigh
      else rv_publishEvent env TopicReversionMarginModeReady
        (MarginModeReady (nextReversionBase b (rb_Symbol b) (rv_now env)) c))"

definition margin_mode :: "Candidate \<Rightarrow> MarginMode" where
  "margin_mode c = (if tg_ParsedOpenType (c_Config c) = 2 then MarginModeCross else MarginModeIsolated)"

text \<open>\<open>time.Duration(oneWayMs)*time.Millisecond + bufferTime\<close>\<close>

definition fire_offset :: "Candidate \<Rightarrow> int \<Rightarrow> duration" where
  "fire_offset c oneWayMs = i64 (i64 (oneWayMs * millisecond) + fv_BufferTime (c_Reversion c))"

text \<open>\<open>shared.OpenType(parsed)\<close>; the validated settings are 1 and 2.\<close>

definition open_type :: "int \<Rightarrow> OpenType" where
  "open_type n = (if n = 2 then OpenTypeCross else OpenTypeIsolated)"

definition set_leverage :: "'d rv_env \<Rightarrow> BaseReversionEvent \<Rightarrow> Candidate \<Rightarrow> unit rv_act" where
  "set_leverage env b c =
     (if 0 < c_Leverage c \<and> \<not> rv_leverage_on_order env
      then do {
        _ \<leftarrow> emit (ChangedLeverage \<lparr>cl_Symbol = rb_Symbol b, cl_Leverage = c_Leverage c,
           cl_OpenType = Some (open_type (tg_ParsedOpenType (c_Config c))),
           cl_PositionType = (if IsLong (c_Side c) then PositionTypeLong else PositionTypeShort)\<rparr>);
        or_abort env b (rb_Symbol b) ChangeLeverageFailed (err_of (rv_change_leverage env)) }
      else ret (Inr ()))"

definition handleMarginModeReady :: "'d rv_env \<Rightarrow> BaseReversionEvent \<Rightarrow> Candidate \<Rightarrow> unit rv_act" where
  "handleMarginModeReady env b c = do {
     _ \<leftarrow> emit (SwitchedMargin (rb_Symbol b) (margin_mode c) (c_Leverage c) (c_Side c));
     and_then (or_abort env b (rb_Symbol b) SwitchMarginFailed (err_of (rv_switch_margin env))) (\<lambda>_.
     and_then (case rv_switch_position env of
         None \<Rightarrow> ret (Inr ())
       | Some err \<Rightarrow> do {
           _ \<leftarrow> emit (SwitchedPosition (rb_Symbol b) (tg_ParsedPositionMode (c_Config c)));
           or_abort env b (rb_Symbol b) SwitchPositionFailed (err_of err) }) (\<lambda>_.
     and_then (set_leverage env b c) (\<lambda>_.
     let fireOffset = fire_offset c (go_quot (rv_latency env) 2);
         snapshotOffset = max (i64 (fireOffset + 300 * millisecond)) (300 * millisecond)
     in rv_publishEvent env TopicReversionFireTimingReady
          (FireTimingReady (nextReversionBase b (rb_Symbol b) (rv_now env)) c (rv_latency env)
             (go_quot fireOffset millisecond) (go_quot snapshotOffset millisecond))))) }"

definition handleFireTimingReady ::
    "'d rv_env \<Rightarrow> BaseReversionEvent \<Rightarrow> Candidate \<Rightarrow> int \<Rightarrow> int \<Rightarrow> unit rv_act" where
  "handleFireTimingReady env b c latencyMs snapshotMs =
     and_then (or_abort env b (rb_Symbol b) WaitSnapshotFailed
         (waitUntilFuture env (rb_SettleTime b - i64 (snapshotMs * millisecond)))) (\<lambda>_. do {
     _ \<leftarrow> sync_now env;
     let freshLatencyMs = (if rv_latency env \<le> 0 then latencyMs else rv_latency env);
         fireOffset = fire_offset c (max (go_quot freshLatencyMs 2) 0) in
     and_then (or_abort env b (c_Symbol c) RefreshPriceFailed (refreshPrice env c)) (\<lambda>c1.
     and_then (rv_decimal (cand_CalculateVolume (rv_dec env) c1)) (\<lambda>v.
     let c2 = set_Volume v c1 in
     and_then (rv_decimal (cand_CalculateIOCPrice (rv_dec env) c2)) (\<lambda>r.
     and_then (or_abort env b (c_Symbol c2) IOCCalcFailed r) (\<lambda>ioc.
     and_then (rv_decimal (with_slippage (rv_dec env) ioc c2)) (\<lambda>c3.
     and_then (rv_decimal (ApplySafetySizing (rv_dec env) (safety_limits env c3) c3)) (\<lambda>(sr, c4).
     let c5 = set_SafetyResult sr c4 in
     rv_publishEvent env TopicReversionFirePlanChecked
       (FirePlanChecked (nextReversionBase b (c_Symbol c5) (rv_now env)) c5
          \<lparr>pn_LatencyRTTMs = freshLatencyMs, pn_FireOffsetMs = go_quot fireOffset millisecond, pn_IOCPrice = ioc,
           pn_RefPrice = reversion_refPrice c2, pn_AdjustedVolume = c_Volume c5, pn_Passed = sr_Passed sr,
           pn_RejectReason = sr_RejectReason sr\<rparr>))))))) })"

definition order_intent ::
    "'d rv_env \<Rightarrow> BaseReversionEvent \<Rightarrow> Candidate \<Rightarrow> plan \<Rightarrow> gtime \<Rightarrow> float64 \<Rightarrow> float64 \<Rightarrow> intent_event" where
  "order_intent env b c p targetTime tpPrice slPrice = \<lparr>
     ReqID = rb_ReqID b, RefID = '''', ClientOrderID = rb_ExternalID b, AccountID = rb_AccountID b,
     Symbol = rb_Symbol b, Exchange = rb_Exchange b, MarketType = MarketTypeFutures,
     StrategyType = ''FUNDING_REVERSION'', PreTopic = TopicReversionFirePlanChecked, NextTopic = TopicOrderIntent,
     Timestamp = rv_now env,
     it_Side = c_Side c, it_OrderType = OrderTypeIOC, it_Price = pn_IOCPrice p, it_Volume = pn_AdjustedVolume p,
     it_ContractSize = c_ContractSize c, it_MarginMode = margin_mode c,
     it_PositionMode = tg_ParsedPositionMode (c_Config c), it_Leverage = c_Leverage c,
     it_MarginUSDT = c_MarginUSDT c, it_FundingRate = c_FundingRate c, it_Vol24hUSDT = c_Vol24USDT c,
     it_TakeProfitPrice = tpPrice, it_StopLossPrice = slPrice,
     it_PositionCloseTimeout = fv_PostSettleTimeout (c_Reversion c), it_UnfilledCancelTimeout = 0,
     it_SkipPreFlight = True, it_SkipRateLimit = True,
     it_EnablePnLTrailing = pl_Enabled (fv_PnLTrailing (c_Reversion c)),
     it_PnLTrailingDropPct = pl_DropPct (fv_PnLTrailing (c_Reversion c)),
     it_PnLTrailingConfirmTicks = pl_ConfirmTicks (fv_PnLTrailing (c_Reversion c)),
     it_FireTime = targetTime, it_MaxLatency = fv_MaxLatency (c_Reversion c),
     it_SettleTime = (if is_zero_time (rb_SettleTime b) then None else Some (rb_SettleTime b)),
     it_Extra = [(''buffer_time_ms'', AnyInt64 (go_quot (fv_BufferTime (c_Reversion c)) millisecond)),
       (''fire_offset_ms'', AnyInt64 (pn_FireOffsetMs p)),
       (''one_way_ms'', AnyInt64 (max (go_quot (pn_LatencyRTTMs p) 2) 0)),
       (''funding_rate'', AnyFloat (c_FundingRate c)), (''vol_24h_usdt'', AnyFloat (c_Vol24USDT c)),
       (''tp_pct'', AnyFloat (ResolveTakeProfitPct c)), (''sl_pct'', AnyFloat (fv_StopLossPct (c_Reversion c))),
       (''ioc_price'', AnyFloat (pn_IOCPrice p)), (''take_profit_price'', AnyFloat tpPrice),
       (''stop_loss_price'', AnyFloat slPrice), (''imbalance_ratio'', AnyFloat (tp_ImbalanceRatio (c_Plan c)))]\<rparr>"

definition dispatchOrderManagerIntent ::
    "'d rv_env \<Rightarrow> BaseReversionEvent \<Rightarrow> Candidate \<Rightarrow> plan \<Rightarrow> gtime \<Rightarrow> float64 \<Rightarrow> float64 \<Rightarrow> unit rv_act" where
  "dispatchOrderManagerIntent env b c p targetTime tpPrice slPrice = (case rv_publish env of
     Some e \<Rightarrow> ret (Inl (PublishFailed e))
   | None \<Rightarrow> emit (Dispatched (order_intent env b c p targetTime tpPrice slPrice)))"

definition handleFirePlanChecked :: "'d rv_env \<Rightarrow> BaseReversionEvent \<Rightarrow> Candidate \<Rightarrow> plan \<Rightarrow> unit rv_act" where
  "handleFirePlanChecked env b c p = do {
     _ \<leftarrow> (case rv_ws_subscribe env of None \<Rightarrow> ret (Inr ()) | Some _ \<Rightarrow> emit (UnsubscribedTicker (c_Symbol c)));
     if \<not> pn_Passed p then abortAfter env b (c_Symbol c) (PlanRejected (pn_RejectReason p))
     else
       and_then (rv_decimal (CalculateOrderTPSL (rv_dec env) c (pn_IOCPrice p))) (\<lambda>(tpPrice, slPrice).
       dispatchOrderManagerIntent env b c p (rb_SettleTime b - i64 (pn_FireOffsetMs p * millisecond)) tpPrice slPrice) }"

subsection \<open>The subscriptions\<close>

fun handle_reversion :: "'d rv_env \<Rightarrow> reversion_event \<Rightarrow> unit rv_act" where
  "handle_reversion env (CandidateFound b c) = handleArm env b c"
| "handle_reversion env (ArmMarketReady b c _) = handleArmMarketReady env b c"
| "handle_reversion env (ArmPlanCalculated b c ioc ref) = handleArmPlanCalculated env b c ioc ref"
| "handle_reversion env (SafetyChecked b c _ _ _ passed why) = handleSafetyChecked env b c passed why"
| "handle_reversion env (Armed b c) = handleWait env b c"
| "handle_reversion env (WaitComplete b c) = handleRecheck env b c"
| "handle_reversion env (Confirmed b c) = handleFireIOC env b c"
| "handle_reversion env (MarginModeReady b c) = handleMarginModeReady env b c"
| "handle_reversion env (FireTimingReady b c latency _ snapshot) = handleFireTimingReady env b c latency snapshot"
| "handle_reversion env (FirePlanChecked b c p) = handleFirePlanChecked env b c p"
| "handle_reversion env (ReversionAbort _ _) = ret (Inr ())"

definition reversion_effects :: "'d rv_env \<Rightarrow> reversion_event \<Rightarrow> rv_effect list" where
  "reversion_effects env e = snd (run_state (handle_reversion env e) [])"

end
