(* ===== verification/FundingAllocator.thy ===== *)
theory FundingAllocator
  imports FundingDomain
begin

text \<open>
  \<open>leverage.go\<close>, \<open>allocator.go\<close> and \<open>scorer.go\<close>: the leverage an exchange allows for a
  candidate, the margin each candidate gets from the account's pool, and the ranking. The
  exchange client is the record of the optional interfaces it implements; \<open>math.Log10\<close> is
  the parameter of the ranking.
\<close>

subsection \<open>Leverage\<close>

record leverage_client =
  lc_SupportLeverageOnOrder :: bool
  lc_GetMaxLeverageForValue :: "(string \<Rightarrow> float64 \<Rightarrow> string + int) option"
  lc_GetMaxLeverage :: "(string \<Rightarrow> string + int) option"

definition capped_leverage :: "int \<Rightarrow> string + int \<Rightarrow> int" where
  "capped_leverage leverage answer = (case answer of
     Inl _ \<Rightarrow> leverage | Inr maxLev \<Rightarrow> if 0 < maxLev \<and> maxLev < leverage then maxLev else leverage)"

definition candidateTargetValue :: "Candidate \<Rightarrow> int \<Rightarrow> float64" where
  "candidateTargetValue c leverage =
     (let p0 = c_LastPrice c;
          p1 = (if f_eq p0 f0 then c_BestBid c else p0);
          price = (if f_eq p1 f0 then c_BestAsk c else p1);
          targetValue = f_mul (f_mul (c_Volume c) (c_ContractSize c)) price
      in if f_eq targetValue f0 \<and> f_pos (c_MarginUSDT c)
         then f_mul (c_MarginUSDT c) (f_of_int leverage) else targetValue)"

definition checkRiskLimitLeverage :: "(string \<Rightarrow> float64 \<Rightarrow> string + int) \<Rightarrow> Candidate \<Rightarrow> int \<Rightarrow> float64 \<Rightarrow> int" where
  "checkRiskLimitLeverage getMax c leverage targetValue = capped_leverage leverage (getMax (c_Symbol c) targetValue)"

definition checkMaxLeverage :: "(string \<Rightarrow> string + int) \<Rightarrow> Candidate \<Rightarrow> int \<Rightarrow> int" where
  "checkMaxLeverage getMax c leverage = capped_leverage leverage (getMax (c_Symbol c))"

definition resolveExchangeLeverage :: "leverage_client \<Rightarrow> Candidate \<Rightarrow> int \<Rightarrow> int" where
  "resolveExchangeLeverage client c leverage =
     (case lc_GetMaxLeverageForValue client of
        Some getMax \<Rightarrow> checkRiskLimitLeverage getMax c leverage (candidateTargetValue c leverage)
      | None \<Rightarrow> (case lc_GetMaxLeverage client of
          Some getMax \<Rightarrow> checkMaxLeverage getMax c leverage
        | None \<Rightarrow> leverage))"

definition DetermineCandidateLeverage :: "leverage_client option \<Rightarrow> Candidate option \<Rightarrow> int" where
  "DetermineCandidateLeverage client candidate = (case candidate of
     None \<Rightarrow> 1
   | Some c \<Rightarrow>
       let leverage = (if 0 < cs_MaxLeverage (c_Spec c) \<and> cs_MaxLeverage (c_Spec c) < c_Leverage c
                       then cs_MaxLeverage (c_Spec c) else c_Leverage c)
       in if leverage \<le> 0 then 1
          else case client of
            None \<Rightarrow> leverage
          | Some cl \<Rightarrow> if lc_SupportLeverageOnOrder cl then leverage
                       else resolveExchangeLeverage cl c leverage)"

subsection \<open>Margin\<close>

definition opportunity :: "Candidate \<Rightarrow> float64" where
  "opportunity c = CalculateOpportunityScore (c_FundingRate c) (c_Vol24USDT c) (FFin 1) (FFin 1) (FFin 100)"

text \<open>The comparison of \<open>sort.SliceStable\<close>; \<open>!=\<close> of floats is true on NaN.\<close>

definition better_opportunity :: "Candidate \<Rightarrow> Candidate \<Rightarrow> bool" where
  "better_opportunity a b =
     (if \<not> f_eq (opportunity a) (opportunity b) then f_lt (opportunity b) (opportunity a)
      else f_lt (f_abs (c_FundingRate b)) (f_abs (c_FundingRate a)))"

definition margin_limit :: "float64 \<Rightarrow> float64 \<Rightarrow> float64" where
  "margin_limit remainingMargin maxCandidateMargin =
     (if f_pos maxCandidateMargin \<and> f_lt maxCandidateMargin remainingMargin
      then maxCandidateMargin else remainingMargin)"

definition trade_volume :: "Candidate \<Rightarrow> float64 \<Rightarrow> float64 \<Rightarrow> float64" where
  "trade_volume c limit maxImpactRatio =
     (let volMinuteUSDT = f_div (c_Vol24USDT c) (FFin 1440);
          maxTradeVolUSDT = (if f_pos maxImpactRatio \<and> f_pos volMinuteUSDT
                             then f_mul maxImpactRatio volMinuteUSDT else f0);
          target = f_mul limit (f_of_int (c_Leverage c))
      in if f_pos maxTradeVolUSDT \<and> f_lt maxTradeVolUSDT target then maxTradeVolUSDT else target)"

definition allocateSingleCandidateMargin ::
    "'d dec_lib \<Rightarrow> leverage_client option \<Rightarrow> float64 \<Rightarrow> float64 \<Rightarrow> float64 \<Rightarrow> Candidate \<Rightarrow> (float64 \<times> Candidate) option" where
  "allocateSingleCandidateMargin L client remainingMargin maxCandidateMargin maxImpactRatio c =
     (let limit = margin_limit remainingMargin maxCandidateMargin;
          actualTradeVolUSDT = trade_volume c limit maxImpactRatio;
          c1 = set_Margin limit c;
          lev = DetermineCandidateLeverage client (Some c1);
          actualLeverage = (if lev \<le> 0 then 1 else lev);
          need = f_div actualTradeVolUSDT (f_of_int actualLeverage);
          needMarginUSDT = (if f_lt limit need then limit else need);
          c2 = set_Leverage actualLeverage (set_Margin needMarginUSDT c1)
      in map_option (\<lambda>v. (needMarginUSDT, set_Volume v c2)) (cand_CalculateVolume L c2))"

fun allocate_loop ::
    "'d dec_lib \<Rightarrow> leverage_client option \<Rightarrow> float64 \<Rightarrow> float64 \<Rightarrow> float64 \<Rightarrow> Candidate list \<Rightarrow> Candidate list option" where
  "allocate_loop L client maxC impact remaining [] = Some []"
| "allocate_loop L client maxC impact remaining (c # cs) =
     (if f_le remaining f0
      then map_option ((#) (set_Volume f0 (set_Leverage 1 (set_Margin f0 c))))
             (allocate_loop L client maxC impact remaining cs)
      else do {
        (need, c') \<leftarrow> allocateSingleCandidateMargin L client remaining maxC impact c;
        cs' \<leftarrow> allocate_loop L client maxC impact (f_sub remaining need) cs;
        Some (c' # cs') })"

definition tradeable :: "Candidate \<Rightarrow> bool" where
  "tradeable c \<longleftrightarrow> f_pos (c_Volume c) \<and> f_pos (c_MarginUSDT c)"

definition AllocateMargins ::
    "'d dec_lib \<Rightarrow> Candidate list \<Rightarrow> float64 \<Rightarrow> float64 \<Rightarrow> float64 \<Rightarrow> leverage_client option \<Rightarrow> Candidate list option" where
  "AllocateMargins L candidates totalMarginUSD maxCandidateMargin maxImpactRatio client =
     (if candidates = [] \<or> f_le totalMarginUSD f0 then Some []
      else map_option (filter tradeable)
             (allocate_loop L client maxCandidateMargin maxImpactRatio totalMarginUSD
                (stable_sort better_opportunity candidates)))"

subsection \<open>Ranking\<close>

definition score_candidate :: "(float64 \<Rightarrow> float64) \<Rightarrow> Candidate \<Rightarrow> Candidate" where
  "score_candidate log10 c = (case tp_SafetyResult (c_Plan c) of
     Some sr \<Rightarrow>
       if \<not> sr_Passed sr then c\<lparr>c_Plan := (c_Plan c)\<lparr>tp_CoinScore := f0\<rparr>\<rparr>
       else
         let liq0 = f_div (log10 (f_add (c_Vol24USDT c) (FFin 1))) (FFin 10);
             liq = (if f_lt (FFin 1) liq0 then FFin 1 else liq0)
         in c\<lparr>c_Plan := (c_Plan c)\<lparr>tp_ExpectedProfit := sr_ExpectedProfit sr, tp_ImpactRatio := sr_ImpactRatio sr,
              tp_CoinScore := f_mul (f_mul (sr_ExpectedProfit sr) (FFin 10000)) liq\<rparr>\<rparr>
   | None \<Rightarrow> c\<lparr>c_Plan := (c_Plan c)\<lparr>tp_CoinScore := f0\<rparr>\<rparr>)"

definition ScoreAndRank :: "(float64 \<Rightarrow> float64) \<Rightarrow> Candidate list \<Rightarrow> Candidate list" where
  "ScoreAndRank log10 candidates =
     stable_sort (\<lambda>a b. f_lt (tp_CoinScore (c_Plan b)) (tp_CoinScore (c_Plan a)))
       (filter (\<lambda>c. f_pos (tp_CoinScore (c_Plan c))) (map (score_candidate log10) candidates))"

subsection \<open>The pool is never overdrawn\<close>

definition fin_nonneg :: "float64 \<Rightarrow> bool" where
  "fin_nonneg x \<longleftrightarrow> f_is_fin x \<and> \<not> f_lt x f0"

lemma fin_nonneg_Fin [simp]: "fin_nonneg (FFin q) \<longleftrightarrow> 0 \<le> q" "fin_nonneg FNegZero"
  "\<not> fin_nonneg FNaN" "\<not> fin_nonneg (FInf s)"
  by (auto simp: fin_nonneg_def)

lemma fin_nonneg_val: "fin_nonneg x \<Longrightarrow> 0 \<le> f_val x"
  by (cases x) auto

lemma determine_leverage_pos: "0 < DetermineCandidateLeverage client (Some c)"
  by (auto simp: DetermineCandidateLeverage_def resolveExchangeLeverage_def checkRiskLimitLeverage_def
      checkMaxLeverage_def capped_leverage_def Let_def split: option.split sum.split)

lemma determine_leverage_le: "0 < c_Leverage c \<Longrightarrow> DetermineCandidateLeverage client (Some c) \<le> c_Leverage c"
  by (auto simp: DetermineCandidateLeverage_def resolveExchangeLeverage_def checkRiskLimitLeverage_def
      checkMaxLeverage_def capped_leverage_def Let_def split: option.split sum.split)

lemma f_le_fin: "f_is_fin a \<Longrightarrow> f_is_fin b \<Longrightarrow> f_le a b \<longleftrightarrow> f_val a \<le> f_val b"
  by (cases a; cases b) (auto simp: f_le_def)

lemma f_sub_fin:
  assumes "f_is_fin a" "f_is_fin b"
  shows "f_le (f_sub a b) (f64_of_rat (f_val a - f_val b))" "f_le (f64_of_rat (f_val a - f_val b)) (f_sub a b)"
proof -
  have refl: "f_le x x" if "x \<noteq> FNaN" for x using that by (cases x) (auto simp: f_le_def)
  show "f_le (f_sub a b) (f64_of_rat (f_val a - f_val b))" "f_le (f64_of_rat (f_val a - f_val b)) (f_sub a b)"
    using assms refl [of "f64_of_rat (f_val a - f_val b)"]
    by (cases a; cases b; auto simp: f_sub_def f_add_def go_float f_le_def)+
qed

lemma f_sub_mono:
  assumes "f_is_fin a" "f_is_fin b" "f_is_fin c" "f_is_fin d" "f_le a b" "f_le d c"
  shows "f_le (f_sub a c) (f_sub b d)"
proof -
  have "f_val a - f_val c \<le> f_val b - f_val d" using assms by (simp add: f_le_fin)
  then have "f_le (f64_of_rat (f_val a - f_val c)) (f64_of_rat (f_val b - f_val d))" by (rule f64_of_rat_mono)
  then show ?thesis
    using f_sub_fin(1) [OF assms(1,3)] f_sub_fin(2) [OF assms(2,4)] f_le_trans by blast
qed

lemma f_sub_0: "is_f64 a \<Longrightarrow> f_is_fin a \<Longrightarrow> f_le (f_sub a f0) a"
  by (cases a) (auto simp: f_sub_def f_add_def go_float f_le_def f64_of_rat_id)

lemma fin_nonneg_between: "f_le f0 x \<Longrightarrow> f_le x y \<Longrightarrow> f_is_fin y \<Longrightarrow> fin_nonneg x"
  by (cases x; cases y) (auto simp: f_le_def)

lemma pool_step:
  assumes "fin_nonneg r" "is_f64 r" "fin_nonneg m" "f_le m r"
  shows "fin_nonneg (f_sub r m)" "is_f64 (f_sub r m)" "f_le (f_sub r m) r"
proof -
  have fin: "f_is_fin r" "f_is_fin m" using assms by (simp_all add: fin_nonneg_def)
  have "f_le f0 m" using assms(3) by (cases m) (auto simp: f_le_def)
  then show le: "f_le (f_sub r m) r"
    using f_sub_mono [of r r m f0] fin f_sub_0 [OF assms(2) fin(1)] f_le_trans by (auto simp: f_le_fin)
  have nn: "\<not> f_lt (f_sub r m) f0" by (rule f_sub_nonneg [OF assms(4)])
  show "fin_nonneg (f_sub r m)"
    using le nn fin(1) by (cases "f_sub r m"; cases r) (auto simp: f_le_def)
  show "is_f64 (f_sub r m)"
    using fin by (cases r; cases m) (auto simp: f_sub_def f_add_def f64_of_rat_is_f64)
qed

definition changed_only :: "Candidate \<Rightarrow> Candidate \<Rightarrow> bool" where
  "changed_only c0 c \<longleftrightarrow> (\<exists>m l v. c = set_Volume v (set_Leverage l (set_Margin m c0)))"

lemma f_of_int_pos: "0 < n \<Longrightarrow> n < 2 ^ 63 \<Longrightarrow> \<exists>p. f_of_int n = FFin p \<and> 0 < p"
proof -
  assume n: "0 < n" "n < 2 ^ 63"
  have "(1::rat) \<le> of_int n" using n(1) by linarith
  then have "rnd64 1 \<le> rnd64 (of_int n)" by (rule rnd64_mono)
  then have lo: "1 \<le> rnd64 (of_int n)" using rnd64_of_int [of 1] by simp
  have "(of_int n :: rat) \<le> of_int (2 ^ 63)" using n(2) by (simp only: of_int_le_iff)
  then have "rnd64 (of_int n) \<le> rnd64 (2 ^ 63)" by (intro rnd64_mono) simp
  also have "rnd64 (2 ^ 63) = 2 ^ 63" using rnd64_exact [of 1 63] by (simp add: power_int_def)
  also have "(2::rat) ^ 63 < f64_bound" by (simp add: f64_bound_def)
  finally have "rnd64 (of_int n) < f64_bound" .
  with lo show ?thesis by (auto simp: f_of_int_def f64_of_rat_def Let_def)
qed

lemma f_of_int_nonneg: "0 \<le> n \<Longrightarrow> n < 2 ^ 63 \<Longrightarrow> \<exists>p. f_of_int n = FFin p \<and> 0 \<le> p"
  using f_of_int_pos [of n] by (cases "n = 0") (auto simp: f_of_int_def go_float intro: less_imp_le)

lemma f_div_nonneg: "f_le f0 a \<Longrightarrow> 0 < p \<Longrightarrow> f_le f0 (f_div a (FFin p))"
  using f64_of_rat_mono [of 0 "f_val a / p"]
  by (cases a) (auto simp: f_div_def f_le_def f_zero_def Let_def go_float)

lemma trade_volume_nonneg:
  assumes "fin_nonneg limit" "0 \<le> c_Leverage c" "c_Leverage c < 2 ^ 63"
  shows "f_le f0 (trade_volume c limit impact)"
proof -
  obtain p where p: "f_of_int (c_Leverage c) = FFin p" "0 \<le> p" using f_of_int_nonneg assms(2,3) by blast
  have "f_le f0 (f_mul limit (FFin p))"
    using assms(1) p(2) f64_of_rat_mono [of 0 "f_val limit * p"] fin_nonneg_val [OF assms(1)]
    by (cases limit) (auto simp: f_mul_def f_le_def f_zero_def Let_def go_float)
  then show ?thesis using p by (auto simp: trade_volume_def Let_def f_pos_def f_le_def)
qed

lemma allocate_single:
  assumes a: "allocateSingleCandidateMargin L client r maxC impact c = Some (need, c')"
    and r: "fin_nonneg r" "\<not> f_le r f0" and lev: "0 \<le> c_Leverage c" "c_Leverage c < 2 ^ 63"
  shows "fin_nonneg need" "f_le need r" "f_pos maxC \<Longrightarrow> f_le need maxC" "c_MarginUSDT c' = need"
    "1 \<le> c_Leverage c'" "c_Leverage c' \<le> max 1 (c_Leverage c)" "changed_only c c'"
proof -
  let ?limit = "margin_limit r maxC" and ?c1 = "set_Margin (margin_limit r maxC) c"
  let ?lev = "DetermineCandidateLeverage client (Some ?c1)"
  let ?need = "f_div (trade_volume c ?limit impact) (f_of_int ?lev)"
  have lev1: "0 < ?lev" by (rule determine_leverage_pos)
  then obtain v where need: "need = (if f_lt ?limit ?need then ?limit else ?need)"
      and c': "c' = set_Volume v (set_Leverage ?lev (set_Margin need c))"
    using a by (auto simp: allocateSingleCandidateMargin_def Let_def set_Margin_twice simp del: set_simps)
  have limit: "fin_nonneg ?limit" "f_le ?limit r" "f_pos maxC \<Longrightarrow> f_le ?limit maxC"
    using r by (cases r; cases maxC; auto simp: margin_limit_def f_pos_def f_le_def)+
  have le_lev: "?lev \<le> max 1 (c_Leverage c)"
    using determine_leverage_le [of ?c1 client] lev(1)
    by (cases "c_Leverage c = 0") (auto simp: DetermineCandidateLeverage_def Let_def)
  then obtain p where p: "f_of_int ?lev = FFin p" "0 < p" using f_of_int_pos [OF lev1] lev(2) by fastforce
  have "f_le f0 ?need"
    using f_div_nonneg [OF trade_volume_nonneg [OF limit(1) lev] p(2)] p(1) by simp
  then have n: "f_le f0 need" "f_le need ?limit"
    using limit(1) need by (cases ?limit; cases ?need; auto simp: f_le_def split: if_splits)+
  show "fin_nonneg need"
    using fin_nonneg_between [OF n] limit(1) by (simp add: fin_nonneg_def)
  show "f_le need r" "f_pos maxC \<Longrightarrow> f_le need maxC" using f_le_trans [OF n(2)] limit(2,3) by blast+
  show "c_MarginUSDT c' = need" "1 \<le> c_Leverage c'" "c_Leverage c' \<le> max 1 (c_Leverage c)" "changed_only c c'"
    using c' lev1 le_lev unfolding changed_only_def by auto
qed

definition fair_share :: "float64 \<Rightarrow> float64 \<Rightarrow> Candidate list \<Rightarrow> Candidate \<Rightarrow> bool" where
  "fair_share pool maxC cs c \<longleftrightarrow> f_le (c_MarginUSDT c) pool \<and> (f_pos maxC \<longrightarrow> f_le (c_MarginUSDT c) maxC) \<and>
     1 \<le> c_Leverage c \<and> (\<exists>c0 \<in> set cs. changed_only c0 c \<and> c_Leverage c \<le> max 1 (c_Leverage c0))"

lemma allocate_loop_pool:
  assumes "allocate_loop L client maxC impact r cs = Some ds" "fin_nonneg r" "is_f64 r"
    and "\<forall>c \<in> set cs. 0 \<le> c_Leverage c \<and> c_Leverage c < 2 ^ 63"
    and "f_is_fin q" "is_f64 q" "f_le r q"
  shows "\<not> f_lt (foldl f_sub q (map (\<lambda>c. c_MarginUSDT c) (filter tradeable ds))) f0 \<and>
    (\<forall>d \<in> set ds. tradeable d \<longrightarrow> fair_share r maxC cs d)"
  using assms
proof (induction cs arbitrary: r q ds)
  case Nil
  then show ?case by (cases r; cases q) (auto simp: f_le_def)
next
  case (Cons c cs)
  show ?case
  proof (cases "f_le r f0")
    case True
    with Cons.prems(1) obtain es where es: "allocate_loop L client maxC impact r cs = Some es"
        "ds = set_Volume f0 (set_Leverage 1 (set_Margin f0 c)) # es"
      by auto
    have "\<not> tradeable (set_Volume f0 (set_Leverage 1 (set_Margin f0 c)))" by (simp add: tradeable_def)
    with Cons.IH [OF es(1) Cons.prems(2,3) _ Cons.prems(5-7)] Cons.prems(4) es(2)
    show ?thesis by (auto simp: fair_share_def)
  next
    case False
    with Cons.prems(1) obtain need c' es where es:
        "allocateSingleCandidateMargin L client r maxC impact c = Some (need, c')"
        "allocate_loop L client maxC impact (f_sub r need) cs = Some es" "ds = c' # es"
      by (auto simp: bind_eq_Some_conv)
    have lev: "0 \<le> c_Leverage c" "c_Leverage c < 2 ^ 63" using Cons.prems(4) by auto
    note one = allocate_single [OF es(1) Cons.prems(2) False lev]
    note step = pool_step [OF Cons.prems(2,3) one(1,2)]
    have fin: "f_is_fin r" "f_is_fin need" using Cons.prems(2) one(1) by (simp_all add: fin_nonneg_def)
    have nq: "f_le need q" using f_le_trans [OF one(2) Cons.prems(7)] .
    have qn: "fin_nonneg q" using nq one(1) Cons.prems(5) by (cases q; cases need) (auto simp: f_le_def)
    note qstep = pool_step [OF qn Cons.prems(6) one(1) nq]
    have le: "f_le (f_sub r need) (f_sub q need)"
      using f_sub_mono [OF fin(1) Cons.prems(5) fin(2,2) Cons.prems(7)] fin(2) by (simp add: f_le_fin)
    have tail: "\<forall>d \<in> set cs. 0 \<le> c_Leverage d \<and> c_Leverage d < 2 ^ 63" using Cons.prems(4) by simp
    have "f_is_fin (f_sub q need)" using qstep(1) by (simp add: fin_nonneg_def)
    note IH1 = Cons.IH [OF es(2) step(1,2) tail this qstep(2) le]
    note IH2 = Cons.IH [OF es(2) step(1,2) tail Cons.prems(5,6) f_le_trans [OF step(3) Cons.prems(7)]]
    have here: "fair_share r maxC (c # cs) c'" using one by (simp add: fair_share_def)
    have there: "fair_share r maxC (c # cs) d" if "d \<in> set es" "tradeable d" for d
      using that IH1 f_le_trans [OF _ step(3)] unfolding fair_share_def by fastforce
    from IH1 IH2 here there one(4) es(3) show ?thesis by auto
  qed
qed

lemma allocated_within_pool:
  assumes "AllocateMargins L candidates pool maxC impact client = Some allocated"
    and "f_is_fin pool" "is_f64 pool"
    and "\<forall>c \<in> set candidates. 0 \<le> c_Leverage c \<and> c_Leverage c < 2 ^ 63"
  shows "(\<forall>c \<in> set allocated. f_pos (c_MarginUSDT c) \<and> f_pos (c_Volume c) \<and> f_le (c_MarginUSDT c) pool \<and>
      (f_pos maxC \<longrightarrow> f_le (c_MarginUSDT c) maxC) \<and> 1 \<le> c_Leverage c \<and>
      (\<exists>c0 \<in> set candidates. changed_only c0 c \<and> c_Leverage c \<le> max 1 (c_Leverage c0))) \<and>
    (f_pos pool \<longrightarrow> \<not> f_lt (foldl f_sub pool (map (\<lambda>c. c_MarginUSDT c) allocated)) f0)"
proof (cases "candidates = [] \<or> f_le pool f0")
  case True
  with assms(1) show ?thesis by (auto simp: AllocateMargins_def f_pos_def dest: f_lt_asym)
next
  case False
  with assms(1) obtain ds where ds: "allocated = filter tradeable ds"
      "allocate_loop L client maxC impact pool (stable_sort better_opportunity candidates) = Some ds"
    by (auto simp: AllocateMargins_def)
  have "fin_nonneg pool" "f_le pool pool" using assms(2) False by (cases pool; auto simp: f_le_def)+
  with allocate_loop_pool [OF ds(2) _ assms(3) _ assms(2,3)] assms(4) ds(1)
  show ?thesis by (auto simp: fair_share_def tradeable_def)
qed

text \<open>
  C8: the allocator never overdraws the pool. Every candidate it returns is one of the given
  candidates with a positive margin and a positive volume, its margin is at most the pool and
  at most the configured limit per candidate, its leverage is at least one and never above
  what was configured, and taking the margins off the pool one after the other never leaves a
  negative rest.
\<close>

theorem margins_within_pool:
  assumes "AllocateMargins L candidates pool maxC impact client = Some allocated"
    and "f_is_fin pool" "is_f64 pool"
    and "\<forall>c \<in> set candidates. 0 \<le> c_Leverage c \<and> c_Leverage c < 2 ^ 63"
  shows "(\<forall>c \<in> set allocated. f_pos (c_MarginUSDT c) \<and> f_pos (c_Volume c) \<and> f_le (c_MarginUSDT c) pool \<and>
      (f_pos maxC \<longrightarrow> f_le (c_MarginUSDT c) maxC) \<and> 1 \<le> c_Leverage c \<and>
      (\<exists>c0 \<in> set candidates. changed_only c0 c \<and> c_Leverage c \<le> max 1 (c_Leverage c0))) \<and>
    (f_pos pool \<longrightarrow> \<not> f_lt (foldl f_sub pool (map (\<lambda>c. c_MarginUSDT c) allocated)) f0)"
  using assms by (rule allocated_within_pool)

theorem margins_within_pool_witness:
  "\<exists>c. AllocateMargins exact_dec [sample_candidate] (FFin 150) (FFin 100) (FFin (1 / 2)) None = Some [c] \<and>
     f_le (c_MarginUSDT c) (FFin 100) \<and> c_Volume c = FFin 2"
proof -
  let ?c = "set_Volume (FFin 2) (set_Leverage 2 (set_Margin (FFin 100) sample_candidate))"
  have "AllocateMargins exact_dec [sample_candidate] (FFin 150) (FFin 100) (FFin (1 / 2)) None = Some [?c]"
    by (simp add: AllocateMargins_def allocateSingleCandidateMargin_def margin_limit_def trade_volume_def
        DetermineCandidateLeverage_def cand_CalculateVolume_def CalculateVolume_def cand_ExecutionRefPrice_def
        ExecutionRefPrice_def cap_MaxVol_def sample_candidate_simps sided_intent_def tradeable_def exact_ops
        round_places_numeral f_of_int_def go_float f_le_def Let_def)
  then obtain c where c: "AllocateMargins exact_dec [sample_candidate] (FFin 150) (FFin 100) (FFin (1 / 2)) None = Some [c]"
      "c_Volume c = FFin 2" by simp
  have "is_f64 (FFin 150)" using rnd64_of_int [of 150] by (simp add: f64_bound_def)
  moreover have "\<forall>c \<in> set [sample_candidate]. 0 \<le> c_Leverage c \<and> c_Leverage c < 2 ^ 63"
    by (simp add: sample_candidate_simps)
  ultimately show ?thesis using margins_within_pool [OF c(1)] c by auto
qed

end
