(* ===== verification/Contracts.thy ===== *)
theory Contracts
  imports Float64
begin

text \<open>
  Contract specifications (\<open>internal/infrastructure/exchange/types.go\<close> and
  \<open>internal/infrastructure/store/types.go\<close>) and the volume their risk limits allow.
\<close>

record RiskLimitTier =
  rl_Level :: int
  rl_MaxLeverage :: int
  rl_MaxNotional :: float64
  rl_MaxQuantity :: float64

text \<open>The fields of the exchange's and of the store's contract that the bots read.\<close>

record ContractDetail =
  cd_Symbol :: string
  cd_PriceUnit :: float64
  cd_VolUnit :: int
  cd_MinVol :: int
  cd_MaxVol :: int
  cd_PriceScale :: int
  cd_VolScale :: int
  cd_ContractSize :: float64
  cd_TakerFeeRate :: float64
  cd_MakerFeeRate :: float64
  cd_MaxLeverage :: int
  cd_RiskLimits :: "RiskLimitTier list"

type_synonym ContractData = ContractDetail

definition best_tier :: "int \<Rightarrow> RiskLimitTier list \<Rightarrow> RiskLimitTier option" where
  "best_tier leverage tiers = foldl (\<lambda>best t.
     if leverage \<le> rl_MaxLeverage t \<and> (case best of None \<Rightarrow> True | Some b \<Rightarrow> rl_MaxLeverage t < rl_MaxLeverage b)
     then Some t else best) None tiers"

definition tier_cap :: "RiskLimitTier \<Rightarrow> float64 \<Rightarrow> int \<Rightarrow> int" where
  "tier_cap t contractValue maxVol0 =
     (let maxVol = (if f_pos (rl_MaxQuantity t) \<and> f_to_i64 (rl_MaxQuantity t) < maxVol0
                    then f_to_i64 (rl_MaxQuantity t) else maxVol0);
          notionalMaxVol = f_to_i64 (f_div (rl_MaxNotional t) contractValue)
      in if f_pos (rl_MaxNotional t) \<and> 0 < notionalMaxVol \<and> notionalMaxVol < maxVol then notionalMaxVol else maxVol)"

definition GetMaxVolForLeverage :: "ContractDetail \<Rightarrow> int \<Rightarrow> float64 \<Rightarrow> int" where
  "GetMaxVolForLeverage c leverage refPrice =
     (if cd_RiskLimits c = [] \<or> leverage \<le> 0 \<or> f_le refPrice f0 \<or> f_le (cd_ContractSize c) f0 then cd_MaxVol c
      else case best_tier leverage (cd_RiskLimits c) of
        None \<Rightarrow> cd_MaxVol c
      | Some t \<Rightarrow> tier_cap t (f_mul (cd_ContractSize c) refPrice) (cd_MaxVol c))"

end
