(* ===== verification/FundingScanner.thy ===== *)
theory FundingScanner
  imports FundingReversion FundingAllocator Contracts
begin

text \<open>
  \<open>internal/bots/funding/application/scanner.go\<close> and \<open>settle.go\<close>: the scanners that find
  candidates and the job that triggers the reversion flow. A run of a scanner sees the answers
  of the world as arguments. The order in which the source ranges over its map of accounts is
  an argument too. None is a panic (the decimal conversion, a slice bound).
\<close>

record ScanOpportunity =
  so_Candidate :: Candidate
  so_SettleTime :: gtime

subsection \<open>Contract figures of a candidate\<close>

definition contract_spec :: "ContractDetail \<Rightarrow> ContractSpec" where
  "contract_spec cd = \<lparr>cs_PriceUnit = cd_PriceUnit cd, cs_VolUnit = cd_VolUnit cd, cs_MinVol = cd_MinVol cd,
     cs_MaxVol = cd_MaxVol cd, cs_PriceScale = cd_PriceScale cd, cs_VolScale = cd_VolScale cd,
     cs_ContractSize = cd_ContractSize cd, cs_TakerFeeRate = cd_TakerFeeRate cd,
     cs_MakerFeeRate = cd_MakerFeeRate cd, cs_MaxLeverage = cd_MaxLeverage cd\<rparr>"

definition updateMaxVolForLeverage :: "int \<Rightarrow> (int \<Rightarrow> float64 \<Rightarrow> int) \<Rightarrow> Candidate \<Rightarrow> Candidate" where
  "updateMaxVolForLeverage defaultMaxVol getVol c =
     (let refPrice = cand_ExecutionRefPrice c; calculatedMax = getVol (c_Leverage c) refPrice;
          maxVol = (if f_pos refPrice \<and> 0 < calculatedMax then calculatedMax else defaultMaxVol)
      in c\<lparr>c_Spec := (c_Spec c)\<lparr>cs_MaxVol := maxVol\<rparr>\<rparr>)"

subsection \<open>Candidates\<close>

definition ToTradeConfig :: "SymbolConfig \<Rightarrow> TradeConfig" where
  "ToTradeConfig sc = \<lparr>tg_AccountID = sy_AccountID sc, tg_Symbol = sy_Symbol sc, tg_Exchange = sy_Exchange sc,
     tg_SimulateSettle = sy_SimulateSettle sc, tg_MaxPriceDiffPercent = sy_MaxPriceDiffPercent sc,
     tg_MarginUSDT = sy_MarginUSDT sc, tg_Leverage = sy_Leverage sc,
     tg_FundingReversion = sy_FundingReversion sc, tg_MinFundingRate = sy_MinFundingRate sc,
     tg_MinVol24USD = sy_MinVol24USD sc, tg_ParsedOpenType = sy_ParsedOpenType sc,
     tg_ParsedPositionMode = sy_ParsedPositionMode sc\<rparr>"

text \<open>The side comes from the exact rate, the candidate keeps the rate to three decimals.\<close>

definition build_candidate :: "'d dec_lib \<Rightarrow> SymbolConfig \<Rightarrow> string \<Rightarrow> MarketData \<Rightarrow> float64 \<Rightarrow> Candidate option" where
  "build_candidate L sc symbol market fundingRate =
     map_option (\<lambda>rate. \<lparr>c_Config = ToTradeConfig sc, c_Intent = sided_intent symbol rate (f_pos fundingRate),
        c_Spec = zero_spec, c_Market = market, c_Plan = zero_plan, c_SettleTime = 0\<rparr>)
       (TakeDecimalPlaces L fundingRate 3)"

record TickerData =
  td_Symbol :: string
  td_Volume24 :: float64
  td_AmountUSDT24 :: float64
  td_LastPrice :: float64
  td_BestBid :: float64
  td_BestAsk :: float64
  td_UpdatedAt :: gtime

definition cs_buildCandidate :: "'d dec_lib \<Rightarrow> SymbolConfig \<Rightarrow> TickerData \<Rightarrow> float64 \<Rightarrow> Candidate option" where
  "cs_buildCandidate L sc td = build_candidate L sc (td_Symbol td)
     \<lparr>md_LastPrice = td_LastPrice td, md_BestBid = td_BestBid td, md_BestAsk = td_BestAsk td,
      md_Volume24 = td_Volume24 td, md_Vol24USDT = turnover (td_AmountUSDT24 td) (td_Volume24 td) (td_LastPrice td)\<rparr>"

definition ss_buildCandidate :: "'d dec_lib \<Rightarrow> SymbolConfig \<Rightarrow> Ticker \<Rightarrow> float64 \<Rightarrow> Candidate option" where
  "ss_buildCandidate L sc td = build_candidate L sc (tk_Symbol td)
     \<lparr>md_LastPrice = tk_LastPrice td, md_BestBid = tk_Bid1 td, md_BestAsk = tk_Ask1 td,
      md_Volume24 = tk_Volume24 td, md_Vol24USDT = tk_AmountUSDT24 td\<rparr>"

definition matchTradeSide :: "string \<Rightarrow> Side \<Rightarrow> bool" where
  "matchTradeSide cfgSide candidateSide =
     (let tradeSide = to_lower (trim_space cfgSide) in
      if tradeSide = '''' \<or> tradeSide = ''both'' then True else to_lower (side_String candidateSide) = tradeSide)"

subsection \<open>Limits\<close>

definition validateCandidateSettleTime :: "Candidate \<Rightarrow> gtime \<Rightarrow> bool" where
  "validateCandidateSettleTime c now =
     (if is_zero_time (c_SettleTime c) then True
      else if \<not> now < c_SettleTime c then False
      else if now + 15 * minute < c_SettleTime c then False
      else True)"

definition validateCandidate24hVolume :: "Candidate \<Rightarrow> float64 \<Rightarrow> bool" where
  "validateCandidate24hVolume c minVol = (if f_pos minVol \<and> f_lt (c_Vol24USDT c) minVol then False else True)"

definition validateCandidateMaxSymbolPrice :: "Candidate \<Rightarrow> float64 \<Rightarrow> bool" where
  "validateCandidateMaxSymbolPrice c maxSymbolUSDTPrice =
     (let refPrice = cand_ExecutionRefPrice c in
      if f_pos refPrice \<and> f_pos maxSymbolUSDTPrice \<and> f_lt maxSymbolUSDTPrice refPrice then False else True)"

definition checkCandidatePreAllocationSafetyLimits :: "Candidate \<Rightarrow> float64 \<Rightarrow> float64 \<Rightarrow> gtime \<Rightarrow> bool" where
  "checkCandidatePreAllocationSafetyLimits c minVol maxSymbolUSDTPrice now \<longleftrightarrow>
     validateCandidateSettleTime c now \<and> validateCandidate24hVolume c minVol \<and>
     validateCandidateMaxSymbolPrice c maxSymbolUSDTPrice"

definition checkCandidateSafetyLimitsWithMinVol :: "Candidate \<Rightarrow> float64 \<Rightarrow> float64 \<Rightarrow> gtime \<Rightarrow> bool" where
  "checkCandidateSafetyLimitsWithMinVol c minVol maxSymbolUSDTPrice now =
     (if \<not> checkCandidatePreAllocationSafetyLimits c minVol maxSymbolUSDTPrice now then False
      else
        let refPrice = cand_ExecutionRefPrice c; maxSpend = f_mul (c_MarginUSDT c) (f_of_int (c_Leverage c));
            minTradeUSDT = f_mul (f_mul (f_of_int (cs_MinVol (c_Spec c))) refPrice) (c_ContractSize c)
        in if f_pos refPrice \<and> f_pos maxSpend \<and> f_lt maxSpend refPrice then False
           else if f_pos refPrice \<and> f_pos maxSpend \<and> f_lt maxSpend minTradeUSDT then False
           else True)"

definition checkCandidateSafetyLimits :: "Candidate \<Rightarrow> float64 \<Rightarrow> gtime \<Rightarrow> bool" where
  "checkCandidateSafetyLimits c maxSymbolUSDTPrice now =
     checkCandidateSafetyLimitsWithMinVol c (tg_MinVol24USD (c_Config c)) maxSymbolUSDTPrice now"

definition max_symbol_price :: "Config \<Rightarrow> string \<Rightarrow> float64" where
  "max_symbol_price cfg accountID = (case ReversionForAccount cfg accountID of
     None \<Rightarrow> f0 | Some rcfg \<Rightarrow> sf_MaxSymbolUSDTPrice (rc_Safety rcfg))"

subsection \<open>The job\<close>

text \<open>
  The answers while an opportunity is judged and triggered: the clocks of the engine's
  exchanges at the \<open>k\<close>-th look, the machine's own clock, the new identifiers, and the bus.
\<close>

record job_env =
  je_clock :: "nat \<Rightarrow> string \<Rightarrow> gtime option"
  je_wall :: "nat \<Rightarrow> gtime"
  je_client_order_id :: "string \<Rightarrow> string"
  je_req_id :: string
  je_event_id :: string
  je_bus :: "string option"

definition job_now :: "job_env \<Rightarrow> nat \<Rightarrow> string \<Rightarrow> gtime" where
  "job_now env k exch = (case je_clock env k exch of Some t \<Rightarrow> t | None \<Rightarrow> je_wall env k)"

definition checkSafetyLimits :: "Config \<Rightarrow> job_env \<Rightarrow> Candidate \<Rightarrow> bool" where
  "checkSafetyLimits cfg env c =
     checkCandidateSafetyLimits c (max_symbol_price cfg (tg_AccountID (c_Config c))) (job_now env 0 (tg_Exchange (c_Config c)))"

definition state_key :: "Candidate \<Rightarrow> string" where
  "state_key c = tg_AccountID (c_Config c) @ '':'' @ tg_Exchange (c_Config c) @ '':'' @ c_Symbol c"

definition blacklisted :: "Config \<Rightarrow> string \<Rightarrow> string \<Rightarrow> bool" where
  "blacklisted cfg exch symbol = (case cf_Blacklist cfg of None \<Rightarrow> False | Some b \<Rightarrow> IsBlacklisted b exch symbol)"

text \<open>The states map a key to its last triggered settlement; the zero time is that of a new state.\<close>

definition shouldTrigger ::
    "Config \<Rightarrow> job_env \<Rightarrow> Candidate \<Rightarrow> gtime \<Rightarrow> (string \<rightharpoonup> gtime) \<Rightarrow> bool \<times> (string \<rightharpoonup> gtime)" where
  "shouldTrigger cfg env c0 settle states =
     (let c = (if is_zero_time (c_SettleTime c0) then c0\<lparr>c_SettleTime := settle\<rparr> else c0);
          exch = tg_Exchange (c_Config c); now = job_now env 1 exch; key = state_key c;
          lastTriggerSettle = (case states key of None \<Rightarrow> 0 | Some t \<Rightarrow> t);
          states1 = states(key \<mapsto> lastTriggerSettle)
      in if f_lt (f_abs (c_FundingRate c)) (tg_MinFundingRate (c_Config c)) then (False, states)
         else if \<not> checkSafetyLimits cfg env c then (False, states)
         else if blacklisted cfg exch (c_Symbol c) then (False, states)
         else if now + 15 * minute < settle then (False, states)
         else if \<not> now < settle then (False, states)
         else if \<not> is_zero_time lastTriggerSettle \<and> \<not> lastTriggerSettle < settle then (False, states1)
         else (True, states1(key \<mapsto> settle)))"

definition trigger_event :: "job_env \<Rightarrow> Candidate \<Rightarrow> gtime \<Rightarrow> reversion_event" where
  "trigger_event env c0 settle =
     (let externalID = je_client_order_id env (tg_Exchange (c_Config c0));
          c = c0\<lparr>c_Intent := (c_Intent c0)\<lparr>ti_ExternalID := externalID\<rparr>\<rparr>
      in CandidateFound
           \<lparr>rb_Flow = FlowIDFundingReversion, rb_ReqID = je_req_id env, rb_AccountID = tg_AccountID (c_Config c),
            rb_Symbol = c_Symbol c, rb_Exchange = tg_Exchange (c_Config c), rb_OrderID = '''',
            rb_ExternalID = externalID, rb_Timestamp = job_now env 2 (tg_Exchange (c_Config c)),
            rb_EventID = je_event_id env, rb_Seq = 1, rb_Topic = TopicReversionCandidate, rb_PreviousTopic = '''',
            rb_SettleTime = settle, rb_Side = c_Side c, rb_FundingRate = c_FundingRate c,
            rb_Vol24hUSDT = c_Vol24USDT c, rb_ContractSize = c_ContractSize c\<rparr> c)"

text \<open>
  The scanners run side by side: \<open>shouldTrigger\<close> holds the mutex, so an opportunity is
  judged in one step (\<open>sj_claimed\<close> holds those to be triggered), and published in another.
\<close>

record scanner_job =
  sj_states :: "string \<rightharpoonup> gtime"
  sj_claimed :: "ScanOpportunity list"
  sj_published :: "reversion_event list"

definition NewScannerJob :: scanner_job where
  "NewScannerJob = \<lparr>sj_states = Map.empty, sj_claimed = [], sj_published = []\<rparr>"

definition claim :: "Config \<Rightarrow> job_env \<Rightarrow> ScanOpportunity \<Rightarrow> scanner_job \<Rightarrow> scanner_job" where
  "claim cfg env opp j = (case shouldTrigger cfg env (so_Candidate opp) (so_SettleTime opp) (sj_states j) of
     (hit, states) \<Rightarrow> j\<lparr>sj_states := states, sj_claimed := sj_claimed j @ (if hit then [opp] else [])\<rparr>)"

definition trigger :: "job_env \<Rightarrow> ScanOpportunity \<Rightarrow> scanner_job \<Rightarrow> scanner_job" where
  "trigger env opp j = j\<lparr>sj_claimed := remove1 opp (sj_claimed j),
     sj_published := sj_published j @ (case je_bus env of
       None \<Rightarrow> [trigger_event env (so_Candidate opp) (so_SettleTime opp)] | Some _ \<Rightarrow> [])\<rparr>"

inductive job_reach :: "Config \<Rightarrow> scanner_job \<Rightarrow> bool" for cfg where
  job_start: "job_reach cfg NewScannerJob"
| job_claim: "job_reach cfg j \<Longrightarrow> 0 \<le> job_now env 1 (tg_Exchange (c_Config (so_Candidate opp))) \<Longrightarrow>
    job_reach cfg (claim cfg env opp j)"
| job_trigger: "job_reach cfg j \<Longrightarrow> opp \<in> set (sj_claimed j) \<Longrightarrow> job_reach cfg (trigger env opp j)"

subsection \<open>The configured scanner\<close>

text \<open>\<open>GetNextSettleTime\<close>: \<open>parse\<close> is \<open>time.Parse\<close> for RFC 3339, \<open>wall\<close> the machine's clock.\<close>

definition GetNextSettleTime ::
    "(string \<Rightarrow> gtime option) \<Rightarrow> gtime \<Rightarrow> string \<Rightarrow> string \<Rightarrow> (string \<Rightarrow> string + gtime) \<Rightarrow> string + gtime" where
  "GetNextSettleTime parse wall simulateSettle symbol settle_of =
     (let from_store = (case settle_of symbol of Inl e \<Rightarrow> Inl (''settle time: '' @ e) | Inr st \<Rightarrow> Inr st) in
      if simulateSettle = '''' then from_store
      else case parse simulateSettle of
        None \<Rightarrow> Inl (''invalid simulateSettle datetime '' @ quoted simulateSettle)
      | Some sim \<Rightarrow> if wall + minute < sim then Inr sim else from_store)"

text \<open>The stores of an exchange; the contract is read more than once.\<close>

record store_set =
  ss_settle :: "string \<Rightarrow> string + gtime"
  ss_ticker :: "(string \<Rightarrow> string + TickerData) option"
  ss_funding :: "string \<Rightarrow> string + float64"
  ss_contract :: "(nat \<Rightarrow> string \<Rightarrow> string + ContractData) option"

record 'd scan_env =
  sn_dec :: "'d dec_lib"
  sn_parse :: "string \<Rightarrow> gtime option"
  sn_wall :: gtime
  sn_disabled :: "string \<Rightarrow> bool"
  sn_stores :: "string \<rightharpoonup> store_set"
  sn_account_client :: "string \<Rightarrow> leverage_client option option"
  sn_exchange_client :: "string \<Rightarrow> leverage_client option"

definition resolveStoreSet :: "'d scan_env \<Rightarrow> Config \<Rightarrow> SymbolConfig \<Rightarrow> store_set option" where
  "resolveStoreSet env cfg sc =
     (if sn_disabled env (sy_Symbol sc) then None
      else if blacklisted cfg (sy_Exchange sc) (sy_Symbol sc) then None
      else sn_stores env (sy_Exchange sc))"

definition resolveClient :: "'d scan_env \<Rightarrow> string \<Rightarrow> string \<Rightarrow> leverage_client option" where
  "resolveClient env accountID exchangeName =
     (case (if accountID = '''' then None else sn_account_client env accountID) of
        Some client \<Rightarrow> client | None \<Rightarrow> sn_exchange_client env exchangeName)"

definition enrich :: "(nat \<Rightarrow> string \<Rightarrow> string + ContractData) option \<Rightarrow> Candidate \<Rightarrow> Candidate option" where
  "enrich contracts c = (case contracts of
     None \<Rightarrow> None
   | Some get \<Rightarrow> (case get 0 (c_Symbol c) of
       Inl _ \<Rightarrow> None
     | Inr cd \<Rightarrow> Some (updateMaxVolForLeverage (cd_MaxVol cd) (GetMaxVolForLeverage cd) (c\<lparr>c_Spec := contract_spec cd\<rparr>))))"

text \<open>The leverage of the client, the volume limit at that leverage, and the volume.\<close>

definition size_candidate ::
    "'d dec_lib \<Rightarrow> leverage_client option \<Rightarrow> ContractData option \<Rightarrow> Candidate \<Rightarrow> Candidate option" where
  "size_candidate L client contract c =
     (let c1 = set_Leverage (DetermineCandidateLeverage client (Some c)) c;
          c2 = (case contract of
            None \<Rightarrow> c1 | Some cd \<Rightarrow> updateMaxVolForLeverage (cd_MaxVol cd) (GetMaxVolForLeverage cd) c1)
      in map_option (\<lambda>v. set_Volume v c2) (cand_CalculateVolume L c2))"

definition fetchCandidate ::
    "'d scan_env \<Rightarrow> Config \<Rightarrow> SymbolConfig \<Rightarrow> store_set \<Rightarrow> ScanOpportunity option option" where
  "fetchCandidate env cfg sc stores =
     (case GetNextSettleTime (sn_parse env) (sn_wall env) (sy_SimulateSettle sc) (sy_Symbol sc) (ss_settle stores) of
        Inl _ \<Rightarrow> Some None
      | Inr settle \<Rightarrow> (case ss_ticker stores of
          None \<Rightarrow> Some None
        | Some tickers \<Rightarrow> (case tickers (sy_Symbol sc) of
            Inl _ \<Rightarrow> Some None
          | Inr td \<Rightarrow> (case ss_funding stores (sy_Symbol sc) of
              Inl _ \<Rightarrow> Some None
            | Inr rate \<Rightarrow> do {
                c0 \<leftarrow> cs_buildCandidate (sn_dec env) sc td rate;
                case ReversionForAccount cfg (sy_AccountID sc) of
                  None \<Rightarrow> Some None
                | Some rcfg \<Rightarrow>
                    if \<not> matchTradeSide (rc_TradeSide rcfg) (c_Side c0) then Some None
                    else (case enrich (ss_contract stores) (c0\<lparr>c_SettleTime := settle\<rparr>) of
                        None \<Rightarrow> Some None
                      | Some c1 \<Rightarrow>
                          let contract = (case ss_contract stores of
                                Some get \<Rightarrow> (case get 1 (c_Symbol c1) of Inr cd \<Rightarrow> Some cd | Inl _ \<Rightarrow> None)
                              | None \<Rightarrow> None);
                              client = resolveClient env (sy_AccountID sc) (sy_Exchange sc)
                          in map_option (\<lambda>c. Some \<lparr>so_Candidate = c, so_SettleTime = settle\<rparr>)
                               (size_candidate (sn_dec env) client contract c1)) }))))"

fun scan_symbols :: "'d scan_env \<Rightarrow> Config \<Rightarrow> SymbolConfig list \<Rightarrow> ScanOpportunity list option" where
  "scan_symbols env cfg [] = Some []"
| "scan_symbols env cfg (sc # scs) = do {
     opp \<leftarrow> (case resolveStoreSet env cfg sc of None \<Rightarrow> Some None | Some stores \<Rightarrow> fetchCandidate env cfg sc stores);
     more \<leftarrow> scan_symbols env cfg scs;
     Some ((case opp of None \<Rightarrow> [] | Some x \<Rightarrow> [x]) @ more) }"

definition configured_Scan :: "'d scan_env \<Rightarrow> Config \<Rightarrow> string list \<Rightarrow> ScanOpportunity list option" where
  "configured_Scan env cfg account_order = scan_symbols env cfg
     (concat (map (\<lambda>a. case cf_Accounts cfg a of
        None \<Rightarrow> [] | Some acc \<Rightarrow> if \<not> ab_Enabled acc \<or> \<not> ab_Configured acc then [] else ab_Symbols acc) account_order))"

subsection \<open>The scheduled scanner\<close>

record PotentialFundingResult =
  pf_Symbol :: string
  pf_Rate :: float64
  pf_SettleTime :: int

text \<open>
  What one run of \<open>Scan\<close> sees: \<open>sc_now\<close> is the scanner's clock at the \<open>k\<close>-th candidate; the
  client answers the potential symbols (given the minimal volume and the blacklist), the
  tickers and the contracts.
\<close>

record 'd schedule_env =
  sc_dec :: "'d dec_lib"
  sc_account :: string
  sc_exchange :: string
  sc_disabled :: "string \<Rightarrow> bool"
  sc_client :: leverage_client
  sc_now :: "nat \<Rightarrow> gtime"
  sc_potential :: "float64 \<Rightarrow> string list \<Rightarrow> string + PotentialFundingResult list"
  sc_tickers :: "string + Ticker list"
  sc_contracts :: "string + ContractDetail list"

text \<open>\<open>time.UnixMilli\<close>: the Unix epoch is 62135596800 seconds after the zero time.\<close>

definition unix_milli :: "int \<Rightarrow> gtime" where
  "unix_milli ms = 62135596800 * second + ms * millisecond"

text \<open>The last entry of a symbol, as the source's map keeps it.\<close>

definition by_symbol :: "('a \<Rightarrow> string) \<Rightarrow> 'a list \<Rightarrow> string \<rightharpoonup> 'a" where
  "by_symbol symbol xs = map_of (List.rev (map (\<lambda>x. (symbol x, x)) xs))"

definition resolveExchangeReversionConfig :: "Config \<Rightarrow> string \<Rightarrow> string \<Rightarrow> ExchangeReversionConfig option" where
  "resolveExchangeReversionConfig cfg accountID exch =
     Option.bind (ReversionForAccount cfg accountID) (\<lambda>rcfg. rc_Exchanges rcfg exch)"

definition resolveTotalMarginAndMaxCandidate :: "Config \<Rightarrow> string \<Rightarrow> string \<Rightarrow> float64 \<times> int \<times> float64" where
  "resolveTotalMarginAndMaxCandidate cfg accountID exch = (case ReversionForAccount cfg accountID of
     None \<Rightarrow> (f0, 0, f0)
   | Some rcfg \<Rightarrow> let e = exchange_settings rcfg exch in
       (er_MarginUSD e, er_MaxCandidateTrade e, er_MaxMarginUSDOfCandidate e))"

definition resolveScoringWeights :: "Config \<Rightarrow> string \<Rightarrow> string \<Rightarrow> float64 \<times> float64 \<times> float64" where
  "resolveScoringWeights cfg accountID exch = (case ReversionForAccount cfg accountID of
     None \<Rightarrow> (f0, f0, f0)
   | Some rcfg \<Rightarrow> let e = exchange_settings rcfg exch in
       (er_ScoringRateWeight e, er_ScoringVolumeWeight e, er_MaxVolumeScore e))"

definition resolveMaxImpactRatio :: "Config \<Rightarrow> string \<Rightarrow> float64" where
  "resolveMaxImpactRatio cfg accountID = (case ReversionForAccount cfg accountID of
     None \<Rightarrow> f0 | Some rcfg \<Rightarrow> sf_MaxImpactRatio (rc_Safety rcfg))"

definition resolveMinVol24USD :: "Config \<Rightarrow> string \<Rightarrow> string \<Rightarrow> float64" where
  "resolveMinVol24USD cfg accountID exch = (case ReversionForAccount cfg accountID of
     None \<Rightarrow> f0
   | Some rcfg \<Rightarrow> (case resolveExchangeReversionConfig cfg accountID exch of
       Some e \<Rightarrow> if f_pos (er_MinVol24USD e) then er_MinVol24USD e else er_MinVol24USD (rc_Default rcfg)
     | None \<Rightarrow> er_MinVol24USD (rc_Default rcfg)))"

definition isValidCandidate :: "Config \<Rightarrow> string \<Rightarrow> string \<Rightarrow> gtime \<Rightarrow> Candidate \<Rightarrow> bool" where
  "isValidCandidate cfg accountID exch now c =
     checkCandidatePreAllocationSafetyLimits c (resolveMinVol24USD cfg accountID exch) (max_symbol_price cfg accountID) now"

definition processResult ::
    "'d schedule_env \<Rightarrow> Config \<Rightarrow> (string \<rightharpoonup> Ticker) \<Rightarrow> (string \<rightharpoonup> ContractDetail) \<Rightarrow> PotentialFundingResult \<Rightarrow>
     ScanOpportunity option option" where
  "processResult env cfg tickerMap contracts r =
     (if sc_disabled env (pf_Symbol r) then Some None
      else case NewAccountSymbolConfig cfg (sc_account env) (sc_exchange env) (pf_Symbol r) of
        None \<Rightarrow> Some None
      | Some symCfg \<Rightarrow>
          if f_lt (f_abs (pf_Rate r)) (sy_MinFundingRate symCfg) then Some None
          else (case tickerMap (pf_Symbol r) of
              None \<Rightarrow> Some None
            | Some td \<Rightarrow> (case contracts (pf_Symbol r) of
                None \<Rightarrow> Some None
              | Some cd \<Rightarrow> do {
                  c0 \<leftarrow> ss_buildCandidate (sc_dec env) symCfg td (pf_Rate r);
                  let tradeSide = (case ReversionForAccount cfg (sc_account env) of None \<Rightarrow> '''' | Some rcfg \<Rightarrow> rc_TradeSide rcfg);
                      settleTime = (if 0 < pf_SettleTime r then unix_milli (pf_SettleTime r) else 0) in
                  if \<not> matchTradeSide tradeSide (c_Side c0) then Some None
                  else map_option (\<lambda>c. Some \<lparr>so_Candidate = c, so_SettleTime = settleTime\<rparr>)
                    (size_candidate (sc_dec env) (Some (sc_client env)) (Some cd)
                       (c0\<lparr>c_SettleTime := settleTime, c_Spec := contract_spec cd\<rparr>)) })))"

fun process_results ::
    "'d schedule_env \<Rightarrow> Config \<Rightarrow> (string \<rightharpoonup> Ticker) \<Rightarrow> (string \<rightharpoonup> ContractDetail) \<Rightarrow> nat \<Rightarrow>
     PotentialFundingResult list \<Rightarrow> ScanOpportunity list option" where
  "process_results env cfg tickerMap contracts k [] = Some []"
| "process_results env cfg tickerMap contracts k (r # rs) = do {
     opp \<leftarrow> processResult env cfg tickerMap contracts r;
     more \<leftarrow> process_results env cfg tickerMap contracts (Suc k) rs;
     Some ((case opp of
         None \<Rightarrow> []
       | Some x \<Rightarrow> if isValidCandidate cfg (sc_account env) (sc_exchange env) (sc_now env k) (so_Candidate x)
                   then [x] else []) @ more) }"

text \<open>The comparison of \<open>selectBestOpportunities\<close>.\<close>

definition better_candidate :: "float64 \<times> float64 \<times> float64 \<Rightarrow> Candidate \<Rightarrow> Candidate \<Rightarrow> bool" where
  "better_candidate weights a b = (case weights of (rateWeight, volWeight, maxVolScore) \<Rightarrow>
     let score = (\<lambda>c. CalculateOpportunityScore (c_FundingRate c) (c_Vol24USDT c) rateWeight volWeight maxVolScore);
         rate = (\<lambda>c. f_abs (c_FundingRate c))
     in if \<not> f_eq (score a) (score b) then f_lt (score b) (score a)
        else if \<not> f_eq (rate a) (rate b) then f_lt (rate b) (rate a)
        else f_lt (c_Vol24USDT b) (c_Vol24USDT a))"

definition allocateCandidateMargins ::
    "'d schedule_env \<Rightarrow> Config \<Rightarrow> ScanOpportunity list \<Rightarrow> float64 \<Rightarrow> float64 \<Rightarrow> ScanOpportunity list option" where
  "allocateCandidateMargins env cfg selected totalMarginUSD maxCandidateMargin =
     (if selected = [] then Some []
      else map_option (\<lambda>allocated.
          let candMap = by_symbol (\<lambda>c. c_Symbol c) allocated in
          concat (map (\<lambda>opp. case candMap (c_Symbol (so_Candidate opp)) of
             None \<Rightarrow> [] | Some updated \<Rightarrow> [opp\<lparr>so_Candidate := updated\<rparr>]) selected))
        (AllocateMargins (sc_dec env) (map so_Candidate selected) totalMarginUSD maxCandidateMargin
           (resolveMaxImpactRatio cfg (sc_account env)) (Some (sc_client env))))"

text \<open>A negative limit is a slice bound out of range, the panic None.\<close>

definition selectBestOpportunities ::
    "'d schedule_env \<Rightarrow> Config \<Rightarrow> ScanOpportunity list \<Rightarrow> ScanOpportunity list option" where
  "selectBestOpportunities env cfg opportunities =
     (if opportunities = [] then Some []
      else case resolveTotalMarginAndMaxCandidate cfg (sc_account env) (sc_exchange env) of
        (totalMarginUSD, maxCandidate, maxCandidateMargin) \<Rightarrow>
          let weights = resolveScoringWeights cfg (sc_account env) (sc_exchange env);
              ranked = stable_sort (\<lambda>a b. better_candidate weights (so_Candidate a) (so_Candidate b)) opportunities;
              numToTrade = min (int (length opportunities)) maxCandidate
          in if numToTrade = 0 then Some []
             else if numToTrade < 0 then None
             else allocateCandidateMargins env cfg (take (nat numToTrade) ranked) totalMarginUSD maxCandidateMargin)"

definition scan_blacklist :: "'d schedule_env \<Rightarrow> Config \<Rightarrow> string list" where
  "scan_blacklist env cfg = (case cf_Blacklist cfg of
     None \<Rightarrow> [] | Some b \<Rightarrow> GetCommonBlacklist b @ GetExchangeBlacklist b (sc_exchange env))"

definition schedule_Scan :: "'d schedule_env \<Rightarrow> Config \<Rightarrow> (string + ScanOpportunity list) option" where
  "schedule_Scan env cfg =
     (let minVol = resolveMinVol24USD cfg (sc_account env) (sc_exchange env)
      in case sc_potential env minVol (scan_blacklist env cfg) of
        Inl e \<Rightarrow> Some (Inl (''failed to get potential funding symbols: '' @ e))
      | Inr results \<Rightarrow>
          if results = [] then Some (Inr [])
          else (case sc_tickers env of
            Inl e \<Rightarrow> Some (Inl (''failed to get tickers: '' @ e))
          | Inr tickers \<Rightarrow> (case sc_contracts env of
              Inl e \<Rightarrow> Some (Inl (''failed to get contract details: '' @ e))
            | Inr details \<Rightarrow> do {
                opportunities \<leftarrow> process_results env cfg (by_symbol tk_Symbol tickers) (by_symbol cd_Symbol details) 0 results;
                map_option Inr (selectBestOpportunities env cfg opportunities) })))"

end
