(* ===== verification/FundingReversionLaws.thy ===== *)
theory FundingReversionLaws
  imports FundingReversion
begin

text \<open>
  What a run of the reversion handlers can publish. \<open>emits P m\<close> says that every effect the
  action adds satisfies P; the rules go through the actions the handlers are made of. The
  flow of a candidate is every event that follows from it, whatever the world answers in
  between and however often a message is delivered.
\<close>

subsection \<open>The effects of an action\<close>

definition emits :: "(rv_effect \<Rightarrow> bool) \<Rightarrow> (rv_effect list, 'a) state \<Rightarrow> bool" where
  "emits P m \<longleftrightarrow> (\<forall>s. \<exists>l. snd (run_state m s) = s @ l \<and> list_all P l)"

lemma emits_ret [intro!, simp]: "emits P (ret x)"
  by (simp add: emits_def)

lemma emits_emit [simp]: "emits P (emit e) \<longleftrightarrow> P e"
  by (simp add: emits_def emit_def modify_def)

lemma emits_bind [intro]:
  assumes "emits P m" "\<And>x. emits P (f x)"
  shows "emits P (m \<bind> f)"
  unfolding emits_def
proof
  fix s
  obtain x t where m: "run_state m s = (x, t)" by fastforce
  then obtain l where l: "t = s @ l" "list_all P l" using assms(1) by (metis emits_def snd_conv)
  obtain l' where "snd (run_state (f x) t) = t @ l'" "list_all P l'" using assms(2) emits_def by metis
  with l m show "\<exists>l. snd (run_state (m \<bind> f) s) = s @ l \<and> list_all P l"
    by (intro exI [of _ "l @ l'"]) simp
qed

lemma and_then_ret [simp]: "and_then (ret (Inl e)) f = ret (Inl e)" "and_then (ret (Inr x)) f = f x"
  by (simp_all add: and_then_def)

lemma emits_and_then [intro]: "emits P m \<Longrightarrow> (\<And>x. emits P (f x)) \<Longrightarrow> emits P (and_then m f)"
  unfolding and_then_def by (rule emits_bind) (auto split: sum.split)

lemma and_then_bind: "and_then (m \<bind> g) f = m \<bind> (\<lambda>x. and_then (g x) f)"
  by (simp add: and_then_def)

lemma emits_decimal: "(\<And>v. x = Some v \<Longrightarrow> emits P (f v)) \<Longrightarrow> emits P (and_then (rv_decimal x) f)"
  by (cases x) (simp_all add: rv_decimal_def)

text \<open>The effects a stage may have: what is published, what is dispatched, and anything else.\<close>

fun allows :: "(reversion_event \<Rightarrow> bool) \<Rightarrow> (intent_event \<Rightarrow> bool) \<Rightarrow> rv_effect \<Rightarrow> bool" where
  "allows Q R (Published _ e) = Q e"
| "allows Q R (Dispatched it) = R it"
| "allows Q R _ = True"

lemma emits_publish: "Q (stampEventTrace (rv_event_id env) topic e) \<Longrightarrow> emits (allows Q R) (rv_publishEvent env topic e)"
  unfolding rv_publishEvent_def by (auto split: option.split)

lemma stamp_simps [simp]:
  "stampEventTrace i t (ReversionAbort b r) = ReversionAbort (b\<lparr>rb_EventID := (if rb_EventID b = [] then i else rb_EventID b), rb_Topic := t\<rparr>) r"
  by (simp add: stampEventTrace_def Let_def)

definition aborts :: "(reversion_event \<Rightarrow> bool) \<Rightarrow> bool" where
  "aborts Q \<longleftrightarrow> (\<forall>b r. Q (ReversionAbort b r))"

lemma emits_abort: "aborts Q \<Longrightarrow> emits (allows Q R) (abortAfter env b symbol why)"
  unfolding abortAfter_def aborts_def by (intro emits_bind emits_publish) auto

lemma emits_or_abort:
  assumes "aborts Q" "\<And>v. r = Inr v \<Longrightarrow> emits (allows Q R) (f v)"
  shows "emits (allows Q R) (and_then (or_abort env b symbol why r) f)"
proof (cases r)
  case (Inl e)
  then have "and_then (or_abort env b symbol why r) f =
      rv_publishEvent env TopicReversionAbort (ReversionAbort (nextReversionBase b symbol (rv_now env)) (why e)) \<bind>
      (\<lambda>_. ret (Inl (Aborted (why e))))"
    by (simp add: or_abort_def abortAfter_def and_then_bind)
  also have "emits (allows Q R) \<dots>" using assms(1) unfolding aborts_def by (intro emits_bind emits_publish) auto
  finally show ?thesis .
next
  case (Inr v)
  with assms(2) show ?thesis by (simp add: or_abort_def)
qed

lemma emits_sync [simp]: "emits (allows Q R) (sync_now env)"
  by (simp add: sync_now_def)

lemma emits_wait [simp]: "emits (allows Q R) (waitForFreshPrice env symbol)"
  unfolding waitForFreshPrice_def by (auto split: sum.split intro!: emits_bind)

lemma effects_of: "emits P (handle_reversion env e) \<Longrightarrow> x \<in> set (reversion_effects env e) \<Longrightarrow> P x"
  unfolding emits_def reversion_effects_def by (metis append_Nil list_all_iff)

subsection \<open>What every event keeps\<close>

definition kept_base :: "BaseReversionEvent \<Rightarrow> BaseReversionEvent \<Rightarrow> bool" where
  "kept_base b b' \<longleftrightarrow> rb_ReqID b' = rb_ReqID b \<and> rb_AccountID b' = rb_AccountID b \<and> rb_Exchange b' = rb_Exchange b \<and>
     rb_ExternalID b' = rb_ExternalID b \<and> rb_SettleTime b' = rb_SettleTime b"

definition kept :: "Candidate \<Rightarrow> Candidate \<Rightarrow> bool" where
  "kept c c' \<longleftrightarrow> c_Config c' = c_Config c \<and> c_Intent c' = c_Intent c \<and> c_Spec c' = c_Spec c"

lemma kept_base_next [simp]:
  "kept_base b (nextReversionBase b' s t) = kept_base b b'" "kept_base b (b'\<lparr>rb_EventID := i, rb_Topic := t'\<rparr>) = kept_base b b'"
  "kept_base b (b'\<lparr>rb_FundingRate := r\<rparr>) = kept_base b b'" "kept_base b b"
  by (simp_all add: kept_base_def nextReversionBase_def)

lemma kept_simps [simp]:
  "kept c c" "kept c (set_Volume v c') = kept c c'" "kept c (set_prices x y z c') = kept c c'"
  "kept c (set_SafetyResult r c') = kept c c'" "kept c (c'\<lparr>c_Plan := pl\<rparr>) = kept c c'" "kept c (with_turnover c') = kept c c'"
  by (simp_all add: kept_def set_Volume_def set_prices_def set_SafetyResult_def with_turnover_def)

lemma kept_refresh: "refreshPrice env c = Inr c' \<Longrightarrow> kept c c'"
  by (auto simp: refreshPrice_def rest_price_def split: sum.splits option.splits if_splits list.splits)

lemma kept_slippage: "with_slippage L ioc c = Some c' \<Longrightarrow> kept c c'"
  by (auto simp: with_slippage_def Let_def bind_eq_Some_conv split: if_splits)

lemma EvaluateSafety_candidate: "EvaluateSafety L limits c = Some (r, c') \<Longrightarrow> c' = with_turnover c"
  unfolding EvaluateSafety_def Let_def
  by (auto simp: bind_eq_Some_conv split: if_splits)

lemma ApplySafetySizing_cases:
  assumes "ApplySafetySizing L limits c = Some (r, c')"
  obtains r1 where "EvaluateSafety L limits c = Some (r1, with_turnover c)" "\<not> sr_Passed r" "c' = with_turnover c"
  | r1 where "EvaluateSafety L limits c = Some (r1, with_turnover c)" "sr_Passed r1"
      "\<not> f_le (cand_ExecutionRefPrice (with_turnover c)) f0"
      "resize L r1 (cand_ExecutionRefPrice (with_turnover c)) (with_turnover c) = Some c'"
      "check_sized L r1 (cand_ExecutionRefPrice (with_turnover c)) c' = Some r"
proof -
  obtain r1 c1 where e: "EvaluateSafety L limits c = Some (r1, c1)"
    using assms by (cases "EvaluateSafety L limits c") (auto simp: ApplySafetySizing_def)
  have c1: "c1 = with_turnover c" by (rule EvaluateSafety_candidate [OF e])
  show thesis
    using assms that e unfolding ApplySafetySizing_def c1
    by (auto simp: e c1 Let_def bind_eq_Some_conv reject_def split: if_splits)
qed

lemma resize_candidate: "resize L r p c = Some c' \<Longrightarrow> \<exists>v. c' = c \<or> c' = set_Volume v c"
  by (auto simp: resize_def split: if_splits)

lemma sizing_candidate:
  "ApplySafetySizing L limits c = Some (r, c') \<Longrightarrow> \<exists>v. c' = with_turnover c \<or> c' = set_Volume v (with_turnover c)"
  by (erule ApplySafetySizing_cases) (auto dest: resize_candidate)

lemma kept_sizing: "ApplySafetySizing L limits c = Some (r, c') \<Longrightarrow> kept c c'"
  using sizing_candidate by fastforce

lemma kept_depth: "checkDepthImbalance env c = Some c' \<Longrightarrow> kept c c'"
  by (auto simp: checkDepthImbalance_def split: sum.splits)

lemma kept_trans: "kept a b \<Longrightarrow> kept b c \<Longrightarrow> kept a c"
  by (simp add: kept_def)

subsection \<open>One handler\<close>

fun stage :: "reversion_event \<Rightarrow> nat" where
  "stage (CandidateFound _ _) = 0"
| "stage (ArmMarketReady _ _ _) = 1"
| "stage (ArmPlanCalculated _ _ _ _) = 2"
| "stage (SafetyChecked _ _ _ _ _ _ _) = 3"
| "stage (Armed _ _) = 4"
| "stage (WaitComplete _ _) = 5"
| "stage (Confirmed _ _) = 6"
| "stage (MarginModeReady _ _) = 7"
| "stage (FireTimingReady _ _ _ _ _) = 8"
| "stage (FirePlanChecked _ _ _) = 9"
| "stage (ReversionAbort _ _) = 10"

text \<open>The plan: the price and the sizing of the candidate with its fresh prices.\<close>

definition fresh_prices :: "'d rv_env \<Rightarrow> Candidate \<Rightarrow> bool" where
  "fresh_prices env c \<longleftrightarrow> (\<exists>c0 c1. refreshPrice env c0 = Inr c1 \<and> c_BestBid c = c_BestBid c1 \<and> c_BestAsk c = c_BestAsk c1)"

definition planned :: "'d rv_env \<Rightarrow> Candidate \<Rightarrow> plan \<Rightarrow> bool" where
  "planned env c' p \<longleftrightarrow> fresh_prices env c' \<and> (\<exists>c0 sr c4. cand_CalculateIOCPrice (rv_dec env) c0 = Some (Inr (pn_IOCPrice p)) \<and>
     ApplySafetySizing (rv_dec env) (safety_limits env c') c0 = Some (sr, c4) \<and> c' = set_SafetyResult sr c4 \<and>
     pn_Passed p = sr_Passed sr \<and> pn_AdjustedVolume p = c_Volume c')"

fun checked :: "'d rv_env \<Rightarrow> reversion_event \<Rightarrow> reversion_event \<Rightarrow> bool" where
  "checked env (SafetyChecked _ _ _ _ _ passed _) e' = passed"
| "checked env (WaitComplete b c) e' = (\<exists>fr. recheck_rate c (rv_rates env) = Inr fr \<and> rb_FundingRate (re_base e') = fr)"
| "checked env (Confirmed b c) e' = (\<not> is_zero_time (rb_SettleTime b) \<and>
     \<not> (0 < fv_MaxLatency (c_Reversion c) \<and> fv_MaxLatency (c_Reversion c) < i64 (rv_latency env * millisecond)))"
| "checked env (FireTimingReady b c l f s) e' =
     (\<exists>p. e' = FirePlanChecked (re_base e') (re_cand e') p \<and> planned env (re_cand e') p \<and> rb_Symbol (re_base e') = c_Symbol c)"
| "checked env _ e' = True"

definition follows :: "'d rv_env \<Rightarrow> reversion_event \<Rightarrow> reversion_event \<Rightarrow> bool" where
  "follows env e e' \<longleftrightarrow> stage e' = 10 \<or>
     stage e' = Suc (stage e) \<and> kept_base (re_base e) (re_base e') \<and> kept (re_cand e) (re_cand e') \<and> checked env e e'"

fun fired :: "'d rv_env \<Rightarrow> reversion_event \<Rightarrow> intent_event \<Rightarrow> bool" where
  "fired env (FirePlanChecked b c p) it = (pn_Passed p \<and> (\<exists>tp sl.
     CalculateOrderTPSL (rv_dec env) c (pn_IOCPrice p) = Some (tp, sl) \<and>
     it = order_intent env b c p (rb_SettleTime b - i64 (pn_FireOffsetMs p * millisecond)) tp sl))"
| "fired env _ it = False"

lemma aborts_follows [simp]: "aborts (follows env e)"
  by (simp add: aborts_def follows_def)

lemmas emits_rules = emits_bind emits_and_then emits_decimal emits_or_abort emits_publish emits_abort emits_ret

lemma handler_early:
  "emits (allows (follows env (CandidateFound b c)) R) (handleArm env b c)"
  "emits (allows (follows env (ArmMarketReady b c w)) R) (handleArmMarketReady env b c)"
  "emits (allows (follows env (ArmPlanCalculated b c i r)) R) (handleArmPlanCalculated env b c i r)"
  "emits (allows (follows env (SafetyChecked b c i r v passed why)) R) (handleSafetyChecked env b c passed why)"
  "emits (allows (follows env (Armed b c)) R) (handleWait env b c)"
proof -
  show "emits (allows (follows env (CandidateFound b c)) R) (handleArm env b c)"
    unfolding handleArm_def
    by (intro emits_rules) (auto simp: or_abort_def follows_def stampEventTrace_def Let_def kept_refresh
        split: option.split sum.split intro!: emits_bind emits_abort)
  show "emits (allows (follows env (ArmMarketReady b c w)) R) (handleArmMarketReady env b c)"
    unfolding handleArmMarketReady_def Let_def
    by (intro emits_rules) (auto simp: follows_def stampEventTrace_def Let_def kept_slippage)
  show "emits (allows (follows env (ArmPlanCalculated b c i r)) R) (handleArmPlanCalculated env b c i r)"
    unfolding handleArmPlanCalculated_def Let_def
    by (intro emits_rules) (auto simp: follows_def stampEventTrace_def Let_def kept_sizing intro!: emits_publish)
  show "emits (allows (follows env (SafetyChecked b c i r v passed why)) R) (handleSafetyChecked env b c passed why)"
    unfolding handleSafetyChecked_def
    by (auto simp: follows_def stampEventTrace_def Let_def intro!: emits_publish emits_abort)
  show "emits (allows (follows env (Armed b c)) R) (handleWait env b c)"
    unfolding handleWait_def Let_def
    by (auto simp: follows_def stampEventTrace_def Let_def intro!: emits_publish emits_or_abort)
qed

lemma handler_wait_complete:
  "emits (allows (follows env (WaitComplete b c)) R) (handleRecheck env b c)"
  unfolding handleRecheck_def
  by (intro emits_rules) (auto simp: follows_def stampEventTrace_def Let_def kept_depth)

lemma handler_confirmed:
  "emits (allows (follows env (Confirmed b c)) R) (handleFireIOC env b c)"
  unfolding handleFireIOC_def
  by (auto simp: follows_def stampEventTrace_def Let_def intro!: emits_publish emits_abort)

lemma emits_set_leverage: "aborts Q \<Longrightarrow> emits (allows Q R) (set_leverage env b c)"
  unfolding set_leverage_def or_abort_def
  by (auto split: sum.split intro!: emits_bind emits_abort)

lemma handler_margin:
  "emits (allows (follows env (MarginModeReady b c)) R) (handleMarginModeReady env b c)"
proof -
  have switch: "emits (allows (follows env (MarginModeReady b c)) R)
      (case rv_switch_position env of None \<Rightarrow> ret (Inr ())
       | Some err \<Rightarrow> do {
           _ \<leftarrow> emit (SwitchedPosition (rb_Symbol b) (tg_ParsedPositionMode (c_Config c)));
           or_abort env b (rb_Symbol b) SwitchPositionFailed (err_of err) })"
    by (auto simp: or_abort_def split: option.split sum.split intro!: emits_bind emits_abort)
  show ?thesis
    unfolding handleMarginModeReady_def Let_def
    by (intro emits_bind emits_and_then emits_or_abort emits_set_leverage switch emits_publish aborts_follows)
      (auto simp: follows_def stampEventTrace_def Let_def)
qed

lemma handler_timing:
  "emits (allows (follows env (FireTimingReady b c l f s)) R) (handleFireTimingReady env b c l s)"
proof -
  have "follows env (FireTimingReady b c l f s)
      (stampEventTrace (rv_event_id env) TopicReversionFirePlanChecked
        (FirePlanChecked (nextReversionBase b (c_Symbol (set_SafetyResult sr c4)) (rv_now env)) (set_SafetyResult sr c4) p))"
    if "refreshPrice env c = Inr c1" "cand_CalculateIOCPrice (rv_dec env) (set_Volume v c1) = Some (Inr (pn_IOCPrice p))"
      "with_slippage (rv_dec env) (pn_IOCPrice p) (set_Volume v c1) = Some c3"
      "ApplySafetySizing (rv_dec env) (safety_limits env c3) c3 = Some (sr, c4)" "pn_Passed p = sr_Passed sr"
      "pn_AdjustedVolume p = c_Volume (set_SafetyResult sr c4)"
    for c1 v c3 sr c4 p
  proof -
    have k: "kept c c3" using kept_refresh [OF that(1)] kept_slippage [OF that(3)] by (simp add: kept_def)
    then have k4: "kept c c4" using kept_sizing [OF that(4)] kept_trans by blast
    have "cand_CalculateIOCPrice (rv_dec env) c3 = Some (Inr (pn_IOCPrice p))"
      using that(2,3) by (auto simp: with_slippage_def Let_def bind_eq_Some_conv cand_CalculateIOCPrice_def split: if_splits)
    moreover have "safety_limits env (set_SafetyResult sr c4) = safety_limits env c3"
      using k k4 by (simp add: safety_limits_def kept_def set_SafetyResult_def)
    moreover have "c_Market c3 = c_Market c1"
      using that(3) by (auto simp: with_slippage_def Let_def bind_eq_Some_conv split: if_splits)
    then have "fresh_prices env (set_SafetyResult sr c4)"
      using that(1) sizing_candidate [OF that(4)] unfolding fresh_prices_def
      by (intro exI [of _ c] exI [of _ c1]) (auto simp: set_SafetyResult_def with_turnover_def)
    ultimately have "planned env (set_SafetyResult sr c4) p"
      using that(4-6) unfolding planned_def by metis
    with k4 show ?thesis
      by (simp add: follows_def stampEventTrace_def Let_def nextReversionBase_def kept_base_def)
        (simp add: kept_def set_SafetyResult_def)
  qed
  then show ?thesis
    unfolding handleFireTimingReady_def Let_def
    by (auto intro!: emits_bind emits_and_then emits_or_abort emits_decimal emits_publish)
qed

lemma handler_plan:
  "emits (allows (follows env (FirePlanChecked b c p)) (fired env (FirePlanChecked b c p))) (handleFirePlanChecked env b c p)"
  unfolding handleFirePlanChecked_def dispatchOrderManagerIntent_def
  by (auto split: option.split intro!: emits_bind emits_abort emits_decimal)

lemma handler_follows: "emits (allows (follows env e) (fired env e)) (handle_reversion env e)"
  by (cases e) (simp_all add: handler_early handler_wait_complete handler_confirmed handler_margin handler_timing handler_plan)

lemma effect_follows:
  "Published t e' \<in> set (reversion_effects env e) \<Longrightarrow> follows env e e'"
  "Dispatched it \<in> set (reversion_effects env e) \<Longrightarrow> fired env e it"
  using effects_of [OF handler_follows, of _ env e] by fastforce+

subsection \<open>A passed sizing\<close>

lemma reject_not_passed [simp]: "sr_Passed (reject w r) = False"
  by (simp add: reject_def)

lemma trade_safety:
  assumes "evaluateTradeSafety L c r = Some r'" "sr_Passed r'"
  shows "\<exists>n b. cand_NotionalForVolume L c (c_Volume c) (cand_ExecutionRefPrice c) = Some n \<and>
      cand_ReversionNotionalUSDT L c = Some b \<and> (f_pos b \<longrightarrow> \<not> f_lt (f_mul b (f64_of_rat (101 / 100))) n) \<and>
      \<not> f_lt (c_Volume c) (f_of_int (cs_MinVol (c_Spec c)))"
    "sr_MaxSafeNotionalUSDT r' = sr_MaxSafeNotionalUSDT r"
proof -
  obtain n b where nb: "cand_NotionalForVolume L c (c_Volume c) (cand_ExecutionRefPrice c) = Some n"
      "cand_ReversionNotionalUSDT L c = Some b"
    using assms(1) by (auto simp: evaluateTradeSafety_def bind_eq_Some_conv)
  have ok: "\<not> (f_pos b \<and> f_lt (f_mul b (f64_of_rat (101 / 100))) n)" "\<not> f_lt (c_Volume c) (f_of_int (cs_MinVol (c_Spec c)))"
    using assms nb by (auto simp: evaluateTradeSafety_def split: if_split_asm)
  then show "\<exists>n b. cand_NotionalForVolume L c (c_Volume c) (cand_ExecutionRefPrice c) = Some n \<and>
      cand_ReversionNotionalUSDT L c = Some b \<and> (f_pos b \<longrightarrow> \<not> f_lt (f_mul b (f64_of_rat (101 / 100))) n) \<and>
      \<not> f_lt (c_Volume c) (f_of_int (cs_MinVol (c_Spec c)))"
    using nb by blast
  show "sr_MaxSafeNotionalUSDT r' = sr_MaxSafeNotionalUSDT r"
    using assms(1) nb ok by (auto simp: evaluateTradeSafety_def Let_def bind_eq_Some_conv)
qed

lemma evaluated_safety:
  assumes "EvaluateSafety L limits c = Some (r, c')" "sr_Passed r"
  shows "\<not> (f_pos (sl_MinVol24USD limits) \<and> f_lt (c_Vol24USDT c') (sl_MinVol24USD limits))"
    "f_pos (c_Vol24USDT c') \<Longrightarrow> \<exists>avg. Div L (c_Vol24USDT c') (FFin 1440) = Some avg \<and>
       Mul L avg (sl_MaxImpactRatio limits) = Some (sr_MaxSafeNotionalUSDT r)"
proof -
  have c': "c' = with_turnover c" by (rule EvaluateSafety_candidate [OF assms(1)])
  show "\<not> (f_pos (sl_MinVol24USD limits) \<and> f_lt (c_Vol24USDT c') (sl_MinVol24USD limits))"
    using assms by (auto simp: EvaluateSafety_def Let_def c' bind_eq_Some_conv reject_def)
  with assms obtain d r0 where r0: "impact_limits L limits c' (passing d) = Some r0" "evaluateTradeSafety L c' r0 = Some r"
    by (auto simp: EvaluateSafety_def Let_def c' bind_eq_Some_conv split: if_splits)
  assume "f_pos (c_Vol24USDT c')"
  with r0(1) show "\<exists>avg. Div L (c_Vol24USDT c') (FFin 1440) = Some avg \<and>
       Mul L avg (sl_MaxImpactRatio limits) = Some (sr_MaxSafeNotionalUSDT r)"
    using trade_safety(2) [OF r0(2) assms(2)] by (auto simp: impact_limits_def Let_def bind_eq_Some_conv split: if_splits)
qed

text \<open>What a passed sizing promises of the volume, with the notional it stands for.\<close>

definition within_limits :: "'d dec_lib \<Rightarrow> SafetyLimits \<Rightarrow> Candidate \<Rightarrow> bool" where
  "within_limits L limits c \<longleftrightarrow>
     \<not> f_lt (c_Volume c) (f_of_int (cs_MinVol (c_Spec c))) \<and>
     \<not> (f_pos (sl_MinVol24USD limits) \<and> f_lt (c_Vol24USDT c) (sl_MinVol24USD limits)) \<and>
     (\<exists>n b. cand_NotionalForVolume L c (c_Volume c) (cand_ExecutionRefPrice c) = Some n \<and>
        cand_ReversionNotionalUSDT L c = Some b \<and> (f_pos b \<longrightarrow> \<not> f_lt (f_mul b (f64_of_rat (101 / 100))) n) \<and>
        (f_pos (c_Vol24USDT c) \<longrightarrow> (\<exists>avg safe. Div L (c_Vol24USDT c) (FFin 1440) = Some avg \<and>
           Mul L avg (sl_MaxImpactRatio limits) = Some safe \<and> (f_pos safe \<longrightarrow> \<not> f_lt safe n))))"

lemma sizing_safe:
  assumes "ApplySafetySizing L limits c = Some (r, c')" "sr_Passed r"
  shows "within_limits L limits c'"
  using assms(1)
proof (rule ApplySafetySizing_cases)
  assume "\<not> sr_Passed r"
  with assms(2) show ?thesis by simp
next
  let ?t = "with_turnover c"
  fix r1
  assume e: "EvaluateSafety L limits c = Some (r1, ?t)" "sr_Passed r1"
    and rs: "resize L r1 (cand_ExecutionRefPrice ?t) ?t = Some c'"
    and ck: "check_sized L r1 (cand_ExecutionRefPrice ?t) c' = Some r"
  have same: "c_Market c' = c_Market ?t" "cand_ExecutionRefPrice c' = cand_ExecutionRefPrice ?t"
    using resize_candidate [OF rs] by (auto simp: cand_ExecutionRefPrice_def)
  obtain n r2 where n: "cand_NotionalForVolume L c' (c_Volume c') (cand_ExecutionRefPrice c') = Some n"
      "\<not> (f_pos (sr_MaxSafeNotionalUSDT r1) \<and> f_lt (sr_MaxSafeNotionalUSDT r1) n)" "evaluateTradeSafety L c' r2 = Some r"
    using ck assms(2) same by (auto simp: check_sized_def Let_def bind_eq_Some_conv reject_def split: if_splits)
  note ts = trade_safety(1) [OF n(3) assms(2)]
  note ev = evaluated_safety [OF e]
  show ?thesis
    unfolding within_limits_def using ts n ev same(1) by auto
qed

lemma within_limits_result [simp]: "within_limits L limits (set_SafetyResult r c) = within_limits L limits c"
  by (simp add: within_limits_def set_SafetyResult_def cand_NotionalForVolume_def cand_ExecutionRefPrice_def
      cand_ReversionNotionalUSDT_def)

subsection \<open>The flow of a candidate\<close>

text \<open>
  The events that follow from an event, with the steps that led there: each step is the run
  of a handler in some surroundings on some earlier event.
\<close>

inductive rv_chain :: "'d dec_lib \<Rightarrow> reversion_event \<Rightarrow> ('d rv_env \<times> reversion_event) list \<Rightarrow> reversion_event \<Rightarrow> bool"
  for L start where
  rv_start: "rv_chain L start [] start"
| rv_step: "rv_chain L start steps e \<Longrightarrow> rv_dec env = L \<Longrightarrow> Published t e' \<in> set (reversion_effects env e) \<Longrightarrow>
    rv_chain L start (steps @ [(env, e)]) e'"

definition sound_step :: "'d dec_lib \<Rightarrow> BaseReversionEvent \<Rightarrow> Candidate \<Rightarrow> 'd rv_env \<times> reversion_event \<Rightarrow> bool" where
  "sound_step L b0 c0 x \<longleftrightarrow> (case x of (env, e) \<Rightarrow> rv_dec env = L \<and> kept_base b0 (re_base e) \<and> kept c0 (re_cand e) \<and>
     (\<exists>e'. checked env e e'))"

definition ready_plan :: "Candidate \<Rightarrow> ('d rv_env \<times> reversion_event) list \<Rightarrow> reversion_event \<Rightarrow> bool" where
  "ready_plan c0 steps e \<longleftrightarrow> (stage e = 9 \<longrightarrow> (\<exists>b c p. e = FirePlanChecked b c p \<and> planned (fst (last steps)) c p \<and>
     rb_Symbol b = c_Symbol c0))"

lemma chain_sound:
  assumes "rv_chain L (CandidateFound b0 c0) steps e" "stage e \<noteq> 10"
  shows "map (stage \<circ> snd) steps = [0..<stage e] \<and> kept_base b0 (re_base e) \<and> kept c0 (re_cand e) \<and>
    list_all (sound_step L b0 c0) steps \<and> ready_plan c0 steps e"
  using assms
proof (induction rule: rv_chain.induct)
  case rv_start
  show ?case by (simp add: ready_plan_def)
next
  case (rv_step steps e env t e')
  have f: "follows env e e'" using effect_follows(1) rv_step.hyps(3) .
  have "stage e \<noteq> 10"
  proof
    assume "stage e = 10"
    then obtain b r where "e = ReversionAbort b r" by (cases e) auto
    with rv_step.hyps(3) show False by (simp add: reversion_effects_def)
  qed
  note IH = rv_step.IH [OF this]
  have s: "stage e' = Suc (stage e)" "kept_base (re_base e) (re_base e')" "kept (re_cand e) (re_cand e')" "checked env e e'"
    using f rv_step.prems by (auto simp: follows_def)
  have ks: "kept_base b0 (re_base e')" "kept c0 (re_cand e')"
    using s IH by (auto simp: kept_base_def kept_def)
  have "ready_plan c0 (steps @ [(env, e)]) e'"
  proof (cases "stage e = 8")
    case True
    then obtain b c l f s' where e: "e = FireTimingReady b c l f s'" by (cases e) auto
    with s(4) obtain p where p: "e' = FirePlanChecked (re_base e') (re_cand e') p" "planned env (re_cand e') p"
        "rb_Symbol (re_base e') = c_Symbol c"
      by auto
    moreover have "c_Symbol c = c_Symbol c0" using IH e by (simp add: kept_def)
    ultimately show ?thesis unfolding ready_plan_def by (metis fst_conv last_snoc)
  next
    case False
    with s(1) show ?thesis by (simp add: ready_plan_def)
  qed
  with ks s IH rv_step.hyps(2) show ?case by (auto simp: sound_step_def)
qed

lemma plan_fired:
  assumes "rv_chain L (CandidateFound b0 c0) steps e" "Dispatched it \<in> set (reversion_effects env e)" "rv_dec env = L"
  obtains b c p tp sl where "e = FirePlanChecked b c p" "map (stage \<circ> snd) steps = [0..<9]" "kept_base b0 b" "kept c0 c"
    "list_all (sound_step L b0 c0) steps" "planned (fst (last steps)) c p" "rv_dec (fst (last steps)) = L" "rb_Symbol b = c_Symbol c0" "pn_Passed p"
    "CalculateOrderTPSL L c (pn_IOCPrice p) = Some (tp, sl)"
    "it = order_intent env b c p (rb_SettleTime b - i64 (pn_FireOffsetMs p * millisecond)) tp sl"
proof -
  have f: "fired env e it" by (rule effect_follows(2) [OF assms(2)])
  then obtain b c p tp sl where e: "e = FirePlanChecked b c p" "pn_Passed p"
      "CalculateOrderTPSL L c (pn_IOCPrice p) = Some (tp, sl)"
      "it = order_intent env b c p (rb_SettleTime b - i64 (pn_FireOffsetMs p * millisecond)) tp sl"
    using assms(3) by (cases e) auto
  have "stage e \<noteq> 10" by (simp add: e)
  note sound = chain_sound [OF assms(1) this]
  then have plan: "planned (fst (last steps)) c p" "rb_Symbol b = c_Symbol c0"
    by (auto simp: ready_plan_def e(1))
  have "length steps = 9" using arg_cong [OF conjunct1 [OF sound], of length] e(1) by simp
  then have "last steps \<in> set steps" by (intro last_in_set) auto
  then have "rv_dec (fst (last steps)) = L" using sound by (auto simp: list_all_iff sound_step_def)
  with sound e plan show thesis by (intro that [of b c p tp sl]) auto
qed

lemma stage_nth:
  assumes "map (stage \<circ> snd) steps = [0..<9]" "i < 9"
  shows "i < length steps" "stage (snd (steps ! i)) = i"
proof -
  have len: "length steps = 9" using arg_cong [OF assms(1), of length] by simp
  then show "i < length steps" using assms(2) by simp
  have "map (stage \<circ> snd) steps ! i = i" using assms by simp
  then show "stage (snd (steps ! i)) = i" using len assms(2) by simp
qed

text \<open>
  C4: no order without its checks. Whatever the world answers and however messages are lost,
  repeated or reordered, an order intent that follows from a candidate has passed the ten
  stages of the flow once each and in order; at the recheck the exchange answered a funding
  rate of the candidate's sign and not below its minimum, at the fire stage the latency was
  within the configured maximum, and the intent is for the candidate's own account, exchange,
  symbol, side and leverage, with a settlement time that is known.
\<close>

theorem intent_goes_through:
  assumes "rv_chain L (CandidateFound b0 c0) steps e" "Dispatched it \<in> set (reversion_effects env e)" "rv_dec env = L"
  shows "map (stage \<circ> snd) (steps @ [(env, e)]) = [0..<10] \<and>
    (\<exists>rate rest. rv_rates (fst (steps ! 5)) = Inr (rate # rest) \<and> f_pos rate = f_pos (c_FundingRate c0) \<and>
       \<not> f_lt (f_abs rate) (tg_MinFundingRate (c_Config c0))) \<and>
    \<not> (0 < fv_MaxLatency (c_Reversion c0) \<and>
       fv_MaxLatency (c_Reversion c0) < i64 (rv_latency (fst (steps ! 6)) * millisecond)) \<and>
    ReqID it = rb_ReqID b0 \<and> AccountID it = rb_AccountID b0 \<and> Exchange it = rb_Exchange b0 \<and>
    ClientOrderID it = rb_ExternalID b0 \<and> Symbol it = c_Symbol c0 \<and> it_Side it = c_Side c0 \<and>
    it_Leverage it = c_Leverage c0 \<and> it_SettleTime it = Some (rb_SettleTime b0)"
proof -
  obtain b c p tp sl where f: "e = FirePlanChecked b c p" "map (stage \<circ> snd) steps = [0..<9]"
      "kept_base b0 b" "kept c0 c" "list_all (sound_step L b0 c0) steps" "rb_Symbol b = c_Symbol c0"
      "it = order_intent env b c p (rb_SettleTime b - i64 (pn_FireOffsetMs p * millisecond)) tp sl"
    using plan_fired [OF assms] by metis
  have step: "sound_step L b0 c0 (steps ! i)" if "i < 9" for i
    using f(5) stage_nth(1) [OF f(2) that] by (simp add: list_all_length)
  obtain env5 x5 where s5: "steps ! 5 = (env5, x5)" by fastforce
  have "stage x5 = 5" using stage_nth(2) [OF f(2), of 5] s5 by simp
  then obtain b5 c5 where x5: "x5 = WaitComplete b5 c5" by (cases x5) auto
  have rate: "\<exists>rate rest. rv_rates (fst (steps ! 5)) = Inr (rate # rest) \<and> f_pos rate = f_pos (c_FundingRate c0) \<and>
       \<not> f_lt (f_abs rate) (tg_MinFundingRate (c_Config c0))"
    using step [of 5] by (auto simp: s5 x5 sound_step_def recheck_rate_def kept_def split: sum.splits list.splits if_splits)
  obtain env6 x6 where s6: "steps ! 6 = (env6, x6)" by fastforce
  have "stage x6 = 6" using stage_nth(2) [OF f(2), of 6] s6 by simp
  then obtain b6 c6 where x6: "x6 = Confirmed b6 c6" by (cases x6) auto
  have latency: "\<not> is_zero_time (rb_SettleTime b0) \<and> \<not> (0 < fv_MaxLatency (c_Reversion c0) \<and>
       fv_MaxLatency (c_Reversion c0) < i64 (rv_latency (fst (steps ! 6)) * millisecond))"
    using step [of 6] by (auto simp: s6 x6 sound_step_def kept_def kept_base_def)
  have trace: "map (stage \<circ> snd) (steps @ [(env, e)]) = [0..<10]"
    using f(1,2) upt_Suc_append [of 0 9] by simp
  have "Symbol it = c_Symbol c0 \<and> it_Side it = c_Side c0 \<and> it_Leverage it = c_Leverage c0 \<and>
      it_SettleTime it = Some (rb_SettleTime b0) \<and> ReqID it = rb_ReqID b0 \<and> AccountID it = rb_AccountID b0 \<and>
      Exchange it = rb_Exchange b0 \<and> ClientOrderID it = rb_ExternalID b0"
    using f(3,4,6) latency unfolding f(7) order_intent_def kept_def kept_base_def by simp
  with trace rate latency show ?thesis by blast
qed

lemma tpsl_direction:
  assumes "CalculateOrderTPSL L c ioc = Some (tp, sl)" "ioc \<noteq> FNaN"
  shows "c_Side c = SideOpenLong \<Longrightarrow> (f_pos tp \<longrightarrow> f_lt ioc tp) \<and> (f_pos sl \<longrightarrow> f_lt sl ioc)"
    "c_Side c \<noteq> SideOpenLong \<Longrightarrow> (f_pos tp \<longrightarrow> f_lt tp ioc) \<and> (f_pos sl \<longrightarrow> f_lt ioc sl)"
proof -
  have nan: "f_pos x \<Longrightarrow> x \<noteq> FNaN" "\<not> f_pos f0" for x by (auto simp: f_pos_def)
  have lin: "f_pos x \<Longrightarrow> \<not> f_le x ioc \<Longrightarrow> f_lt ioc x" "f_pos x \<Longrightarrow> \<not> f_le ioc x \<Longrightarrow> f_lt x ioc" for x
    using f_linear [of x ioc] nan(1) assms(2) f_eq_sym unfolding f_le_def by blast+
  obtain t s where v: "validateTPSLDirection (c_Side c) ioc t s = (tp, sl)"
    using assms(1) by (auto simp: CalculateOrderTPSL_def bind_eq_Some_conv)
  show "c_Side c = SideOpenLong \<Longrightarrow> (f_pos tp \<longrightarrow> f_lt ioc tp) \<and> (f_pos sl \<longrightarrow> f_lt sl ioc)"
    "c_Side c \<noteq> SideOpenLong \<Longrightarrow> (f_pos tp \<longrightarrow> f_lt tp ioc) \<and> (f_pos sl \<longrightarrow> f_lt ioc sl)"
    using v lin nan(2) by (auto simp: validateTPSLDirection_def split: if_splits)
qed

text \<open>
  C5: the order that is dispatched is protected and sized. Its price is the immediate-or-cancel
  price for the best prices fetched just before the fire, and crosses the book when those have
  no more decimals than the price scale (taken modulo \<open>2 ^ 32\<close>, as the rounding converts it to
  \<open>int32\<close>); a take profit and a stop loss, when set, lie on the
  right sides of that price; and its volume is at least the contract's minimum, with a notional
  within the budget (and one percent) and within the share of the average minute's turnover
  that the account's configuration allowed at that moment.
\<close>

theorem intent_protected:
  assumes "decimal_lib L dval"
    and "rv_chain L (CandidateFound b0 c0) steps e" "Dispatched it \<in> set (reversion_effects env e)" "rv_dec env = L"
  shows "\<exists>c. kept c0 c \<and> fresh_prices (fst (last steps)) c \<and> cand_CalculateIOCPrice L c = Some (Inr (it_Price it)) \<and>
    (\<forall>dr. NewFromFloat L (reversion_refPrice c) = Some dr \<and> round_places (dval dr) (i32 (c_PriceScale c)) = dval dr \<and>
       is_f64 (c_BestBid c) \<and> is_f64 (c_BestAsk c) \<and> is_f64 (c_PriceUnit c) \<longrightarrow>
       f_pos (it_Price it) \<and> (c_Side c0 = SideOpenLong \<and> f_le (c_BestAsk c) (it_Price it) \<or>
         c_Side c0 = SideOpenShort \<and> f_le (it_Price it) (c_BestBid c))) \<and>
    (f_pos (it_TakeProfitPrice it) \<longrightarrow> (if c_Side c0 = SideOpenLong then f_lt (it_Price it) (it_TakeProfitPrice it)
       else f_lt (it_TakeProfitPrice it) (it_Price it))) \<and>
    (f_pos (it_StopLossPrice it) \<longrightarrow> (if c_Side c0 = SideOpenLong then f_lt (it_StopLossPrice it) (it_Price it)
       else f_lt (it_Price it) (it_StopLossPrice it))) \<and>
    it_Volume it = c_Volume c \<and> within_limits L (safety_limits (fst (last steps)) c) c"
proof -
  let ?env = "fst (last steps)"
  obtain b c p tp sl where f: "e = FirePlanChecked b c p" "kept c0 c" "rv_dec ?env = L" "planned ?env c p" "pn_Passed p"
      "CalculateOrderTPSL L c (pn_IOCPrice p) = Some (tp, sl)"
      "it = order_intent env b c p (rb_SettleTime b - i64 (pn_FireOffsetMs p * millisecond)) tp sl"
    using plan_fired [OF assms(2,3,4)] by metis
  then obtain c1 sr c4 where p: "cand_CalculateIOCPrice L c1 = Some (Inr (pn_IOCPrice p))"
      "ApplySafetySizing L (safety_limits ?env c) c1 = Some (sr, c4)" "c = set_SafetyResult sr c4" "sr_Passed sr"
      "pn_AdjustedVolume p = c_Volume c"
    unfolding planned_def by auto
  obtain v where c4: "c4 = with_turnover c1 \<or> c4 = set_Volume v (with_turnover c1)" using sizing_candidate [OF p(2)] by blast
  then have same: "c_Intent c = c_Intent c1" "c_Spec c = c_Spec c1" "c_Config c = c_Config c1"
      "c_BestBid c = c_BestBid c1" "c_BestAsk c = c_BestAsk c1"
    by (auto simp: p(3) set_SafetyResult_def with_turnover_def)
  then have price: "cand_CalculateIOCPrice L c = Some (Inr (pn_IOCPrice p))"
    using p(1) by (simp add: cand_CalculateIOCPrice_def)
  have limits: "within_limits L (safety_limits ?env c) c" using sizing_safe [OF p(2,4)] p(3) by simp
  have side: "c_Side c = c_Side c0" using f(2) by (simp add: kept_def)
  have cross: "f_pos (pn_IOCPrice p) \<and> (c_Side c0 = SideOpenLong \<and> f_le (c_BestAsk c) (pn_IOCPrice p) \<or>
         c_Side c0 = SideOpenShort \<and> f_le (pn_IOCPrice p) (c_BestBid c))"
    if "NewFromFloat L (reversion_refPrice c) = Some dr" "round_places (dval dr) (i32 (c_PriceScale c)) = dval dr"
       "is_f64 (c_BestBid c)" "is_f64 (c_BestAsk c)" "is_f64 (c_PriceUnit c)" for dr
    using crosses_book [OF assms(1) price [unfolded cand_CalculateIOCPrice_def] _ that(2-5)] that(1) side
    by (simp add: reversion_refPrice_def)
  have "pn_IOCPrice p \<noteq> FNaN" by (rule decimal_lib.IOC_not_NaN [OF assms(1) price [unfolded cand_CalculateIOCPrice_def]])
  note tpsl = tpsl_direction [OF f(6) this, unfolded side]
  have fresh: "fresh_prices ?env c" using f(4) by (simp add: planned_def)
  have it: "it_Price it = pn_IOCPrice p" "it_Volume it = c_Volume c" "it_TakeProfitPrice it = tp" "it_StopLossPrice it = sl"
    using p(5) unfolding f(7) order_intent_def by simp_all
  show ?thesis
    unfolding it using f(2) fresh price cross tpsl limits
    by (intro exI [of _ c] conjI allI impI) (blast | simp)+
qed

subsection \<open>A run to the order\<close>

definition sample_env :: "rat rv_env" where
  "sample_env = \<lparr>rv_dec = exact_dec, rv_now = 7190000000000, rv_wall = 7190000000000, rv_until = (\<lambda>_. second), rv_sleep = None, rv_ctx_err = None,
     rv_latency = 10, rv_syncer = True, rv_event_id = ''e'', rv_publish = None, rv_ws_subscribe = Some None,
     rv_has_store = True, rv_store_writer = True, rv_first_price = Inl ''none'',
     rv_updates = [None, Some \<lparr>pd_Symbol = ''BTC_USDT'', pd_LastPrice = FFin 100, pd_BestBid = FFin 99,
       pd_BestAsk = FFin 100, pd_FairPrice = f0, pd_Volume24 = f0, pd_UpdatedAt = 7180000000000\<rparr>],
     rv_rest_wait = Inl ''down'',
     rv_price = Inr (Some \<lparr>pd_Symbol = ''BTC_USDT'', pd_LastPrice = FFin 100, pd_BestBid = FFin 99,
       pd_BestAsk = FFin 100, pd_FairPrice = f0, pd_Volume24 = f0, pd_UpdatedAt = 7180000000000\<rparr>),
     rv_rest = Inl ''down'', rv_rates = Inr [FFin (1 / 64)], rv_depth_store = None, rv_depth = None,
     rv_switch_margin = None, rv_switch_position = Some None, rv_leverage_on_order = False,
     rv_change_leverage = None, rv_config = Some sample_reversion\<rparr>"

definition sample_base :: BaseReversionEvent where
  "sample_base = \<lparr>rb_Flow = FlowIDFundingReversion, rb_ReqID = ''r1'', rb_AccountID = ''a1'', rb_Symbol = ''BTC_USDT'',
     rb_Exchange = ''mexc_futures'', rb_OrderID = '''', rb_ExternalID = ''x1'', rb_Timestamp = 7100000000000,
     rb_EventID = ''e0'', rb_Seq = 1, rb_Topic = TopicReversionCandidate, rb_PreviousTopic = '''',
     rb_SettleTime = 7200000000000, rb_Side = SideOpenLong, rb_FundingRate = FFin (1 / 128),
     rb_Vol24hUSDT = FFin 1152000, rb_ContractSize = FFin 1\<rparr>"

text \<open>A candidate with the settings and prices of the example, whatever its plan.\<close>

definition like_sample :: "Candidate \<Rightarrow> bool" where
  "like_sample c \<longleftrightarrow> c_Config c = c_Config sample_candidate \<and> c_Intent c = c_Intent sample_candidate \<and>
     c_Spec c = c_Spec sample_candidate \<and> c_Market c = c_Market sample_candidate"

lemma dyadic: "f64_of_rat (- (775 / 32)) = FFin (- (775 / 32))" "f64_of_rat (25 / 32) = FFin (25 / 32)" "f64_of_rat (3 / 2) = FFin (3 / 2)" "f64_of_rat (3 / 4) = FFin (3 / 4)"
proof -
  have e: "(2::rat) powi - 5 = 1 / 32" "(2::rat) powi - 2 = 1 / 4" "(2::rat) powi - 1 = 1 / 2"
    by (simp_all add: power_int_minus power_int_numeral)
  have neg: "rnd64 (- (775 / 32)) = - (775 / 32)"
    using rnd64_exact [of "- 775" "- 5"] by (simp add: e)
  have "rnd64 (25 / 32) = 25 / 32" "rnd64 (3 / 2) = 3 / 2" "rnd64 (3 / 4) = 3 / 4"
    using rnd64_exact [of 25 "- 5"] rnd64_exact [of 3 "- 1"] rnd64_exact [of 3 "- 2"] by (simp_all add: e)
  with neg show "f64_of_rat (- (775 / 32)) = FFin (- (775 / 32))" "f64_of_rat (25 / 32) = FFin (25 / 32)" "f64_of_rat (3 / 2) = FFin (3 / 2)" "f64_of_rat (3 / 4) = FFin (3 / 4)"
    by (simp_all add: f64_of_rat_def f64_bound_def)
qed

lemma quarter_places: "round_places (1 / 4) 16 = 1 / 4"
proof -
  have "(1 / 4 :: rat) * 10 powi 16 = of_int 2500000000000000" by simp
  then show ?thesis unfolding round_places_def by (simp only: round_half_away_of_int) simp
qed

lemmas sample_calc = exact_ops round_places_numeral quarter_f64 quarter_places dyadic f_of_int_def go_float f_le_def Let_def

lemma sample_price: "like_sample c \<Longrightarrow> cand_CalculateIOCPrice exact_dec c = Some (Inr (FFin 125))"
  by (simp add: like_sample_def cand_CalculateIOCPrice_def sample_candidate_simps sided_intent_def CalculateIOCPrice_def
      ioc_price_def ioc_cross_def CalculateSlippage_def f_max_def sample_calc)

lemma sample_slippage: "like_sample c \<Longrightarrow>
    with_slippage exact_dec (FFin 125) c = Some (c\<lparr>c_Plan := (c_Plan c)\<lparr>tp_Slippage := FFin 25\<rparr>\<rparr>)"
  by (simp add: like_sample_def with_slippage_def reversion_refPrice_def sample_candidate_simps sided_intent_def
      f_abs_def sample_calc)

lemma sample_volume: "like_sample c \<Longrightarrow> cand_CalculateVolume exact_dec c = Some (FFin 2)"
  by (simp add: like_sample_def cand_CalculateVolume_def CalculateVolume_def cand_ExecutionRefPrice_def
      ExecutionRefPrice_def cap_MaxVol_def sample_candidate_simps sided_intent_def sample_calc)

lemma budget_slack: "\<not> f_lt (f_mul (FFin 200) (f64_of_rat (101 / 100))) (FFin 200)"
proof -
  have "f_le (FFin 1) (f64_of_rat (101 / 100))" using f64_of_rat_mono [of 1 "101 / 100"] by (simp add: go_float)
  then consider x where "f64_of_rat (101 / 100) = FFin x" "1 \<le> x" | "f64_of_rat (101 / 100) = FInf False"
    by (cases "f64_of_rat (101 / 100)") (auto simp: f_le_def)
  then show ?thesis
  proof cases
    case 1
    then have "f_le (FFin 200) (f64_of_rat (200 * x))" using f64_of_rat_mono [of 200 "200 * x"] by (simp add: go_float)
    then have "\<not> f_lt (f64_of_rat (200 * x)) (FFin 200)"
      using f_lt_asym [of "FFin 200" "f64_of_rat (200 * x)"] f_lt_not_eq [of "f64_of_rat (200 * x)" "FFin 200"]
        f_eq_sym [of "FFin 200" "f64_of_rat (200 * x)"] by (auto simp: f_le_def)
    with 1 show ?thesis by (simp add: f_mul_def Let_def)
  next
    case 2
    then show ?thesis by (simp add: f_mul_def Let_def)
  qed
qed


lemma like_sample_simps [simp]:
  "like_sample (set_Volume v c) = like_sample c" "like_sample (set_SafetyResult r c) = like_sample c"
  "like_sample c \<Longrightarrow> like_sample (set_prices (FFin 99) (FFin 100) (FFin 100) c)"
  "like_sample (c\<lparr>c_Plan := pl\<rparr>) = like_sample c" "like_sample sample_candidate"
  by (simp_all add: like_sample_def set_Volume_def set_SafetyResult_def set_prices_def sample_candidate_simps)

definition sized_sample :: "Candidate \<Rightarrow> bool" where
  "sized_sample c \<longleftrightarrow> like_sample c \<and> c_Volume c = FFin 2 \<and> tp_Slippage (c_Plan c) = FFin 25"

lemma sample_turnover: "like_sample c \<Longrightarrow> with_turnover c = c"
  by (cases c) (simp add: like_sample_def with_turnover_def turnover_def sample_candidate_simps go_float)

lemma sample_notional: "sized_sample c \<Longrightarrow> cand_NotionalForVolume exact_dec c (FFin 2) (FFin 100) = Some (FFin 200)"
  "like_sample c \<Longrightarrow> cand_ReversionNotionalUSDT exact_dec c = Some (FFin 200)"
  "like_sample c \<Longrightarrow> cand_ExecutionRefPrice c = FFin 100"
  by (simp_all add: like_sample_def sized_sample_def cand_NotionalForVolume_def NotionalForVolume_def
      cand_ReversionNotionalUSDT_def ReversionNotionalUSDT_def cand_ExecutionRefPrice_def ExecutionRefPrice_def
      sample_candidate_simps sided_intent_def sample_calc)

lemma sample_trade_safety: "sized_sample c \<Longrightarrow> evaluateTradeSafety exact_dec c r =
    Some (r\<lparr>sr_EstSlippage := FFin 25, sr_ExpectedProfit := FFin (- (775 / 32))\<rparr>)"
  by (frule sample_notional(1), unfold sized_sample_def)
    (simp add: evaluateTradeSafety_def sample_notional budget_slack like_sample_def sample_candidate_simps
      sided_intent_def f_abs_def sample_calc)

lemma sample_sizing:
  assumes "sized_sample c"
  shows "\<exists>r. ApplySafetySizing exact_dec (safety_limits sample_env c) c = Some (r, c) \<and> sr_Passed r"
proof -
  have like: "like_sample c" "c_Volume c = FFin 2" using assms by (simp_all add: sized_sample_def)
  have limits: "safety_limits sample_env c = \<lparr>sl_MaxImpactRatio = FFin (1 / 2), sl_MinVol24USD = f0\<rparr>"
    using like by (simp add: safety_limits_def sample_env_def sample_reversion_def like_sample_def sample_candidate_simps)
  have market: "c_Vol24USDT c = FFin 1152000" using like by (simp add: like_sample_def sample_candidate_simps)
  have fits: "impact_limits exact_dec \<lparr>sl_MaxImpactRatio = FFin (1 / 2), sl_MinVol24USD = f0\<rparr> c (passing (FFin 200)) =
    Some ((passing (FFin 200))\<lparr>sr_AvgMinuteVolumeUSDT := FFin 800, sr_MaxSafeNotionalUSDT := FFin 400,
      sr_SizedDown := False, sr_ImpactRatio := FFin (1 / 4)\<rparr>)"
    by (simp add: impact_limits_def market passing_def sample_calc)
  show ?thesis
    using like assms
    by (simp add: ApplySafetySizing_def EvaluateSafety_def limits sample_turnover sample_notional fits [unfolded passing_def]
        sample_trade_safety resize_def check_sized_def passing_def sample_calc)
qed


lemmas sample_answers = sample_env_def quoted_price_def refreshPrice_def waitForFreshPrice_def sync_now_def
  waitUntilFuture_def err_of_def rv_decimal_def recheck_rate_def checkDepthImbalance_def fetchOrderBook_def

lemmas run_actions = reversion_effects_def rv_publishEvent_def emit_def or_abort_def modify_def and_then_def

text \<open>Each handler of the example publishes the next event of the flow.\<close>

lemma sample_refresh:
  "like_sample c \<Longrightarrow> refreshPrice sample_env c = Inr (set_prices (FFin 99) (FFin 100) (FFin 100) c)"
  by (simp add: sample_answers go_float f_pos_def)

definition publishes :: "'d rv_env \<Rightarrow> reversion_event \<Rightarrow> reversion_event \<Rightarrow> bool" where
  "publishes env e e' \<longleftrightarrow> (\<exists>t. Published t e' \<in> set (reversion_effects env e))"

lemmas sample_run = publishes_def run_actions sample_answers go_float f_pos_def stampEventTrace_def Let_def

lemma sample_arm:
  assumes "like_sample c"
  shows "\<exists>b' c' w. publishes sample_env (CandidateFound b c) (ArmMarketReady b' c' w) \<and> like_sample c'"
  using assms by (auto simp: handleArm_def sample_run)

lemma sample_plan:
  assumes "like_sample c"
  shows "\<exists>b' c' i r. publishes sample_env (ArmMarketReady b c w) (ArmPlanCalculated b' c' i r) \<and> sized_sample c'"
proof -
  let ?c = "c\<lparr>c_Plan := (c_Plan c)\<lparr>tp_Slippage := FFin 25\<rparr>\<rparr>"
  have volume: "cand_CalculateVolume exact_dec ?c = Some (FFin 2)" using sample_volume [of ?c] assms by simp
  have dec: "rv_dec sample_env = exact_dec" "rv_publish sample_env = None" by (simp_all add: sample_env_def)
  have "sized_sample (set_Volume (FFin 2) ?c)" using assms by (simp add: sized_sample_def set_Volume_def like_sample_def)
  then show ?thesis
    using assms by (auto simp: handleArmMarketReady_def publishes_def run_actions rv_decimal_def dec sample_price
        sample_slippage volume stampEventTrace_def Let_def)
qed

lemma sample_safety:
  assumes "sized_sample c"
  shows "\<exists>b' c' v why. publishes sample_env (ArmPlanCalculated b c i r) (SafetyChecked b' c' i r v True why) \<and> like_sample c'"
proof -
  obtain sr where "ApplySafetySizing exact_dec (safety_limits sample_env c) c = Some (sr, c)" "sr_Passed sr"
    using sample_sizing [OF assms] by blast
  moreover have "rv_dec sample_env = exact_dec" "rv_publish sample_env = None" by (simp_all add: sample_env_def)
  ultimately show ?thesis
    using assms by (auto simp: handleArmPlanCalculated_def publishes_def run_actions rv_decimal_def
        stampEventTrace_def Let_def sized_sample_def)
qed

lemma sample_armed: "\<exists>b'. publishes sample_env (SafetyChecked b c i r v True why) (Armed b' c)"
  by (auto simp: handleSafetyChecked_def sample_run)

lemma sample_wait: "rb_SettleTime b = 7200000000000 \<Longrightarrow> \<exists>b'. publishes sample_env (Armed b c) (WaitComplete b' c)"
  by (auto simp: handleWait_def sample_run)

lemma sample_recheck: "like_sample c \<Longrightarrow> \<exists>b'. publishes sample_env (WaitComplete b c) (Confirmed b' c)"
  by (auto simp: handleRecheck_def sample_run like_sample_def sample_candidate_simps sided_intent_def f_abs_def)

lemma sample_confirmed:
  "like_sample c \<Longrightarrow> rb_SettleTime b = 7200000000000 \<Longrightarrow>
    \<exists>b'. publishes sample_env (Confirmed b c) (MarginModeReady b' c)"
  by (auto simp: handleFireIOC_def is_zero_time_def sample_run like_sample_def sample_candidate_def zero_config_def zero_reversion_def)

lemma sample_margin: "\<exists>b' l f s. publishes sample_env (MarginModeReady b c) (FireTimingReady b' c l f s)"
  by (auto simp: handleMarginModeReady_def set_leverage_def sample_run)

lemma sample_timing:
  assumes "like_sample c"
  shows "\<exists>b' c' p. publishes sample_env (FireTimingReady b c l f s) (FirePlanChecked b' c' p) \<and> like_sample c' \<and>
    pn_Passed p \<and> pn_IOCPrice p = FFin 125"
proof -
  let ?c1 = "set_prices (FFin 99) (FFin 100) (FFin 100) c"
  let ?c2 = "set_Volume (FFin 2) ?c1"
  let ?c3 = "?c2\<lparr>c_Plan := (c_Plan ?c2)\<lparr>tp_Slippage := FFin 25\<rparr>\<rparr>"
  have like: "like_sample ?c1" "like_sample ?c2" "like_sample ?c3" using assms by simp_all
  have "sized_sample ?c3" using assms by (simp add: sized_sample_def set_Volume_def)
  from sample_sizing [OF this] obtain sr where
    sr: "ApplySafetySizing exact_dec (safety_limits sample_env ?c3) ?c3 = Some (sr, ?c3)" "sr_Passed sr" by blast
  have env: "rv_dec sample_env = exact_dec" "rv_publish sample_env = None" "rv_until sample_env = (\<lambda>_. second)"
      "rv_sleep sample_env = None" "rv_latency sample_env = 10" "rv_syncer sample_env"
    by (simp_all add: sample_env_def)
  have wait: "waitUntilFuture sample_env t = Inr ()" for t by (simp add: waitUntilFuture_def env err_of_def)
  note known = sample_volume [OF like(1)] sample_price [OF like(2)] sample_slippage [OF like(2)] sr
  show ?thesis
    using like(3) by (auto simp: handleFireTimingReady_def publishes_def run_actions rv_decimal_def env wait
        sample_refresh [OF assms] known sync_now_def stampEventTrace_def Let_def)
qed

text \<open>The settings and the settlement time of the example hold along its flow.\<close>

lemma publishes_step:
  "rv_chain exact_dec start steps e \<Longrightarrow> publishes sample_env e e' \<Longrightarrow> rv_chain exact_dec start (steps @ [(sample_env, e)]) e'"
  unfolding publishes_def by (auto intro: rv_step simp: sample_env_def)

lemma sample_settle:
  "rv_chain exact_dec (CandidateFound sample_base sample_candidate) steps e \<Longrightarrow> stage e \<noteq> 10 \<Longrightarrow>
    rb_SettleTime (re_base e) = 7200000000000"
  using chain_sound [of exact_dec sample_base sample_candidate steps e] by (simp add: kept_base_def sample_base_def)

lemma sample_chain:
  "\<exists>steps b c p. rv_chain exact_dec (CandidateFound sample_base sample_candidate) steps (FirePlanChecked b c p) \<and>
     like_sample c \<and> pn_Passed p \<and> pn_IOCPrice p = FFin 125"
proof -
  let ?run = "rv_chain exact_dec (CandidateFound sample_base sample_candidate)"
  have "\<exists>steps b c i r v why. ?run steps (SafetyChecked b c i r v True why) \<and> like_sample c"
    using sample_arm sample_plan sample_safety publishes_step rv_start like_sample_simps(5) by meson
  then have "\<exists>steps b c. ?run steps (Armed b c) \<and> like_sample c" using sample_armed publishes_step by meson
  then have "\<exists>steps b c. ?run steps (WaitComplete b c) \<and> like_sample c"
    using sample_wait publishes_step sample_settle [of _ "Armed _ _", simplified] by meson
  then have "\<exists>steps b c. ?run steps (Confirmed b c) \<and> like_sample c" using sample_recheck publishes_step by meson
  then have "\<exists>steps b c. ?run steps (MarginModeReady b c) \<and> like_sample c"
    using sample_confirmed publishes_step sample_settle [of _ "Confirmed _ _", simplified] by meson
  then have "\<exists>steps b c l f s. ?run steps (FireTimingReady b c l f s) \<and> like_sample c"
    using sample_margin publishes_step by meson
  then show ?thesis using sample_timing publishes_step by meson
qed

lemma sample_dispatch:
  assumes "like_sample c" "pn_Passed p" "pn_IOCPrice p = FFin 125"
  shows "\<exists>it. Dispatched it \<in> set (reversion_effects sample_env (FirePlanChecked b c p)) \<and>
    it_TakeProfitPrice it = FFin 150 \<and> it_StopLossPrice it = FFin 75"
proof -
  have "CalculateOrderTPSL exact_dec c (FFin 125) = Some (FFin 150, FFin 75)"
    using assms(1) by (simp add: CalculateOrderTPSL_def like_sample_def sample_candidate_def zero_config_def zero_reversion_def
        zero_spec_def sided_intent_def ResolveTakeProfitPct_def cand_GetPeakPrice_def GetPeakPrice_def
        cand_CalculateStaticTakeProfitPrice_def CalculateStaticTakeProfitPrice_def cand_CalculateStopLossPrice_def
        CalculateStopLossPrice_def CalculateStaticExitPrice_def validateTPSLDirection_def sample_calc)
  then show ?thesis
    using assms(2,3) by (auto simp: handleFirePlanChecked_def dispatchOrderManagerIntent_def order_intent_def sample_run)
qed

theorem intent_goes_through_witness:
  "\<exists>steps e it. rv_chain exact_dec (CandidateFound sample_base sample_candidate) steps e \<and>
     Dispatched it \<in> set (reversion_effects sample_env e) \<and> length steps = 9 \<and> it_Side it = SideOpenLong \<and>
     it_SettleTime it = Some 7200000000000"
proof -
  obtain steps b c p where run: "rv_chain exact_dec (CandidateFound sample_base sample_candidate) steps (FirePlanChecked b c p)"
      "like_sample c" "pn_Passed p" "pn_IOCPrice p = FFin 125"
    using sample_chain by blast
  obtain it where it: "Dispatched it \<in> set (reversion_effects sample_env (FirePlanChecked b c p))"
    using sample_dispatch [OF run(2-)] by blast
  have "rv_dec sample_env = exact_dec" by (simp add: sample_env_def)
  note all = intent_goes_through [OF run(1) it this]
  then have "length (map (stage \<circ> snd) (steps @ [(sample_env, FirePlanChecked b c p)])) = length [0..<10]" by argo
  then have "length steps = 9" by simp
  with all run(1) it show ?thesis by (auto simp: sample_candidate_simps sided_intent_def sample_base_def)
qed

theorem intent_protected_witness:
  "\<exists>steps e it. rv_chain exact_dec (CandidateFound sample_base sample_candidate) steps e \<and>
     Dispatched it \<in> set (reversion_effects sample_env e) \<and> f_lt (it_Price it) (FFin 150) \<and> f_lt (FFin 75) (it_Price it)"
proof -
  obtain steps b c p where run: "rv_chain exact_dec (CandidateFound sample_base sample_candidate) steps (FirePlanChecked b c p)"
      "like_sample c" "pn_Passed p" "pn_IOCPrice p = FFin 125"
    using sample_chain by blast
  obtain it where it: "Dispatched it \<in> set (reversion_effects sample_env (FirePlanChecked b c p))"
      "it_TakeProfitPrice it = FFin 150" "it_StopLossPrice it = FFin 75"
    using sample_dispatch [OF run(2-)] by blast
  have "rv_dec sample_env = exact_dec" by (simp add: sample_env_def)
  from intent_protected [OF exact_decimal_lib run(1) it(1) this] it run(1) show ?thesis
    by (auto simp: sample_candidate_simps sided_intent_def go_float f_pos_def)
qed

end
