(* ===== verification/FundingScannerLaws.thy ===== *)
theory FundingScannerLaws
  imports FundingScanner FundingReversionLaws
begin

text \<open>
  What the scanners and their job promise: a settlement is entered at most once, and a
  scheduled scan stays within the settings of its account.
\<close>

subsection \<open>At most one entry per settlement\<close>

lemma shouldTrigger_cases:
  assumes "shouldTrigger cfg env c settle states = (hit, states')"
  shows "hit \<Longrightarrow> job_now env 1 (tg_Exchange (c_Config c)) < settle \<and> settle \<le> job_now env 1 (tg_Exchange (c_Config c)) + 15 * minute"
    "hit \<Longrightarrow> \<not> f_lt (f_abs (c_FundingRate c)) (tg_MinFundingRate (c_Config c)) \<and>
      \<not> blacklisted cfg (tg_Exchange (c_Config c)) (c_Symbol c)"
    "hit \<Longrightarrow> states' = states(state_key c \<mapsto> settle)"
    "hit \<Longrightarrow> (case states (state_key c) of None \<Rightarrow> True | Some t \<Rightarrow> is_zero_time t \<or> t < settle)"
    "\<not> hit \<Longrightarrow> states' = states \<or> states' = states(state_key c \<mapsto> (case states (state_key c) of None \<Rightarrow> 0 | Some t \<Rightarrow> t))"
  using assms by (auto simp: shouldTrigger_def Let_def state_key_def split: if_splits option.splits)

definition opp_id :: "ScanOpportunity \<Rightarrow> string \<times> gtime" where
  "opp_id opp = (state_key (so_Candidate opp), so_SettleTime opp)"

fun event_id :: "reversion_event \<Rightarrow> string \<times> gtime" where
  "event_id e = (state_key (re_cand e), rb_SettleTime (re_base e))"

lemma event_id_trigger: "event_id (trigger_event env c settle) = (state_key c, settle)"
  by (simp add: trigger_event_def Let_def state_key_def)

declare event_id.simps [simp del]

text \<open>Everything claimed or published is recorded: the last settlement of its key is not before its own.\<close>

definition job_ids :: "scanner_job \<Rightarrow> (string \<times> gtime) multiset" where
  "job_ids j = mset (map opp_id (sj_claimed j)) + mset (map event_id (sj_published j))"

definition job_inv :: "scanner_job \<Rightarrow> bool" where
  "job_inv j \<longleftrightarrow> (\<forall>x. count (job_ids j) x \<le> 1) \<and>
     (\<forall>key settle. (key, settle) \<in># job_ids j \<longrightarrow> 0 < settle \<and> (\<exists>t. sj_states j key = Some t \<and> settle \<le> t))"

lemma claim_inv:
  assumes inv: "job_inv j" and clock: "0 \<le> job_now env 1 (tg_Exchange (c_Config (so_Candidate opp)))"
  shows "job_inv (claim cfg env opp j)"
proof -
  let ?c = "so_Candidate opp" and ?settle = "so_SettleTime opp"
  obtain hit states where s: "shouldTrigger cfg env ?c ?settle (sj_states j) = (hit, states)" by fastforce
  note cases = shouldTrigger_cases [OF s]
  show ?thesis
  proof (cases hit)
    case True
    have ids: "job_ids (claim cfg env opp j) = add_mset (state_key ?c, ?settle) (job_ids j)"
      using True s by (simp add: claim_def job_ids_def opp_id_def)
    have states: "sj_states (claim cfg env opp j) = (sj_states j)(state_key ?c \<mapsto> ?settle)"
      using True s cases(3) by (simp add: claim_def)
    have pos: "0 < ?settle" using cases(1) [OF True] clock by linarith
    have new: "t < ?settle" if "(state_key ?c, t) \<in># job_ids j" for t
    proof -
      obtain u where "sj_states j (state_key ?c) = Some u" "t \<le> u" "0 < t" using inv \<open>_ \<in># job_ids j\<close> unfolding job_inv_def by blast
      with cases(4) [OF True] show ?thesis by (auto simp: is_zero_time_def)
    qed
    then have "count (job_ids j) (state_key ?c, ?settle) = 0" by (meson count_inI less_irrefl)
    with inv new pos show ?thesis
      unfolding job_inv_def ids states by (fastforce simp: less_imp_le)
  next
    case False
    have "job_ids (claim cfg env opp j) = job_ids j" using False s by (simp add: claim_def job_ids_def)
    moreover have "sj_states (claim cfg env opp j) key = Some t" if "sj_states j key = Some t" for key t
      using that False s cases(5) by (auto simp: claim_def)
    ultimately show ?thesis using inv unfolding job_inv_def by (metis (no_types, lifting))
  qed
qed

lemma mset_map_remove1: "x \<in> set xs \<Longrightarrow> mset (map f xs) = add_mset (f x) (mset (map f (remove1 x xs)))"
  by (induction xs) auto

lemma trigger_inv:
  assumes inv: "job_inv j" and opp: "opp \<in> set (sj_claimed j)"
  shows "job_inv (trigger env opp j)"
proof -
  note claimed = mset_map_remove1 [OF opp, of opp_id]
  have "job_ids (trigger env opp j) \<subseteq># job_ids j"
    unfolding job_ids_def claimed
    by (auto simp: trigger_def event_id_trigger opp_id_def split: option.split)
  then show ?thesis using inv unfolding job_inv_def
    by (auto simp: trigger_def dest: mset_subset_eqD) (meson le_trans mset_subset_eq_count)
qed

lemma reach_inv: "job_reach cfg j \<Longrightarrow> job_inv j"
  by (induction rule: job_reach.induct)
    (simp_all add: claim_inv trigger_inv, simp add: job_inv_def job_ids_def NewScannerJob_def)


text \<open>What is published is the start of a flow with the ids of its candidate.\<close>

fun starts_flow :: "reversion_event \<Rightarrow> bool" where
  "starts_flow (CandidateFound b c) \<longleftrightarrow> rb_AccountID b = tg_AccountID (c_Config c) \<and> rb_Exchange b = tg_Exchange (c_Config c) \<and>
     rb_Symbol b = c_Symbol c \<and> rb_Topic b = TopicReversionCandidate \<and> rb_ExternalID b = ti_ExternalID (c_Intent c)"
| "starts_flow _ = False"

lemma starts_flow_trigger: "starts_flow (trigger_event env c settle)"
  by (simp add: trigger_event_def Let_def)

lemma published_start: "job_reach cfg j \<Longrightarrow> \<forall>e \<in> set (sj_published j). starts_flow e"
  by (induction rule: job_reach.induct)
    (auto simp: NewScannerJob_def claim_def trigger_def starts_flow_trigger split: prod.split option.split)

lemma count_le_1_distinct: "(\<And>x. count (mset xs) x \<le> 1) \<Longrightarrow> distinct xs"
proof (induction xs)
  case (Cons a xs)
  have "count (mset xs) x \<le> 1" for x by (rule order_trans [OF _ Cons.prems [of x]]) simp
  moreover have "a \<notin> set xs" using Cons.prems [of a] by (simp add: count_eq_zero_iff)
  ultimately show ?case using Cons.IH by simp
qed simp

lemma published_distinct:
  assumes "job_reach cfg j"
  shows "distinct (map event_id (sj_published j))" "e \<in> set (sj_published j) \<Longrightarrow> 0 < rb_SettleTime (re_base e)"
proof -
  have inv: "job_inv j" by (rule reach_inv [OF assms])
  have "count (mset (map event_id (sj_published j))) x \<le> 1" for x
    using inv unfolding job_inv_def job_ids_def
    by (metis add_leD2 count_union)
  then show "distinct (map event_id (sj_published j))"
    by (intro count_le_1_distinct)
  show "0 < rb_SettleTime (re_base e)" if "e \<in> set (sj_published j)"
  proof -
    have "event_id e \<in># job_ids j" using that by (auto simp: job_ids_def)
    then show ?thesis using inv by (auto simp: job_inv_def event_id.simps)
  qed
qed

text \<open>The ids of an order intent, and the event they come from.\<close>

definition intent_id :: "intent_event \<Rightarrow> string \<times> string \<times> string \<times> gtime option" where
  "intent_id it = (AccountID it, Exchange it, Symbol it, it_SettleTime it)"

lemma intent_of_flow:
  assumes "rv_chain L e0 steps e" "Dispatched it \<in> set (reversion_effects env e)" "rv_dec env = L"
    and "starts_flow e0" "0 < rb_SettleTime (re_base e0)"
  shows "intent_id it = (tg_AccountID (c_Config (re_cand e0)), tg_Exchange (c_Config (re_cand e0)), c_Symbol (re_cand e0),
    Some (rb_SettleTime (re_base e0)))"
proof -
  obtain b0 c0 where e0: "e0 = CandidateFound b0 c0" using assms(4) by (cases e0) auto
  obtain b c p tp sl where f: "kept_base b0 b" "kept c0 c" "rb_Symbol b = c_Symbol c0"
      "it = order_intent env b c p (rb_SettleTime b - i64 (pn_FireOffsetMs p * millisecond)) tp sl"
    using plan_fired [OF assms(1) [unfolded e0] assms(2,3)] by metis
  with assms(4,5) e0 show ?thesis by (simp add: intent_id_def order_intent_def kept_base_def is_zero_time_def)
qed

text \<open>
  C2: a settlement is entered at most once. Whatever the scanners find, in whatever order and
  however often, the job never publishes two candidates for the same account, exchange,
  symbol and settlement; so two order intents for the same account, exchange, symbol and
  settlement, sent anywhere in the flows of published candidates, come from the same
  candidate.
\<close>

theorem one_entry_per_settlement:
  assumes "job_reach cfg j" "i < length (sj_published j)" "k < length (sj_published j)"
    and "rv_chain L (sj_published j ! i) steps e" "Dispatched it \<in> set (reversion_effects env e)" "rv_dec env = L"
    and "rv_chain L (sj_published j ! k) steps' e'" "Dispatched it' \<in> set (reversion_effects env' e')" "rv_dec env' = L"
    and "(AccountID it, Exchange it, Symbol it, it_SettleTime it) = (AccountID it', Exchange it', Symbol it', it_SettleTime it')"
  shows "i = k"
proof -
  let ?p = "sj_published j"
  have start: "starts_flow (?p ! n) \<and> 0 < rb_SettleTime (re_base (?p ! n))" if "n < length ?p" for n
    using that published_start [OF assms(1)] published_distinct(2) [OF assms(1)] by simp
  have "event_id (?p ! i) = event_id (?p ! k)"
    using intent_of_flow [OF assms(4-6)] intent_of_flow [OF assms(7-9)] start assms(2,3,10)
    by (simp add: intent_id_def event_id.simps state_key_def)
  then show ?thesis using published_distinct(1) [OF assms(1)] assms(2,3) by (auto simp: distinct_conv_nth)
qed

text \<open>The example candidate, found twice, is published once.\<close>

definition sample_config :: Config where
  "sample_config = \<lparr>cf_Blacklist = None, cf_Accounts = [''a1'' \<mapsto> \<lparr>ab_Exchange = ''mexc_futures'', ab_Enabled = True,
     ab_Configured = True, ab_Schedule = True, ab_Reversion = Some sample_reversion, ab_Symbols = []\<rparr>]\<rparr>"

definition sample_job_env :: job_env where
  "sample_job_env = \<lparr>je_clock = (\<lambda>_ _. None), je_wall = (\<lambda>_. 7100000000000), je_client_order_id = (\<lambda>_. ''x1''),
     je_req_id = ''r1'', je_event_id = ''e0'', je_bus = None\<rparr>"

definition sample_opp :: ScanOpportunity where
  "sample_opp = \<lparr>so_Candidate = sample_candidate, so_SettleTime = 7200000000000\<rparr>"

definition sample_job :: scanner_job where
  "sample_job = claim sample_config sample_job_env sample_opp (trigger sample_job_env sample_opp
     (claim sample_config sample_job_env sample_opp NewScannerJob))"

lemma sample_now: "job_now sample_job_env k exch = 7100000000000"
  by (simp add: job_now_def sample_job_env_def)

lemmas sample_limits = sample_candidate_simps sided_intent_def cand_ExecutionRefPrice_def ExecutionRefPrice_def
  go_float f_le_def f_of_int_def Let_def

lemma sample_safety_limits: "checkSafetyLimits sample_config sample_job_env sample_candidate"
  by (simp add: checkSafetyLimits_def checkCandidateSafetyLimits_def checkCandidateSafetyLimitsWithMinVol_def
      checkCandidatePreAllocationSafetyLimits_def validateCandidateSettleTime_def is_zero_time_def
      validateCandidate24hVolume_def validateCandidateMaxSymbolPrice_def max_symbol_price_def ReversionForAccount_def
      sample_config_def sample_reversion_def sample_now sample_limits)

lemma sample_shouldTrigger:
  "shouldTrigger sample_config sample_job_env sample_candidate 7200000000000 states =
    (case states (state_key sample_candidate) of
       Some t \<Rightarrow> if t \<noteq> 0 \<and> 7200000000000 \<le> t then (False, states(state_key sample_candidate \<mapsto> t))
         else (True, states(state_key sample_candidate \<mapsto> 7200000000000))
     | None \<Rightarrow> (True, states(state_key sample_candidate \<mapsto> 7200000000000)))"
  by (auto simp: shouldTrigger_def is_zero_time_def sample_safety_limits blacklisted_def sample_now f_abs_def
      sample_limits split: option.split) (simp_all add: sample_config_def)

lemma sample_published: "sj_published sample_job = [CandidateFound sample_base sample_candidate]"
proof -
  have "sample_candidate\<lparr>c_Intent := (c_Intent sample_candidate)\<lparr>ti_ExternalID := ''x1''\<rparr>\<rparr> = sample_candidate"
    by (simp add: sample_candidate_def)
  then have "trigger_event sample_job_env sample_candidate 7200000000000 = CandidateFound sample_base sample_candidate"
    by (simp add: trigger_event_def sample_job_env_def sample_base_def job_now_def sample_limits)
  then show ?thesis
    by (simp add: sample_job_def claim_def trigger_def sample_shouldTrigger sample_opp_def NewScannerJob_def)
      (simp add: sample_job_env_def)
qed

lemma sample_job_reach: "job_reach sample_config sample_job"
proof -
  have "sample_opp \<in> set (sj_claimed (claim sample_config sample_job_env sample_opp NewScannerJob))"
    by (simp add: claim_def sample_shouldTrigger sample_opp_def NewScannerJob_def)
  then show ?thesis
    unfolding sample_job_def by (intro job_claim job_trigger job_start) (simp_all add: sample_now)
qed

theorem one_entry_per_settlement_witness:
  "\<exists>steps e it. rv_chain exact_dec (sj_published sample_job ! 0) steps e \<and>
     Dispatched it \<in> set (reversion_effects sample_env e) \<and>
     (\<forall>k steps' e' it'. k < length (sj_published sample_job) \<and> rv_chain exact_dec (sj_published sample_job ! k) steps' e' \<and>
        Dispatched it' \<in> set (reversion_effects sample_env e') \<and>
        (AccountID it, Exchange it, Symbol it, it_SettleTime it) = (AccountID it', Exchange it', Symbol it', it_SettleTime it')
        \<longrightarrow> 0 = k)"
proof -
  obtain steps b c p where run: "rv_chain exact_dec (sj_published sample_job ! 0) steps (FirePlanChecked b c p)"
      "like_sample c" "pn_Passed p" "pn_IOCPrice p = FFin 125"
    using sample_chain by (auto simp: sample_published)
  obtain it where it: "Dispatched it \<in> set (reversion_effects sample_env (FirePlanChecked b c p))"
    using sample_dispatch [OF run(2-)] by blast
  have dec: "rv_dec sample_env = exact_dec" by (simp add: sample_env_def)
  have "0 < length (sj_published sample_job)" by (simp add: sample_published)
  note once = one_entry_per_settlement [OF sample_job_reach this _ run(1) it dec _ _ dec]
  from run(1) it once show ?thesis by blast
qed

end
