(* ===== verification/FundingScanLimits.thy ===== *)
theory FundingScanLimits
  imports FundingScannerLaws
begin

text \<open>A scheduled scan stays within the settings of its account.\<close>

subsection \<open>Symbols\<close>

lemma by_symbol_Some: "by_symbol f xs s = Some x \<Longrightarrow> x \<in> set xs \<and> f x = s"
  unfolding by_symbol_def by (auto dest!: map_of_SomeD)

lemma allocate_loop_intents:
  "allocate_loop L client maxC impact r cs = Some ds \<Longrightarrow> map c_Intent ds = map c_Intent cs"
  by (induction cs arbitrary: r ds)
    (auto simp: bind_eq_Some_conv allocateSingleCandidateMargin_def Let_def split: if_splits)

lemma allocated_distinct:
  assumes "AllocateMargins L candidates pool maxC impact client = Some allocated" "distinct (map (\<lambda>c. c_Symbol c) candidates)"
  shows "distinct (map (\<lambda>c. c_Symbol c) allocated)"
proof (cases "candidates = [] \<or> f_le pool f0")
  case True
  with assms show ?thesis by (auto simp: AllocateMargins_def)
next
  case False
  with assms(1) obtain ds where ds: "allocated = filter tradeable ds"
      "allocate_loop L client maxC impact pool (stable_sort better_opportunity candidates) = Some ds"
    by (auto simp: AllocateMargins_def)
  let ?sorted = "stable_sort better_opportunity candidates"
  have "map (\<lambda>c. c_Symbol c) ds = map ti_Symbol (map c_Intent ds)" by simp
  also have "\<dots> = map (\<lambda>c. c_Symbol c) ?sorted" using allocate_loop_intents [OF ds(2)] by simp
  finally have "mset (map (\<lambda>c. c_Symbol c) ds) = mset (map (\<lambda>c. c_Symbol c) candidates)" by simp
  then have "distinct (map (\<lambda>c. c_Symbol c) ds)" using assms(2) by (metis mset_eq_imp_distinct_iff)
  then show ?thesis using ds(1) by (simp add: distinct_map_filter)
qed

lemma by_symbol_distinct: "distinct (map f xs) \<Longrightarrow> x \<in> set xs \<Longrightarrow> by_symbol f xs (f x) = Some x"
  unfolding by_symbol_def by (intro map_of_is_SomeI) (auto simp: o_def rev_map [symmetric])

subsection \<open>One result\<close>

lemma size_candidate_fields:
  assumes "size_candidate L client contract c = Some c'"
  shows "c_Intent c' = c_Intent c" "c_SettleTime c' = c_SettleTime c" "c_Market c' = c_Market c"
    "c_Leverage c' \<le> max 1 (c_Leverage c)" "1 \<le> c_Leverage c'"
proof -
  have lev: "0 < DetermineCandidateLeverage client (Some c)" "DetermineCandidateLeverage client (Some c) \<le> max 1 (c_Leverage c)"
    using determine_leverage_pos [of client c] determine_leverage_le [of c client]
    by (auto simp: DetermineCandidateLeverage_def Let_def max_def)
  show "c_Intent c' = c_Intent c" "c_SettleTime c' = c_SettleTime c" "c_Market c' = c_Market c"
    using assms by (auto simp: size_candidate_def updateMaxVolForLeverage_def set_Leverage_def Let_def split: option.splits)
  show "c_Leverage c' \<le> max 1 (c_Leverage c)" "1 \<le> c_Leverage c'"
    using assms lev by (auto simp: size_candidate_def updateMaxVolForLeverage_def Let_def split: option.splits)
qed

lemma symbol_settings:
  assumes "NewAccountSymbolConfig cfg accountID exch symbol = Some sc" "ReversionForAccount cfg accountID = Some rcfg"
  shows "sy_Leverage sc = er_Leverage (exchange_settings rcfg exch)"
    "sy_MinFundingRate sc = normalizeFundingRateThreshold (er_MinFundingRate (exchange_settings rcfg exch))"
    "sy_AccountID sc = accountID" "sy_Exchange sc = exch"
  using assms by (auto simp: NewAccountSymbolConfig_def defaultSymbolModes_def normalizeSymbolMetrics_def
      applyAccountDefaults_def f_or_def i_or_def go_float Let_def)

text \<open>
  What an opportunity has in common with a result it comes from: the symbol, a rate not below
  the account's threshold, the side that earns it, and the settlement.
\<close>

definition comes_from :: "ReversionConfig \<Rightarrow> ExchangeReversionConfig \<Rightarrow> PotentialFundingResult \<Rightarrow> ScanOpportunity \<Rightarrow> bool" where
  "comes_from rcfg e r opp \<longleftrightarrow> (let c = so_Candidate opp in
     c_Symbol c = pf_Symbol r \<and>
     \<not> f_lt (f_abs (pf_Rate r)) (normalizeFundingRateThreshold (er_MinFundingRate e)) \<and>
     c_Side c = (if f_pos (pf_Rate r) then SideOpenLong else SideOpenShort) \<and> matchTradeSide (rc_TradeSide rcfg) (c_Side c) \<and>
     so_SettleTime opp = (if 0 < pf_SettleTime r then unix_milli (pf_SettleTime r) else 0))"

lemma processResult_opp:
  assumes "processResult env cfg (by_symbol tk_Symbol tickers) contracts r = Some (Some opp)"
    and "ReversionForAccount cfg (sc_account env) = Some rcfg"
  shows "comes_from rcfg (exchange_settings rcfg (sc_exchange env)) r opp" "c_SettleTime (so_Candidate opp) = so_SettleTime opp"
    "1 \<le> c_Leverage (so_Candidate opp)"
    "c_Leverage (so_Candidate opp) \<le> max 1 (er_Leverage (exchange_settings rcfg (sc_exchange env)))"
proof -
  obtain sc td cd c0 where r: "NewAccountSymbolConfig cfg (sc_account env) (sc_exchange env) (pf_Symbol r) = Some sc"
      "\<not> f_lt (f_abs (pf_Rate r)) (sy_MinFundingRate sc)" "by_symbol tk_Symbol tickers (pf_Symbol r) = Some td"
      "ss_buildCandidate (sc_dec env) sc td (pf_Rate r) = Some c0" "matchTradeSide (rc_TradeSide rcfg) (c_Side c0)"
      "size_candidate (sc_dec env) (Some (sc_client env)) (Some cd) (c0\<lparr>c_SettleTime := so_SettleTime opp, c_Spec := contract_spec cd\<rparr>) =
         Some (so_Candidate opp)"
      "so_SettleTime opp = (if 0 < pf_SettleTime r then unix_milli (pf_SettleTime r) else 0)"
    using assms by (auto simp: processResult_def bind_eq_Some_conv Let_def split: if_split_asm option.split_asm)
  have "tk_Symbol td = pf_Symbol r" using by_symbol_Some [OF r(3)] by blast
  then have c0: "c_Symbol c0 = pf_Symbol r" "c_Side c0 = (if f_pos (pf_Rate r) then SideOpenLong else SideOpenShort)"
      "c_Leverage c0 = sy_Leverage sc"
    using r(4) by (auto simp: ss_buildCandidate_def build_candidate_def sided_intent_def ToTradeConfig_def)
  note size = size_candidate_fields [OF r(6)]
  show "comes_from rcfg (exchange_settings rcfg (sc_exchange env)) r opp"
    using r(2,5,7) c0(1,2) size(1) symbol_settings(2) [OF r(1) assms(2)] by (simp add: comes_from_def)
  show "c_SettleTime (so_Candidate opp) = so_SettleTime opp" using size(2) by simp
  show "1 \<le> c_Leverage (so_Candidate opp)" by (rule size(5))
  show "c_Leverage (so_Candidate opp) \<le> max 1 (er_Leverage (exchange_settings rcfg (sc_exchange env)))"
    using size(4) c0(3) symbol_settings(1) [OF r(1) assms(2)] by simp
qed

definition valid_at_scan :: "'d schedule_env \<Rightarrow> Config \<Rightarrow> Candidate \<Rightarrow> bool" where
  "valid_at_scan env cfg c \<longleftrightarrow> (\<exists>k. isValidCandidate cfg (sc_account env) (sc_exchange env) (sc_now env k) c)"

definition good_opp :: "'d schedule_env \<Rightarrow> Config \<Rightarrow> ReversionConfig \<Rightarrow> PotentialFundingResult list \<Rightarrow> ScanOpportunity \<Rightarrow> bool" where
  "good_opp env cfg rcfg results opp \<longleftrightarrow> (\<exists>r \<in> set results. comes_from rcfg (exchange_settings rcfg (sc_exchange env)) r opp) \<and>
     valid_at_scan env cfg (so_Candidate opp) \<and> c_SettleTime (so_Candidate opp) = so_SettleTime opp \<and>
     1 \<le> c_Leverage (so_Candidate opp) \<and>
     c_Leverage (so_Candidate opp) \<le> max 1 (er_Leverage (exchange_settings rcfg (sc_exchange env)))"

lemma process_results_opps:
  assumes "process_results env cfg (by_symbol tk_Symbol tickers) contracts k results = Some opps"
    and "ReversionForAccount cfg (sc_account env) = Some rcfg" "distinct (map pf_Symbol results)"
  shows "(\<forall>opp \<in> set opps. good_opp env cfg rcfg results opp) \<and> distinct (map (\<lambda>opp. c_Symbol (so_Candidate opp)) opps)"
  using assms(1,3)
proof (induction results arbitrary: k opps)
  case Nil
  then show ?case by simp
next
  case (Cons r rs)
  from Cons.prems(1) obtain found more where s: "processResult env cfg (by_symbol tk_Symbol tickers) contracts r = Some found"
      "process_results env cfg (by_symbol tk_Symbol tickers) contracts (Suc k) rs = Some more"
      "opps = (case found of None \<Rightarrow> [] | Some x \<Rightarrow>
         if isValidCandidate cfg (sc_account env) (sc_exchange env) (sc_now env k) (so_Candidate x) then [x] else []) @ more"
    by (auto simp: bind_eq_Some_conv)
  from Cons.IH [OF s(2)] Cons.prems(2) have IH: "\<forall>opp \<in> set more. good_opp env cfg rcfg rs opp"
      "distinct (map (\<lambda>opp. c_Symbol (so_Candidate opp)) more)"
    by simp_all
  have later: "pf_Symbol r \<notin> (\<lambda>opp. c_Symbol (so_Candidate opp)) ` set more"
    using IH(1) Cons.prems(2) by (fastforce simp: good_opp_def comes_from_def Let_def)
  have weaken: "good_opp env cfg rcfg rs opp \<Longrightarrow> good_opp env cfg rcfg (r # rs) opp" for opp by (auto simp: good_opp_def)
  show ?case
  proof (cases found)
    case None
    with s(3) IH weaken show ?thesis by auto
  next
    case (Some x)
    note x = processResult_opp [OF s(1) [unfolded Some] assms(2)]
    have "c_Symbol (so_Candidate x) = pf_Symbol r" using x(1) by (simp add: comes_from_def Let_def)
    moreover have "good_opp env cfg rcfg (r # rs) x"
      if "isValidCandidate cfg (sc_account env) (sc_exchange env) (sc_now env k) (so_Candidate x)"
      using x that by (auto simp: good_opp_def valid_at_scan_def)
    ultimately show ?thesis using s(3) IH weaken later Some by auto
  qed
qed

subsection \<open>The selection\<close>

lemma valid_changed: "changed_only c0 c \<Longrightarrow> isValidCandidate cfg a exch now c = isValidCandidate cfg a exch now c0"
  by (auto simp: changed_only_def isValidCandidate_def checkCandidatePreAllocationSafetyLimits_def
      validateCandidateSettleTime_def validateCandidate24hVolume_def validateCandidateMaxSymbolPrice_def
      cand_ExecutionRefPrice_def set_Volume_def set_Leverage_def set_Margin_def)

lemma good_opp_changed:
  assumes "good_opp env cfg rcfg results opp" "changed_only (so_Candidate opp) c" "1 \<le> c_Leverage c"
    "c_Leverage c \<le> max 1 (c_Leverage (so_Candidate opp))"
  shows "good_opp env cfg rcfg results (opp\<lparr>so_Candidate := c\<rparr>)"
proof -
  have "c_Intent c = c_Intent (so_Candidate opp)" "c_SettleTime c = c_SettleTime (so_Candidate opp)"
    using assms(2) by (auto simp: changed_only_def set_Volume_def set_Leverage_def set_Margin_def)
  with assms show ?thesis
    by (auto simp: good_opp_def comes_from_def valid_at_scan_def valid_changed [OF assms(2)] Let_def max_def split: if_splits)
qed

definition margins_of :: "ScanOpportunity list \<Rightarrow> float64 list" where
  "margins_of opps = map (\<lambda>opp. c_MarginUSDT (so_Candidate opp)) opps"

definition picks :: "('k \<rightharpoonup> 'a) \<Rightarrow> 'k list \<Rightarrow> 'a list" where
  "picks m ks = concat (map (\<lambda>k. case m k of None \<Rightarrow> [] | Some x \<Rightarrow> [x]) ks)"

lemma picks_simps [simp]:
  "picks m [] = []" "picks m (k # ks) = (case m k of None \<Rightarrow> [] | Some x \<Rightarrow> [x]) @ picks m ks"
  by (simp_all add: picks_def)

lemma map_picks: "map f (picks (by_symbol f xs) ks) = filter (\<lambda>k. by_symbol f xs k \<noteq> None) ks"
  by (induction ks) (auto split: option.split dest: by_symbol_Some)

lemma mset_picks:
  assumes "distinct (map f xs)" "distinct ks" "f ` set xs \<subseteq> set ks"
  shows "mset (picks (by_symbol f xs) ks) = mset xs"
proof -
  have "distinct (map f (picks (by_symbol f xs) ks))" using assms(2) by (simp add: map_picks)
  then have "distinct (picks (by_symbol f xs) ks)" by (simp add: distinct_map)
  moreover have "x \<in> set (picks (by_symbol f xs) ks)" if "x \<in> set xs" for x
    using that assms(3) by_symbol_distinct [OF assms(1) that] by (force simp: picks_def)
  moreover have "set (picks (by_symbol f xs) ks) \<subseteq> set xs"
    by (auto simp: picks_def split: option.splits dest: by_symbol_Some [OF sym])
  ultimately show ?thesis using assms(1) unfolding distinct_map by (metis set_eq_iff_mset_eq_distinct subsetI subset_antisym)
qed

lemma picked_candidates:
  "map so_Candidate (concat (map (\<lambda>opp. case m (c_Symbol (so_Candidate opp)) of
      None \<Rightarrow> [] | Some updated \<Rightarrow> [opp\<lparr>so_Candidate := updated\<rparr>]) selected)) =
   picks m (map (\<lambda>opp. c_Symbol (so_Candidate opp)) selected)"
  by (induction selected) (auto split: option.split)

lemma allocated_opps:
  assumes a: "allocateCandidateMargins env cfg selected pool maxC = Some opps"
    and sel: "\<forall>opp \<in> set selected. good_opp env cfg rcfg results opp" "distinct (map (\<lambda>opp. c_Symbol (so_Candidate opp)) selected)"
    and pool: "f_is_fin pool" "is_f64 pool" and lev: "er_Leverage (exchange_settings rcfg (sc_exchange env)) < 2 ^ 63"
  shows "(\<forall>opp \<in> set opps. good_opp env cfg rcfg results opp \<and> f_pos (c_MarginUSDT (so_Candidate opp)) \<and>
      f_pos (c_Volume (so_Candidate opp)) \<and> (f_pos maxC \<longrightarrow> f_le (c_MarginUSDT (so_Candidate opp)) maxC)) \<and>
    distinct (map (\<lambda>opp. c_Symbol (so_Candidate opp)) opps) \<and> length opps \<le> length selected \<and>
    (f_pos pool \<longrightarrow> (\<exists>order. mset order = mset (margins_of opps) \<and> \<not> f_lt (foldl f_sub pool order) f0))"
proof (cases "selected = []")
  case True
  have "f_pos pool \<Longrightarrow> \<not> f_lt pool f0" using f_lt_asym by (auto simp: f_pos_def)
  with True a show ?thesis by (auto simp: allocateCandidateMargins_def margins_of_def)
next
  case False
  then obtain allocated where al: "AllocateMargins (sc_dec env) (map so_Candidate selected) pool maxC
        (resolveMaxImpactRatio cfg (sc_account env)) (Some (sc_client env)) = Some allocated"
      "opps = concat (map (\<lambda>opp. case by_symbol (\<lambda>c. c_Symbol c) allocated (c_Symbol (so_Candidate opp)) of
         None \<Rightarrow> [] | Some updated \<Rightarrow> [opp\<lparr>so_Candidate := updated\<rparr>]) selected)"
    using a by (auto simp: allocateCandidateMargins_def Let_def)
  have "\<forall>c \<in> set (map so_Candidate selected). 0 \<le> c_Leverage c \<and> c_Leverage c < 2 ^ 63"
    using sel(1) lev by (fastforce simp: good_opp_def)
  note within = allocated_within_pool [OF al(1) pool this]
  have "distinct (map (\<lambda>c. c_Symbol c) (map so_Candidate selected))" using sel(2) by (simp add: o_def)
  note dist = allocated_distinct [OF al(1) this]
  let ?sym = "\<lambda>opp. c_Symbol (so_Candidate opp)"
  have changed: "c_Symbol c0 = c_Symbol c" if "changed_only c0 c" for c0 c
    using that by (auto simp: changed_only_def)
  have good: "good_opp env cfg rcfg results opp' \<and> so_Candidate opp' \<in> set allocated" if o': "opp' \<in> set opps" for opp'
  proof -
    obtain opp u where u: "opp \<in> set selected" "by_symbol (\<lambda>c. c_Symbol c) allocated (?sym opp) = Some u"
        "opp' = opp\<lparr>so_Candidate := u\<rparr>"
      using o' unfolding al(2) by (fastforce split: option.splits dest: sym)
    note u' = by_symbol_Some [OF u(2)]
    then obtain opp0 where c0: "opp0 \<in> set selected" "changed_only (so_Candidate opp0) u"
        "c_Leverage u \<le> max 1 (c_Leverage (so_Candidate opp0))" "1 \<le> c_Leverage u"
      using within by fastforce
    have "opp0 = opp" using sel(2) c0(1) u(1) changed [OF c0(2)] u' by (auto simp: distinct_map inj_on_def)
    with c0 sel(1) u u' show ?thesis by (auto intro: good_opp_changed)
  qed
  have cands: "map so_Candidate opps = picks (by_symbol (\<lambda>c. c_Symbol c) allocated) (map ?sym selected)"
    unfolding al(2) by (rule picked_candidates)
  have "map ?sym opps = map (\<lambda>c. c_Symbol c) (map so_Candidate opps)" by simp
  also have "\<dots> = filter (\<lambda>k. by_symbol (\<lambda>c. c_Symbol c) allocated k \<noteq> None) (map ?sym selected)"
    unfolding cands by (rule map_picks)
  finally have syms: "map ?sym opps = filter (\<lambda>k. by_symbol (\<lambda>c. c_Symbol c) allocated k \<noteq> None) (map ?sym selected)" .
  then have "length opps \<le> length selected" using length_filter_le [of _ "map ?sym selected"] by (metis length_map)
  moreover have "distinct (map ?sym opps)" unfolding syms using sel(2) by (rule distinct_filter)
  moreover have "c_Symbol c \<in> set (map ?sym selected)" if al': "c \<in> set allocated" for c
  proof -
    obtain c0 where "c0 \<in> set (map so_Candidate selected)" "changed_only c0 c"
      using bspec [OF conjunct1 [OF within] al'] by blast
    then show ?thesis using changed [of c0 c] by (auto intro: rev_image_eqI [OF _ sym])
  qed
  then have "(\<lambda>c. c_Symbol c) ` set allocated \<subseteq> set (map ?sym selected)" by (rule image_subsetI)
  then have "mset (map so_Candidate opps) = mset allocated"
    unfolding cands using dist sel(2) by (intro mset_picks) simp_all
  then have "mset (map (\<lambda>c. c_MarginUSDT c) (map so_Candidate opps)) = mset (map (\<lambda>c. c_MarginUSDT c) allocated)"
    by (simp only: mset_map)
  then have "mset (map (\<lambda>c. c_MarginUSDT c) allocated) = mset (margins_of opps)" by (simp add: margins_of_def o_def)
  then have "f_pos pool \<longrightarrow> (\<exists>order. mset order = mset (margins_of opps) \<and> \<not> f_lt (foldl f_sub pool order) f0)"
    using conjunct2 [OF within] by blast
  moreover have "good_opp env cfg rcfg results opp \<and> f_pos (c_MarginUSDT (so_Candidate opp)) \<and>
      f_pos (c_Volume (so_Candidate opp)) \<and> (f_pos maxC \<longrightarrow> f_le (c_MarginUSDT (so_Candidate opp)) maxC)"
    if "opp \<in> set opps" for opp
    using good [OF that] bspec [OF conjunct1 [OF within], of "so_Candidate opp"] by simp
  ultimately show ?thesis by blast
qed

text \<open>
  C3: a scheduled scan stays within the settings of its account, when the exchange's results name
  every symbol at most once (the scanner itself removes no repetition: a symbol named twice would be
  returned twice, as the margins are looked up by symbol), the account's margin is a finite number
  and its leverage fits into 64 bits. Every opportunity the scan returns
  comes from one of the exchange's results, whose rate is not below the account's threshold;
  its side earns that rate and is one the account trades; its settlement, when known, was
  ahead of the scanner's clock by at most fifteen minutes, and volume and price passed the
  account's limits; no symbol occurs twice; there are at most as many opportunities as the
  account allows, each with a leverage of at least one and at most the configured one, with a
  positive volume and a positive margin within the limit per candidate; and the margins,
  taken off the account's margin in the order of the allocation, never exceed it.
\<close>

theorem scan_within_account:
  assumes "schedule_Scan env cfg = Some (Inr opps)"
    and "sc_potential env (resolveMinVol24USD cfg (sc_account env) (sc_exchange env)) (scan_blacklist env cfg) = Inr results"
    and "distinct (map pf_Symbol results)"
    and "ReversionForAccount cfg (sc_account env) = Some rcfg" "e = exchange_settings rcfg (sc_exchange env)"
    and "f_is_fin (er_MarginUSD e)" "is_f64 (er_MarginUSD e)" "er_Leverage e < 2 ^ 63"
  shows "(\<forall>opp \<in> set opps. (\<exists>r \<in> set results. comes_from rcfg e r opp) \<and>
      (\<exists>k. isValidCandidate cfg (sc_account env) (sc_exchange env) (sc_now env k) (so_Candidate opp)) \<and>
      1 \<le> c_Leverage (so_Candidate opp) \<and> c_Leverage (so_Candidate opp) \<le> max 1 (er_Leverage e) \<and>
      f_pos (c_Volume (so_Candidate opp)) \<and> f_pos (c_MarginUSDT (so_Candidate opp)) \<and>
      (f_pos (er_MaxMarginUSDOfCandidate e) \<longrightarrow> f_le (c_MarginUSDT (so_Candidate opp)) (er_MaxMarginUSDOfCandidate e))) \<and>
    distinct (map (\<lambda>opp. c_Symbol (so_Candidate opp)) opps) \<and> int (length opps) \<le> max 0 (er_MaxCandidateTrade e) \<and>
    (f_pos (er_MarginUSD e) \<longrightarrow>
      (\<exists>order. mset order = mset (margins_of opps) \<and> \<not> f_lt (foldl f_sub (er_MarginUSD e) order) f0))"
proof -
  have none: ?thesis if "opps = []"
    using that f_lt_asym by (auto simp: margins_of_def f_pos_def)
  show ?thesis
  proof (cases "opps = []")
    case False
    with assms(1,2,4) obtain tickers details found where s:
        "process_results env cfg (by_symbol tk_Symbol tickers) (by_symbol cd_Symbol details) 0 results = Some found"
        "selectBestOpportunities env cfg found = Some opps"
      by (auto simp: schedule_Scan_def Let_def bind_eq_Some_conv split: sum.splits if_splits)
    note found = process_results_opps [OF s(1) assms(4,3)]
    let ?rank = "stable_sort (\<lambda>a b. better_candidate (resolveScoringWeights cfg (sc_account env) (sc_exchange env))
      (so_Candidate a) (so_Candidate b)) found"
    let ?n = "min (int (length found)) (er_MaxCandidateTrade e)"
    have sel: "allocateCandidateMargins env cfg (take (nat ?n) ?rank) (er_MarginUSD e) (er_MaxMarginUSDOfCandidate e) = Some opps" "0 < ?n"
      using s(2) False assms(4,5)
      by (auto simp: selectBestOpportunities_def resolveTotalMarginAndMaxCandidate_def Let_def split: if_splits)
    have "\<forall>opp \<in> set (take (nat ?n) ?rank). good_opp env cfg rcfg results opp"
      using found by (auto dest!: in_set_takeD)
    moreover have "distinct (map (\<lambda>opp. c_Symbol (so_Candidate opp)) ?rank)"
      using found by (metis mset_eq_imp_distinct_iff mset_map mset_stable_sort)
    then have "distinct (map (\<lambda>opp. c_Symbol (so_Candidate opp)) (take (nat ?n) ?rank))"
      by (simp add: take_map [symmetric])
    ultimately have all: "(\<forall>opp \<in> set opps. good_opp env cfg rcfg results opp \<and> f_pos (c_MarginUSDT (so_Candidate opp)) \<and>
        f_pos (c_Volume (so_Candidate opp)) \<and>
        (f_pos (er_MaxMarginUSDOfCandidate e) \<longrightarrow> f_le (c_MarginUSDT (so_Candidate opp)) (er_MaxMarginUSDOfCandidate e))) \<and>
      distinct (map (\<lambda>opp. c_Symbol (so_Candidate opp)) opps) \<and> length opps \<le> length (take (nat ?n) ?rank) \<and>
      (f_pos (er_MarginUSD e) \<longrightarrow>
        (\<exists>order. mset order = mset (margins_of opps) \<and> \<not> f_lt (foldl f_sub (er_MarginUSD e) order) f0))"
      using allocated_opps [OF sel(1) _ _ assms(6,7)] assms(5,8) by blast
    then have "length opps \<le> nat ?n" by simp
    then have "int (length opps) \<le> max 0 (er_MaxCandidateTrade e)" by linarith
    with all assms(5) show ?thesis unfolding good_opp_def valid_at_scan_def by blast
  qed (rule none)
qed

subsection \<open>An example scan\<close>

definition scan_reversion :: ReversionConfig where
  "scan_reversion = sample_reversion\<lparr>rc_Default := sample_settings\<lparr>er_MaxCandidateTrade := 2, er_Leverage := 4\<rparr>,
     rc_Exchanges := Map.empty\<rparr>"

definition scan_config :: Config where
  "scan_config = \<lparr>cf_Blacklist = None, cf_Accounts = [''a1'' \<mapsto> \<lparr>ab_Exchange = ''mexc_futures'', ab_Enabled = True,
     ab_Configured = False, ab_Schedule = True, ab_Reversion = Some scan_reversion, ab_Symbols = []\<rparr>]\<rparr>"

definition scan_ticker :: Ticker where
  "scan_ticker = \<lparr>tk_Symbol = ''BTC_USDT'', tk_LastPrice = FFin 100, tk_Bid1 = FFin 99, tk_Ask1 = FFin 100,
     tk_Volume24 = FFin 14400, tk_AmountUSDT24 = FFin 1152000, tk_Timestamp = 0\<rparr>"

definition scan_contract :: ContractDetail where
  "scan_contract = \<lparr>cd_Symbol = ''BTC_USDT'', cd_PriceUnit = FFin 1, cd_VolUnit = 1, cd_MinVol = 1, cd_MaxVol = 100,
     cd_PriceScale = 0, cd_VolScale = 0, cd_ContractSize = FFin 1, cd_TakerFeeRate = f0, cd_MakerFeeRate = f0,
     cd_MaxLeverage = 50, cd_RiskLimits = []\<rparr>"

definition scan_result :: PotentialFundingResult where
  "scan_result = \<lparr>pf_Symbol = ''BTC_USDT'', pf_Rate = FFin 1, pf_SettleTime = 1000\<rparr>"

definition scan_client :: leverage_client where
  "scan_client = \<lparr>lc_SupportLeverageOnOrder = True, lc_GetMaxLeverageForValue = None, lc_GetMaxLeverage = None\<rparr>"

definition scan_env :: "rat schedule_env" where
  "scan_env = \<lparr>sc_dec = exact_dec, sc_account = ''a1'', sc_exchange = ''mexc_futures'', sc_disabled = (\<lambda>_. False),
     sc_client = scan_client, sc_now = (\<lambda>_. unix_milli 0), sc_potential = (\<lambda>_ _. Inr [scan_result]),
     sc_tickers = Inr [scan_ticker], sc_contracts = Inr [scan_contract]\<rparr>"

lemma scan_reversion_of: "ReversionForAccount scan_config ''a1'' = Some scan_reversion"
proof -
  have "trim_space ''a1'' \<noteq> ''''" by code_simp
  then show ?thesis by (simp add: ReversionForAccount_def scan_config_def)
qed

lemma scan_settings: "exchange_settings scan_reversion exch = sample_settings\<lparr>er_MaxCandidateTrade := 2, er_Leverage := 4\<rparr>"
  by (simp add: exchange_settings_def scan_reversion_def)

lemma scan_symbol_config:
  "\<exists>sc. NewAccountSymbolConfig scan_config ''a1'' ''mexc_futures'' ''BTC_USDT'' = Some sc \<and>
     sy_Leverage sc = 4 \<and> sy_MarginUSDT sc = FFin 100 \<and> sy_MinFundingRate sc = f0"
  by (simp add: NewAccountSymbolConfig_def scan_reversion_of defaultSymbolModes_def normalizeSymbolMetrics_def
      applyAccountDefaults_def scan_settings sample_settings_def f_or_def i_or_def normalizeFundingRateThreshold_def
      go_float f_le_def Let_def)

lemma scan_process:
  "\<exists>opp. processResult scan_env scan_config (by_symbol tk_Symbol [scan_ticker]) (by_symbol cd_Symbol [scan_contract])
      scan_result = Some (Some opp) \<and> c_Market (so_Candidate opp) = \<lparr>md_LastPrice = FFin 100, md_BestBid = FFin 99,
        md_BestAsk = FFin 100, md_Volume24 = FFin 14400, md_Vol24USDT = FFin 1152000\<rparr> \<and>
     c_Leverage (so_Candidate opp) = 4 \<and> c_Spec (so_Candidate opp) = contract_spec scan_contract \<and>
     c_Side (so_Candidate opp) = SideOpenLong \<and> c_SettleTime (so_Candidate opp) = unix_milli 1000"
proof -
  obtain sc where sc: "NewAccountSymbolConfig scan_config ''a1'' ''mexc_futures'' ''BTC_USDT'' = Some sc"
      "sy_Leverage sc = 4" "sy_MarginUSDT sc = FFin 100" "sy_MinFundingRate sc = f0"
    using scan_symbol_config by blast
  have "round_places 1 3 = 1" using round_half_away_of_int [of 1000] by (simp add: round_places_def)
  then have built: "ss_buildCandidate exact_dec sc scan_ticker (FFin 1) = Some \<lparr>c_Config = ToTradeConfig sc,
      c_Intent = sided_intent ''BTC_USDT'' (FFin 1) True, c_Spec = zero_spec,
      c_Market = \<lparr>md_LastPrice = FFin 100, md_BestBid = FFin 99, md_BestAsk = FFin 100, md_Volume24 = FFin 14400,
        md_Vol24USDT = FFin 1152000\<rparr>, c_Plan = zero_plan, c_SettleTime = 0\<rparr>"
    by (simp add: ss_buildCandidate_def build_candidate_def TakeDecimalPlaces_def exact_ops scan_ticker_def go_float f_pos_def)
  have side: "matchTradeSide (rc_TradeSide scan_reversion) s" for s
  proof -
    have "to_lower (trim_space ''both'') = ''both''" by code_simp
    then show ?thesis by (simp add: matchTradeSide_def scan_reversion_def sample_reversion_def)
  qed
  have maps: "by_symbol tk_Symbol [scan_ticker] ''BTC_USDT'' = Some scan_ticker"
    "by_symbol cd_Symbol [scan_contract] ''BTC_USDT'' = Some scan_contract"
    by (simp_all add: by_symbol_def scan_ticker_def scan_contract_def)
  have scan_volume: "cand_CalculateVolume exact_dec c = Some (FFin 4)"
    if "c_MarginUSDT c = FFin 100" "c_Leverage c = 4" "c_Side c = SideOpenLong"
      "c_Spec c = \<lparr>cs_PriceUnit = FFin 1, cs_VolUnit = 1, cs_MinVol = 1, cs_MaxVol = 100, cs_PriceScale = 0,
        cs_VolScale = 0, cs_ContractSize = FFin 1, cs_TakerFeeRate = f0, cs_MakerFeeRate = f0, cs_MaxLeverage = 50\<rparr>"
      "c_BestAsk c = FFin 100" for c
    using that by (simp add: cand_CalculateVolume_def CalculateVolume_def cand_ExecutionRefPrice_def
        ExecutionRefPrice_def cap_MaxVol_def sample_calc)
  let ?c = "\<lparr>c_Config = ToTradeConfig sc, c_Intent = sided_intent ''BTC_USDT'' (FFin 1) True, c_Spec = contract_spec scan_contract,
      c_Market = \<lparr>md_LastPrice = FFin 100, md_BestBid = FFin 99, md_BestAsk = FFin 100, md_Volume24 = FFin 14400,
        md_Vol24USDT = FFin 1152000\<rparr>, c_Plan = zero_plan, c_SettleTime = unix_milli 1000\<rparr>"
  have sized: "size_candidate exact_dec (Some scan_client) (Some scan_contract) ?c = Some (set_Volume (FFin 4) ?c)"
    using sc by (simp add: size_candidate_def updateMaxVolForLeverage_def GetMaxVolForLeverage_def
        DetermineCandidateLeverage_def scan_client_def contract_spec_def scan_contract_def ToTradeConfig_def
        set_Leverage_def scan_volume sided_intent_def Let_def)
  show ?thesis
    using sc sized by (simp add: processResult_def scan_env_def scan_result_def maps built scan_reversion_of side go_float f_abs_def
      sided_intent_def set_Volume_def ToTradeConfig_def Let_def)
qed

lemma scan_allocates:
  assumes "c_Leverage c = 4" "c_Spec c = contract_spec scan_contract" "c_Side c = SideOpenLong"
    and "c_Market c = \<lparr>md_LastPrice = FFin 100, md_BestBid = FFin 99, md_BestAsk = FFin 100, md_Volume24 = FFin 14400,
      md_Vol24USDT = FFin 1152000\<rparr>"
  shows "AllocateMargins exact_dec [c] (FFin 100) f0 (FFin (1 / 2)) (Some scan_client) =
    Some [set_Volume (FFin 4) (set_Leverage 4 (set_Margin (FFin 100) c))]"
  using assms
  by (simp add: AllocateMargins_def allocateSingleCandidateMargin_def margin_limit_def trade_volume_def scan_client_def
      DetermineCandidateLeverage_def cand_CalculateVolume_def CalculateVolume_def cand_ExecutionRefPrice_def
      ExecutionRefPrice_def cap_MaxVol_def tradeable_def contract_spec_def scan_contract_def sample_calc f_pos_def)

lemma scan_run:
  "\<exists>opp. schedule_Scan scan_env scan_config = Some (Inr [opp]) \<and> c_MarginUSDT (so_Candidate opp) = FFin 100"
proof -
  obtain opp where opp: "processResult scan_env scan_config (by_symbol tk_Symbol [scan_ticker]) (by_symbol cd_Symbol [scan_contract])
      scan_result = Some (Some opp)" "c_Market (so_Candidate opp) = \<lparr>md_LastPrice = FFin 100, md_BestBid = FFin 99,
        md_BestAsk = FFin 100, md_Volume24 = FFin 14400, md_Vol24USDT = FFin 1152000\<rparr>"
      "c_Leverage (so_Candidate opp) = 4" "c_Spec (so_Candidate opp) = contract_spec scan_contract"
      "c_Side (so_Candidate opp) = SideOpenLong" "c_SettleTime (so_Candidate opp) = unix_milli 1000"
    using scan_process by blast
  have valid: "isValidCandidate scan_config ''a1'' ''mexc_futures'' (unix_milli 0) (so_Candidate opp)"
    using opp(2,5,6) by (simp add: isValidCandidate_def checkCandidatePreAllocationSafetyLimits_def unix_milli_def
        validateCandidateSettleTime_def is_zero_time_def validateCandidate24hVolume_def validateCandidateMaxSymbolPrice_def
        resolveMinVol24USD_def resolveExchangeReversionConfig_def max_symbol_price_def scan_reversion_of scan_reversion_def
        sample_reversion_def sample_settings_def cand_ExecutionRefPrice_def ExecutionRefPrice_def go_float f_pos_def Let_def)
  have "selectBestOpportunities scan_env scan_config [opp] =
      Some [opp\<lparr>so_Candidate := set_Volume (FFin 4) (set_Leverage 4 (set_Margin (FFin 100) (so_Candidate opp)))\<rparr>]"
    using scan_allocates [OF opp(3,4,5,2)]
    by (simp add: selectBestOpportunities_def resolveTotalMarginAndMaxCandidate_def scan_env_def scan_reversion_of scan_settings
        sample_settings_def allocateCandidateMargins_def resolveMaxImpactRatio_def by_symbol_def Let_def)
      (simp add: scan_reversion_def sample_reversion_def)
  with opp(1) valid show ?thesis
    by (simp add: schedule_Scan_def scan_env_def)
qed

theorem scan_within_account_witness:
  "\<exists>opp. schedule_Scan scan_env scan_config = Some (Inr [opp]) \<and> c_Side (so_Candidate opp) = SideOpenLong \<and>
     c_Leverage (so_Candidate opp) \<le> 4 \<and> so_SettleTime opp = unix_milli 1000"
proof -
  obtain opp where run: "schedule_Scan scan_env scan_config = Some (Inr [opp])" using scan_run by blast
  have fin: "f_is_fin (er_MarginUSD (exchange_settings scan_reversion ''mexc_futures''))"
      "is_f64 (er_MarginUSD (exchange_settings scan_reversion ''mexc_futures''))"
      "er_Leverage (exchange_settings scan_reversion ''mexc_futures'') < 2 ^ 63"
    using rnd64_of_int [of 100] by (simp_all add: scan_settings sample_settings_def f64_bound_def)
  have answers: "sc_account scan_env = ''a1''" "sc_exchange scan_env = ''mexc_futures''"
      "sc_potential scan_env v b = Inr [scan_result]" for v b
    by (simp_all add: scan_env_def)
  have "f_pos (pf_Rate scan_result)" "0 < pf_SettleTime scan_result" "pf_SettleTime scan_result = 1000"
    by (simp_all add: scan_result_def go_float f_pos_def)
  with scan_within_account [OF run, unfolded answers, OF refl _ scan_reversion_of refl fin] run show ?thesis
    by (auto simp: comes_from_def scan_settings Let_def)
qed

end
