(* ===== verification/PennyDomain.thy ===== *)
theory PennyDomain
  imports Domain DecMath
begin

text \<open>
  \<open>internal/bots/penny_jumper/domain\<close>: walls and their events (\<open>wall.go\<close>, \<open>wall_event.go\<close>,
  \<open>event.go\<close>), the reconciliation of a wall with the trades, the judges
  (\<open>default_wall_judge.go\<close>, \<open>dual_wall_judge.go\<close>) and the configuration (\<open>config.go\<close>). A
  wall's status is empty before its first event. The texts of reasons that print numbers are the
  numbers. The language model behind the model judge and the struct validator are arguments.
\<close>

text \<open>\<open>time.Time.Sub\<close> saturates.\<close>

definition time_Sub :: "gtime \<Rightarrow> gtime \<Rightarrow> duration" where
  "time_Sub a b = max (- (2 ^ 63)) (min (2 ^ 63 - 1) (a - b))"

text \<open>\<open>Duration.Seconds\<close>.\<close>

definition Seconds :: "duration \<Rightarrow> float64" where
  "Seconds d = (let sec = go_quot d second; nsec = d - sec * second
     in f_add (f_of_int sec) (f_div (f_of_int nsec) (FFin 1000000000)))"

subsection \<open>Walls\<close>

datatype WallStatus = NoStatus | WallActive | WallWeakened | WallDisappeared | WallConsumed

datatype WallEventType = WallEventBorn | WallEventMatured | WallEventResized | WallEventAbsorbed
  | WallEventPriceApproached | WallEventWeakened | WallEventDisappeared | WallEventConsumed

record Wall =
  wl_ID :: string
  wl_Exchange :: string
  wl_Symbol :: string
  wl_Side :: Side
  wl_Price :: float64
  wl_Volume :: float64
  wl_InitialVolume :: float64
  wl_AvgNearbyVolume :: float64
  wl_RelativeRatio :: float64
  wl_DistancePct :: float64
  wl_DepthImbalance :: float64
  wl_BackingRatio :: float64
  wl_Vol24h :: float64
  wl_WallTo1mRatio :: float64
  wl_PullCount1h :: int
  wl_FillCount1h :: int
  wl_FirstDetectedAt :: gtime
  wl_LastUpdatedAt :: gtime
  wl_DisappearedAt :: "gtime option"
  wl_Status :: WallStatus
  wl_EventSeq :: int
  wl_Matured :: bool

definition zero_wall :: Wall where
  "zero_wall = \<lparr>wl_ID = '''', wl_Exchange = '''', wl_Symbol = '''', wl_Side = SideUnknown, wl_Price = f0,
     wl_Volume = f0, wl_InitialVolume = f0, wl_AvgNearbyVolume = f0, wl_RelativeRatio = f0, wl_DistancePct = f0,
     wl_DepthImbalance = f0, wl_BackingRatio = f0, wl_Vol24h = f0, wl_WallTo1mRatio = f0, wl_PullCount1h = 0,
     wl_FillCount1h = 0, wl_FirstDetectedAt = 0, wl_LastUpdatedAt = 0, wl_DisappearedAt = None,
     wl_Status = NoStatus, wl_EventSeq = 0, wl_Matured = False\<rparr>"

record WallEvent =
  we_WallID :: string
  we_Seq :: int
  we_Timestamp :: gtime
  we_EventType :: WallEventType
  we_Price :: float64
  we_Volume :: float64
  we_DeltaVolume :: float64
  we_DistancePct :: float64
  we_SpreadPct :: float64
  we_RelativeRatio :: float64

text \<open>\<open>wall\<close> is the machine's clock, read by \<open>time.Since\<close> only.\<close>

definition GetAgeAt :: "gtime \<Rightarrow> Wall \<Rightarrow> gtime \<Rightarrow> duration" where
  "GetAgeAt wall w ts =
     (if is_zero_time (wl_FirstDetectedAt w) then 0
      else case wl_DisappearedAt w of
        Some gone \<Rightarrow> if \<not> is_zero_time gone then time_Sub gone (wl_FirstDetectedAt w)
                     else if \<not> is_zero_time ts then time_Sub ts (wl_FirstDetectedAt w)
                     else time_Sub wall (wl_FirstDetectedAt w)
      | None \<Rightarrow> if \<not> is_zero_time ts then time_Sub ts (wl_FirstDetectedAt w)
                else time_Sub wall (wl_FirstDetectedAt w))"

definition wall_ApplyEvent :: "WallEvent \<Rightarrow> Wall \<Rightarrow> Wall" where
  "wall_ApplyEvent evt w0 =
     (let w = w0\<lparr>wl_EventSeq := we_Seq evt, wl_LastUpdatedAt := we_Timestamp evt\<rparr> in
      case we_EventType evt of
        WallEventBorn \<Rightarrow> w\<lparr>wl_ID := we_WallID evt, wl_Volume := we_Volume evt, wl_InitialVolume := we_Volume evt,
          wl_DistancePct := we_DistancePct evt, wl_RelativeRatio := we_RelativeRatio evt,
          wl_FirstDetectedAt := we_Timestamp evt, wl_Status := WallActive\<rparr>
      | WallEventMatured \<Rightarrow> w\<lparr>wl_Matured := True\<rparr>
      | WallEventResized \<Rightarrow> w\<lparr>wl_Volume := we_Volume evt, wl_DistancePct := we_DistancePct evt,
          wl_RelativeRatio := we_RelativeRatio evt\<rparr>
      | WallEventAbsorbed \<Rightarrow> w\<lparr>wl_Volume := we_Volume evt, wl_DistancePct := we_DistancePct evt,
          wl_RelativeRatio := we_RelativeRatio evt\<rparr>
      | WallEventPriceApproached \<Rightarrow> w\<lparr>wl_DistancePct := we_DistancePct evt\<rparr>
      | WallEventWeakened \<Rightarrow> w\<lparr>wl_Status := WallWeakened, wl_Volume := we_Volume evt\<rparr>
      | WallEventDisappeared \<Rightarrow> w\<lparr>wl_Status := WallDisappeared, wl_DisappearedAt := Some (we_Timestamp evt)\<rparr>
      | WallEventConsumed \<Rightarrow> w\<lparr>wl_Status := WallConsumed, wl_Volume := f0,
          wl_DisappearedAt := Some (we_Timestamp evt)\<rparr>)"

definition ProjectWallFromEvents :: "WallEvent list \<Rightarrow> Wall option" where
  "ProjectWallFromEvents events =
     (if events = [] then None else Some (foldl (\<lambda>w e. wall_ApplyEvent e w) zero_wall events))"

subsection \<open>Reconciliation with the trades\<close>

record WallMetrics =
  wm_InitialVolume :: float64
  wm_FinalVolume :: float64
  wm_TotalDropVolume :: float64
  wm_TotalTradedVolume :: float64
  wm_AbsorbedVolume :: float64
  wm_PulledVolume :: float64
  wm_ResizeCount :: int

definition CalculateResizeCount :: "WallEvent list \<Rightarrow> int" where
  "CalculateResizeCount events = int (length (filter (\<lambda>e. we_EventType e = WallEventResized) events))"

definition total_drop :: "WallEvent list \<Rightarrow> float64" where
  "total_drop events = foldl (\<lambda>s e. if f_lt (we_DeltaVolume e) f0 then f_add s (f_neg (we_DeltaVolume e)) else s) f0 events"

definition total_traded :: "PublicTrade list \<Rightarrow> float64" where
  "total_traded trades = foldl (\<lambda>s t. f_add s (pt_Volume t)) f0 trades"

definition ReconcileWallData :: "Wall option \<Rightarrow> WallEvent list \<Rightarrow> PublicTrade list \<Rightarrow> WallMetrics" where
  "ReconcileWallData w events trades =
     (let (initialVol, finalVol) =
            (if events \<noteq> [] then (we_Volume (hd events), we_Volume (last events))
             else case w of Some x \<Rightarrow> (wl_InitialVolume x, wl_Volume x) | None \<Rightarrow> (f0, f0));
          totalDrop = total_drop events; totalTraded = total_traded trades;
          absorbed = f_min totalDrop totalTraded
      in \<lparr>wm_InitialVolume = initialVol, wm_FinalVolume = finalVol, wm_TotalDropVolume = totalDrop,
          wm_TotalTradedVolume = totalTraded, wm_AbsorbedVolume = absorbed,
          wm_PulledVolume = f_max f0 (f_sub totalDrop absorbed), wm_ResizeCount = CalculateResizeCount events\<rparr>)"

subsection \<open>The rule-based judge\<close>

abbreviation dec :: "rat \<Rightarrow> float64" where "dec q \<equiv> f64_of_rat q"

datatype judge_reason = ReasonEmptyWallOrEvents | ReasonDualEvalError
  | ReasonScore float64 float64 float64 int | ReasonText string

record WallJudgeResult =
  jr_WallID :: string
  jr_TrustScore :: float64
  jr_IsTrusted :: bool
  jr_Reason :: judge_reason

definition no_result :: WallJudgeResult where
  "no_result = \<lparr>jr_WallID = '''', jr_TrustScore = f0, jr_IsTrusted = False, jr_Reason = ReasonText ''''\<rparr>"

text \<open>A judge: the wall, its events and the trades; the error comes with a result.\<close>

type_synonym wall_judge =
  "Wall option \<Rightarrow> WallEvent list \<Rightarrow> PublicTrade list \<Rightarrow> WallJudgeResult \<times> string option"

definition scoreImbalanceAndBacking :: "float64 \<Rightarrow> float64 \<Rightarrow> float64" where
  "scoreImbalanceAndBacking depthImbalance backingRatio =
     (if f_le depthImbalance f0 \<and> f_le backingRatio f0 then dec (7/10)
      else
        let imbScore = (if f_le depthImbalance f0 then dec (7/10)
              else if f_lt depthImbalance (dec (1/2)) then dec (2/10)
              else if f_lt depthImbalance (FFin 1) then dec (1/2)
              else if f_lt depthImbalance (FFin 2) then dec (8/10)
              else FFin 1);
            backingScore = (if f_le backingRatio f0 then dec (7/10)
              else if f_lt backingRatio (dec (3/10)) then dec (2/10)
              else if f_lt backingRatio (dec (8/10)) then dec (7/10)
              else FFin 1)
        in f_add (f_mul (dec (6/10)) imbScore) (f_mul (dec (4/10)) backingScore))"

definition scoreAge :: "float64 \<Rightarrow> float64" where
  "scoreAge seconds =
     (if f_lt seconds (FFin 1) then f0
      else if f_lt seconds (FFin 3) then dec (3/10)
      else if f_lt seconds (FFin 10) then dec (6/10)
      else if f_lt seconds (FFin 30) then dec (85/100)
      else FFin 1)"

definition scoreSizeRatio :: "float64 \<Rightarrow> float64" where
  "scoreSizeRatio ratio =
     (if f_lt ratio (FFin 5) then f0
      else if f_lt ratio (FFin 10) then dec (4/10)
      else if f_lt ratio (FFin 20) then dec (7/10)
      else if f_le ratio (FFin 100) then FFin 1
      else dec (75/100))"

definition scoreAbsorption :: "float64 \<Rightarrow> float64" where
  "scoreAbsorption ratio =
     (if f_lt ratio (dec (1/100)) then dec (2/10)
      else if f_lt ratio (dec (5/100)) then dec (1/2)
      else if f_lt ratio (dec (15/100)) then dec (8/10)
      else FFin 1)"

definition scoreStability :: "int \<Rightarrow> float64" where
  "scoreStability resizes =
     (if resizes = 0 then FFin 1 else if resizes = 1 then dec (85/100)
      else if resizes = 2 then dec (6/10) else dec (3/10))"

definition scoreSpreadAndDistance :: "float64 \<Rightarrow> float64 \<Rightarrow> float64" where
  "scoreSpreadAndDistance spreadPct distPct =
     (if f_le spreadPct (dec (2/10)) \<and> f_le distPct (dec (1/2)) then FFin 1
      else if f_le spreadPct (dec (1/2)) \<and> f_le distPct (FFin 1) then dec (8/10)
      else dec (1/2))"

text \<open>The weighted sum of the six factors.\<close>

definition weighted_score :: "float64 \<Rightarrow> float64 \<Rightarrow> float64 \<Rightarrow> float64 \<Rightarrow> float64 \<Rightarrow> float64 \<Rightarrow> float64" where
  "weighted_score age sizeRatio absorption stability spread imbBack =
     f_add (f_add (f_add (f_add (f_add (f_mul (dec (20/100)) age) (f_mul (dec (15/100)) sizeRatio))
       (f_mul (dec (25/100)) absorption)) (f_mul (dec (15/100)) stability)) (f_mul (dec (10/100)) spread))
       (f_mul (dec (15/100)) imbBack)"

text \<open>The penalty for a level whose walls were pulled, the reward for one that was filled.\<close>

definition history_adjusted :: "Wall \<Rightarrow> float64 \<Rightarrow> float64" where
  "history_adjusted w score =
     (if 3 \<le> wl_PullCount1h w \<and> wl_FillCount1h w = 0 then f_sub score (dec (25/100))
      else if 2 \<le> wl_PullCount1h w \<and> wl_FillCount1h w = 0 then f_sub score (dec (10/100))
      else if 0 < wl_FillCount1h w then f_add score (dec (5/100))
      else score)"

definition NewDefaultWallJudge :: "float64 \<Rightarrow> float64" where
  "NewDefaultWallJudge minTrustScore = (if f_le minTrustScore f0 then dec (70/100) else minTrustScore)"

definition default_JudgeWall :: "float64 \<Rightarrow> gtime \<Rightarrow> wall_judge" where
  "default_JudgeWall minTrustScore wall w events trades =
     (case w of
        None \<Rightarrow> (no_result\<lparr>jr_Reason := ReasonEmptyWallOrEvents\<rparr>, None)
      | Some x \<Rightarrow>
          if events = [] then (no_result\<lparr>jr_Reason := ReasonEmptyWallOrEvents\<rparr>, None)
          else
            let metrics = ReconcileWallData w events trades; latestEvent = last events;
                age = Seconds (GetAgeAt wall x (we_Timestamp latestEvent));
                absorptionRatio = (if f_pos (wl_InitialVolume x) then f_div (wm_AbsorbedVolume metrics) (wl_InitialVolume x) else f0);
                score = weighted_score (scoreAge age) (scoreSizeRatio (wl_RelativeRatio x)) (scoreAbsorption absorptionRatio)
                  (scoreStability (wm_ResizeCount metrics))
                  (scoreSpreadAndDistance (we_SpreadPct latestEvent) (we_DistancePct latestEvent))
                  (scoreImbalanceAndBacking (wl_DepthImbalance x) (wl_BackingRatio x));
                trustScore = f_max f0 (f_min (FFin 1) (history_adjusted x score))
            in (\<lparr>jr_WallID = wl_ID x, jr_TrustScore = trustScore, jr_IsTrusted = f_le minTrustScore trustScore,
                 jr_Reason = ReasonScore trustScore age (f_mul absorptionRatio (FFin 100)) (wm_ResizeCount metrics)\<rparr>, None))"

subsection \<open>The dual judge\<close>

text \<open>Both judges run side by side and are waited for; their results do not depend on the order.\<close>

definition dual_JudgeWall :: "wall_judge \<Rightarrow> wall_judge option \<Rightarrow> wall_judge" where
  "dual_JudgeWall localJudge modelJudge w events trades =
     (case w of
        None \<Rightarrow> (no_result\<lparr>jr_Reason := ReasonEmptyWallOrEvents\<rparr>, None)
      | Some x \<Rightarrow>
          if events = [] then (no_result\<lparr>jr_Reason := ReasonEmptyWallOrEvents\<rparr>, None)
          else
            let (localRes, localErr) = localJudge w events trades;
                (modelRes, modelErr) = (case modelJudge of None \<Rightarrow> (no_result, None) | Some j \<Rightarrow> j w events trades);
                (score, reason) =
                  (if jr_IsTrusted localRes \<and> jr_IsTrusted modelRes
                   then (f_max (jr_TrustScore localRes) (jr_TrustScore modelRes), jr_Reason localRes)
                   else if jr_IsTrusted modelRes then (jr_TrustScore modelRes, jr_Reason modelRes)
                   else if jr_IsTrusted localRes then (jr_TrustScore localRes, jr_Reason localRes)
                   else (f_max (jr_TrustScore localRes) (jr_TrustScore modelRes),
                         if jr_Reason localRes \<noteq> ReasonText '''' then jr_Reason localRes else jr_Reason modelRes))
            in if localErr \<noteq> None \<and> modelErr \<noteq> None
               then (\<lparr>jr_WallID = wl_ID x, jr_TrustScore = f0, jr_IsTrusted = False, jr_Reason = ReasonDualEvalError\<rparr>, localErr)
               else (\<lparr>jr_WallID = wl_ID x, jr_TrustScore = score,
                      jr_IsTrusted = (jr_IsTrusted localRes \<or> jr_IsTrusted modelRes), jr_Reason = reason\<rparr>, None))"

definition EvaluateSync :: "wall_judge \<Rightarrow> wall_judge option \<Rightarrow> Wall option \<Rightarrow> WallEvent list \<Rightarrow> PublicTrade list \<Rightarrow>
    WallJudgeResult \<times> WallJudgeResult \<times> bool \<times> float64 \<times> string option" where
  "EvaluateSync localJudge modelJudge w events trades =
     (if w = None \<or> events = [] then
        (no_result\<lparr>jr_Reason := ReasonEmptyWallOrEvents\<rparr>, no_result\<lparr>jr_Reason := ReasonEmptyWallOrEvents\<rparr>, True, f0, None)
      else
        let (localRes, localErr) = localJudge w events trades;
            (modelRes, modelErr) = (case modelJudge of None \<Rightarrow> (no_result, None) | Some j \<Rightarrow> j w events trades)
        in (localRes, modelRes, jr_IsTrusted localRes = jr_IsTrusted modelRes,
            f_abs (f_sub (jr_TrustScore localRes) (jr_TrustScore modelRes)),
            case localErr of Some e \<Rightarrow> Some e | None \<Rightarrow> modelErr))"

subsection \<open>Configuration\<close>

record UniverseConfig =
  uc_TopGainerLimit :: int
  uc_MinVolume24hUSDT :: float64
  uc_MaxCoinPrice :: float64
  uc_TickerInterval :: duration

record ExchangeSyncConfig =
  xs_Mode :: string
  xs_StrictSequence :: bool

record OrderBookSyncConfig =
  oc_MaxBufferCapacity :: int
  oc_SnapshotTimeout :: duration
  oc_CommitRecoverySize :: int
  oc_Exchanges :: "string \<rightharpoonup> ExchangeSyncConfig"

record WallDetectorConfig =
  wd_MinVolumeUSDT :: float64
  wd_MinWallTo1mVolRatio :: float64
  wd_MinRelativeRatio :: float64
  wd_NeighborhoodLevels :: int
  wd_MinLifespan :: duration
  wd_MaxWallDistancePct :: float64
  wd_MaxSpreadPct :: float64
  wd_WeakenedThresholdPct :: float64
  wd_PriceApproachedDistancePct :: float64

record WallJudgeConfig =
  jc_Mode :: string
  jc_MinTrustScore :: float64
  jc_Timeout :: duration
  jc_EvalCooldown :: duration
  jc_Endpoint :: string
  jc_ApiKey :: string
  jc_ModelName :: string

record PennyJumperConfig =
  pj_Exchanges :: "string list"
  pj_ExecutionMode :: string
  pj_Universe :: UniverseConfig
  pj_OrderBookSync :: OrderBookSyncConfig
  pj_WallDetector :: WallDetectorConfig
  pj_WallJudge :: WallJudgeConfig

abbreviation i_default :: "int \<Rightarrow> int \<Rightarrow> int" where "i_default x d \<equiv> (if x \<le> 0 then d else x)"
abbreviation f_default :: "float64 \<Rightarrow> float64 \<Rightarrow> float64" where "f_default x d \<equiv> (if f_le x f0 then d else x)"

definition applyUniverseDefaults :: "UniverseConfig \<Rightarrow> UniverseConfig" where
  "applyUniverseDefaults u = u\<lparr>uc_TopGainerLimit := i_default (uc_TopGainerLimit u) 30,
     uc_MaxCoinPrice := f_default (uc_MaxCoinPrice u) (FFin 10),
     uc_TickerInterval := i_default (uc_TickerInterval u) (15 * minute)\<rparr>"

definition applySyncDefaults :: "OrderBookSyncConfig \<Rightarrow> OrderBookSyncConfig" where
  "applySyncDefaults c = c\<lparr>oc_MaxBufferCapacity := i_default (oc_MaxBufferCapacity c) 500,
     oc_SnapshotTimeout := i_default (oc_SnapshotTimeout c) (5 * second),
     oc_CommitRecoverySize := i_default (oc_CommitRecoverySize c) 1000\<rparr>"

definition applyDetectorDefaults :: "WallDetectorConfig \<Rightarrow> WallDetectorConfig" where
  "applyDetectorDefaults c = c\<lparr>wd_MaxWallDistancePct := f_default (wd_MaxWallDistancePct c) (FFin 1),
     wd_MaxSpreadPct := f_default (wd_MaxSpreadPct c) (FFin 1),
     wd_MinRelativeRatio := f_default (wd_MinRelativeRatio c) (FFin 15),
     wd_NeighborhoodLevels := i_default (wd_NeighborhoodLevels c) 5,
     wd_WeakenedThresholdPct := f_default (wd_WeakenedThresholdPct c) (FFin 50),
     wd_PriceApproachedDistancePct := f_default (wd_PriceApproachedDistancePct c) (dec (1/10))\<rparr>"

definition from_env :: "(string \<Rightarrow> string) \<Rightarrow> string \<Rightarrow> string \<Rightarrow> string" where
  "from_env env name old = (let v = trim_space (env name) in if v \<noteq> '''' then v else old)"

definition injectFromEnv :: "(string \<Rightarrow> string) \<Rightarrow> WallJudgeConfig \<Rightarrow> WallJudgeConfig" where
  "injectFromEnv env j = j\<lparr>jc_Endpoint := from_env env ''AI_PROXY_URL'' (jc_Endpoint j),
     jc_ApiKey := from_env env ''AI_PROXY_API_KEY'' (jc_ApiKey j),
     jc_ModelName := from_env env ''AI_PROXY_MODEL'' (jc_ModelName j)\<rparr>"

definition applyJudgeDefaults :: "(string \<Rightarrow> string) \<Rightarrow> WallJudgeConfig \<Rightarrow> WallJudgeConfig" where
  "applyJudgeDefaults env j = injectFromEnv env
     (j\<lparr>jc_Mode := (if jc_Mode j = '''' then ''dual'' else jc_Mode j),
       jc_MinTrustScore := f_default (jc_MinTrustScore j) (dec (70/100)),
       jc_Timeout := i_default (jc_Timeout j) (10 * second),
       jc_EvalCooldown := i_default (jc_EvalCooldown j) (5 * second)\<rparr>)"

definition ApplyDefaults :: "(string \<Rightarrow> string) \<Rightarrow> PennyJumperConfig \<Rightarrow> PennyJumperConfig" where
  "ApplyDefaults env c = c\<lparr>pj_ExecutionMode := (if pj_ExecutionMode c = '''' then ''paper'' else pj_ExecutionMode c),
     pj_Universe := applyUniverseDefaults (pj_Universe c),
     pj_OrderBookSync := applySyncDefaults (pj_OrderBookSync c),
     pj_WallDetector := applyDetectorDefaults (pj_WallDetector c),
     pj_WallJudge := applyJudgeDefaults env (pj_WallJudge c)\<rparr>"

text \<open>\<open>tags\<close> is the validator's answer on the struct's tags.\<close>

datatype config_error = InvalidStruct string | MissingSync string | MissingEnv string

definition penny_Validate :: "(PennyJumperConfig \<Rightarrow> string option) \<Rightarrow> PennyJumperConfig \<Rightarrow> config_error option" where
  "penny_Validate tags c = (case tags c of
     Some e \<Rightarrow> Some (InvalidStruct e)
   | None \<Rightarrow> (case List.find (\<lambda>e. oc_Exchanges (pj_OrderBookSync c) e = None) (pj_Exchanges c) of
       Some e \<Rightarrow> Some (MissingSync e)
     | None \<Rightarrow> let j = pj_WallJudge c in
         if jc_Mode j = ''model'' \<or> jc_Mode j = ''dual'' then
           if trim_space (jc_Endpoint j) = '''' then Some (MissingEnv ''AI_PROXY_URL'')
           else if trim_space (jc_ApiKey j) = '''' then Some (MissingEnv ''AI_PROXY_API_KEY'')
           else if trim_space (jc_ModelName j) = '''' then Some (MissingEnv ''AI_PROXY_MODEL'')
           else None
         else None))"

end
