(* ===== verification/GoCache.thy ===== *)
theory GoCache
  imports Prelude
begin

text \<open>
  The expiring cache \<open>github.com/patrickmn/go-cache\<close>, which the stores and the runner keep
  their entries in. It is third-party code: the operations the source calls are the record
  \<open>cache_ops\<close>, each with the machine's clock as an argument, and the locale \<open>go_cache\<close> states
  the documented laws. \<open>ttl_ops\<close>, a map from keys to values with their expiration, is an
  instance; the default expiration is that of its constructor.
\<close>

record ('c, 'k, 'v) cache_ops =
  cache_New :: "duration \<Rightarrow> 'c"
  cache_Get :: "'c \<Rightarrow> gtime \<Rightarrow> 'k \<Rightarrow> 'v option"
  cache_Set :: "gtime \<Rightarrow> 'k \<Rightarrow> 'v \<Rightarrow> duration \<Rightarrow> 'c \<Rightarrow> 'c"
  cache_Delete :: "'k \<Rightarrow> 'c \<Rightarrow> 'c"

definition DefaultExpiration :: duration where "DefaultExpiration = 0"

text \<open>What a cache gives back was set under that key, and an entry with an expiration of its
  own stays for that time unless it is set again or deleted.\<close>

locale go_cache =
  fixes C :: "('c, 'k, 'v) cache_ops"
  assumes get_New: "cache_Get C (cache_New C d) t k = None"
    and get_Set_same: "cache_Get C (cache_Set C t k v d c) t' k = Some u \<Longrightarrow> u = v"
    and get_Set_other: "k' \<noteq> k \<Longrightarrow> cache_Get C (cache_Set C t k v d c) t' k' = cache_Get C c t' k'"
    and get_Set_live: "0 < d \<Longrightarrow> t \<le> t' \<Longrightarrow> t' < t + d \<Longrightarrow> cache_Get C (cache_Set C t k v d c) t' k = Some v"
    and get_Delete: "cache_Get C (cache_Delete C k c) t k' = (if k' = k then None else cache_Get C c t k')"
    and get_earlier: "cache_Get C c t k = Some u \<Longrightarrow> t' \<le> t \<Longrightarrow> cache_Get C c t' k = Some u"
begin

lemma get_Set: "cache_Get C (cache_Set C t k v d c) t' k' = Some u \<Longrightarrow>
    (k' = k \<and> u = v) \<or> (k' \<noteq> k \<and> cache_Get C c t' k' = Some u)"
  using get_Set_same get_Set_other by metis

lemma get_stays_None: "cache_Get C c t k = None \<Longrightarrow> t \<le> t' \<Longrightarrow> cache_Get C c t' k = None"
  using get_earlier [of c t' k _ t] by (cases "cache_Get C c t' k") auto

end

subsection \<open>A cache that satisfies the laws\<close>

record ('k, 'v) ttl_cache =
  tc_default :: duration
  tc_items :: "'k \<rightharpoonup> 'v \<times> gtime option"

definition ttl_expires :: "duration \<Rightarrow> gtime \<Rightarrow> duration \<Rightarrow> gtime option" where
  "ttl_expires dflt t d = (let e = (if d = DefaultExpiration then dflt else d) in
     if 0 < e then Some (t + e) else None)"

definition ttl_ops :: "(('k, 'v) ttl_cache, 'k, 'v) cache_ops" where
  "ttl_ops = \<lparr>
     cache_New = (\<lambda>d. \<lparr>tc_default = d, tc_items = Map.empty\<rparr>),
     cache_Get = (\<lambda>c t k. case tc_items c k of
        Some (v, None) \<Rightarrow> Some v | Some (v, Some e) \<Rightarrow> if e < t then None else Some v | None \<Rightarrow> None),
     cache_Set = (\<lambda>t k v d c. c\<lparr>tc_items := (tc_items c)(k \<mapsto> (v, ttl_expires (tc_default c) t d))\<rparr>),
     cache_Delete = (\<lambda>k c. c\<lparr>tc_items := (tc_items c)(k := None)\<rparr>)\<rparr>"

lemma ttl_simps:
  "cache_New ttl_ops d = \<lparr>tc_default = d, tc_items = Map.empty\<rparr>"
  "cache_Get ttl_ops c t k = (case tc_items c k of
     Some (v, None) \<Rightarrow> Some v | Some (v, Some e) \<Rightarrow> if e < t then None else Some v | None \<Rightarrow> None)"
  "cache_Set ttl_ops t k v d c = c\<lparr>tc_items := (tc_items c)(k \<mapsto> (v, ttl_expires (tc_default c) t d))\<rparr>"
  "cache_Delete ttl_ops k c = c\<lparr>tc_items := (tc_items c)(k := None)\<rparr>"
  by (simp_all add: ttl_ops_def)

interpretation ttl: go_cache ttl_ops
  by unfold_locales (auto simp: ttl_simps ttl_expires_def DefaultExpiration_def Let_def split: option.splits if_splits)

end
