(* ===== verification/PennyStore.thy ===== *)
theory PennyStore
  imports PennyDomain GoCache
begin

text \<open>
  \<open>internal/bots/penny_jumper/infrastructure/store/depth_store.go\<close>: the books, active walls,
  journals, trades and histories of one exchange, in an expiring cache. The cache's keys are
  printed from their parts with different prefixes; here they are the constructors of
  \<open>depth_key\<close>. Its values have types, and a value of another type counts as absent. Every
  operation that reads or sets entries takes the machine's clock \<open>t\<close>.
\<close>

datatype depth_key = DepthKey string | ActiveWallKey string Side | HistoryKey string float64
  | Volume24hKey string | WallEventsKey string | TradesKey string

record pullFillEvent =
  pe_isPull :: bool
  pe_timestamp :: gtime

datatype depth_val = VBook OrderBook | VWall Wall | VHistory "pullFillEvent list" | VFloat float64
  | VEvents "WallEvent list" | VTrades "PublicTrade list"

type_synonym 'c depth_ops = "('c, depth_key, depth_val) cache_ops"

abbreviation hour :: duration where "hour \<equiv> 3600000000000"

definition NewDepthStore :: "'c depth_ops \<Rightarrow> duration \<Rightarrow> 'c" where
  "NewDepthStore C defaultTTL = cache_New C (if defaultTTL \<le> 0 then 30 * minute else defaultTTL)"

definition SaveVolume24h :: "'c depth_ops \<Rightarrow> gtime \<Rightarrow> string \<Rightarrow> float64 \<Rightarrow> 'c \<Rightarrow> 'c" where
  "SaveVolume24h C t symbol volumeUSDT = cache_Set C t (Volume24hKey symbol) (VFloat volumeUSDT) (2 * hour)"

definition GetVolume24h :: "'c depth_ops \<Rightarrow> gtime \<Rightarrow> string \<Rightarrow> 'c \<Rightarrow> float64 option" where
  "GetVolume24h C t symbol c = (case cache_Get C c t (Volume24hKey symbol) of Some (VFloat v) \<Rightarrow> Some v | _ \<Rightarrow> None)"

definition SaveDepthSnapshot :: "'c depth_ops \<Rightarrow> gtime \<Rightarrow> string \<Rightarrow> OrderBook \<Rightarrow> 'c \<Rightarrow> 'c" where
  "SaveDepthSnapshot C t symbol ob = cache_Set C t (DepthKey symbol) (VBook ob) DefaultExpiration"

definition GetLatestDepth :: "'c depth_ops \<Rightarrow> gtime \<Rightarrow> string \<Rightarrow> 'c \<Rightarrow> OrderBook option" where
  "GetLatestDepth C t symbol c = (case cache_Get C c t (DepthKey symbol) of Some (VBook ob) \<Rightarrow> Some ob | _ \<Rightarrow> None)"

definition SaveActiveWall :: "'c depth_ops \<Rightarrow> gtime \<Rightarrow> Wall \<Rightarrow> 'c \<Rightarrow> 'c" where
  "SaveActiveWall C t w = cache_Set C t (ActiveWallKey (wl_Symbol w) (wl_Side w)) (VWall w) DefaultExpiration"

definition GetActiveWall :: "'c depth_ops \<Rightarrow> gtime \<Rightarrow> string \<Rightarrow> Side \<Rightarrow> 'c \<Rightarrow> Wall option" where
  "GetActiveWall C t symbol side c =
     (case cache_Get C c t (ActiveWallKey symbol side) of Some (VWall w) \<Rightarrow> Some w | _ \<Rightarrow> None)"

definition DeleteActiveWall :: "'c depth_ops \<Rightarrow> string \<Rightarrow> Side \<Rightarrow> 'c \<Rightarrow> 'c" where
  "DeleteActiveWall C symbol side = cache_Delete C (ActiveWallKey symbol side)"

subsection \<open>The history of a price level\<close>

definition history_of :: "'c depth_ops \<Rightarrow> gtime \<Rightarrow> string \<Rightarrow> float64 \<Rightarrow> 'c \<Rightarrow> pullFillEvent list" where
  "history_of C t symbol price c =
     (case cache_Get C c t (HistoryKey symbol price) of Some (VHistory es) \<Rightarrow> es | _ \<Rightarrow> [])"

definition RecordWallPull :: "'c depth_ops \<Rightarrow> gtime \<Rightarrow> string \<Rightarrow> float64 \<Rightarrow> gtime \<Rightarrow> 'c \<Rightarrow> 'c" where
  "RecordWallPull C t symbol price now c = cache_Set C t (HistoryKey symbol price)
     (VHistory (history_of C t symbol price c @ [\<lparr>pe_isPull = True, pe_timestamp = now\<rparr>])) (2 * hour) c"

definition RecordWallFill :: "'c depth_ops \<Rightarrow> gtime \<Rightarrow> string \<Rightarrow> float64 \<Rightarrow> gtime \<Rightarrow> 'c \<Rightarrow> 'c" where
  "RecordWallFill C t symbol price now c = cache_Set C t (HistoryKey symbol price)
     (VHistory (history_of C t symbol price c @ [\<lparr>pe_isPull = False, pe_timestamp = now\<rparr>])) (2 * hour) c"

record WallHistoryRecord =
  hr_PullCountIn1h :: int
  hr_FillCountIn1h :: int
  hr_TotalPulls :: int
  hr_TotalFills :: int

definition GetWallHistory ::
    "'c depth_ops \<Rightarrow> gtime \<Rightarrow> string \<Rightarrow> float64 \<Rightarrow> duration \<Rightarrow> gtime \<Rightarrow> 'c \<Rightarrow> WallHistoryRecord" where
  "GetWallHistory C t symbol price window now c =
     (let events = history_of C t symbol price c; cutoff = now - window;
          count = (\<lambda>P. int (length (filter P events)))
      in \<lparr>hr_PullCountIn1h = count (\<lambda>e. pe_isPull e \<and> cutoff < pe_timestamp e),
          hr_FillCountIn1h = count (\<lambda>e. \<not> pe_isPull e \<and> cutoff < pe_timestamp e),
          hr_TotalPulls = count pe_isPull, hr_TotalFills = count (\<lambda>e. \<not> pe_isPull e)\<rparr>)"

subsection \<open>The journal of a wall\<close>

definition GetWallEventStream :: "'c depth_ops \<Rightarrow> gtime \<Rightarrow> string \<Rightarrow> 'c \<Rightarrow> WallEvent list" where
  "GetWallEventStream C t wallID c = (if wallID = '''' then []
     else case cache_Get C c t (WallEventsKey wallID) of Some (VEvents es) \<Rightarrow> es | _ \<Rightarrow> [])"

definition AppendWallEvent :: "'c depth_ops \<Rightarrow> gtime \<Rightarrow> string \<Rightarrow> WallEvent \<Rightarrow> 'c \<Rightarrow> 'c" where
  "AppendWallEvent C t wallID evt c = (if wallID = '''' then c
     else cache_Set C t (WallEventsKey wallID) (VEvents (GetWallEventStream C t wallID c @ [evt])) hour c)"

definition ClearWallEvents :: "'c depth_ops \<Rightarrow> string \<Rightarrow> 'c \<Rightarrow> 'c" where
  "ClearWallEvents C wallID c = (if wallID = '''' then c else cache_Delete C (WallEventsKey wallID) c)"

subsection \<open>The trades of a symbol\<close>

definition trades_of :: "'c depth_ops \<Rightarrow> gtime \<Rightarrow> string \<Rightarrow> 'c \<Rightarrow> PublicTrade list" where
  "trades_of C t symbol c = (case cache_Get C c t (TradesKey symbol) of Some (VTrades ts) \<Rightarrow> ts | _ \<Rightarrow> [])"

definition RecordPublicTrades :: "'c depth_ops \<Rightarrow> gtime \<Rightarrow> string \<Rightarrow> PublicTrade list \<Rightarrow> 'c \<Rightarrow> 'c" where
  "RecordPublicTrades C t symbol trades c =
     (if trades = [] then c
      else let existing = trades_of C t symbol c @ trades;
               kept = (if 1000 < length existing then drop (length existing - 1000) existing else existing)
           in cache_Set C t (TradesKey symbol) (VTrades kept) hour c)"

text \<open>A trade at the price, on the taker's side (any side for the unknown one). None is the
  panic of the decimal conversion.\<close>

definition matches :: "'d dec_lib \<Rightarrow> float64 \<Rightarrow> Side \<Rightarrow> PublicTrade \<Rightarrow> bool option" where
  "matches L price takerSide tr =
     map_option (\<lambda>eq. eq \<and> (takerSide = SideUnknown \<or> pt_Side tr = takerSide)) (Equal L (pt_Price tr) price)"

fun filter_option :: "('a \<Rightarrow> bool option) \<Rightarrow> 'a list \<Rightarrow> 'a list option" where
  "filter_option P [] = Some []"
| "filter_option P (x # xs) = (case P x of
     None \<Rightarrow> None
   | Some b \<Rightarrow> map_option (\<lambda>ys. if b then x # ys else ys) (filter_option P xs))"

definition GetTradedVolume :: "'d dec_lib \<Rightarrow> 'c depth_ops \<Rightarrow> gtime \<Rightarrow> string \<Rightarrow> float64 \<Rightarrow> Side \<Rightarrow> 'c \<Rightarrow> float64 option" where
  "GetTradedVolume L C t symbol price takerSide c =
     map_option total_traded (filter_option (matches L price takerSide) (trades_of C t symbol c))"

definition ConsumeTradedVolume ::
    "'d dec_lib \<Rightarrow> 'c depth_ops \<Rightarrow> gtime \<Rightarrow> string \<Rightarrow> float64 \<Rightarrow> Side \<Rightarrow> 'c \<Rightarrow> (float64 \<times> 'c) option" where
  "ConsumeTradedVolume L C t symbol price takerSide c =
     (let trades = trades_of C t symbol c in
      if trades = [] then Some (f0, c)
      else case (filter_option (matches L price takerSide) trades,
                 filter_option (\<lambda>tr. map_option Not (matches L price takerSide tr)) trades) of
        (Some taken, Some remaining) \<Rightarrow> Some (total_traded taken,
          if remaining \<noteq> [] then cache_Set C t (TradesKey symbol) (VTrades remaining) hour c
          else cache_Delete C (TradesKey symbol) c)
      | _ \<Rightarrow> None)"

definition in_window :: "gtime \<Rightarrow> gtime \<Rightarrow> PublicTrade \<Rightarrow> bool" where
  "in_window from to tr =
     ((is_zero_time from \<or> \<not> pt_Timestamp tr < from - second) \<and> (is_zero_time to \<or> \<not> to + second < pt_Timestamp tr))"

definition GetTradesForWall ::
    "'d dec_lib \<Rightarrow> 'c depth_ops \<Rightarrow> gtime \<Rightarrow> string \<Rightarrow> float64 \<Rightarrow> Side \<Rightarrow> gtime \<Rightarrow> gtime \<Rightarrow> 'c \<Rightarrow> PublicTrade list option" where
  "GetTradesForWall L C t symbol price takerSide from to c =
     filter_option (\<lambda>tr. map_option (\<lambda>b. b \<and> in_window from to tr) (matches L price takerSide tr)) (trades_of C t symbol c)"

end
