(* ===== verification/OrderId.thy ===== *)
theory OrderId
  imports OrderEvents
begin

text \<open>
  \<open>internal/infrastructure/exchange/order_id.go\<close> and \<open>pkg/idutil/nanoid.go\<close>: client order
  identifiers. The random numbers are an argument. An instant is printed in the zone GMT+7
  with the layout \<open>02012006150405\<close> (day, month, year, hour, minute, second).
\<close>

definition Alphabet :: string where
  "Alphabet = ''abcdefghijklmnopqrstuvwxyzABCDEFGHIJKLMNOPQRSTUVWXYZ0123456789''"

text \<open>\<open>random i\<close> is the i-th number drawn below the alphabet's length.\<close>

definition NanoIDWithAlphabet :: "(nat \<Rightarrow> nat) \<Rightarrow> int \<Rightarrow> string \<Rightarrow> string" where
  "NanoIDWithAlphabet random n alphabet =
     (if n \<le> 0 \<or> alphabet = '''' then '''' else map (\<lambda>i. alphabet ! random i) [0..<nat n])"

definition NanoID :: "(nat \<Rightarrow> nat) \<Rightarrow> int \<Rightarrow> string" where
  "NanoID random n = NanoIDWithAlphabet random n Alphabet"

text \<open>\<open>strings.Contains\<close>.\<close>

fun str_contains :: "string \<Rightarrow> string \<Rightarrow> bool" where
  "str_contains [] sub = (sub = [])"
| "str_contains (c # s) sub = (has_prefix sub (c # s) \<or> str_contains s sub)"

definition MaxClientOrderIDLength :: "string \<Rightarrow> int" where
  "MaxClientOrderIDLength exch =
     (if str_contains (to_lower exch) ''deepcoin'' then 20
      else if str_contains (to_lower exch) ''gate'' then 28
      else if str_contains (to_lower exch) ''orangex'' then 30
      else 32)"

definition GenerateClientOrderID :: "(nat \<Rightarrow> nat) \<Rightarrow> string \<Rightarrow> string" where
  "GenerateClientOrderID random exch = NanoID random (MaxClientOrderIDLength exch)"

text \<open>The civil date of a day, counted from the first of January of the year one.\<close>

definition civil_date :: "int \<Rightarrow> int \<times> int \<times> int" where
  "civil_date d =
     (let z = d + 306; era = z div 146097; doe = z mod 146097;
          yoe = (doe - doe div 1460 + doe div 36524 - doe div 146096) div 365;
          doy = doe - (365 * yoe + yoe div 4 - yoe div 100); mp = (5 * doy + 2) div 153;
          month = (if mp < 10 then mp + 3 else mp - 9)
      in (yoe + era * 400 + (if month \<le> 2 then 1 else 0), month, doy - (153 * mp + 2) div 5 + 1))"

fun pad_digits :: "nat \<Rightarrow> int \<Rightarrow> string" where
  "pad_digits 0 n = ''''"
| "pad_digits (Suc k) n = pad_digits k (n div 10) @ [char_of (48 + nat (n mod 10))]"

definition format_settle :: "gtime \<Rightarrow> string" where
  "format_settle t =
     (let local = t + 7 * 60 * minute; secs = local div second; s = secs mod 86400
      in case civil_date (secs div 86400) of (y, m, d) \<Rightarrow>
        pad_digits 2 d @ pad_digits 2 m @ pad_digits 4 y @
        pad_digits 2 (s div 3600) @ pad_digits 2 (s div 60 mod 60) @ pad_digits 2 (s mod 60))"

definition ExternalUniqueID :: "string \<Rightarrow> gtime \<Rightarrow> string \<Rightarrow> string" where
  "ExternalUniqueID symbol settleTime exch =
     to_upper (format_settle settleTime @ GetNormalizedSymbol symbol @ replace_all ''_'' '''' exch)"

definition ExternalOrderID :: "string \<Rightarrow> gtime \<Rightarrow> string \<Rightarrow> string" where
  "ExternalOrderID symbol settleTime exch =
     (let upperID = ExternalUniqueID symbol settleTime exch; maxLen = MaxClientOrderIDLength exch
      in if maxLen < int (length upperID) then take (nat maxLen) upperID else upperID)"

lemma max_id_length: "20 \<le> MaxClientOrderIDLength exch \<and> MaxClientOrderIDLength exch \<le> 32"
  by (simp add: MaxClientOrderIDLength_def)

text \<open>The layout has no part below a second.\<close>

lemma format_settle_seconds:
  assumes "t div second = t' div second"
  shows "format_settle t = format_settle t'"
proof -
  have "(t + 7 * 60 * minute) div second = t div second + 7 * 3600" for t :: gtime by simp
  with assms show ?thesis by (simp add: format_settle_def Let_def)
qed

lemma ids_of_a_second: "t div second = t' div second \<Longrightarrow> ExternalUniqueID s t e = ExternalUniqueID s t' e"
  by (simp add: ExternalUniqueID_def format_settle_seconds [of t t'])

end
