(* ===== verification/PennyDetector.thy ===== *)
theory PennyDetector
  imports PennyStore OrderId EventBus GoSort Contracts
begin

text \<open>
  \<open>internal/bots/penny_jumper/application/wall_detector.go\<close>: from a book to the walls of its
  two sides and their events. A run of the detector sees the machine's clock at one instant
  \<open>t\<close>. None is the panic of a decimal conversion.
\<close>

record ('d, 'c, 'r) detector =
  dt_dec :: "'d dec_lib"
  dt_cache :: "'c depth_ops"
  dt_isDup :: "'r is_duplicate"
  dt_exchange :: string
  dt_cfg :: WallDetectorConfig
  dt_contracts :: "(string \<Rightarrow> ContractData option) option"

record WallEventStreamPayload =
  sp_Exchange :: string
  sp_Symbol :: string
  sp_Side :: string
  sp_Event :: WallEvent
  sp_Timestamp :: gtime

record DepthUpdatedEvent =
  du_Exchange :: string
  du_Symbol :: string
  du_Version :: int
  du_OrderBook :: "OrderBook option"
  du_Timestamp :: gtime

record WallQualifiedEvent =
  wq_Wall :: Wall
  wq_TrustScore :: float64
  wq_TargetEntryPrice :: float64
  wq_SpreadPct :: float64
  wq_Timestamp :: gtime

datatype penny_event = StreamEv WallEventStreamPayload | DepthEv DepthUpdatedEvent | QualifiedEv WallQualifiedEvent

text \<open>\<open>json.Marshal\<close> refuses NaN and infinities; other values are decoded as they were.\<close>

definition finite_event :: "WallEvent \<Rightarrow> bool" where
  "finite_event e \<longleftrightarrow> f_is_fin (we_Price e) \<and> f_is_fin (we_Volume e) \<and> f_is_fin (we_DeltaVolume e) \<and>
     f_is_fin (we_DistancePct e) \<and> f_is_fin (we_SpreadPct e) \<and> f_is_fin (we_RelativeRatio e)"

definition finite_wall :: "Wall \<Rightarrow> bool" where
  "finite_wall w \<longleftrightarrow> f_is_fin (wl_Price w) \<and> f_is_fin (wl_Volume w) \<and> f_is_fin (wl_InitialVolume w) \<and>
     f_is_fin (wl_AvgNearbyVolume w) \<and> f_is_fin (wl_RelativeRatio w) \<and> f_is_fin (wl_DistancePct w) \<and>
     f_is_fin (wl_DepthImbalance w) \<and> f_is_fin (wl_BackingRatio w) \<and> f_is_fin (wl_Vol24h w) \<and>
     f_is_fin (wl_WallTo1mRatio w)"

fun penny_wire :: "penny_event \<Rightarrow> penny_event option" where
  "penny_wire (StreamEv p) = (if finite_event (sp_Event p) then Some (StreamEv p) else None)"
| "penny_wire (QualifiedEv q) = (if finite_wall (wq_Wall q) \<and> f_is_fin (wq_TrustScore q) \<and>
     f_is_fin (wq_TargetEntryPrice q) \<and> f_is_fin (wq_SpreadPct q) then Some (QualifiedEv q) else None)"
| "penny_wire (DepthEv d) = (case du_OrderBook d of
     None \<Rightarrow> Some (DepthEv d)
   | Some ob \<Rightarrow> if list_all (\<lambda>l. f_is_fin (Price l) \<and> f_is_fin (Volume l)) (Bids ob @ Asks ob)
               then Some (DepthEv d) else None)"

text \<open>
  A detector's store and the bus. \<open>dp_mail\<close> holds the stream messages not yet handled;
  \<open>dp_emitted\<close> records every event the detector emitted, for the statements only.
\<close>

record ('c, 'r) depth_state =
  dp_cache :: 'c
  dp_bus :: "('r, penny_event) bus"
  dp_mail :: "WallEventStreamPayload list"
  dp_emitted :: "WallEvent list"

definition on_cache :: "('c \<Rightarrow> 'c) \<Rightarrow> ('c, 'r) depth_state \<Rightarrow> ('c, 'r) depth_state" where
  "on_cache f s = s\<lparr>dp_cache := f (dp_cache s)\<rparr>"

definition TopicWallEventStream :: string where
  "TopicWallEventStream = ''penny_jumper.wall.event.stream''"

text \<open>The payload has no deduplication key.\<close>

definition publish_stream :: "'r is_duplicate \<Rightarrow> gtime \<Rightarrow> WallEventStreamPayload \<Rightarrow>
    ('c, 'r) depth_state \<Rightarrow> ('c, 'r) depth_state" where
  "publish_stream isDup t p s = (case bus_Publish isDup penny_wire t TopicWallEventStream '''' (StreamEv p) (dp_bus s) of
     (_, sent, b) \<Rightarrow> s\<lparr>dp_bus := b, dp_mail := dp_mail s @ (case sent of Some (StreamEv q) \<Rightarrow> [q] | _ \<Rightarrow> [])\<rparr>)"

definition wall_event :: "Wall \<Rightarrow> WallEventType \<Rightarrow> float64 \<Rightarrow> float64 \<Rightarrow> gtime \<Rightarrow> WallEvent" where
  "wall_event w eventType deltaVol spreadPct now = \<lparr>we_WallID = wl_ID w, we_Seq = wl_EventSeq w, we_Timestamp = now,
     we_EventType = eventType, we_Price = wl_Price w, we_Volume = wl_Volume w, we_DeltaVolume = deltaVol,
     we_DistancePct = wl_DistancePct w, we_SpreadPct = spreadPct, we_RelativeRatio = wl_RelativeRatio w\<rparr>"

definition emitWallEvent ::
    "('d, 'c, 'r) detector \<Rightarrow> gtime \<Rightarrow> WallEventType \<Rightarrow> float64 \<Rightarrow> float64 \<Rightarrow> gtime \<Rightarrow>
     Wall \<times> ('c, 'r) depth_state \<Rightarrow> Wall \<times> ('c, 'r) depth_state" where
  "emitWallEvent D t eventType deltaVol spreadPct now = (\<lambda>(w0, s).
     let w = w0\<lparr>wl_EventSeq := i64 (wl_EventSeq w0 + 1)\<rparr>;
         evt = wall_event w eventType deltaVol spreadPct now;
         s1 = on_cache (AppendWallEvent (dt_cache D) t (wl_ID w) evt) s;
         s2 = on_cache (SaveActiveWall (dt_cache D) t w) (s1\<lparr>dp_emitted := dp_emitted s1 @ [evt]\<rparr>)
     in (w, publish_stream (dt_isDup D) t \<lparr>sp_Exchange = dt_exchange D, sp_Symbol = wl_Symbol w,
           sp_Side = side_String (wl_Side w), sp_Event = evt, sp_Timestamp = now\<rparr> s2))"

subsection \<open>The figures of a level\<close>

record levelEval =
  le_price :: float64
  le_volume :: float64
  le_distPct :: float64
  le_notional :: float64
  le_avgNearbyVol :: float64
  le_relativeRatio :: float64
  le_backingRatio :: float64
  le_depthImbalance :: float64

definition getContractSize :: "('d, 'c, 'r) detector \<Rightarrow> string \<Rightarrow> float64" where
  "getContractSize D symbol = (case dt_contracts D of
     None \<Rightarrow> FFin 1
   | Some get \<Rightarrow> (case get symbol of
       None \<Rightarrow> FFin 1 | Some cd \<Rightarrow> if f_le (cd_ContractSize cd) f0 then FFin 1 else cd_ContractSize cd))"

definition getPriceUnit :: "('d, 'c, 'r) detector \<Rightarrow> string \<Rightarrow> float64" where
  "getPriceUnit D symbol = (case dt_contracts D of
     None \<Rightarrow> dec (1/100)
   | Some get \<Rightarrow> (case get symbol of
       None \<Rightarrow> dec (1/100) | Some cd \<Rightarrow> if f_le (cd_PriceUnit cd) f0 then dec (1/100) else cd_PriceUnit cd))"

definition calcDistPct :: "float64 \<Rightarrow> float64 \<Rightarrow> float64 \<Rightarrow> bool \<Rightarrow> float64" where
  "calcDistPct price bestBid bestAsk isBid =
     (if isBid then
        if f_lt bestBid price then f0 else f_mul (f_div (f_sub bestBid price) bestBid) (FFin 100)
      else
        if f_lt price bestAsk then f0 else f_mul (f_div (f_sub price bestAsk) bestAsk) (FFin 100))"

definition sum_turnover :: "OrderBookEntry list \<Rightarrow> float64" where
  "sum_turnover ls = foldl (\<lambda>v l. f_add v (f_mul (Volume l) (Price l))) f0 ls"

definition calcDepthImbalance ::
    "OrderBookEntry list \<Rightarrow> OrderBookEntry list \<Rightarrow> float64 \<Rightarrow> float64 \<Rightarrow> bool \<Rightarrow> float64" where
  "calcDepthImbalance bids asks bestBid bestAsk isBid =
     (if f_le bestBid f0 \<or> f_le bestAsk f0 \<or> bids = [] \<or> asks = [] then FFin 1
      else
        let bidVol = sum_turnover (takeWhile (\<lambda>b. f_le (f_mul bestBid (dec (99/100))) (Price b)) bids);
            askVol = sum_turnover (takeWhile (\<lambda>a. f_le (Price a) (f_mul bestAsk (dec (101/100)))) asks)
        in if isBid then (if f_le askVol f0 then FFin 10 else f_div bidVol askVol)
           else if f_le bidVol f0 then FFin 10 else f_div askVol bidVol)"

text \<open>The index of the level with that price, -1 for none.\<close>

fun findLevelIndex :: "'d dec_lib \<Rightarrow> float64 \<Rightarrow> int \<Rightarrow> OrderBookEntry list \<Rightarrow> int option" where
  "findLevelIndex L wallPrice i [] = Some (-1)"
| "findLevelIndex L wallPrice i (l # ls) = (case Equal L (Price l) wallPrice of
     None \<Rightarrow> None | Some b \<Rightarrow> if b then Some i else findLevelIndex L wallPrice (i + 1) ls)"

text \<open>\<open>sort.Float64s\<close> puts NaN first.\<close>

definition sort_floats :: "float64 list \<Rightarrow> float64 list" where
  "sort_floats xs = stable_sort (\<lambda>a b. f_lt a b \<or> (a = FNaN \<and> b \<noteq> FNaN)) xs"

definition neighbour_volumes :: "OrderBookEntry list \<Rightarrow> int \<Rightarrow> int \<Rightarrow> float64 list" where
  "neighbour_volumes levels wallIdx windowSize =
     (let n = int (length levels);
          startIdx = (if wallIdx \<noteq> -1 then max 0 (i64 (wallIdx - windowSize)) else 0);
          endIdx = (if wallIdx \<noteq> -1 then min n (i64 (wallIdx + windowSize + 1)) else n)
      in map (\<lambda>i. Volume (levels ! nat i)) (filter (\<lambda>i. i \<noteq> wallIdx) [startIdx..endIdx - 1]))"

definition calcTrimmedNearbyAverage :: "WallDetectorConfig \<Rightarrow> OrderBookEntry list \<Rightarrow> int \<Rightarrow> float64" where
  "calcTrimmedNearbyAverage cfg levels wallIdx =
     (let windowSize = (if wd_NeighborhoodLevels cfg \<le> 0 then 5 else wd_NeighborhoodLevels cfg);
          candidateVols = neighbour_volumes levels wallIdx windowSize
      in if candidateVols = [] then FFin 1
         else
           let vols = sort_floats candidateVols; n = length vols;
               trimCount = nat (f_to_i64 (f_mul (f_of_int (int n)) (dec (10/100))));
               trimmed = (if 5 \<le> n then take (n - 2 * trimCount) (drop trimCount vols) else vols);
               avg = f_div (foldl f_add f0 trimmed) (f_of_int (int (length trimmed)))
           in if f_le avg f0 then FFin 1 else avg)"

definition calcBackingRatio :: "OrderBookEntry list \<Rightarrow> int \<Rightarrow> float64 \<Rightarrow> float64" where
  "calcBackingRatio levels wallIdx avgNearbyVol =
     (if wallIdx = -1 \<or> int (length levels) - 1 \<le> wallIdx \<or> f_le avgNearbyVol f0 then FFin 1
      else
        let backing = take 3 (drop (nat wallIdx + 1) levels)
        in if backing \<noteq> [] then
             f_div (f_div (foldl (\<lambda>s l. f_add s (Volume l)) f0 backing) (f_of_int (int (length backing)))) avgNearbyVol
           else FFin 1)"

definition calcRelativeAndBackingRatio ::
    "'d dec_lib \<Rightarrow> WallDetectorConfig \<Rightarrow> OrderBookEntry list \<Rightarrow> float64 \<Rightarrow> float64 \<Rightarrow>
     (float64 \<times> float64 \<times> float64) option" where
  "calcRelativeAndBackingRatio L cfg levels wallPrice wallVolume =
     (if levels = [] \<or> f_le wallVolume f0 then Some (f0, f0, FFin 1)
      else map_option (\<lambda>wallIdx.
             let avg = calcTrimmedNearbyAverage cfg levels wallIdx
             in (avg, f_div wallVolume avg, calcBackingRatio levels wallIdx avg))
           (findLevelIndex L wallPrice 0 levels))"

text \<open>The inner option is the answer: the level is no wall.\<close>

definition evalLevel ::
    "('d, 'c, 'r) detector \<Rightarrow> OrderBookEntry list \<Rightarrow> OrderBookEntry list \<Rightarrow> OrderBookEntry list \<Rightarrow> OrderBookEntry \<Rightarrow>
     float64 \<Rightarrow> float64 \<Rightarrow> bool \<Rightarrow> float64 \<Rightarrow> levelEval option option" where
  "evalLevel D levels bids asks lvl bestBid bestAsk isBid contractSize =
     (let cfg = dt_cfg D; distPct = calcDistPct (Price lvl) bestBid bestAsk isBid;
          notional = f_mul (f_mul (Price lvl) (Volume lvl)) contractSize
      in if f_lt distPct f0 \<or> (f_pos (wd_MaxWallDistancePct cfg) \<and> f_lt (wd_MaxWallDistancePct cfg) distPct) then Some None
         else if f_pos (wd_MinVolumeUSDT cfg) \<and> f_lt notional (wd_MinVolumeUSDT cfg) then Some None
         else map_option (\<lambda>(avg, relRatio, backing).
           if f_pos (wd_MinRelativeRatio cfg) \<and> f_lt relRatio (wd_MinRelativeRatio cfg) then None
           else Some \<lparr>le_price = Price lvl, le_volume = Volume lvl, le_distPct = distPct, le_notional = notional,
             le_avgNearbyVol = avg, le_relativeRatio = relRatio, le_backingRatio = backing,
             le_depthImbalance = calcDepthImbalance bids asks bestBid bestAsk isBid\<rparr>)
           (calcRelativeAndBackingRatio (dt_dec D) cfg levels (Price lvl) (Volume lvl)))"

subsection \<open>Candidates\<close>

text \<open>The wall of a level, as a fresh one and as the tracked one.\<close>

definition fresh_wall :: "('d, 'c, 'r) detector \<Rightarrow> string \<Rightarrow> Side \<Rightarrow> gtime \<Rightarrow> levelEval \<Rightarrow> Wall" where
  "fresh_wall D symbol side now ev = zero_wall\<lparr>
     wl_ID := ExternalUniqueID symbol now (dt_exchange D), wl_Exchange := dt_exchange D, wl_Symbol := symbol,
     wl_Side := side, wl_Price := le_price ev, wl_Volume := le_volume ev, wl_InitialVolume := le_volume ev,
     wl_AvgNearbyVolume := le_avgNearbyVol ev, wl_RelativeRatio := le_relativeRatio ev, wl_DistancePct := le_distPct ev,
     wl_DepthImbalance := le_depthImbalance ev, wl_BackingRatio := le_backingRatio ev,
     wl_FirstDetectedAt := now, wl_LastUpdatedAt := now, wl_Status := WallActive\<rparr>"

definition tracked_wall ::
    "('d, 'c, 'r) detector \<Rightarrow> string \<Rightarrow> Side \<Rightarrow> gtime \<Rightarrow> Wall \<Rightarrow> levelEval \<Rightarrow> Wall" where
  "tracked_wall D symbol side now w ev = zero_wall\<lparr>
     wl_ID := wl_ID w, wl_Exchange := dt_exchange D, wl_Symbol := symbol,
     wl_Side := side, wl_Price := le_price ev, wl_Volume := le_volume ev, wl_InitialVolume := wl_InitialVolume w,
     wl_AvgNearbyVolume := le_avgNearbyVol ev, wl_RelativeRatio := le_relativeRatio ev, wl_DistancePct := le_distPct ev,
     wl_DepthImbalance := le_depthImbalance ev, wl_BackingRatio := le_backingRatio ev,
     wl_FirstDetectedAt := wl_FirstDetectedAt w, wl_LastUpdatedAt := now, wl_Status := wl_Status w,
     wl_EventSeq := wl_EventSeq w, wl_Matured := wl_Matured w\<rparr>"

text \<open>The level within half a tick of the tracked price, among the first twenty.\<close>

definition findLevelByPrice ::
    "('d, 'c, 'r) detector \<Rightarrow> string \<Rightarrow> Side \<Rightarrow> OrderBookEntry list \<Rightarrow> OrderBookEntry list \<Rightarrow> OrderBookEntry list \<Rightarrow>
     Wall \<Rightarrow> float64 \<Rightarrow> float64 \<Rightarrow> bool \<Rightarrow> gtime \<Rightarrow> Wall option option" where
  "findLevelByPrice D symbol side levels bids asks existingWall bestBid bestAsk isBid now =
     (case List.find (\<lambda>l. f_le (f_abs (f_sub (Price l) (wl_Price existingWall)))
             (f_mul (getPriceUnit D symbol) (dec (1/2)))) (take 20 levels) of
        None \<Rightarrow> Some None
      | Some lvl \<Rightarrow> map_option (map_option (tracked_wall D symbol side now existingWall))
          (evalLevel D levels bids asks lvl bestBid bestAsk isBid (getContractSize D symbol)))"

text \<open>The qualifying level with the largest notional, the first of equals.\<close>

fun best_level ::
    "('d, 'c, 'r) detector \<Rightarrow> (OrderBookEntry \<Rightarrow> levelEval option option) \<Rightarrow> OrderBookEntry list \<Rightarrow>
     float64 \<times> levelEval option \<Rightarrow> levelEval option option" where
  "best_level D eval [] best = Some (snd best)"
| "best_level D eval (l # ls) best = (case eval l of
     None \<Rightarrow> None
   | Some None \<Rightarrow> best_level D eval ls best
   | Some (Some ev) \<Rightarrow>
       best_level D eval ls (if f_lt (fst best) (le_notional ev) then (le_notional ev, Some ev) else best))"

definition findBestCandidate ::
    "('d, 'c, 'r) detector \<Rightarrow> string \<Rightarrow> Side \<Rightarrow> OrderBookEntry list \<Rightarrow> OrderBookEntry list \<Rightarrow> OrderBookEntry list \<Rightarrow>
     float64 \<Rightarrow> float64 \<Rightarrow> bool \<Rightarrow> gtime \<Rightarrow> Wall option option" where
  "findBestCandidate D symbol side levels bids asks bestBid bestAsk isBid now =
     map_option (map_option (fresh_wall D symbol side now))
       (best_level D (\<lambda>l. evalLevel D levels bids asks l bestBid bestAsk isBid (getContractSize D symbol))
          (take 20 levels) (f0, None))"

subsection \<open>Walls over time\<close>

definition taker_against :: "Side \<Rightarrow> Side" where
  "taker_against side = (if \<not> IsLong side then SideOpenLong else SideOpenShort)"

definition checkVolumeChange ::
    "('d, 'c, 'r) detector \<Rightarrow> gtime \<Rightarrow> string \<Rightarrow> Side \<Rightarrow> float64 \<Rightarrow> float64 \<Rightarrow> gtime \<Rightarrow>
     Wall \<times> ('c, 'r) depth_state \<Rightarrow> (Wall \<times> ('c, 'r) depth_state) option" where
  "checkVolumeChange D t symbol side deltaVol spreadPct now = (\<lambda>(w, s).
     if f_lt deltaVol f0 then
       map_option (\<lambda>tradedVol. emitWallEvent D t (if f_pos tradedVol then WallEventAbsorbed else WallEventResized)
           deltaVol spreadPct now (w, s))
         (GetTradedVolume (dt_dec D) (dt_cache D) t symbol (wl_Price w) (taker_against side) (dp_cache s))
     else if f_pos deltaVol then Some (emitWallEvent D t WallEventResized deltaVol spreadPct now (w, s))
     else Some (w, s))"

definition checkWeakened ::
    "('d, 'c, 'r) detector \<Rightarrow> gtime \<Rightarrow> float64 \<Rightarrow> gtime \<Rightarrow> Wall \<times> ('c, 'r) depth_state \<Rightarrow> Wall \<times> ('c, 'r) depth_state" where
  "checkWeakened D t spreadPct now = (\<lambda>(w, s).
     let weakenedPct = (if f_le (wd_WeakenedThresholdPct (dt_cfg D)) f0 then FFin 50 else wd_WeakenedThresholdPct (dt_cfg D))
     in if f_pos (wl_InitialVolume w) \<and>
           f_lt (f_mul (f_div (wl_Volume w) (wl_InitialVolume w)) (FFin 100)) weakenedPct \<and> wl_Status w \<noteq> WallWeakened
        then emitWallEvent D t WallEventWeakened f0 spreadPct now (w\<lparr>wl_Status := WallWeakened\<rparr>, s)
        else (w, s))"

definition check_matured ::
    "('d, 'c, 'r) detector \<Rightarrow> gtime \<Rightarrow> float64 \<Rightarrow> gtime \<Rightarrow> Wall \<times> ('c, 'r) depth_state \<Rightarrow> Wall \<times> ('c, 'r) depth_state" where
  "check_matured D t spreadPct now = (\<lambda>(w, s).
     let minLifespan = wd_MinLifespan (dt_cfg D)
     in if \<not> wl_Matured w \<and> 0 < minLifespan \<and> minLifespan \<le> GetAgeAt t w now
        then let w1 = w\<lparr>wl_Matured := True\<rparr>
             in emitWallEvent D t WallEventMatured f0 spreadPct now (w1, on_cache (SaveActiveWall (dt_cache D) t w1) s)
        else (w, s))"

definition check_approached ::
    "('d, 'c, 'r) detector \<Rightarrow> gtime \<Rightarrow> float64 \<Rightarrow> float64 \<Rightarrow> gtime \<Rightarrow>
     Wall \<times> ('c, 'r) depth_state \<Rightarrow> Wall \<times> ('c, 'r) depth_state" where
  "check_approached D t prevDistPct spreadPct now = (\<lambda>(w, s).
     let threshold = (if f_le (wd_PriceApproachedDistancePct (dt_cfg D)) f0 then dec (1/10)
           else wd_PriceApproachedDistancePct (dt_cfg D))
     in if f_le (wl_DistancePct w) threshold \<and> f_lt threshold prevDistPct
        then emitWallEvent D t WallEventPriceApproached f0 spreadPct now (w, s) else (w, s))"

definition handleExistingCandidate ::
    "('d, 'c, 'r) detector \<Rightarrow> gtime \<Rightarrow> string \<Rightarrow> Side \<Rightarrow> Wall \<Rightarrow> Wall \<Rightarrow> float64 \<Rightarrow> gtime \<Rightarrow>
     ('c, 'r) depth_state \<Rightarrow> (Wall \<times> ('c, 'r) depth_state) option" where
  "handleExistingCandidate D t symbol side candidate existingWall spreadPct now s =
     (let deltaVol = f_sub (wl_Volume candidate) (wl_Volume existingWall);
          w = existingWall\<lparr>wl_Volume := wl_Volume candidate, wl_LastUpdatedAt := now,
            wl_DistancePct := wl_DistancePct candidate, wl_AvgNearbyVolume := wl_AvgNearbyVolume candidate,
            wl_RelativeRatio := wl_RelativeRatio candidate, wl_DepthImbalance := wl_DepthImbalance candidate,
            wl_BackingRatio := wl_BackingRatio candidate\<rparr>;
          saved = (w, on_cache (SaveActiveWall (dt_cache D) t w) s);
          approached = check_approached D t (wl_DistancePct existingWall) spreadPct now (check_matured D t spreadPct now saved)
      in map_option (\<lambda>changed. case checkWeakened D t spreadPct now changed of
             (w', s') \<Rightarrow> (w', on_cache (SaveActiveWall (dt_cache D) t w') s'))
           (checkVolumeChange D t symbol side deltaVol spreadPct now approached))"

definition handleFreshCandidate ::
    "('d, 'c, 'r) detector \<Rightarrow> gtime \<Rightarrow> Wall \<Rightarrow> float64 \<Rightarrow> gtime \<Rightarrow> ('c, 'r) depth_state \<Rightarrow>
     Wall \<times> ('c, 'r) depth_state" where
  "handleFreshCandidate D t candidate spreadPct now s =
     emitWallEvent D t WallEventBorn f0 spreadPct now (candidate\<lparr>wl_EventSeq := 0\<rparr>, s)"

definition handleDisappearedWall ::
    "('d, 'c, 'r) detector \<Rightarrow> gtime \<Rightarrow> string \<Rightarrow> Side \<Rightarrow> Wall \<Rightarrow> float64 \<Rightarrow> gtime \<Rightarrow>
     ('c, 'r) depth_state \<Rightarrow> ('c, 'r) depth_state option" where
  "handleDisappearedWall D t symbol side w spreadPct now s =
     map_option (\<lambda>tradedVol.
         let (status, eventType) = (if f_le (wl_Volume w) tradedVol \<and> f_pos (wl_Volume w)
               then (WallConsumed, WallEventConsumed) else (WallDisappeared, WallEventDisappeared))
         in on_cache (DeleteActiveWall (dt_cache D) symbol side)
              (snd (emitWallEvent D t eventType (f_neg (wl_Volume w)) spreadPct now (w\<lparr>wl_Status := status\<rparr>, s))))
       (GetTradedVolume (dt_dec D) (dt_cache D) t symbol (wl_Price w) (taker_against side) (dp_cache s))"

definition fresh_scan ::
    "('d, 'c, 'r) detector \<Rightarrow> gtime \<Rightarrow> string \<Rightarrow> Side \<Rightarrow> OrderBookEntry list \<Rightarrow> OrderBookEntry list \<Rightarrow> OrderBookEntry list \<Rightarrow>
     float64 \<Rightarrow> float64 \<Rightarrow> bool \<Rightarrow> float64 \<Rightarrow> gtime \<Rightarrow> ('c, 'r) depth_state \<Rightarrow> (Wall option \<times> ('c, 'r) depth_state) option" where
  "fresh_scan D t symbol side levels bids asks bestBid bestAsk isBid spreadPct now s =
     map_option (\<lambda>c. case c of
         None \<Rightarrow> (None, s)
       | Some candidate \<Rightarrow> (case handleFreshCandidate D t candidate spreadPct now s of (w, s') \<Rightarrow> (Some w, s')))
       (findBestCandidate D symbol side levels bids asks bestBid bestAsk isBid now)"

definition scanSide ::
    "('d, 'c, 'r) detector \<Rightarrow> gtime \<Rightarrow> string \<Rightarrow> Side \<Rightarrow> OrderBookEntry list \<Rightarrow> OrderBookEntry list \<Rightarrow> OrderBookEntry list \<Rightarrow>
     float64 \<Rightarrow> float64 \<Rightarrow> bool \<Rightarrow> float64 \<Rightarrow> gtime \<Rightarrow> ('c, 'r) depth_state \<Rightarrow> (Wall option \<times> ('c, 'r) depth_state) option" where
  "scanSide D t symbol side levels bids asks bestBid bestAsk isBid spreadPct now s =
     (case GetActiveWall (dt_cache D) t symbol side (dp_cache s) of
        None \<Rightarrow> fresh_scan D t symbol side levels bids asks bestBid bestAsk isBid spreadPct now s
      | Some existingWall \<Rightarrow>
          (case findLevelByPrice D symbol side levels bids asks existingWall bestBid bestAsk isBid now of
             None \<Rightarrow> None
           | Some (Some candidate) \<Rightarrow> map_option (\<lambda>(w, s'). (Some w, s'))
               (handleExistingCandidate D t symbol side candidate existingWall spreadPct now s)
           | Some None \<Rightarrow> Option.bind (handleDisappearedWall D t symbol side existingWall spreadPct now s)
               (fresh_scan D t symbol side levels bids asks bestBid bestAsk isBid spreadPct now)))"

definition opt_list :: "'a option \<Rightarrow> 'a list" where
  "opt_list x = (case x of None \<Rightarrow> [] | Some y \<Rightarrow> [y])"

text \<open>Spot exchanges have no wall on the ask side.\<close>

definition is_spot :: "('d, 'c, 'r) detector \<Rightarrow> bool" where
  "is_spot D \<longleftrightarrow> \<not> str_contains (to_lower (dt_exchange D)) ''futures''"

definition ProcessOrderBook ::
    "('d, 'c, 'r) detector \<Rightarrow> gtime \<Rightarrow> OrderBook option \<Rightarrow> gtime \<Rightarrow> ('c, 'r) depth_state \<Rightarrow>
     (Wall list \<times> ('c, 'r) depth_state) option" where
  "ProcessOrderBook D t book now s = (case book of
     None \<Rightarrow> Some ([], s)
   | Some ob \<Rightarrow>
       if Bids ob = [] \<or> Asks ob = [] then Some ([], s)
       else
         let bestBid = Price (hd (Bids ob)); bestAsk = Price (hd (Asks ob));
             spreadPct = f_mul (f_div (f_sub bestAsk bestBid) bestBid) (FFin 100);
             scan = (\<lambda>side levels isBid s. scanSide D t (ob_Symbol ob) side levels (Bids ob) (Asks ob)
               bestBid bestAsk isBid spreadPct now s)
         in if f_le bestBid f0 \<or> f_le bestAsk f0 \<or> f_le bestAsk bestBid then Some ([], s)
            else if f_pos (wd_MaxSpreadPct (dt_cfg D)) \<and> f_lt (wd_MaxSpreadPct (dt_cfg D)) spreadPct then Some ([], s)
            else Option.bind (scan SideOpenLong (Bids ob) True s) (\<lambda>(bid, s1).
              if is_spot D then Some (opt_list bid, s1)
              else map_option (\<lambda>(ask, s2). (opt_list bid @ opt_list ask, s2))
                (scan SideOpenShort (Asks ob) False s1)))"

end
