(* ===== verification/GoFormat.thy ===== *)
theory GoFormat
  imports DecMath GoStrings
begin

text \<open>
  Printing numbers: \<open>fmt\<close>'s verbs \<open>%d\<close> and \<open>%.kf\<close>, and \<open>pkg/formatutil/format.go\<close>. A
  float is printed from its exact value, rounded half to even at the last decimal.
\<close>

definition digit_char :: "int \<Rightarrow> char" where
  "digit_char d = char_of (48 + nat d)"

text \<open>The decimal digits of a number that is not negative.\<close>

function nat_digits :: "int \<Rightarrow> string" where
  "nat_digits n = (if n < 10 then [digit_char n] else nat_digits (n div 10) @ [digit_char (n mod 10)])"
  by pat_completeness auto
termination by (relation "measure nat") auto

declare nat_digits.simps [simp del]

definition format_int :: "int \<Rightarrow> string" where
  "format_int n = (if n < 0 then ''-'' else '''') @ nat_digits \<bar>n\<bar>"

text \<open>The last \<open>k\<close> of at least \<open>k + 1\<close> digits are the decimals.\<close>

definition point_before :: "nat \<Rightarrow> string \<Rightarrow> string" where
  "point_before k ds = (let padded = replicate (Suc k - length ds) (CHR ''0'') @ ds; n = length padded - k
     in if k = 0 then padded else take n padded @ ''.'' @ drop n padded)"

definition format_fixed :: "nat \<Rightarrow> float64 \<Rightarrow> string" where
  "format_fixed k x = (case x of
     FNaN \<Rightarrow> ''NaN'' | FInf neg \<Rightarrow> if neg then ''-Inf'' else ''+Inf''
   | _ \<Rightarrow> (if f_signbit x then ''-'' else '''') @
       point_before k (nat_digits (round_half_even (\<bar>f_val x\<bar> * 10 ^ k))))"

definition FormatPrice :: "float64 \<Rightarrow> string" where
  "FormatPrice price = format_fixed 6 price"

fun comma_groups :: "string \<Rightarrow> string" where
  "comma_groups (a # b # c # d # s) = a # b # c # CHR '','' # comma_groups (d # s)"
| "comma_groups s = s"

definition with_commas :: "string \<Rightarrow> string" where
  "with_commas s =
     (let parts = split_on (CHR ''.'') s; intPart = hd parts;
          decPart = (case parts of _ # p # _ \<Rightarrow> ''.'' @ p | _ \<Rightarrow> '''');
          isNegative = has_prefix ''-'' intPart;
          digits = (if isNegative then tl intPart else intPart)
      in (if isNegative then ''-'' else '''') @ List.rev (comma_groups (List.rev digits)) @ decPart)"

definition FormatPriceWithCommas :: "float64 \<Rightarrow> string" where
  "FormatPriceWithCommas price = with_commas (FormatPrice price)"

definition FormatUSDWithCommasAndDecimals :: "float64 \<Rightarrow> nat \<Rightarrow> string" where
  "FormatUSDWithCommasAndDecimals val decimals = with_commas (format_fixed decimals val)"

definition FormatUSDWithCommas :: "float64 \<Rightarrow> string" where
  "FormatUSDWithCommas val = FormatUSDWithCommasAndDecimals val 2"

definition FormatNetPnL :: "float64 \<Rightarrow> float64 \<Rightarrow> string" where
  "FormatNetPnL netPnL pnlPct =
     (let signNet = (if f_pos netPnL then ''+'' else ''''); signPct = (if f_pos pnlPct then ''+'' else '''');
          netStr = FormatUSDWithCommasAndDecimals (f_abs netPnL) 4
      in if f_lt netPnL f0 then ''-$'' @ netStr @ '' ('' @ format_fixed 2 pnlPct @ ''%)''
         else signNet @ ''$'' @ netStr @ '' ('' @ signPct @ format_fixed 2 pnlPct @ ''%)'')"

definition FormatFundingFee :: "float64 \<Rightarrow> string" where
  "FormatFundingFee val =
     (if f_lt val f0 then ''-$'' @ FormatUSDWithCommasAndDecimals (f_neg val) 4
      else if f_pos val then ''+$'' @ FormatUSDWithCommasAndDecimals val 4
      else ''$0.0000'')"

definition FormatDuration :: "int \<Rightarrow> string" where
  "FormatDuration ms =
     (if ms \<le> 0 then ''0s''
      else let sec = ms div 1000; m = sec div 60; s = sec mod 60
        in if 0 < m then format_int m @ ''m '' @ format_int s @ ''s'' else format_int s @ ''s'')"

definition trim_right :: "char \<Rightarrow> string \<Rightarrow> string" where
  "trim_right c s = List.rev (dropWhile (\<lambda>x. x = c) (List.rev s))"

definition FormatFloatMax4 :: "float64 \<Rightarrow> string" where
  "FormatFloatMax4 val = trim_right (CHR ''.'') (trim_right (CHR ''0'') (format_fixed 4 val))"

definition FormatCompactUSD :: "float64 \<Rightarrow> string" where
  "FormatCompactUSD val =
     (let absVal = f_abs val;
          (suffix, divisor) = (if f_le (FFin 1000000000) absVal then (''b'', FFin 1000000000)
            else if f_le (FFin 1000000) absVal then (''m'', FFin 1000000)
            else if f_le (FFin 1000) absVal then (''k'', FFin 1000) else ('''', FFin 1));
          reduced = f_div val divisor
      in trim_right (CHR ''.'') (trim_right (CHR ''0'') (format_fixed 2 reduced)) @ suffix)"

end
