(* ===== verification/PennyRunner.thy ===== *)
theory PennyRunner
  imports PennyDetector GoFormat
begin

text \<open>
  \<open>internal/bots/penny_jumper/application/runner.go\<close>: the handlers of the depth topic and of
  the wall stream. The stores of the configured exchanges share the bus; the two caches of the
  runner (walls judged lately, levels announced lately) are go-caches as well. Records saved,
  announcements and judgements are kept as lists. The texts of announcements are not modelled.
\<close>

record ('d, 'c, 'e, 'r) runner_env =
  re_dec :: "'d dec_lib"
  re_cache :: "'c depth_ops"
  re_keys :: "('e, string, bool) cache_ops"
  re_isDup :: "'r is_duplicate"
  re_cfg :: PennyJumperConfig
  re_contracts :: "string \<Rightarrow> (string \<Rightarrow> ContractData option) option"
  re_judge :: wall_judge
  re_notifier :: bool

definition detector_of :: "('d, 'c, 'e, 'r) runner_env \<Rightarrow> string \<Rightarrow> ('d, 'c, 'r) detector" where
  "detector_of E exch = \<lparr>dt_dec = re_dec E, dt_cache = re_cache E, dt_isDup = re_isDup E, dt_exchange = exch,
     dt_cfg = pj_WallDetector (re_cfg E), dt_contracts = re_contracts E exch\<rparr>"

record WallRecord =
  wr_ID :: string
  wr_Exchange :: string
  wr_Symbol :: string
  wr_Side :: string
  wr_WallPrice :: float64
  wr_InitialVolume :: float64
  wr_FinalVolume :: float64
  wr_AbsorbedVolume :: float64
  wr_PulledVolume :: float64
  wr_DistancePct :: float64
  wr_SpreadPct :: float64
  wr_Outcome :: WallEventType
  wr_DurationMs :: int
  wr_Events :: "WallEvent list"
  wr_Trades :: "PublicTrade list"
  wr_CreatedAt :: gtime
  wr_CompletedAt :: gtime

record judgement =
  jd_time :: gtime
  jd_now :: gtime
  jd_wall :: Wall
  jd_result :: "WallJudgeResult \<times> string option"

record ('c, 'e, 'r) runner =
  rn_stores :: "string \<rightharpoonup> 'c"
  rn_bus :: "('r, penny_event) bus"
  rn_mail :: "WallEventStreamPayload list"
  rn_emitted :: "string \<Rightarrow> WallEvent list"
  rn_evalCache :: 'e
  rn_notifiedCache :: 'e
  rn_records :: "WallRecord list"
  rn_judged :: "judgement list"
  rn_qualified :: "(gtime \<times> WallQualifiedEvent) list"
  rn_announced :: "(gtime \<times> string) list"

definition NewPennyJumperRunner ::
    "('d, 'c, 'e, 'r) runner_env \<Rightarrow> duration \<Rightarrow> ('r, penny_event) bus \<Rightarrow> ('c, 'e, 'r) runner" where
  "NewPennyJumperRunner E ttl b = \<lparr>
     rn_stores = (\<lambda>exch. if exch \<in> set (pj_Exchanges (re_cfg E)) then Some (NewDepthStore (re_cache E) ttl) else None),
     rn_bus = b, rn_mail = [], rn_emitted = (\<lambda>_. []),
     rn_evalCache = cache_New (re_keys E) (jc_EvalCooldown (pj_WallJudge (re_cfg E))),
     rn_notifiedCache = cache_New (re_keys E) (15 * minute),
     rn_records = [], rn_judged = [], rn_qualified = [], rn_announced = []\<rparr>"

subsection \<open>The depth topic\<close>

definition HandleDepthUpdated ::
    "('d, 'c, 'e, 'r) runner_env \<Rightarrow> gtime \<Rightarrow> DepthUpdatedEvent \<Rightarrow> ('c, 'e, 'r) runner \<Rightarrow> ('c, 'e, 'r) runner option" where
  "HandleDepthUpdated E t evt r = (case du_OrderBook evt of
     None \<Rightarrow> Some r
   | Some ob \<Rightarrow> (case rn_stores r (du_Exchange evt) of
       None \<Rightarrow> Some r
     | Some c \<Rightarrow>
         map_option (\<lambda>(_, s). r\<lparr>rn_stores := (rn_stores r)(du_Exchange evt \<mapsto> dp_cache s), rn_bus := dp_bus s,
             rn_mail := dp_mail s, rn_emitted := (rn_emitted r)(du_Exchange evt := dp_emitted s)\<rparr>)
           (ProcessOrderBook (detector_of E (du_Exchange evt)) t (Some ob) (du_Timestamp evt)
              \<lparr>dp_cache = SaveDepthSnapshot (re_cache E) t (du_Symbol evt) ob c, dp_bus = rn_bus r,
               dp_mail = rn_mail r, dp_emitted = rn_emitted r (du_Exchange evt)\<rparr>)))"

subsection \<open>The end of a wall\<close>

definition parseWallSide :: "string \<Rightarrow> Side" where
  "parseWallSide s = (if s = ''LONG'' \<or> s = ''open_long'' \<or> s = ''SideOpenLong'' then SideOpenLong else SideOpenShort)"

text \<open>\<open>events[0]\<close>, else the event itself; the price of the active wall when there is none.\<close>

definition handleWallLifecycleEnded ::
    "('d, 'c, 'e, 'r) runner_env \<Rightarrow> gtime \<Rightarrow> string \<Rightarrow> string \<Rightarrow> Side \<Rightarrow> WallEvent \<Rightarrow> 'c \<Rightarrow> WallEvent list \<Rightarrow>
     ('c, 'e, 'r) runner \<Rightarrow> ('c, 'e, 'r) runner option" where
  "handleWallLifecycleEnded E t exch symbol side evt c events r =
     (let (initialVol, price0, first0, createdAt) = (case events of
            [] \<Rightarrow> (we_Volume evt, f0, 0, we_Timestamp evt)
          | e # _ \<Rightarrow> if \<not> is_zero_time (we_Timestamp e) then (we_Volume e, we_Price e, we_Timestamp e, we_Timestamp e)
                     else (we_Volume e, we_Price e, 0, we_Timestamp evt));
          (wallPrice, firstDetectedAt) = (if f_eq price0 f0
            then (case GetActiveWall (re_cache E) t symbol side c of
                None \<Rightarrow> (price0, first0)
              | Some w \<Rightarrow> (wl_Price w, if is_zero_time first0 then wl_FirstDetectedAt w else first0))
            else (price0, first0));
          durationMs = max (go_quot (time_Sub (we_Timestamp evt) createdAt) millisecond) 0
      in map_option (\<lambda>trades.
           let metrics = ReconcileWallData None events trades;
               rec = \<lparr>wr_ID = we_WallID evt, wr_Exchange = exch, wr_Symbol = symbol, wr_Side = side_String side,
                 wr_WallPrice = wallPrice, wr_InitialVolume = initialVol, wr_FinalVolume = we_Volume evt,
                 wr_AbsorbedVolume = wm_AbsorbedVolume metrics, wr_PulledVolume = wm_PulledVolume metrics,
                 wr_DistancePct = we_DistancePct evt, wr_SpreadPct = we_SpreadPct evt, wr_Outcome = we_EventType evt,
                 wr_DurationMs = durationMs, wr_Events = events, wr_Trades = trades, wr_CreatedAt = createdAt,
                 wr_CompletedAt = we_Timestamp evt\<rparr>
           in r\<lparr>rn_evalCache := cache_Delete (re_keys E) (we_WallID evt) (rn_evalCache r),
                rn_records := rn_records r @ [rec],
                rn_stores := (rn_stores r)(exch \<mapsto> ClearWallEvents (re_cache E) (we_WallID evt) c)\<rparr>)
         (GetTradesForWall (re_dec E) (re_cache E) t symbol wallPrice (taker_against side) firstDetectedAt
            (we_Timestamp evt) c))"

subsection \<open>Qualification\<close>

record wallEligibility =
  wg_SizeUSD :: float64
  wg_PriceUnit :: float64
  wg_Vol24h :: float64
  wg_Ratio1m :: float64

definition getContractMetrics :: "(string \<Rightarrow> ContractData option) \<Rightarrow> string \<Rightarrow> float64 \<times> float64" where
  "getContractMetrics get symbol = (case get symbol of
     None \<Rightarrow> (FFin 1, dec (1/100))
   | Some cd \<Rightarrow> (if f_pos (cd_ContractSize cd) then cd_ContractSize cd else FFin 1,
       if f_pos (cd_PriceUnit cd) then cd_PriceUnit cd else dec (1/100)))"

definition isEligibleWall ::
    "('d, 'c, 'e, 'r) runner_env \<Rightarrow> gtime \<Rightarrow> Wall \<Rightarrow> (string \<Rightarrow> ContractData option) \<Rightarrow> 'c \<Rightarrow> gtime \<Rightarrow>
     wallEligibility option" where
  "isEligibleWall E t w get c now =
     (let cfg = pj_WallDetector (re_cfg E); minLifespan = wd_MinLifespan cfg;
          (contractSize, priceUnit) = getContractMetrics get (wl_Symbol w);
          sizeUSD = f_mul (f_mul (wl_Volume w) (wl_Price w)) contractSize;
          vol24h = (case GetVolume24h (re_cache E) t (wl_Symbol w) c of
            Some v \<Rightarrow> if f_pos v then v else f0 | None \<Rightarrow> f0);
          vol1m = f_div vol24h (FFin 1440);
          ratio1m = (if f_pos vol24h \<and> f_pos vol1m then f_div sizeUSD vol1m else f0)
      in if 0 < minLifespan \<and> \<not> wl_Matured w \<and> GetAgeAt t w now < minLifespan then None
         else if f_pos (wd_MinVolumeUSDT cfg) \<and> f_lt sizeUSD (wd_MinVolumeUSDT cfg) then None
         else if f_pos (wd_MinWallTo1mVolRatio cfg) \<and> f_pos vol24h \<and> f_lt ratio1m (wd_MinWallTo1mVolRatio cfg) then None
         else Some \<lparr>wg_SizeUSD = sizeUSD, wg_PriceUnit = priceUnit, wg_Vol24h = vol24h, wg_Ratio1m = ratio1m\<rparr>)"

definition canEvaluateWall ::
    "('d, 'c, 'e, 'r) runner_env \<Rightarrow> gtime \<Rightarrow> string \<Rightarrow> duration \<Rightarrow> 'e \<Rightarrow> bool \<times> 'e" where
  "canEvaluateWall E t wallID cooldown e = (case cache_Get (re_keys E) e t wallID of
     Some _ \<Rightarrow> (False, e) | None \<Rightarrow> (True, cache_Set (re_keys E) t wallID True cooldown e))"

definition extractBBO :: "'c depth_ops \<Rightarrow> gtime \<Rightarrow> string \<Rightarrow> 'c \<Rightarrow> float64 \<times> float64" where
  "extractBBO C t symbol c = (case GetLatestDepth C t symbol c of
     None \<Rightarrow> (f0, f0)
   | Some ob \<Rightarrow> (case Bids ob of [] \<Rightarrow> f0 | b # _ \<Rightarrow> Price b, case Asks ob of [] \<Rightarrow> f0 | a # _ \<Rightarrow> Price a))"

definition calculateFrontRunPrice ::
    "'d dec_lib \<Rightarrow> Side \<Rightarrow> float64 \<Rightarrow> float64 \<Rightarrow> float64 \<Rightarrow> float64 \<Rightarrow> float64 option" where
  "calculateFrontRunPrice L side wallPrice bestBid bestAsk tickSize0 =
     (let tickSize = (if f_le tickSize0 f0 then dec (1/100) else tickSize0) in
      if side = SideOpenLong then
        Option.bind (SnapToTickFloor L (f_add wallPrice tickSize) tickSize) (\<lambda>target.
          if f_pos bestAsk \<and> f_le bestAsk target
          then map_option (f_max bestBid) (SnapToTickFloor L (f_sub bestAsk tickSize) tickSize)
          else Some target)
      else
        Option.bind (SnapToTickCeil L (f_sub wallPrice tickSize) tickSize) (\<lambda>target.
          if f_pos bestBid \<and> f_le target bestBid
          then map_option (f_min bestAsk) (SnapToTickCeil L (f_add bestBid tickSize) tickSize)
          else Some target))"

definition wall_key :: "Wall \<Rightarrow> string" where
  "wall_key w = wl_Exchange w @ '':'' @ wl_Symbol w @ '':'' @ side_String (wl_Side w) @ '':'' @ format_fixed 6 (wl_Price w)"

definition dispatchWallNotification ::
    "('d, 'c, 'e, 'r) runner_env \<Rightarrow> gtime \<Rightarrow> Wall \<Rightarrow> ('c, 'e, 'r) runner \<Rightarrow> ('c, 'e, 'r) runner" where
  "dispatchWallNotification E t w r =
     (if \<not> re_notifier E then r
      else if cache_Get (re_keys E) (rn_notifiedCache r) t (wall_key w) \<noteq> None then r
      else r\<lparr>rn_notifiedCache := cache_Set (re_keys E) t (wall_key w) True DefaultExpiration (rn_notifiedCache r),
             rn_announced := rn_announced r @ [(t, wall_key w)]\<rparr>)"

definition TopicWallQualified :: string where
  "TopicWallQualified = ''penny_jumper.wall.qualified''"

definition publish_qualified ::
    "('d, 'c, 'e, 'r) runner_env \<Rightarrow> gtime \<Rightarrow> WallQualifiedEvent \<Rightarrow> ('c, 'e, 'r) runner \<Rightarrow> ('c, 'e, 'r) runner" where
  "publish_qualified E t q r = (case bus_Publish (re_isDup E) penny_wire t TopicWallQualified '''' (QualifiedEv q) (rn_bus r) of
     (_, sent, b) \<Rightarrow> r\<lparr>rn_bus := b,
        rn_qualified := rn_qualified r @ (case sent of Some (QualifiedEv x) \<Rightarrow> [(t, x)] | _ \<Rightarrow> [])\<rparr>)"

text \<open>The judge sees the wall with its turnover ratio and its level's history.\<close>

definition judged_wall :: "('d, 'c, 'e, 'r) runner_env \<Rightarrow> gtime \<Rightarrow> wallEligibility \<Rightarrow> gtime \<Rightarrow> 'c \<Rightarrow> Wall \<Rightarrow> Wall" where
  "judged_wall E t g now c w =
     (let history = GetWallHistory (re_cache E) t (wl_Symbol w) (wl_Price w) hour now c
      in w\<lparr>wl_Vol24h := wg_Vol24h g, wl_WallTo1mRatio := wg_Ratio1m g,
           wl_PullCount1h := hr_PullCountIn1h history, wl_FillCount1h := hr_FillCountIn1h history\<rparr>)"

definition qualify_wall ::
    "('d, 'c, 'e, 'r) runner_env \<Rightarrow> gtime \<Rightarrow> string \<Rightarrow> WallEvent \<Rightarrow> WallEvent list \<Rightarrow> PublicTrade list \<Rightarrow>
     wallEligibility \<Rightarrow> 'c \<Rightarrow> Wall \<Rightarrow> ('c, 'e, 'r) runner \<Rightarrow> ('c, 'e, 'r) runner option" where
  "qualify_wall E t symbol evt events trades g c w r =
     (let w1 = judged_wall E t g (we_Timestamp evt) c w;
          answer = re_judge E (Some w1) events trades;
          r1 = r\<lparr>rn_judged := rn_judged r @ [\<lparr>jd_time = t, jd_now = we_Timestamp evt, jd_wall = w1, jd_result = answer\<rparr>]\<rparr>;
          (bestBid, bestAsk) = extractBBO (re_cache E) t symbol c
      in if snd answer \<noteq> None \<or> \<not> jr_IsTrusted (fst answer) then Some r1
         else map_option (\<lambda>target.
             dispatchWallNotification E t w1 (publish_qualified E t \<lparr>wq_Wall = w1,
               wq_TrustScore = jr_TrustScore (fst answer), wq_TargetEntryPrice = target,
               wq_SpreadPct = we_SpreadPct evt, wq_Timestamp = we_Timestamp evt\<rparr> r1))
           (calculateFrontRunPrice (re_dec E) (wl_Side w) (wl_Price w) bestBid bestAsk (wg_PriceUnit g)))"

definition evaluateAndQualifyWall ::
    "('d, 'c, 'e, 'r) runner_env \<Rightarrow> gtime \<Rightarrow> string \<Rightarrow> string \<Rightarrow> Side \<Rightarrow> WallEvent \<Rightarrow> WallEvent list \<Rightarrow>
     ('c, 'e, 'r) runner \<Rightarrow> ('c, 'e, 'r) runner option" where
  "evaluateAndQualifyWall E t exch symbol side evt events r =
     (case (rn_stores r exch, re_contracts E exch) of
        (Some c, Some get) \<Rightarrow> (case GetActiveWall (re_cache E) t symbol side c of
            None \<Rightarrow> Some r
          | Some w \<Rightarrow> (case isEligibleWall E t w get c (we_Timestamp evt) of
              None \<Rightarrow> Some r
            | Some g \<Rightarrow> Option.bind
                (GetTradesForWall (re_dec E) (re_cache E) t (wl_Symbol w) (wl_Price w) (taker_against side)
                  (wl_FirstDetectedAt w) (we_Timestamp evt) c)
                (\<lambda>trades. case canEvaluateWall E t (wl_ID w) (jc_EvalCooldown (pj_WallJudge (re_cfg E))) (rn_evalCache r) of
                   (fresh, e) \<Rightarrow> if \<not> fresh then Some r
                     else qualify_wall E t symbol evt events trades g c w (r\<lparr>rn_evalCache := e\<rparr>))))
      | _ \<Rightarrow> Some r)"

definition HandleWallEventStream ::
    "('d, 'c, 'e, 'r) runner_env \<Rightarrow> gtime \<Rightarrow> WallEventStreamPayload \<Rightarrow> ('c, 'e, 'r) runner \<Rightarrow>
     ('c, 'e, 'r) runner option" where
  "HandleWallEventStream E t payload r =
     (let evt = sp_Event payload; exch = sp_Exchange payload in
      if exch = '''' then Some r
      else (case rn_stores r exch of
          None \<Rightarrow> Some r
        | Some c \<Rightarrow>
            let events = GetWallEventStream (re_cache E) t (we_WallID evt) c; side = parseWallSide (sp_Side payload)
            in (case we_EventType evt of
                WallEventMatured \<Rightarrow> evaluateAndQualifyWall E t exch (sp_Symbol payload) side evt events r
              | WallEventPriceApproached \<Rightarrow> evaluateAndQualifyWall E t exch (sp_Symbol payload) side evt events r
              | WallEventAbsorbed \<Rightarrow> evaluateAndQualifyWall E t exch (sp_Symbol payload) side evt events r
              | WallEventDisappeared \<Rightarrow> handleWallLifecycleEnded E t exch (sp_Symbol payload) side evt c events r
              | WallEventConsumed \<Rightarrow> handleWallLifecycleEnded E t exch (sp_Symbol payload) side evt c events r
              | _ \<Rightarrow> Some r)))"

end
