(* ===== verification/PennyJournal.thy ===== *)
theory PennyJournal
  imports PennyRunner "HOL-Library.Sublist"
begin

text \<open>
  The journals of walls: what the store keeps of a wall's events is an end piece of the events
  the detector emitted for it, and these replay to the wall.
\<close>

subsection \<open>Lifelines\<close>

definition emitted_of :: "string \<Rightarrow> WallEvent list \<Rightarrow> WallEvent list" where
  "emitted_of i es = filter (\<lambda>e. we_WallID e = i) es"

definition births :: "string \<Rightarrow> WallEvent list \<Rightarrow> nat" where
  "births i es = length (filter (\<lambda>e. we_EventType e = WallEventBorn) (emitted_of i es))"

text \<open>A replayed wall agrees with the detector's on what events carry.\<close>

definition agrees :: "Wall \<Rightarrow> Wall \<Rightarrow> bool" where
  "agrees p w \<longleftrightarrow> wl_ID p = wl_ID w \<and> wl_EventSeq p = wl_EventSeq w \<and> f_eq (wl_Volume p) (wl_Volume w) \<and>
     wl_InitialVolume p = wl_InitialVolume w \<and> wl_FirstDetectedAt p = wl_FirstDetectedAt w \<and>
     wl_Status p = wl_Status w \<and> wl_Matured p = wl_Matured w"

definition lifeline :: "WallEvent list \<Rightarrow> Wall \<Rightarrow> bool" where
  "lifeline es w \<longleftrightarrow> map we_Seq es = [1..wl_EventSeq w] \<and>
     (\<exists>p. ProjectWallFromEvents es = Some p \<and> agrees p w)"

lemma emitted_of_append: "emitted_of i (es @ fs) = emitted_of i es @ emitted_of i fs"
  by (simp add: emitted_of_def)

lemma emitted_of_one: "emitted_of i [e] = (if we_WallID e = i then [e] else [])"
  by (simp add: emitted_of_def)

lemma births_append: "births i (es @ fs) = births i es + births i fs"
  by (simp add: births_def emitted_of_append)

lemma births_one: "births i [e] = (if we_WallID e = i \<and> we_EventType e = WallEventBorn then 1 else 0)"
  by (simp add: births_def emitted_of_one)

lemma lifeline_length: "lifeline es w \<Longrightarrow> wl_EventSeq w = int (length es) \<and> 0 < length es"
proof -
  assume "lifeline es w"
  then have es: "map we_Seq es = [1..wl_EventSeq w]" "es \<noteq> []"
    by (auto simp: lifeline_def ProjectWallFromEvents_def split: if_splits)
  from es(1) have "length es = nat (wl_EventSeq w)" by (metis length_map length_upto diff_add_cancel)
  moreover from es(2) have "0 < length es" by simp
  ultimately show ?thesis by linarith
qed

lemma project_snoc:
  "ProjectWallFromEvents (es @ [e]) = Some (wall_ApplyEvent e (case ProjectWallFromEvents es of None \<Rightarrow> zero_wall | Some p \<Rightarrow> p))"
  by (simp add: ProjectWallFromEvents_def)

lemma lifeline_snoc:
  assumes "lifeline es w" "we_Seq e = wl_EventSeq w + 1" "wl_EventSeq w' = wl_EventSeq w + 1"
    and "\<And>p. agrees p w \<Longrightarrow> agrees (wall_ApplyEvent e p) w'"
  shows "lifeline (es @ [e]) w'"
proof -
  have "0 < wl_EventSeq w" using lifeline_length [OF assms(1)] by simp
  then have "[1..wl_EventSeq w + 1] = [1..wl_EventSeq w] @ [wl_EventSeq w + 1]"
    by (subst upto_rec2) simp_all
  with assms show ?thesis by (auto simp: lifeline_def project_snoc)
qed

subsection \<open>The store\<close>

locale detector_cache = go_cache "dt_cache D" for D :: "('d, 'c, 'r) detector"
begin

abbreviation C where "C \<equiv> dt_cache D"

lemma active_Save: "GetActiveWall C t sm side (SaveActiveWall C t w c) = Some v \<Longrightarrow>
    (if sm = wl_Symbol w \<and> side = wl_Side w then v = w else GetActiveWall C t sm side c = Some v)"
  using get_Set_same [of t "ActiveWallKey sm side" "VWall w" DefaultExpiration c t]
    get_Set_other [of "ActiveWallKey sm side" "ActiveWallKey (wl_Symbol w) (wl_Side w)"]
  by (fastforce simp: GetActiveWall_def SaveActiveWall_def split: option.splits depth_val.splits if_splits)

lemma active_Delete: "GetActiveWall C t sm side (DeleteActiveWall C sm' side' c) =
    (if sm = sm' \<and> side = side' then None else GetActiveWall C t sm side c)"
  by (simp add: GetActiveWall_def DeleteActiveWall_def get_Delete)

lemma active_Append [simp]: "GetActiveWall C t sm side (AppendWallEvent C t' i e c) = GetActiveWall C t sm side c"
  by (simp add: GetActiveWall_def AppendWallEvent_def get_Set_other)

lemma active_Clear [simp]: "GetActiveWall C t sm side (ClearWallEvents C i c) = GetActiveWall C t sm side c"
  by (simp add: GetActiveWall_def ClearWallEvents_def get_Delete)

lemma active_others [simp]:
  "GetActiveWall C t sm side (SaveDepthSnapshot C t' s ob c) = GetActiveWall C t sm side c"
  "GetActiveWall C t sm side (SaveVolume24h C t' s v c) = GetActiveWall C t sm side c"
  "GetActiveWall C t sm side (RecordPublicTrades C t' s ts c) = GetActiveWall C t sm side c"
  by (simp_all add: GetActiveWall_def SaveDepthSnapshot_def SaveVolume24h_def RecordPublicTrades_def get_Set_other Let_def)

lemma stream_others [simp]:
  "GetWallEventStream C t i (SaveActiveWall C t' w c) = GetWallEventStream C t i c"
  "GetWallEventStream C t i (DeleteActiveWall C sm side c) = GetWallEventStream C t i c"
  "GetWallEventStream C t i (SaveDepthSnapshot C t' s ob c) = GetWallEventStream C t i c"
  "GetWallEventStream C t i (SaveVolume24h C t' s v c) = GetWallEventStream C t i c"
  "GetWallEventStream C t i (RecordPublicTrades C t' s ts c) = GetWallEventStream C t i c"
  by (simp_all add: GetWallEventStream_def SaveActiveWall_def DeleteActiveWall_def SaveDepthSnapshot_def SaveVolume24h_def
      RecordPublicTrades_def get_Set_other get_Delete Let_def)

lemma stream_Append: "GetWallEventStream C t i (AppendWallEvent C t j e c) \<in>
    (if i = j then {[], GetWallEventStream C t i c @ [e]} else {GetWallEventStream C t i c})"
  using get_Set_same [of t "WallEventsKey i" "VEvents (GetWallEventStream C t i c @ [e])" hour c t]
    get_Set_other [of "WallEventsKey i" "WallEventsKey j"]
  by (auto simp: GetWallEventStream_def AppendWallEvent_def split: option.splits depth_val.splits)

lemma stream_Clear: "GetWallEventStream C t i (ClearWallEvents C j c) = (if i = j then [] else GetWallEventStream C t i c)"
  by (auto simp: GetWallEventStream_def ClearWallEvents_def get_Delete)

lemma active_later: "GetActiveWall C t' sm side c = Some w \<Longrightarrow> t \<le> t' \<Longrightarrow> GetActiveWall C t sm side c = Some w"
  using get_earlier [of c t' "ActiveWallKey sm side" "VWall w" t]
  by (auto simp: GetActiveWall_def split: option.splits depth_val.splits)

lemma stream_later: "t \<le> t' \<Longrightarrow> GetWallEventStream C t' i c \<in> {[], GetWallEventStream C t i c}"
proof (cases "cache_Get C c t' (WallEventsKey i)")
  case (Some u)
  moreover assume "t \<le> t'"
  ultimately have "cache_Get C c t (WallEventsKey i) = Some u" using get_earlier by blast
  with Some show ?thesis by (simp add: GetWallEventStream_def)
qed (simp add: GetWallEventStream_def)

end

subsection \<open>The invariant\<close>

text \<open>
  At the clock \<open>t\<close>: journals are end pieces, active walls stand under their own key with a
  volume that is a number, and a wall that is the only one born under its identifier is what
  its events replay to; no other key has its identifier.
\<close>

definition good_wall :: "WallEvent list \<Rightarrow> string \<times> Side \<Rightarrow> Wall \<Rightarrow> bool" where
  "good_wall es k w \<longleftrightarrow> k = (wl_Symbol w, wl_Side w) \<and> f_is_fin (wl_Volume w) \<and> is_f64 (wl_Volume w) \<and>
     0 < births (wl_ID w) es \<and>
     (births (wl_ID w) es = 1 \<longrightarrow> lifeline (emitted_of (wl_ID w) es) w)"

definition walls_ok :: "WallEvent list \<Rightarrow> ((string \<times> Side) \<times> Wall) set \<Rightarrow> bool" where
  "walls_ok es S \<longleftrightarrow> (\<forall>(k, w) \<in> S. good_wall es k w) \<and>
     (\<forall>(k, w) \<in> S. \<forall>(k', v) \<in> S. wl_ID v = wl_ID w \<longrightarrow> births (wl_ID w) es = 1 \<longrightarrow> k' = k)"

lemma walls_ok_mono: "walls_ok es S \<Longrightarrow> T \<subseteq> S \<Longrightarrow> walls_ok es T"
  unfolding walls_ok_def by blast

lemma good_wall_snoc:
  assumes "good_wall es k w" "we_WallID e = wl_ID w \<Longrightarrow> births (wl_ID w) (es @ [e]) \<noteq> 1"
  shows "good_wall (es @ [e]) k w"
  using assms by (auto simp: good_wall_def births_append births_one emitted_of_append emitted_of_one split: if_splits)

lemma walls_ok_snoc:
  assumes "walls_ok es S" "\<And>k w. (k, w) \<in> S \<Longrightarrow> wl_ID w = we_WallID e \<Longrightarrow> births (we_WallID e) (es @ [e]) \<noteq> 1"
  shows "walls_ok (es @ [e]) S"
proof -
  have good: "good_wall (es @ [e]) k w" if kw: "(k, w) \<in> S" for k w
  proof (rule good_wall_snoc)
    show "good_wall es k w" using assms(1) kw unfolding walls_ok_def by blast
    show "births (wl_ID w) (es @ [e]) \<noteq> 1" if "we_WallID e = wl_ID w"
      using assms(2) [OF kw] that by simp
  qed
  have "k' = k" if "(k, w) \<in> S" "(k', v) \<in> S" "wl_ID v = wl_ID w" "births (wl_ID w) (es @ [e]) = 1" for k w k' v
  proof -
    have "wl_ID w \<noteq> we_WallID e" using assms(2) [OF that(1)] that(4) by auto
    with that(4) have "births (wl_ID w) es = 1" by (simp add: births_append births_one)
    with assms(1) that(1-3) show ?thesis by (auto simp: walls_ok_def)
  qed
  with good show ?thesis unfolding walls_ok_def by blast
qed

lemma walls_ok_insert:
  assumes "walls_ok es S" "good_wall es k w" "births (wl_ID w) es = 1 \<Longrightarrow> \<forall>(k', v) \<in> S. wl_ID v \<noteq> wl_ID w"
  shows "walls_ok es (insert (k, w) S)"
proof -
  have "wl_ID v \<noteq> wl_ID w" if "(k', v) \<in> S" "births (wl_ID w) es = 1" for k' v using assms(3) that by blast
  with assms(1,2) show ?thesis unfolding walls_ok_def by (auto, metis+)
qed

definition room :: "int \<Rightarrow> WallEvent list \<Rightarrow> bool" where
  "room n es \<longleftrightarrow> int (length es) + n < 2 ^ 63"

definition number :: "float64 \<Rightarrow> bool" where
  "number x \<longleftrightarrow> f_is_fin x \<and> is_f64 x"

definition numbered_levels :: "OrderBookEntry list \<Rightarrow> bool" where
  "numbered_levels levels \<longleftrightarrow> (\<forall>l \<in> set levels. number (Volume l))"

context detector_cache
begin

definition active_walls :: "gtime \<Rightarrow> (string \<times> Side) set \<Rightarrow> 'c \<Rightarrow> ((string \<times> Side) \<times> Wall) set" where
  "active_walls t skip c = {(k, w). k \<notin> skip \<and> GetActiveWall C t (fst k) (snd k) c = Some w}"

definition end_pieces :: "gtime \<Rightarrow> 'c \<Rightarrow> WallEvent list \<Rightarrow> bool" where
  "end_pieces t c es \<longleftrightarrow> (\<forall>i. suffix (GetWallEventStream C t i c) (emitted_of i es)) \<and>
     (\<forall>i. emitted_of i es \<noteq> [] \<longrightarrow> we_EventType (hd (emitted_of i es)) = WallEventBorn)"

lemma unborn: "end_pieces t c es \<Longrightarrow> births i es = 0 \<Longrightarrow> emitted_of i es = []"
  by (cases "emitted_of i es") (auto simp: end_pieces_def births_def dest: spec [of _ i])

definition journal_inv :: "gtime \<Rightarrow> 'c \<Rightarrow> WallEvent list \<Rightarrow> bool" where
  "journal_inv t c es \<longleftrightarrow> end_pieces t c es \<and> walls_ok es (active_walls t {} c)"

lemma end_pieces_later: "end_pieces t c es \<Longrightarrow> t \<le> t' \<Longrightarrow> end_pieces t' c es"
  using stream_later [of t t'] unfolding end_pieces_def by (metis Nil_suffix empty_iff insert_iff)

lemma journal_inv_later:
  assumes "journal_inv t c es" "t \<le> t'"
  shows "journal_inv t' c es"
proof -
  have "active_walls t' {} c \<subseteq> active_walls t {} c" using active_later [OF _ assms(2)] by (auto simp: active_walls_def)
  with assms show ?thesis by (auto simp: journal_inv_def intro: end_pieces_later walls_ok_mono)
qed

text \<open>What the invariant says of an active wall.\<close>

lemma journal_active:
  assumes inv: "journal_inv t c es" and active: "GetActiveWall C t symbol side c = Some w"
  shows "suffix (GetWallEventStream C t (wl_ID w) c) (emitted_of (wl_ID w) es) \<and> wl_Symbol w = symbol \<and> wl_Side w = side \<and>
    (births (wl_ID w) es = 1 \<longrightarrow> map we_Seq (emitted_of (wl_ID w) es) = [1..wl_EventSeq w] \<and>
      (\<exists>p. ProjectWallFromEvents (emitted_of (wl_ID w) es) = Some p \<and> agrees p w) \<and>
      (GetWallEventStream C t (wl_ID w) c \<noteq> [] \<and> we_EventType (hd (GetWallEventStream C t (wl_ID w) c)) = WallEventBorn \<longrightarrow>
         GetWallEventStream C t (wl_ID w) c = emitted_of (wl_ID w) es))"
proof -
  let ?es = "emitted_of (wl_ID w) es" and ?j = "GetWallEventStream C t (wl_ID w) c"
  have pieces: "end_pieces t c es" and ok: "walls_ok es (active_walls t {} c)" using inv by (simp_all add: journal_inv_def)
  have "((symbol, side), w) \<in> active_walls t {} c" using active by (simp add: active_walls_def)
  with ok have good: "good_wall es (symbol, side) w" unfolding walls_ok_def by blast
  have suf: "suffix ?j ?es" using pieces by (simp add: end_pieces_def)
  have "?j = ?es" if "births (wl_ID w) es = 1" "?j \<noteq> []" "we_EventType (hd ?j) = WallEventBorn"
  proof (rule ccontr)
    assume "?j \<noteq> ?es"
    with suf obtain e xs where split: "?es = (e # xs) @ ?j" by (metis append_Nil list.exhaust suffix_def)
    then have "we_EventType e = WallEventBorn" using pieces by (auto simp: end_pieces_def dest: spec [of _ "wl_ID w"])
    with split that have "2 \<le> births (wl_ID w) es" by (cases ?j) (auto simp: births_def)
    with that(1) show False by simp
  qed
  with good suf show ?thesis by (auto simp: good_wall_def lifeline_def)
qed

text \<open>While a wall is being worked on, its own key does not matter.\<close>

definition tracking :: "gtime \<Rightarrow> float64 \<Rightarrow> Wall \<times> ('c, 'r) depth_state \<Rightarrow> bool" where
  "tracking t v ws = (case ws of (w, s) \<Rightarrow>
     let others = active_walls t {(wl_Symbol w, wl_Side w)} (dp_cache s); es = dp_emitted s in
     end_pieces t (dp_cache s) es \<and> walls_ok es others \<and> 0 < births (wl_ID w) es \<and>
     (births (wl_ID w) es = 1 \<longrightarrow> lifeline (emitted_of (wl_ID w) es) (w\<lparr>wl_Volume := v\<rparr>) \<and>
       (\<forall>(k, u) \<in> others. wl_ID u \<noteq> wl_ID w)))"

lemma active_walls_Save: "active_walls t skip (SaveActiveWall C t w c) \<subseteq>
    (if (wl_Symbol w, wl_Side w) \<in> skip then active_walls t skip c
     else insert ((wl_Symbol w, wl_Side w), w) (active_walls t (insert (wl_Symbol w, wl_Side w) skip) c))"
  by (auto simp: active_walls_def dest!: active_Save split: if_splits)

lemma active_walls_simps [simp]:
  "active_walls t skip (AppendWallEvent C t' i e c) = active_walls t skip c"
  "active_walls t skip (ClearWallEvents C i c) = active_walls t skip c"
  "active_walls t skip (SaveDepthSnapshot C t' s ob c) = active_walls t skip c"
  "active_walls t skip (SaveVolume24h C t' s x c) = active_walls t skip c"
  "active_walls t skip (RecordPublicTrades C t' s ts c) = active_walls t skip c"
  "active_walls t skip (DeleteActiveWall C sm side c) = active_walls t (insert (sm, side) skip) c"
  by (auto simp: active_walls_def active_Delete split: if_splits)

lemma end_pieces_others [simp]:
  "end_pieces t (SaveActiveWall C t' w c) es = end_pieces t c es"
  "end_pieces t (DeleteActiveWall C sm side c) es = end_pieces t c es"
  "end_pieces t (SaveDepthSnapshot C t' s ob c) es = end_pieces t c es"
  "end_pieces t (SaveVolume24h C t' s x c) es = end_pieces t c es"
  "end_pieces t (RecordPublicTrades C t' s ts c) es = end_pieces t c es"
  by (simp_all add: end_pieces_def)

lemma end_pieces_Clear: "end_pieces t c es \<Longrightarrow> end_pieces t (ClearWallEvents C i c) es"
  by (auto simp: end_pieces_def stream_Clear)

lemma end_pieces_Append:
  assumes "end_pieces t c es" "0 < births i es \<or> we_EventType e = WallEventBorn" "we_WallID e = i"
  shows "end_pieces t (AppendWallEvent C t i e c) (es @ [e])"
  unfolding end_pieces_def
proof (intro conjI allI impI)
  fix j
  have "suffix (GetWallEventStream C t j c) (emitted_of j es)" using assms(1) by (simp add: end_pieces_def)
  then show "suffix (GetWallEventStream C t j (AppendWallEvent C t i e c)) (emitted_of j (es @ [e]))"
    using stream_Append [of t j i e c] assms(3) by (auto simp: emitted_of_append emitted_of_one split: if_splits)
next
  fix j assume ne: "emitted_of j (es @ [e]) \<noteq> []"
  show "we_EventType (hd (emitted_of j (es @ [e]))) = WallEventBorn"
  proof (cases "emitted_of j es = []")
    case True
    with ne have j: "we_WallID e = j" by (auto simp: emitted_of_append emitted_of_one split: if_splits)
    with True assms(3) have "births i es = 0" by (simp add: births_def)
    with assms(2) j True show ?thesis by (simp add: emitted_of_append emitted_of_one)
  next
    case False
    with assms(1) show ?thesis by (simp add: end_pieces_def emitted_of_append)
  qed
qed

lemma journal_inv_others:
  "journal_inv t c es \<Longrightarrow> journal_inv t (SaveDepthSnapshot C t' s ob c) es"
  "journal_inv t c es \<Longrightarrow> journal_inv t (SaveVolume24h C t' s x c) es"
  "journal_inv t c es \<Longrightarrow> journal_inv t (RecordPublicTrades C t' s ts c) es"
  "journal_inv t c es \<Longrightarrow> journal_inv t (ClearWallEvents C i c) es"
  "journal_inv t c es \<Longrightarrow> journal_inv t (DeleteActiveWall C s side c) es"
  by (auto simp: journal_inv_def end_pieces_Clear) (auto elim!: walls_ok_mono simp: active_walls_def)

lemma journal_inv_New: "journal_inv t (NewDepthStore C ttl) []"
  by (simp add: journal_inv_def end_pieces_def active_walls_def walls_ok_def NewDepthStore_def GetActiveWall_def
      GetWallEventStream_def get_New emitted_of_def)

lemma tracking_start:
  assumes "journal_inv t (dp_cache s) (dp_emitted s)" "GetActiveWall C t sm side (dp_cache s) = Some w"
  shows "tracking t (wl_Volume w) (w, s) \<and> sm = wl_Symbol w \<and> side = wl_Side w \<and> f_is_fin (wl_Volume w) \<and> is_f64 (wl_Volume w)"
proof -
  let ?all = "active_walls t {} (dp_cache s)"
  have w: "((sm, side), w) \<in> ?all" using assms(2) by (simp add: active_walls_def)
  have ok: "walls_ok (dp_emitted s) ?all" "end_pieces t (dp_cache s) (dp_emitted s)"
    using assms(1) by (simp_all add: journal_inv_def)
  then have good: "good_wall (dp_emitted s) (sm, side) w" using w unfolding walls_ok_def by blast
  let ?others = "active_walls t {(wl_Symbol w, wl_Side w)} (dp_cache s)"
  have sub: "?others \<subseteq> ?all" by (auto simp: active_walls_def)
  have "wl_ID u \<noteq> wl_ID w" if "(k, u) \<in> ?others" "births (wl_ID w) (dp_emitted s) = 1" for k u
  proof
    assume "wl_ID u = wl_ID w"
    then have "k = (sm, side)" using ok(1) w sub that unfolding walls_ok_def by blast
    with that(1) good show False by (simp add: active_walls_def good_wall_def)
  qed
  with good ok walls_ok_mono [OF ok(1) sub] show ?thesis by (auto simp: tracking_def good_wall_def Let_def)
qed

lemma tracking_cong:
  assumes "tracking t v (w, s)" "wl_ID w' = wl_ID w" "wl_Symbol w' = wl_Symbol w" "wl_Side w' = wl_Side w"
    and "wl_EventSeq w' = wl_EventSeq w" "wl_InitialVolume w' = wl_InitialVolume w"
    and "wl_FirstDetectedAt w' = wl_FirstDetectedAt w" "wl_Status w' = wl_Status w" "wl_Matured w' = wl_Matured w"
  shows "tracking t v (w', s)"
  using assms by (simp add: tracking_def lifeline_def agrees_def Let_def)

lemma tracking_save:
  assumes "tracking t v (w, s)" "wl_Symbol w' = wl_Symbol w" "wl_Side w' = wl_Side w"
  shows "tracking t v (w, on_cache (SaveActiveWall C t w') s)"
proof -
  have "active_walls t {(wl_Symbol w, wl_Side w)} (SaveActiveWall C t w' (dp_cache s)) \<subseteq>
      active_walls t {(wl_Symbol w, wl_Side w)} (dp_cache s)"
    using active_walls_Save [of t "{(wl_Symbol w, wl_Side w)}" w' "dp_cache s"] assms(2,3) by simp
  with assms(1) show ?thesis
    by (auto simp: tracking_def on_cache_def Let_def elim: walls_ok_mono)
qed

lemma f_eq_trans: "f_eq a b \<Longrightarrow> f_eq b c \<Longrightarrow> f_eq a c"
  by (auto simp: f_eq_def split: option.splits)

lemma tracking_end:
  assumes trk: "tracking t v (w, s)" and v: "f_eq v (wl_Volume w)" "f_is_fin (wl_Volume w)" "is_f64 (wl_Volume w)"
  shows "journal_inv t (SaveActiveWall C t w (dp_cache s)) (dp_emitted s)"
proof -
  let ?k = "(wl_Symbol w, wl_Side w)" and ?es = "dp_emitted s"
  let ?others = "active_walls t {?k} (dp_cache s)"
  have ok: "end_pieces t (dp_cache s) ?es" "walls_ok ?es ?others" and births: "0 < births (wl_ID w) ?es"
    and one: "births (wl_ID w) ?es = 1 \<Longrightarrow> lifeline (emitted_of (wl_ID w) ?es) (w\<lparr>wl_Volume := v\<rparr>) \<and>
      (\<forall>(k, u) \<in> ?others. wl_ID u \<noteq> wl_ID w)"
    using trk by (auto simp: tracking_def Let_def)
  have "agrees p w" if "agrees p (w\<lparr>wl_Volume := v\<rparr>)" for p
    using that v(1) f_eq_trans by (auto simp: agrees_def)
  then have "good_wall ?es ?k w" using v births one by (auto simp: good_wall_def lifeline_def)
  then have "walls_ok ?es (insert (?k, w) ?others)" using ok one by (intro walls_ok_insert) auto
  moreover have "active_walls t {} (SaveActiveWall C t w (dp_cache s)) \<subseteq> insert (?k, w) ?others"
    using active_walls_Save [of t "{}" w "dp_cache s"] by simp
  ultimately show ?thesis using ok by (auto simp: journal_inv_def elim: walls_ok_mono)
qed

subsection \<open>Events\<close>

lemma publish_stream_simps [simp]:
  "dp_cache (publish_stream isDup t p s) = dp_cache s"
  "dp_emitted (publish_stream isDup t p s) = dp_emitted s"
  by (simp_all add: publish_stream_def split: prod.splits)

lemma wall_event_simps [simp]:
  "we_WallID (wall_event w T d sp now) = wl_ID w" "we_Seq (wall_event w T d sp now) = wl_EventSeq w"
  "we_EventType (wall_event w T d sp now) = T" "we_Volume (wall_event w T d sp now) = wl_Volume w"
  "we_Timestamp (wall_event w T d sp now) = now" "we_Price (wall_event w T d sp now) = wl_Price w"
  "we_DeltaVolume (wall_event w T d sp now) = d" "we_DistancePct (wall_event w T d sp now) = wl_DistancePct w"
  by (simp_all add: wall_event_def)

lemma emitWallEvent_eq:
  fixes w :: Wall
  defines "w' \<equiv> w\<lparr>wl_EventSeq := i64 (wl_EventSeq w + 1)\<rparr>"
  shows "fst (emitWallEvent D t T d sp now (w, s)) = w'"
    and "dp_emitted (snd (emitWallEvent D t T d sp now (w, s))) = dp_emitted s @ [wall_event w' T d sp now]"
    and "dp_cache (snd (emitWallEvent D t T d sp now (w, s))) =
      SaveActiveWall C t w' (AppendWallEvent C t (wl_ID w) (wall_event w' T d sp now) (dp_cache s))"
  by (simp_all add: emitWallEvent_def Let_def on_cache_def w'_def)

lemma tracking_emit:
  assumes trk: "tracking t v (w0, s)" and T: "T \<noteq> WallEventBorn" and room: "room 1 (dp_emitted s)"
    and same: "wl_ID w = wl_ID w0" "wl_Symbol w = wl_Symbol w0" "wl_Side w = wl_Side w0" "wl_EventSeq w = wl_EventSeq w0"
    and step: "\<And>p e. agrees p (w0\<lparr>wl_Volume := v\<rparr>) \<Longrightarrow>
      e = wall_event (w\<lparr>wl_EventSeq := wl_EventSeq w + 1\<rparr>) T d sp now \<Longrightarrow>
      agrees (wall_ApplyEvent e p) (w\<lparr>wl_EventSeq := wl_EventSeq w + 1, wl_Volume := v'\<rparr>)"
  shows "tracking t v' (emitWallEvent D t T d sp now (w, s))"
proof -
  let ?w = "w\<lparr>wl_EventSeq := i64 (wl_EventSeq w + 1)\<rparr>" and ?k = "(wl_Symbol w, wl_Side w)"
  let ?e = "wall_event ?w T d sp now" and ?es = "dp_emitted s"
  let ?others = "active_walls t {?k} (dp_cache s)"
  have ok: "end_pieces t (dp_cache s) ?es" "walls_ok ?es ?others" and births: "0 < births (wl_ID w) ?es"
    and one: "births (wl_ID w) ?es = 1 \<Longrightarrow> lifeline (emitted_of (wl_ID w) ?es) (w0\<lparr>wl_Volume := v\<rparr>) \<and>
      (\<forall>(k, u) \<in> ?others. wl_ID u \<noteq> wl_ID w)"
    using trk same by (auto simp: tracking_def Let_def)
  have b: "births (wl_ID w) (?es @ [?e]) = births (wl_ID w) ?es" using T by (simp add: births_append births_one)
  have pieces: "end_pieces t (AppendWallEvent C t (wl_ID w) ?e (dp_cache s)) (?es @ [?e])"
    using ok(1) births by (intro end_pieces_Append) auto
  have others: "walls_ok (?es @ [?e]) ?others"
    using ok(2) one b by (intro walls_ok_snoc) auto
  have life: "lifeline (emitted_of (wl_ID w) (?es @ [?e])) (?w\<lparr>wl_Volume := v'\<rparr>)" if "births (wl_ID w) ?es = 1"
  proof -
    have life0: "lifeline (emitted_of (wl_ID w) ?es) (w0\<lparr>wl_Volume := v\<rparr>)" using one that by simp
    then have len: "wl_EventSeq w = int (length (emitted_of (wl_ID w) ?es))" using lifeline_length same by fastforce
    have "length (emitted_of (wl_ID w) ?es) \<le> length ?es" by (simp add: emitted_of_def)
    with len room have seq: "i64 (wl_EventSeq w + 1) = wl_EventSeq w + 1" by (intro i64_id) (auto simp: room_def)
    have "lifeline (emitted_of (wl_ID w) ?es @ [?e]) (?w\<lparr>wl_Volume := v'\<rparr>)"
      using same step by (intro lifeline_snoc [OF life0]) (simp_all add: seq seq [unfolded same(4)])
    then show ?thesis by (simp add: emitted_of_append emitted_of_one)
  qed
  have sub: "active_walls t {?k} (SaveActiveWall C t ?w (AppendWallEvent C t (wl_ID w) ?e (dp_cache s))) \<subseteq> ?others"
    using active_walls_Save [of t "{?k}" ?w "AppendWallEvent C t (wl_ID w) ?e (dp_cache s)"] by simp
  have "tracking t v' (?w, snd (emitWallEvent D t T d sp now (w, s)))"
    using pieces walls_ok_mono [OF others sub] births b life one sub
    by (auto simp: tracking_def Let_def emitWallEvent_eq)
  moreover have "emitWallEvent D t T d sp now (w, s) = (?w, snd (emitWallEvent D t T d sp now (w, s)))"
    using emitWallEvent_eq(1) by (metis prod.collapse)
  ultimately show ?thesis by simp
qed

subsection \<open>A tracked wall\<close>

text \<open>The wall's new volume is \<open>x\<close>; the events so far say \<open>v\<close>.\<close>

definition on_track :: "gtime \<Rightarrow> float64 \<Rightarrow> float64 \<Rightarrow> int \<Rightarrow> Wall \<times> ('c, 'r) depth_state \<Rightarrow> bool" where
  "on_track t v x n ws \<longleftrightarrow> tracking t v ws \<and> wl_Volume (fst ws) = x \<and> f_is_fin x \<and> is_f64 x \<and> room n (dp_emitted (snd ws))"

lemma on_trackI [intro?]: "tracking t v (w, s) \<Longrightarrow> wl_Volume w = x \<Longrightarrow> f_is_fin x \<Longrightarrow> is_f64 x \<Longrightarrow> room n (dp_emitted s) \<Longrightarrow>
    on_track t v x n (w, s)"
  by (simp add: on_track_def)

lemma f_eq_fin: "f_is_fin x \<Longrightarrow> f_eq x x"
  by (cases x) auto

lemma on_track_emit:
  assumes trk: "on_track t v x (n + 1) (w0, s)" and "0 \<le> n" "T \<noteq> WallEventBorn"
    and same: "wl_ID w = wl_ID w0" "wl_Symbol w = wl_Symbol w0" "wl_Side w = wl_Side w0" "wl_EventSeq w = wl_EventSeq w0"
      "wl_Volume w = wl_Volume w0"
    and step: "\<And>p e. agrees p (w0\<lparr>wl_Volume := v\<rparr>) \<Longrightarrow>
      e = wall_event (w\<lparr>wl_EventSeq := wl_EventSeq w + 1\<rparr>) T d sp now \<Longrightarrow>
      agrees (wall_ApplyEvent e p) (w\<lparr>wl_EventSeq := wl_EventSeq w + 1, wl_Volume := v'\<rparr>)"
  shows "on_track t v' x n (emitWallEvent D t T d sp now (w, s))"
proof -
  from trk have "tracking t v (w0, s)" and room: "room 1 (dp_emitted s)"
    using assms(2) by (auto simp: on_track_def room_def)
  from tracking_emit [OF this(1) assms(3) this(2) same(1-4) step] trk same(5)
  show ?thesis by (auto simp: on_track_def emitWallEvent_eq room_def)
qed

lemma check_matured_track:
  assumes "on_track t v x (n + 1) (w, s)" "0 \<le> n"
  shows "on_track t v x n (check_matured D t sp now (w, s))"
proof (cases "\<not> wl_Matured w \<and> 0 < wd_MinLifespan (dt_cfg D) \<and> wd_MinLifespan (dt_cfg D) \<le> GetAgeAt t w now")
  case False
  with assms show ?thesis by (auto simp: check_matured_def Let_def on_track_def room_def)
next
  case True
  have "on_track t v x (n + 1) (w, on_cache (SaveActiveWall C t (w\<lparr>wl_Matured := True\<rparr>)) s)"
    using assms(1) by (auto simp: on_track_def intro!: tracking_save) (simp add: on_cache_def)
  then have "on_track t v x n (emitWallEvent D t WallEventMatured f0 sp now
      (w\<lparr>wl_Matured := True\<rparr>, on_cache (SaveActiveWall C t (w\<lparr>wl_Matured := True\<rparr>)) s))"
    using assms(2) by (rule on_track_emit) (auto simp: agrees_def wall_ApplyEvent_def)
  with True show ?thesis by (simp add: check_matured_def Let_def)
qed

lemma check_approached_track:
  assumes "on_track t v x (n + 1) (w, s)" "0 \<le> n"
  shows "on_track t v x n (check_approached D t prev sp now (w, s))"
proof -
  have "on_track t v x n (emitWallEvent D t WallEventPriceApproached f0 sp now (w, s))"
    using assms by (rule on_track_emit) (auto simp: agrees_def wall_ApplyEvent_def)
  with assms show ?thesis by (auto simp: check_approached_def Let_def on_track_def room_def)
qed

lemma checkWeakened_track:
  assumes "on_track t v x (n + 1) (w, s)" "0 \<le> n" "f_eq v x"
  shows "\<exists>v'. on_track t v' x n (checkWeakened D t sp now (w, s)) \<and> f_eq v' x"
proof -
  have x: "wl_Volume w = x" "f_eq x x" using assms(1) by (auto simp: on_track_def f_eq_fin)
  have "on_track t x x n (emitWallEvent D t WallEventWeakened f0 sp now (w\<lparr>wl_Status := WallWeakened\<rparr>, s))"
    using assms(1,2) by (rule on_track_emit) (use x in \<open>auto simp: agrees_def wall_ApplyEvent_def\<close>)
  moreover have "on_track t v x n (w, s)" using assms(1,2) by (auto simp: on_track_def room_def)
  ultimately show ?thesis using x(2) assms(3) by (auto simp: checkWeakened_def Let_def)
qed

lemma checkVolumeChange_track:
  assumes "on_track t v x (n + 1) (w, s)" "0 \<le> n" "f_is_fin v" "is_f64 v"
    and "checkVolumeChange D t symbol side (f_sub x v) sp now (w, s) = Some ws"
  shows "\<exists>v'. on_track t v' x n ws \<and> f_eq v' x"
proof -
  have x: "wl_Volume w = x" "f_eq x x" "f_is_fin x" "is_f64 x" using assms(1) by (auto simp: on_track_def f_eq_fin)
  have emitted: "on_track t x x n (emitWallEvent D t T d sp now (w, s))" if "T \<in> {WallEventAbsorbed, WallEventResized}" for T d
    using assms(1,2) by (rule on_track_emit) (use that x in \<open>auto simp: agrees_def wall_ApplyEvent_def\<close>)
  have same: "on_track t v x n (w, s)" using assms(1,2) by (auto simp: on_track_def room_def)
  show ?thesis
  proof (cases "f_lt (f_sub x v) f0 \<or> f_pos (f_sub x v)")
    case True
    then obtain T where "ws = emitWallEvent D t T (f_sub x v) sp now (w, s)" "T \<in> {WallEventAbsorbed, WallEventResized}"
      using assms(5) by (auto simp: checkVolumeChange_def split: if_splits)
    with emitted x(2) show ?thesis by blast
  next
    case False
    then have "f_eq v x" using f_sub_zero [OF x(3) assms(3) x(4) assms(4)] by (auto intro: f_eq_sym)
    with False same assms(5) show ?thesis by (auto simp: checkVolumeChange_def)
  qed
qed

subsection \<open>The scan of a side\<close>

definition journaled :: "gtime \<Rightarrow> ('c, 'r) depth_state \<Rightarrow> bool" where
  "journaled t s \<longleftrightarrow> journal_inv t (dp_cache s) (dp_emitted s)"

lemma handleExistingCandidate_journaled:
  assumes inv: "journaled t s" and active: "GetActiveWall C t symbol side (dp_cache s) = Some w0"
    and cand: "number (wl_Volume cand)" and room: "room 4 (dp_emitted s)"
    and run: "handleExistingCandidate D t symbol side cand w0 sp now s = Some (w', s')"
  shows "journaled t s' \<and> length (dp_emitted s') \<le> length (dp_emitted s) + 4"
proof -
  let ?x = "wl_Volume cand" and ?v = "wl_Volume w0"
  let ?w = "w0\<lparr>wl_Volume := ?x, wl_LastUpdatedAt := now, wl_DistancePct := wl_DistancePct cand,
    wl_AvgNearbyVolume := wl_AvgNearbyVolume cand, wl_RelativeRatio := wl_RelativeRatio cand,
    wl_DepthImbalance := wl_DepthImbalance cand, wl_BackingRatio := wl_BackingRatio cand\<rparr>"
  let ?s = "on_cache (SaveActiveWall C t ?w) s"
  have start: "tracking t ?v (w0, s)" and v: "f_is_fin ?v" "is_f64 ?v"
    using tracking_start [OF inv [unfolded journaled_def] active] by auto
  have "tracking t ?v (?w, s)" by (rule tracking_cong [OF start]) simp_all
  then have "tracking t ?v (?w, ?s)" by (rule tracking_save) simp_all
  then have s0: "on_track t ?v ?x (3 + 1) (?w, ?s)"
    using room cand by (auto simp: on_track_def on_cache_def number_def)
  let ?m = "check_matured D t sp now (?w, ?s)"
  obtain w1 s1 where m: "?m = (w1, s1)" by fastforce
  with check_matured_track [OF s0, of sp now] have s1: "on_track t ?v ?x (2 + 1) (w1, s1)" by simp
  obtain w2 s2 where a: "check_approached D t (wl_DistancePct w0) sp now ?m = (w2, s2)" by fastforce
  with m check_approached_track [OF s1, of "wl_DistancePct w0" sp now] have s2: "on_track t ?v ?x (1 + 1) (w2, s2)" by simp
  obtain ws where ws: "checkVolumeChange D t symbol side (f_sub ?x ?v) sp now (w2, s2) = Some ws"
      and end0: "(w', s') = (case checkWeakened D t sp now ws of (u, r) \<Rightarrow> (u, on_cache (SaveActiveWall C t u) r))"
    using run a by (auto simp: handleExistingCandidate_def Let_def)
  obtain v' w3 s3 where w3: "ws = (w3, s3)" "on_track t v' ?x (0 + 1) (w3, s3)" "f_eq v' ?x"
    using checkVolumeChange_track [OF s2 _ v ws] by (cases ws) auto
  obtain v'' w4 s4 where w4: "checkWeakened D t sp now (w3, s3) = (w4, s4)" "on_track t v'' ?x 0 (w4, s4)" "f_eq v'' ?x"
    using checkWeakened_track [OF w3(2) _ w3(3), of sp now] by (metis order_refl prod.collapse)
  from w4 have "journal_inv t (SaveActiveWall C t w4 (dp_cache s4)) (dp_emitted s4)"
    by (intro tracking_end [of t v'']) (auto simp: on_track_def)
  moreover have "s' = on_cache (SaveActiveWall C t w4) s4" using end0 w3(1) w4(1) by simp
  moreover have "length (dp_emitted s4) \<le> length (dp_emitted s) + 4"
  proof -
    have emit: "length (dp_emitted (snd (emitWallEvent D t T d sp now (u, r)))) = length (dp_emitted r) + 1" for T d u r
      by (simp add: emitWallEvent_eq)
    have "length (dp_emitted s1) \<le> length (dp_emitted ?s) + 1"
      using m emit by (auto simp: check_matured_def Let_def on_cache_def split: if_splits dest!: arg_cong [where f = "\<lambda>p. length (dp_emitted (snd p))"])
    moreover have "length (dp_emitted s2) \<le> length (dp_emitted s1) + 1"
      using m a emit by (auto simp: check_approached_def Let_def split: if_splits dest!: arg_cong [where f = "\<lambda>p. length (dp_emitted (snd p))"])
    moreover have "length (dp_emitted s3) \<le> length (dp_emitted s2) + 1"
      using ws w3(1) emit by (auto simp: checkVolumeChange_def split: if_splits dest!: arg_cong [where f = "\<lambda>p. length (dp_emitted (snd p))"])
    moreover have "length (dp_emitted s4) \<le> length (dp_emitted s3) + 1"
      using w4(1) emit by (auto simp: checkWeakened_def Let_def split: if_splits dest!: arg_cong [where f = "\<lambda>p. length (dp_emitted (snd p))"])
    ultimately show ?thesis by (simp add: on_cache_def)
  qed
  ultimately show ?thesis by (simp add: journaled_def on_cache_def)
qed

lemma handleFreshCandidate_journaled:
  assumes inv: "journaled t s" and v: "number (wl_Volume w)" "wl_InitialVolume w = wl_Volume w" "wl_FirstDetectedAt w = now"
    and w: "wl_Status w = WallActive" "\<not> wl_Matured w"
    and run: "handleFreshCandidate D t w sp now s = (w', s')"
  shows "journaled t s' \<and> length (dp_emitted s') = length (dp_emitted s) + 1"
proof -
  let ?w = "w\<lparr>wl_EventSeq := 1\<rparr>" and ?k = "(wl_Symbol w, wl_Side w)" and ?es = "dp_emitted s"
  let ?e = "wall_event ?w WallEventBorn f0 sp now"
  have ok: "end_pieces t (dp_cache s) ?es" "walls_ok ?es (active_walls t {} (dp_cache s))"
    using inv by (simp_all add: journaled_def journal_inv_def)
  have one: "i64 1 = 1" by (simp add: i64_def)
  have s': "dp_emitted s' = ?es @ [?e]"
      "dp_cache s' = SaveActiveWall C t ?w (AppendWallEvent C t (wl_ID w) ?e (dp_cache s))"
    using run emitWallEvent_eq [of t WallEventBorn f0 sp now "w\<lparr>wl_EventSeq := 0\<rparr>" s] by (simp_all add: handleFreshCandidate_def one)
  have pieces: "end_pieces t (AppendWallEvent C t (wl_ID w) ?e (dp_cache s)) (?es @ [?e])"
    using ok(1) by (intro end_pieces_Append) auto
  have b: "births (wl_ID w) (?es @ [?e]) = births (wl_ID w) ?es + 1" by (simp add: births_append births_one)
  have elder: "0 < births (wl_ID u) ?es" if "(k, u) \<in> active_walls t {} (dp_cache s)" for k u
    using ok(2) that unfolding walls_ok_def good_wall_def by blast
  have old: "walls_ok (?es @ [?e]) (active_walls t {?k} (dp_cache s))"
  proof (rule walls_ok_snoc)
    show "walls_ok ?es (active_walls t {?k} (dp_cache s))"
      by (rule walls_ok_mono [OF ok(2)]) (auto simp: active_walls_def)
    show "births (we_WallID ?e) (?es @ [?e]) \<noteq> 1" if "(k, u) \<in> active_walls t {?k} (dp_cache s)" "wl_ID u = we_WallID ?e" for k u
      using elder [of k u] that b by (auto simp: active_walls_def)
  qed
  have life: "lifeline (emitted_of (wl_ID w) (?es @ [?e])) ?w" if "births (wl_ID w) (?es @ [?e]) = 1"
  proof -
    have "emitted_of (wl_ID w) ?es = []" using that b by (intro unborn [OF ok(1)]) simp
    moreover have "lifeline [?e] ?w"
      using v w by (simp add: lifeline_def ProjectWallFromEvents_def wall_ApplyEvent_def agrees_def zero_wall_def number_def f_eq_fin)
    ultimately show ?thesis by (simp add: emitted_of_append emitted_of_one)
  qed
  have "walls_ok (?es @ [?e]) (insert (?k, ?w) (active_walls t {?k} (dp_cache s)))"
  proof (rule walls_ok_insert [OF old])
    show "good_wall (?es @ [?e]) ?k ?w" using v b life by (auto simp: good_wall_def number_def)
    show "\<forall>(k, u) \<in> active_walls t {?k} (dp_cache s). wl_ID u \<noteq> wl_ID ?w" if "births (wl_ID ?w) (?es @ [?e]) = 1"
      using elder that b by (fastforce simp: active_walls_def)
  qed
  moreover have "active_walls t {} (dp_cache s') \<subseteq> insert (?k, ?w) (active_walls t {?k} (dp_cache s))"
    using active_walls_Save [of t "{}" ?w "AppendWallEvent C t (wl_ID w) ?e (dp_cache s)"] by (simp add: s')
  ultimately show ?thesis using pieces s' by (auto simp: journaled_def journal_inv_def elim: walls_ok_mono)
qed

lemma handleDisappearedWall_journaled:
  assumes inv: "journaled t s" and active: "GetActiveWall C t symbol side (dp_cache s) = Some w0"
    and room: "room 1 (dp_emitted s)"
    and run: "handleDisappearedWall D t symbol side w0 sp now s = Some s'"
  shows "journaled t s' \<and> length (dp_emitted s') = length (dp_emitted s) + 1"
proof -
  have start: "tracking t (wl_Volume w0) (w0, s)" and key: "symbol = wl_Symbol w0" "side = wl_Side w0"
    using tracking_start [OF inv [unfolded journaled_def] active] by auto
  obtain st T where st: "(st, T) \<in> {(WallConsumed, WallEventConsumed), (WallDisappeared, WallEventDisappeared)}"
      and s': "s' = on_cache (DeleteActiveWall C symbol side)
        (snd (emitWallEvent D t T (f_neg (wl_Volume w0)) sp now (w0\<lparr>wl_Status := st\<rparr>, s)))"
    using run by (auto simp: handleDisappearedWall_def split: if_splits prod.splits)
  let ?v = "if st = WallConsumed then f0 else wl_Volume w0"
  let ?ws = "emitWallEvent D t T (f_neg (wl_Volume w0)) sp now (w0\<lparr>wl_Status := st\<rparr>, s)"
  have "tracking t ?v ?ws"
    using start _ room by (rule tracking_emit) (use st in \<open>auto simp: agrees_def wall_ApplyEvent_def\<close>)
  moreover have "fst ?ws = w0\<lparr>wl_Status := st, wl_EventSeq := i64 (wl_EventSeq w0 + 1)\<rparr>" by (simp add: emitWallEvent_eq)
  ultimately have "end_pieces t (dp_cache (snd ?ws)) (dp_emitted (snd ?ws)) \<and>
      walls_ok (dp_emitted (snd ?ws)) (active_walls t {(symbol, side)} (dp_cache (snd ?ws)))"
    using key by (auto simp: tracking_def Let_def split: prod.splits)
  then show ?thesis by (simp add: journaled_def journal_inv_def s' on_cache_def emitWallEvent_eq)
qed

lemma evalLevel_volume: "evalLevel D levels bids asks l bb ba isBid cs = Some (Some ev) \<Longrightarrow> le_volume ev = Volume l"
  by (auto simp: evalLevel_def Let_def split: if_splits prod.splits)

lemma best_level_in: "best_level D eval ls best = Some (Some ev) \<Longrightarrow>
    snd best = Some ev \<or> (\<exists>l \<in> set ls. eval l = Some (Some ev))"
  by (induction ls arbitrary: best) (fastforce split: option.splits if_splits)+

lemma findBestCandidate_fresh:
  assumes "findBestCandidate D symbol side levels bids asks bb ba isBid now = Some (Some w)"
  shows "\<exists>l ev. l \<in> set levels \<and> w = fresh_wall D symbol side now ev \<and> le_volume ev = Volume l"
proof -
  obtain ev where ev: "w = fresh_wall D symbol side now ev"
      "best_level D (\<lambda>l. evalLevel D levels bids asks l bb ba isBid (getContractSize D symbol)) (take 20 levels) (f0, None) = Some (Some ev)"
    using assms by (auto simp: findBestCandidate_def)
  from best_level_in [OF this(2)] ev(1) show ?thesis by (auto dest!: evalLevel_volume in_set_takeD)
qed

lemma findLevelByPrice_tracked:
  assumes "findLevelByPrice D symbol side levels bids asks w0 bb ba isBid now = Some (Some w)"
  shows "\<exists>l \<in> set levels. wl_Volume w = Volume l"
  using assms
  by (auto simp: findLevelByPrice_def tracked_wall_def find_Some_iff split: option.splits dest!: evalLevel_volume)

lemma fresh_scan_journaled:
  assumes inv: "journaled t s" and levels: "numbered_levels levels"
    and run: "fresh_scan D t symbol side levels bids asks bb ba isBid sp now s = Some (w, s')"
  shows "journaled t s' \<and> length (dp_emitted s') \<le> length (dp_emitted s) + 1"
proof (cases "findBestCandidate D symbol side levels bids asks bb ba isBid now")
  case None
  with run show ?thesis by (simp add: fresh_scan_def)
next
  case (Some c)
  show ?thesis
  proof (cases c)
    case None
    with run Some inv show ?thesis by (simp add: fresh_scan_def)
  next
    case (Some cand)
    then have found: "findBestCandidate D symbol side levels bids asks bb ba isBid now = Some (Some cand)"
      using \<open>findBestCandidate D symbol side levels bids asks bb ba isBid now = Some c\<close> by simp
    obtain l ev where l: "l \<in> set levels" "cand = fresh_wall D symbol side now ev" "le_volume ev = Volume l"
      using findBestCandidate_fresh [OF found] by blast
    obtain w' where "handleFreshCandidate D t cand sp now s = (w', s')"
      using run found by (auto simp: fresh_scan_def split: prod.splits)
    from handleFreshCandidate_journaled [OF inv _ _ _ _ _ this] l levels show ?thesis
      by (auto simp: fresh_wall_def numbered_levels_def zero_wall_def)
  qed
qed

lemma scanSide_journaled:
  assumes inv: "journaled t s" and levels: "numbered_levels levels" and room: "room 4 (dp_emitted s)"
    and run: "scanSide D t symbol side levels bids asks bb ba isBid sp now s = Some (w, s')"
  shows "journaled t s' \<and> length (dp_emitted s') \<le> length (dp_emitted s) + 4"
proof (cases "GetActiveWall C t symbol side (dp_cache s)")
  case None
  with run fresh_scan_journaled [OF inv levels] show ?thesis by (fastforce simp: scanSide_def)
next
  case (Some w0)
  show ?thesis
  proof (cases "findLevelByPrice D symbol side levels bids asks w0 bb ba isBid now")
    case None
    with run Some show ?thesis by (simp add: scanSide_def)
  next
    case (Some found)
    show ?thesis
    proof (cases found)
      case None
      then obtain s1 where s1: "handleDisappearedWall D t symbol side w0 sp now s = Some s1"
          "fresh_scan D t symbol side levels bids asks bb ba isBid sp now s1 = Some (w, s')"
        using run Some \<open>GetActiveWall C t symbol side (dp_cache s) = Some w0\<close>
        by (auto simp: scanSide_def bind_eq_Some_conv)
      have "journaled t s1 \<and> length (dp_emitted s1) = length (dp_emitted s) + 1"
        using room by (intro handleDisappearedWall_journaled [OF inv \<open>GetActiveWall C t symbol side (dp_cache s) = Some w0\<close> _ s1(1)])
          (simp add: room_def)
      with fresh_scan_journaled [OF _ levels s1(2)] show ?thesis by auto
    next
      case (Some cand)
      then have level: "findLevelByPrice D symbol side levels bids asks w0 bb ba isBid now = Some (Some cand)"
        using \<open>findLevelByPrice D symbol side levels bids asks w0 bb ba isBid now = Some found\<close> by simp
      then have "number (wl_Volume cand)" using findLevelByPrice_tracked levels by (fastforce simp: numbered_levels_def)
      moreover obtain w' where "handleExistingCandidate D t symbol side cand w0 sp now s = Some (w', s')"
        using run level \<open>GetActiveWall C t symbol side (dp_cache s) = Some w0\<close> by (auto simp: scanSide_def)
      ultimately show ?thesis
        using handleExistingCandidate_journaled [OF inv \<open>GetActiveWall C t symbol side (dp_cache s) = Some w0\<close> _ room] by blast
    qed
  qed
qed

lemma ProcessOrderBook_journaled:
  assumes inv: "journaled t s" and room: "room 8 (dp_emitted s)"
    and levels: "\<And>ob. book = Some ob \<Longrightarrow> numbered_levels (Bids ob) \<and> numbered_levels (Asks ob)"
    and run: "ProcessOrderBook D t book now s = Some (ws, s')"
  shows "journaled t s' \<and> length (dp_emitted s') \<le> length (dp_emitted s) + 8"
proof (cases "s' = s")
  case True
  with inv show ?thesis by simp
next
  case False
  then obtain ob where ob: "book = Some ob" using run by (auto simp: ProcessOrderBook_def split: option.splits)
  let ?bb = "Price (hd (Bids ob))" and ?ba = "Price (hd (Asks ob))"
  let ?sp = "f_mul (f_div (f_sub ?ba ?bb) ?bb) (FFin 100)"
  obtain bid s1 where bid: "scanSide D t (ob_Symbol ob) SideOpenLong (Bids ob) (Bids ob) (Asks ob) ?bb ?ba True ?sp now s = Some (bid, s1)"
      and rest: "if is_spot D then s' = s1 else \<exists>ask. scanSide D t (ob_Symbol ob) SideOpenShort (Asks ob) (Bids ob) (Asks ob) ?bb ?ba False ?sp now s1 = Some (ask, s')"
    using run False by (auto simp: ProcessOrderBook_def ob Let_def bind_eq_Some_conv split: if_splits)
  have s1: "journaled t s1 \<and> length (dp_emitted s1) \<le> length (dp_emitted s) + 4"
    using levels [OF ob] room by (intro scanSide_journaled [OF inv _ _ bid]) (auto simp: room_def)
  show ?thesis
  proof (cases "is_spot D")
    case True
    with rest s1 show ?thesis by simp
  next
    case False
    with rest obtain ask where "scanSide D t (ob_Symbol ob) SideOpenShort (Asks ob) (Bids ob) (Asks ob) ?bb ?ba False ?sp now s1 = Some (ask, s')"
      by auto
    from scanSide_journaled [OF _ _ _ this] levels [OF ob] s1 room show ?thesis by (auto simp: room_def)
  qed
qed

subsection \<open>The recorded events only grow\<close>

abbreviation grows :: "('c, 'r) depth_state \<Rightarrow> ('c, 'r) depth_state \<Rightarrow> bool" where
  "grows s s' \<equiv> length (dp_emitted s) \<le> length (dp_emitted s')"

lemma on_cache_emitted [simp]: "dp_emitted (on_cache f s) = dp_emitted s"
  by (simp add: on_cache_def)

lemma emit_emitted [simp]: "length (dp_emitted (snd (emitWallEvent D t T d sp now ws))) = length (dp_emitted (snd ws)) + 1"
  by (cases ws) (simp add: emitWallEvent_eq)

lemma checks_grow:
  "grows (snd ws) (snd (check_matured D t sp now ws))"
  "grows (snd ws) (snd (check_approached D t prev sp now ws))"
  "grows (snd ws) (snd (checkWeakened D t sp now ws))"
  "checkVolumeChange D t symbol side d sp now ws = Some ws' \<Longrightarrow> grows (snd ws) (snd ws')"
  by (auto simp: check_matured_def check_approached_def checkWeakened_def checkVolumeChange_def Let_def split: prod.splits if_splits)

lemma handleExistingCandidate_grows:
  assumes "handleExistingCandidate D t symbol side cand w0 sp now s = Some (w', s')"
  shows "grows s s'"
proof -
  define ws where "ws = (w0\<lparr>wl_Volume := wl_Volume cand, wl_LastUpdatedAt := now, wl_DistancePct := wl_DistancePct cand,
    wl_AvgNearbyVolume := wl_AvgNearbyVolume cand, wl_RelativeRatio := wl_RelativeRatio cand,
    wl_DepthImbalance := wl_DepthImbalance cand, wl_BackingRatio := wl_BackingRatio cand\<rparr>)"
  define ap where "ap = check_approached D t (wl_DistancePct w0) sp now (check_matured D t sp now (ws, on_cache (SaveActiveWall C t ws) s))"
  obtain ch where ch: "checkVolumeChange D t symbol side (f_sub (wl_Volume cand) (wl_Volume w0)) sp now ap = Some ch"
      and end0: "(w', s') = (case checkWeakened D t sp now ch of (u, r) \<Rightarrow> (u, on_cache (SaveActiveWall C t u) r))"
    using assms by (auto simp: handleExistingCandidate_def Let_def ws_def ap_def)
  have "grows s (snd ap)"
    unfolding ap_def by (rule order_trans [OF _ order_trans [OF checks_grow(1) checks_grow(2)]]) simp
  also have "grows (snd ap) (snd ch)" using checks_grow(4) [OF ch] .
  also have "grows (snd ch) (snd (checkWeakened D t sp now ch))" by (rule checks_grow(3))
  also have "\<dots> = length (dp_emitted s')" using end0 by (auto split: prod.splits)
  finally show ?thesis .
qed

lemma fresh_scan_grows:
  "fresh_scan D t symbol side levels bids asks bb ba isBid sp now s = Some (w, s') \<Longrightarrow> grows s s'"
  by (auto simp: fresh_scan_def handleFreshCandidate_def case_prod_beta split: option.splits)

lemma scanSide_grows:
  assumes "scanSide D t symbol side levels bids asks bb ba isBid sp now s = Some (w, s')"
  shows "grows s s'"
proof -
  have "grows s s1" if "handleDisappearedWall D t symbol side w0 sp now s = Some s1" for w0 s1
    using that by (auto simp: handleDisappearedWall_def)
  with assms show ?thesis
    by (auto simp: scanSide_def bind_eq_Some_conv split: option.splits
        dest: fresh_scan_grows handleExistingCandidate_grows) (meson fresh_scan_grows order_trans)
qed

lemma ProcessOrderBook_grows:
  assumes "ProcessOrderBook D t book now s = Some (ws, s')"
  shows "grows s s'"
  using assms
  by (auto simp: ProcessOrderBook_def Let_def bind_eq_Some_conv split: option.splits if_splits dest!: scanSide_grows)

end

end
