(* ===== verification/PennyLaws.thy ===== *)
theory PennyLaws
  imports PennyJournal
begin

text \<open>
  The penny jumper's running bot: what its stores hold of a wall, and which walls it announces.
\<close>

subsection \<open>The running bot\<close>

text \<open>
  The bot from its start: a depth message, a message of the wall stream, trades, a 24h volume,
  and the end of a subscription, each at a machine's clock that does not go back. Volumes are
  finite numbers, as JSON has no others.
\<close>

inductive penny_reach :: "('d, 'c, 'e, 'r) runner_env \<Rightarrow> gtime \<Rightarrow> ('c, 'e, 'r) runner \<Rightarrow> bool" for E where
  penny_start: "penny_reach E t (NewPennyJumperRunner E ttl b)"
| penny_depth: "penny_reach E t r \<Longrightarrow> t \<le> t' \<Longrightarrow>
    (\<And>ob. du_OrderBook evt = Some ob \<Longrightarrow> numbered_levels (Bids ob) \<and> numbered_levels (Asks ob)) \<Longrightarrow>
    HandleDepthUpdated E t' evt r = Some r' \<Longrightarrow> penny_reach E t' r'"
| penny_stream: "penny_reach E t r \<Longrightarrow> t \<le> t' \<Longrightarrow> rn_mail r = p # ps \<Longrightarrow>
    HandleWallEventStream E t' p (r\<lparr>rn_mail := ps\<rparr>) = Some r' \<Longrightarrow> penny_reach E t' r'"
| penny_trades: "penny_reach E t r \<Longrightarrow> t \<le> t' \<Longrightarrow> rn_stores r exch = Some c \<Longrightarrow>
    penny_reach E t' (r\<lparr>rn_stores := (rn_stores r)(exch \<mapsto> RecordPublicTrades (re_cache E) t' symbol trades c)\<rparr>)"
| penny_volume: "penny_reach E t r \<Longrightarrow> t \<le> t' \<Longrightarrow> rn_stores r exch = Some c \<Longrightarrow>
    penny_reach E t' (r\<lparr>rn_stores := (rn_stores r)(exch \<mapsto> SaveVolume24h (re_cache E) t' symbol v c)\<rparr>)"
| penny_unsubscribe: "penny_reach E t r \<Longrightarrow> t \<le> t' \<Longrightarrow> rn_stores r exch = Some c \<Longrightarrow>
    penny_reach E t' (r\<lparr>rn_stores := (rn_stores r)(exch \<mapsto> DeleteActiveWall (re_cache E) symbol side c)\<rparr>)"

lemma detector_of_simps [simp]:
  "dt_cache (detector_of E exch) = re_cache E" "dt_dec (detector_of E exch) = re_dec E"
  "dt_exchange (detector_of E exch) = exch" "dt_cfg (detector_of E exch) = pj_WallDetector (re_cfg E)"
  by (simp_all add: detector_of_def)

lemma publish_qualified_simps [simp]:
  "rn_stores (publish_qualified E t q r) = rn_stores r" "rn_emitted (publish_qualified E t q r) = rn_emitted r"
  "rn_evalCache (publish_qualified E t q r) = rn_evalCache r" "rn_judged (publish_qualified E t q r) = rn_judged r"
  "rn_notifiedCache (publish_qualified E t q r) = rn_notifiedCache r" "rn_announced (publish_qualified E t q r) = rn_announced r"
  "rn_mail (publish_qualified E t q r) = rn_mail r"
  by (simp_all add: publish_qualified_def split: prod.splits)

lemma dispatch_simps [simp]:
  "rn_stores (dispatchWallNotification E t w r) = rn_stores r" "rn_emitted (dispatchWallNotification E t w r) = rn_emitted r"
  "rn_evalCache (dispatchWallNotification E t w r) = rn_evalCache r" "rn_judged (dispatchWallNotification E t w r) = rn_judged r"
  "rn_qualified (dispatchWallNotification E t w r) = rn_qualified r"
  by (simp_all add: dispatchWallNotification_def)

lemma qualify_keeps:
  assumes "qualify_wall E t symbol evt events trades g c w r = Some r'"
  shows "rn_stores r' = rn_stores r \<and> rn_emitted r' = rn_emitted r"
  using assms by (auto simp: qualify_wall_def Let_def split: prod.splits if_splits)

lemma evaluate_keeps:
  assumes "evaluateAndQualifyWall E t exch symbol side evt events r = Some r'"
  shows "rn_stores r' = rn_stores r \<and> rn_emitted r' = rn_emitted r"
proof -
  have "r' = r \<or> (\<exists>e trades g c w. qualify_wall E t symbol evt events trades g c w (r\<lparr>rn_evalCache := e\<rparr>) = Some r')"
    using assms by (auto simp: evaluateAndQualifyWall_def bind_eq_Some_conv case_prod_beta split: option.splits if_splits)
  then show ?thesis by (auto dest!: qualify_keeps)
qed

lemma stream_keeps:
  assumes "HandleWallEventStream E t p r = Some r'"
  shows "rn_emitted r' = rn_emitted r \<and> (rn_stores r' = rn_stores r \<or> (\<exists>c i. rn_stores r (sp_Exchange p) = Some c \<and>
    rn_stores r' = (rn_stores r)(sp_Exchange p \<mapsto> ClearWallEvents (re_cache E) i c)))"
  using assms
  by (auto simp: HandleWallEventStream_def handleWallLifecycleEnded_def Let_def
      split: option.splits if_splits WallEventType.splits list.splits dest!: evaluate_keeps)

locale penny_store = go_cache "re_cache E" for E :: "('d, 'c, 'e, 'r) runner_env"
begin

lemma detector_cache: "detector_cache (detector_of E exch)"
  using go_cache_axioms by (simp add: detector_cache_def)

definition store_inv :: "gtime \<Rightarrow> string \<Rightarrow> 'c \<Rightarrow> WallEvent list \<Rightarrow> bool" where
  "store_inv t exch c es \<longleftrightarrow> detector_cache.journal_inv (detector_of E exch) t c es"

lemma store_inv_later: "store_inv t exch c es \<Longrightarrow> t \<le> t' \<Longrightarrow> store_inv t' exch c es"
  unfolding store_inv_def using detector_cache.journal_inv_later [OF detector_cache] .

lemma store_inv_others:
  "store_inv t exch c es \<Longrightarrow> store_inv t exch (SaveDepthSnapshot (re_cache E) t' s ob c) es"
  "store_inv t exch c es \<Longrightarrow> store_inv t exch (SaveVolume24h (re_cache E) t' s x c) es"
  "store_inv t exch c es \<Longrightarrow> store_inv t exch (RecordPublicTrades (re_cache E) t' s ts c) es"
  "store_inv t exch c es \<Longrightarrow> store_inv t exch (ClearWallEvents (re_cache E) i c) es"
  "store_inv t exch c es \<Longrightarrow> store_inv t exch (DeleteActiveWall (re_cache E) s side c) es"
  using detector_cache.journal_inv_others [OF detector_cache, of exch t c es] by (simp_all add: store_inv_def)

lemma store_inv_New: "store_inv t exch (NewDepthStore (re_cache E) ttl) []"
  using detector_cache.journal_inv_New [OF detector_cache, of exch t ttl] by (simp add: store_inv_def)

definition penny_inv :: "gtime \<Rightarrow> ('c, 'e, 'r) runner \<Rightarrow> bool" where
  "penny_inv t r \<longleftrightarrow> (\<forall>exch c. rn_stores r exch = Some c \<longrightarrow> room 8 (rn_emitted r exch) \<longrightarrow> store_inv t exch c (rn_emitted r exch))"

lemma penny_inv_later:
  assumes "penny_inv t r" "t \<le> t'" "rn_stores r' = rn_stores r" "rn_emitted r' = rn_emitted r"
  shows "penny_inv t' r'"
proof -
  have "store_inv t' exch c (rn_emitted r exch)" if "rn_stores r exch = Some c" "room 8 (rn_emitted r exch)" for exch c
    using assms(1) that by (intro store_inv_later [OF _ assms(2)]) (simp add: penny_inv_def)
  then show ?thesis using assms(3,4) by (simp add: penny_inv_def)
qed

lemma penny_inv_store:
  assumes "penny_inv t r" "t \<le> t'" "rn_stores r exch = Some c"
    and "\<And>es. store_inv t' exch c es \<Longrightarrow> store_inv t' exch c' es"
  shows "penny_inv t' (r\<lparr>rn_stores := (rn_stores r)(exch \<mapsto> c')\<rparr>)"
proof -
  have "penny_inv t' r" by (rule penny_inv_later [OF assms(1,2)]) simp_all
  with assms(3,4) show ?thesis by (auto simp: penny_inv_def)
qed

lemma HandleDepthUpdated_inv:
  assumes inv: "penny_inv t r" and t: "t \<le> t'"
    and levels: "\<And>ob. du_OrderBook evt = Some ob \<Longrightarrow> numbered_levels (Bids ob) \<and> numbered_levels (Asks ob)"
    and run: "HandleDepthUpdated E t' evt r = Some r'"
  shows "penny_inv t' r'"
proof (cases "r' = r")
  case True
  then show ?thesis by (intro penny_inv_later [OF inv t]) simp_all
next
  case False
  let ?exch = "du_Exchange evt"
  obtain ob c where ob: "du_OrderBook evt = Some ob" and c: "rn_stores r ?exch = Some c"
    using run False by (auto simp: HandleDepthUpdated_def split: option.splits)
  let ?s = "\<lparr>dp_cache = SaveDepthSnapshot (re_cache E) t' (du_Symbol evt) ob c, dp_bus = rn_bus r,
    dp_mail = rn_mail r, dp_emitted = rn_emitted r ?exch\<rparr>"
  obtain ws s where s: "ProcessOrderBook (detector_of E ?exch) t' (Some ob) (du_Timestamp evt) ?s = Some (ws, s)"
      and r': "r' = r\<lparr>rn_stores := (rn_stores r)(?exch \<mapsto> dp_cache s), rn_bus := dp_bus s,
        rn_mail := dp_mail s, rn_emitted := (rn_emitted r)(?exch := dp_emitted s)\<rparr>"
    using run ob c by (auto simp: HandleDepthUpdated_def)
  have grow: "length (rn_emitted r ?exch) \<le> length (dp_emitted s)"
    using detector_cache.ProcessOrderBook_grows [OF detector_cache s] by simp
  have "store_inv t' ?exch (dp_cache s) (dp_emitted s)" if room: "room 8 (dp_emitted s)"
  proof -
    have room0: "room 8 (rn_emitted r ?exch)" using room grow by (simp add: room_def)
    then have "store_inv t ?exch c (rn_emitted r ?exch)" using inv c by (simp add: penny_inv_def)
    then have "detector_cache.journaled (detector_of E ?exch) t' ?s"
      using store_inv_others(1) store_inv_later t detector_cache.journaled_def [OF detector_cache]
      by (fastforce simp: store_inv_def)
    then show ?thesis
      using detector_cache.ProcessOrderBook_journaled [OF detector_cache _ _ _ s] room0 levels [OF ob]
      by (auto simp: store_inv_def detector_cache.journaled_def [OF detector_cache])
  qed
  moreover have "penny_inv t' r" using inv t by (rule penny_inv_later) simp_all
  ultimately show ?thesis by (auto simp: penny_inv_def r')
qed

lemma penny_reach_inv: "penny_reach E t r \<Longrightarrow> penny_inv t r"
proof (induction rule: penny_reach.induct)
  case (penny_start t ttl b)
  then show ?case by (auto simp: penny_inv_def NewPennyJumperRunner_def store_inv_New split: if_splits)
next
  case (penny_depth t r t' evt r')
  then show ?case using HandleDepthUpdated_inv by blast
next
  case (penny_stream t r t' p ps r')
  let ?r = "r\<lparr>rn_mail := ps\<rparr>"
  have inv: "penny_inv t' ?r" using penny_stream.IH penny_stream.hyps(2) by (rule penny_inv_later) simp_all
  from stream_keeps [OF penny_stream.hyps(4)] show ?case
    using inv store_inv_others(4) by (auto simp: penny_inv_def split: if_splits)
next
  case (penny_trades t r t' exch c symbol trades)
  then show ?case by (intro penny_inv_store store_inv_others) auto
next
  case (penny_volume t r t' exch c symbol v)
  then show ?case by (intro penny_inv_store store_inv_others) auto
next
  case (penny_unsubscribe t r t' exch c symbol side)
  then show ?case by (intro penny_inv_store store_inv_others) auto
qed

end

subsection \<open>Judged and announced walls\<close>

definition eligible :: "('d, 'c, 'e, 'r) runner_env \<Rightarrow> judgement \<Rightarrow> bool" where
  "eligible E jd \<longleftrightarrow> (let cfg = pj_WallDetector (re_cfg E); w = jd_wall jd in
     (0 < wd_MinLifespan cfg \<longrightarrow> wl_Matured w \<or> wd_MinLifespan cfg \<le> GetAgeAt (jd_time jd) w (jd_now jd)) \<and>
     (\<exists>exch get. re_contracts E exch = Some get \<and>
       \<not> (f_pos (wd_MinVolumeUSDT cfg) \<and>
          f_lt (f_mul (f_mul (wl_Volume w) (wl_Price w)) (fst (getContractMetrics get (wl_Symbol w)))) (wd_MinVolumeUSDT cfg))) \<and>
     \<not> (f_pos (wd_MinWallTo1mVolRatio cfg) \<and> f_pos (wl_Vol24h w) \<and> f_lt (wl_WallTo1mRatio w) (wd_MinWallTo1mVolRatio cfg)))"

text \<open>A qualified event's judgement.\<close>

definition judged_as :: "judgement \<Rightarrow> gtime \<times> WallQualifiedEvent \<Rightarrow> bool" where
  "judged_as jd tq \<longleftrightarrow> jd_time jd = fst tq \<and> jd_wall jd = wq_Wall (snd tq) \<and> snd (jd_result jd) = None \<and>
     jr_IsTrusted (fst (jd_result jd)) \<and> wq_TrustScore (snd tq) = jr_TrustScore (fst (jd_result jd))"

text \<open>
  Two judgements of a wall that has not ended are a cooldown apart. A judgement's mark stays in
  the cache until the cooldown is over or the wall's record is written.
\<close>

definition marked :: "('d, 'c, 'e, 'r) runner_env \<Rightarrow> ('c, 'e, 'r) runner \<Rightarrow> judgement \<Rightarrow> bool" where
  "marked E r jd \<longleftrightarrow> (\<forall>t. jd_time jd \<le> t \<longrightarrow> t < jd_time jd + jc_EvalCooldown (pj_WallJudge (re_cfg E)) \<longrightarrow>
     cache_Get (re_keys E) (rn_evalCache r) t (wl_ID (jd_wall jd)) \<noteq> None)"

definition ended :: "('c, 'e, 'r) runner \<Rightarrow> string \<Rightarrow> bool" where
  "ended r i \<longleftrightarrow> i \<in> wr_ID ` set (rn_records r)"

definition judging_inv :: "('d, 'c, 'e, 'r) runner_env \<Rightarrow> gtime \<Rightarrow> ('c, 'e, 'r) runner \<Rightarrow> bool" where
  "judging_inv E t r \<longleftrightarrow>
     (\<forall>tq \<in> set (rn_qualified r). \<exists>jd \<in> set (rn_judged r). judged_as jd tq) \<and>
     (\<forall>jd \<in> set (rn_judged r). eligible E jd \<and> jd_time jd \<le> t \<and> (\<not> ended r (wl_ID (jd_wall jd)) \<longrightarrow> marked E r jd)) \<and>
     (\<forall>i k. i < k \<longrightarrow> k < length (rn_judged r) \<longrightarrow> wl_ID (jd_wall (rn_judged r ! i)) = wl_ID (jd_wall (rn_judged r ! k)) \<longrightarrow>
        \<not> ended r (wl_ID (jd_wall (rn_judged r ! i))) \<longrightarrow>
        jd_time (rn_judged r ! i) + jc_EvalCooldown (pj_WallJudge (re_cfg E)) \<le> jd_time (rn_judged r ! k))"

lemma judging_inv_cong:
  assumes "judging_inv E t r" "t \<le> t'" "rn_qualified r' = rn_qualified r" "rn_judged r' = rn_judged r"
    and "rn_evalCache r' = rn_evalCache r" "rn_records r' = rn_records r"
  shows "judging_inv E t' r'"
  using assms by (auto simp: judging_inv_def ended_def marked_def)

lemma judging_inv_end:
  assumes C: "go_cache (re_keys E)" and inv: "judging_inv E t r"
    and "rn_qualified r' = rn_qualified r" "rn_judged r' = rn_judged r"
    and "rn_evalCache r' = cache_Delete (re_keys E) i (rn_evalCache r)" "rn_records r' = rn_records r @ [rec]" "wr_ID rec = i"
  shows "judging_inv E t r'"
  using inv assms(3-7) by (auto simp: judging_inv_def ended_def marked_def go_cache.get_Delete [OF C])

lemma judging_inv_judge:
  assumes C: "go_cache (re_keys E)" and inv: "judging_inv E t r" and jd: "eligible E jd" "jd_time jd = t"
    and fresh: "cache_Get (re_keys E) (rn_evalCache r) t (wl_ID (jd_wall jd)) = None"
    and cache: "rn_evalCache r' = cache_Set (re_keys E) t (wl_ID (jd_wall jd)) True
      (jc_EvalCooldown (pj_WallJudge (re_cfg E))) (rn_evalCache r)"
    and judged: "rn_judged r' = rn_judged r @ [jd]" and records: "rn_records r' = rn_records r"
    and quals: "\<And>tq. tq \<in> set (rn_qualified r') \<Longrightarrow> tq \<in> set (rn_qualified r) \<or> judged_as jd tq"
  shows "judging_inv E t r'"
proof -
  let ?cd = "jc_EvalCooldown (pj_WallJudge (re_cfg E))" and ?i = "wl_ID (jd_wall jd)"
  have end_same: "ended r' i = ended r i" for i by (simp add: ended_def records)
  have live: "cache_Get (re_keys E) (rn_evalCache r') u ?i \<noteq> None" if "t \<le> u" "u < t + ?cd" for u
    using go_cache.get_Set_live [OF C, of ?cd t u ?i True "rn_evalCache r"] that by (simp add: cache)
  have past: "jd_time j \<le> t" if "j \<in> set (rn_judged r)" for j using inv that unfolding judging_inv_def by blast
  have apart: "jd_time j + ?cd \<le> t" if "j \<in> set (rn_judged r)" "wl_ID (jd_wall j) = ?i" "marked E r j" for j
  proof (rule ccontr)
    assume "\<not> jd_time j + ?cd \<le> t"
    with that(2,3) past [OF that(1)] have "cache_Get (re_keys E) (rn_evalCache r) t ?i \<noteq> None" by (auto simp: marked_def)
    with fresh show False by simp
  qed
  have keep: "marked E r' j" if "j \<in> set (rn_judged r)" "marked E r j" for j
  proof (cases "wl_ID (jd_wall j) = ?i")
    case False
    with that(2) show ?thesis by (simp add: marked_def cache go_cache.get_Set_other [OF C])
  next
    case True
    have "cache_Get (re_keys E) (rn_evalCache r') u ?i \<noteq> None" if u: "jd_time j \<le> u" "u < jd_time j + ?cd" for u
    proof -
      have "u < t" using u(2) apart [OF \<open>j \<in> set (rn_judged r)\<close> True \<open>marked E r j\<close>] by simp
      moreover have "0 < ?cd" using u by simp
      ultimately show ?thesis
        using go_cache.get_earlier [OF C, of "rn_evalCache r'" t ?i True u]
          go_cache.get_Set_live [OF C, of ?cd t t ?i True "rn_evalCache r"] by (simp add: cache)
    qed
    with True show ?thesis by (simp add: marked_def)
  qed
  have new: "marked E r' jd" using live jd(2) by (simp add: marked_def)
  have gap: "jd_time j + ?cd \<le> t" if "j \<in> set (rn_judged r)" "wl_ID (jd_wall j) = ?i" "\<not> ended r ?i" for j
    using apart [OF that(1,2)] inv that unfolding judging_inv_def by metis
  have "\<exists>j \<in> set (rn_judged r'). judged_as j tq" if "tq \<in> set (rn_qualified r')" for tq
    using quals [OF that] inv unfolding judging_inv_def judged by auto
  moreover have "eligible E j \<and> jd_time j \<le> t \<and> (\<not> ended r' (wl_ID (jd_wall j)) \<longrightarrow> marked E r' j)"
      if "j \<in> set (rn_judged r')" for j
    using that inv jd new keep unfolding judging_inv_def judged end_same by auto
  moreover have "jd_time (rn_judged r' ! i) + ?cd \<le> jd_time (rn_judged r' ! k)"
      if "i < k" "k < length (rn_judged r')" "wl_ID (jd_wall (rn_judged r' ! i)) = wl_ID (jd_wall (rn_judged r' ! k))"
        "\<not> ended r' (wl_ID (jd_wall (rn_judged r' ! i)))" for i k
  proof (cases "k < length (rn_judged r)")
    case True
    with inv that show ?thesis unfolding judging_inv_def judged end_same by (auto simp: nth_append)
  next
    case False
    with that have "rn_judged r' ! k = jd" "rn_judged r' ! i = rn_judged r ! i" "rn_judged r ! i \<in> set (rn_judged r)"
      by (auto simp: judged nth_append)
    with gap [of "rn_judged r ! i"] that jd(2) show ?thesis by (simp add: end_same)
  qed
  ultimately show ?thesis unfolding judging_inv_def by blast
qed


lemma judged_wall_simps [simp]:
  "wl_ID (judged_wall E t g now c w) = wl_ID w" "wl_Symbol (judged_wall E t g now c w) = wl_Symbol w"
  "wl_Price (judged_wall E t g now c w) = wl_Price w" "wl_Volume (judged_wall E t g now c w) = wl_Volume w"
  "wl_Matured (judged_wall E t g now c w) = wl_Matured w"
  "wl_Vol24h (judged_wall E t g now c w) = wg_Vol24h g" "wl_WallTo1mRatio (judged_wall E t g now c w) = wg_Ratio1m g"
  "GetAgeAt t' (judged_wall E t g now c w) u = GetAgeAt t' w u"
  by (simp_all add: judged_wall_def GetAgeAt_def Let_def split: option.splits)

lemma eligible_checks:
  assumes "isEligibleWall E t w get c now = Some g"
  shows "let cfg = pj_WallDetector (re_cfg E) in
    \<not> (0 < wd_MinLifespan cfg \<and> \<not> wl_Matured w \<and> GetAgeAt t w now < wd_MinLifespan cfg) \<and>
    \<not> (f_pos (wd_MinVolumeUSDT cfg) \<and>
       f_lt (f_mul (f_mul (wl_Volume w) (wl_Price w)) (fst (getContractMetrics get (wl_Symbol w)))) (wd_MinVolumeUSDT cfg)) \<and>
    \<not> (f_pos (wd_MinWallTo1mVolRatio cfg) \<and> f_pos (wg_Vol24h g) \<and> f_lt (wg_Ratio1m g) (wd_MinWallTo1mVolRatio cfg))"
  using assms unfolding isEligibleWall_def Let_def
  by (simp only: case_prod_beta split: if_split_asm) (auto simp only: option.inject wallEligibility.simps)

lemma judged_eligible:
  assumes g: "isEligibleWall E t w get c now = Some g" and get: "re_contracts E exch = Some get"
  shows "eligible E \<lparr>jd_time = t, jd_now = now, jd_wall = judged_wall E t g now c w, jd_result = a\<rparr>"
  unfolding eligible_def Let_def judgement.simps judged_wall_simps
  using eligible_checks [OF g, unfolded Let_def] get by fastforce

lemma can_evaluate:
  "canEvaluateWall E t i cd e = (True, e') \<longleftrightarrow>
     cache_Get (re_keys E) e t i = None \<and> e' = cache_Set (re_keys E) t i True cd e"
  by (auto simp: canEvaluateWall_def split: option.splits)

lemma publish_qualified_quals:
  "set (rn_qualified (publish_qualified E t q r)) \<subseteq> set (rn_qualified r) \<union> {(t, q)}"
  by (auto simp: publish_qualified_def bus_Publish_def Let_def split: prod.splits option.splits if_splits penny_event.splits)

lemma publish_qualified_records [simp]: "rn_records (publish_qualified E t q r) = rn_records r"
  by (simp add: publish_qualified_def split: prod.splits)

lemma dispatch_records [simp]: "rn_records (dispatchWallNotification E t w r) = rn_records r"
  by (simp add: dispatchWallNotification_def)

lemma qualify_shape:
  assumes "qualify_wall E t symbol evt events trades g c w r = Some r'"
  shows "let jd = \<lparr>jd_time = t, jd_now = we_Timestamp evt, jd_wall = judged_wall E t g (we_Timestamp evt) c w,
        jd_result = re_judge E (Some (judged_wall E t g (we_Timestamp evt) c w)) events trades\<rparr> in
    rn_judged r' = rn_judged r @ [jd] \<and> rn_evalCache r' = rn_evalCache r \<and> rn_records r' = rn_records r \<and>
    (\<forall>tq \<in> set (rn_qualified r'). tq \<in> set (rn_qualified r) \<or> judged_as jd tq)"
  using assms
  by (auto simp: qualify_wall_def judged_as_def Let_def split: prod.splits if_splits
      dest!: subsetD [OF publish_qualified_quals])

lemma evaluate_judging:
  assumes C: "go_cache (re_keys E)" and inv: "judging_inv E t r"
    and run: "evaluateAndQualifyWall E t exch symbol side evt events r = Some r'"
  shows "judging_inv E t r'"
proof (cases "r' = r")
  case True
  with inv show ?thesis by simp
next
  case False
  then obtain c get w g trades where
      get: "re_contracts E exch = Some get" and g: "isEligibleWall E t w get c (we_Timestamp evt) = Some g"
      and fresh: "cache_Get (re_keys E) (rn_evalCache r) t (wl_ID w) = None"
      and q: "qualify_wall E t symbol evt events trades g c w (r\<lparr>rn_evalCache := cache_Set (re_keys E) t (wl_ID w) True
        (jc_EvalCooldown (pj_WallJudge (re_cfg E))) (rn_evalCache r)\<rparr>) = Some r'"
    using run unfolding evaluateAndQualifyWall_def
    by (auto simp: bind_eq_Some_conv canEvaluateWall_def split: option.splits if_splits)
  from qualify_shape [OF q] show ?thesis
    unfolding Let_def
    by (intro judging_inv_judge [OF C inv judged_eligible [OF g get]]) (auto simp: fresh)
qed


lemma ended_shape:
  assumes "handleWallLifecycleEnded E t exch symbol side evt c events r = Some r'"
  obtains rec c' where "wr_ID rec = we_WallID evt" "r' = r\<lparr>rn_evalCache := cache_Delete (re_keys E) (we_WallID evt) (rn_evalCache r),
    rn_records := rn_records r @ [rec], rn_stores := (rn_stores r)(exch \<mapsto> c')\<rparr>"
  using assms unfolding handleWallLifecycleEnded_def Let_def case_prod_beta map_option_eq_Some
  by (elim exE conjE) (rule that [OF _ sym], simp_all only: WallRecord.simps)

lemma stream_cases:
  assumes run: "HandleWallEventStream E t p r = Some r'"
  obtains "r' = r"
    | exch symbol side evt events where "evaluateAndQualifyWall E t exch symbol side evt events r = Some r'"
    | exch symbol side evt c events where "handleWallLifecycleEnded E t exch symbol side evt c events r = Some r'"
proof (cases "sp_Exchange p = [] \<or> rn_stores r (sp_Exchange p) = None")
  case True
  then have "Some r = Some r'" using run by (cases "sp_Exchange p = []") (simp_all add: HandleWallEventStream_def Let_def)
  then show thesis using that(1) by simp
next
  case False
  then obtain c where c: "rn_stores r (sp_Exchange p) = Some c" by auto
  show thesis
    by (cases "we_EventType (sp_Event p)"; use run False c that in
      \<open>simp only: HandleWallEventStream_def Let_def option.case if_False de_Morgan_disj WallEventType.case option.inject\<close>)
qed

lemma stream_judging:
  assumes C: "go_cache (re_keys E)" and inv: "judging_inv E t r" and run: "HandleWallEventStream E t p r = Some r'"
  shows "judging_inv E t r'"
  using run
proof (cases rule: stream_cases)
  case 1
  with inv show ?thesis by simp
next
  case 2
  with evaluate_judging [OF C inv] show ?thesis by blast
next
  case (3 exch symbol side evt c events)
  then obtain rec c' where "wr_ID rec = we_WallID evt" "r' = r\<lparr>rn_evalCache := cache_Delete (re_keys E) (we_WallID evt) (rn_evalCache r),
      rn_records := rn_records r @ [rec], rn_stores := (rn_stores r)(exch \<mapsto> c')\<rparr>"
    by (rule ended_shape)
  then show ?thesis
    by (intro judging_inv_end [OF C inv, where i = "we_WallID evt" and rec = rec]) simp_all
qed

lemma depth_keeps:
  assumes "HandleDepthUpdated E t evt r = Some r'"
  shows "rn_qualified r' = rn_qualified r \<and> rn_judged r' = rn_judged r \<and> rn_evalCache r' = rn_evalCache r \<and>
    rn_records r' = rn_records r"
  using assms by (auto simp: HandleDepthUpdated_def split: option.splits)

lemma penny_reach_judging:
  assumes C: "go_cache (re_keys E)"
  shows "penny_reach E t r \<Longrightarrow> judging_inv E t r"
proof (induction rule: penny_reach.induct)
  case (penny_start t ttl b)
  then show ?case by (simp add: judging_inv_def NewPennyJumperRunner_def)
next
  case (penny_depth t r t' evt r')
  then show ?case using depth_keeps [OF penny_depth.hyps(4)] by (blast intro: judging_inv_cong)
next
  case (penny_stream t r t' p ps r')
  have "judging_inv E t' (r\<lparr>rn_mail := ps\<rparr>)"
    using penny_stream.IH penny_stream.hyps(2) by (rule judging_inv_cong) simp_all
  then show ?case using penny_stream.hyps(4) by (rule stream_judging [OF C])
next
  case (penny_trades t r t' exch c symbol trades)
  show ?case using penny_trades.IH penny_trades.hyps(2) by (rule judging_inv_cong) simp_all
next
  case (penny_volume t r t' exch c symbol v)
  show ?case using penny_volume.IH penny_volume.hyps(2) by (rule judging_inv_cong) simp_all
next
  case (penny_unsubscribe t r t' exch c symbol side)
  show ?case using penny_unsubscribe.IH penny_unsubscribe.hyps(2) by (rule judging_inv_cong) simp_all
qed

end
