(* ===== verification/PennyRuns.thy ===== *)
theory PennyRuns
  imports PennyLaws TradeCalc
begin

text \<open>
  The two properties of the running penny jumper, and a run of it: one exchange, one bid wall
  that is seen twice, matures, is judged and announced.
\<close>

subsection \<open>A sample run\<close>

definition sample_penny_config :: PennyJumperConfig where
  "sample_penny_config = \<lparr>pj_Exchanges = [''toobit''], pj_ExecutionMode = ''paper'',
     pj_Universe = \<lparr>uc_TopGainerLimit = 30, uc_MinVolume24hUSDT = f0, uc_MaxCoinPrice = FFin 10, uc_TickerInterval = 15 * minute\<rparr>,
     pj_OrderBookSync = \<lparr>oc_MaxBufferCapacity = 500, oc_SnapshotTimeout = 5 * second, oc_CommitRecoverySize = 1000,
       oc_Exchanges = Map.empty\<rparr>,
     pj_WallDetector = \<lparr>wd_MinVolumeUSDT = FFin 1000, wd_MinWallTo1mVolRatio = f0, wd_MinRelativeRatio = FFin 2,
       wd_NeighborhoodLevels = 5, wd_MinLifespan = second, wd_MaxWallDistancePct = FFin 1, wd_MaxSpreadPct = FFin 200,
       wd_WeakenedThresholdPct = FFin 50, wd_PriceApproachedDistancePct = FFin 1\<rparr>,
     pj_WallJudge = \<lparr>jc_Mode = ''local'', jc_MinTrustScore = FFin 1, jc_Timeout = 10 * second, jc_EvalCooldown = 5 * second,
       jc_Endpoint = '''', jc_ApiKey = '''', jc_ModelName = ''''\<rparr>\<rparr>"

definition penny_contract :: ContractData where
  "penny_contract = \<lparr>cd_Symbol = ''BTC_USDT'', cd_PriceUnit = FFin 1, cd_VolUnit = 1, cd_MinVol = 1, cd_MaxVol = 100,
     cd_PriceScale = 0, cd_VolScale = 0, cd_ContractSize = FFin 1, cd_TakerFeeRate = f0, cd_MakerFeeRate = f0,
     cd_MaxLeverage = 50, cd_RiskLimits = []\<rparr>"

text \<open>A cache of the library's laws, exact decimals, and a judge that trusts every wall.\<close>

definition sample_penny_env ::
    "(rat, (depth_key, depth_val) ttl_cache, (string, bool) ttl_cache, unit) runner_env" where
  "sample_penny_env = \<lparr>re_dec = exact_dec, re_cache = ttl_ops, re_keys = ttl_ops, re_isDup = (\<lambda>_ _ u. (Inr False, u)),
     re_cfg = sample_penny_config, re_contracts = (\<lambda>_. Some (\<lambda>_. Some penny_contract)),
     re_judge = (\<lambda>_ _ _. (no_result\<lparr>jr_TrustScore := FFin 1, jr_IsTrusted := True\<rparr>, None)), re_notifier = True\<rparr>"

lemma dec_between:
  assumes "0 \<le> q" "q \<le> 2"
  shows "f64_of_rat q = FFin (rnd64 q)" "0 \<le> rnd64 q" "rnd64 q \<le> 2" "q \<le> 1 \<Longrightarrow> rnd64 q \<le> 1" "1 \<le> q \<Longrightarrow> 1 \<le> rnd64 q"
proof -
  show r: "0 \<le> rnd64 q" "rnd64 q \<le> 2" "q \<le> 1 \<Longrightarrow> rnd64 q \<le> 1" "1 \<le> q \<Longrightarrow> 1 \<le> rnd64 q"
    using assms rnd64_nonneg [of q] rnd64_mono [of q 2] rnd64_mono [of q 1] rnd64_mono [of 1 q] rnd64_of_int [of 1] rnd64_of_int [of 2]
    by simp_all
  then show "f64_of_rat q = FFin (rnd64 q)" using assms by (simp add: f64_of_rat_def f64_bound_def)
qed

lemma near_prices:
  assumes "0 \<le> q" "q \<le> 2"
  shows "q \<le> 1 \<Longrightarrow> f_le (f_mul (FFin 100) (f64_of_rat q)) (FFin 100)"
    and "1 \<le> q \<Longrightarrow> f_le (FFin 200) (f_mul (FFin 200) (f64_of_rat q))"
proof -
  have r: "f64_of_rat q = FFin (rnd64 q)" "0 \<le> rnd64 q" using dec_between [OF assms] by auto
  then have "f_le (f64_of_rat (100 * rnd64 q)) (f64_of_rat 100)" if "q \<le> 1"
    using dec_between(4) [OF assms that] by (intro f64_of_rat_mono) simp
  with r show "q \<le> 1 \<Longrightarrow> f_le (f_mul (FFin 100) (f64_of_rat q)) (FFin 100)"
    by (cases "rnd64 q = 0") (auto simp: go_float f_mul_def f_zero_def)
  have "f_le (f64_of_rat 200) (f64_of_rat (200 * rnd64 q))" if "1 \<le> q"
    using dec_between(5) [OF assms that] by (intro f64_of_rat_mono) simp
  with r dec_between(5) [OF assms] show "1 \<le> q \<Longrightarrow> f_le (FFin 200) (f_mul (FFin 200) (f64_of_rat q))"
    by (auto simp: go_float f_mul_def)
qed

definition penny_book :: "gtime \<Rightarrow> OrderBook" where
  "penny_book t = \<lparr>ob_Symbol = ''BTC_USDT'', FirstVersion = 0, Version = 0, ob_Timestamp = t,
     Asks = [\<lparr>Price = FFin 200, Volume = FFin 1\<rparr>], Bids = [\<lparr>Price = FFin 100, Volume = FFin 10\<rparr>]\<rparr>"

lemma sample_imbalance:
  "calcDepthImbalance [\<lparr>Price = FFin 100, Volume = FFin 10\<rparr>] [\<lparr>Price = FFin 200, Volume = FFin 1\<rparr>] (FFin 100) (FFin 200) True = FFin 5"
  using near_prices [of "99/100"] near_prices [of "101/100"]
  by (simp add: calcDepthImbalance_def sum_turnover_def go_float)


text \<open>The wall of the best bid, as it is detected.\<close>

lemma sample_level:
  "evalLevel (detector_of sample_penny_env exch) [\<lparr>Price = FFin 100, Volume = FFin 10\<rparr>] [\<lparr>Price = FFin 100, Volume = FFin 10\<rparr>]
     [\<lparr>Price = FFin 200, Volume = FFin 1\<rparr>] \<lparr>Price = FFin 100, Volume = FFin 10\<rparr> (FFin 100) (FFin 200) True (FFin 1) =
   Some (Some \<lparr>le_price = FFin 100, le_volume = FFin 10, le_distPct = f0, le_notional = FFin 1000, le_avgNearbyVol = FFin 1,
     le_relativeRatio = FFin 10, le_backingRatio = FFin 1, le_depthImbalance = FFin 5\<rparr>)"
proof -
  have "Equal exact_dec (FFin 100) (FFin 100) = Some True" by (simp add: Equal_def on_dec2_def exact_dec_def)
  moreover have "calcDistPct (FFin 100) (FFin 100) (FFin 200) True = f0"
    by (simp add: calcDistPct_def go_float f_div_def f_mul_def f_zero_def)
  ultimately show ?thesis
    by (simp add: evalLevel_def sample_imbalance calcRelativeAndBackingRatio_def calcTrimmedNearbyAverage_def
        neighbour_volumes_def calcBackingRatio_def sample_penny_env_def sample_penny_config_def detector_of_def go_float Let_def)
qed


abbreviation sample_D :: "(rat, (depth_key, depth_val) ttl_cache, unit) detector" where
  "sample_D \<equiv> detector_of sample_penny_env ''toobit''"

lemma sample_D_simps [simp]:
  "dt_isDup sample_D = (\<lambda>_ _ u. (Inr False, u))" "getContractSize sample_D s = FFin 1" "getPriceUnit sample_D s = FFin 1"
  "re_cache sample_penny_env = ttl_ops" "re_keys sample_penny_env = ttl_ops" "re_dec sample_penny_env = exact_dec"
  "re_cfg sample_penny_env = sample_penny_config"
  by (simp_all add: detector_of_def sample_penny_env_def getContractSize_def getPriceUnit_def penny_contract_def)

lemma sample_spot: "is_spot sample_D"
proof -
  have "\<not> str_contains (to_lower ''toobit'') ''futures''" by code_simp
  then show ?thesis by (simp add: is_spot_def)
qed

definition sample_wall :: "gtime \<Rightarrow> Wall" where
  "sample_wall t = fresh_wall sample_D ''BTC_USDT'' SideOpenLong t \<lparr>le_price = FFin 100, le_volume = FFin 10, le_distPct = f0,
     le_notional = FFin 1000, le_avgNearbyVol = FFin 1, le_relativeRatio = FFin 10, le_backingRatio = FFin 1,
     le_depthImbalance = FFin 5\<rparr>"

lemma sample_findBest: "findBestCandidate sample_D ''BTC_USDT'' SideOpenLong (Bids (penny_book t)) (Bids (penny_book t))
    (Asks (penny_book t)) (FFin 100) (FFin 200) True t = Some (Some (sample_wall t))"
  by (simp add: findBestCandidate_def penny_book_def sample_level sample_wall_def)

lemma sample_findLevel:
  assumes "wl_Price w = FFin 100"
  shows "findLevelByPrice sample_D ''BTC_USDT'' SideOpenLong (Bids (penny_book t')) (Bids (penny_book t')) (Asks (penny_book t')) w
    (FFin 100) (FFin 200) True t = Some (Some (tracked_wall sample_D ''BTC_USDT'' SideOpenLong t w \<lparr>le_price = FFin 100,
      le_volume = FFin 10, le_distPct = f0, le_notional = FFin 1000, le_avgNearbyVol = FFin 1, le_relativeRatio = FFin 10,
      le_backingRatio = FFin 1, le_depthImbalance = FFin 5\<rparr>))"
proof -
  have "f64_of_rat (1 / 2) = FFin (1 / 2)" using rnd64_exact [of 1 "- 1"] by (simp add: f64_of_rat_def f64_bound_def)
  then have "f_le (f_abs (f_sub (FFin 100) (FFin 100))) (f_mul (FFin 1) (dec (1 / 2)))"
    by (simp add: go_float f_abs_def)
  with assms show ?thesis by (simp add: findLevelByPrice_def penny_book_def sample_level)
qed

lemma sample_process:
  "ProcessOrderBook sample_D t (Some (penny_book t')) now s =
   Option.bind (scanSide sample_D t ''BTC_USDT'' SideOpenLong (Bids (penny_book t')) (Bids (penny_book t')) (Asks (penny_book t'))
     (FFin 100) (FFin 200) True (FFin 100) now s) (\<lambda>(w, s'). Some (opt_list w, s'))"
  by (simp add: ProcessOrderBook_def sample_spot penny_book_def sample_penny_config_def go_float Let_def)

definition penny_start_state :: "((depth_key, depth_val) ttl_cache, (string, bool) ttl_cache, unit) runner" where
  "penny_start_state = NewPennyJumperRunner sample_penny_env 0 \<lparr>bus_repo = (), bus_log = [], bus_closed = False\<rparr>"

definition sample_depth :: "gtime \<Rightarrow> DepthUpdatedEvent" where
  "sample_depth t = \<lparr>du_Exchange = ''toobit'', du_Symbol = ''BTC_USDT'', du_Version = 0,
     du_OrderBook = Some (penny_book t), du_Timestamp = t\<rparr>"


definition sample_event :: "gtime \<Rightarrow> Wall \<Rightarrow> WallEventType \<Rightarrow> WallEvent" where
  "sample_event t w T = wall_event w T f0 (FFin 100) t"

definition sample_payload :: "gtime \<Rightarrow> WallEvent \<Rightarrow> WallEventStreamPayload" where
  "sample_payload t e = \<lparr>sp_Exchange = ''toobit'', sp_Symbol = ''BTC_USDT'', sp_Side = side_String SideOpenLong,
     sp_Event = e, sp_Timestamp = t\<rparr>"

lemma sample_publish:
  assumes "\<not> bus_closed (dp_bus s)" "finite_event (sp_Event p)"
  shows "\<exists>b. \<not> bus_closed b \<and> publish_stream (\<lambda>_ _ u. (Inr False, u)) t p s = s\<lparr>dp_bus := b, dp_mail := dp_mail s @ [p]\<rparr>"
  using assms
  by (intro exI [of _ "dp_bus s\<lparr>bus_log := bus_log (dp_bus s) @ [\<lparr>le_Time = t, le_Topic = TopicWallEventStream,
    le_Key = [], le_Payload = StreamEv p\<rparr>]\<rparr>"]) (simp add: publish_stream_def bus_Publish_def Let_def)

lemma sample_emit:
  assumes "\<not> bus_closed (dp_bus s)" "wl_EventSeq w = n" "0 \<le> n" "n < 2 ^ 63 - 1" "finite_event (wall_event w T f0 (FFin 100) t)"
    "wl_Symbol w = ''BTC_USDT''" "wl_Side w = SideOpenLong"
  shows "\<exists>b. \<not> bus_closed b \<and> emitWallEvent sample_D t T f0 (FFin 100) t (w, s) =
    (let w' = w\<lparr>wl_EventSeq := n + 1\<rparr>; e = sample_event t w' T in (w', \<lparr>
      dp_cache = SaveActiveWall ttl_ops t w' (AppendWallEvent ttl_ops t (wl_ID w) e (dp_cache s)),
      dp_bus = b, dp_mail = dp_mail s @ [sample_payload t e], dp_emitted = dp_emitted s @ [e]\<rparr>))"
proof -
  have n: "i64 (n + 1) = n + 1" using assms(3,4) by (simp add: i64_def)
  let ?w = "w\<lparr>wl_EventSeq := n + 1\<rparr>"
  let ?e = "sample_event t ?w T"
  let ?s = "\<lparr>dp_cache = SaveActiveWall ttl_ops t ?w (AppendWallEvent ttl_ops t (wl_ID w) ?e (dp_cache s)), dp_bus = dp_bus s,
    dp_mail = dp_mail s, dp_emitted = dp_emitted s @ [?e]\<rparr>"
  obtain b where "\<not> bus_closed b" "publish_stream (\<lambda>_ _ u. (Inr False, u)) t (sample_payload t ?e) ?s =
      ?s\<lparr>dp_bus := b, dp_mail := dp_mail ?s @ [sample_payload t ?e]\<rparr>"
    using sample_publish [of ?s "sample_payload t ?e" t] assms(1,5)
    by (auto simp: sample_payload_def sample_event_def finite_event_def wall_event_def)
  moreover have "emitWallEvent sample_D t T f0 (FFin 100) t (w, s) = (?w, publish_stream (\<lambda>_ _ u. (Inr False, u)) t (sample_payload t ?e) ?s)"
    using assms(2,6,7) n by (cases s) (simp add: sample_penny_env_def emitWallEvent_def Let_def on_cache_def sample_event_def sample_payload_def detector_of_def)
  ultimately show ?thesis by (auto simp: Let_def)
qed


text \<open>A first book at ten seconds, the same again a second later, and the two events are handled.\<close>

abbreviation sample_t0 :: gtime where "sample_t0 \<equiv> 10000000000"
abbreviation sample_t1 :: gtime where "sample_t1 \<equiv> 11000000000"

definition "born_wall = (sample_wall sample_t0)\<lparr>wl_EventSeq := 1\<rparr>"
definition "matured_wall = born_wall\<lparr>wl_LastUpdatedAt := sample_t1, wl_Matured := True, wl_EventSeq := 2\<rparr>"
definition "born_event = sample_event sample_t0 born_wall WallEventBorn"
definition "matured_event = sample_event sample_t1 matured_wall WallEventMatured"

lemma unique_id_some: "ExternalUniqueID symbol t exch \<noteq> []"
proof -
  have "pad_digits 2 n \<noteq> []" for n by (simp add: numeral_2_eq_2)
  then have "format_settle t \<noteq> []" unfolding format_settle_def Let_def case_prod_beta by simp
  then show ?thesis by (simp add: ExternalUniqueID_def to_upper_def)
qed

lemma born_simps [simp]:
  "wl_ID born_wall = ExternalUniqueID ''BTC_USDT'' sample_t0 ''toobit''" "wl_Symbol born_wall = ''BTC_USDT''"
  "wl_Side born_wall = SideOpenLong" "wl_Price born_wall = FFin 100"
  "wl_Volume born_wall = FFin 10" "wl_InitialVolume born_wall = FFin 10" "wl_FirstDetectedAt born_wall = sample_t0"
  "wl_Status born_wall = WallActive" "wl_Matured born_wall = False" "wl_EventSeq born_wall = 1" "wl_DisappearedAt born_wall = None"
  "wl_DistancePct born_wall = f0" "wl_Exchange born_wall = ''toobit''" "wl_RelativeRatio born_wall = FFin 10"
  "wl_AvgNearbyVolume born_wall = FFin 1" "wl_DepthImbalance born_wall = FFin 5" "wl_BackingRatio born_wall = FFin 1"
  by (simp_all add: born_wall_def sample_wall_def fresh_wall_def zero_wall_def detector_of_def)

lemma born_same: "born_wall\<lparr>wl_Volume := FFin 10, wl_LastUpdatedAt := t, wl_DistancePct := f0, wl_AvgNearbyVolume := FFin 1,
    wl_RelativeRatio := FFin 10, wl_DepthImbalance := FFin 5, wl_BackingRatio := FFin 1\<rparr> = born_wall\<lparr>wl_LastUpdatedAt := t\<rparr>"
  by (simp add: born_wall_def sample_wall_def fresh_wall_def zero_wall_def)

lemma sample_first:
  "\<exists>r. HandleDepthUpdated sample_penny_env sample_t0 (sample_depth sample_t0) penny_start_state = Some r \<and>
     (\<exists>c. rn_stores r ''toobit'' = Some c \<and> \<not> bus_closed (rn_bus r) \<and>
       tc_items c (ActiveWallKey ''BTC_USDT'' SideOpenLong) = Some (VWall born_wall, Some (sample_t0 + 30 * minute)) \<and>
       tc_items c (WallEventsKey (wl_ID born_wall)) = Some (VEvents [born_event], Some (sample_t0 + hour)) \<and>
       tc_items c (TradesKey ''BTC_USDT'') = None \<and> (\<forall>p. tc_items c (HistoryKey ''BTC_USDT'' p) = None) \<and> tc_items c (Volume24hKey ''BTC_USDT'') = None \<and>
       tc_default c = 30 * minute) \<and>
     rn_mail r = [sample_payload sample_t0 born_event] \<and> rn_emitted r ''toobit'' = [born_event] \<and>
     r = penny_start_state\<lparr>rn_stores := rn_stores r, rn_bus := rn_bus r, rn_mail := rn_mail r, rn_emitted := rn_emitted r\<rparr>"
proof -
  let ?c = "SaveDepthSnapshot ttl_ops sample_t0 ''BTC_USDT'' (penny_book sample_t0) (NewDepthStore ttl_ops 0)"
  let ?s = "\<lparr>dp_cache = ?c, dp_bus = rn_bus penny_start_state, dp_mail = [], dp_emitted = []\<rparr>"
  have "wl_EventSeq (sample_wall sample_t0) = 0" by (simp add: sample_wall_def fresh_wall_def zero_wall_def)
  then obtain b where b: "\<not> bus_closed b" "emitWallEvent sample_D sample_t0 WallEventBorn f0 (FFin 100) sample_t0 (sample_wall sample_t0, ?s) =
     (born_wall, \<lparr>dp_cache = SaveActiveWall ttl_ops sample_t0 born_wall (AppendWallEvent ttl_ops sample_t0 (wl_ID born_wall) born_event ?c),
       dp_bus = b, dp_mail = [sample_payload sample_t0 born_event], dp_emitted = [born_event]\<rparr>)"
    using sample_emit [of ?s "sample_wall sample_t0" 0 WallEventBorn sample_t0]
    by (auto simp: Let_def penny_start_state_def NewPennyJumperRunner_def born_wall_def born_event_def sample_wall_def fresh_wall_def
        finite_event_def wall_event_def)
  have "ProcessOrderBook sample_D sample_t0 (Some (penny_book sample_t0)) sample_t0 ?s = Some ([born_wall],
     \<lparr>dp_cache = SaveActiveWall ttl_ops sample_t0 born_wall (AppendWallEvent ttl_ops sample_t0 (wl_ID born_wall) born_event ?c),
       dp_bus = b, dp_mail = [sample_payload sample_t0 born_event], dp_emitted = [born_event]\<rparr>)"
    using b(2) by (simp add: sample_process scanSide_def fresh_scan_def sample_findBest handleFreshCandidate_def opt_list_def
      GetActiveWall_def SaveDepthSnapshot_def NewDepthStore_def ttl_simps sample_wall_def fresh_wall_def zero_wall_def)
  with b(1) show ?thesis
    by (simp add: HandleDepthUpdated_def sample_depth_def penny_start_state_def NewPennyJumperRunner_def sample_penny_config_def
        unique_id_some SaveActiveWall_def AppendWallEvent_def GetWallEventStream_def SaveDepthSnapshot_def NewDepthStore_def ttl_simps
        ttl_expires_def DefaultExpiration_def)
qed


lemma sample_second:
  assumes c: "rn_stores r ''toobit'' = Some c" "tc_items c (ActiveWallKey ''BTC_USDT'' SideOpenLong) = Some (VWall born_wall, Some (sample_t0 + 30 * minute))"
      "tc_items c (WallEventsKey (wl_ID born_wall)) = Some (VEvents [born_event], Some (sample_t0 + hour))"
      "tc_items c (TradesKey ''BTC_USDT'') = None" "\<forall>p. tc_items c (HistoryKey ''BTC_USDT'' p) = None"
      "tc_items c (Volume24hKey ''BTC_USDT'') = None" "tc_default c = 30 * minute"
    and r: "\<not> bus_closed (rn_bus r)" "rn_mail r = [sample_payload sample_t0 born_event]" "rn_emitted r ''toobit'' = [born_event]"
  shows "\<exists>r'. HandleDepthUpdated sample_penny_env sample_t1 (sample_depth sample_t1) r = Some r' \<and>
     (\<exists>c'. rn_stores r' ''toobit'' = Some c' \<and> \<not> bus_closed (rn_bus r') \<and>
       tc_items c' (ActiveWallKey ''BTC_USDT'' SideOpenLong) = Some (VWall matured_wall, Some (sample_t1 + 30 * minute)) \<and>
       tc_items c' (WallEventsKey (wl_ID born_wall)) = Some (VEvents [born_event, matured_event], Some (sample_t1 + hour)) \<and>
       tc_items c' (TradesKey ''BTC_USDT'') = None \<and> (\<forall>p. tc_items c' (HistoryKey ''BTC_USDT'' p) = None) \<and> tc_items c' (Volume24hKey ''BTC_USDT'') = None \<and>
       tc_items c' (DepthKey ''BTC_USDT'') = Some (VBook (penny_book sample_t1), Some (sample_t1 + 30 * minute))) \<and>
     rn_mail r' = [sample_payload sample_t0 born_event, sample_payload sample_t1 matured_event] \<and>
     rn_emitted r' ''toobit'' = [born_event, matured_event] \<and>
     r' = r\<lparr>rn_stores := rn_stores r', rn_bus := rn_bus r', rn_mail := rn_mail r', rn_emitted := rn_emitted r'\<rparr>"
proof -
  let ?w = "born_wall\<lparr>wl_LastUpdatedAt := sample_t1\<rparr>" and ?m = "born_wall\<lparr>wl_LastUpdatedAt := sample_t1, wl_Matured := True\<rparr>"
  let ?c = "SaveDepthSnapshot ttl_ops sample_t1 ''BTC_USDT'' (penny_book sample_t1) c"
  let ?s = "\<lparr>dp_cache = ?c, dp_bus = rn_bus r, dp_mail = rn_mail r, dp_emitted = rn_emitted r ''toobit''\<rparr>"
  let ?c2 = "SaveActiveWall ttl_ops sample_t1 ?m (SaveActiveWall ttl_ops sample_t1 ?w ?c)"
  let ?s2 = "?s\<lparr>dp_cache := ?c2\<rparr>"
  obtain b where b: "\<not> bus_closed b" "emitWallEvent sample_D sample_t1 WallEventMatured f0 (FFin 100) sample_t1 (?m, ?s2) =
     (matured_wall, \<lparr>dp_cache = SaveActiveWall ttl_ops sample_t1 matured_wall (AppendWallEvent ttl_ops sample_t1 (wl_ID born_wall) matured_event ?c2),
       dp_bus = b, dp_mail = rn_mail r @ [sample_payload sample_t1 matured_event], dp_emitted = rn_emitted r ''toobit'' @ [matured_event]\<rparr>)"
    using sample_emit [of ?s2 ?m 1 WallEventMatured sample_t1] r(1)
    by (auto simp: Let_def matured_wall_def matured_event_def finite_event_def wall_event_def)
  have get: "GetActiveWall ttl_ops sample_t1 ''BTC_USDT'' SideOpenLong ?c = Some born_wall"
    using c(2) by (simp add: GetActiveWall_def SaveDepthSnapshot_def ttl_simps)
  have mature: "check_matured sample_D sample_t1 (FFin 100) sample_t1 (?w, ?s\<lparr>dp_cache := SaveActiveWall ttl_ops sample_t1 ?w ?c\<rparr>) =
      emitWallEvent sample_D sample_t1 WallEventMatured f0 (FFin 100) sample_t1 (?m, ?s2)"
    by (simp add: check_matured_def sample_penny_config_def GetAgeAt_def time_Sub_def on_cache_def is_zero_time_def Let_def)
  have run: "ProcessOrderBook sample_D sample_t1 (Some (penny_book sample_t1)) sample_t1 ?s = Some ([matured_wall],
     \<lparr>dp_cache = SaveActiveWall ttl_ops sample_t1 matured_wall (SaveActiveWall ttl_ops sample_t1 matured_wall (AppendWallEvent ttl_ops sample_t1 (wl_ID born_wall) matured_event ?c2)),
       dp_bus = b, dp_mail = rn_mail r @ [sample_payload sample_t1 matured_event], dp_emitted = rn_emitted r ''toobit'' @ [matured_event]\<rparr>)"
    unfolding sample_process
    by (simp add: scanSide_def get sample_findLevel handleExistingCandidate_def tracked_wall_def born_same mature [unfolded b(2), simplified] check_approached_def
      checkVolumeChange_def checkWeakened_def matured_wall_def on_cache_def opt_list_def sample_penny_config_def go_float zero_wall_def Let_def)
  have keys: "wl_Symbol matured_wall = ''BTC_USDT''" "wl_Side matured_wall = SideOpenLong" by (simp_all add: matured_wall_def)
  let ?c3 = "SaveActiveWall ttl_ops sample_t1 matured_wall (SaveActiveWall ttl_ops sample_t1 matured_wall
    (AppendWallEvent ttl_ops sample_t1 (wl_ID born_wall) matured_event ?c2))"
  have h: "HandleDepthUpdated sample_penny_env sample_t1 (sample_depth sample_t1) r = Some (r\<lparr>
      rn_stores := (rn_stores r)(''toobit'' \<mapsto> ?c3), rn_bus := b, rn_mail := rn_mail r @ [sample_payload sample_t1 matured_event],
      rn_emitted := (rn_emitted r)(''toobit'' := rn_emitted r ''toobit'' @ [matured_event])\<rparr>)"
    using c(1) run by (simp add: HandleDepthUpdated_def sample_depth_def)
  show ?thesis
    unfolding h using b(1) c r
    by (simp add: unique_id_some SaveActiveWall_def AppendWallEvent_def GetWallEventStream_def SaveDepthSnapshot_def ttl_simps
        ttl_expires_def DefaultExpiration_def keys)
qed

lemma sample_born_handled:
  "HandleWallEventStream sample_penny_env t (sample_payload sample_t0 born_event) r = Some r"
  by (simp add: HandleWallEventStream_def sample_payload_def born_event_def sample_event_def wall_event_def Let_def split: option.splits)

lemma sample_matured_handled:
  assumes c: "rn_stores r ''toobit'' = Some c"
      "tc_items c (ActiveWallKey ''BTC_USDT'' SideOpenLong) = Some (VWall matured_wall, Some (sample_t1 + 30 * minute))"
      "tc_items c (TradesKey ''BTC_USDT'') = None" "\<forall>p. tc_items c (HistoryKey ''BTC_USDT'' p) = None" "tc_items c (Volume24hKey ''BTC_USDT'') = None"
      "tc_items c (DepthKey ''BTC_USDT'') = Some (VBook (penny_book sample_t1), Some (sample_t1 + 30 * minute))"
    and e: "tc_items (rn_evalCache r) = Map.empty"
    and r: "\<not> bus_closed (rn_bus r)" "rn_qualified r = []" "rn_judged r = []" "rn_records r = []"
  shows "\<exists>r' q. HandleWallEventStream sample_penny_env sample_t1 (sample_payload sample_t1 matured_event) r = Some r' \<and>
    rn_qualified r' = [(sample_t1, q)] \<and> wq_TargetEntryPrice q = FFin 101 \<and> length (rn_judged r') = 1 \<and> rn_records r' = []"
proof -
  have keys: "wl_ID matured_wall = wl_ID born_wall" "wl_Symbol matured_wall = ''BTC_USDT''" "wl_Side matured_wall = SideOpenLong"
      "wl_Price matured_wall = FFin 100" "wl_Volume matured_wall = FFin 10" "wl_Matured matured_wall"
      "wl_FirstDetectedAt matured_wall = sample_t0"
    by (simp_all add: matured_wall_def)
  have answers: "re_contracts sample_penny_env = (\<lambda>_. Some (\<lambda>_. Some penny_contract))"
      "re_judge sample_penny_env = (\<lambda>_ _ _. (no_result\<lparr>jr_TrustScore := FFin 1, jr_IsTrusted := True\<rparr>, None))"
      "re_isDup sample_penny_env = (\<lambda>_ _ u. (Inr False, u))"
    by (simp_all add: sample_penny_env_def)
  let ?now = "sample_t1"
  have active: "GetActiveWall ttl_ops ?now ''BTC_USDT'' SideOpenLong c = Some matured_wall"
    using c(2) by (simp add: GetActiveWall_def ttl_simps)
  have metrics: "getContractMetrics (\<lambda>_. Some penny_contract) s = (FFin 1, FFin 1)" for s
    by (simp add: getContractMetrics_def penny_contract_def)
  let ?g = "\<lparr>wg_SizeUSD = FFin 1000, wg_PriceUnit = FFin 1, wg_Vol24h = f0, wg_Ratio1m = f0\<rparr>"
  have g: "isEligibleWall sample_penny_env ?now matured_wall (\<lambda>_. Some penny_contract) c ?now = Some ?g"
    using c(5) by (simp add: isEligibleWall_def metrics keys GetVolume24h_def ttl_simps sample_penny_config_def go_float Let_def)
  have trades: "GetTradesForWall exact_dec ttl_ops ?now ''BTC_USDT'' p s u v c = Some []" for p s u v
    using c(3) by (simp add: GetTradesForWall_def trades_of_def ttl_simps)
  have bbo: "extractBBO ttl_ops ?now ''BTC_USDT'' c = (FFin 100, FFin 200)"
    using c(6) by (simp add: extractBBO_def GetLatestDepth_def ttl_simps penny_book_def)
  have target: "calculateFrontRunPrice exact_dec SideOpenLong (FFin 100) (FFin 100) (FFin 200) (FFin 1) = Some (FFin 101)"
    by (simp add: calculateFrontRunPrice_def go_float exact_ops round_places_numeral Let_def)
  let ?h = "GetWallHistory ttl_ops ?now ''BTC_USDT'' (FFin 100) hour ?now c"
  have h: "?h = \<lparr>hr_PullCountIn1h = 0, hr_FillCountIn1h = 0, hr_TotalPulls = 0, hr_TotalFills = 0\<rparr>"
    using c(4) by (simp add: GetWallHistory_def history_of_def ttl_simps)
  have finite: "finite_wall (judged_wall sample_penny_env ?now ?g ?now c matured_wall)"
    by (simp add: judged_wall_def finite_wall_def matured_wall_def Let_def)
  have ev: "we_Timestamp matured_event = ?now" "we_EventType matured_event = WallEventMatured" "we_SpreadPct matured_event = FFin 100"
    by (simp_all add: matured_event_def sample_event_def wall_event_def)
  let ?r = "r\<lparr>rn_evalCache := cache_Set ttl_ops ?now (wl_ID matured_wall) True (5 * second) (rn_evalCache r)\<rparr>"
  have eval: "evaluateAndQualifyWall sample_penny_env ?now ''toobit'' ''BTC_USDT'' SideOpenLong matured_event es r =
      qualify_wall sample_penny_env ?now ''BTC_USDT'' matured_event es [] ?g c matured_wall ?r" for es
    using e by (simp add: evaluateAndQualifyWall_def c(1) answers active g ev keys trades canEvaluateWall_def sample_penny_config_def ttl_simps)
  let ?w = "judged_wall sample_penny_env ?now ?g ?now c matured_wall"
  have side: "wl_Side ?w = SideOpenLong" by (simp add: judged_wall_def keys Let_def)
  have qualify: "\<exists>r' q. qualify_wall sample_penny_env ?now ''BTC_USDT'' matured_event es [] ?g c matured_wall ?r = Some r' \<and>
    rn_qualified r' = [(?now, q)] \<and> wq_TargetEntryPrice q = FFin 101 \<and> length (rn_judged r') = 1 \<and> rn_records r' = []" for es
    using r by (simp add: qualify_wall_def ev answers bbo target keys publish_qualified_def bus_Publish_def finite Let_def)
  show ?thesis
    unfolding HandleWallEventStream_def sample_payload_def Let_def
    using qualify by (simp add: c(1) ev parseWallSide_def eval)
qed

lemma sample_run:
  obtains r2 r4 c q where "penny_reach sample_penny_env sample_t1 r2" "rn_stores r2 ''toobit'' = Some c"
    "tc_items c (ActiveWallKey ''BTC_USDT'' SideOpenLong) = Some (VWall matured_wall, Some (sample_t1 + 30 * minute))"
    "tc_items c (WallEventsKey (wl_ID born_wall)) = Some (VEvents [born_event, matured_event], Some (sample_t1 + hour))"
    "rn_emitted r2 ''toobit'' = [born_event, matured_event]"
    "penny_reach sample_penny_env sample_t1 r4" "rn_qualified r4 = [(sample_t1, q)]" "wq_TargetEntryPrice q = FFin 101"
    "length (rn_judged r4) = 1" "rn_records r4 = []"
proof -
  have start: "penny_reach sample_penny_env sample_t0 penny_start_state"
    unfolding penny_start_state_def by (rule penny_start)
  have numbered: "numbered_levels (Bids ob) \<and> numbered_levels (Asks ob)" if "du_OrderBook (sample_depth t) = Some ob" for t ob
    using that rnd64_of_int [of 10] rnd64_of_int [of 1]
    by (auto simp: sample_depth_def penny_book_def numbered_levels_def number_def f64_bound_def)
  obtain r1 c1 where r1: "HandleDepthUpdated sample_penny_env sample_t0 (sample_depth sample_t0) penny_start_state = Some r1"
      "rn_stores r1 ''toobit'' = Some c1" "\<not> bus_closed (rn_bus r1)"
      "tc_items c1 (ActiveWallKey ''BTC_USDT'' SideOpenLong) = Some (VWall born_wall, Some (sample_t0 + 30 * minute))"
      "tc_items c1 (WallEventsKey (wl_ID born_wall)) = Some (VEvents [born_event], Some (sample_t0 + hour))"
      "tc_items c1 (TradesKey ''BTC_USDT'') = None" "\<forall>p. tc_items c1 (HistoryKey ''BTC_USDT'' p) = None"
      "tc_items c1 (Volume24hKey ''BTC_USDT'') = None" "tc_default c1 = 30 * minute"
      "rn_mail r1 = [sample_payload sample_t0 born_event]" "rn_emitted r1 ''toobit'' = [born_event]"
      "r1 = penny_start_state\<lparr>rn_stores := rn_stores r1, rn_bus := rn_bus r1, rn_mail := rn_mail r1, rn_emitted := rn_emitted r1\<rparr>"
    using sample_first by metis
  obtain r2 c where r2: "HandleDepthUpdated sample_penny_env sample_t1 (sample_depth sample_t1) r1 = Some r2"
      "rn_stores r2 ''toobit'' = Some c" "\<not> bus_closed (rn_bus r2)"
      "tc_items c (ActiveWallKey ''BTC_USDT'' SideOpenLong) = Some (VWall matured_wall, Some (sample_t1 + 30 * minute))"
      "tc_items c (WallEventsKey (wl_ID born_wall)) = Some (VEvents [born_event, matured_event], Some (sample_t1 + hour))"
      "tc_items c (TradesKey ''BTC_USDT'') = None" "\<forall>p. tc_items c (HistoryKey ''BTC_USDT'' p) = None"
      "tc_items c (Volume24hKey ''BTC_USDT'') = None"
      "tc_items c (DepthKey ''BTC_USDT'') = Some (VBook (penny_book sample_t1), Some (sample_t1 + 30 * minute))"
      "rn_mail r2 = [sample_payload sample_t0 born_event, sample_payload sample_t1 matured_event]"
      "rn_emitted r2 ''toobit'' = [born_event, matured_event]"
      "r2 = r1\<lparr>rn_stores := rn_stores r2, rn_bus := rn_bus r2, rn_mail := rn_mail r2, rn_emitted := rn_emitted r2\<rparr>"
    using sample_second [OF r1(2,4-9,3,10,11)] by metis
  let ?r3 = "r2\<lparr>rn_mail := [sample_payload sample_t1 matured_event]\<rparr>"
  have fresh: "tc_items (rn_evalCache r2) = Map.empty" "rn_qualified r2 = []" "rn_judged r2 = []" "rn_records r2 = []"
    by (subst r2(12), subst r1(12), simp add: penny_start_state_def NewPennyJumperRunner_def ttl_simps)+
  have reach2: "penny_reach sample_penny_env sample_t1 r2"
    using penny_depth [OF penny_depth [OF start _ numbered r1(1)] _ numbered r2(1)] by simp
  then have reach3: "penny_reach sample_penny_env sample_t1 ?r3"
    using penny_stream [OF reach2 order_refl r2(10) sample_born_handled] by simp
  obtain r4 q where r4: "HandleWallEventStream sample_penny_env sample_t1 (sample_payload sample_t1 matured_event) (r2\<lparr>rn_mail := []\<rparr>) = Some r4"
      "rn_qualified r4 = [(sample_t1, q)]" "wq_TargetEntryPrice q = FFin 101" "length (rn_judged r4) = 1" "rn_records r4 = []"
    using sample_matured_handled [of "r2\<lparr>rn_mail := []\<rparr>" c] r2 fresh by auto
  have "penny_reach sample_penny_env sample_t1 r4"
    using penny_stream [OF reach3 order_refl, of "sample_payload sample_t1 matured_event" "[]" r4] r4(1) by simp
  with that reach2 r2 r4 show thesis by blast
qed

interpretation sample_detector: detector_cache sample_D
  by (simp add: detector_cache_def ttl.go_cache_axioms)

interpretation sample_store: penny_store sample_penny_env
  by (simp add: penny_store_def ttl.go_cache_axioms)

subsection \<open>The properties\<close>

text \<open>
  C11: what the store keeps of a wall is what happened to it. At any point of a run, the
  journal of an active wall is an end piece of the events the detector emitted for the wall's
  identifier (older ones may have expired); and when no other wall was born under that
  identifier, these events are numbered without gaps up to the wall's number and replaying them
  gives the wall's volume, first volume, status, age and maturity, so a journal that still
  starts with the birth is complete.
\<close>

theorem wall_journal:
  assumes "go_cache (re_cache E)" "penny_reach E t r" "rn_stores r exch = Some c"
    and "int (length (rn_emitted r exch)) + 8 < 2 ^ 63"
    and "GetActiveWall (re_cache E) t symbol side c = Some w"
  shows "let es = emitted_of (wl_ID w) (rn_emitted r exch); journal = GetWallEventStream (re_cache E) t (wl_ID w) c in
    suffix journal es \<and> wl_Symbol w = symbol \<and> wl_Side w = side \<and>
    (births (wl_ID w) (rn_emitted r exch) = 1 \<longrightarrow>
      map we_Seq es = [1..wl_EventSeq w] \<and> (\<exists>p. ProjectWallFromEvents es = Some p \<and> agrees p w) \<and>
      (journal \<noteq> [] \<and> we_EventType (hd journal) = WallEventBorn \<longrightarrow> journal = es))"
proof -
  have store: "penny_store E" using assms(1) by (simp add: penny_store_def)
  then have "detector_cache.journal_inv (detector_of E exch) t c (rn_emitted r exch)"
    using penny_store.penny_reach_inv [OF store assms(2)] assms(3,4)
    by (simp add: penny_store.penny_inv_def penny_store.store_inv_def room_def)
  from detector_cache.journal_active [OF penny_store.detector_cache [OF store] this, unfolded detector_of_simps, OF assms(5)]
  show ?thesis unfolding Let_def .
qed

theorem wall_journal_witness:
  "\<exists>r c w. penny_reach sample_penny_env sample_t1 r \<and> rn_stores r ''toobit'' = Some c \<and>
     GetActiveWall ttl_ops sample_t1 ''BTC_USDT'' SideOpenLong c = Some w \<and> wl_EventSeq w = 2 \<and>
     GetWallEventStream ttl_ops sample_t1 (wl_ID w) c = [born_event, matured_event] \<and>
     suffix (GetWallEventStream ttl_ops sample_t1 (wl_ID w) c) (emitted_of (wl_ID w) (rn_emitted r ''toobit''))"
proof -
  obtain r4 r c q where r: "penny_reach sample_penny_env sample_t1 r" "rn_stores r ''toobit'' = Some c"
      "tc_items c (ActiveWallKey ''BTC_USDT'' SideOpenLong) = Some (VWall matured_wall, Some (sample_t1 + 30 * minute))"
      "tc_items c (WallEventsKey (wl_ID born_wall)) = Some (VEvents [born_event, matured_event], Some (sample_t1 + hour))"
      "rn_emitted r ''toobit'' = [born_event, matured_event]"
    by (rule sample_run)
  have w: "GetActiveWall ttl_ops sample_t1 ''BTC_USDT'' SideOpenLong c = Some matured_wall"
      "GetWallEventStream ttl_ops sample_t1 (wl_ID matured_wall) c = [born_event, matured_event]"
    using r(3,4) by (simp_all add: GetActiveWall_def GetWallEventStream_def ttl_simps unique_id_some matured_wall_def)
  from wall_journal [OF _ r(1,2), of "''BTC_USDT''" SideOpenLong matured_wall] w r(1,2,5) show ?thesis
    by (intro exI [of _ r] exI [of _ c] exI [of _ matured_wall]) (simp add: ttl.go_cache_axioms Let_def matured_wall_def)
qed

text \<open>
  C10: the bot announces a wall only on a trusted judgement. Every qualified-wall event it
  published comes from a judgement at that moment which returned no error and a trusted answer,
  with the score that it announces; every judged wall had passed the filters of age, size and
  turnover; and two judgements of a wall whose end has not been recorded are at least the
  evaluation cooldown apart.
\<close>

theorem qualified_judged:
  assumes "go_cache (re_keys E)" "penny_reach E t r"
  shows "(\<forall>tq \<in> set (rn_qualified r). \<exists>jd \<in> set (rn_judged r). judged_as jd tq \<and> eligible E jd) \<and>
    (\<forall>i k. i < k \<and> k < length (rn_judged r) \<and> \<not> ended r (wl_ID (jd_wall (rn_judged r ! i))) \<and>
        wl_ID (jd_wall (rn_judged r ! i)) = wl_ID (jd_wall (rn_judged r ! k)) \<longrightarrow>
      jd_time (rn_judged r ! i) + jc_EvalCooldown (pj_WallJudge (re_cfg E)) \<le> jd_time (rn_judged r ! k))"
  using penny_reach_judging [OF assms] unfolding judging_inv_def by blast

theorem qualified_judged_witness:
  "\<exists>r q. penny_reach sample_penny_env sample_t1 r \<and> rn_qualified r = [(sample_t1, q)] \<and>
     wq_TargetEntryPrice q = FFin 101 \<and> (\<exists>jd \<in> set (rn_judged r). judged_as jd (sample_t1, q) \<and> eligible sample_penny_env jd)"
proof -
  obtain r2 r c q where r: "penny_reach sample_penny_env sample_t1 r" "rn_qualified r = [(sample_t1, q)]" "wq_TargetEntryPrice q = FFin 101"
    by (rule sample_run)
  from qualified_judged [OF _ r(1)] r show ?thesis by (auto simp: ttl.go_cache_axioms)
qed

end
