(* ===== verification/PennyUniverse.thy ===== *)
theory PennyUniverse
  imports PennyLaws BookSync
begin

text \<open>
  \<open>internal/bots/penny_jumper/application/subscribe_manager.go\<close>: the symbols the bot watches
  and their subscriptions, and the depth handler and life cycle of \<open>penny_jumper_bot.go\<close>. The
  answers of the exchanges are arguments. A call to a subscriber is recorded with its answer, None
  or the error, which the source only logs: \<open>ans\<close> gives it for the n-th call. A Go map is ranged over in any order: the keys of a
  universe are a list and \<open>perm\<close> is the order of one range.
\<close>

record TopGainerResult =
  tg_Symbol :: string
  tg_LastPrice :: float64
  tg_Bid1 :: float64
  tg_Ask1 :: float64
  tg_Volume24hUSDT :: float64
  tg_Gain24hPct :: float64
  tg_SpreadPct :: float64
  tg_Timestamp :: int

text \<open>A client: its exchange, and whether its subscriber also has the trade subscriptions.\<close>

record ExchangeClient =
  ec_Exchange :: string
  ec_TradeSubscriber :: bool

datatype sub_call = SubscribeDepth string string | SubscribeTrade string string
  | UnsubscribeDepth string string | UnsubscribeTrade string string

record 'c sub_manager =
  sm_universe :: "string \<rightharpoonup> string list"
  sm_calls :: "(sub_call \<times> string option) list"
  sm_stores :: "string \<Rightarrow> 'c"
  sm_syncs :: "string \<Rightarrow> synchronizer"

definition NewSubscribeManager :: "(string \<Rightarrow> 'c) \<Rightarrow> (string \<Rightarrow> synchronizer) \<Rightarrow> 'c sub_manager" where
  "NewSubscribeManager stores syncs =
     \<lparr>sm_universe = Map.empty, sm_calls = [], sm_stores = stores, sm_syncs = syncs\<rparr>"

type_synonym sub_answers = "nat \<Rightarrow> sub_call \<Rightarrow> string option"

definition call_subscriber :: "sub_answers \<Rightarrow> sub_call \<Rightarrow> 'c sub_manager \<Rightarrow> 'c sub_manager" where
  "call_subscriber ans c s = s\<lparr>sm_calls := sm_calls s @ [(c, ans (length (sm_calls s)) c)]\<rparr>"

subsection \<open>The universe\<close>

definition filterGainers :: "UniverseConfig \<Rightarrow> string list \<Rightarrow> TopGainerResult list \<Rightarrow> string list" where
  "filterGainers u blacklist gainers =
     (let minVol = uc_MinVolume24hUSDT u; maxPrice = uc_MaxCoinPrice u in
      map tg_Symbol (filter (\<lambda>g. tg_Symbol g \<notin> set blacklist \<and>
        \<not> (f_pos minVol \<and> f_lt (tg_Volume24hUSDT g) minVol) \<and>
        \<not> (f_pos maxPrice \<and> (f_lt maxPrice (tg_LastPrice g) \<or> f_le (tg_LastPrice g) f0))) gainers))"

definition qualified_symbols :: "UniverseConfig \<Rightarrow> string list \<Rightarrow> TopGainerResult list \<Rightarrow> string list" where
  "qualified_symbols u blacklist gainers =
     (let q = filterGainers u blacklist gainers; limit = uc_TopGainerLimit u
      in if 0 < limit \<and> limit < int (length q) then take (nat limit) q else q)"

text \<open>The universe with the new symbols, and these.\<close>

fun add_new :: "string list \<Rightarrow> string list \<Rightarrow> string list \<times> string list" where
  "add_new u [] = (u, [])"
| "add_new u (s # ss) = (if s \<in> set u then add_new u ss
     else case add_new (u @ [s]) ss of (u', toAdd) \<Rightarrow> (u', s # toAdd))"

definition updateUniverseForExchange ::
    "(string list \<Rightarrow> string list) \<Rightarrow> string \<Rightarrow> string list \<Rightarrow> (string \<rightharpoonup> string list) \<Rightarrow>
     string list \<times> string list \<times> (string \<rightharpoonup> string list)" where
  "updateUniverseForExchange perm exch qualified m =
     (case add_new (case m exch of None \<Rightarrow> [] | Some u \<Rightarrow> u) qualified of (u, toAdd) \<Rightarrow>
        (toAdd, filter (\<lambda>s. s \<notin> set qualified) (perm u), m(exch \<mapsto> filter (\<lambda>s. s \<in> set qualified) u)))"

definition subscribe_pair :: "sub_answers \<Rightarrow> ExchangeClient \<Rightarrow> string \<Rightarrow> 'c sub_manager \<Rightarrow> 'c sub_manager" where
  "subscribe_pair ans cl smb s = (let s1 = call_subscriber ans (SubscribeDepth (ec_Exchange cl) smb) s
     in if ec_TradeSubscriber cl then call_subscriber ans (SubscribeTrade (ec_Exchange cl) smb) s1 else s1)"

definition subscribePairsForClient :: "sub_answers \<Rightarrow> ExchangeClient \<Rightarrow> string list \<Rightarrow> 'c sub_manager \<Rightarrow> 'c sub_manager" where
  "subscribePairsForClient ans cl toAdd s = foldl (\<lambda>s smb. subscribe_pair ans cl smb s) s toAdd"

definition unsubscribe_pair :: "sub_answers \<Rightarrow> 'c depth_ops \<Rightarrow> ExchangeClient \<Rightarrow> string \<Rightarrow> 'c sub_manager \<Rightarrow> 'c sub_manager" where
  "unsubscribe_pair ans C cl smb s = (let e = ec_Exchange cl;
     s1 = s\<lparr>sm_syncs := (sm_syncs s)(e := RemoveSymbol smb (sm_syncs s e)),
       sm_stores := (sm_stores s)(e := DeleteActiveWall C smb SideOpenShort (DeleteActiveWall C smb SideOpenLong (sm_stores s e)))\<rparr>;
     s2 = call_subscriber ans (UnsubscribeDepth e smb) s1
     in if ec_TradeSubscriber cl then call_subscriber ans (UnsubscribeTrade e smb) s2 else s2)"

definition unsubscribePairsForClient ::
    "sub_answers \<Rightarrow> 'c depth_ops \<Rightarrow> ExchangeClient \<Rightarrow> string list \<Rightarrow> 'c sub_manager \<Rightarrow> 'c sub_manager" where
  "unsubscribePairsForClient ans C cl toRemove s = foldl (\<lambda>s smb. unsubscribe_pair ans C cl smb s) s toRemove"

definition save_volumes :: "'c depth_ops \<Rightarrow> gtime \<Rightarrow> TopGainerResult list \<Rightarrow> 'c \<Rightarrow> 'c" where
  "save_volumes C t gainers c = foldl (\<lambda>c g. if f_pos (tg_Volume24hUSDT g)
     then SaveVolume24h C t (tg_Symbol g) (tg_Volume24hUSDT g) c else c) c gainers"

text \<open>One client of \<open>RefreshUniverse\<close>; None is the answer of a failed query.\<close>

definition refresh_client ::
    "sub_answers \<Rightarrow> 'c depth_ops \<Rightarrow> UniverseConfig \<Rightarrow> string list \<Rightarrow> gtime \<Rightarrow> (string list \<Rightarrow> string list) \<Rightarrow> ExchangeClient \<Rightarrow>
     TopGainerResult list option \<Rightarrow> 'c sub_manager \<Rightarrow> string list \<times> 'c sub_manager" where
  "refresh_client ans C u blacklist t perm cl answer s = (case answer of
     None \<Rightarrow> ([], s)
   | Some gainers \<Rightarrow>
       let e = ec_Exchange cl;
           s1 = s\<lparr>sm_stores := (sm_stores s)(e := save_volumes C t gainers (sm_stores s e))\<rparr>;
           qualified = qualified_symbols u blacklist gainers
       in case updateUniverseForExchange perm e qualified (sm_universe s1) of
            (toAdd, toRemove, m) \<Rightarrow> (qualified, unsubscribePairsForClient ans C cl toRemove
              (subscribePairsForClient ans cl toAdd (s1\<lparr>sm_universe := m\<rparr>))))"

definition RefreshUniverse ::
    "sub_answers \<Rightarrow> 'c depth_ops \<Rightarrow> UniverseConfig \<Rightarrow> string list \<Rightarrow> gtime \<Rightarrow> (string list \<Rightarrow> string list) \<Rightarrow>
     (ExchangeClient \<Rightarrow> TopGainerResult list option) \<Rightarrow> ExchangeClient list \<Rightarrow> 'c sub_manager \<Rightarrow> string list \<times> 'c sub_manager" where
  "RefreshUniverse ans C u blacklist t perm fetch clients s =
     foldl (\<lambda>(allQualified, s) cl. case refresh_client ans C u blacklist t perm cl (fetch cl) s of
       (qualified, s') \<Rightarrow> (allQualified @ qualified, s')) ([], s) clients"

definition unsubscribe_client ::
    "sub_answers \<Rightarrow> 'c depth_ops \<Rightarrow> (string list \<Rightarrow> string list) \<Rightarrow> ExchangeClient \<Rightarrow> 'c sub_manager \<Rightarrow> 'c sub_manager" where
  "unsubscribe_client ans C perm cl s = (case sm_universe s (ec_Exchange cl) of
     None \<Rightarrow> s
   | Some u \<Rightarrow> let s' = unsubscribePairsForClient ans C cl (perm u) s
       in s'\<lparr>sm_universe := (sm_universe s')(ec_Exchange cl := None)\<rparr>)"

definition UnsubscribeAll ::
    "sub_answers \<Rightarrow> 'c depth_ops \<Rightarrow> (string list \<Rightarrow> string list) \<Rightarrow> ExchangeClient list \<Rightarrow> 'c sub_manager \<Rightarrow> 'c sub_manager" where
  "UnsubscribeAll ans C perm clients s = foldl (\<lambda>s cl. unsubscribe_client ans C perm cl s) s clients"

text \<open>\<open>exchs\<close>: the keys of the universe in the order of the range.\<close>

definition CurrentUniverse :: "string list \<Rightarrow> (string list \<Rightarrow> string list) \<Rightarrow> 'c sub_manager \<Rightarrow> string list" where
  "CurrentUniverse exchs perm s =
     foldl (\<lambda>out smb. if smb \<in> set out then out else out @ [smb]) []
       (concat (map (\<lambda>e. perm (case sm_universe s e of None \<Rightarrow> [] | Some u \<Rightarrow> u)) exchs))"

subsection \<open>The bot\<close>

text \<open>The depth message of a symbol: what the adapter parsed goes to the synchronizer, and the
  twenty best levels of its book to the bus.\<close>

definition on_depth ::
    "'r is_duplicate \<Rightarrow> gtime \<Rightarrow> string \<Rightarrow> (string \<times> OrderBook option) option \<Rightarrow> synchronizer \<Rightarrow> ('r, penny_event) bus \<Rightarrow>
     synchronizer \<times> ('r, penny_event) bus \<times> DepthUpdatedEvent option" where
  "on_depth isDup t exch parsed syn b = (case parsed of
     Some (smb, Some ob) \<Rightarrow>
       let syn' = fst (ProcessUpdate t (Some ob) syn) in
       (case sync_GetTopN smb 20 syn' of
          None \<Rightarrow> (syn', b, None)
        | Some snap \<Rightarrow>
            let ts = (if is_zero_time (ob_Timestamp snap) then t else ob_Timestamp snap);
                evt = \<lparr>du_Exchange = exch, du_Symbol = smb, du_Version = Version snap, du_OrderBook = Some snap, du_Timestamp = ts\<rparr>
            in case bus_Publish isDup penny_wire t ''penny_jumper.depth.updated'' '''' (DepthEv evt) b of
                 (_, sent, b') \<Rightarrow> (syn', b', case sent of Some (DepthEv d) \<Rightarrow> Some d | _ \<Rightarrow> None))
   | _ \<Rightarrow> (syn, b, None))"

definition on_trade :: "'c depth_ops \<Rightarrow> gtime \<Rightarrow> (string \<times> PublicTrade list) option \<Rightarrow> 'c \<Rightarrow> 'c" where
  "on_trade C t parsed c = (case parsed of
     None \<Rightarrow> c | Some (smb, trades) \<Rightarrow> if trades = [] then c else RecordPublicTrades C t smb trades c)"

text \<open>Start and stop: the running flag, and whether the background jobs' context is alive.\<close>

record 'c penny_bot =
  pb_running :: bool
  pb_alive :: bool
  pb_manager :: "'c sub_manager"

definition bot_Start :: "'c penny_bot \<Rightarrow> string option \<times> 'c penny_bot" where
  "bot_Start b = (if pb_running b then (Some ''bot is already running'', b)
     else (None, b\<lparr>pb_running := True, pb_alive := True\<rparr>))"

definition bot_Stop ::
    "sub_answers \<Rightarrow> 'c depth_ops \<Rightarrow> (string list \<Rightarrow> string list) \<Rightarrow> ExchangeClient list \<Rightarrow> 'c penny_bot \<Rightarrow> 'c penny_bot" where
  "bot_Stop ans C perm clients b = (if \<not> pb_running b then b
     else b\<lparr>pb_running := False, pb_alive := False, pb_manager := UnsubscribeAll ans C perm clients (pb_manager b)\<rparr>)"

end
