(* ===== verification/PennyUniverseLaws.thy ===== *)
theory PennyUniverseLaws
  imports PennyUniverse
begin

text \<open>
  The subscriptions of the penny jumper: at every moment it has asked for those of its universe, it
  has those that were not refused, and the universe is what the last answers of the exchanges allow.
\<close>

subsection \<open>Subscriptions\<close>

text \<open>The depth subscriptions of an exchange after some calls; None when a symbol was subscribed
  twice, or one that was not subscribed was dropped.\<close>

fun depth_call :: "string \<Rightarrow> string list option \<Rightarrow> sub_call \<Rightarrow> string list option" where
  "depth_call e None c = None"
| "depth_call e (Some u) (SubscribeDepth e' s) =
     (if e' \<noteq> e then Some u else if s \<in> set u then None else Some (u @ [s]))"
| "depth_call e (Some u) (UnsubscribeDepth e' s) =
     (if e' \<noteq> e then Some u else if s \<in> set u then Some (filter (\<lambda>x. x \<noteq> s) u) else None)"
| "depth_call e (Some u) _ = Some u"

definition depth_subscribed :: "string \<Rightarrow> sub_call list \<Rightarrow> string list option" where
  "depth_subscribed e calls = foldl (depth_call e) (Some []) calls"

definition universe_of :: "'c sub_manager \<Rightarrow> string \<Rightarrow> string list" where
  "universe_of s e = (case sm_universe s e of None \<Rightarrow> [] | Some u \<Rightarrow> u)"

definition subscribed :: "'c sub_manager \<Rightarrow> bool" where
  "subscribed s \<longleftrightarrow> (\<forall>e. \<exists>u. depth_subscribed e (map fst (sm_calls s)) = Some u \<and> set u = set (universe_of s e)) \<and>
     (\<forall>e. distinct (universe_of s e))"

lemma depth_subscribed_append: "depth_subscribed e (xs @ ys) = foldl (depth_call e) (depth_subscribed e xs) ys"
  by (simp add: depth_subscribed_def)

lemma add_new_spec:
  "add_new u q = (u', toAdd) \<Longrightarrow> u' = u @ toAdd \<and> set u' = set u \<union> set q \<and> set toAdd = set q - set u \<and>
     distinct toAdd \<and> (distinct u \<longrightarrow> distinct u')"
proof (induction u q arbitrary: u' toAdd rule: add_new.induct)
  case (2 u s ss)
  show ?case
  proof (cases "s \<in> set u")
    case True
    then have "add_new u ss = (u', toAdd)" using 2(3) by simp
    from 2(1) [OF True this] True show ?thesis by (elim conjE) (intro conjI; fastforce)
  next
    case False
    then obtain t where t: "add_new (u @ [s]) ss = (u', t)" "toAdd = s # t"
      using 2(3) by (auto split: prod.splits)
    from 2(2) [OF False t(1)] False t(2) show ?thesis by (elim conjE) (intro conjI; fastforce)
  qed
qed simp

text \<open>What the exchange carries: a call that was answered with an error changed nothing there.\<close>

fun depth_effect :: "string \<Rightarrow> string set \<Rightarrow> sub_call \<times> string option \<Rightarrow> string set" where
  "depth_effect e u (SubscribeDepth e' s, None) = (if e' = e then insert s u else u)"
| "depth_effect e u (UnsubscribeDepth e' s, None) = (if e' = e then u - {s} else u)"
| "depth_effect e u _ = u"

definition depth_carried :: "string \<Rightarrow> (sub_call \<times> string option) list \<Rightarrow> string set" where
  "depth_carried e calls = foldl (depth_effect e) {} calls"

text \<open>The answer to the last depth call of a symbol, None also when there was none.\<close>

definition last_answer :: "string \<Rightarrow> string \<Rightarrow> (sub_call \<times> string option) list \<Rightarrow> string option" where
  "last_answer e smb calls = foldl (\<lambda>a (c, err). if c = SubscribeDepth e smb \<or> c = UnsubscribeDepth e smb then err else a) None calls"

lemma carried_as_asked:
  "depth_subscribed e (map fst calls) = Some subs \<Longrightarrow> last_answer e smb calls = None \<Longrightarrow>
     smb \<in> depth_carried e calls \<longleftrightarrow> smb \<in> set subs"
proof (induction calls arbitrary: subs rule: rev_induct)
  case Nil
  then show ?case by (simp add: depth_subscribed_def depth_carried_def)
next
  case (snoc ce calls)
  obtain c err where ce: "ce = (c, err)" by fastforce
  obtain u where u: "depth_subscribed e (map fst calls) = Some u" "depth_call e (Some u) c = Some subs"
    using snoc.prems(1) by (cases "depth_subscribed e (map fst calls)") (auto simp: depth_subscribed_def ce)
  have carried: "depth_carried e (calls @ [ce]) = depth_effect e (depth_carried e calls) (c, err)"
    by (simp add: depth_carried_def ce)
  show ?case
  proof (cases "c = SubscribeDepth e smb \<or> c = UnsubscribeDepth e smb")
    case True
    then have "err = None" using snoc.prems(2) by (simp add: last_answer_def ce)
    with True u(2) show ?thesis by (auto simp: carried split: if_splits)
  next
    case False
    then have "smb \<in> depth_carried e calls \<longleftrightarrow> smb \<in> set u"
      using snoc.prems(2) by (intro snoc.IH u(1)) (auto simp: last_answer_def ce)
    with False u(2) show ?thesis by (cases c; cases err) (auto simp: carried split: if_splits)
  qed
qed

definition sub_calls :: "ExchangeClient \<Rightarrow> string list \<Rightarrow> sub_call list" where
  "sub_calls cl toAdd = concat (map (\<lambda>s. SubscribeDepth (ec_Exchange cl) s #
     (if ec_TradeSubscriber cl then [SubscribeTrade (ec_Exchange cl) s] else [])) toAdd)"

definition unsub_calls :: "ExchangeClient \<Rightarrow> string list \<Rightarrow> sub_call list" where
  "unsub_calls cl toRemove = concat (map (\<lambda>s. UnsubscribeDepth (ec_Exchange cl) s #
     (if ec_TradeSubscriber cl then [UnsubscribeTrade (ec_Exchange cl) s] else [])) toRemove)"

lemma unsub_calls_simps [simp]:
  "unsub_calls cl [] = []"
  "unsub_calls cl (a # xs) = UnsubscribeDepth (ec_Exchange cl) a #
     (if ec_TradeSubscriber cl then [UnsubscribeTrade (ec_Exchange cl) a] else []) @ unsub_calls cl xs"
  by (simp_all add: unsub_calls_def)

lemma fold_sub_calls:
  "distinct toAdd \<Longrightarrow> set toAdd \<inter> set u = {} \<Longrightarrow> foldl (depth_call e) (Some u) (sub_calls cl toAdd) =
     Some (if e = ec_Exchange cl then u @ toAdd else u)"
  by (induction toAdd arbitrary: u) (auto simp: sub_calls_def)

lemma fold_unsub_calls:
  "distinct toRemove \<Longrightarrow> set toRemove \<subseteq> set u \<Longrightarrow> foldl (depth_call e) (Some u) (unsub_calls cl toRemove) =
     Some (if e = ec_Exchange cl then filter (\<lambda>s. s \<notin> set toRemove) u else u)"
proof (induction toRemove arbitrary: u)
  case (Cons a xs)
  then have "set xs \<subseteq> set (filter (\<lambda>x. x \<noteq> a) u)" "set xs \<subseteq> set u" "distinct xs" "a \<in> set u" by auto
  with Cons.IH [of u] Cons.IH [of "filter (\<lambda>x. x \<noteq> a) u"] show ?case by (auto simp: conj_commute)
qed simp

lemma call_frame [simp]:
  "sm_universe (call_subscriber ans c s) = sm_universe s"
  "map fst (sm_calls (call_subscriber ans c s)) = map fst (sm_calls s) @ [c]"
  by (simp_all add: call_subscriber_def)

lemma unsubscribe_frame:
  "sm_universe (unsubscribePairsForClient ans C cl toRemove s) = sm_universe s"
  "map fst (sm_calls (unsubscribePairsForClient ans C cl toRemove s)) = map fst (sm_calls s) @ unsub_calls cl toRemove"
  unfolding unsubscribePairsForClient_def
  by (induction toRemove arbitrary: s) (simp_all add: unsubscribe_pair_def unsub_calls_def Let_def)

lemma subscribe_frame:
  "sm_universe (subscribePairsForClient ans cl toAdd s) = sm_universe s"
  "map fst (sm_calls (subscribePairsForClient ans cl toAdd s)) = map fst (sm_calls s) @ sub_calls cl toAdd"
  unfolding subscribePairsForClient_def
  by (induction toAdd arbitrary: s) (simp_all add: subscribe_pair_def sub_calls_def Let_def)

text \<open>The order in which a map is ranged over.\<close>

definition range_order :: "(string list \<Rightarrow> string list) \<Rightarrow> bool" where
  "range_order perm \<longleftrightarrow> (\<forall>xs. set (perm xs) = set xs \<and> (distinct xs \<longrightarrow> distinct (perm xs)))"

lemma refresh_client_subscribed:
  assumes inv: "subscribed s" and perm: "range_order perm"
    and run: "refresh_client ans C u bl t perm cl answer s = (q, s')"
  shows "subscribed s' \<and> (\<forall>e. e \<noteq> ec_Exchange cl \<longrightarrow> universe_of s' e = universe_of s e) \<and>
    (case answer of None \<Rightarrow> q = [] \<and> universe_of s' (ec_Exchange cl) = universe_of s (ec_Exchange cl)
     | Some gainers \<Rightarrow> q = qualified_symbols u bl gainers \<and> set (universe_of s' (ec_Exchange cl)) = set q)"
proof (cases answer)
  case None
  with run inv show ?thesis by (simp add: refresh_client_def)
next
  case (Some gainers)
  let ?e = "ec_Exchange cl" and ?q = "qualified_symbols u bl gainers" and ?u = "universe_of s (ec_Exchange cl)"
  obtain v toAdd where v: "add_new ?u ?q = (v, toAdd)" by fastforce
  from add_new_spec [OF v] have spec: "v = ?u @ toAdd" "set v = set ?u \<union> set ?q" "set toAdd = set ?q - set ?u"
      "distinct toAdd" "distinct v"
    using inv by (auto simp: subscribed_def)
  let ?gone = "filter (\<lambda>x. x \<notin> set ?q) (perm v)"
  have gone: "distinct ?gone" "set ?gone = set v - set ?q" using perm spec(5) by (auto simp: range_order_def)
  have s': "q = ?q" "sm_universe s' = (sm_universe s)(?e \<mapsto> filter (\<lambda>x. x \<in> set ?q) v)"
      "map fst (sm_calls s') = map fst (sm_calls s) @ sub_calls cl toAdd @ unsub_calls cl ?gone"
    using run Some v
    by (auto simp: refresh_client_def updateUniverseForExchange_def universe_of_def unsubscribe_frame subscribe_frame Let_def
        split: option.splits)
  have u': "universe_of s' e = (if e = ?e then filter (\<lambda>x. x \<in> set ?q) v else universe_of s e)" for e
    by (simp add: universe_of_def s'(2))
  have "\<exists>w. depth_subscribed e (map fst (sm_calls s')) = Some w \<and> set w = set (universe_of s' e)" for e
  proof -
    obtain w where w: "depth_subscribed e (map fst (sm_calls s)) = Some w" "set w = set (universe_of s e)"
      using inv unfolding subscribed_def by blast
    show ?thesis
    proof (cases "e = ?e")
      case True
      have "foldl (depth_call e) (Some w) (sub_calls cl toAdd) = Some (w @ toAdd)"
        using fold_sub_calls [of toAdd w e cl] spec(3,4) w(2) True by auto
      moreover have "set ?gone \<subseteq> set (w @ toAdd)" unfolding gone(2) using spec(2,3) w(2) True by auto
      then have "foldl (depth_call e) (Some (w @ toAdd)) (unsub_calls cl ?gone) = Some (filter (\<lambda>x. x \<notin> set ?gone) (w @ toAdd))"
        using fold_unsub_calls [OF gone(1), of "w @ toAdd" e cl] True by (simp only: if_True refl)
      ultimately have "depth_subscribed e (map fst (sm_calls s')) = Some (filter (\<lambda>x. x \<notin> set ?gone) (w @ toAdd))"
        by (simp only: s'(3) depth_subscribed_append foldl_append w(1))
      moreover have "set (filter (\<lambda>x. x \<notin> set ?gone) (w @ toAdd)) = set (universe_of s' e)"
        unfolding u' gone(2) using spec(2,3) w(2) True by auto
      ultimately show ?thesis by blast
    next
      case False
      have "depth_call e (Some w) c = Some w" if "c \<in> set (sub_calls cl toAdd @ unsub_calls cl ?gone)" for c
        using that False by (auto simp: sub_calls_def unsub_calls_def split: if_splits)
      then have "foldl (depth_call e) (Some w) cs = Some w" if "set cs \<subseteq> set (sub_calls cl toAdd @ unsub_calls cl ?gone)" for cs
        using that by (induction cs) auto
      then show ?thesis using w False by (auto simp: s'(3) u' depth_subscribed_append)
    qed
  qed
  moreover have "distinct (universe_of s' e)" for e using inv spec(5) by (simp add: u' subscribed_def)
  ultimately show ?thesis using Some s'(1) spec(2) by (auto simp: subscribed_def u')
qed

lemma unsubscribe_client_subscribed:
  assumes inv: "subscribed s" and perm: "range_order perm"
  shows "subscribed (unsubscribe_client ans C perm cl s) \<and> universe_of (unsubscribe_client ans C perm cl s) (ec_Exchange cl) = [] \<and>
    (\<forall>e. e \<noteq> ec_Exchange cl \<longrightarrow> universe_of (unsubscribe_client ans C perm cl s) e = universe_of s e)"
proof (cases "sm_universe s (ec_Exchange cl)")
  case None
  with inv show ?thesis by (simp add: unsubscribe_client_def universe_of_def)
next
  case (Some u)
  let ?e = "ec_Exchange cl" and ?s = "unsubscribe_client ans C perm cl s"
  have s': "sm_universe ?s = (sm_universe s)(?e := None)" "map fst (sm_calls ?s) = map fst (sm_calls s) @ unsub_calls cl (perm u)"
    by (simp_all add: unsubscribe_client_def Some unsubscribe_frame Let_def)
  have u': "universe_of ?s e = (if e = ?e then [] else universe_of s e)" for e by (simp add: universe_of_def s'(1))
  have now: "universe_of s ?e = u" by (simp add: universe_of_def Some)
  have gone: "distinct (perm u)" "set (perm u) = set u" using perm inv now by (auto simp: range_order_def subscribed_def)
  have "\<exists>w. depth_subscribed e (map fst (sm_calls ?s)) = Some w \<and> set w = set (universe_of ?s e)" for e
  proof -
    obtain w where w: "depth_subscribed e (map fst (sm_calls s)) = Some w" "set w = set (universe_of s e)"
      using inv unfolding subscribed_def by blast
    show ?thesis
    proof (cases "e = ?e")
      case True
      then show ?thesis using fold_unsub_calls [OF gone(1), of w e cl] gone(2) w now by (simp add: s'(2) u' depth_subscribed_append)
    next
      case False
      have "foldl (depth_call e) (Some w) (unsub_calls cl xs) = Some w" for xs
        using False by (induction xs) (auto simp: unsub_calls_def)
      then show ?thesis using w False by (simp add: s'(2) u' depth_subscribed_append)
    qed
  qed
  moreover have "distinct (universe_of ?s e)" for e using inv by (simp add: u' subscribed_def)
  ultimately show ?thesis by (auto simp: subscribed_def u')
qed


subsection \<open>The manager over time\<close>

inductive universe_reach ::
    "'c depth_ops \<Rightarrow> UniverseConfig \<Rightarrow> string list \<Rightarrow> ExchangeClient list \<Rightarrow> 'c sub_manager \<Rightarrow> bool"
  for C u blacklist clients where
  universe_start: "universe_reach C u blacklist clients (NewSubscribeManager stores syncs)"
| universe_refresh: "universe_reach C u blacklist clients s \<Longrightarrow> range_order perm \<Longrightarrow>
    universe_reach C u blacklist clients (snd (RefreshUniverse ans C u blacklist t perm fetch clients s))"
| universe_stop: "universe_reach C u blacklist clients s \<Longrightarrow> range_order perm \<Longrightarrow>
    universe_reach C u blacklist clients (UnsubscribeAll ans C perm clients s)"

text \<open>What a universe may hold: the symbols of some answer, filtered and cut.\<close>

definition allowed_universe :: "UniverseConfig \<Rightarrow> string list \<Rightarrow> 'c sub_manager \<Rightarrow> bool" where
  "allowed_universe u bl s \<longleftrightarrow>
     (\<forall>e. universe_of s e = [] \<or> (\<exists>gainers. set (universe_of s e) = set (qualified_symbols u bl gainers)))"

lemma refresh_client_keeps:
  assumes "subscribed s \<and> allowed_universe u bl s" "range_order perm"
    and run: "refresh_client ans C u bl t perm cl answer s = (q, s')"
  shows "subscribed s' \<and> allowed_universe u bl s'"
proof -
  note r = refresh_client_subscribed [OF conjunct1 [OF assms(1)] assms(2) run]
  have "universe_of s' e = [] \<or> (\<exists>gainers. set (universe_of s' e) = set (qualified_symbols u bl gainers))" for e
  proof (cases "e = ec_Exchange cl")
    case True
    with r assms(1) show ?thesis by (cases answer) (auto simp: allowed_universe_def)
  next
    case False
    with r assms(1) show ?thesis by (simp add: allowed_universe_def)
  qed
  with r show ?thesis by (simp add: allowed_universe_def)
qed

lemma RefreshUniverse_keeps:
  assumes "subscribed s \<and> allowed_universe u bl s" "range_order perm"
  shows "subscribed (snd (RefreshUniverse ans C u bl t perm fetch clients s)) \<and>
    allowed_universe u bl (snd (RefreshUniverse ans C u bl t perm fetch clients s))"
proof -
  have "subscribed (snd (foldl step (q, s) cls)) \<and> allowed_universe u bl (snd (foldl step (q, s) cls))"
    if "subscribed s \<and> allowed_universe u bl s"
      and step: "step = (\<lambda>(allQualified, s) cl. case refresh_client ans C u bl t perm cl (fetch cl) s of
        (qualified, s') \<Rightarrow> (allQualified @ qualified, s'))" for cls q s step
    using that(1)
  proof (induction cls arbitrary: q s)
    case (Cons cl cls)
    obtain q' s' where r: "refresh_client ans C u bl t perm cl (fetch cl) s = (q', s')" by fastforce
    from Cons.IH [OF refresh_client_keeps [OF Cons.prems assms(2) r]] show ?case by (simp add: step r)
  qed simp
  with assms(1) show ?thesis by (simp add: RefreshUniverse_def)
qed

lemma UnsubscribeAll_keeps:
  assumes "subscribed s \<and> allowed_universe u bl s" "range_order perm"
  shows "subscribed (UnsubscribeAll ans C perm clients s) \<and> allowed_universe u bl (UnsubscribeAll ans C perm clients s) \<and>
    (\<forall>cl \<in> set clients. universe_of (UnsubscribeAll ans C perm clients s) (ec_Exchange cl) = [])"
proof -
  have "subscribed s' \<and> allowed_universe u bl s' \<and> (\<forall>cl \<in> set cls. universe_of s' (ec_Exchange cl) = []) \<and>
      (\<forall>e. universe_of s e = [] \<longrightarrow> universe_of s' e = [])"
    if "subscribed s \<and> allowed_universe u bl s" "s' = foldl (\<lambda>s cl. unsubscribe_client ans C perm cl s) s cls" for cls s s'
    using that
  proof (induction cls arbitrary: s s')
    case (Cons cl cls)
    let ?s = "unsubscribe_client ans C perm cl s"
    note r = unsubscribe_client_subscribed [OF conjunct1 [OF Cons.prems(1)] assms(2), of ans C cl]
    then have "allowed_universe u bl ?s"
      using Cons.prems(1) unfolding allowed_universe_def by (metis (no_types))
    have s': "s' = foldl (\<lambda>s cl. unsubscribe_client ans C perm cl s) ?s cls" using Cons.prems(2) by simp
    have empty: "universe_of ?s e = []" if "universe_of s e = [] \<or> e = ec_Exchange cl" for e
      using r that by (cases "e = ec_Exchange cl") auto
    from Cons.IH [OF conjI [OF conjunct1 [OF r] \<open>allowed_universe u bl ?s\<close>] s']
    have ih: "subscribed s'" "allowed_universe u bl s'" "\<forall>cl \<in> set cls. universe_of s' (ec_Exchange cl) = []"
      "\<forall>e. universe_of ?s e = [] \<longrightarrow> universe_of s' e = []" by blast+
    have "universe_of s' (ec_Exchange cl) = []" using ih(4) empty [of "ec_Exchange cl"] by simp
    then have all: "\<forall>cl \<in> set (cl # cls). universe_of s' (ec_Exchange cl) = []" using ih(3) by simp
    have "\<forall>e. universe_of s e = [] \<longrightarrow> universe_of s' e = []" using ih(4) empty by blast
    then show ?case by (rule conjI [OF ih(1) conjI [OF ih(2) conjI [OF all]]])
  qed simp
  from this [OF assms(1) refl, of clients] show ?thesis unfolding UnsubscribeAll_def by blast
qed

lemma universe_reach_inv: "universe_reach C u bl clients s \<Longrightarrow> subscribed s \<and> allowed_universe u bl s"
proof (induction rule: universe_reach.induct)
  case (universe_start stores syncs)
  then show ?case
    by (simp add: subscribed_def allowed_universe_def universe_of_def NewSubscribeManager_def depth_subscribed_def)
qed (use RefreshUniverse_keeps UnsubscribeAll_keeps in blast)+

lemma qualified_allowed:
  assumes "smb \<in> set (qualified_symbols u bl gainers)"
  shows "smb \<notin> set bl \<and> (\<exists>g \<in> set gainers. tg_Symbol g = smb \<and>
    \<not> (f_pos (uc_MinVolume24hUSDT u) \<and> f_lt (tg_Volume24hUSDT g) (uc_MinVolume24hUSDT u)) \<and>
    \<not> (f_pos (uc_MaxCoinPrice u) \<and> (f_lt (uc_MaxCoinPrice u) (tg_LastPrice g) \<or> f_le (tg_LastPrice g) f0)))"
proof -
  have "smb \<in> set (filterGainers u bl gainers)"
    using assms by (auto simp: qualified_symbols_def Let_def split: if_splits dest: in_set_takeD)
  then show ?thesis by (auto simp: filterGainers_def Let_def)
qed

lemma qualified_limit: "0 < uc_TopGainerLimit u \<Longrightarrow> int (length (qualified_symbols u bl gainers)) \<le> uc_TopGainerLimit u"
  by (simp add: qualified_symbols_def Let_def)

lemma universe_limit:
  assumes "subscribed s" "allowed_universe u bl s" "0 < uc_TopGainerLimit u"
  shows "int (length (universe_of s e)) \<le> uc_TopGainerLimit u"
proof (cases "universe_of s e")
  case Cons
  then obtain gainers where g: "set (universe_of s e) = set (qualified_symbols u bl gainers)"
    using assms(2) unfolding allowed_universe_def by (metis list.distinct(1))
  have "length (universe_of s e) = card (set (universe_of s e))"
    using assms(1) by (simp add: distinct_card subscribed_def)
  also have "\<dots> \<le> length (qualified_symbols u bl gainers)" unfolding g by (rule card_length)
  finally show ?thesis using qualified_limit [OF assms(3), of bl gainers] by linarith
qed (use assms(3) in simp)

text \<open>
  C12: the bot asks for the depths of its universe, and has them unless an exchange refuses. After
  any sequence of refreshes and stops, whatever the exchanges answered and in whatever order maps
  were ranged over, no symbol's depth was ever asked for twice without being given up in between,
  or given up without having been asked for; the depths asked for at an exchange are exactly the
  symbols of its universe, which holds each once, at most the configured number, and none of the
  blacklist. What the exchange carries agrees with the universe at every symbol whose last depth
  call was not answered with an error; after a refused call the symbol stays as it was at the
  exchange, while the universe has moved on (\<open>refused_stays\<close>).
\<close>

theorem universe_subscribed:
  assumes "universe_reach C u blacklist clients s"
  shows "(\<exists>subs. depth_subscribed e (map fst (sm_calls s)) = Some subs \<and> set subs = set (universe_of s e)) \<and>
    (\<forall>smb. last_answer e smb (sm_calls s) = None \<longrightarrow> (smb \<in> depth_carried e (sm_calls s) \<longleftrightarrow> smb \<in> set (universe_of s e))) \<and>
    distinct (universe_of s e) \<and> set (universe_of s e) \<inter> set blacklist = {} \<and>
    (0 < uc_TopGainerLimit u \<longrightarrow> int (length (universe_of s e)) \<le> uc_TopGainerLimit u)"
proof -
  have inv: "subscribed s" "allowed_universe u blacklist s" using universe_reach_inv [OF assms] by auto
  have "set (universe_of s e) \<inter> set blacklist = {}"
    using inv(2) qualified_allowed unfolding allowed_universe_def by (metis disjoint_iff empty_iff empty_set)
  moreover obtain subs where "depth_subscribed e (map fst (sm_calls s)) = Some subs" "set subs = set (universe_of s e)"
    using inv(1) unfolding subscribed_def by blast
  moreover have "distinct (universe_of s e)" using inv(1) unfolding subscribed_def by blast
  ultimately show ?thesis using universe_limit [OF inv] carried_as_asked by blast
qed

definition sample_gainer :: "string \<Rightarrow> TopGainerResult" where
  "sample_gainer smb = \<lparr>tg_Symbol = smb, tg_LastPrice = FFin 1, tg_Bid1 = FFin 1, tg_Ask1 = FFin 1, tg_Volume24hUSDT = FFin 1,
     tg_Gain24hPct = FFin 1, tg_SpreadPct = FFin 1, tg_Timestamp = 0\<rparr>"

definition sample_universe :: UniverseConfig where
  "sample_universe = \<lparr>uc_TopGainerLimit = 2, uc_MinVolume24hUSDT = f0, uc_MaxCoinPrice = FFin 10, uc_TickerInterval = minute\<rparr>"

definition sample_manager :: "((depth_key, depth_val) ttl_cache) sub_manager" where
  "sample_manager = NewSubscribeManager (\<lambda>_. cache_New ttl_ops 0) (\<lambda>_. sample_sync)"

definition sample_clients :: "ExchangeClient list" where
  "sample_clients = [\<lparr>ec_Exchange = ''toobit'', ec_TradeSubscriber = True\<rparr>]"

text \<open>The exchange refuses the depth of \<open>B_USDT\<close>.\<close>

definition sample_refuses :: sub_answers where
  "sample_refuses n c = (if c = SubscribeDepth ''toobit'' ''B_USDT'' then Some ''refused'' else None)"

definition sample_refresh :: "((depth_key, depth_val) ttl_cache) sub_manager \<Rightarrow> ((depth_key, depth_val) ttl_cache) sub_manager" where
  "sample_refresh s = snd (RefreshUniverse sample_refuses ttl_ops sample_universe [''X_USDT''] 0 id
     (\<lambda>_. Some (map sample_gainer [''X_USDT'', ''A_USDT'', ''B_USDT'', ''C_USDT''])) sample_clients s)"

lemmas sample_refresh_defs = sample_refresh_def RefreshUniverse_def refresh_client_def qualified_symbols_def filterGainers_def
  updateUniverseForExchange_def sample_universe_def sample_clients_def sample_manager_def NewSubscribeManager_def
  sample_gainer_def subscribePairsForClient_def subscribe_pair_def unsubscribePairsForClient_def call_subscriber_def
  sample_refuses_def Let_def

lemma sample_universe_refresh:
  "sm_universe (sample_refresh sample_manager) ''toobit'' = Some [''A_USDT'', ''B_USDT'']"
  "sm_calls (sample_refresh sample_manager) =
     [(SubscribeDepth ''toobit'' ''A_USDT'', None), (SubscribeTrade ''toobit'' ''A_USDT'', None),
      (SubscribeDepth ''toobit'' ''B_USDT'', Some ''refused''), (SubscribeTrade ''toobit'' ''B_USDT'', None)]"
  by (simp_all add: sample_refresh_defs)

text \<open>The refused symbol stays in the universe without a subscription, and a second refresh with
  the same gainers asks for nothing.\<close>

lemma refused_stays:
  "''B_USDT'' \<in> set (universe_of (sample_refresh sample_manager) ''toobit'')"
  "''B_USDT'' \<notin> depth_carried ''toobit'' (sm_calls (sample_refresh sample_manager))"
  "sm_calls (sample_refresh (sample_refresh sample_manager)) = sm_calls (sample_refresh sample_manager)"
  by (simp_all add: sample_universe_refresh universe_of_def depth_carried_def) (simp add: sample_refresh_defs)

theorem universe_subscribed_witness:
  "\<exists>s subs. universe_reach ttl_ops sample_universe [''X_USDT''] sample_clients s \<and>
     sm_universe s ''toobit'' = Some [''A_USDT'', ''B_USDT''] \<and> depth_subscribed ''toobit'' (map fst (sm_calls s)) = Some subs \<and>
     set subs = {''A_USDT'', ''B_USDT''} \<and> ''A_USDT'' \<in> depth_carried ''toobit'' (sm_calls s)"
proof -
  let ?s = "sample_refresh sample_manager"
  have reach: "universe_reach ttl_ops sample_universe [''X_USDT''] sample_clients ?s"
    unfolding sample_refresh_def sample_manager_def by (intro universe_refresh universe_start) (simp add: range_order_def)
  have u: "universe_of ?s ''toobit'' = [''A_USDT'', ''B_USDT'']" by (simp add: universe_of_def sample_universe_refresh)
  note claim = universe_subscribed [OF reach, of "''toobit''", unfolded u]
  then obtain subs where "depth_subscribed ''toobit'' (map fst (sm_calls ?s)) = Some subs" "set subs = {''A_USDT'', ''B_USDT''}"
    by auto
  moreover have "last_answer ''toobit'' ''A_USDT'' (sm_calls ?s) = None" by (simp add: sample_universe_refresh last_answer_def)
  then have "''A_USDT'' \<in> depth_carried ''toobit'' (sm_calls ?s)" using claim by simp
  ultimately show ?thesis using reach sample_universe_refresh(1) by blast
qed

end
