(* ===== verification/WsManager.thy ===== *)
theory WsManager
  imports Prelude
begin

text \<open>
  \<open>internal/infrastructure/ws/ws.go\<close>: the adapter that counts, for every topic, the flows that
  want it, and calls the exchange for the first and the last. The inner maps are Go maps, so they
  are referred to: a flow that failed deletes itself from the map it registered in, which may
  not be the topic's any more. What the exchange answers is an argument; its calls are recorded
  in \<open>mg_calls\<close> with the topic they were made for and what they answered.
\<close>

datatype 'j ws_call =
    WsSubscribePublic string 'j | WsUnsubscribePublic string 'j
  | WsSubscribeTicker string | WsUnsubscribeTicker string
  | WsSubscribeDepth string | WsUnsubscribeDepth string
  | WsSubscribeTrade string | WsUnsubscribeTrade string
  | WsSubscribePersonal | WsUnsubscribePersonal

text \<open>The exchange's adapter: whether there is one, and which optional interfaces it has.\<close>

record ws_adapter =
  wa_present :: bool
  wa_depth :: bool
  wa_trade :: bool

datatype 'j phys_log = PhysSub string "'j ws_call option" "string option" | PhysUnsub string "'j ws_call option" "string option"

record 'j ws_manager =
  mg_adapter :: ws_adapter
  mg_subscribers :: "string \<rightharpoonup> nat"
  mg_flows :: "nat \<Rightarrow> string set"
  mg_next :: nat
  mg_calls :: "'j phys_log list"

definition NewExchangeManagerAdapter :: "ws_adapter \<Rightarrow> 'j ws_manager" where
  "NewExchangeManagerAdapter a = \<lparr>mg_adapter = a, mg_subscribers = Map.empty, mg_flows = (\<lambda>r. {}), mg_next = 0, mg_calls = []\<rparr>"

text \<open>The first locked part: whether the flow is the first, the map it is in.\<close>

definition sub_register :: "string \<Rightarrow> string \<Rightarrow> 'j ws_manager \<Rightarrow> bool \<times> nat \<times> 'j ws_manager" where
  "sub_register flowID topic m =
     (let (r, m1) = (case mg_subscribers m topic of
        Some r \<Rightarrow> (r, m)
      | None \<Rightarrow> (mg_next m, m\<lparr>mg_subscribers := (mg_subscribers m)(topic \<mapsto> mg_next m),
          mg_flows := (mg_flows m)(mg_next m := {}), mg_next := Suc (mg_next m)\<rparr>))
      in (mg_flows m1 r = {}, r, m1\<lparr>mg_flows := (mg_flows m1)(r := insert flowID (mg_flows m1 r))\<rparr>))"

text \<open>The second, after the exchange refused.\<close>

definition sub_undo :: "nat \<Rightarrow> string \<Rightarrow> string \<Rightarrow> 'j ws_manager \<Rightarrow> 'j ws_manager" where
  "sub_undo r flowID topic m =
     (let m1 = m\<lparr>mg_flows := (mg_flows m)(r := mg_flows m r - {flowID})\<rparr>
      in if mg_flows m1 r = {} then m1\<lparr>mg_subscribers := (mg_subscribers m1)(topic := None)\<rparr> else m1)"

text \<open>\<open>subFn\<close> is the call it makes, or none when the adapter lacks the interface.\<close>

definition subscribeInternal ::
    "('j ws_call \<Rightarrow> string option) \<Rightarrow> string \<Rightarrow> string \<Rightarrow> 'j ws_call option \<Rightarrow> 'j ws_manager \<Rightarrow> string option \<times> 'j ws_manager" where
  "subscribeInternal answer flowID topic subFn m =
     (if topic = [] \<or> flowID = [] then (None, m)
      else case sub_register flowID topic m of (isFirstSubscriber, r, m1) \<Rightarrow>
        if \<not> isFirstSubscriber \<or> \<not> wa_present (mg_adapter m1) then (None, m1)
        else let err = Option.bind subFn answer; m2 = m1\<lparr>mg_calls := mg_calls m1 @ [PhysSub topic subFn err]\<rparr>
             in (err, if err \<noteq> None then sub_undo r flowID topic m2 else m2))"

definition unsub_remove :: "string \<Rightarrow> string \<Rightarrow> 'j ws_manager \<Rightarrow> bool \<times> 'j ws_manager" where
  "unsub_remove flowID topic m = (case mg_subscribers m topic of
     None \<Rightarrow> (False, m)
   | Some r \<Rightarrow>
       (let m1 = m\<lparr>mg_flows := (mg_flows m)(r := mg_flows m r - {flowID})\<rparr>
        in if mg_flows m1 r = {} then (True, m1\<lparr>mg_subscribers := (mg_subscribers m1)(topic := None)\<rparr>) else (False, m1)))"

definition unsubscribeInternal ::
    "('j ws_call \<Rightarrow> string option) \<Rightarrow> string \<Rightarrow> string \<Rightarrow> 'j ws_call option \<Rightarrow> 'j ws_manager \<Rightarrow> string option \<times> 'j ws_manager" where
  "unsubscribeInternal answer flowID topic unsubFn m =
     (if topic = [] \<or> flowID = [] then (None, m)
      else case unsub_remove flowID topic m of (isLastSubscriber, m1) \<Rightarrow>
        if \<not> isLastSubscriber \<or> \<not> wa_present (mg_adapter m1) then (None, m1)
        else let err = Option.bind unsubFn answer
             in (err, m1\<lparr>mg_calls := mg_calls m1 @ [PhysUnsub topic unsubFn err]\<rparr>))"

subsection \<open>The adapter's operations\<close>

definition mgr_Subscribe where
  "mgr_Subscribe answer flowID topic subMsg = subscribeInternal answer flowID topic (Some (WsSubscribePublic topic subMsg))"

definition mgr_Unsubscribe where
  "mgr_Unsubscribe answer flowID topic unsubMsg = unsubscribeInternal answer flowID topic (Some (WsUnsubscribePublic topic unsubMsg))"

definition mgr_SubscribeTicker where
  "mgr_SubscribeTicker answer flowID smb = subscribeInternal answer flowID smb (Some (WsSubscribeTicker smb))"

definition mgr_UnsubscribeTicker where
  "mgr_UnsubscribeTicker answer flowID smb = unsubscribeInternal answer flowID smb (Some (WsUnsubscribeTicker smb))"

definition mgr_SubscribeDepth where
  "mgr_SubscribeDepth answer flowID smb m =
     subscribeInternal answer flowID smb (if wa_depth (mg_adapter m) then Some (WsSubscribeDepth smb) else None) m"

definition mgr_UnsubscribeDepth where
  "mgr_UnsubscribeDepth answer flowID smb m =
     unsubscribeInternal answer flowID smb (if wa_depth (mg_adapter m) then Some (WsUnsubscribeDepth smb) else None) m"

definition mgr_SubscribeTrade where
  "mgr_SubscribeTrade answer flowID smb m =
     subscribeInternal answer flowID (''trade:'' @ smb) (if wa_trade (mg_adapter m) then Some (WsSubscribeTrade smb) else None) m"

definition mgr_UnsubscribeTrade where
  "mgr_UnsubscribeTrade answer flowID smb m =
     unsubscribeInternal answer flowID (''trade:'' @ smb) (if wa_trade (mg_adapter m) then Some (WsUnsubscribeTrade smb) else None) m"

definition mgr_SubscribePersonal where
  "mgr_SubscribePersonal answer flowID = subscribeInternal answer flowID ''personal'' (Some WsSubscribePersonal)"

definition mgr_UnsubscribePersonal where
  "mgr_UnsubscribePersonal answer flowID = unsubscribeInternal answer flowID ''personal'' (Some WsUnsubscribePersonal)"

definition mgr_SubscribePublic where
  "mgr_SubscribePublic answer topic subMsg = subscribeInternal answer ''default'' topic (Some (WsSubscribePublic topic subMsg))"

definition mgr_UnsubscribePublic where
  "mgr_UnsubscribePublic answer topic unsubMsg = unsubscribeInternal answer ''default'' topic (Some (WsUnsubscribePublic topic unsubMsg))"

subsection \<open>The reference\<close>

text \<open>The flows that hold a topic.\<close>

definition holders :: "'j ws_manager \<Rightarrow> string \<Rightarrow> string set" where
  "holders m topic = (case mg_subscribers m topic of None \<Rightarrow> {} | Some r \<Rightarrow> mg_flows m r)"

text \<open>What the exchange was asked for: whether a topic's subscription was accepted and not given up
  since; None when it was asked for twice, or given up without having been accepted.\<close>

fun log_asked :: "string \<Rightarrow> 'j phys_log list \<Rightarrow> bool \<Rightarrow> bool option" where
  "log_asked topic [] asked = Some asked"
| "log_asked topic (PhysSub t c err # l) asked =
     (if t = topic then (if asked then None else log_asked topic l (err = None)) else log_asked topic l asked)"
| "log_asked topic (PhysUnsub t c err # l) asked =
     (if t = topic then (if asked then log_asked topic l False else None) else log_asked topic l asked)"

text \<open>What the exchange carries: a call answered with an error changed nothing there.\<close>

fun carried :: "string \<Rightarrow> 'j phys_log list \<Rightarrow> bool \<Rightarrow> bool" where
  "carried topic [] live = live"
| "carried topic (PhysSub t c err # l) live = carried topic l (live \<or> t = topic \<and> err = None)"
| "carried topic (PhysUnsub t c err # l) live = carried topic l (live \<and> \<not> (t = topic \<and> err = None))"

text \<open>Whether the last unsubscription of a topic was refused.\<close>

fun unsub_refused :: "string \<Rightarrow> 'j phys_log list \<Rightarrow> bool \<Rightarrow> bool" where
  "unsub_refused topic [] b = b"
| "unsub_refused topic (PhysSub t c err # l) b = unsub_refused topic l b"
| "unsub_refused topic (PhysUnsub t c err # l) b = unsub_refused topic l (if t = topic then err \<noteq> None else b)"

text \<open>Calls one after the other, each with what the exchange answers to it.\<close>

inductive mgr_reach :: "ws_adapter \<Rightarrow> 'j ws_manager \<Rightarrow> bool" for a where
  mgr_new: "mgr_reach a (NewExchangeManagerAdapter a)"
| mgr_subscribe: "mgr_reach a m \<Longrightarrow> mgr_reach a (snd (subscribeInternal answer flowID topic subFn m))"
| mgr_unsubscribe: "mgr_reach a m \<Longrightarrow> mgr_reach a (snd (unsubscribeInternal answer flowID topic unsubFn m))"

definition mgr_inv :: "'j ws_manager \<Rightarrow> bool" where
  "mgr_inv m \<longleftrightarrow> (\<forall>t r. mg_subscribers m t = Some r \<longrightarrow> r < mg_next m \<and> mg_flows m r \<noteq> {}) \<and>
     (\<forall>t u r. mg_subscribers m t = Some r \<longrightarrow> mg_subscribers m u = Some r \<longrightarrow> t = u)"

lemma holders_iff: "mgr_inv m \<Longrightarrow> holders m topic = {} \<longleftrightarrow> mg_subscribers m topic = None"
  by (auto simp: holders_def mgr_inv_def split: option.splits)

lemma calls_only [simp]: "mgr_inv (m\<lparr>mg_calls := l\<rparr>) = mgr_inv m" "holders (m\<lparr>mg_calls := l\<rparr>) = holders m"
  by (simp_all add: mgr_inv_def holders_def fun_eq_iff split: option.splits)

lemma register_spec:
  assumes inv: "mgr_inv m" and reg: "sub_register flowID topic m = (first, r, m1)"
  shows "mgr_inv m1 \<and> first = (holders m topic = {}) \<and> holders m1 = (holders m)(topic := insert flowID (holders m topic)) \<and>
    mg_subscribers m1 topic = Some r \<and> mg_calls m1 = mg_calls m \<and> mg_adapter m1 = mg_adapter m"
proof (cases "mg_subscribers m topic")
  case (Some s)
  then have "r = s" "m1 = m\<lparr>mg_flows := (mg_flows m)(s := insert flowID (mg_flows m s))\<rparr>" "first = (mg_flows m s = {})"
    using reg by (auto simp: sub_register_def)
  with Some inv show ?thesis by (auto simp: holders_def mgr_inv_def fun_eq_iff split: option.splits)
next
  case None
  then have m1: "r = mg_next m" "first" "m1 = m\<lparr>mg_subscribers := (mg_subscribers m)(topic \<mapsto> mg_next m),
      mg_flows := (mg_flows m)(mg_next m := {flowID}), mg_next := Suc (mg_next m)\<rparr>"
    using reg by (auto simp: sub_register_def)
  have "mg_subscribers m u \<noteq> Some (mg_next m)" for u using inv by (auto simp: mgr_inv_def)
  with None inv show ?thesis
    by (auto simp: m1 holders_def mgr_inv_def fun_eq_iff less_Suc_eq split: option.splits)
qed

lemma remove_spec:
  assumes inv: "mgr_inv m" and "mg_subscribers m topic = Some r"
    and m1: "m1 = m\<lparr>mg_flows := (mg_flows m)(r := mg_flows m r - {flowID})\<rparr>"
    and m': "m' = (if mg_flows m1 r = {} then m1\<lparr>mg_subscribers := (mg_subscribers m1)(topic := None)\<rparr> else m1)"
  shows "mgr_inv m' \<and> holders m' = (holders m)(topic := holders m topic - {flowID}) \<and>
    mg_calls m' = mg_calls m \<and> mg_adapter m' = mg_adapter m"
  using assms(1,2) unfolding m' m1 by (auto simp: holders_def mgr_inv_def fun_eq_iff split: option.splits)

lemma log_append:
  "log_asked t (l @ k) b = Option.bind (log_asked t l b) (log_asked t k)"
  "carried t (l @ k) c = carried t k (carried t l c)"
  "unsub_refused t (l @ k) d = unsub_refused t k (unsub_refused t l d)"
proof -
  show "log_asked t (l @ k) b = Option.bind (log_asked t l b) (log_asked t k)"
    by (induction t l b rule: log_asked.induct) auto
  show "carried t (l @ k) c = carried t k (carried t l c)"
    by (induction t l c rule: carried.induct) auto
  show "unsub_refused t (l @ k) d = unsub_refused t k (unsub_refused t l d)"
    by (induction t l d rule: unsub_refused.induct) auto
qed

text \<open>What the log of a manager says of its counts.\<close>

definition log_agrees :: "'j ws_manager \<Rightarrow> bool" where
  "log_agrees m \<longleftrightarrow> (\<forall>t. log_asked t (mg_calls m) False = Some (holders m t \<noteq> {}) \<and>
     carried t (mg_calls m) False = (holders m t \<noteq> {} \<or> unsub_refused t (mg_calls m) False))"

lemma subscribe_spec:
  assumes inv: "mgr_inv m" and run: "subscribeInternal answer flowID topic subFn m = (err, m')" and "topic \<noteq> []" "flowID \<noteq> []"
  shows "mgr_inv m' \<and> mg_adapter m' = mg_adapter m \<and>
    holders m' = (if err = None then (holders m)(topic := insert flowID (holders m topic)) else holders m) \<and>
    mg_calls m' = mg_calls m @ (if holders m topic = {} \<and> wa_present (mg_adapter m) then [PhysSub topic subFn err] else [])
    \<and> (err \<noteq> None \<longrightarrow> holders m topic = {} \<and> wa_present (mg_adapter m))"
proof -
  obtain first r m1 where reg: "sub_register flowID topic m = (first, r, m1)" by (metis prod_cases3)
  note s = register_spec [OF inv reg]
  show ?thesis
  proof (cases "\<not> first \<or> \<not> wa_present (mg_adapter m1) \<or> Option.bind subFn answer = None")
    case True
    with s run assms(3,4) show ?thesis by (auto simp: subscribeInternal_def reg Let_def split: if_splits)
  next
    case False
    let ?m2 = "m1\<lparr>mg_calls := mg_calls m1 @ [PhysSub topic subFn (Option.bind subFn answer)]\<rparr>"
    have two: "mgr_inv ?m2" "holders ?m2 = holders m1" "mg_subscribers ?m2 topic = Some r"
      using s by simp_all
    have m': "m' = sub_undo r flowID topic ?m2" "err = Option.bind subFn answer"
      using run False assms(3,4) by (auto simp: subscribeInternal_def reg Let_def)
    have "mgr_inv m' \<and> holders m' = (holders ?m2)(topic := holders ?m2 topic - {flowID}) \<and>
        mg_calls m' = mg_calls ?m2 \<and> mg_adapter m' = mg_adapter ?m2"
      by (rule remove_spec [OF two(1,3) refl]) (simp add: m' sub_undo_def Let_def)
    with s False m'(2) two show ?thesis by (auto simp: fun_eq_iff)
  qed
qed

lemma unsubscribe_spec:
  assumes inv: "mgr_inv m" and run: "unsubscribeInternal answer flowID topic unsubFn m = (err, m')" and "topic \<noteq> []" "flowID \<noteq> []"
  shows "mgr_inv m' \<and> mg_adapter m' = mg_adapter m \<and> holders m' = (holders m)(topic := holders m topic - {flowID}) \<and>
    mg_calls m' = mg_calls m @ (if holders m topic \<noteq> {} \<and> holders m topic \<subseteq> {flowID} \<and> wa_present (mg_adapter m)
      then [PhysUnsub topic unsubFn err] else [])"
proof (cases "mg_subscribers m topic")
  case None
  then have "holders m topic = {}" by (simp add: holders_def)
  with None assms show ?thesis by (auto simp: unsubscribeInternal_def unsub_remove_def fun_eq_iff)
next
  case (Some r)
  define m1 where "m1 = m\<lparr>mg_flows := (mg_flows m)(r := mg_flows m r - {flowID})\<rparr>"
  define m2 where "m2 = (if mg_flows m1 r = {} then m1\<lparr>mg_subscribers := (mg_subscribers m1)(topic := None)\<rparr> else m1)"
  note s = remove_spec [OF inv Some m1_def m2_def]
  have flows: "mg_flows m r = holders m topic" "holders m topic \<noteq> {}" using Some inv by (auto simp: holders_def mgr_inv_def)
  have rem: "unsub_remove flowID topic m = (mg_flows m1 r = {}, m2)"
    using Some by (simp add: unsub_remove_def m1_def m2_def Let_def)
  have last: "mg_flows m1 r = {} \<longleftrightarrow> holders m topic \<subseteq> {flowID}" using flows by (auto simp: m1_def)
  with s run assms(3,4) flows(2) show ?thesis by (auto simp: unsubscribeInternal_def rem last Let_def split: if_splits)
qed

lemma mgr_reach_live:
  assumes "mgr_reach a m"
  shows "mgr_inv m \<and> mg_adapter m = a \<and> (wa_present a \<longrightarrow> log_agrees m)"
  using assms
proof (induction rule: mgr_reach.induct)
  case mgr_new
  show ?case by (simp add: NewExchangeManagerAdapter_def mgr_inv_def holders_def log_agrees_def)
next
  case (mgr_subscribe m answer flowID topic subFn)
  obtain err m' where run: "subscribeInternal answer flowID topic subFn m = (err, m')" by fastforce
  show ?case
  proof (cases "topic = [] \<or> flowID = []")
    case True
    then show ?thesis using mgr_subscribe.IH run by (auto simp: subscribeInternal_def)
  next
    case False
    then have "topic \<noteq> []" "flowID \<noteq> []" by auto
    note s = subscribe_spec [OF conjunct1 [OF mgr_subscribe.IH] run this]
    then show ?thesis using mgr_subscribe.IH by (auto simp: run log_append log_agrees_def split: if_splits)
  qed
next
  case (mgr_unsubscribe m answer flowID topic unsubFn)
  obtain err m' where run: "unsubscribeInternal answer flowID topic unsubFn m = (err, m')" by fastforce
  show ?case
  proof (cases "topic = [] \<or> flowID = []")
    case True
    then show ?thesis using mgr_unsubscribe.IH run by (auto simp: unsubscribeInternal_def)
  next
    case False
    then have "topic \<noteq> []" "flowID \<noteq> []" by auto
    note s = unsubscribe_spec [OF conjunct1 [OF mgr_unsubscribe.IH] run this]
    then show ?thesis using mgr_unsubscribe.IH by (auto simp: run log_append log_agrees_def split: if_splits)
  qed
qed


definition sample_manager :: "string ws_manager" where
  "sample_manager = snd (subscribeInternal (\<lambda>c. None) ''f'' ''BTC'' (Some (WsSubscribeTicker ''BTC''))
     (NewExchangeManagerAdapter \<lparr>wa_present = True, wa_depth = True, wa_trade = True\<rparr>))"


text \<open>An unsubscription that is refused leaves the topic at the exchange with no flow that holds it,
  and no later call of the manager unsubscribes it.\<close>

lemma refused_unsubscription:
  assumes "mgr_reach a m" "wa_present a" "topic \<noteq> []" "flowID \<noteq> []" "holders m topic = {flowID}"
    and "unsubscribeInternal answer flowID topic unsubFn m = (Some e, m')"
  shows "holders m' topic = {}" "carried topic (mg_calls m') False"
    "mg_calls (snd (unsubscribeInternal answer2 g topic unsubFn m')) = mg_calls m'"
proof -
  have inv: "mgr_inv m" "mg_adapter m = a" "carried topic (mg_calls m) False"
    using mgr_reach_live [OF assms(1)] assms(2,5) by (auto simp: log_agrees_def)
  note s = unsubscribe_spec [OF inv(1) assms(6,3,4)]
  then show held: "holders m' topic = {}" using assms(5) by simp
  show "carried topic (mg_calls m') False" using s assms(2,5) inv(2,3) by (simp add: log_append)
  obtain err m'' where run: "unsubscribeInternal answer2 g topic unsubFn m' = (err, m'')" by fastforce
  show "mg_calls (snd (unsubscribeInternal answer2 g topic unsubFn m')) = mg_calls m'"
  proof (cases "g = []")
    case True
    then show ?thesis by (simp add: unsubscribeInternal_def)
  next
    case False
    from unsubscribe_spec [OF _ run assms(3) False] s held run show ?thesis by simp
  qed
qed

subsection \<open>Where a flow is told it is subscribed and is not\<close>

text \<open>
  C36: the depth of a symbol is not subscribed while its ticker is. Both subscriptions are
  counted under the bare symbol, so once any flow holds the ticker, \<open>SubscribeDepth\<close> answers
  success and makes no call to the exchange, whatever the exchange would have answered; and when
  the flow leaves the depth again, that unsubscribes the ticker's flow if it is the same one.
\<close>

theorem depth_after_ticker:
  assumes "mgr_reach a m" "mgr_SubscribeTicker answer f smb m = (None, m1)" "smb \<noteq> []" "f \<noteq> []" "g \<noteq> []"
  shows "\<exists>m2. mgr_SubscribeDepth answer2 g smb m1 = (None, m2) \<and> mg_calls m2 = mg_calls m1 \<and>
    (f = g \<longrightarrow> holders (snd (mgr_UnsubscribeDepth answer3 g smb m2)) smb = holders m smb - {f})"
proof -
  have inv: "mgr_inv m" using mgr_reach_live [OF assms(1)] by simp
  note one = subscribe_spec [OF inv assms(2) [unfolded mgr_SubscribeTicker_def] assms(3,4)]
  obtain err m2 where two: "mgr_SubscribeDepth answer2 g smb m1 = (err, m2)" by fastforce
  have inv1: "mgr_inv m1" using one by simp
  note two' = subscribe_spec [OF inv1 two [unfolded mgr_SubscribeDepth_def] assms(3,5)]
  have held: "holders m1 smb = insert f (holders m smb)" using one by simp
  have ok: "err = None" "mg_calls m2 = mg_calls m1" "mgr_inv m2" "holders m2 smb = insert g (insert f (holders m smb))"
    using two' held by auto
  obtain err3 m3 where three: "mgr_UnsubscribeDepth answer3 g smb m2 = (err3, m3)" by fastforce
  note three' = unsubscribe_spec [OF ok(3) three [unfolded mgr_UnsubscribeDepth_def] assms(3,5)]
  have "holders m3 smb = holders m2 smb - {g}" using three' by simp
  with ok two three show ?thesis by auto
qed

theorem depth_after_ticker_witness:
  "\<exists>m2. mgr_SubscribeDepth (\<lambda>c. Some ''refused'') ''g'' ''BTC'' sample_manager = (None, m2) \<and> mg_calls m2 = mg_calls sample_manager"
proof -
  let ?a = "\<lparr>wa_present = True, wa_depth = True, wa_trade = True\<rparr>"
  let ?r = "mgr_SubscribeTicker (\<lambda>c. None) ''f'' ''BTC'' (NewExchangeManagerAdapter ?a)"
  have snd: "snd ?r = sample_manager" by (simp add: sample_manager_def mgr_SubscribeTicker_def)
  have "fst ?r = None"
    by (simp add: mgr_SubscribeTicker_def subscribeInternal_def sub_register_def NewExchangeManagerAdapter_def Let_def)
  with snd have run: "?r = (None, sample_manager)" by (metis prod.collapse)
  show ?thesis using depth_after_ticker [OF mgr_new run, of "''g''" "\<lambda>c. Some ''refused''"] by auto
qed

text \<open>
  With the call to the exchange in flight, a second flow that subscribes is answered success at
  once; when the exchange then refuses, the second flow stays registered although the exchange
  was never subscribed, and no later subscription calls it again.
\<close>

lemma second_flow_unsubscribed:
  assumes inv: "mgr_inv m" and "holders m topic = {}" "sub_register f topic m = (first, r, m1)"
    and "subscribeInternal answer g topic subFn m1 = (err, m2)" "f \<noteq> g" "topic \<noteq> []" "g \<noteq> []"
  shows "err = None \<and> mg_calls m2 = mg_calls m \<and> holders (sub_undo r f topic m2) topic = {g}"
proof -
  note s = register_spec [OF inv assms(3)]
  have inv1: "mgr_inv m1" using s by simp
  note t = subscribe_spec [OF inv1 assms(4,6,7)]
  have held: "holders m1 topic = {f}" using s assms(2) by simp
  have two: "err = None" "mgr_inv m2" "holders m2 topic = {f, g}" "mg_calls m2 = mg_calls m" using t held s by auto
  have "mg_subscribers m2 topic = mg_subscribers m1 topic"
    using assms(4,6,7) s held two(1)
    by (auto simp: subscribeInternal_def sub_register_def sub_undo_def Let_def holders_def split: if_splits option.splits)
  then have ref: "mg_subscribers m2 topic = Some r" using s by simp
  have "holders (sub_undo r f topic m2) = (holders m2)(topic := holders m2 topic - {f})"
    using remove_spec [OF two(2) ref refl refl] by (simp add: sub_undo_def Let_def)
  with two assms(5) show ?thesis by auto
qed

end
