(* ===== verification/RttStats.thy ===== *)
theory RttStats
  imports Prelude
begin

text \<open>
  The minimum and the median of a window of round-trip times, which \<open>updateRTTStats\<close>
  (\<open>pkg/ws/client.go\<close>) and \<open>updateHTTPSamples\<close> (\<open>internal/infrastructure/timesync/sync.go\<close>)
  both compute, in milliseconds kept in 64 bits. \<open>slices.Sort\<close> on integers is \<open>sort\<close>.
\<close>

definition rtt_min :: "int \<Rightarrow> int list \<Rightarrow> int" where
  "rtt_min rttMs samples = foldl (\<lambda>m s. if s < m then s else m) rttMs samples"

definition rtt_median :: "int list \<Rightarrow> int" where
  "rtt_median samples =
     (let sorted = sort samples; n = length sorted in
      if n mod 2 = 1 then sorted ! (n div 2)
      else if 0 < n then go_quot (i64 (sorted ! (n div 2 - 1) + sorted ! (n div 2))) 2
      else 0)"

lemma rtt_min_le: "rtt_min x xs \<le> x \<and> (\<forall>s \<in> set xs. rtt_min x xs \<le> s)"
  unfolding rtt_min_def
proof (induction xs arbitrary: x)
  case (Cons s xs)
  have "foldl (\<lambda>m s. if s < m then s else m) (if s < x then s else x) xs \<le> (if s < x then s else x)"
    using Cons.IH by blast
  also have "\<dots> \<le> s" "\<dots> \<le> x" by simp_all
  ultimately show ?case using Cons.IH [of "if s < x then s else x"] by (auto split: if_splits)
qed simp

lemma rtt_min_in: "rtt_min x xs \<in> insert x (set xs)"
  unfolding rtt_min_def
proof (induction xs arbitrary: x)
  case (Cons s xs)
  from Cons.IH [of "if s < x then s else x"] show ?case by (auto split: if_splits)
qed simp

lemma rtt_min_Min: "x \<in> set xs \<Longrightarrow> rtt_min x xs = Min (set xs)"
  using rtt_min_le [of x xs] rtt_min_in [of x xs] by (intro Min_eqI [symmetric]) auto

lemma half_between: "(a::int) \<le> b \<Longrightarrow> a \<le> (a + b) div 2 \<and> (a + b) div 2 \<le> b"
  by linarith

lemma go_quot_two: "0 \<le> x \<Longrightarrow> go_quot x 2 = x div 2"
  by (cases "x = 0") (auto simp: go_quot_def)

text \<open>At least half of the samples are no longer than the median, and half no shorter.\<close>

lemma sorted_middle:
  assumes "\<forall>s \<in> set samples. 0 \<le> s \<and> s < 2 ^ 62" "samples \<noteq> []"
  defines "n \<equiv> length samples" and "xs \<equiv> sort samples"
  shows "xs ! ((n - 1) div 2) \<le> rtt_median samples \<and> rtt_median samples \<le> xs ! (n div 2)"
proof (cases "odd n")
  case True
  then have "(n - 1) div 2 = n div 2" by (auto elim: oddE)
  with True show ?thesis by (simp add: rtt_median_def Let_def xs_def n_def odd_iff_mod_2_eq_one)
next
  case False
  let ?a = "xs ! (n div 2 - 1)" and ?b = "xs ! (n div 2)"
  have n: "0 < n" "n div 2 < n" "(n - 1) div 2 = n div 2 - 1"
    using assms(2) False by (auto simp: n_def elim!: evenE)
  have len: "length xs = n" by (simp add: xs_def n_def)
  have le: "?a \<le> ?b" using n len by (intro sorted_nth_mono) (simp_all add: xs_def)
  have "?a \<in> set samples" "?b \<in> set samples" using n len nth_mem [of _ xs] by (auto simp: xs_def)
  with assms(1) have "0 \<le> ?a" "?a < 2 ^ 62" "0 \<le> ?b" "?b < 2 ^ 62" by auto
  then have "rtt_median samples = (?a + ?b) div 2"
    using False n by (simp add: rtt_median_def Let_def xs_def n_def i64_id go_quot_two odd_iff_mod_2_eq_one)
  then show ?thesis unfolding n(3) using half_between [OF le] by simp
qed

lemma rtt_median_within:
  assumes "\<forall>s \<in> set samples. 0 \<le> s \<and> s < 2 ^ 62" "samples \<noteq> []"
  shows "Min (set samples) \<le> rtt_median samples \<and> rtt_median samples \<le> Max (set samples)"
proof -
  have n: "(length samples - 1) div 2 < length samples" "length samples div 2 < length samples"
    using assms(2) by (cases samples; simp)+
  then have "sort samples ! ((length samples - 1) div 2) \<in> set samples" "sort samples ! (length samples div 2) \<in> set samples"
    by (metis length_sort nth_mem set_sort)+
  then have "Min (set samples) \<le> sort samples ! ((length samples - 1) div 2)" "sort samples ! (length samples div 2) \<le> Max (set samples)"
    by simp_all
  with sorted_middle [OF assms] show ?thesis by linarith
qed

end
