(* ===== verification/WsDispatcher.thy ===== *)
theory WsDispatcher
  imports Prelude
begin

text \<open>
  \<open>pkg/ws/dispatcher.go\<close>: the correlation of websocket responses with the requests that wait
  for them. A Go channel of capacity one is its buffer and whether it was closed; sending on a
  closed channel panics, sending on a full one blocks. \<open>Dispatch\<close> takes the channel out of the
  map under the lock and sends after releasing it: these are two steps, and the sends still to
  come are part of the state.
\<close>

datatype disp_error = ErrDuplicateRequestID | ErrDispatcherClosed

record 'm chan =
  ch_buf :: "'m list"
  ch_closed :: bool

record 'm dispatcher =
  ds_pending :: "string \<rightharpoonup> nat"
  ds_closed :: bool
  ds_chans :: "nat \<rightharpoonup> 'm chan"
  ds_next :: nat
  ds_sending :: "(nat \<times> 'm) list"

datatype send_outcome = Sends | Blocks | Panics

definition chan_send :: "'m chan \<Rightarrow> send_outcome" where
  "chan_send c = (if ch_closed c then Panics else if ch_buf c \<noteq> [] then Blocks else Sends)"

definition NewRequestDispatcher :: "'m dispatcher" where
  "NewRequestDispatcher =
     \<lparr>ds_pending = Map.empty, ds_closed = False, ds_chans = Map.empty, ds_next = 0, ds_sending = []\<rparr>"

text \<open>The channel's number, which is fresh.\<close>

definition Register :: "string \<Rightarrow> 'm dispatcher \<Rightarrow> (disp_error + nat) \<times> 'm dispatcher" where
  "Register reqID d =
     (if ds_closed d then (Inl ErrDispatcherClosed, d)
      else if ds_pending d reqID \<noteq> None then (Inl ErrDuplicateRequestID, d)
      else (Inr (ds_next d), d\<lparr>ds_pending := (ds_pending d)(reqID \<mapsto> ds_next d),
              ds_chans := (ds_chans d)(ds_next d \<mapsto> \<lparr>ch_buf = [], ch_closed = False\<rparr>), ds_next := Suc (ds_next d)\<rparr>))"

text \<open>The function that \<open>Register\<close> returns deletes by identifier.\<close>

definition disp_cancel :: "string \<Rightarrow> 'm dispatcher \<Rightarrow> 'm dispatcher" where
  "disp_cancel reqID d = d\<lparr>ds_pending := (ds_pending d)(reqID := None)\<rparr>"

definition dispatch_take :: "string \<Rightarrow> 'm \<Rightarrow> 'm dispatcher \<Rightarrow> bool \<times> 'm dispatcher" where
  "dispatch_take reqID resp d = (case ds_pending d reqID of
     None \<Rightarrow> (False, d)
   | Some n \<Rightarrow> (True, d\<lparr>ds_pending := (ds_pending d)(reqID := None), ds_sending := ds_sending d @ [(n, resp)]\<rparr>))"

definition put_buf :: "nat \<Rightarrow> 'm \<Rightarrow> 'm dispatcher \<Rightarrow> 'm dispatcher" where
  "put_buf n v d = (case ds_chans d n of
     None \<Rightarrow> d | Some c \<Rightarrow> d\<lparr>ds_chans := (ds_chans d)(n \<mapsto> c\<lparr>ch_buf := ch_buf c @ [v]\<rparr>)\<rparr>)"

text \<open>The i-th pending send completes.\<close>

definition dispatch_send :: "nat \<Rightarrow> 'm dispatcher \<Rightarrow> 'm dispatcher" where
  "dispatch_send i d = (case ds_sending d ! i of (n, v) \<Rightarrow>
     (put_buf n v d)\<lparr>ds_sending := take i (ds_sending d) @ drop (Suc i) (ds_sending d)\<rparr>)"

definition Dispatch :: "string \<Rightarrow> 'm \<Rightarrow> 'm dispatcher \<Rightarrow> bool \<times> 'm dispatcher" where
  "Dispatch reqID resp d = (case dispatch_take reqID resp d of
     (found, d1) \<Rightarrow> (found, if found then dispatch_send (length (ds_sending d)) d1 else d1))"

definition close_pending :: "'m dispatcher \<Rightarrow> 'm dispatcher" where
  "close_pending d = d\<lparr>ds_pending := Map.empty, ds_chans := (\<lambda>n. case ds_chans d n of
     None \<Rightarrow> None
   | Some c \<Rightarrow> Some (if n \<in> ran (ds_pending d) then c\<lparr>ch_closed := True\<rparr> else c))\<rparr>"

definition AbortAll :: "'m dispatcher \<Rightarrow> 'm dispatcher" where
  "AbortAll d = close_pending d"

definition disp_Close :: "'m dispatcher \<Rightarrow> 'm dispatcher" where
  "disp_Close d = close_pending (d\<lparr>ds_closed := True\<rparr>)"

text \<open>A waiter's receive: the message, the zero value of a closed channel, or waiting on.\<close>

datatype 'm received = Received 'm | ChannelClosed | Waiting

definition chan_receive :: "nat \<Rightarrow> 'm dispatcher \<Rightarrow> 'm received \<times> 'm dispatcher" where
  "chan_receive n d = (case ds_chans d n of
     None \<Rightarrow> (Waiting, d)
   | Some c \<Rightarrow> (case ch_buf c of
       v # vs \<Rightarrow> (Received v, d\<lparr>ds_chans := (ds_chans d)(n \<mapsto> c\<lparr>ch_buf := vs\<rparr>)\<rparr>)
     | [] \<Rightarrow> (if ch_closed c then ChannelClosed else Waiting, d)))"

subsection \<open>Runs\<close>

text \<open>
  The goroutines of the waiters and of the read loop in any interleaving. \<open>hist\<close> records, for
  the statements, each channel's messages and how it was closed.
\<close>

datatype 'm chan_event = Answered nat 'm | Closed nat

inductive disp_reach :: "'m dispatcher \<Rightarrow> 'm chan_event list \<Rightarrow> bool" where
  disp_new: "disp_reach NewRequestDispatcher []"
| disp_register: "disp_reach d h \<Longrightarrow> Register reqID d = (r, d') \<Longrightarrow> disp_reach d' h"
| disp_cancelled: "disp_reach d h \<Longrightarrow> disp_reach (disp_cancel reqID d) h"
| disp_take: "disp_reach d h \<Longrightarrow> dispatch_take reqID resp d = (True, d') \<Longrightarrow>
    disp_reach d' (h @ [Answered (the (ds_pending d reqID)) resp])"
| disp_send: "disp_reach d h \<Longrightarrow> i < length (ds_sending d) \<Longrightarrow>
    chan_send (the (ds_chans d (fst (ds_sending d ! i)))) = Sends \<Longrightarrow> disp_reach (dispatch_send i d) h"
| disp_abort: "disp_reach d h \<Longrightarrow> set ns = ran (ds_pending d) \<Longrightarrow> distinct ns \<Longrightarrow>
    disp_reach (AbortAll d) (h @ map Closed ns)"
| disp_close: "disp_reach d h \<Longrightarrow> set ns = ran (ds_pending d) \<Longrightarrow> distinct ns \<Longrightarrow>
    disp_reach (disp_Close d) (h @ map Closed ns)"
| disp_receive: "disp_reach d h \<Longrightarrow> chan_receive n d = (r, d') \<Longrightarrow> disp_reach d' h"

text \<open>The channel an event of the history is about.\<close>

fun event_chan :: "'m chan_event \<Rightarrow> nat" where
  "event_chan (Answered n v) = n"
| "event_chan (Closed n) = n"

text \<open>
  A channel is waited for, about to be answered, or done: the first two are open and empty, no
  channel is in both, and those waited for have no event yet.
\<close>

definition disp_inv :: "'m dispatcher \<Rightarrow> 'm chan_event list \<Rightarrow> bool" where
  "disp_inv d h \<longleftrightarrow>
     (\<forall>n \<in> ran (ds_pending d) \<union> fst ` set (ds_sending d). n < ds_next d \<and> ds_chans d n = Some \<lparr>ch_buf = [], ch_closed = False\<rparr>) \<and>
     inj_on (ds_pending d) (dom (ds_pending d)) \<and> distinct (map fst (ds_sending d)) \<and>
     ran (ds_pending d) \<inter> (fst ` set (ds_sending d) \<union> event_chan ` set h) = {} \<and>
     distinct (map event_chan h) \<and> (\<forall>e \<in> set h. event_chan e < ds_next d) \<and>
     (\<forall>n v. (n, v) \<in> set (ds_sending d) \<longrightarrow> Answered n v \<in> set h)"

lemma ran_pending_del: "ran (m(k := None)) \<subseteq> ran m"
  by (auto simp: ran_def)

lemma taken_not_pending:
  assumes "inj_on m (dom m)" "m k = Some n"
  shows "n \<notin> ran (m(k := None))"
  using assms by (auto simp: ran_def inj_on_def dom_def split: if_splits)

lemma disp_inv_new: "disp_inv NewRequestDispatcher []"
  by (simp add: disp_inv_def NewRequestDispatcher_def)

lemma disp_inv_register:
  assumes "disp_inv d h" "Register reqID d = (r, d')"
  shows "disp_inv d' h"
proof (cases "ds_closed d \<or> ds_pending d reqID \<noteq> None")
  case True
  with assms show ?thesis by (auto simp: Register_def split: if_splits)
next
  case False
  then have d': "d' = d\<lparr>ds_pending := (ds_pending d)(reqID \<mapsto> ds_next d),
      ds_chans := (ds_chans d)(ds_next d \<mapsto> \<lparr>ch_buf = [], ch_closed = False\<rparr>), ds_next := Suc (ds_next d)\<rparr>"
    and none: "ds_pending d reqID = None" using assms(2) by (auto simp: Register_def)
  have ran: "ran (ds_pending d') = insert (ds_next d) (ran (ds_pending d))"
    using none by (simp add: d' ran_map_upd)
  have old: "n < ds_next d" if "n \<in> ran (ds_pending d) \<union> fst ` set (ds_sending d) \<union> event_chan ` set h" for n
    using assms(1) that by (auto simp: disp_inv_def)
  have inj: "inj_on (ds_pending d') (dom (ds_pending d'))"
    using assms(1) old none by (fastforce simp: d' disp_inv_def inj_on_def dom_def ran_def)
  have "ds_next d \<notin> fst ` set (ds_sending d) \<union> event_chan ` set h" using old by blast
  moreover have "ds_chans d' n = Some \<lparr>ch_buf = [], ch_closed = False\<rparr> \<and> n < ds_next d'"
    if "n \<in> ran (ds_pending d') \<union> fst ` set (ds_sending d')" for n
    using assms(1) that old unfolding ran disp_inv_def by (auto simp: d' intro: less_SucI)
  moreover have "event_chan e < ds_next d'" if "e \<in> set h" for e using old that by (fastforce simp: d')
  ultimately show ?thesis using assms(1) inj unfolding disp_inv_def ran by (auto simp: d')
qed

lemma disp_inv_fewer:
  assumes "disp_inv d h" "ran (ds_pending d') \<subseteq> ran (ds_pending d)" "inj_on (ds_pending d') (dom (ds_pending d'))"
    and "ds_chans d' = ds_chans d" "ds_next d' = ds_next d" "ds_sending d' = ds_sending d"
  shows "disp_inv d' h"
  using assms unfolding disp_inv_def by auto

lemma inj_pending_del: "inj_on m (dom m) \<Longrightarrow> inj_on (m(k := None)) (dom (m(k := None)))"
  by (auto simp: inj_on_def dom_def)


lemma disp_inv_take:
  assumes inv: "disp_inv d h" and take: "dispatch_take reqID resp d = (True, d')"
  shows "disp_inv d' (h @ [Answered (the (ds_pending d reqID)) resp])"
proof -
  obtain n where n: "ds_pending d reqID = Some n"
      and d': "d' = d\<lparr>ds_pending := (ds_pending d)(reqID := None), ds_sending := ds_sending d @ [(n, resp)]\<rparr>"
    using take by (auto simp: dispatch_take_def split: option.splits)
  have inj: "inj_on (ds_pending d) (dom (ds_pending d))" using inv by (simp add: disp_inv_def)
  have ran: "n \<notin> ran (ds_pending d')" "ran (ds_pending d') \<subseteq> ran (ds_pending d)"
    unfolding d' using taken_not_pending [OF inj n] ran_pending_del [of "ds_pending d" reqID] by simp_all
  have "n \<in> ran (ds_pending d)" using n by (rule ranI)
  moreover have "inj_on (ds_pending d') (dom (ds_pending d'))" using inj_pending_del [OF inj] by (simp add: d')
  ultimately show ?thesis
    using inv ran unfolding disp_inv_def n by (auto simp: d')
qed

lemma put_buf_simps [simp]:
  "ds_pending (put_buf n v d) = ds_pending d" "ds_sending (put_buf n v d) = ds_sending d" "ds_next (put_buf n v d) = ds_next d"
  "ds_closed (put_buf n v d) = ds_closed d" "m \<noteq> n \<Longrightarrow> ds_chans (put_buf n v d) m = ds_chans d m"
  by (auto simp: put_buf_def split: option.splits)

lemma disp_inv_send:
  assumes inv: "disp_inv d h" and i: "i < length (ds_sending d)"
  shows "disp_inv (dispatch_send i d) h"
proof -
  let ?ss = "ds_sending d" and ?rest = "take i (ds_sending d) @ drop (Suc i) (ds_sending d)"
  obtain n v where nv: "?ss ! i = (n, v)" by fastforce
  have ss: "?ss = take i ?ss @ (n, v) # drop (Suc i) ?ss" using i nv by (metis id_take_nth_drop)
  have dist: "distinct (map fst ?ss)" using inv by (simp add: disp_inv_def)
  then have "distinct (map fst (take i ?ss @ (n, v) # drop (Suc i) ?ss))" by (simp only: ss [symmetric])
  then have n: "n \<notin> fst ` set ?rest" "distinct (map fst ?rest)" by auto
  have sub: "set ?rest \<subseteq> set ?ss" by (auto dest: in_set_takeD in_set_dropD)
  have "(n, v) \<in> set ?ss" using nth_mem [OF i] nv by simp
  then have "n \<in> fst ` set ?ss" by (rule image_eqI [of _ fst, rotated]) simp
  then have "n \<notin> ran (ds_pending d)" using inv unfolding disp_inv_def by blast
  then have chans: "ds_chans (put_buf n v d) m = ds_chans d m" if "m \<in> ran (ds_pending d) \<union> fst ` set ?rest" for m
    using that n(1) by (intro put_buf_simps(5)) auto
  have d': "dispatch_send i d = (put_buf n v d)\<lparr>ds_sending := ?rest\<rparr>" by (simp add: dispatch_send_def nv)
  have low: "m < ds_next d \<and> ds_chans d m = Some \<lparr>ch_buf = [], ch_closed = False\<rparr>"
      if "m \<in> ran (ds_pending d) \<union> fst ` set ?rest" for m
    using inv sub that unfolding disp_inv_def by blast
  show ?thesis
    using inv n(2) sub low chans unfolding disp_inv_def d' by (simp; blast)
qed

lemma close_pending_simps [simp]:
  "ds_pending (close_pending d) = Map.empty" "ds_sending (close_pending d) = ds_sending d"
  "ds_next (close_pending d) = ds_next d" "ds_closed (close_pending d) = ds_closed d"
  "n \<notin> ran (ds_pending d) \<Longrightarrow> ds_chans (close_pending d) n = ds_chans d n"
  by (auto simp: close_pending_def split: option.splits)

lemma disp_inv_close:
  assumes inv: "disp_inv d h" and ns: "set ns = ran (ds_pending d)" "distinct ns"
    and d': "ds_pending d' = Map.empty" "ds_sending d' = ds_sending d" "ds_next d' = ds_next d"
      "\<And>n. n \<notin> ran (ds_pending d) \<Longrightarrow> ds_chans d' n = ds_chans d n"
  shows "disp_inv d' (h @ map Closed ns)"
proof -
  have "fst ` set (ds_sending d) \<inter> ran (ds_pending d) = {}" "event_chan ` set h \<inter> ran (ds_pending d) = {}"
    using inv by (auto simp: disp_inv_def)
  then have chans: "ds_chans d' n = ds_chans d n" if "n \<in> fst ` set (ds_sending d)" for n
    using d'(4) that by blast
  have ev: "map event_chan (map Closed ns) = ns" by (induction ns) simp_all
  have "event_chan e < ds_next d" if "e \<in> set (map Closed ns)" for e
    using that ns(1) inv by (auto simp: disp_inv_def)
  moreover have "distinct (map event_chan (h @ map Closed ns))"
    using inv ns ev \<open>event_chan ` set h \<inter> ran (ds_pending d) = {}\<close> unfolding map_append distinct_append ev set_map
    by (simp add: disp_inv_def)
  moreover have "n < ds_next d \<and> ds_chans d' n = Some \<lparr>ch_buf = [], ch_closed = False\<rparr>" if "n \<in> fst ` set (ds_sending d)" for n
    using inv chans [OF that] that by (simp add: disp_inv_def)
  ultimately show ?thesis
    using inv unfolding disp_inv_def d' by (simp only: ran_empty dom_empty inj_on_empty Un_empty_left Int_empty_left set_append) blast
qed

lemma disp_inv_receive:
  assumes inv: "disp_inv d h" and "chan_receive n d = (r, d')"
  shows "disp_inv d' h"
proof (cases "d' = d")
  case True
  with inv show ?thesis by simp
next
  case False
  then obtain c v vs where c: "ds_chans d n = Some c" "ch_buf c = v # vs"
      and d': "d' = d\<lparr>ds_chans := (ds_chans d)(n \<mapsto> c\<lparr>ch_buf := vs\<rparr>)\<rparr>"
    using assms(2) by (auto simp: chan_receive_def split: option.splits list.splits if_splits)
  have "n \<notin> ran (ds_pending d) \<union> fst ` set (ds_sending d)"
  proof
    assume "n \<in> ran (ds_pending d) \<union> fst ` set (ds_sending d)"
    then have "ds_chans d n = Some \<lparr>ch_buf = [], ch_closed = False\<rparr>" using inv by (simp add: disp_inv_def)
    then have "c = \<lparr>ch_buf = [], ch_closed = False\<rparr>" using c(1) by simp
    with c(2) show False by simp
  qed
  with inv show ?thesis unfolding disp_inv_def d' by auto
qed

lemma disp_reach_inv: "disp_reach d h \<Longrightarrow> disp_inv d h"
proof (induction rule: disp_reach.induct)
  case (disp_cancelled d h reqID)
  have "inj_on (ds_pending d) (dom (ds_pending d))" using disp_cancelled.IH by (simp add: disp_inv_def)
  from inj_pending_del [OF this] show ?case
    by (intro disp_inv_fewer [OF disp_cancelled.IH]) (simp_all add: disp_cancel_def ran_pending_del)
next
  case (disp_abort d h ns)
  then show ?case unfolding AbortAll_def by (intro disp_inv_close [OF disp_abort.IH disp_abort.hyps(2,3)]) simp_all
next
  case (disp_close d h ns)
  then show ?case unfolding disp_Close_def
    by (intro disp_inv_close [OF disp_close.IH disp_close.hyps(2,3)]) (auto simp: close_pending_def split: option.splits)
qed (auto intro: disp_inv_new disp_inv_register disp_inv_take disp_inv_send disp_inv_receive)

text \<open>
  C17: a request is answered at most once and nobody is sent to a closed channel. In every
  interleaving of the waiters, the read loop and the shutdown, each channel is either closed
  once or given one response, never both; a response that was taken for a waiter can always be
  sent (the send neither blocks nor panics); and a channel that is still waited for has had
  neither.
\<close>

theorem answered_once:
  assumes "disp_reach d h"
  shows "distinct (map event_chan h) \<and>
    (\<forall>n v. (n, v) \<in> set (ds_sending d) \<longrightarrow> Answered n v \<in> set h \<and> (\<exists>c. ds_chans d n = Some c \<and> chan_send c = Sends)) \<and>
    (\<forall>reqID n. ds_pending d reqID = Some n \<longrightarrow> n \<notin> event_chan ` set h)"
proof -
  have inv: "disp_inv d h" using assms by (rule disp_reach_inv)
  have "\<exists>c. ds_chans d n = Some c \<and> chan_send c = Sends" if "(n, v) \<in> set (ds_sending d)" for n v
  proof -
    have "n \<in> fst ` set (ds_sending d)" using that by force
    then have "ds_chans d n = Some \<lparr>ch_buf = [], ch_closed = False\<rparr>" using inv by (simp add: disp_inv_def)
    then show ?thesis by (simp add: chan_send_def)
  qed
  moreover have "n \<notin> event_chan ` set h" if "ds_pending d reqID = Some n" for reqID n
    using inv ranI [of "ds_pending d", OF that] unfolding disp_inv_def by blast
  moreover have "Answered n v \<in> set h" if "(n, v) \<in> set (ds_sending d)" for n v using inv that unfolding disp_inv_def by blast
  moreover have "distinct (map event_chan h)" using inv unfolding disp_inv_def by blast
  ultimately show ?thesis by blast
qed

definition sample_dispatcher :: "string dispatcher" where
  "sample_dispatcher = snd (dispatch_take ''a'' ''ok'' (snd (Register ''b'' (snd (Register ''a'' NewRequestDispatcher)))))"

theorem answered_once_witness:
  "disp_reach (AbortAll sample_dispatcher) [Answered 0 ''ok'', Closed 1] \<and> ds_sending (AbortAll sample_dispatcher) = [(0, ''ok'')] \<and>
   (\<exists>c. ds_chans (AbortAll sample_dispatcher) 0 = Some c \<and> chan_send c = Sends)"
proof -
  let ?d1 = "snd (Register ''a'' (NewRequestDispatcher :: string dispatcher))"
  let ?d2 = "snd (Register ''b'' ?d1)"
  have "disp_reach ?d1 []" using disp_register [OF disp_new, of "''a''"] by (metis prod.collapse)
  then have two: "disp_reach ?d2 []" using disp_register [of ?d1 "[]" "''b''"] by (metis prod.collapse)
  have "ds_pending ?d2 ''a'' = Some 0" by (simp add: Register_def NewRequestDispatcher_def)
  moreover from this have "dispatch_take ''a'' ''ok'' ?d2 = (True, sample_dispatcher)"
    by (simp add: dispatch_take_def sample_dispatcher_def)
  ultimately have "disp_reach sample_dispatcher [Answered 0 ''ok'']" using disp_take [OF two] by fastforce
  moreover have "set [1] = ran (ds_pending sample_dispatcher)"
    by (auto simp: sample_dispatcher_def dispatch_take_def Register_def NewRequestDispatcher_def ran_def)
  ultimately have reach: "disp_reach (AbortAll sample_dispatcher) [Answered 0 ''ok'', Closed 1]"
    using disp_abort [of sample_dispatcher "[Answered 0 ''ok'']" "[1]"] by simp
  have sending: "ds_sending (AbortAll sample_dispatcher) = [(0, ''ok'')]"
    by (simp add: AbortAll_def sample_dispatcher_def dispatch_take_def Register_def NewRequestDispatcher_def)
  with answered_once [OF reach] reach show ?thesis by auto
qed

end
