(* ===== verification/WsPool.thy ===== *)
theory WsPool
  imports Prelude
begin

text \<open>
  \<open>pkg/ws/pool.go\<close>: the public connections, each with room for \<open>maxPairs\<close> topics, and the
  routing of topics to them. Messages are of any type \<open>'j\<close>. What \<open>SendJSON\<close> and \<open>WaitReady\<close>
  answer, and whether the context was cancelled, are arguments; the messages handed to a
  client are recorded in \<open>pl_sent\<close>, and the context with which a client's loop was started
  (contexts are numbers) in \<open>pl_loops\<close>. A map is ranged over in the order of the argument.
\<close>

record 'j publicSubscription =
  ps_topic :: string
  ps_subscribeMsg :: 'j
  ps_clientIdx :: nat

record 'j pool =
  pl_publicURL :: string
  pl_maxPairs :: int
  pl_targets :: "string list"
  pl_counts :: "int list"
  pl_routing :: "string \<rightharpoonup> nat"
  pl_subs :: "string \<rightharpoonup> 'j publicSubscription"
  pl_private :: bool
  pl_privateMsgs :: "'j list"
  pl_sent :: "(nat \<times> 'j) list"
  pl_privateSent :: "'j list"
  pl_loops :: "(nat \<times> nat) list"

definition NewPoolWithURLs :: "string \<Rightarrow> int \<Rightarrow> 'j pool" where
  "NewPoolWithURLs publicURL maxPairs = \<lparr>pl_publicURL = publicURL, pl_maxPairs = maxPairs, pl_targets = [], pl_counts = [],
     pl_routing = Map.empty, pl_subs = Map.empty, pl_private = False, pl_privateMsgs = [], pl_sent = [], pl_privateSent = [], pl_loops = []\<rparr>"

definition send_public :: "nat \<Rightarrow> 'j \<Rightarrow> 'j pool \<Rightarrow> 'j pool" where
  "send_public i m p = p\<lparr>pl_sent := pl_sent p @ [(i, m)]\<rparr>"

text \<open>The index, whether it is a new client, and the pool with it.\<close>

definition getOrCreatePublicClientIdx :: "string \<Rightarrow> 'j pool \<Rightarrow> nat \<times> bool \<times> 'j pool" where
  "getOrCreatePublicClientIdx targetURL p =
     (let url = (if targetURL = '''' then pl_publicURL p else targetURL) in
      case List.find (\<lambda>i. pl_counts p ! i < pl_maxPairs p \<and> i < length (pl_targets p) \<and> pl_targets p ! i = url)
             [0..<length (pl_counts p)] of
        Some i \<Rightarrow> (i, False, p)
      | None \<Rightarrow> (length (pl_targets p), True, p\<lparr>pl_targets := pl_targets p @ [url], pl_counts := pl_counts p @ [0]\<rparr>))"

text \<open>The locked part of \<open>SubscribePublicWithURL\<close>: whether the topic was there, its client, and
  whether that is new.\<close>

definition subscribe_begin :: "string \<Rightarrow> string \<Rightarrow> 'j \<Rightarrow> 'j pool \<Rightarrow> bool \<times> nat \<times> bool \<times> 'j pool" where
  "subscribe_begin targetURL topic msg p = (case pl_routing p topic of
     Some idx \<Rightarrow> (True, idx, False, p\<lparr>pl_subs := (pl_subs p)(topic := map_option (\<lambda>s. s\<lparr>ps_subscribeMsg := msg\<rparr>) (pl_subs p topic))\<rparr>)
   | None \<Rightarrow> (case getOrCreatePublicClientIdx (if targetURL = '''' then pl_publicURL p else targetURL) p of
       (idx, new, p1) \<Rightarrow> (False, idx, new, p1\<lparr>pl_routing := (pl_routing p1)(topic \<mapsto> idx),
         pl_counts := (pl_counts p1)[idx := pl_counts p1 ! idx + 1],
         pl_subs := (pl_subs p1)(topic \<mapsto> \<lparr>ps_topic = topic, ps_subscribeMsg = msg, ps_clientIdx = idx\<rparr>)\<rparr>)))"

text \<open>Its rollback, when the context was cancelled or the new client did not become ready.\<close>

definition subscribe_rollback :: "bool \<Rightarrow> nat \<Rightarrow> string \<Rightarrow> 'j pool \<Rightarrow> 'j pool" where
  "subscribe_rollback existed idx topic p = p\<lparr>
     pl_counts := (if existed then pl_counts p else (pl_counts p)[idx := pl_counts p ! idx - 1]),
     pl_routing := (pl_routing p)(topic := None), pl_subs := (pl_subs p)(topic := None)\<rparr>"

text \<open>\<open>go client.Connect(ctx)\<close>.\<close>

definition start_loop :: "nat \<Rightarrow> nat \<Rightarrow> 'j pool \<Rightarrow> 'j pool" where
  "start_loop idx ctx p = p\<lparr>pl_loops := pl_loops p @ [(idx, ctx)]\<rparr>"

definition SubscribePublicWithURL ::
    "nat \<Rightarrow> string option \<Rightarrow> string option \<Rightarrow> (nat \<Rightarrow> 'j \<Rightarrow> string option) \<Rightarrow> string \<Rightarrow> string \<Rightarrow> 'j \<Rightarrow> 'j pool \<Rightarrow>
     string option \<times> 'j pool" where
  "SubscribePublicWithURL ctx cancelled ready sent targetURL topic msg p =
     (case subscribe_begin targetURL topic msg p of (existed, idx, new, p1) \<Rightarrow>
        if cancelled \<noteq> None then (cancelled, subscribe_rollback existed idx topic p1)
        else if new then
          (let p2 = start_loop idx ctx p1
           in if ready \<noteq> None then (ready, subscribe_rollback existed idx topic p2) else (None, p2))
        else (sent idx msg, send_public idx msg p1))"

definition SubscribePublic where
  "SubscribePublic ctx cancelled ready sent topic msg p = SubscribePublicWithURL ctx cancelled ready sent (pl_publicURL p) topic msg p"

definition unsubscribe_begin :: "string \<Rightarrow> 'j pool \<Rightarrow> (nat \<times> 'j pool) option" where
  "unsubscribe_begin topic p = (case pl_routing p topic of
     None \<Rightarrow> None
   | Some idx \<Rightarrow> Some (idx, p\<lparr>pl_counts := (pl_counts p)[idx := pl_counts p ! idx - 1],
       pl_routing := (pl_routing p)(topic := None), pl_subs := (pl_subs p)(topic := None)\<rparr>))"

definition UnsubscribePublicWithURL ::
    "string option \<Rightarrow> (nat \<Rightarrow> 'j \<Rightarrow> string option) \<Rightarrow> string \<Rightarrow> 'j \<Rightarrow> 'j pool \<Rightarrow> string option \<times> 'j pool" where
  "UnsubscribePublicWithURL cancelled sent topic msg p = (case unsubscribe_begin topic p of
     None \<Rightarrow> (None, p)
   | Some (idx, p1) \<Rightarrow> if cancelled \<noteq> None then (cancelled, p1) else (sent idx msg, send_public idx msg p1))"

text \<open>The \<open>onReady\<close> hooks: what they send again on a fresh connection.\<close>

definition replayPublicSubscriptions :: "string list \<Rightarrow> nat \<Rightarrow> 'j pool \<Rightarrow> 'j list" where
  "replayPublicSubscriptions topics idx p =
     concat (map (\<lambda>t. case pl_subs p t of
        Some s \<Rightarrow> if ps_clientIdx s = idx then [ps_subscribeMsg s] else [] | None \<Rightarrow> []) topics)"

definition replayPrivateSubscriptions :: "'j pool \<Rightarrow> 'j list" where
  "replayPrivateSubscriptions p = pl_privateMsgs p"

definition pool_Connect :: "'j pool \<Rightarrow> 'j pool" where
  "pool_Connect p = p\<lparr>pl_private := True\<rparr>"

definition SendPrivate :: "string option \<Rightarrow> ('j \<Rightarrow> string option) \<Rightarrow> 'j \<Rightarrow> 'j pool \<Rightarrow> string option \<times> 'j pool" where
  "SendPrivate cancelled sent msg p =
     (let p1 = p\<lparr>pl_privateMsgs := pl_privateMsgs p @ [msg]\<rparr> in
      if \<not> pl_private p then (None, p1)
      else if cancelled \<noteq> None then (cancelled, p1)
      else (sent msg, p1\<lparr>pl_privateSent := pl_privateSent p @ [msg]\<rparr>))"

subsection \<open>Capacity\<close>

text \<open>Calls one after the other, whatever they are answered.\<close>

inductive pool_calls :: "string \<Rightarrow> int \<Rightarrow> 'j pool \<Rightarrow> bool" for url maxPairs where
  pool_new: "pool_calls url maxPairs (NewPoolWithURLs url maxPairs)"
| pool_subscribe: "pool_calls url maxPairs p \<Longrightarrow>
    pool_calls url maxPairs (snd (SubscribePublicWithURL ctx cancelled ready sent target topic msg p))"
| pool_unsubscribe: "pool_calls url maxPairs p \<Longrightarrow>
    pool_calls url maxPairs (snd (UnsubscribePublicWithURL cancelled sent topic msg p))"
| pool_private: "pool_calls url maxPairs p \<Longrightarrow> pool_calls url maxPairs (snd (SendPrivate cancelled psent msg p))"
| pool_connect: "pool_calls url maxPairs p \<Longrightarrow> pool_calls url maxPairs (pool_Connect p)"

text \<open>The topics of a client.\<close>

definition topics_of :: "'j pool \<Rightarrow> nat \<Rightarrow> string set" where
  "topics_of p i = {t. pl_routing p t = Some i}"

definition pool_inv :: "'j pool \<Rightarrow> bool" where
  "pool_inv p \<longleftrightarrow> length (pl_targets p) = length (pl_counts p) \<and> finite (dom (pl_routing p)) \<and>
     (\<forall>t i. pl_routing p t = Some i \<longrightarrow> i < length (pl_counts p)) \<and>
     (\<forall>i < length (pl_counts p). int (card (topics_of p i)) \<le> pl_counts p ! i \<and> pl_counts p ! i \<le> pl_maxPairs p) \<and>
     (\<forall>t. map_option ps_clientIdx (pl_subs p t) = pl_routing p t) \<and>
     (\<forall>l \<in> set (pl_loops p). fst l < length (pl_counts p))"

lemma topics_finite: "finite (dom (pl_routing p)) \<Longrightarrow> finite (topics_of p i)"
  by (rule finite_subset [of _ "dom (pl_routing p)"]) (auto simp: topics_of_def)

lemma getOrCreate_spec:
  assumes "pool_inv p" "1 \<le> pl_maxPairs p" "getOrCreatePublicClientIdx url p = (idx, new, p1)"
  shows "pool_inv p1 \<and> idx < length (pl_counts p1) \<and> pl_counts p1 ! idx < pl_maxPairs p1 \<and>
    pl_routing p1 = pl_routing p \<and> pl_loops p1 = pl_loops p \<and> pl_maxPairs p1 = pl_maxPairs p \<and> pl_publicURL p1 = pl_publicURL p"
proof (cases new)
  case False
  with assms show ?thesis
    by (auto simp: getOrCreatePublicClientIdx_def find_Some_iff Let_def split: option.splits)
next
  case True
  then have p1: "idx = length (pl_counts p)"
      "p1 = p\<lparr>pl_targets := pl_targets p @ [if url = '''' then pl_publicURL p else url], pl_counts := pl_counts p @ [0]\<rparr>"
    using assms(1,3) by (auto simp: getOrCreatePublicClientIdx_def pool_inv_def Let_def split: option.splits)
  have "topics_of p1 i = topics_of p i" for i by (simp add: topics_of_def p1)
  moreover have "topics_of p (length (pl_counts p)) = {}" using assms(1) by (fastforce simp: topics_of_def pool_inv_def)
  ultimately show ?thesis
    using assms(1,2) unfolding pool_inv_def by (auto simp: p1 nth_append less_Suc_eq)
qed

lemma begin_spec:
  assumes inv: "pool_inv p" and max: "1 \<le> pl_maxPairs p"
    and run: "subscribe_begin url topic msg p = (existed, idx, new, p1)"
  shows "pool_inv p1 \<and> pl_routing p1 topic = Some idx \<and> pl_maxPairs p1 = pl_maxPairs p"
proof (cases "pl_routing p topic")
  case (Some i)
  then have p1: "idx = i" "p1 = p\<lparr>pl_subs := (pl_subs p)(topic := map_option (\<lambda>s. s\<lparr>ps_subscribeMsg := msg\<rparr>) (pl_subs p topic))\<rparr>"
    using run by (auto simp: subscribe_begin_def)
  have "map_option ps_clientIdx (pl_subs p1 t) = map_option ps_clientIdx (pl_subs p t)" for t
    by (simp add: p1 option.map_comp comp_def)
  then show ?thesis using inv Some unfolding pool_inv_def topics_of_def by (simp add: p1)
next
  case None
  obtain p0 where g: "getOrCreatePublicClientIdx (if url = '''' then pl_publicURL p else url) p = (idx, new, p0)"
      and p1: "p1 = p0\<lparr>pl_routing := (pl_routing p0)(topic \<mapsto> idx), pl_counts := (pl_counts p0)[idx := pl_counts p0 ! idx + 1],
        pl_subs := (pl_subs p0)(topic \<mapsto> \<lparr>ps_topic = topic, ps_subscribeMsg = msg, ps_clientIdx = idx\<rparr>)\<rparr>"
    using run None by (auto simp: subscribe_begin_def split: prod.splits)
  note s = getOrCreate_spec [OF inv max g]
  have old: "pl_routing p0 topic = None" using s None by simp
  have topics: "topics_of p1 i = (if i = idx then insert topic (topics_of p0 i) else topics_of p0 i)" for i
    using old by (auto simp: topics_of_def p1)
  have fin: "finite (topics_of p0 i)" for i
    by (rule topics_finite) (use s in \<open>unfold pool_inv_def, blast\<close>)
  have "topic \<notin> topics_of p0 idx" using old by (simp add: topics_of_def)
  then have card: "card (topics_of p1 i) = card (topics_of p0 i) + (if i = idx then 1 else 0)" for i
    using fin by (simp add: topics)
  have counts: "pl_counts p1 = (pl_counts p0)[idx := pl_counts p0 ! idx + 1]" "pl_maxPairs p1 = pl_maxPairs p0"
    by (simp_all add: p1)
  have bound: "int (card (topics_of p0 i)) \<le> pl_counts p0 ! i \<and> pl_counts p0 ! i \<le> pl_maxPairs p0"
      if "i < length (pl_counts p0)" for i using s that unfolding pool_inv_def by blast
  have "int (card (topics_of p1 i)) \<le> pl_counts p1 ! i \<and> pl_counts p1 ! i \<le> pl_maxPairs p1" if "i < length (pl_counts p1)" for i
  proof (cases "i = idx")
    case True
    then show ?thesis using bound [of i] that s by (simp add: card counts)
  next
    case False
    then show ?thesis using bound [of i] that by (simp add: card counts)
  qed
  moreover have "finite (dom (pl_routing p0))" using s unfolding pool_inv_def by blast
  then have "finite (dom (pl_routing p1))" by (simp add: p1)
  ultimately show ?thesis using s unfolding pool_inv_def by (auto simp: p1)
qed

lemma drop_topic_inv:
  assumes inv: "pool_inv p" and "pl_routing p topic = Some idx"
  shows "pool_inv (p\<lparr>pl_counts := (if keep then pl_counts p else (pl_counts p)[idx := pl_counts p ! idx - 1]),
    pl_routing := (pl_routing p)(topic := None), pl_subs := (pl_subs p)(topic := None)\<rparr>)"
proof -
  let ?p = "p\<lparr>pl_counts := (if keep then pl_counts p else (pl_counts p)[idx := pl_counts p ! idx - 1]),
    pl_routing := (pl_routing p)(topic := None), pl_subs := (pl_subs p)(topic := None)\<rparr>"
  have fin: "finite (topics_of p i)" for i using inv by (intro topics_finite) (simp add: pool_inv_def)
  have "topics_of ?p i = (if i = idx then topics_of p i - {topic} else topics_of p i)" for i
    using assms(2) by (auto simp: topics_of_def)
  moreover have "topic \<in> topics_of p idx" using assms(2) by (simp add: topics_of_def)
  ultimately have "card (topics_of ?p i) = card (topics_of p i) - (if i = idx then 1 else 0) \<and> (i = idx \<longrightarrow> 0 < card (topics_of p i))" for i
    using fin card_gt_0_iff [of "topics_of p idx"] by (auto simp: card_Diff_singleton)
  moreover have "idx < length (pl_counts p)" using inv assms(2) by (simp add: pool_inv_def)
  ultimately have "int (card (topics_of ?p i)) \<le> pl_counts ?p ! i \<and> pl_counts ?p ! i \<le> pl_maxPairs ?p"
      if "i < length (pl_counts ?p)" for i
    using inv that unfolding pool_inv_def by (cases "i = idx"; cases keep) (fastforce simp: of_nat_diff Suc_leI)+
  then show ?thesis using inv unfolding pool_inv_def by (auto split: if_splits)
qed

lemma pool_inv_cong:
  "pool_inv p \<Longrightarrow> pl_targets p' = pl_targets p \<Longrightarrow> pl_counts p' = pl_counts p \<Longrightarrow> pl_routing p' = pl_routing p \<Longrightarrow>
   pl_subs p' = pl_subs p \<Longrightarrow> pl_maxPairs p' = pl_maxPairs p \<Longrightarrow> pl_loops p' = pl_loops p \<Longrightarrow> pool_inv p'"
  by (simp add: pool_inv_def topics_of_def)

lemma subscribe_inv:
  assumes inv: "pool_inv p" and max: "1 \<le> pl_maxPairs p"
  shows "pool_inv (snd (SubscribePublicWithURL ctx cancelled ready sent target topic msg p)) \<and>
    pl_maxPairs (snd (SubscribePublicWithURL ctx cancelled ready sent target topic msg p)) = pl_maxPairs p"
proof -
  obtain existed idx new p1 where run: "subscribe_begin target topic msg p = (existed, idx, new, p1)" by (metis prod_cases4)
  note b = begin_spec [OF inv max run]
  have undone: "pool_inv (subscribe_rollback existed idx topic p1)"
    unfolding subscribe_rollback_def by (rule drop_topic_inv) (use b in simp_all)
  have "pool_inv (start_loop idx ctx p1)" using b unfolding pool_inv_def start_loop_def topics_of_def by auto
  then have started: "pool_inv (start_loop idx ctx p1)" "pool_inv (subscribe_rollback existed idx topic (start_loop idx ctx p1))"
    unfolding subscribe_rollback_def by (simp, intro drop_topic_inv) (use b in \<open>simp_all add: start_loop_def\<close>)
  have sent: "pool_inv (send_public idx msg p1)" by (rule pool_inv_cong [of p1]) (use b in \<open>simp_all add: send_public_def\<close>)
  show ?thesis using b undone started sent
    by (auto simp: SubscribePublicWithURL_def run subscribe_rollback_def send_public_def start_loop_def Let_def)
qed

lemma unsubscribe_inv:
  assumes inv: "pool_inv p"
  shows "pool_inv (snd (UnsubscribePublicWithURL cancelled sent topic msg p)) \<and>
    pl_maxPairs (snd (UnsubscribePublicWithURL cancelled sent topic msg p)) = pl_maxPairs p"
proof (cases "pl_routing p topic")
  case None
  with inv show ?thesis by (simp add: UnsubscribePublicWithURL_def unsubscribe_begin_def)
next
  case (Some idx)
  let ?p1 = "p\<lparr>pl_counts := (pl_counts p)[idx := pl_counts p ! idx - 1],
    pl_routing := (pl_routing p)(topic := None), pl_subs := (pl_subs p)(topic := None)\<rparr>"
  have one: "pool_inv ?p1" using drop_topic_inv [OF inv Some, of False] by simp
  have "pool_inv (send_public idx msg ?p1)" by (rule pool_inv_cong [OF one]) (simp_all add: send_public_def)
  with one Some show ?thesis by (simp add: UnsubscribePublicWithURL_def unsubscribe_begin_def send_public_def)
qed

lemma pool_calls_inv:
  assumes "pool_calls url maxPairs p" "1 \<le> maxPairs"
  shows "pool_inv p \<and> pl_maxPairs p = maxPairs"
  using assms
proof (induction rule: pool_calls.induct)
  case pool_new
  then show ?case by (simp add: NewPoolWithURLs_def pool_inv_def)
next
  case (pool_subscribe p ctx cancelled ready sent target topic msg)
  then show ?case using subscribe_inv [of p] by simp
next
  case (pool_unsubscribe p cancelled sent topic msg)
  then show ?case using unsubscribe_inv [of p] by simp
next
  case (pool_private p cancelled psent msg)
  then show ?case using pool_inv_cong [of p] by (auto simp: SendPrivate_def Let_def)
next
  case (pool_connect p)
  then show ?case using pool_inv_cong [of p] by (auto simp: pool_Connect_def)
qed

text \<open>
  C31: the pool keeps to the exchange's limit in what it routes. When each call runs to its end
  before the next, then whatever the sequence of subscriptions and unsubscriptions, and however
  each of them fails (a cancelled context, a connection that does not become ready, a write
  error), at most \<open>maxPairs\<close> topics are routed to a connection, and no more than the pool counts
  for it; every topic is routed to a connection that exists, and what a connection replays when it
  comes back are topics that are routed to it. A topic whose unsubscription failed is not routed
  any more, so it does not count although the exchange may still send it (\<open>lost_unsubscription\<close>).
\<close>

theorem pool_capacity:
  assumes "pool_calls url maxPairs p" "1 \<le> maxPairs"
  shows "(\<forall>i. int (card (topics_of p i)) \<le> maxPairs) \<and>
    (\<forall>i < length (pl_targets p). int (card (topics_of p i)) \<le> pl_counts p ! i \<and> pl_counts p ! i \<le> maxPairs) \<and>
    (\<forall>topic i. pl_routing p topic = Some i \<longrightarrow> i < length (pl_targets p)) \<and>
    (\<forall>topic s. pl_subs p topic = Some s \<longrightarrow> pl_routing p topic = Some (ps_clientIdx s))"
proof -
  note inv = pool_calls_inv [OF assms]
  have "int (card (topics_of p i)) \<le> maxPairs" for i
  proof (cases "i < length (pl_counts p)")
    case True
    then have "int (card (topics_of p i)) \<le> pl_counts p ! i" "pl_counts p ! i \<le> maxPairs"
      using inv unfolding pool_inv_def by blast+
    then show ?thesis by simp
  next
    case False
    then have "topics_of p i = {}" using inv by (auto simp: topics_of_def pool_inv_def)
    with assms(2) show ?thesis by simp
  qed
  moreover have "pl_routing p topic = Some (ps_clientIdx s)" if "pl_subs p topic = Some s" for topic s
  proof -
    have "map_option ps_clientIdx (pl_subs p topic) = pl_routing p topic" using inv unfolding pool_inv_def by blast
    with that show ?thesis by simp
  qed
  moreover have "\<forall>i < length (pl_targets p). int (card (topics_of p i)) \<le> pl_counts p ! i \<and> pl_counts p ! i \<le> maxPairs"
    using inv unfolding pool_inv_def by auto
  moreover have "\<forall>topic i. pl_routing p topic = Some i \<longrightarrow> i < length (pl_targets p)"
    using inv by (simp add: pool_inv_def)
  ultimately show ?thesis by blast
qed

definition sample_pool :: "string pool" where
  "sample_pool = fold (\<lambda>t p. snd (SubscribePublicWithURL 0 None None (\<lambda>i m. None) [] t (''s'' @ t) p))
     [''a'', ''b'', ''c''] (NewPoolWithURLs ''u'' 2)"

lemma sample_pool_calls: "pool_calls ''u'' 2 sample_pool"
  unfolding sample_pool_def fold_simps comp_def id_def by (intro pool_calls.intros)

theorem pool_capacity_witness:
  "pool_calls ''u'' 2 sample_pool \<and> pl_counts sample_pool = [2, 1] \<and> pl_routing sample_pool ''c'' = Some 1 \<and>
   int (card (topics_of sample_pool 0)) \<le> 2"
proof -
  have "pl_counts sample_pool = [2, 1] \<and> pl_routing sample_pool ''c'' = Some 1" by code_simp
  with sample_pool_calls pool_capacity [OF sample_pool_calls] show ?thesis by simp
qed

subsection \<open>Where the tracking is lost\<close>

text \<open>
  Subscribing again to a topic with a cancelled context stops its tracking (it is no longer
  replayed, and cannot be unsubscribed) and keeps its place on the connection.
\<close>

lemma resubscribe_cancelled:
  assumes "pl_routing p topic = Some i"
  shows "\<exists>p'. SubscribePublicWithURL ctx (Some e) ready sent target topic msg p = (Some e, p') \<and>
    pl_counts p' = pl_counts p \<and> pl_routing p' topic = None \<and> pl_subs p' topic = None \<and>
    UnsubscribePublicWithURL None sent topic msg p' = (None, p')"
  using assms
  by (simp add: SubscribePublicWithURL_def subscribe_begin_def subscribe_rollback_def UnsubscribePublicWithURL_def unsubscribe_begin_def)

text \<open>
  An unsubscription with a cancelled context frees the topic's place and sends nothing, so the
  connection goes on carrying the topic while another one can be routed to its place.
\<close>

lemma lost_unsubscription:
  assumes "pl_routing p topic = Some i" "i < length (pl_counts p)"
  shows "\<exists>p'. UnsubscribePublicWithURL (Some e) sent topic msg p = (Some e, p') \<and> pl_sent p' = pl_sent p \<and>
    pl_counts p' ! i = pl_counts p ! i - 1 \<and> pl_routing p' topic = None"
  using assms by (simp add: UnsubscribePublicWithURL_def unsubscribe_begin_def)

text \<open>
  The rollback decrements the count without looking whether the topic is still there: when
  another goroutine unsubscribed it in between, one place is given back twice and the
  connection takes a topic too many.
\<close>

lemma rollback_after_unsubscribe:
  assumes "pl_routing p topic = None" "subscribe_begin target topic msg p = (existed, i, new, p1)"
    and "unsubscribe_begin topic p1 = Some (j, p2)" "i < length (pl_counts p1)"
  shows "j = i \<and> pl_counts (subscribe_rollback existed i topic p2) ! i = pl_counts p1 ! i - 2"
  using assms by (auto simp: subscribe_begin_def unsubscribe_begin_def subscribe_rollback_def split: prod.splits)

end
