(* ===== verification/WsClient.thy ===== *)
theory WsClient
  imports RttStats WsDispatcher WsPool GoStrings
begin

text \<open>
  \<open>pkg/ws/client.go\<close>: one websocket connection that dials again whenever it is lost. The
  goroutine of \<open>Connect\<close> is at one of its phases and takes a step on what the environment
  answers (the dialer, the socket, the timers, the context); \<open>Close\<close>, \<open>Ping\<close>, \<open>RoundTrip\<close> and
  \<open>SendJSON\<close> come from other goroutines. The user's hooks and the writes to the socket are
  recorded in \<open>cl_out\<close>; whether the functions of the options are set, and what they answer, is
  the configuration.
\<close>

record client_options =
  op_onConnected :: bool
  op_onDisconnected :: bool
  op_onReady :: bool
  op_heartbeat :: bool
  op_ping :: "(string + string) option"
  op_channelExtractor :: "(string \<Rightarrow> string) option"
  op_reqIDExtractor :: "(string \<Rightarrow> string \<times> bool) option"
  op_customPingHandler :: "(string \<Rightarrow> bool) option"
  op_pongDetector :: "(string \<Rightarrow> bool) option"
  op_preprocessor :: "(string \<Rightarrow> string option) option"

datatype phase = LoopTop | Dialing | Hooks | Reading | Lost | Backoff | Stopped

datatype client_action =
    HookConnected | HookReady | HookDisconnected | HeartbeatStarted
  | Wrote string | WrotePing
  | ToChannel string string | ToGlobal string

record client =
  cl_conn :: bool
  cl_connected :: bool
  cl_done :: bool
  cl_ready :: bool
  cl_handlers :: "string set"
  cl_globalHandler :: bool
  cl_dispatcher :: "string dispatcher"
  cl_lastPingSent :: gtime
  cl_lastRTTMs :: int
  cl_minRTTMs :: int
  cl_medianRTTMs :: int
  cl_samples :: "int list"
  cl_pongWaiters :: "nat list"
  cl_nextWaiter :: nat
  cl_released :: "nat set"
  cl_phase :: phase
  cl_out :: "client_action list"

definition NewClient :: client where
  "NewClient = \<lparr>cl_conn = False, cl_connected = False, cl_done = False, cl_ready = False, cl_handlers = {}, cl_globalHandler = False,
     cl_dispatcher = NewRequestDispatcher, cl_lastPingSent = 0, cl_lastRTTMs = -1, cl_minRTTMs = -1, cl_medianRTTMs = -1,
     cl_samples = [], cl_pongWaiters = [], cl_nextWaiter = 0, cl_released = {}, cl_phase = LoopTop, cl_out = []\<rparr>"

definition SetGlobalHandler :: "client \<Rightarrow> client" where
  "SetGlobalHandler c = c\<lparr>cl_globalHandler := True\<rparr>"

definition OnMessage :: "string \<Rightarrow> client \<Rightarrow> client" where
  "OnMessage channel c = c\<lparr>cl_handlers := insert channel (cl_handlers c)\<rparr>"

definition client_act :: "client_action \<Rightarrow> client \<Rightarrow> client" where
  "client_act a c = c\<lparr>cl_out := cl_out c @ [a]\<rparr>"

subsection \<open>Latency\<close>

definition updateRTTStats :: "int \<Rightarrow> client \<Rightarrow> client" where
  "updateRTTStats rttMs c =
     (let samples = cl_samples c @ [rttMs];
          samples = (if 20 < length samples then drop (length samples - 20) samples else samples)
      in c\<lparr>cl_samples := samples, cl_minRTTMs := rtt_min rttMs samples, cl_medianRTTMs := rtt_median samples\<rparr>)"

definition recordPong :: "gtime \<Rightarrow> client \<Rightarrow> client" where
  "recordPong now c =
     (let sent = cl_lastPingSent c; c1 = c\<lparr>cl_lastPingSent := 0\<rparr> in
      if sent \<le> 0 then c1
      else let rttMs = go_quot (i64 (now - sent)) millisecond in
        if rttMs < 0 then c1
        else let c2 = updateRTTStats rttMs (c1\<lparr>cl_lastRTTMs := rttMs\<rparr>)
             in c2\<lparr>cl_released := cl_released c2 \<union> set (cl_pongWaiters c2), cl_pongWaiters := []\<rparr>)"

definition client_LatencyMs :: "client \<Rightarrow> int" where
  "client_LatencyMs c = (if 0 \<le> cl_medianRTTMs c then cl_medianRTTMs c else if 0 \<le> cl_minRTTMs c then cl_minRTTMs c else cl_lastRTTMs c)"

datatype client_error = ErrNotConnected | WriteError string | MarshalError string | CtxError string | DispError disp_error

text \<open>\<open>wrote\<close> is what the socket answers; the payload is a string, or a value with its JSON.\<close>

definition sendPing :: "client_options \<Rightarrow> gtime \<Rightarrow> string option \<Rightarrow> client \<Rightarrow> client_error option \<times> client" where
  "sendPing opts now wrote c =
     (if \<not> cl_conn c then (Some ErrNotConnected, c)
      else case op_ping opts of
        Some (Inl e) \<Rightarrow> (Some (MarshalError e), c)
      | p \<Rightarrow> (case wrote of
            Some e \<Rightarrow> (Some (WriteError e), c)
          | None \<Rightarrow> (None, (client_act (case p of Some (Inr text) \<Rightarrow> Wrote text | _ \<Rightarrow> WrotePing) c)\<lparr>cl_lastPingSent := now\<rparr>)))"

text \<open>\<open>Ping\<close> up to its wait: the waiter's number.\<close>

definition ping_begin :: "client_options \<Rightarrow> gtime \<Rightarrow> string option \<Rightarrow> client \<Rightarrow> (client_error + nat) \<times> client" where
  "ping_begin opts now wrote c =
     (if \<not> cl_conn c then (Inl ErrNotConnected, c)
      else let n = cl_nextWaiter c; c1 = c\<lparr>cl_pongWaiters := cl_pongWaiters c @ [n], cl_nextWaiter := Suc n\<rparr>
           in case sendPing opts now wrote c1 of (Some e, c2) \<Rightarrow> (Inl e, c2) | (None, c2) \<Rightarrow> (Inr n, c2))"

text \<open>What it waits for.\<close>

definition ping_returns :: "nat \<Rightarrow> bool \<Rightarrow> client \<Rightarrow> bool" where
  "ping_returns n cancelled c \<longleftrightarrow> cancelled \<or> cl_done c \<or> n \<in> cl_released c"

definition SendJSON :: "string + string \<Rightarrow> string option \<Rightarrow> client \<Rightarrow> client_error option \<times> client" where
  "SendJSON msg wrote c =
     (if \<not> cl_conn c \<or> \<not> cl_connected c then (None, c)
      else case msg of
        Inl e \<Rightarrow> (Some (MarshalError e), c)
      | Inr text \<Rightarrow> (case wrote of Some e \<Rightarrow> (Some (WriteError e), c) | None \<Rightarrow> (None, client_act (Wrote text) c)))"

subsection \<open>Messages\<close>

definition handlePingPong :: "client_options \<Rightarrow> gtime \<Rightarrow> string \<Rightarrow> client \<Rightarrow> bool \<times> client" where
  "handlePingPong opts now data c =
     (if (case op_pongDetector opts of Some d \<Rightarrow> d data | None \<Rightarrow> False) then (True, recordPong now c)
      else if cl_conn c \<and> (case op_customPingHandler opts of Some h \<Rightarrow> h data | None \<Rightarrow> False) then (True, c)
      else let str = to_lower (trim_space data) in
        if str = ''pong'' then (True, recordPong now c)
        else if str = ''ping'' then (True, if cl_conn c then client_act (Wrote ''Pong'') c else c)
        else (False, c))"

definition dispatchRPC :: "client_options \<Rightarrow> string \<Rightarrow> client \<Rightarrow> bool \<times> client" where
  "dispatchRPC opts data c = (case op_reqIDExtractor opts of
     None \<Rightarrow> (False, c)
   | Some ex \<Rightarrow> (case ex data of (reqID, ok) \<Rightarrow>
       if \<not> ok \<or> reqID = [] then (False, c)
       else case Dispatch reqID data (cl_dispatcher c) of (found, d) \<Rightarrow> (found, c\<lparr>cl_dispatcher := d\<rparr>)))"

definition to_global :: "string \<Rightarrow> client \<Rightarrow> client" where
  "to_global data c = (if cl_globalHandler c then client_act (ToGlobal data) c else c)"

definition processMessage :: "client_options \<Rightarrow> gtime \<Rightarrow> string \<Rightarrow> client \<Rightarrow> client" where
  "processMessage opts now data c = (case handlePingPong opts now data c of
     (True, c1) \<Rightarrow> c1
   | (False, c1) \<Rightarrow> (case dispatchRPC opts data c1 of
       (True, c2) \<Rightarrow> c2
     | (False, c2) \<Rightarrow> (case op_channelExtractor opts of
         None \<Rightarrow> to_global data c2
       | Some ex \<Rightarrow>
           (let channel = ex data in
            if channel = [] \<or> channel = ''pong'' then c2
            else to_global data (if channel \<in> cl_handlers c2 then client_act (ToChannel channel data) c2 else c2)))))"

subsection \<open>The connection\<close>

text \<open>What the environment answers at one step of the loop.\<close>

record client_env =
  ce_cancelled :: bool
  ce_dial :: "string option"
  ce_read :: "string + string"
  ce_timer :: bool
  ce_now :: gtime

definition client_dial :: "client_env \<Rightarrow> client \<Rightarrow> bool \<times> client" where
  "client_dial e c = (case ce_dial e of
     Some err \<Rightarrow> (False, c) | None \<Rightarrow> (True, c\<lparr>cl_conn := True, cl_connected := True\<rparr>))"

definition markReady :: "client \<Rightarrow> client" where
  "markReady c = c\<lparr>cl_ready := True\<rparr>"

definition act_if :: "bool \<Rightarrow> client_action \<Rightarrow> client \<Rightarrow> client" where
  "act_if b a c = (if b then client_act a c else c)"

text \<open>One round of \<open>readLoop\<close>; it is left on a cancelled context, without a connection, or on a read error.\<close>

definition readLoop_round :: "client_options \<Rightarrow> client_env \<Rightarrow> client \<Rightarrow> client" where
  "readLoop_round opts e c =
     (if ce_cancelled e \<or> \<not> cl_conn c then c\<lparr>cl_phase := Lost\<rparr>
      else case ce_read e of
        Inl err \<Rightarrow> c\<lparr>cl_phase := Lost\<rparr>
      | Inr data \<Rightarrow> (case op_preprocessor opts of
          None \<Rightarrow> processMessage opts (ce_now e) data c
        | Some pre \<Rightarrow> (case pre data of None \<Rightarrow> c | Some d \<Rightarrow> processMessage opts (ce_now e) d c)))"

definition waitContextOrDone :: "client_env \<Rightarrow> client \<Rightarrow> client" where
  "waitContextOrDone e c =
     (if ce_timer e then c\<lparr>cl_phase := LoopTop\<rparr>
      else if ce_cancelled e \<or> cl_done c then c\<lparr>cl_phase := Stopped\<rparr> else c)"

definition Connect_step :: "client_options \<Rightarrow> client_env \<Rightarrow> client \<Rightarrow> client" where
  "Connect_step opts e c = (case cl_phase c of
     LoopTop \<Rightarrow> c\<lparr>cl_phase := (if ce_cancelled e \<or> cl_done c then Stopped else Dialing)\<rparr>
   | Dialing \<Rightarrow> (case client_dial e c of (ok, c1) \<Rightarrow> c1\<lparr>cl_phase := (if ok then Hooks else Backoff)\<rparr>)
   | Hooks \<Rightarrow> (act_if (op_heartbeat opts) HeartbeatStarted
       (markReady (act_if (op_onReady opts) HookReady (act_if (op_onConnected opts) HookConnected c))))\<lparr>cl_phase := Reading\<rparr>
   | Reading \<Rightarrow> readLoop_round opts e c
   | Lost \<Rightarrow> (act_if (op_onDisconnected opts) HookDisconnected
       (c\<lparr>cl_connected := False, cl_dispatcher := AbortAll (cl_dispatcher c)\<rparr>))\<lparr>cl_phase := Backoff\<rparr>
   | Backoff \<Rightarrow> waitContextOrDone e c
   | Stopped \<Rightarrow> c)"

definition client_Close :: "client \<Rightarrow> client" where
  "client_Close c =
     (let c1 = (if cl_done c then c else c\<lparr>cl_done := True, cl_dispatcher := disp_Close (cl_dispatcher c)\<rparr>)
      in if cl_conn c1 then c1\<lparr>cl_conn := False, cl_connected := False\<rparr> else c1)"

subsection \<open>Requests\<close>

text \<open>\<open>RoundTrip\<close> up to its wait, then what the wait returned; the deferred cancel runs on every way out.\<close>

definition roundtrip_begin :: "string \<Rightarrow> string + string \<Rightarrow> string option \<Rightarrow> client \<Rightarrow> (client_error + nat) \<times> client" where
  "roundtrip_begin reqID payload wrote c =
     (if \<not> cl_connected c then (Inl ErrNotConnected, c)
      else case Register reqID (cl_dispatcher c) of
        (Inl e, d) \<Rightarrow> (Inl (DispError e), c\<lparr>cl_dispatcher := d\<rparr>)
      | (Inr n, d) \<Rightarrow> (case SendJSON payload wrote (c\<lparr>cl_dispatcher := d\<rparr>) of
          (Some e, c1) \<Rightarrow> (Inl e, c1\<lparr>cl_dispatcher := disp_cancel reqID (cl_dispatcher c1)\<rparr>)
        | (None, c1) \<Rightarrow> (if \<not> cl_connected c1
            then (Inl ErrNotConnected, c1\<lparr>cl_dispatcher := disp_cancel reqID (cl_dispatcher c1)\<rparr>) else (Inr n, c1))))"

datatype roundtrip_wait = WaitCancelled string | WaitDone | WaitReceived

definition roundtrip_end :: "string \<Rightarrow> nat \<Rightarrow> roundtrip_wait \<Rightarrow> client \<Rightarrow> (client_error + string) \<times> client" where
  "roundtrip_end reqID n w c =
     (let (r, d) = (case w of
        WaitCancelled e \<Rightarrow> (Inl (CtxError e), cl_dispatcher c)
      | WaitDone \<Rightarrow> (Inl ErrNotConnected, cl_dispatcher c)
      | WaitReceived \<Rightarrow> (case chan_receive n (cl_dispatcher c) of
          (Received data, d) \<Rightarrow> (if data = [] then Inl ErrNotConnected else Inr data, d)
        | (_, d) \<Rightarrow> (Inl ErrNotConnected, d)))
      in (r, c\<lparr>cl_dispatcher := disp_cancel reqID d\<rparr>))"

end
