(* ===== verification/WsClientLaws.thy ===== *)
theory WsClientLaws
  imports WsClient
begin

text \<open>
  What the websocket client does over many steps: its latency statistics, the answers of its
  requests, its return after a loss, and what its \<open>Close\<close> misses.
\<close>

subsection \<open>Latency\<close>

text \<open>A ping sent at the first instant and answered at the second.\<close>

definition pong_round :: "client \<Rightarrow> gtime \<times> gtime \<Rightarrow> client" where
  "pong_round c r = recordPong (snd r) (c\<lparr>cl_lastPingSent := fst r\<rparr>)"

definition pong_ms :: "gtime \<times> gtime \<Rightarrow> int" where
  "pong_ms r = (snd r - fst r) div millisecond"

definition pong_valid :: "gtime \<times> gtime \<Rightarrow> bool" where
  "pong_valid r \<longleftrightarrow> 0 < fst r \<and> fst r \<le> snd r \<and> snd r < 2 ^ 63"

lemma pong_ms_range: "pong_valid r \<Longrightarrow> 0 \<le> pong_ms r \<and> pong_ms r < 2 ^ 62"
  by (auto simp: pong_valid_def pong_ms_def)

lemma pong_round_samples:
  assumes "pong_valid r"
  shows "pong_round c r = (updateRTTStats (pong_ms r) (c\<lparr>cl_lastPingSent := 0, cl_lastRTTMs := pong_ms r\<rparr>))
    \<lparr>cl_released := cl_released c \<union> set (cl_pongWaiters c), cl_pongWaiters := []\<rparr>"
proof -
  have "i64 (snd r - fst r) = snd r - fst r" using assms by (intro i64_id) (auto simp: pong_valid_def)
  moreover have "go_quot (snd r - fst r) millisecond = pong_ms r"
    using assms by (cases "snd r = fst r") (auto simp: go_quot_def pong_ms_def pong_valid_def)
  moreover have "\<not> pong_ms r < 0" using pong_ms_range [OF assms] by simp
  ultimately show ?thesis using assms
    by (simp add: pong_round_def recordPong_def Let_def pong_valid_def updateRTTStats_def)
qed

definition window :: "int list \<Rightarrow> int list" where
  "window xs = drop (length xs - 20) xs"

lemma window_snoc: "window (xs @ [x]) = (let w = window xs @ [x] in if 20 < length w then drop (length w - 20) w else w)"
proof (cases "length xs < 20")
  case False
  then have len: "length (window xs) = 20" by (simp add: window_def)
  have "drop 1 (window xs @ [x]) = drop 1 (window xs) @ [x]" using len by simp
  also have "drop 1 (window xs) = drop (Suc (length xs - 20)) xs" by (simp add: window_def)
  also have "Suc (length xs - 20) = length (xs @ [x]) - 20" using False by simp
  also have "drop (length (xs @ [x]) - 20) xs @ [x] = window (xs @ [x])" by (simp add: window_def)
  finally show ?thesis using len by (simp add: Let_def)
qed (simp add: window_def)

lemma pong_rounds_samples:
  assumes "\<forall>r \<in> set rs. pong_valid r" "rs \<noteq> []"
  defines "c \<equiv> foldl pong_round NewClient rs" and "w \<equiv> window (map pong_ms rs)"
  shows "cl_samples c = w \<and> cl_minRTTMs c = rtt_min (pong_ms (List.last rs)) w \<and> cl_medianRTTMs c = rtt_median w"
  using assms(1,2) unfolding c_def w_def
proof (induction rs rule: rev_induct)
  case (snoc r rs)
  have s: "cl_samples (foldl pong_round NewClient rs) = window (map pong_ms rs)"
    using snoc by (cases "rs = []") (simp_all add: NewClient_def window_def)
  have r: "pong_valid r" using snoc.prems by simp
  show ?case by (simp add: pong_round_samples [OF r] updateRTTStats_def s window_snoc Let_def)
qed simp

text \<open>
  The latency a client reports is that of its last twenty pongs. After any number of
  answered pings the samples are the last twenty round trips in milliseconds, the reported
  minimum is their minimum, and the reported latency is their median, which lies between their
  minimum and their maximum.
\<close>

lemma rtt_window:
  assumes "\<forall>r \<in> set rs. pong_valid r" "rs \<noteq> []"
  defines "c \<equiv> foldl pong_round NewClient rs" and "w \<equiv> drop (length rs - 20) (map pong_ms rs)"
  shows "cl_samples c = w \<and> cl_minRTTMs c = Min (set w) \<and> client_LatencyMs c = rtt_median w \<and>
    Min (set w) \<le> client_LatencyMs c \<and> client_LatencyMs c \<le> Max (set w)"
proof -
  have w: "w = window (map pong_ms rs)" by (simp add: w_def window_def)
  note s = pong_rounds_samples [OF assms(1,2), folded c_def w]
  have "length rs - 20 < length rs" using assms(2) by (cases rs) simp_all
  then have "w \<noteq> []" by (simp add: w_def)
  have "List.last w = pong_ms (List.last rs)" using assms(2) \<open>length rs - 20 < length rs\<close> by (simp add: w_def last_drop last_map)
  with \<open>w \<noteq> []\<close> have "pong_ms (List.last rs) \<in> set w" by (metis last_in_set)
  then have min: "cl_minRTTMs c = Min (set w)" using s by (simp add: rtt_min_Min)
  have range: "\<forall>x \<in> set w. 0 \<le> x \<and> x < 2 ^ 62"
    using assms(1) pong_ms_range by (auto simp: w_def dest!: in_set_dropD)
  note med = rtt_median_within [OF range \<open>w \<noteq> []\<close>]
  have "Min (set w) \<in> set w" using \<open>w \<noteq> []\<close> by simp
  then have "0 \<le> rtt_median w" using range med by fastforce
  then have "client_LatencyMs c = rtt_median w" using s by (simp add: client_LatencyMs_def)
  with s min med show ?thesis by simp
qed

lemma rtt_window_witness:
  "client_LatencyMs (foldl pong_round NewClient [(1, 5000001), (6000000, 15000000), (20000000, 21500000)]) = 5"
proof -
  let ?rs = "[(1, 5000001), (6000000, 15000000), (20000000, 21500000)] :: (gtime \<times> gtime) list"
  have "\<forall>r \<in> set ?rs. pong_valid r" by (simp add: pong_valid_def)
  from rtt_window [OF this] have "client_LatencyMs (foldl pong_round NewClient ?rs) = rtt_median (map pong_ms ?rs)" by simp
  then show ?thesis by (simp add: pong_ms_def rtt_median_def Let_def)
qed

subsection \<open>Requests\<close>

lemma dispatch_registered:
  assumes "ds_pending d reqID = Some n" "ds_chans d n = Some \<lparr>ch_buf = [], ch_closed = False\<rparr>"
  shows "\<exists>d'. Dispatch reqID v d = (True, d') \<and> ds_chans d' n = Some \<lparr>ch_buf = [v], ch_closed = False\<rparr> \<and>
    ds_pending d' = (ds_pending d)(reqID := None) \<and> ds_closed d' = ds_closed d"
  using assms by (simp add: Dispatch_def dispatch_take_def dispatch_send_def put_buf_def nth_append)

lemma roundtrip_begin_waits:
  assumes "roundtrip_begin reqID payload wrote c = (Inr n, c1)"
  shows "ds_pending (cl_dispatcher c1) reqID = Some n \<and>
    ds_chans (cl_dispatcher c1) n = Some \<lparr>ch_buf = [], ch_closed = False\<rparr> \<and> \<not> ds_closed (cl_dispatcher c1)"
  using assms
  by (auto simp: roundtrip_begin_def Register_def SendJSON_def client_act_def
      split: if_splits prod.splits sum.splits option.splits)

text \<open>
  A request gets its response, and nobody else does. When a message arrives whose identifier
  is that of a request waiting (and which is no ping or pong), the waiter returns exactly this
  message, no channel handler and no global handler is called with it, and the identifier is
  free again.
\<close>

lemma roundtrip_answered:
  assumes "roundtrip_begin reqID payload wrote c = (Inr n, c1)"
    and "op_reqIDExtractor opts = Some ex" "ex data = (reqID, True)" "reqID \<noteq> []" "data \<noteq> []"
    and "handlePingPong opts now data c1 = (False, c1)"
  shows "\<exists>c2. roundtrip_end reqID n WaitReceived (processMessage opts now data c1) = (Inr data, c2) \<and>
    cl_out c2 = cl_out c1 \<and> ds_pending (cl_dispatcher c2) reqID = None"
proof -
  note w = roundtrip_begin_waits [OF assms(1)]
  obtain d where d: "Dispatch reqID data (cl_dispatcher c1) = (True, d)" "ds_chans d n = Some \<lparr>ch_buf = [data], ch_closed = False\<rparr>"
    using dispatch_registered [of "cl_dispatcher c1" reqID n data] w by blast
  have "processMessage opts now data c1 = c1\<lparr>cl_dispatcher := d\<rparr>"
    using assms(2-6) by (simp add: processMessage_def dispatchRPC_def d(1))
  then show ?thesis using d(2) assms(5) by (simp add: roundtrip_end_def chan_receive_def disp_cancel_def)
qed

definition sample_options :: client_options where
  "sample_options = \<lparr>op_onConnected = True, op_onDisconnected = True, op_onReady = True, op_heartbeat = False, op_ping = None,
     op_channelExtractor = None, op_reqIDExtractor = Some (\<lambda>d. (take 2 d, True)), op_customPingHandler = None,
     op_pongDetector = None, op_preprocessor = None\<rparr>"

lemma roundtrip_answered_witness:
  "\<exists>n c1 c2. roundtrip_begin ''r1'' (Inr ''order'') None (NewClient\<lparr>cl_conn := True, cl_connected := True\<rparr>) = (Inr n, c1) \<and>
    roundtrip_end ''r1'' n WaitReceived (processMessage sample_options 7 ''r1 ok'' c1) = (Inr ''r1 ok'', c2)"
proof -
  let ?c = "NewClient\<lparr>cl_conn := True, cl_connected := True\<rparr>"
  obtain n c1 where b: "roundtrip_begin ''r1'' (Inr ''order'') None ?c = (Inr n, c1)"
    by (simp add: roundtrip_begin_def NewClient_def Register_def NewRequestDispatcher_def SendJSON_def client_act_def)
  have "handlePingPong sample_options 7 ''r1 ok'' c1 = (False, c1)"
    by (simp add: handlePingPong_def sample_options_def to_lower_def trim_space_def Let_def is_space_def lower_char_def)
  from roundtrip_answered [OF b _ _ _ _ this, of "\<lambda>d. (take 2 d, True)"]
  show ?thesis using b by (auto simp: sample_options_def)
qed

subsection \<open>Coming back\<close>

primrec client_run :: "client_options \<Rightarrow> (nat \<Rightarrow> client_env) \<Rightarrow> nat \<Rightarrow> client \<Rightarrow> client" where
  "client_run opts e 0 c = c"
| "client_run opts e (Suc n) c = Connect_step opts (e n) (client_run opts e n c)"

definition away :: "client \<Rightarrow> bool" where
  "away c \<longleftrightarrow> cl_phase c \<in> {Lost, Backoff, LoopTop, Dialing} \<and> \<not> cl_done c"

text \<open>How many steps at most until a dial, from each phase.\<close>

fun to_dial :: "phase \<Rightarrow> nat" where
  "to_dial Lost = 3"
| "to_dial Backoff = 2"
| "to_dial LoopTop = 1"
| "to_dial _ = 0"

lemma away_step:
  assumes "away c" "\<not> ce_cancelled e" "ce_timer e"
  shows "(away (Connect_step opts e c) \<or> cl_phase (Connect_step opts e c) = Hooks) \<and> \<not> cl_done (Connect_step opts e c) \<and>
    (cl_phase (Connect_step opts e c) = Hooks \<longrightarrow> cl_conn (Connect_step opts e c) \<and> cl_connected (Connect_step opts e c)) \<and>
    (ce_dial e = None \<longrightarrow> cl_phase (Connect_step opts e c) = Hooks \<or>
       Suc (to_dial (cl_phase (Connect_step opts e c))) = to_dial (cl_phase c)) \<and>
    (\<exists>l. cl_out (Connect_step opts e c) = cl_out c @ l)"
  using assms
  by (cases "cl_phase c")
     (auto simp: away_def Connect_step_def client_dial_def waitContextOrDone_def act_if_def client_act_def split: option.splits)

lemma away_run:
  assumes "away c" "\<forall>i. \<not> ce_cancelled (e i) \<and> ce_timer (e i)"
    and "\<forall>i < n. away (client_run opts e i c)"
  shows "n = 0 \<or> away (client_run opts e n c) \<or> cl_phase (client_run opts e n c) = Hooks"
  using assms away_step by (cases n) auto

lemma away_run_out:
  assumes "\<forall>i. \<not> ce_cancelled (e i) \<and> ce_timer (e i)" "\<forall>i < n. away (client_run opts e i c)"
  shows "\<exists>l. cl_out (client_run opts e n c) = cl_out c @ l"
  using assms(2)
proof (induction n)
  case (Suc n)
  then obtain l where "cl_out (client_run opts e n c) = cl_out c @ l" by auto
  moreover obtain k where "cl_out (client_run opts e (Suc n) c) = cl_out (client_run opts e n c) @ k"
    using away_step [of "client_run opts e n c" "e n" opts] assms(1) Suc.prems by auto
  ultimately show ?case by simp
qed simp

lemma to_dial_le: "to_dial p \<le> 3"
  by (cases p) simp_all

text \<open>Once the dialer answers, the distance to the next dial only shrinks.\<close>

lemma away_until_dial:
  assumes "\<forall>i. \<not> ce_cancelled (e i) \<and> ce_timer (e i)" "\<forall>i \<ge> N. ce_dial (e i) = None"
    and "\<forall>i \<le> N + k. away (client_run opts e i c)"
  shows "to_dial (cl_phase (client_run opts e (N + k) c)) + k \<le> 3"
  using assms(3)
proof (induction k)
  case 0
  then show ?case by (simp add: to_dial_le)
next
  case (Suc k)
  then have le: "to_dial (cl_phase (client_run opts e (N + k) c)) + k \<le> 3" by simp
  have now: "away (client_run opts e (N + k) c)" "away (client_run opts e (N + Suc k) c)" using Suc.prems by auto
  then have "cl_phase (client_run opts e (N + Suc k) c) \<noteq> Hooks" by (auto simp: away_def)
  with away_step [OF now(1), of "e (N + k)" opts] assms(1,2) le show ?case by auto
qed

lemma dials_again:
  assumes "away c" "\<forall>i. \<not> ce_cancelled (e i) \<and> ce_timer (e i)" "\<forall>i \<ge> N. ce_dial (e i) = None"
  shows "\<exists>n \<le> N + 4. cl_phase (client_run opts e n c) = Hooks \<and> cl_conn (client_run opts e n c) \<and>
    cl_connected (client_run opts e n c) \<and> (\<exists>l. cl_out (client_run opts e n c) = cl_out c @ l)"
proof -
  have "\<not> (\<forall>i \<le> N + 4. away (client_run opts e i c))"
    using away_until_dial [OF assms(2,3), of 4 opts c] by auto
  then obtain i where "i \<le> N + 4" "\<not> away (client_run opts e i c)" by blast
  define n where "n = (LEAST i. \<not> away (client_run opts e i c))"
  have not: "\<not> away (client_run opts e n c)" unfolding n_def by (rule LeastI) fact
  have "n \<le> i" unfolding n_def by (rule Least_le) fact
  have before: "\<forall>j < n. away (client_run opts e j c)" unfolding n_def by (auto dest: not_less_Least)
  obtain m where m: "n = Suc m" using not assms(1) by (cases n) auto
  have "away (client_run opts e m c)" using before m by simp
  from away_step [OF this, of "e m" opts] not assms(2)
  have "cl_phase (client_run opts e n c) = Hooks \<and> cl_conn (client_run opts e n c) \<and> cl_connected (client_run opts e n c)"
    by (simp add: m)
  with away_run_out [OF assms(2) before] \<open>n \<le> i\<close> \<open>i \<le> N + 4\<close> show ?thesis by (meson le_trans)
qed

text \<open>
  C14: a client that lost its connection comes back. From any point outside the read loop,
  unless it is closed or its context cancelled, however often the dialer has failed: once it
  answers (from the \<open>N\<close>-th step on), within five further steps of the loop the client is
  connected, reading and ready, and its \<open>onReady\<close> hook, which sends the subscriptions again, has
  run since.
\<close>

theorem reconnects:
  assumes "cl_phase c \<in> {Lost, Backoff, LoopTop, Dialing}" "\<not> cl_done c"
    and "\<forall>i. \<not> ce_cancelled (e i) \<and> ce_timer (e i)" "\<forall>i \<ge> N. ce_dial (e i) = None"
  shows "\<exists>n \<le> N + 5. \<exists>c' l. client_run opts e n c = c' \<and> cl_phase c' = Reading \<and> cl_conn c' \<and> cl_connected c' \<and> cl_ready c' \<and>
    cl_out c' = cl_out c @ l \<and> (op_onReady opts \<longrightarrow> HookReady \<in> set l)"
proof -
  have "away c" using assms(1,2) by (simp add: away_def)
  from dials_again [OF this assms(3,4)] obtain n l where n: "n \<le> N + 4"
      "cl_phase (client_run opts e n c) = Hooks" "cl_conn (client_run opts e n c)" "cl_connected (client_run opts e n c)"
      "cl_out (client_run opts e n c) = cl_out c @ l" by blast
  let ?c = "client_run opts e (Suc n) c"
  have "cl_phase ?c = Reading \<and> cl_conn ?c \<and> cl_connected ?c \<and> cl_ready ?c \<and>
      (\<exists>k. cl_out ?c = cl_out c @ l @ k \<and> (op_onReady opts \<longrightarrow> HookReady \<in> set k))"
    using n by (auto simp: Connect_step_def markReady_def act_if_def client_act_def)
  then obtain k where k: "cl_phase ?c = Reading" "cl_conn ?c" "cl_connected ?c" "cl_ready ?c" "cl_out ?c = cl_out c @ l @ k"
      "op_onReady opts \<longrightarrow> HookReady \<in> set k" by blast
  have "op_onReady opts \<longrightarrow> HookReady \<in> set (l @ k)" using k(6) by simp
  with k n(1) show ?thesis by (intro exI [of _ "Suc n"] conjI exI [of _ ?c] exI [of _ "l @ k"]) simp_all
qed

definition flaky_env :: "nat \<Rightarrow> client_env" where
  "flaky_env i = \<lparr>ce_cancelled = False, ce_dial = (if i < 7 then Some ''refused'' else None), ce_read = Inl ''eof'', ce_timer = True, ce_now = 0\<rparr>"

theorem reconnects_witness:
  "\<exists>n \<le> 12. cl_phase (client_run sample_options flaky_env n NewClient) = Reading"
  using reconnects [of NewClient flaky_env 7 sample_options] by (auto simp: flaky_env_def NewClient_def)

subsection \<open>Closing while dialing\<close>

lemma recordPong_connection:
  "cl_phase (recordPong now c) = cl_phase c" "cl_conn (recordPong now c) = cl_conn c"
  "cl_connected (recordPong now c) = cl_connected c" "cl_done (recordPong now c) = cl_done c"
  by (simp_all add: recordPong_def updateRTTStats_def Let_def)

lemma processMessage_connection:
  assumes "processMessage opts now data c = c'"
  shows "cl_phase c' = cl_phase c \<and> cl_conn c' = cl_conn c \<and> cl_connected c' = cl_connected c \<and> cl_done c' = cl_done c"
proof -
  have act: "cl_phase (client_act a c) = cl_phase c" "cl_conn (client_act a c) = cl_conn c"
    "cl_connected (client_act a c) = cl_connected c" "cl_done (client_act a c) = cl_done c" for a c
    by (simp_all add: client_act_def)
  obtain b c1 where p: "handlePingPong opts now data c = (b, c1)" by fastforce
  then have one: "cl_phase c1 = cl_phase c \<and> cl_conn c1 = cl_conn c \<and> cl_connected c1 = cl_connected c \<and> cl_done c1 = cl_done c"
    by (auto simp: handlePingPong_def Let_def recordPong_connection act split: if_splits)
  obtain f c2 where d: "dispatchRPC opts data c1 = (f, c2)" by fastforce
  then have two: "cl_phase c2 = cl_phase c1 \<and> cl_conn c2 = cl_conn c1 \<and> cl_connected c2 = cl_connected c1 \<and> cl_done c2 = cl_done c1"
    by (auto simp: dispatchRPC_def split: option.splits prod.splits if_splits)
  show ?thesis using assms one two
    by (cases b; cases f) (auto simp: processMessage_def p d to_global_def act Let_def split: option.splits if_splits)
qed

definition reads_on :: "client \<Rightarrow> bool" where
  "reads_on c \<longleftrightarrow> cl_phase c = Reading \<and> cl_done c \<and> cl_conn c \<and> cl_connected c"

lemma reads_on_step:
  assumes "reads_on c" "\<not> ce_cancelled e \<and> (\<exists>data. ce_read e = Inr data)"
  shows "reads_on (Connect_step opts e c)"
proof -
  obtain data where data: "ce_read e = Inr data" using assms(2) by blast
  have keep: "reads_on (processMessage opts now d c)" for now d
    using processMessage_connection [of opts now d c] assms(1) by (simp add: reads_on_def)
  have "Connect_step opts e c = readLoop_round opts e c" using assms(1) by (simp add: Connect_step_def reads_on_def)
  also have "\<dots> = (case op_preprocessor opts of None \<Rightarrow> processMessage opts (ce_now e) data c
       | Some pre \<Rightarrow> (case pre data of None \<Rightarrow> c | Some d \<Rightarrow> processMessage opts (ce_now e) d c))"
    using assms data by (simp add: readLoop_round_def reads_on_def)
  also have "reads_on \<dots>" using keep assms(1) by (auto split: option.splits)
  finally show ?thesis .
qed

text \<open>
  C37: a close that meets a dial in flight does not close the client. \<open>Close\<close> finds no
  connection to close; when the dial then succeeds, the loop goes on to the hooks and the read
  loop without looking at \<open>done\<close>, so the closed client says it is connected and delivers messages
  for as long as the exchange sends them and the context lives.
\<close>

theorem close_during_dial:
  assumes "cl_phase c = Dialing" "\<not> cl_conn c" "ce_dial (e 0) = None"
    and "\<forall>i. \<not> ce_cancelled (e i) \<and> (\<exists>data. ce_read (e i) = Inr data)"
  shows "cl_phase (client_run opts e (n + 2) (client_Close c)) = Reading \<and> cl_done (client_run opts e (n + 2) (client_Close c)) \<and>
    cl_conn (client_run opts e (n + 2) (client_Close c)) \<and> cl_connected (client_run opts e (n + 2) (client_Close c))"
proof (induction n)
  case 0
  have "cl_phase (client_Close c) = Dialing" "cl_done (client_Close c)" using assms(1,2) by (simp_all add: client_Close_def Let_def)
  with assms(3) show ?case
    by (simp add: numeral_2_eq_2 Connect_step_def client_dial_def act_if_def client_act_def markReady_def)
next
  case (Suc n)
  have "\<not> ce_cancelled (e (n + 2)) \<and> (\<exists>data. ce_read (e (n + 2)) = Inr data)" using assms(4) by blast
  then have "reads_on (Connect_step opts (e (n + 2)) (client_run opts e (n + 2) (client_Close c)))"
    by (intro reads_on_step) (use Suc.IH in \<open>simp_all add: reads_on_def\<close>)
  then show ?case by (simp add: reads_on_def)
qed

theorem close_during_dial_witness:
  "cl_connected (client_run sample_options
     (\<lambda>i. \<lparr>ce_cancelled = False, ce_dial = None, ce_read = Inr ''tick'', ce_timer = True, ce_now = 0\<rparr>) 42
     (client_Close (NewClient\<lparr>cl_phase := Dialing\<rparr>)))"
  using close_during_dial [of "NewClient\<lparr>cl_phase := Dialing\<rparr>"
      "\<lambda>i. \<lparr>ce_cancelled = False, ce_dial = None, ce_read = Inr ''tick'', ce_timer = True, ce_now = 0\<rparr>" sample_options 40]
  by (simp add: NewClient_def)

text \<open>A ping whose connection is lost is not released by that: only a pong or \<open>Close\<close> does.\<close>

lemma lost_keeps_pings:
  assumes "cl_phase c = Lost"
  shows "cl_released (Connect_step opts e c) = cl_released c \<and> cl_pongWaiters (Connect_step opts e c) = cl_pongWaiters c"
  using assms by (simp add: Connect_step_def act_if_def client_act_def)

subsection \<open>Connections that ended\<close>

lemma find_append: "List.find P (xs @ ys) = (case List.find P xs of Some x \<Rightarrow> Some x | None \<Rightarrow> List.find P ys)"
  by (induction xs) auto

text \<open>
  A client of the pool after \<open>n\<close> steps of its loop. The loop runs with the context it was started
  with: \<open>ended c j\<close> says whether the context \<open>c\<close> has ended at the loop's \<open>j\<close>-th step. A client whose
  loop was not started stays as it was made.
\<close>

definition pool_client ::
    "client_options \<Rightarrow> (nat \<Rightarrow> nat \<Rightarrow> bool) \<Rightarrow> (nat \<Rightarrow> client_env) \<Rightarrow> 'j pool \<Rightarrow> nat \<Rightarrow> nat \<Rightarrow> client" where
  "pool_client opts ended e p n i = (case map_of (pl_loops p) i of
     None \<Rightarrow> NewClient
   | Some ctx \<Rightarrow> client_run opts (\<lambda>j. (e j)\<lparr>ce_cancelled := ended ctx j\<rparr>) n NewClient)"

text \<open>A loop whose context has ended comes to its end, disconnected, within seven steps.\<close>

definition offline :: "client \<Rightarrow> bool" where
  "offline c \<longleftrightarrow> (cl_phase c \<in> {LoopTop, Dialing, Backoff, Stopped} \<longrightarrow> \<not> cl_connected c)"

definition to_stop :: "phase \<Rightarrow> nat" where
  "to_stop p = (case p of Dialing \<Rightarrow> 6 | Hooks \<Rightarrow> 5 | Reading \<Rightarrow> 4 | Lost \<Rightarrow> 3 | Backoff \<Rightarrow> 2 | LoopTop \<Rightarrow> 1 | Stopped \<Rightarrow> 0)"

lemma readLoop_phase: "cl_phase c = Reading \<Longrightarrow> cl_phase (readLoop_round opts e c) \<in> {Reading, Lost}"
  using processMessage_connection [OF refl] by (simp add: readLoop_round_def split: sum.split option.split)

lemma offline_step: "offline c \<Longrightarrow> offline (Connect_step opts e c)"
proof (cases "cl_phase c")
  case Reading
  then show ?thesis using readLoop_phase [of c opts e] by (auto simp: Connect_step_def offline_def)
qed (auto simp: offline_def Connect_step_def client_dial_def waitContextOrDone_def act_if_def client_act_def markReady_def
    split: option.split)

lemma to_stop_step: "ce_cancelled e \<Longrightarrow> to_stop (cl_phase (Connect_step opts e c)) \<le> to_stop (cl_phase c) - 1"
  by (cases "cl_phase c")
    (auto simp: to_stop_def Connect_step_def client_dial_def waitContextOrDone_def readLoop_round_def act_if_def client_act_def
      markReady_def split: option.split)

lemma ended_loop_stops:
  assumes "\<forall>j \<ge> k. ce_cancelled (e j)" "k + 6 \<le> n"
  shows "cl_phase (client_run opts e n NewClient) = Stopped \<and> \<not> cl_connected (client_run opts e n NewClient)"
proof -
  have off: "offline (client_run opts e m NewClient)" for m
  proof (induction m)
    case 0
    show ?case by (simp add: offline_def NewClient_def)
  qed (simp add: offline_step)
  have near: "to_stop (cl_phase (client_run opts e (k + m) NewClient)) \<le> 6 - m" for m
  proof (induction m)
    case 0
    show ?case by (simp add: to_stop_def split: phase.split)
  next
    case (Suc m)
    have "to_stop (cl_phase (client_run opts e (k + Suc m) NewClient)) \<le> to_stop (cl_phase (client_run opts e (k + m) NewClient)) - 1"
      using to_stop_step [of "e (k + m)"] assms(1) by simp
    with Suc.IH show ?case by simp
  qed
  have "to_stop (cl_phase (client_run opts e n NewClient)) = 0" using near [of "n - k"] assms(2) by simp
  then have "cl_phase (client_run opts e n NewClient) = Stopped" by (simp add: to_stop_def split: phase.splits)
  with off [of n] show ?thesis by (simp add: offline_def)
qed

lemma stopped_stays:
  assumes "cl_phase (client_run opts e n c) = Stopped" "n \<le> m"
  shows "client_run opts e m c = client_run opts e n c"
  using assms(2,1) by (induction m rule: dec_induct) (simp_all add: Connect_step_def)

lemma pool_client_dead:
  assumes "\<forall>ctx j. map_of (pl_loops p) i = Some ctx \<longrightarrow> k \<le> j \<longrightarrow> ended ctx j" "k + 6 \<le> n"
  shows "\<not> cl_connected (pool_client opts ended e p n i) \<and>
    (\<forall>m \<ge> n. pool_client opts ended e p m i = pool_client opts ended e p n i)"
proof (cases "map_of (pl_loops p) i")
  case None
  then show ?thesis by (simp add: pool_client_def NewClient_def)
next
  case (Some ctx)
  let ?e = "\<lambda>j. (e j)\<lparr>ce_cancelled := ended ctx j\<rparr>"
  have "\<forall>j \<ge> k. ce_cancelled (?e j)" using assms(1) Some by simp
  note stop = ended_loop_stops [OF this assms(2), of opts]
  have run: "pool_client opts ended e p m i = client_run opts ?e m NewClient" for m by (simp add: pool_client_def Some)
  show ?thesis unfolding run using stop stopped_stays [OF conjunct1 [OF stop]] by blast
qed

text \<open>
  C35: a connection that never came up is used for the next topics. The subscription that opens a
  connection starts its loop with its own context (or not at all, when that has already ended);
  when it fails, the caller gets the error and the pool keeps the client with no topics. Once the
  caller's context has ended, the client's loop comes to its end within six steps, and from then on
  the client is not connected and never changes: nothing dials it any more. The next subscription
  to the same URL is nevertheless routed to this client and answers success, because \<open>SendJSON\<close> on
  a client that is not connected answers none.
\<close>

theorem dead_connection_reused:
  assumes reach: "pool_calls url0 maxPairs p" "1 \<le> maxPairs" and new: "pl_routing p topic = None" "pl_routing p topic2 = None"
    and first: "SubscribePublicWithURL ctx cancelled ready sent url topic msg p = (Some err, p2)"
      "fst (snd (snd (subscribe_begin url topic msg p)))"
    and over: "\<forall>j \<ge> k. ended ctx j" "k + 6 \<le> n"
  shows "\<exists>p3. SubscribePublicWithURL ctx2 None ready2
        (\<lambda>i m. map_option (\<lambda>_. ''send'') (fst (SendJSON (Inr m) None (pool_client opts ended e p2 n i)))) url topic2 msg2 p2 = (None, p3) \<and>
    pl_routing p3 topic2 = Some (length (pl_targets p)) \<and> pl_loops p3 = pl_loops p2 \<and>
    \<not> cl_connected (pool_client opts ended e p2 n (length (pl_targets p))) \<and>
    (\<forall>m \<ge> n. pool_client opts ended e p2 m (length (pl_targets p)) = pool_client opts ended e p2 n (length (pl_targets p)))"
proof -
  have inv: "pool_inv p" and max: "1 \<le> pl_maxPairs p" using pool_calls_inv [OF reach] reach(2) by simp_all
  define u where "u = (if url = [] then pl_publicURL p else url)"
  let ?P = "\<lambda>q i. pl_counts q ! i < pl_maxPairs q \<and> i < length (pl_targets q) \<and> pl_targets q ! i = u"
  let ?n = "length (pl_targets p)"
  have len: "length (pl_counts p) = ?n" using inv by (simp add: pool_inv_def)
  have goc: "getOrCreatePublicClientIdx (if url = [] then pl_publicURL q else url) q =
      (case List.find (?P q) [0..<length (pl_counts q)] of Some i \<Rightarrow> (i, False, q)
       | None \<Rightarrow> (length (pl_targets q), True, q\<lparr>pl_targets := pl_targets q @ [u], pl_counts := pl_counts q @ [0]\<rparr>))"
    if "pl_publicURL q = pl_publicURL p" for q
    by (cases "url = []"; cases "pl_publicURL p = []") (simp_all add: getOrCreatePublicClientIdx_def Let_def that u_def split: option.split)
  have none: "List.find (?P p) [0..<?n] = None"
    using first(2) new(1) by (simp add: subscribe_begin_def goc len split: option.splits)
  define p1 where "p1 = p\<lparr>pl_targets := pl_targets p @ [u], pl_counts := pl_counts p @ [0]\<rparr>"
  have "getOrCreatePublicClientIdx (if url = [] then pl_publicURL p else url) p = (?n, True, p1)"
    using none by (simp add: goc p1_def len)
  then have begin1: "subscribe_begin url topic msg p = (False, ?n, True, p1\<lparr>pl_routing := (pl_routing p)(topic \<mapsto> ?n),
      pl_counts := pl_counts p @ [1], pl_subs := (pl_subs p)(topic \<mapsto> \<lparr>ps_topic = topic, ps_subscribeMsg = msg, ps_clientIdx = ?n\<rparr>)\<rparr>)"
    using new(1) by (simp add: subscribe_begin_def p1_def len nth_append list_update_append)
  define loops where "loops = (if cancelled = None then pl_loops p @ [(?n, ctx)] else pl_loops p)"
  have p2: "p2 = p\<lparr>pl_targets := pl_targets p @ [u], pl_counts := pl_counts p @ [0], pl_routing := (pl_routing p)(topic := None),
      pl_subs := (pl_subs p)(topic := None), pl_loops := loops\<rparr>"
    using first(1)
    by (cases cancelled; cases ready)
      (auto simp: SubscribePublicWithURL_def begin1 subscribe_rollback_def start_loop_def p1_def len nth_append list_update_append
        loops_def Let_def)
  have "map_of (pl_loops p) ?n = None" using inv len by (force simp: pool_inv_def map_of_eq_None_iff)
  then have "map_of (pl_loops p2) ?n = Some c \<Longrightarrow> c = ctx" for c by (auto simp: p2 loops_def map_add_def split: option.splits if_splits)
  then have dead: "\<not> cl_connected (pool_client opts ended e p2 n ?n)"
      "\<forall>m \<ge> n. pool_client opts ended e p2 m ?n = pool_client opts ended e p2 n ?n"
    using pool_client_dead [of p2 ?n k ended n opts e] over by blast+
  have "List.find (?P p2) [0..<?n] = List.find (?P p) [0..<?n]"
    by (rule find_cong) (auto simp: p2 p1_def nth_append len)
  then have "List.find (?P p2) [0..<Suc ?n] = Some ?n"
    using none max by (simp add: find_append p2 p1_def nth_append len)
  moreover have "pl_publicURL p2 = pl_publicURL p" "length (pl_counts p2) = Suc ?n" by (simp_all add: p2 p1_def len)
  ultimately have "getOrCreatePublicClientIdx (if url = [] then pl_publicURL p2 else url) p2 = (?n, False, p2)"
    using goc [of p2] by (simp del: upt_Suc)
  moreover have "pl_routing p2 topic2 = None" using new(2) by (simp add: p2)
  ultimately obtain p3 where p3: "subscribe_begin url topic2 msg2 p2 = (False, ?n, False, p3)" "pl_routing p3 topic2 = Some ?n"
      "pl_loops p3 = pl_loops p2"
    by (simp add: subscribe_begin_def)
  have "SubscribePublicWithURL ctx2 None ready2
      (\<lambda>i m. map_option (\<lambda>_. ''send'') (fst (SendJSON (Inr m) None (pool_client opts ended e p2 n i)))) url topic2 msg2 p2 =
      (None, send_public ?n msg2 p3)"
    using p3(1) dead(1) by (simp add: SubscribePublicWithURL_def SendJSON_def)
  moreover have "pl_routing (send_public ?n msg2 p3) topic2 = Some ?n" "pl_loops (send_public ?n msg2 p3) = pl_loops p2"
    using p3(2,3) by (simp_all add: send_public_def)
  ultimately show ?thesis using dead by blast
qed

theorem dead_connection_reused_witness:
  "\<exists>p2 p3. SubscribePublicWithURL 7 None (Some ''canceled'') (\<lambda>i m. None) [] ''ticker'' ''sub ticker'' (NewPoolWithURLs ''wss'' 30) = (Some ''canceled'', p2) \<and>
     pl_loops p2 = [(0, 7)] \<and>
     SubscribePublicWithURL 8 None None
       (\<lambda>i m. map_option (\<lambda>_. ''send'') (fst (SendJSON (Inr m) None (pool_client sample_options (\<lambda>c j. c = 7 \<and> 2 \<le> j) flaky_env p2 8 i))))
       [] ''depth'' ''sub depth'' p2 = (None, p3) \<and> pl_routing p3 ''depth'' = Some 0"
proof -
  let ?p = "NewPoolWithURLs ''wss'' 30 :: string pool"
  let ?r = "SubscribePublicWithURL 7 None (Some ''canceled'') (\<lambda>i m. None) [] ''ticker'' ''sub ticker'' ?p"
  have "fst ?r = Some ''canceled''" "pl_loops (snd ?r) = [(0, 7)]"
    by (simp_all add: SubscribePublicWithURL_def subscribe_begin_def getOrCreatePublicClientIdx_def NewPoolWithURLs_def
        start_loop_def subscribe_rollback_def Let_def)
  then have run: "?r = (Some ''canceled'', snd ?r)" "pl_loops (snd ?r) = [(0, 7)]" by (metis prod.collapse)+
  have "pool_calls ''wss'' 30 ?p" by (rule pool_new)
  from dead_connection_reused [OF this _ _ _ run(1), of "''depth''" 2 "\<lambda>c j. c = 7 \<and> 2 \<le> j" 8 8 None sample_options flaky_env "''sub depth''"]
  obtain p3 where "SubscribePublicWithURL 8 None None
       (\<lambda>i m. map_option (\<lambda>_. ''send'') (fst (SendJSON (Inr m) None (pool_client sample_options (\<lambda>c j. c = 7 \<and> 2 \<le> j) flaky_env (snd ?r) 8 i))))
       [] ''depth'' ''sub depth'' (snd ?r) = (None, p3)" "pl_routing p3 ''depth'' = Some 0"
    by (auto simp: NewPoolWithURLs_def subscribe_begin_def getOrCreatePublicClientIdx_def)
  with run show ?thesis by blast
qed

end
