(* ===== verification/MarketStores.thy ===== *)
theory MarketStores
  imports FundingScanner Contracts
begin

text \<open>
  The stores of market data (\<open>internal/infrastructure/store\<close>: prices, klines, depth, tickers,
  funding rates, contracts) and the cache in which the websocket adapters merge tickers and
  depth (\<open>internal/infrastructure/ws/price_cache.go\<close>). Every operation runs under its store's
  lock and is a function on the store; a pointer to a value the store keeps is its key, and what
  a reader gets is a copy. The clock and the REST answers are arguments.
\<close>

subsection \<open>The price cache\<close>

type_synonym price_map = "string \<rightharpoonup> PriceData"

definition empty_price :: "string \<Rightarrow> PriceData" where
  "empty_price smb = \<lparr>pd_Symbol = smb, pd_LastPrice = f0, pd_BestBid = f0, pd_BestAsk = f0, pd_FairPrice = f0,
     pd_Volume24 = f0, pd_UpdatedAt = 0\<rparr>"

definition cached :: "string \<Rightarrow> price_map \<Rightarrow> PriceData" where
  "cached smb c = (case c smb of Some pd \<Rightarrow> pd | None \<Rightarrow> empty_price smb)"

definition if_pos :: "float64 \<Rightarrow> float64 \<Rightarrow> float64" where
  "if_pos new old = (if f_pos new then new else old)"

definition mid_price :: "PriceData \<Rightarrow> float64" where
  "mid_price pd = f_mul (FFin (1/2)) (f_add (pd_BestBid pd) (pd_BestAsk pd))"

definition has_book :: "PriceData \<Rightarrow> bool" where
  "has_book pd \<longleftrightarrow> f_pos (pd_BestBid pd) \<and> f_pos (pd_BestAsk pd)"

definition cache_UpdateTicker :: "gtime \<Rightarrow> string \<Rightarrow> float64 \<Rightarrow> float64 \<Rightarrow> float64 \<Rightarrow> price_map \<Rightarrow> PriceData \<times> price_map" where
  "cache_UpdateTicker now smb lastPrice fairPrice volume24 c =
     (let pd0 = cached smb c;
          pd1 = (if f_pos lastPrice then pd0\<lparr>pd_LastPrice := lastPrice,
                   pd_BestBid := (if f_eq (pd_BestBid pd0) f0 then lastPrice else pd_BestBid pd0),
                   pd_BestAsk := (if f_eq (pd_BestAsk pd0) f0 then lastPrice else pd_BestAsk pd0)\<rparr> else pd0);
          pd2 = (if f_pos fairPrice then pd1\<lparr>pd_FairPrice := fairPrice\<rparr>
                 else if has_book pd1 then pd1\<lparr>pd_FairPrice := mid_price pd1\<rparr> else pd1);
          pd3 = pd2\<lparr>pd_Volume24 := if_pos volume24 (pd_Volume24 pd2)\<rparr>;
          pd4 = (if f_eq (pd_LastPrice pd3) f0 \<and> f_pos (pd_FairPrice pd3) then pd3\<lparr>pd_LastPrice := pd_FairPrice pd3\<rparr> else pd3);
          pd = pd4\<lparr>pd_UpdatedAt := now\<rparr>
      in (pd, c(smb \<mapsto> pd)))"

definition with_book :: "float64 \<Rightarrow> float64 \<Rightarrow> PriceData \<Rightarrow> PriceData" where
  "with_book bid ask pd = pd\<lparr>pd_BestBid := if_pos bid (pd_BestBid pd), pd_BestAsk := if_pos ask (pd_BestAsk pd)\<rparr>"

definition cache_UpdateDepth :: "gtime \<Rightarrow> string \<Rightarrow> float64 \<Rightarrow> float64 \<Rightarrow> price_map \<Rightarrow> PriceData \<times> price_map" where
  "cache_UpdateDepth now smb bid ask c =
     (let pd = (with_book bid ask (cached smb c))\<lparr>pd_UpdatedAt := now\<rparr> in (pd, c(smb \<mapsto> pd)))"

definition UpdateDepthAndMidPrice :: "gtime \<Rightarrow> string \<Rightarrow> float64 \<Rightarrow> float64 \<Rightarrow> price_map \<Rightarrow> PriceData \<times> price_map" where
  "UpdateDepthAndMidPrice now smb bid ask c =
     (let pd1 = with_book bid ask (cached smb c);
          pd2 = (if has_book pd1 then pd1\<lparr>pd_FairPrice := mid_price pd1\<rparr> else pd1);
          pd = pd2\<lparr>pd_UpdatedAt := now\<rparr>
      in (pd, c(smb \<mapsto> pd)))"

subsection \<open>Prices\<close>

text \<open>A subscriber's channel has room for one price; \<open>pr_chan\<close> holds what is in it.\<close>

record price_store =
  pr_prices :: price_map
  pr_subscribers :: "string \<Rightarrow> nat list"
  pr_chan :: "nat \<Rightarrow> PriceData option"
  pr_next :: nat

definition NewPriceStore :: price_store where
  "NewPriceStore = \<lparr>pr_prices = Map.empty, pr_subscribers = (\<lambda>_. []), pr_chan = (\<lambda>_. None), pr_next = 0\<rparr>"

definition merge_price :: "PriceData \<Rightarrow> PriceData \<Rightarrow> PriceData" where
  "merge_price d e = e\<lparr>pd_LastPrice := if_pos (pd_LastPrice d) (pd_LastPrice e), pd_BestBid := if_pos (pd_BestBid d) (pd_BestBid e),
     pd_BestAsk := if_pos (pd_BestAsk d) (pd_BestAsk e), pd_FairPrice := if_pos (pd_FairPrice d) (pd_FairPrice e),
     pd_Volume24 := if_pos (pd_Volume24 d) (pd_Volume24 e), pd_UpdatedAt := pd_UpdatedAt d\<rparr>"

text \<open>A full channel keeps the price it has: the send's default branch.\<close>

definition offer_price :: "PriceData \<Rightarrow> nat \<Rightarrow> (nat \<Rightarrow> PriceData option) \<Rightarrow> nat \<Rightarrow> PriceData option" where
  "offer_price pd ch chans = (if chans ch = None then chans(ch := Some pd) else chans)"

definition UpdatePrice :: "gtime \<Rightarrow> string \<Rightarrow> PriceData option \<Rightarrow> price_store \<Rightarrow> price_store" where
  "UpdatePrice now smb data s = (case data of
     None \<Rightarrow> s
   | Some d0 \<Rightarrow>
       (let d1 = (if pd_Symbol d0 = [] then d0\<lparr>pd_Symbol := smb\<rparr> else d0);
            d = (if is_zero_time (pd_UpdatedAt d1) then d1\<lparr>pd_UpdatedAt := now\<rparr> else d1);
            snapshot = (case pr_prices s smb of Some e \<Rightarrow> merge_price d e | None \<Rightarrow> d)
        in s\<lparr>pr_prices := (pr_prices s)(smb \<mapsto> snapshot), pr_chan := fold (offer_price snapshot) (pr_subscribers s smb) (pr_chan s)\<rparr>))"

definition price_SubscribePrice :: "string \<Rightarrow> price_store \<Rightarrow> nat \<times> price_store" where
  "price_SubscribePrice smb s = (pr_next s, s\<lparr>pr_subscribers := (pr_subscribers s)(smb := pr_subscribers s smb @ [pr_next s]),
     pr_next := Suc (pr_next s)\<rparr>)"

text \<open>When its context ends.\<close>

definition price_unsubscribe :: "string \<Rightarrow> nat \<Rightarrow> price_store \<Rightarrow> price_store" where
  "price_unsubscribe smb ch s = s\<lparr>pr_subscribers := (pr_subscribers s)(smb := filter (\<lambda>c. c \<noteq> ch) (pr_subscribers s smb))\<rparr>"

datatype store_error = NotFound string | Stale string duration | InvalidSettleTime string int

definition price_GetPrice :: "gtime \<Rightarrow> string \<Rightarrow> duration \<Rightarrow> price_store \<Rightarrow> PriceData option \<times> store_error option" where
  "price_GetPrice now smb maxAge s = (case pr_prices s smb of
     None \<Rightarrow> (None, Some (NotFound smb))
   | Some pd \<Rightarrow> (let age = now - pd_UpdatedAt pd in (Some pd, if maxAge < age then Some (Stale smb age) else None)))"

definition price_GetBestBidAsk :: "string \<Rightarrow> price_store \<Rightarrow> store_error + float64 \<times> float64" where
  "price_GetBestBidAsk smb s = (case pr_prices s smb of
     None \<Rightarrow> Inl (NotFound smb) | Some pd \<Rightarrow> Inr (pd_BestBid pd, pd_BestAsk pd))"

definition PriceAge :: "gtime \<Rightarrow> string \<Rightarrow> price_store \<Rightarrow> duration" where
  "PriceAge now smb s = (case pr_prices s smb of None \<Rightarrow> 60 * minute * 24 * 365 | Some pd \<Rightarrow> now - pd_UpdatedAt pd)"

subsection \<open>Klines\<close>

record Kline =
  kl_Timestamp :: int
  kl_Open :: float64
  kl_Close :: float64
  kl_High :: float64
  kl_Low :: float64
  kl_Volume :: float64
  kl_Amount :: float64

record kline_buffer =
  kb_klines :: "Kline list"
  kb_maxLen :: int

definition NewKlineBuffer :: "int \<Rightarrow> kline_buffer" where
  "NewKlineBuffer maxLen = \<lparr>kb_klines = [], kb_maxLen = maxLen\<rparr>"

definition kline_Add :: "Kline \<Rightarrow> kline_buffer \<Rightarrow> kline_buffer" where
  "kline_Add k b =
     (let ks = kb_klines b; n = length ks in
      if 0 < n \<and> kl_Timestamp k = kl_Timestamp (ks ! (n - 1)) then b\<lparr>kb_klines := ks[n - 1 := k]\<rparr>
      else if 0 < n \<and> kl_Timestamp k < kl_Timestamp (ks ! (n - 1)) then b
      else let new = ks @ [k] in b\<lparr>kb_klines := (if kb_maxLen b < int (length new) then drop 1 new else new)\<rparr>)"

type_synonym kline_store = "string \<rightharpoonup> kline_buffer"

definition InitKlines :: "string \<Rightarrow> int \<Rightarrow> Kline list \<Rightarrow> kline_store \<Rightarrow> kline_store" where
  "InitKlines smb maxLen initial s = s(smb \<mapsto> fold kline_Add initial (NewKlineBuffer maxLen))"

definition AddKline :: "string \<Rightarrow> Kline \<Rightarrow> kline_store \<Rightarrow> kline_store" where
  "AddKline smb k s = s(smb \<mapsto> kline_Add k (case s smb of Some b \<Rightarrow> b | None \<Rightarrow> NewKlineBuffer 50))"

definition GetKlines :: "string \<Rightarrow> kline_store \<Rightarrow> Kline list" where
  "GetKlines smb s = (case s smb of Some b \<Rightarrow> kb_klines b | None \<Rightarrow> [])"

subsection \<open>Depth\<close>

text \<open>The copy has no first version and no timestamp.\<close>

definition cloneOrderBook :: "OrderBook \<Rightarrow> OrderBook" where
  "cloneOrderBook ob = \<lparr>ob_Symbol = ob_Symbol ob, FirstVersion = 0, Version = Version ob, ob_Timestamp = 0, Asks = Asks ob, Bids = Bids ob\<rparr>"

type_synonym book_store = "string \<rightharpoonup> OrderBook"

definition store_UpdateDepth :: "string \<Rightarrow> OrderBook option \<Rightarrow> book_store \<Rightarrow> book_store" where
  "store_UpdateDepth smb ob s = (case ob of None \<Rightarrow> s | Some b \<Rightarrow> s(smb \<mapsto> cloneOrderBook b))"

definition DeleteDepth :: "string \<Rightarrow> book_store \<Rightarrow> book_store" where
  "DeleteDepth smb s = s(smb := None)"

definition GetDepth :: "string \<Rightarrow> book_store \<Rightarrow> store_error + OrderBook" where
  "GetDepth smb s = (case s smb of None \<Rightarrow> Inl (NotFound smb) | Some b \<Rightarrow> Inr (cloneOrderBook b))"

subsection \<open>Tickers, funding rates, contracts\<close>

text \<open>Each store is its map and whether its first synchronisation has succeeded.\<close>

record 'a synced =
  sy_data :: "string \<rightharpoonup> 'a"
  sy_ready :: bool

definition new_synced :: "'a synced" where
  "new_synced = \<lparr>sy_data = Map.empty, sy_ready = False\<rparr>"

definition synced_get :: "string \<Rightarrow> 'a synced \<Rightarrow> store_error + 'a" where
  "synced_get smb s = (case sy_data s smb of None \<Rightarrow> Inl (NotFound smb) | Some x \<Rightarrow> Inr x)"

definition TickerDataFromExchange :: "gtime \<Rightarrow> Ticker \<Rightarrow> TickerData" where
  "TickerDataFromExchange now t =
     (let amt = (if f_eq (tk_AmountUSDT24 t) f0 \<and> f_pos (tk_Volume24 t) \<and> f_pos (tk_LastPrice t)
                 then f_mul (tk_Volume24 t) (tk_LastPrice t) else tk_AmountUSDT24 t)
      in \<lparr>td_Symbol = tk_Symbol t, td_Volume24 = tk_Volume24 t, td_AmountUSDT24 = amt, td_LastPrice = tk_LastPrice t,
          td_BestBid = tk_Bid1 t, td_BestAsk = tk_Ask1 t, td_UpdatedAt = now\<rparr>)"

definition syncTickers :: "(Ticker \<Rightarrow> gtime) \<Rightarrow> string + Ticker list \<Rightarrow> TickerData synced \<Rightarrow> TickerData synced" where
  "syncTickers clock answer s = (case answer of
     Inl err \<Rightarrow> s
   | Inr tickers \<Rightarrow> s\<lparr>sy_data := fold (\<lambda>t m. m(tk_Symbol t \<mapsto> TickerDataFromExchange (clock t) t)) tickers (sy_data s), sy_ready := True\<rparr>)"

record FundingData =
  fd_Symbol :: string
  fd_FundingRate :: float64
  fd_NextSettleTime :: int
  fd_MaxFundingRate :: float64
  fd_MinFundingRate :: float64
  fd_CollectCycle :: int
  fd_UpdatedAt :: gtime

definition fundingData :: "gtime \<Rightarrow> PotentialFundingResult \<Rightarrow> FundingData" where
  "fundingData now r = \<lparr>fd_Symbol = pf_Symbol r, fd_FundingRate = pf_Rate r, fd_NextSettleTime = pf_SettleTime r,
     fd_MaxFundingRate = f0, fd_MinFundingRate = f0, fd_CollectCycle = 0, fd_UpdatedAt = now\<rparr>"

definition syncFunding ::
    "(PotentialFundingResult \<Rightarrow> gtime) \<Rightarrow> string list \<Rightarrow> string + PotentialFundingResult list \<Rightarrow> FundingData synced \<Rightarrow> FundingData synced" where
  "syncFunding clock symbols answer s = (case answer of
     Inl err \<Rightarrow> s
   | Inr results \<Rightarrow> s\<lparr>sy_data := fold (\<lambda>r m. if symbols = [] \<or> pf_Symbol r \<in> set symbols
         then m(pf_Symbol r \<mapsto> fundingData (clock r) r) else m) results (sy_data s), sy_ready := True\<rparr>)"

definition GetSettleTime :: "string \<Rightarrow> FundingData synced \<Rightarrow> store_error + gtime" where
  "GetSettleTime smb s = (case sy_data s smb of
     None \<Rightarrow> Inl (NotFound smb)
   | Some fd \<Rightarrow> if fd_NextSettleTime fd \<le> 0 then Inl (InvalidSettleTime smb (fd_NextSettleTime fd))
       else Inr (unix_milli (fd_NextSettleTime fd)))"

definition syncContracts :: "string + ContractDetail list \<Rightarrow> ContractData synced \<Rightarrow> ContractData synced" where
  "syncContracts answer s = (case answer of
     Inl err \<Rightarrow> s
   | Inr details \<Rightarrow> s\<lparr>sy_data := fold (\<lambda>d m. m(cd_Symbol d \<mapsto> d)) details (sy_data s), sy_ready := True\<rparr>)"

subsection \<open>The kline window\<close>

text \<open>The log without a limit: the last kline is replaced or followed, never preceded.\<close>

definition kline_log :: "Kline list \<Rightarrow> Kline list" where
  "kline_log ks = fold (\<lambda>k log.
     if log \<noteq> [] \<and> kl_Timestamp k = kl_Timestamp (List.last log) then butlast log @ [k]
     else if log \<noteq> [] \<and> kl_Timestamp k < kl_Timestamp (List.last log) then log else log @ [k]) ks []"

definition newest :: "nat \<Rightarrow> 'a list \<Rightarrow> 'a list" where
  "newest n xs = drop (length xs - n) xs"

lemma newest_snoc:
  assumes "0 < n"
  shows "newest n (xs @ [x]) = (if n < Suc (length (newest n xs)) then drop 1 (newest n xs @ [x]) else newest n xs @ [x])"
proof (cases "length xs < n")
  case False
  then have "length (newest n xs) = n" by (simp add: newest_def)
  moreover have "newest n (xs @ [x]) = drop (Suc (length xs - n)) xs @ [x]"
    using False assms by (simp add: newest_def Suc_diff_le)
  moreover have "drop 1 (newest n xs) = drop (Suc (length xs - n)) xs" by (simp add: newest_def)
  ultimately show ?thesis using assms by simp
qed (simp add: newest_def)

lemma newest_replace: "xs \<noteq> [] \<Longrightarrow> newest n (butlast xs @ [x]) = (if n = 0 then [] else butlast (newest n xs) @ [x])"
  by (cases xs rule: rev_cases) (auto simp: newest_def butlast_append)

lemma newest_last: "xs \<noteq> [] \<Longrightarrow> 0 < n \<Longrightarrow> newest n xs \<noteq> [] \<and> List.last (newest n xs) = List.last xs"
proof -
  assume "xs \<noteq> []" "0 < n"
  then have "length xs - n < length xs" by (cases xs) auto
  then show ?thesis by (simp add: newest_def last_drop)
qed

lemma update_last: "xs \<noteq> [] \<Longrightarrow> xs[length xs - Suc 0 := x] = butlast xs @ [x]"
  by (cases xs rule: rev_cases) auto

lemma kline_log_snoc:
  "kline_log (ks @ [k]) = (let log = kline_log ks in
     if log \<noteq> [] \<and> kl_Timestamp k = kl_Timestamp (List.last log) then butlast log @ [k]
     else if log \<noteq> [] \<and> kl_Timestamp k < kl_Timestamp (List.last log) then log else log @ [k])"
  by (simp add: kline_log_def Let_def)

lemma kline_log_sorted: "sorted_wrt (<) (map kl_Timestamp (kline_log ks))"
proof (induction ks rule: rev_induct)
  case Nil
  show ?case by (simp add: kline_log_def)
next
  case (snoc k ks)
  show ?case
  proof (cases "kline_log ks" rule: rev_cases)
    case Nil
    then show ?thesis by (simp add: kline_log_snoc Let_def)
  next
    case (snoc log l)
    with snoc.IH show ?thesis by (auto simp: kline_log_snoc Let_def sorted_wrt_append)
  qed
qed

lemma kline_window:
  assumes "0 < m"
  shows "fold kline_Add ks (NewKlineBuffer m) = \<lparr>kb_klines = newest (nat m) (kline_log ks), kb_maxLen = m\<rparr>"
proof (induction ks rule: rev_induct)
  case Nil
  show ?case by (simp add: NewKlineBuffer_def kline_log_def newest_def)
next
  case (snoc k ks)
  let ?log = "kline_log ks" and ?n = "nat m"
  let ?ks = "newest ?n ?log"
  have m: "0 < ?n" "m = int ?n" using assms by simp_all
  have ne: "?ks = [] \<longleftrightarrow> ?log = []" using newest_last [of ?log ?n] m by (cases "?log = []") (simp_all add: newest_def)
  have lst: "?log \<noteq> [] \<Longrightarrow> ?ks ! (length ?ks - 1) = List.last ?log"
    using newest_last [of ?log ?n] m(1) by (metis last_conv_nth)
  have add: "kline_Add k \<lparr>kb_klines = ?ks, kb_maxLen = m\<rparr> = \<lparr>kb_klines =
      (if ?log \<noteq> [] \<and> kl_Timestamp k = kl_Timestamp (List.last ?log) then butlast ?ks @ [k]
       else if ?log \<noteq> [] \<and> kl_Timestamp k < kl_Timestamp (List.last ?log) then ?ks
       else if ?n < Suc (length ?ks) then drop 1 (?ks @ [k]) else ?ks @ [k]), kb_maxLen = m\<rparr>"
    using ne lst m by (cases "?log = []") (auto simp: kline_Add_def Let_def update_last)
  show ?case
    unfolding fold_append comp_apply snoc.IH fold_simps add kline_log_snoc Let_def
    using newest_snoc [OF m(1), of ?log k] newest_replace [of ?log ?n k] m(1)
    by (cases "?log = []") (simp_all add: newest_def)
qed

text \<open>
  The kline buffer is the newest part of the history. After any sequence of pushes, late and
  repeated ones included, the buffer of a symbol holds exactly the newest \<open>maxLen\<close> entries of
  the unlimited log in which a push of the last timestamp replaces the last entry and an older
  one is dropped; its timestamps strictly increase.
\<close>

lemma klines_newest:
  assumes "0 < maxLen"
  shows "GetKlines smb (fold (AddKline smb) pushes (InitKlines smb maxLen initial s)) = newest (nat maxLen) (kline_log (initial @ pushes)) \<and>
    sorted_wrt (<) (map kl_Timestamp (GetKlines smb (fold (AddKline smb) pushes (InitKlines smb maxLen initial s))))"
proof -
  have "fold (AddKline smb) ks s1 smb = Some (fold kline_Add ks b)" if "s1 smb = Some b" for ks s1 b
    using that by (induction ks arbitrary: s1 b) (simp_all add: AddKline_def)
  then have "fold (AddKline smb) pushes (InitKlines smb maxLen initial s) smb = Some (fold kline_Add (initial @ pushes) (NewKlineBuffer maxLen))"
    by (simp add: InitKlines_def)
  then have get: "GetKlines smb (fold (AddKline smb) pushes (InitKlines smb maxLen initial s)) = newest (nat maxLen) (kline_log (initial @ pushes))"
    unfolding kline_window [OF assms] by (simp add: GetKlines_def)
  show ?thesis unfolding get
    by (simp add: newest_def drop_map [symmetric] sorted_wrt_drop kline_log_sorted)
qed

definition sample_kline :: "int \<Rightarrow> rat \<Rightarrow> Kline" where
  "sample_kline t p = \<lparr>kl_Timestamp = t, kl_Open = FFin p, kl_Close = FFin p, kl_High = FFin p, kl_Low = FFin p,
     kl_Volume = f0, kl_Amount = f0\<rparr>"

lemma klines_newest_witness:
  "GetKlines ''BTC'' (fold (AddKline ''BTC'') [sample_kline 2 7, sample_kline 1 9, sample_kline 3 8]
     (InitKlines ''BTC'' 2 [sample_kline 1 5, sample_kline 2 6] Map.empty)) = [sample_kline 2 7, sample_kline 3 8]"
proof -
  have "newest (nat 2) (kline_log ([sample_kline 1 5, sample_kline 2 6] @ [sample_kline 2 7, sample_kline 1 9, sample_kline 3 8]))
      = [sample_kline 2 7, sample_kline 3 8]" by (simp add: newest_def kline_log_def sample_kline_def)
  with klines_newest [of 2 "''BTC''" "[sample_kline 2 7, sample_kline 1 9, sample_kline 3 8]" "[sample_kline 1 5, sample_kline 2 6]" Map.empty]
  show ?thesis by simp
qed

subsection \<open>Prices from a ticker alone\<close>

text \<open>The ticks of one symbol, each with its price, volume and instant, and without a fair price.\<close>

definition feed_ticks :: "string \<Rightarrow> (float64 \<times> float64 \<times> gtime) list \<Rightarrow> price_map \<Rightarrow> price_map" where
  "feed_ticks smb ticks c = fold (\<lambda>(p, v, t) c. snd (cache_UpdateTicker t smb p f0 v c)) ticks c"

lemma tick_pinned:
  assumes "c smb = Some pd" "f_pos (pd_BestBid pd)" "f_pos (pd_BestAsk pd)" "f_pos p"
  shows "\<exists>pd'. snd (cache_UpdateTicker t smb p f0 v c) smb = Some pd' \<and> pd_BestBid pd' = pd_BestBid pd \<and> pd_BestAsk pd' = pd_BestAsk pd \<and>
    pd_LastPrice pd' = p \<and> pd_FairPrice pd' = mid_price pd \<and> pd_UpdatedAt pd' = t \<and> pd_Symbol pd' = pd_Symbol pd"
proof -
  have ne: "\<not> f_eq (pd_BestBid pd) f0" "\<not> f_eq (pd_BestAsk pd) f0" "\<not> f_eq p f0"
    using assms(2-4) f_lt_not_eq f_eq_sym unfolding f_pos_def by blast+
  then show ?thesis using assms
    by (simp add: cache_UpdateTicker_def cached_def Let_def has_book_def mid_price_def)
qed

lemma first_tick:
  assumes "c smb = None" "f_pos p"
  shows "\<exists>pd'. snd (cache_UpdateTicker t smb p f0 v c) smb = Some pd' \<and> pd_BestBid pd' = p \<and> pd_BestAsk pd' = p \<and>
    pd_LastPrice pd' = p \<and> pd_FairPrice pd' = mid_price (pd'\<lparr>pd_BestBid := p, pd_BestAsk := p\<rparr>) \<and> pd_UpdatedAt pd' = t"
proof -
  have "\<not> f_eq p f0" using assms(2) f_lt_not_eq f_eq_sym unfolding f_pos_def by blast
  then show ?thesis using assms
    by (simp add: cache_UpdateTicker_def cached_def Let_def empty_price_def has_book_def mid_price_def)
qed

text \<open>
  C38: prices from a ticker alone pin the book to the first tick. When an exchange feeds the cache
  with tickers only (no depth, no fair price), the best bid and the best ask stay the first
  price ever seen and the fair price stays their middle, however far the last price moves, while
  the entry's time is that of the last tick, so that no age check finds it stale.
\<close>

theorem ticker_pins_book:
  assumes "c smb = None" "f_pos p" "\<forall>(q, w, u) \<in> set ticks. f_pos q"
  shows "\<exists>pd. feed_ticks smb ((p, v, t) # ticks) c smb = Some pd \<and> pd_BestBid pd = p \<and> pd_BestAsk pd = p \<and>
    pd_FairPrice pd = f_mul (FFin (1/2)) (f_add p p) \<and> pd_LastPrice pd = fst (List.last ((p, v, t) # ticks)) \<and>
    pd_UpdatedAt pd = snd (snd (List.last ((p, v, t) # ticks)))"
  using assms(3)
proof (induction ticks rule: rev_induct)
  case Nil
  show ?case using first_tick [of c smb p t v] assms(1,2) by (auto simp: feed_ticks_def mid_price_def)
next
  case (snoc x ticks)
  obtain q w u where x: "x = (q, w, u)" by (cases x)
  obtain pd where pd: "feed_ticks smb ((p, v, t) # ticks) c smb = Some pd" "pd_BestBid pd = p" "pd_BestAsk pd = p" using snoc by auto
  have "f_pos q" using snoc.prems by (simp add: x)
  from tick_pinned [of "feed_ticks smb ((p, v, t) # ticks) c" smb pd q u w] this pd assms(2) show ?case by (auto simp: feed_ticks_def x mid_price_def)
qed

theorem ticker_pins_book_witness:
  "\<exists>pd. feed_ticks ''BTC'' [(FFin 100, f0, 5), (FFin 50, f0, 6)] Map.empty ''BTC'' = Some pd \<and> pd_BestBid pd = FFin 100 \<and>
     pd_LastPrice pd = FFin 50 \<and> pd_UpdatedAt pd = 6"
  using ticker_pins_book [of Map.empty "''BTC''" "FFin 100" "[(FFin 50, f0, 6)]" f0 5] by auto

end
