(* ===== verification/TimeSync.thy ===== *)
theory TimeSync
  imports RttStats FundingScanner
begin

text \<open>
  \<open>internal/infrastructure/timesync/sync.go\<close>: the estimate of the exchange's clock, its latency
  statistics and the wait for an instant; and \<open>pkg/ticker/ticker.go\<close>'s jittered interval.
  Every reading of the clock and every answer of the exchange is an argument. A nil receiver is
  the option's \<open>None\<close>.
\<close>

subsection \<open>Milliseconds\<close>

definition UnixMilli :: "gtime \<Rightarrow> int" where
  "UnixMilli t = (t - 62135596800 * second) div millisecond"

lemma unix_milli_UnixMilli: "unix_milli (UnixMilli t) \<le> t \<and> t < unix_milli (UnixMilli t) + millisecond"
proof -
  let ?d = "t - 62135596800 * second"
  have "?d div millisecond * millisecond = ?d - ?d mod millisecond" by (simp only: minus_mod_eq_div_mult)
  moreover have "0 \<le> ?d mod millisecond" "?d mod millisecond < millisecond" by simp_all
  ultimately show ?thesis unfolding unix_milli_def UnixMilli_def by linarith
qed

subsection \<open>Synchronising\<close>

record rtt_sample =
  rs_rtt :: int
  rs_at :: gtime

record time_sync =
  ts_offset :: int
  ts_httpLatency :: int
  ts_httpMinRTT :: int
  ts_httpMedianRTT :: int
  ts_httpSamples :: "rtt_sample list"
  ts_lastSync :: gtime
  ts_healthy :: bool
  ts_interval :: duration
  ts_ready :: bool

definition new_timesync :: "duration \<Rightarrow> time_sync" where
  "new_timesync interval = \<lparr>ts_offset = 0, ts_httpLatency = 0, ts_httpMinRTT = 0, ts_httpMedianRTT = 0, ts_httpSamples = [],
     ts_lastSync = 0, ts_healthy = False, ts_interval = interval, ts_ready = False\<rparr>"

definition alpha :: float64 where
  "alpha = f64_of_rat (3 / 10)"

definition ema :: "int \<Rightarrow> int \<Rightarrow> int" where
  "ema offset newOffset = f_to_i64 (f_add (f_mul (f_of_int offset) (f_sub (FFin 1) alpha)) (f_mul (f_of_int newOffset) alpha))"

definition updateHTTPSamples :: "int \<Rightarrow> gtime \<Rightarrow> time_sync \<Rightarrow> time_sync" where
  "updateHTTPSamples rttMs now ts =
     (let samples = dropWhile (\<lambda>s. rs_at s < now - 60 * second) (ts_httpSamples ts @ [\<lparr>rs_rtt = rttMs, rs_at = now\<rparr>]);
          rtts = map rs_rtt samples
      in ts\<lparr>ts_httpSamples := samples, ts_httpMinRTT := rtt_min rttMs rtts, ts_httpMedianRTT := rtt_median rtts\<rparr>)"

text \<open>The clock before and after the request, the exchange's answer, the clock after that.\<close>

definition syncOnce :: "gtime \<Rightarrow> string + int \<Rightarrow> gtime \<Rightarrow> gtime \<Rightarrow> time_sync \<Rightarrow> time_sync" where
  "syncOnce localBefore answer localAfter now ts = (case answer of
     Inl err \<Rightarrow> ts\<lparr>ts_healthy := False\<rparr>
   | Inr serverTime \<Rightarrow>
       (let rttDur = localAfter - localBefore;
            rttMs = go_quot rttDur millisecond;
            localMid = localBefore + go_quot rttDur 2;
            newOffset = i64 (serverTime - UnixMilli localMid);
            ts1 = ts\<lparr>ts_offset := (if is_zero_time (ts_lastSync ts) then newOffset else ema (ts_offset ts) newOffset),
                     ts_httpLatency := rttMs, ts_lastSync := now, ts_healthy := rttMs < 100\<rparr>
        in (updateHTTPSamples rttMs now ts1)\<lparr>ts_ready := True\<rparr>))"

definition sync_GetServerTime :: "gtime \<Rightarrow> time_sync option \<Rightarrow> int" where
  "sync_GetServerTime now ts = (case ts of None \<Rightarrow> UnixMilli now | Some s \<Rightarrow> i64 (UnixMilli now + ts_offset s))"

definition sync_Offset :: "time_sync option \<Rightarrow> int" where
  "sync_Offset ts = (case ts of None \<Rightarrow> 0 | Some s \<Rightarrow> ts_offset s)"

definition IsHealthy :: "gtime \<Rightarrow> time_sync option \<Rightarrow> bool" where
  "IsHealthy now ts = (case ts of
     None \<Rightarrow> False
   | Some s \<Rightarrow> ts_healthy s \<and> now - ts_lastSync s < max (ts_interval s * 3) (30 * second))"

definition MsUntilTarget :: "gtime \<Rightarrow> int \<Rightarrow> time_sync option \<Rightarrow> int" where
  "MsUntilTarget now targetServerTimeMs ts = i64 (targetServerTimeMs - sync_GetServerTime now ts)"

definition sync_Now :: "gtime \<Rightarrow> time_sync option \<Rightarrow> gtime" where
  "sync_Now now ts = unix_milli (sync_GetServerTime now ts)"

definition sync_Until :: "gtime \<Rightarrow> gtime \<Rightarrow> time_sync option \<Rightarrow> duration" where
  "sync_Until now target ts = (case ts of
     None \<Rightarrow> target - now
   | Some s \<Rightarrow> i64 (i64 (UnixMilli target - sync_GetServerTime now ts) * millisecond))"

subsection \<open>Latency\<close>

datatype trade_mode = TradeModeHTTP | TradeModeWS | TradeModeOther string

text \<open>A websocket executor: its latency, and the minimum and last one when it offers them.\<close>

record ws_executor =
  we_ready :: bool
  we_latency :: int
  we_min :: "int option"
  we_last :: "int option"

text \<open>The client's mode and executor, when it has a configurable trade mode.\<close>

type_synonym mode_client = "(trade_mode \<times> ws_executor option) option"

definition ready_executor :: "mode_client \<Rightarrow> ws_executor option" where
  "ready_executor cl = (case cl of Some (m, Some e) \<Rightarrow> (if we_ready e then Some e else None) | _ \<Rightarrow> None)"

definition WSLatencyMs :: "mode_client \<Rightarrow> int" where
  "WSLatencyMs cl = (case ready_executor cl of Some e \<Rightarrow> we_latency e | None \<Rightarrow> -1)"

definition WSMinRTTMs :: "mode_client \<Rightarrow> int" where
  "WSMinRTTMs cl = (case ready_executor cl of
     Some e \<Rightarrow> (case we_min e of Some x \<Rightarrow> x | None \<Rightarrow> we_latency e) | None \<Rightarrow> -1)"

definition WSLastLatencyMs :: "mode_client \<Rightarrow> int" where
  "WSLastLatencyMs cl = (case ready_executor cl of
     Some e \<Rightarrow> (case we_last e of Some x \<Rightarrow> x | None \<Rightarrow> we_latency e) | None \<Rightarrow> -1)"

definition HTTPLatencyMs :: "time_sync \<Rightarrow> int" where
  "HTTPLatencyMs s = (if 0 < ts_httpMedianRTT s then ts_httpMedianRTT s
     else if 0 < ts_httpMinRTT s then ts_httpMinRTT s else ts_httpLatency s)"

definition client_mode :: "mode_client \<Rightarrow> trade_mode" where
  "client_mode cl = (case cl of Some (m, e) \<Rightarrow> m | None \<Rightarrow> TradeModeHTTP)"

definition LatencyForMode :: "trade_mode \<Rightarrow> mode_client \<Rightarrow> time_sync option \<Rightarrow> int" where
  "LatencyForMode mode cl ts = (case ts of
     None \<Rightarrow> 0
   | Some s \<Rightarrow> if mode = TradeModeWS \<and> 0 \<le> WSLatencyMs cl then WSLatencyMs cl else HTTPLatencyMs s)"

definition sync_LatencyMs :: "mode_client \<Rightarrow> time_sync option \<Rightarrow> int" where
  "sync_LatencyMs cl ts = LatencyForMode (client_mode cl) cl ts"

definition MinRTTMs :: "mode_client \<Rightarrow> time_sync option \<Rightarrow> int" where
  "MinRTTMs cl ts = (case ts of
     None \<Rightarrow> 0
   | Some s \<Rightarrow> if client_mode cl = TradeModeWS \<and> 0 \<le> WSMinRTTMs cl then WSMinRTTMs cl else ts_httpMinRTT s)"

subsection \<open>Waiting\<close>

text \<open>
  The readings of one round of the wait: the context's error, the local clock and the offset, and,
  should the round end in the spin loop, the offset that loop reads once more and its own readings.
\<close>

record wait_round =
  wr_cancelled :: "string option"
  wr_now :: gtime
  wr_sync :: "time_sync option"
  wr_sleep_cancelled :: "string option"
  wr_spin_sync :: "time_sync option"
  wr_spin :: "(string option \<times> gtime) list"

text \<open>Spinning, until the readings are used up (\<open>None\<close>): the error, or the clock at the return.\<close>

fun spin_wait :: "gtime \<Rightarrow> (string option \<times> gtime) list \<Rightarrow> (string + gtime) option" where
  "spin_wait targetLocal [] = None"
| "spin_wait targetLocal ((Some e, now) # rs) = Some (Inl e)"
| "spin_wait targetLocal ((None, now) # rs) = (if targetLocal \<le> now then Some (Inr now) else spin_wait targetLocal rs)"

definition spinWaitUntil :: "gtime \<Rightarrow> time_sync option \<Rightarrow> (string option \<times> gtime) list \<Rightarrow> (string + gtime) option" where
  "spinWaitUntil target ts rs = spin_wait (target + i64 (i64 (- sync_Offset ts) * millisecond)) rs"

definition currentTime :: "gtime \<Rightarrow> time_sync option \<Rightarrow> gtime" where
  "currentTime now ts = (case ts of Some s \<Rightarrow> sync_Now now ts | None \<Rightarrow> now)"

abbreviation leadTime :: duration where "leadTime \<equiv> 3 * millisecond"

text \<open>How a wait ends without an error: at the reading of a round, at one of its spin loop, or with
  the sleeper, when it was asked for that duration (which it is not when that is not positive).\<close>

datatype wait_end = AtRound wait_round gtime | AtSpin wait_round gtime | BySleeper duration

fun wait_loop :: "gtime \<Rightarrow> wait_round list \<Rightarrow> (string + wait_end) option" where
  "wait_loop target [] = None"
| "wait_loop target (r # rs) = (case wr_cancelled r of
     Some e \<Rightarrow> Some (Inl e)
   | None \<Rightarrow>
       (let remaining = target - currentTime (wr_now r) (wr_sync r) in
        if remaining \<le> 0 then Some (Inr (AtRound r (wr_now r)))
        else if remaining \<le> leadTime then
          map_option (map_sum id (AtSpin r)) (spinWaitUntil target (wr_spin_sync r) (wr_spin r))
        else (case wr_sleep_cancelled r of Some e \<Rightarrow> Some (Inl e) | None \<Rightarrow> wait_loop target rs)))"

text \<open>\<open>now\<close> and \<open>ts\<close>: the clock and the state that \<open>Until\<close> reads when a sleeper is configured.\<close>

definition PrecisionSleepUntil ::
    "(duration \<Rightarrow> string option) option \<Rightarrow> gtime \<Rightarrow> gtime \<Rightarrow> time_sync option \<Rightarrow> wait_round list \<Rightarrow> (string + wait_end) option" where
  "PrecisionSleepUntil getSleeper target now ts rs = (case getSleeper of
     Some sleeper \<Rightarrow>
       (let dur = sync_Until now target ts in
        if dur \<le> 0 then Some (Inr (BySleeper dur))
        else (case sleeper dur of Some e \<Rightarrow> Some (Inl e) | None \<Rightarrow> Some (Inr (BySleeper dur))))
   | None \<Rightarrow> wait_loop target rs)"

text \<open>\<open>Sleep\<close>: \<open>cancelled\<close> is the context's error when it ends before the duration has passed.\<close>

definition ts_Sleep :: "(duration \<Rightarrow> string option) option \<Rightarrow> string option \<Rightarrow> duration \<Rightarrow> string option" where
  "ts_Sleep getSleeper cancelled d = (case getSleeper of Some sleeper \<Rightarrow> sleeper d | None \<Rightarrow> cancelled)"

subsection \<open>Jitter\<close>

text \<open>\<open>rand delta\<close> is \<open>rand.Int64N(delta + 1)\<close>.\<close>

definition RandomJitterDuration :: "(int \<Rightarrow> int) \<Rightarrow> duration \<Rightarrow> duration \<Rightarrow> duration" where
  "RandomJitterDuration rand base jitter =
     (if base \<le> 0 then millisecond
      else if jitter \<le> 0 then base
      else let minDur = max (i64 (base - jitter)) millisecond;
               maxDur = max (i64 (base + jitter)) minDur;
               delta = i64 (maxDur - minDur)
           in if delta \<le> 0 then minDur else i64 (minDur + rand delta))"

subsection \<open>The wait is punctual\<close>

text \<open>How far the exchange's clock is ahead of the local one, by the offset in force.\<close>

definition ahead :: "time_sync option \<Rightarrow> duration" where
  "ahead ts = sync_Offset ts * millisecond"

text \<open>A clock and an offset whose sum in milliseconds, and an offset that in nanoseconds, fits 64 bits.\<close>

definition clock_in_range :: "gtime \<Rightarrow> time_sync option \<Rightarrow> bool" where
  "clock_in_range now ts \<longleftrightarrow> \<bar>UnixMilli now + sync_Offset ts\<bar> < 2 ^ 63"

definition round_in_range :: "wait_round \<Rightarrow> bool" where
  "round_in_range r \<longleftrightarrow> clock_in_range (wr_now r) (wr_sync r) \<and> \<bar>ahead (wr_spin_sync r)\<bar> < 2 ^ 63"

lemma server_time: "clock_in_range now ts \<Longrightarrow> sync_GetServerTime now ts = UnixMilli now + sync_Offset ts"
  by (cases ts) (auto simp: clock_in_range_def sync_GetServerTime_def sync_Offset_def intro!: i64_id)

lemma currentTime_bounds:
  assumes "clock_in_range now ts"
  shows "currentTime now ts \<le> now + ahead ts \<and> now + ahead ts < currentTime now ts + millisecond"
proof (cases ts)
  case None
  then show ?thesis by (simp add: currentTime_def ahead_def sync_Offset_def)
next
  case (Some s)
  have "currentTime now ts = unix_milli (UnixMilli now) + ahead ts"
    using server_time [OF assms] by (simp add: currentTime_def Some sync_Now_def ahead_def unix_milli_def algebra_simps)
  with unix_milli_UnixMilli [of now] show ?thesis by simp
qed

lemma spin_target: "\<bar>ahead ts\<bar> < 2 ^ 63 \<Longrightarrow> i64 (i64 (- sync_Offset ts) * millisecond) = - ahead ts"
  by (simp add: ahead_def i64_id)

lemma spin_wait_result:
  "spin_wait targetLocal rs = Some (Inr t) \<Longrightarrow> targetLocal \<le> t \<and> (None, t) \<in> set rs"
  by (induction targetLocal rs rule: spin_wait.induct) (auto split: if_splits)

lemma wait_loop_ends:
  assumes "wait_loop target rs = Some (Inr d)" "\<forall>r \<in> set rs. round_in_range r"
  shows "\<exists>r \<in> set rs. d = AtRound r (wr_now r) \<and> target \<le> wr_now r + ahead (wr_sync r) \<or>
    (\<exists>t. d = AtSpin r t \<and> (None, t) \<in> set (wr_spin r) \<and> target \<le> t + ahead (wr_spin_sync r))"
  using assms
proof (induction target rs rule: wait_loop.induct)
  case (2 target x rs)
  let ?rem = "target - currentTime (wr_now x) (wr_sync x)"
  have x: "wr_cancelled x = None" using "2.prems"(1) by (cases "wr_cancelled x") auto
  have range: "clock_in_range (wr_now x) (wr_sync x)" "\<bar>ahead (wr_spin_sync x)\<bar> < 2 ^ 63"
    using "2.prems"(2) by (simp_all add: round_in_range_def)
  consider "?rem \<le> 0" | "0 < ?rem" "?rem \<le> leadTime" | "leadTime < ?rem" by linarith
  then show ?case
  proof cases
    case 1
    then have "d = AtRound x (wr_now x)" using "2.prems"(1) x by (auto simp: Let_def)
    then show ?thesis using 1 currentTime_bounds [OF range(1)] by simp
  next
    case 2
    then have "map_option (map_sum id (AtSpin x)) (spinWaitUntil target (wr_spin_sync x) (wr_spin x)) = Some (Inr d)"
      using "2.prems"(1) x by (simp add: Let_def)
    then obtain z where z: "spinWaitUntil target (wr_spin_sync x) (wr_spin x) = Some z" "map_sum id (AtSpin x) z = Inr d"
      by auto
    then obtain t where t: "d = AtSpin x t" "spinWaitUntil target (wr_spin_sync x) (wr_spin x) = Some (Inr t)"
      by (cases z) auto
    then show ?thesis
      using spin_wait_result [of "target - ahead (wr_spin_sync x)" "wr_spin x" t] by (simp add: spinWaitUntil_def spin_target [OF range(2)])
  next
    case 3
    moreover have slept: "wr_sleep_cancelled x = None"
      using "2.prems"(1) x 3 by (cases "wr_sleep_cancelled x") (simp_all add: Let_def)
    ultimately have "wait_loop target rs = Some (Inr d)" using "2.prems"(1) x by (simp add: Let_def)
    then show ?thesis using "2.IH" [OF x refl] 3 slept "2.prems"(2) by simp
  qed
qed simp

text \<open>A sleeper is asked for a duration that is short of the target by less than a millisecond.\<close>

lemma until_bounds:
  assumes "clock_in_range now ts" "\<bar>target - (now + ahead ts)\<bar> < 2 ^ 62"
  shows "target < now + ahead ts + sync_Until now target ts + millisecond"
proof (cases ts)
  case None
  then show ?thesis by (simp add: sync_Until_def ahead_def sync_Offset_def)
next
  case (Some s)
  let ?d = "UnixMilli target - sync_GetServerTime now ts"
  have d: "?d * millisecond = unix_milli (UnixMilli target) - (unix_milli (UnixMilli now) + ahead ts)"
    by (simp add: server_time [OF assms(1)] unix_milli_def ahead_def algebra_simps)
  note m = unix_milli_UnixMilli [of target] unix_milli_UnixMilli [of now]
  have small: "\<bar>?d * millisecond\<bar> < 2 ^ 63" using m assms(2) unfolding d by (simp add: abs_if split: if_splits)
  then have "i64 (i64 ?d * millisecond) = ?d * millisecond" by (simp add: i64_id)
  then have "sync_Until now target ts = ?d * millisecond" by (simp add: sync_Until_def Some)
  then show ?thesis using m unfolding d by linarith
qed

text \<open>
  C15: the wait for an instant does not end early. Whatever the context, the clock and the
  resynchronisations do, when \<open>PrecisionSleepUntil\<close> returns without an error and no sleeper is
  configured, the last local clock reading plus the clock offset read with it (the offset of the
  round, or the one that the spin loop reads again) is at or past the target. With a sleeper
  configured, nothing is read afterwards: the sleeper was asked once, unless its duration was not
  positive, for a duration that is less than a millisecond short of the target. All this as long
  as the readings and offsets involved do not overflow 64 bits.
\<close>

theorem never_early:
  assumes "PrecisionSleepUntil getSleeper target now ts rs = Some (Inr d)"
    and "\<forall>r \<in> set rs. round_in_range r" "clock_in_range now ts" "\<bar>target - (now + ahead ts)\<bar> < 2 ^ 62"
  shows "case getSleeper of
      None \<Rightarrow> \<exists>r \<in> set rs. d = AtRound r (wr_now r) \<and> target \<le> wr_now r + ahead (wr_sync r) \<or>
        (\<exists>t. d = AtSpin r t \<and> (None, t) \<in> set (wr_spin r) \<and> target \<le> t + ahead (wr_spin_sync r))
    | Some sleeper \<Rightarrow> \<exists>dur. d = BySleeper dur \<and> (dur \<le> 0 \<or> sleeper dur = None) \<and>
        target < now + ahead ts + dur + millisecond"
proof (cases getSleeper)
  case None
  with assms(1) have "wait_loop target rs = Some (Inr d)" by (simp add: PrecisionSleepUntil_def)
  from wait_loop_ends [OF this assms(2)] None show ?thesis by simp
next
  case (Some sleeper)
  with assms(1) have "d = BySleeper (sync_Until now target ts) \<and>
      (sync_Until now target ts \<le> 0 \<or> sleeper (sync_Until now target ts) = None)"
    by (auto simp: PrecisionSleepUntil_def Let_def split: if_splits option.splits)
  with until_bounds [OF assms(3,4)] Some show ?thesis by simp
qed

definition sample_round :: "gtime \<Rightarrow> wait_round" where
  "sample_round now = \<lparr>wr_cancelled = None, wr_now = now, wr_sync = Some (new_timesync second\<lparr>ts_offset := 20\<rparr>), wr_sleep_cancelled = None,
     wr_spin_sync = Some (new_timesync second\<lparr>ts_offset := 19\<rparr>),
     wr_spin = [(None, unix_milli 1000 - 19 * millisecond - 1), (None, unix_milli 1000 - 19 * millisecond + 7)]\<rparr>"

lemmas sample_wait = sample_round_def new_timesync_def currentTime_def sync_Now_def sync_GetServerTime_def spinWaitUntil_def sync_Offset_def
  unix_milli_def UnixMilli_def i64_def Let_def

lemma sample_wait_run:
  "PrecisionSleepUntil None (unix_milli 1000) 0 None [sample_round (unix_milli 900), sample_round (unix_milli 977)] =
     Some (Inr (AtSpin (sample_round (unix_milli 977)) (unix_milli 981 + 7)))"
  by (simp add: PrecisionSleepUntil_def sample_wait)

theorem never_early_witness:
  "PrecisionSleepUntil None (unix_milli 1000) (unix_milli 990) None [sample_round (unix_milli 900), sample_round (unix_milli 977)] =
     Some (Inr (AtSpin (sample_round (unix_milli 977)) (unix_milli 981 + 7))) \<and>
   unix_milli 1000 \<le> unix_milli 981 + 7 + 19 * millisecond"
proof -
  let ?rs = "[sample_round (unix_milli 900), sample_round (unix_milli 977)]"
  have run: "PrecisionSleepUntil None (unix_milli 1000) (unix_milli 990) None ?rs =
     Some (Inr (AtSpin (sample_round (unix_milli 977)) (unix_milli 981 + 7)))"
    using sample_wait_run by (simp add: PrecisionSleepUntil_def)
  have "\<forall>r \<in> set ?rs. round_in_range r" "clock_in_range (unix_milli 990) None" "\<bar>unix_milli 1000 - (unix_milli 990 + ahead None)\<bar> < 2 ^ 62"
    by (simp_all add: round_in_range_def clock_in_range_def ahead_def sample_wait)
  from never_early [OF run this] have "unix_milli 1000 \<le> unix_milli 981 + 7 + ahead (wr_spin_sync (sample_round (unix_milli 977)))"
    by auto
  with run show ?thesis by (simp add: ahead_def sync_Offset_def sample_round_def)
qed

text \<open>
  And it needs two rounds: with a target on a full millisecond, a steady offset and a sleep that
  lasts as long as it was asked to, the second round is the last.
\<close>

lemma two_rounds:
  assumes "round_in_range r1" "round_in_range r2" "wr_sync r2 = wr_sync r1" "wr_cancelled r1 = None" "wr_cancelled r2 = None"
    and "wr_sleep_cancelled r1 = None" "target = unix_milli k"
    and slept: "wr_now r1 + (target - currentTime (wr_now r1) (wr_sync r1) - leadTime) \<le> wr_now r2"
    and "\<exists>t. spinWaitUntil target (wr_spin_sync r1) (wr_spin r1) = Some (Inr t)"
      "\<exists>t. spinWaitUntil target (wr_spin_sync r2) (wr_spin r2) = Some (Inr t)"
  shows "\<exists>d. wait_loop target (r1 # r2 # rs) = Some (Inr d) \<and> (\<exists>t. d \<in> {AtRound r1 t, AtSpin r1 t, AtRound r2 t, AtSpin r2 t})"
proof -
  note range = assms(1,2) [unfolded round_in_range_def]
  have off: "ahead (wr_sync r2) = ahead (wr_sync r1)" by (simp add: assms(3))
  have late: "target - leadTime \<le> wr_now r2 + ahead (wr_sync r2)"
    using slept currentTime_bounds [OF conjunct1 [OF range(1)]] off by linarith
  have "target - leadTime \<le> currentTime (wr_now r2) (wr_sync r2)"
  proof (cases "wr_sync r2")
    case None
    with late show ?thesis by (simp add: currentTime_def ahead_def sync_Offset_def)
  next
    case (Some s)
    define j where "j = sync_GetServerTime (wr_now r2) (wr_sync r2)"
    have "currentTime (wr_now r2) (wr_sync r2) = unix_milli j" by (simp add: currentTime_def Some sync_Now_def j_def)
    moreover from this have "unix_milli (k - 3) < unix_milli j + millisecond"
      using late currentTime_bounds [OF conjunct1 [OF range(2)]] assms(7) by (simp add: unix_milli_def)
    then have "k - 3 \<le> j" by (simp add: unix_milli_def)
    ultimately show ?thesis by (simp add: assms(7) unix_milli_def)
  qed
  with assms(4-6,9,10) show ?thesis by (auto simp: Let_def)
qed

subsection \<open>Samples, offset and jitter\<close>

lemma http_window:
  assumes "sorted (map rs_at (ts_httpSamples ts @ [\<lparr>rs_rtt = rtt, rs_at = now\<rparr>]))"
  defines "w \<equiv> filter (\<lambda>s. now - 60 * second \<le> rs_at s) (ts_httpSamples ts @ [\<lparr>rs_rtt = rtt, rs_at = now\<rparr>])"
  shows "ts_httpSamples (updateHTTPSamples rtt now ts) = w \<and> ts_httpMinRTT (updateHTTPSamples rtt now ts) = Min (rs_rtt ` set w)"
proof -
  let ?xs = "ts_httpSamples ts @ [\<lparr>rs_rtt = rtt, rs_at = now\<rparr>]"
  have drop: "dropWhile (\<lambda>s. rs_at s < c) xs = filter (\<lambda>s. c \<le> rs_at s) xs" if "sorted (map rs_at xs)" for c xs
    using that by (induction xs) (auto simp: filter_id_conv intro!: filter_True [symmetric])
  have w: "ts_httpSamples (updateHTTPSamples rtt now ts) = w"
    unfolding updateHTTPSamples_def Let_def drop [OF assms(1)] w_def by simp
  moreover have "rtt \<in> set (map rs_rtt w)" by (force simp: w_def)
  ultimately show ?thesis
    using rtt_min_Min [of rtt "map rs_rtt w"] by (simp add: updateHTTPSamples_def Let_def)
qed

lemma jitter_bounds:
  assumes "0 < base" "base + jitter < 2 ^ 63" "\<forall>d \<ge> 0. 0 \<le> rand d \<and> rand d \<le> d"
  shows "0 < RandomJitterDuration rand base jitter \<and>
    (0 < jitter \<longrightarrow> max (base - jitter) millisecond \<le> RandomJitterDuration rand base jitter \<and>
       RandomJitterDuration rand base jitter \<le> max (base + jitter) millisecond)"
proof (cases "jitter \<le> 0")
  case True
  with assms(1) show ?thesis by (simp add: RandomJitterDuration_def)
next
  case False
  define lo where "lo = max (base - jitter) millisecond"
  define hi where "hi = max (base + jitter) lo"
  have i: "i64 (base - jitter) = base - jitter" "i64 (base + jitter) = base + jitter" "i64 (hi - lo) = hi - lo"
    using assms(1,2) False by (intro i64_id; simp add: lo_def hi_def)+
  have hi: "0 \<le> lo" "hi < 2 ^ 63" using assms(1,2) False by (auto simp: lo_def hi_def)
  have r: "0 \<le> rand (hi - lo)" "rand (hi - lo) \<le> hi - lo" using assms(3) by (simp_all add: hi_def)
  then have "i64 (lo + rand (hi - lo)) = lo + rand (hi - lo)"
    using assms(1,2) False hi by (intro i64_id; linarith)
  then have "RandomJitterDuration rand base jitter = (if hi - lo \<le> 0 then lo else lo + rand (hi - lo))"
    using assms(1) False by (simp add: RandomJitterDuration_def Let_def i lo_def [symmetric] hi_def [symmetric])
  with r False assms(1) show ?thesis by (auto simp: lo_def hi_def)
qed

text \<open>
  The estimate is truncated towards zero: a measured offset within three milliseconds never
  moves an estimate of 0, however often it is measured.
\<close>

lemma rnd64_sixteenths: "\<bar>m\<bar> \<le> 16 \<Longrightarrow> rnd64 (of_int m / 16) = of_int m / 16"
  using rnd64_exact [of m "-4"] by (simp add: power_int_minus field_simps)

lemma alpha_between: "\<exists>a. alpha = FFin a \<and> 1 / 4 \<le> a \<and> a \<le> 5 / 16 \<and> rnd64 a = a"
proof -
  have "rnd64 (4 / 16) \<le> rnd64 (3 / 10)" "rnd64 (3 / 10) \<le> rnd64 (5 / 16)" by (intro rnd64_mono; simp)+
  then have "1 / 4 \<le> rnd64 (3 / 10)" "rnd64 (3 / 10) \<le> 5 / 16" using rnd64_sixteenths [of 4] rnd64_sixteenths [of 5] by simp_all
  moreover from this have "\<bar>rnd64 (3 / 10)\<bar> < f64_bound" by (simp add: f64_bound_def abs_if)
  ultimately show ?thesis by (simp add: alpha_def f64_of_rat_def Let_def rnd64_idem)
qed

lemma f64_small:
  assumes "\<bar>q\<bar> \<le> 15 / 16" "q \<noteq> 0 \<Longrightarrow> 1 / 16 \<le> \<bar>q\<bar>"
  shows "\<exists>v. f64_of_rat q = FFin v \<and> \<bar>v\<bar> \<le> 15 / 16 \<and> rnd64 v = v"
proof -
  have "rnd64 (of_int (-15) / 16) \<le> rnd64 q" "rnd64 q \<le> rnd64 (of_int 15 / 16)" using assms(1) by (intro rnd64_mono; simp)+
  then have v: "\<bar>rnd64 q\<bar> \<le> 15 / 16" using rnd64_sixteenths [of 15] rnd64_sixteenths [of "-15"] by simp
  have "rnd64 q \<noteq> 0" if "q < 0"
  proof -
    have "rnd64 q \<le> rnd64 (of_int (-1) / 16)" using that assms(2) by (intro rnd64_mono) simp
    then show ?thesis using rnd64_sixteenths [of "-1"] by simp
  qed
  moreover have "\<not> f64_bound \<le> \<bar>rnd64 q\<bar>"
  proof -
    have "(1::rat) < f64_bound" by (simp add: f64_bound_def)
    with v show ?thesis by linarith
  qed
  ultimately show ?thesis using v by (auto simp: f64_of_rat_def Let_def rnd64_idem)
qed

lemma ema_dead_band:
  assumes "-3 \<le> n" "n \<le> 3"
  shows "ema 0 n = 0"
proof -
  obtain a where a: "alpha = FFin a" "1 / 4 \<le> a" "a \<le> 5 / 16" using alpha_between by blast
  obtain b where b: "f_sub (FFin 1) alpha = FFin b"
  proof -
    have "f_neg (FFin a) = FFin (- a)" using a(2) by auto
    then have "f_sub (FFin 1) alpha = f64_of_rat (1 - a)" by (simp add: a(1) f_sub_def f_add_def)
    moreover have "\<exists>v. f64_of_rat (1 - a) = FFin v \<and> \<bar>v\<bar> \<le> 15 / 16 \<and> rnd64 v = v" using a by (intro f64_small) auto
    ultimately show ?thesis using that by auto
  qed
  have zero: "f_mul (f_of_int 0) (FFin b) = FFin 0 \<or> f_mul (f_of_int 0) (FFin b) = FNegZero"
    by (simp add: f_of_int_def f64_of_rat_small f_mul_def f_zero_def Let_def)
  have n: "f_of_int n = FFin (of_int n)" using assms unfolding f_of_int_def by (intro f64_of_rat_int) simp
  have small: "\<bar>of_int n * a\<bar> \<le> 15 / 16"
  proof -
    have "\<bar>of_int n * a\<bar> = \<bar>of_int n\<bar> * a" using a by (simp add: abs_mult)
    also have "\<dots> \<le> 3 * (5 / 16)" using a assms by (intro mult_mono) auto
    finally show ?thesis by simp
  qed
  have big: "1 / 16 \<le> \<bar>of_int n * a\<bar>" if "of_int n * a \<noteq> 0"
  proof -
    have "1 \<le> \<bar>of_int n :: rat\<bar>" using that by (cases "n = 0") auto
    then have "1 * (1 / 4) \<le> \<bar>of_int n\<bar> * a" using a by (intro mult_mono) auto
    with a show ?thesis by (simp add: abs_mult)
  qed
  show ?thesis
  proof (cases "of_int n * a = 0")
    case True
    then have "f_mul (f_of_int n) alpha = FFin 0 \<or> f_mul (f_of_int n) alpha = FNegZero"
      by (simp add: n a(1) f_mul_def f_zero_def Let_def)
    with zero show ?thesis by (auto simp: ema_def b f_add_def f_to_i64_def f64_of_rat_small)
  next
    case False
    then have "f_mul (f_of_int n) alpha = f64_of_rat (of_int n * a)" by (simp add: n a(1) f_mul_def Let_def)
    then obtain v where v: "f_mul (f_of_int n) alpha = FFin v" "\<bar>v\<bar> \<le> 15 / 16" "rnd64 v = v"
      using f64_small [OF small big] by auto
    have "\<not> f64_bound \<le> \<bar>v\<bar>"
    proof -
      have "(1::rat) < f64_bound" by (simp add: f64_bound_def)
      with v(2) show ?thesis by linarith
    qed
    then have "f64_of_rat v = FFin v \<or> f64_of_rat v = FNegZero" using v(3) by (auto simp: f64_of_rat_def Let_def)
    moreover have "f_add (FFin 0) (FFin v) = f64_of_rat v" "f_add FNegZero (FFin v) = f64_of_rat v" by (simp_all add: f_add_def)
    ultimately have sum: "f_add (f_mul (f_of_int 0) (FFin b)) (FFin v) \<in> {FFin v, FNegZero}" using zero by auto
    have "\<lfloor>v\<rfloor> = 0" if "0 \<le> v" using v(2) that by (simp add: floor_eq_iff)
    moreover have "\<lceil>v\<rceil> = 0" if "v < 0" using v(2) that by (simp add: ceiling_eq_iff)
    ultimately have "f_to_i64 (FFin v) = 0" "f_to_i64 FNegZero = 0" by (simp_all add: f_to_i64_def Let_def)
    with sum show ?thesis by (auto simp: ema_def b v(1))
  qed
qed

end
