(* ===== verification/ExchangeWire.thy ===== *)
theory ExchangeWire
  imports Effects Domain GoStrings GoFormat OrderId
begin

text \<open>
  What the order adapters of the exchanges share: the errors of
  \<open>internal/infrastructure/exchange/errors.go\<close>, number formats, and calls. A call's signing, its
  HTTP exchange and the decoding of its JSON answer are a function of the adapter's environment,
  which may depend on the calls made before; the calls are the state. Two locales state what the
  adapters have in common: sides that are read back as they were sent, and cancelling all open
  orders one by one. The texts of errors keep the constant part of the source's format strings.
\<close>

subsection \<open>Errors\<close>

record APIError =
  ae_StatusCode :: int
  ae_Code :: int
  ae_Message :: string
  ae_Path :: string

record OrderRejectedError =
  oe_Code :: int
  oe_Reason :: string
  oe_Symbol :: string
  oe_OrderID :: string

datatype ex_error =
    IsApi APIError | RateLimitError string string | IsRejected OrderRejectedError
  | ErrNotSupported | TextError string | Wrapped string ex_error

primrec IsAPIError :: "ex_error \<Rightarrow> APIError option" where
  "IsAPIError (IsApi e) = Some e"
| "IsAPIError (RateLimitError m p) = None"
| "IsAPIError (IsRejected e) = None"
| "IsAPIError ErrNotSupported = None"
| "IsAPIError (TextError s) = None"
| "IsAPIError (Wrapped s e) = IsAPIError e"

primrec IsRateLimitError :: "ex_error \<Rightarrow> bool" where
  "IsRateLimitError (IsApi e) = False"
| "IsRateLimitError (RateLimitError m p) = True"
| "IsRateLimitError (IsRejected e) = False"
| "IsRateLimitError ErrNotSupported = False"
| "IsRateLimitError (TextError s) = False"
| "IsRateLimitError (Wrapped s e) = IsRateLimitError e"

primrec IsOrderRejectedError :: "ex_error \<Rightarrow> OrderRejectedError option" where
  "IsOrderRejectedError (IsApi e) = None"
| "IsOrderRejectedError (RateLimitError m p) = None"
| "IsOrderRejectedError (IsRejected e) = Some e"
| "IsOrderRejectedError ErrNotSupported = None"
| "IsOrderRejectedError (TextError s) = None"
| "IsOrderRejectedError (Wrapped s e) = IsOrderRejectedError e"

text \<open>\<open>toAPIError\<close> of the OKX and Bitget packages; its code is what \<open>Sscanf\<close> reads.\<close>

definition toAPIError :: "int \<Rightarrow> string \<Rightarrow> string \<Rightarrow> ex_error" where
  "toAPIError code message path = IsApi \<lparr>ae_StatusCode = 0, ae_Code = code, ae_Message = message, ae_Path = path\<rparr>"

definition lower_contains :: "string \<Rightarrow> string \<Rightarrow> bool" where
  "lower_contains s sub \<longleftrightarrow> str_contains (to_lower s) sub"

text \<open>\<open>strings.EqualFold\<close> on ASCII.\<close>

definition equal_fold :: "string \<Rightarrow> string \<Rightarrow> bool" where
  "equal_fold s t \<longleftrightarrow> to_lower s = to_lower t"

text \<open>The parameters of a call, and one that is sent when it is not empty.\<close>

type_synonym fields = "string \<rightharpoonup> string"

definition put_field :: "string \<Rightarrow> string \<Rightarrow> fields \<Rightarrow> fields" where
  "put_field k v m = (if v = [] then m else m(k \<mapsto> v))"

subsection \<open>Numbers\<close>

text \<open>
  \<open>wl_float\<close> is a parse of a decimal number that reads an error as 0 (\<open>decmath.ParseFloat\<close>,
  \<open>strconv.ParseFloat\<close> with the error dropped), \<open>wl_format\<close> is \<open>strconv.FormatFloat(v, 'f', -1, 64)\<close>.
\<close>

record wire_lib =
  wl_float :: "string \<Rightarrow> float64"
  wl_format :: "float64 \<Rightarrow> string"

definition ParseInt64 :: "string \<Rightarrow> int" where
  "ParseInt64 s = (case atoi (trim_space s) of Some i \<Rightarrow> i | None \<Rightarrow> 0)"

text \<open>
  \<open>strconv.ParseInt(s, 10, 64)\<close> with the error dropped: a number out of range gives the nearest
  one in range, anything else that is no number gives 0. \<open>ToInt64\<close> and \<open>ToFloat64\<close> are those of
  \<open>pkg/xjson/number.go\<close>, for which the empty number is 0.
\<close>

fun parse_uint :: "int \<Rightarrow> string \<Rightarrow> int option" where
  "parse_uint acc [] = Some acc"
| "parse_uint acc (c # cs) = (case digit_val c of
     None \<Rightarrow> None
   | Some d \<Rightarrow> (let n = acc * 10 + d in if 2 ^ 64 \<le> n then Some (2 ^ 64 - 1) else parse_uint n cs))"

definition unsigned :: "string \<Rightarrow> int option" where
  "unsigned s = (if s = [] then None else parse_uint 0 s)"

definition parse_int_lax :: "string \<Rightarrow> int" where
  "parse_int_lax s =
     (let neg = (s \<noteq> [] \<and> hd s = CHR ''-''); signed = (neg \<or> s \<noteq> [] \<and> hd s = CHR ''+'') in
      case unsigned (if signed then tl s else s) of
        None \<Rightarrow> 0
      | Some u \<Rightarrow> if neg then (if 2 ^ 63 < u then - (2 ^ 63) else - u) else (if 2 ^ 63 \<le> u then 2 ^ 63 - 1 else u))"

definition ToInt64 :: "string \<Rightarrow> int" where
  "ToInt64 n = (if n = [] then 0 else parse_int_lax n)"

definition ToFloat64 :: "wire_lib \<Rightarrow> string \<Rightarrow> float64" where
  "ToFloat64 L n = (if n = [] then f0 else wl_float L n)"

definition format_if_pos :: "wire_lib \<Rightarrow> float64 \<Rightarrow> string" where
  "format_if_pos L x = (if f_pos x then wl_format L x else [])"

subsection \<open>Calls\<close>

type_synonym ('c, 'a) wire = "('c list, ex_error + 'a) state"

definition ask :: "'c \<Rightarrow> ('c list \<Rightarrow> ex_error + 'a) \<Rightarrow> ('c, 'a) wire" where
  "ask c answer = State (\<lambda>log. (answer log, log @ [c]))"

abbreviation fail :: "ex_error \<Rightarrow> ('c, 'a) wire" where "fail e \<equiv> ret (Inl e)"
abbreviation ok :: "'a \<Rightarrow> ('c, 'a) wire" where "ok x \<equiv> ret (Inr x)"

definition wrapping_ex :: "string \<Rightarrow> ('c, 'a) wire \<Rightarrow> ('c, 'a) wire" where
  "wrapping_ex prefix m = do { r \<leftarrow> m; ret (case r of Inl e \<Rightarrow> Inl (Wrapped prefix e) | Inr x \<Rightarrow> Inr x) }"

text \<open>A loop that returns at the first error.\<close>

primrec each :: "('a \<Rightarrow> ('c, unit) wire) \<Rightarrow> 'a list \<Rightarrow> ('c, unit) wire" where
  "each f [] = ok ()"
| "each f (x # xs) = and_then (f x) (\<lambda>_. each f xs)"

lemma run_ask [simp]: "run_state (ask c answer) l = (answer l, l @ [c])"
  by (simp add: ask_def)

lemma run_ret [simp]: "run_state (ret x) l = (x, l)"
  by (simp add: State_Monad.return_def)

lemma run_bind [simp]: "run_state (m \<bind> f) l = (case run_state m l of (x, l') \<Rightarrow> run_state (f x) l')"
  by (simp add: State_Monad.bind_def)

lemma run_and_then [simp]: "run_state (and_then m f) l = (case run_state m l of
    (Inl e, l') \<Rightarrow> (Inl e, l') | (Inr x, l') \<Rightarrow> run_state (f x) l')"
  by (simp add: and_then_def split: prod.splits sum.splits)

lemma run_wrapping [simp]: "run_state (wrapping_ex p m) l = (case run_state m l of
    (Inl e, l') \<Rightarrow> (Inl (Wrapped p e), l') | (Inr x, l') \<Rightarrow> (Inr x, l'))"
  by (simp add: wrapping_ex_def split: prod.splits sum.splits)

text \<open>The calls made by an action that succeeded.\<close>

definition made :: "('c, 'a) wire \<Rightarrow> 'c list \<Rightarrow> 'c list \<Rightarrow> 'a \<Rightarrow> bool" where
  "made m l k x \<longleftrightarrow> run_state m l = (Inr x, l @ k)"

text \<open>
  \<open>GetOrderByExternalID\<close> of Bitunix and XT: the open orders, then the history; an answer that
  failed is one without orders.
\<close>

definition in_open_or_history ::
    "('c, OrderInfo list) wire \<Rightarrow> ('c, OrderInfo list) wire \<Rightarrow> string \<Rightarrow> ('c, OrderInfo) wire" where
  "in_open_or_history open_orders history i = do {
     p \<leftarrow> open_orders;
     case (case p of Inl _ \<Rightarrow> None | Inr l \<Rightarrow> find (\<lambda>x. oi_ExternalOID x = i) l) of
       Some x \<Rightarrow> ok x
     | None \<Rightarrow> do {
         h \<leftarrow> history;
         ret (case (case h of Inl _ \<Rightarrow> None | Inr l \<Rightarrow> find (\<lambda>x. oi_ExternalOID x = i) l) of
           Some x \<Rightarrow> Inr x
         | None \<Rightarrow> Inl (TextError (''order not found for external ID '' @ i))) }}"

lemma find_external: "find (\<lambda>x. oi_ExternalOID x = i) l = Some x \<Longrightarrow> oi_ExternalOID x = i \<and> x \<in> set l"
  by (metis (mono_tags, lifting) find_Some_iff nth_mem)

lemma in_open_or_history_id:
  "run_state (in_open_or_history p h i) l = (Inr x, l1) \<Longrightarrow> oi_ExternalOID x = i"
  by (auto simp: in_open_or_history_def dest: find_external split: prod.splits sum.splits option.splits)

subsection \<open>Cancelling everything\<close>

locale order_canceller =
  fixes list_open :: "('c, OrderInfo list) wire"
    and cancel :: "string \<Rightarrow> ('c, unit) wire"
    and cancels :: "string \<Rightarrow> 'c \<Rightarrow> bool"
  assumes list_appends: "run_state list_open l = (r, l1) \<Longrightarrow> \<exists>k. l1 = l @ k"
    and cancel_appends: "run_state (cancel i) l = (r2, l1) \<Longrightarrow> \<exists>k. l1 = l @ k"
    and cancel_calls: "run_state (cancel i) l = (Inr (), l1) \<Longrightarrow> \<exists>k. l1 = l @ k \<and> (\<exists>c \<in> set k. cancels i c)"
begin

lemma each_cancels:
  "run_state (each (\<lambda>oi. cancel (oi_OrderID oi)) os) l = (Inr (), l1) \<Longrightarrow>
   \<exists>k. l1 = l @ k \<and> (\<forall>oi \<in> set os. \<exists>c \<in> set k. cancels (oi_OrderID oi) c)"
proof (induction os arbitrary: l)
  case (Cons oi os)
  obtain l2 where one: "run_state (cancel (oi_OrderID oi)) l = (Inr (), l2)"
      and rest: "run_state (each (\<lambda>oi. cancel (oi_OrderID oi)) os) l2 = (Inr (), l1)"
    using Cons.prems by (auto split: prod.splits sum.splits)
  obtain j where j: "l2 = l @ j" "\<exists>c \<in> set j. cancels (oi_OrderID oi) c" using cancel_calls [OF one] by blast
  obtain k where k: "l1 = l2 @ k" "\<forall>oi \<in> set os. \<exists>c \<in> set k. cancels (oi_OrderID oi) c" using Cons.IH [OF rest] by blast
  have "l1 = l @ (j @ k) \<and> (\<forall>x \<in> set (oi # os). \<exists>c \<in> set (j @ k). cancels (oi_OrderID x) c)" using j k by auto
  then show ?case by blast
qed simp

lemma all_cancelled:
  assumes "run_state (and_then list_open (\<lambda>os. each (\<lambda>oi. cancel (oi_OrderID oi)) os)) l = (Inr (), l1)"
  shows "\<exists>os l2 k. run_state list_open l = (Inr os, l2) \<and> l1 = l2 @ k \<and> (\<forall>oi \<in> set os. \<exists>c \<in> set k. cancels (oi_OrderID oi) c)"
proof -
  obtain os l2 where o: "run_state list_open l = (Inr os, l2)" "run_state (each (\<lambda>oi. cancel (oi_OrderID oi)) os) l2 = (Inr (), l1)"
    using assms by (auto split: prod.splits sum.splits)
  with each_cancels [OF o(2)] show ?thesis by blast
qed

end

subsection \<open>Sides on the wire\<close>

definition trade_sides :: "Side set" where
  "trade_sides = {SideOpenLong, SideCloseShort, SideOpenShort, SideCloseLong}"

text \<open>What an adapter sends for a side, and reads from an order the exchange echoes.\<close>

locale side_codec =
  fixes encode :: "Side \<Rightarrow> 'w option" and decode :: "'w \<Rightarrow> Side"
  assumes read_back: "s \<in> trade_sides \<Longrightarrow> \<exists>w. encode s = Some w \<and> decode w = s"
begin

lemma encode_inj: "s \<in> trade_sides \<Longrightarrow> t \<in> trade_sides \<Longrightarrow> encode s = encode t \<Longrightarrow> s = t"
  by (metis option.inject read_back)

lemma close_stays_close:
  "s \<in> trade_sides \<Longrightarrow> encode s = Some w \<Longrightarrow> IsClose (decode w) = IsClose s \<and> IsLong (decode w) = IsLong s"
  by (metis option.inject read_back)

end

end
