(* ===== verification/OkxOrders.thy ===== *)
theory OkxOrders
  imports ExchangeWire
begin

text \<open>
  \<open>internal/infrastructure/exchange/okx/order.go\<close>: orders on OKX. The answers of the REST
  endpoints, decoded, are the environment; \<open>sc_code\<close> is what \<open>Sscanf\<close> reads from a status code.
\<close>

record okxAttachAlgoOrd =
  oa_TpTriggerPx :: string
  oa_TpOrdPx :: string
  oa_TpTriggerPxType :: string
  oa_TpOrdKind :: string
  oa_SlTriggerPx :: string
  oa_SlOrdPx :: string
  oa_SlTriggerPxType :: string

record okxCreateOrderRequest =
  oc_InstID :: string
  oc_TdMode :: string
  oc_ClOrdID :: string
  oc_Side :: string
  oc_PosSide :: string
  oc_OrdType :: string
  oc_Sz :: string
  oc_Px :: string
  oc_ReduceOnly :: bool
  oc_AttachAlgoOrds :: "okxAttachAlgoOrd list"

record okx_result =
  ox_OrdID :: string
  ox_SCode :: string
  ox_SMsg :: string

record okxOrder =
  ok_InstID :: string
  ok_OrdID :: string
  ok_ClOrdID :: string
  ok_Px :: string
  ok_Sz :: string
  ok_Side :: string
  ok_PosSide :: string
  ok_State :: string
  ok_AvgPx :: string
  ok_UTime :: string
  ok_CTime :: string
  ok_FillSz :: string
  ok_AccFillSz :: string

datatype okx_call =
    OkxCreate okxCreateOrderRequest | OkxCancel string string
  | OkxOpenOrders string string | OkxDetail string string string

record okx_env =
  oe_lib :: wire_lib
  oe_create :: "okxCreateOrderRequest \<Rightarrow> okx_call list \<Rightarrow> ex_error + okx_result"
  oe_cancel :: "string \<Rightarrow> string \<Rightarrow> okx_call list \<Rightarrow> ex_error + okx_result"
  oe_open :: "string \<Rightarrow> string \<Rightarrow> okx_call list \<Rightarrow> ex_error + okxOrder list"
  oe_detail :: "string \<Rightarrow> string \<Rightarrow> string \<Rightarrow> okx_call list \<Rightarrow> ex_error + okxOrder list"
  oe_sscan :: "string \<Rightarrow> int"

definition okx_rawCreateOrder :: "okx_env \<Rightarrow> okxCreateOrderRequest \<Rightarrow> (okx_call, okx_result) wire" where
  "okx_rawCreateOrder E req = ask (OkxCreate req) (oe_create E req)"

definition okx_rawCancelOrder :: "okx_env \<Rightarrow> string \<Rightarrow> string \<Rightarrow> (okx_call, okx_result) wire" where
  "okx_rawCancelOrder E instID ordID = ask (OkxCancel instID ordID) (oe_cancel E instID ordID)"

definition okx_rawGetOpenOrders :: "okx_env \<Rightarrow> string \<Rightarrow> string \<Rightarrow> (okx_call, okxOrder list) wire" where
  "okx_rawGetOpenOrders E instType instID =
     (let t = (if instType = [] then ''SWAP'' else instType) in ask (OkxOpenOrders t instID) (oe_open E t instID))"

definition okx_rawGetOrderDetail :: "okx_env \<Rightarrow> string \<Rightarrow> string \<Rightarrow> string \<Rightarrow> (okx_call, okxOrder option) wire" where
  "okx_rawGetOrderDetail E instID ordID clOrdID =
     and_then (ask (OkxDetail instID ordID clOrdID) (oe_detail E instID ordID clOrdID))
       (\<lambda>l. ok (case l of [] \<Rightarrow> None | x # _ \<Rightarrow> Some x))"

fun mapOKXOrderType :: "ExOrderType \<Rightarrow> string" where
  "mapOKXOrderType ExMarket = ''market''"
| "mapOKXOrderType ExPostOnly = ''post_only''"
| "mapOKXOrderType ExIOC = ''ioc''"
| "mapOKXOrderType ExFOK = ''fok''"
| "mapOKXOrderType _ = ''limit''"

definition mapOKXOrderSide :: "Side \<Rightarrow> bool \<Rightarrow> string \<times> string" where
  "mapOKXOrderSide s isHedge =
     (if isHedge then (case s of
         SideOpenLong \<Rightarrow> (''buy'', ''long'')
       | SideCloseLong \<Rightarrow> (''sell'', ''long'')
       | SideOpenShort \<Rightarrow> (''sell'', ''short'')
       | SideCloseShort \<Rightarrow> (''buy'', ''short'')
       | _ \<Rightarrow> (''buy'', ''long''))
      else (if s = SideOpenShort \<or> s = SideCloseLong then ''sell'' else ''buy'', ''net''))"

definition okx_algo :: "wire_lib \<Rightarrow> SubmitOrderRequest \<Rightarrow> okxAttachAlgoOrd" where
  "okx_algo L req =
     (let tp = f_pos (so_TakeProfitPrice req); sl = f_pos (so_StopLossPrice req) in
      \<lparr>oa_TpTriggerPx = format_if_pos L (so_TakeProfitPrice req), oa_TpOrdPx = (if tp then ''-1'' else []),
       oa_TpTriggerPxType = (if tp then ''last'' else []), oa_TpOrdKind = (if tp then ''condition'' else []),
       oa_SlTriggerPx = format_if_pos L (so_StopLossPrice req), oa_SlOrdPx = (if sl then ''-1'' else []),
       oa_SlTriggerPxType = (if sl then ''last'' else [])\<rparr>)"

definition has_tpsl :: "SubmitOrderRequest \<Rightarrow> bool" where
  "has_tpsl req \<longleftrightarrow> f_pos (so_TakeProfitPrice req) \<or> f_pos (so_StopLossPrice req)"

definition okx_request :: "wire_lib \<Rightarrow> SubmitOrderRequest \<Rightarrow> okxCreateOrderRequest" where
  "okx_request L req =
     (let isHedge = (so_PositionMode req = 1 \<or> so_PositionMode req = 0);
          (side, posSide) = mapOKXOrderSide (so_Side req) isHedge
      in \<lparr>oc_InstID = so_Symbol req, oc_TdMode = (if so_OpenType req = OpenTypeCross then ''cross'' else ''isolated''),
          oc_ClOrdID = so_ExternalOID req, oc_Side = side, oc_PosSide = (if isHedge then posSide else []),
          oc_OrdType = mapOKXOrderType (so_Type req), oc_Sz = wl_format L (so_Vol req),
          oc_Px = (if so_Type req \<noteq> ExMarket then wl_format L (so_Price req) else []), oc_ReduceOnly = so_ReduceOnly req,
          oc_AttachAlgoOrds = (if has_tpsl req then [okx_algo L req] else [])\<rparr>)"

definition okx_CreateOrder :: "okx_env \<Rightarrow> SubmitOrderRequest \<Rightarrow> (okx_call, CreateOrderResult) wire" where
  "okx_CreateOrder E req = and_then (okx_rawCreateOrder E (okx_request (oe_lib E) req)) (\<lambda>res.
     if ox_SCode res \<noteq> ''0'' then fail (toAPIError (oe_sscan E (ox_SCode res)) (ox_SMsg res) ''create_order'')
     else ok \<lparr>cr_OrderID = ox_OrdID res, cr_TPSLSubmitted = has_tpsl req, cr_Time = 0\<rparr>)"

text \<open>An order that is gone already counts as canceled.\<close>

definition okx_already_gone :: "okx_result \<Rightarrow> bool" where
  "okx_already_gone res \<longleftrightarrow> ox_SCode res = ''51400'' \<or> ox_SCode res = ''51401'' \<or>
     lower_contains (ox_SMsg res) ''already'' \<or> lower_contains (ox_SMsg res) ''filled''"

definition okx_CancelOrder :: "okx_env \<Rightarrow> string \<Rightarrow> string \<Rightarrow> (okx_call, unit) wire" where
  "okx_CancelOrder E smb orderID =
     (if smb = [] then fail (TextError ''cancel order failed: symbol is required'')
      else and_then (okx_rawCancelOrder E smb orderID) (\<lambda>res.
        if ox_SCode res = ''0'' \<or> okx_already_gone res then ok ()
        else fail (toAPIError (oe_sscan E (ox_SCode res)) (ox_SMsg res) ''cancel_order'')))"

definition okx_CancelOrders :: "string list \<Rightarrow> (okx_call, unit) wire" where
  "okx_CancelOrders ids = fail (TextError ''batch cancel not supported on OKX without symbols'')"

definition okx_side :: "string \<times> string \<Rightarrow> Side" where
  "okx_side w = (case w of (side, posSide) \<Rightarrow>
     if posSide = ''long'' then (if side = ''buy'' then SideOpenLong else SideCloseLong)
     else if posSide = ''short'' then (if side = ''sell'' then SideOpenShort else SideCloseShort)
     else if side = ''buy'' then SideOpenLong else SideOpenShort)"

definition okx_state :: "string \<Rightarrow> OrderState" where
  "okx_state s =
     (if s = ''live'' then OrderStateNew
      else if s = ''partially_filled'' then OrderStatePartiallyFilled
      else if s = ''filled'' then OrderStateFilled
      else if s = ''canceled'' \<or> s = ''mmp_canceled'' then OrderStateCanceled
      else OrderStateNew)"

definition mapOkxOrder :: "wire_lib \<Rightarrow> okxOrder \<Rightarrow> OrderInfo" where
  "mapOkxOrder L x =
     \<lparr>oi_OrderID = ok_OrdID x, oi_Symbol = ok_InstID x, oi_Price = wl_float L (ok_Px x), oi_Vol = wl_float L (ok_Sz x),
      oi_DealAvgPrice = wl_float L (ok_AvgPx x),
      oi_DealVol = wl_float L (if ok_AccFillSz x = [] then ok_FillSz x else ok_AccFillSz x), oi_State = okx_state (ok_State x),
      oi_ExternalOID = ok_ClOrdID x, oi_Side = okx_side (ok_Side x, ok_PosSide x),
      oi_PositionMode = (if ok_PosSide x = ''long'' \<or> ok_PosSide x = ''short'' then PositionModeHedge else PositionModeOneWay),
      oi_CreateTime = parse_int_lax (ok_CTime x), oi_UpdateTime = parse_int_lax (ok_UTime x)\<rparr>"

definition okx_GetOrder :: "okx_env \<Rightarrow> string \<Rightarrow> string \<Rightarrow> (okx_call, OrderInfo) wire" where
  "okx_GetOrder E smb orderID =
     (if smb = [] then fail (TextError ''query order failed: symbol is required'')
      else and_then (okx_rawGetOrderDetail E smb orderID []) (\<lambda>r. case r of
        None \<Rightarrow> fail (TextError (''order not found: '' @ orderID)) | Some x \<Rightarrow> ok (mapOkxOrder (oe_lib E) x)))"

definition okx_GetOrderByExternalID :: "okx_env \<Rightarrow> string \<Rightarrow> string \<Rightarrow> (okx_call, OrderInfo) wire" where
  "okx_GetOrderByExternalID E smb externalOrderID =
     (if smb = [] then fail (TextError ''query order by external ID failed: symbol is required'')
      else and_then (okx_rawGetOrderDetail E smb [] externalOrderID) (\<lambda>r. case r of
        None \<Rightarrow> fail (TextError (''order not found by external ID: '' @ externalOrderID)) | Some x \<Rightarrow> ok (mapOkxOrder (oe_lib E) x)))"

definition okx_GetOpenOrders :: "okx_env \<Rightarrow> string \<Rightarrow> (okx_call, OrderInfo list) wire" where
  "okx_GetOpenOrders E smb = and_then (okx_rawGetOpenOrders E ''SWAP'' smb) (\<lambda>l. ok (map (mapOkxOrder (oe_lib E)) l))"

definition okx_CancelAllOpenOrders :: "okx_env \<Rightarrow> string \<Rightarrow> (okx_call, unit) wire" where
  "okx_CancelAllOpenOrders E smb = and_then (okx_GetOpenOrders E smb) (each (\<lambda>oi. okx_CancelOrder E smb (oi_OrderID oi)))"

subsection \<open>The contracts\<close>

interpretation okx_sides: side_codec "\<lambda>s. Some (mapOKXOrderSide s True)" okx_side
  by unfold_locales (auto simp: trade_sides_def mapOKXOrderSide_def okx_side_def)

interpretation okx_cancels: order_canceller "okx_GetOpenOrders E smb" "okx_CancelOrder E smb" "\<lambda>i c. c = OkxCancel smb i"
  for E smb
  by unfold_locales
    (auto simp: okx_GetOpenOrders_def okx_rawGetOpenOrders_def okx_CancelOrder_def okx_rawCancelOrder_def Let_def
      split: sum.splits if_splits)

text \<open>
  A success of cancelling everything means that every order the exchange listed was cancelled
  by a call of its own.
\<close>

lemma okx_all_cancelled:
  assumes "run_state (okx_CancelAllOpenOrders E smb) l = (Inr (), l1)"
  shows "\<exists>os l2 k. run_state (okx_GetOpenOrders E smb) l = (Inr os, l2) \<and> l1 = l2 @ k \<and>
    (\<forall>oi \<in> set os. OkxCancel smb (oi_OrderID oi) \<in> set k)"
  using okx_cancels.all_cancelled [of E smb l l1] assms by (auto simp: okx_CancelAllOpenOrders_def)

text \<open>In net mode a close is read back as an open of the other direction.\<close>

lemma okx_net_side:
  "s \<in> trade_sides \<Longrightarrow> okx_side (fst (mapOKXOrderSide s False), ''net'') = (if IsClose s then (if s = SideCloseLong then SideOpenShort else SideOpenLong) else s)"
  by (auto simp: trade_sides_def mapOKXOrderSide_def okx_side_def IsClose_def)

end
