(* ===== verification/BinanceOrders.thy ===== *)
theory BinanceOrders
  imports ExchangeWire
begin

text \<open>
  \<open>internal/infrastructure/exchange/binance/order.go\<close>: orders on Binance. A call's parameters are
  the map the source builds; the decoded answers and the websocket executor are the environment.
  The rate limiter and the signing of the prepared request are not modelled.
\<close>

datatype param = PStr string | PNum float64 | PInt int

record binanceCreateOrderRequest =
  bc_Symbol :: string
  bc_Side :: string
  bc_Type :: string
  bc_Quantity :: float64
  bc_Price :: float64
  bc_TimeInForce :: string
  bc_PositionSide :: string
  bc_ReduceOnly :: string
  bc_NewClientOrderId :: string

record binanceOrder =
  bn_OrderId :: int
  bn_Symbol :: string
  bn_Status :: string
  bn_ClientOrderId :: string
  bn_Price :: string
  bn_AvgPrice :: string
  bn_OrigQty :: string
  bn_ExecutedQty :: string
  bn_PositionSide :: string
  bn_Side :: string
  bn_Time :: "int option"
  bn_UpdateTime :: "int option"

type_synonym params = "string \<rightharpoonup> param"

datatype binance_call = BinanceCall string string params | BinanceWS string

record binance_env =
  be_lib :: wire_lib
  be_ws :: bool
  be_ws_ready :: bool
  be_ws_create :: "SubmitOrderRequest \<Rightarrow> binance_call list \<Rightarrow> ex_error + CreateOrderResult"
  be_ws_cancel :: "string \<Rightarrow> string \<Rightarrow> binance_call list \<Rightarrow> ex_error + unit"
  be_request :: "string \<Rightarrow> string \<Rightarrow> params \<Rightarrow> binance_call list \<Rightarrow> ex_error + binanceOrder"
  be_list :: "string \<Rightarrow> string \<Rightarrow> params \<Rightarrow> binance_call list \<Rightarrow> ex_error + binanceOrder list"

definition put_str :: "string \<Rightarrow> string \<Rightarrow> params \<Rightarrow> params" where
  "put_str k v m = (if v = [] then m else m(k \<mapsto> PStr v))"

definition buildOrderParams :: "binanceCreateOrderRequest \<Rightarrow> params" where
  "buildOrderParams req =
     (let m0 = [''symbol'' \<mapsto> PStr (bc_Symbol req), ''side'' \<mapsto> PStr (bc_Side req), ''type'' \<mapsto> PStr (bc_Type req),
                ''quantity'' \<mapsto> PNum (bc_Quantity req)];
          m1 = (if bc_Type req \<noteq> ''MARKET''
                then m0(''price'' \<mapsto> PNum (bc_Price req), ''timeInForce'' \<mapsto> PStr (bc_TimeInForce req)) else m0)
      in put_str ''newClientOrderId'' (bc_NewClientOrderId req)
           (put_str ''reduceOnly'' (bc_ReduceOnly req) (put_str ''positionSide'' (bc_PositionSide req) m1)))"

definition binance_request :: "binance_env \<Rightarrow> string \<Rightarrow> string \<Rightarrow> params \<Rightarrow> (binance_call, binanceOrder) wire" where
  "binance_request E method path params = ask (BinanceCall method path params) (be_request E method path params)"

definition rawPlaceAlgoOrder :: "binance_env \<Rightarrow> string \<Rightarrow> string \<Rightarrow> string \<Rightarrow> float64 \<Rightarrow> string \<Rightarrow> (binance_call, binanceOrder) wire" where
  "rawPlaceAlgoOrder E smb side typ triggerPrice posSide =
     binance_request E ''POST'' ''/fapi/v1/algoOrder''
       (put_str ''positionSide'' posSide [''algoType'' \<mapsto> PStr ''CONDITIONAL'', ''symbol'' \<mapsto> PStr smb, ''side'' \<mapsto> PStr side,
          ''type'' \<mapsto> PStr typ, ''triggerPrice'' \<mapsto> PNum triggerPrice, ''closePosition'' \<mapsto> PStr ''true''])"

definition cancel_params :: "string \<Rightarrow> int \<Rightarrow> params" where
  "cancel_params smb i = [''symbol'' \<mapsto> PStr smb, ''orderId'' \<mapsto> PInt i]"

definition binance_rawCancelOrder :: "binance_env \<Rightarrow> string \<Rightarrow> int \<Rightarrow> (binance_call, binanceOrder) wire" where
  "binance_rawCancelOrder E smb i = binance_request E ''DELETE'' ''/fapi/v1/order'' (cancel_params smb i)"

definition binance_CancelAllOpenOrders :: "binance_env \<Rightarrow> string \<Rightarrow> (binance_call, unit) wire" where
  "binance_CancelAllOpenOrders E smb = wrapping_ex ''binance cancel all open orders''
     (and_then (binance_request E ''DELETE'' ''/fapi/v1/allOpenOrders'' [''symbol'' \<mapsto> PStr smb]) (\<lambda>_. ok ()))"

definition binance_rawGetOrder :: "binance_env \<Rightarrow> string \<Rightarrow> int \<Rightarrow> string \<Rightarrow> (binance_call, binanceOrder) wire" where
  "binance_rawGetOrder E smb i clientId = wrapping_ex ''binance query order''
     (binance_request E ''GET'' ''/fapi/v1/order''
       (if 0 < i then [''symbol'' \<mapsto> PStr smb, ''orderId'' \<mapsto> PInt i]
        else put_str ''origClientOrderId'' clientId [''symbol'' \<mapsto> PStr smb]))"

definition binance_rawGetOpenOrders :: "binance_env \<Rightarrow> string \<Rightarrow> (binance_call, binanceOrder list) wire" where
  "binance_rawGetOpenOrders E smb = wrapping_ex ''binance current open orders''
     (let p = put_str ''symbol'' smb Map.empty in ask (BinanceCall ''GET'' ''/fapi/v1/openOrders'' p) (be_list E ''GET'' ''/fapi/v1/openOrders'' p))"

fun toBinanceOrderTypeAndTIF :: "ExOrderType \<Rightarrow> string \<times> string" where
  "toBinanceOrderTypeAndTIF ExMarket = (''MARKET'', [])"
| "toBinanceOrderTypeAndTIF ExPostOnly = (''LIMIT'', ''GTX'')"
| "toBinanceOrderTypeAndTIF ExIOC = (''LIMIT'', ''IOC'')"
| "toBinanceOrderTypeAndTIF ExFOK = (''LIMIT'', ''FOK'')"
| "toBinanceOrderTypeAndTIF _ = (''LIMIT'', ''GTC'')"

definition toBinanceSide :: "Side \<Rightarrow> string option" where
  "toBinanceSide s =
     (if s = SideOpenLong \<or> s = SideCloseShort then Some ''BUY''
      else if s = SideOpenShort \<or> s = SideCloseLong then Some ''SELL'' else None)"

definition hedge_side :: "Side \<Rightarrow> string" where
  "hedge_side s = (if s = SideOpenShort \<or> s = SideCloseShort then ''SHORT'' else ''LONG'')"

definition buildBinanceCreateOrderHTTPRequest :: "SubmitOrderRequest \<Rightarrow> ex_error + binanceCreateOrderRequest" where
  "buildBinanceCreateOrderHTTPRequest req = (case toBinanceSide (so_Side req) of
     None \<Rightarrow> Inl (TextError ''unknown side'')
   | Some side \<Rightarrow> (case toBinanceOrderTypeAndTIF (so_Type req) of (typ, tif) \<Rightarrow>
       Inr \<lparr>bc_Symbol = so_Symbol req, bc_Side = side, bc_Type = typ, bc_Quantity = so_Vol req,
            bc_Price = (if typ \<noteq> ''MARKET'' then so_Price req else f0), bc_TimeInForce = (if typ \<noteq> ''MARKET'' then tif else []),
            bc_PositionSide = (if so_PositionMode req = 1 then hedge_side (so_Side req) else []),
            bc_ReduceOnly = (if so_PositionMode req \<noteq> 1 \<and> so_ReduceOnly req then ''true'' else []),
            bc_NewClientOrderId = so_ExternalOID req\<rparr>))"

text \<open>\<open>unix_ms\<close> is \<open>time.UnixMilli\<close>.\<close>

definition unix_ms :: "int \<Rightarrow> gtime" where
  "unix_ms ms = 62135596800 * second + ms * millisecond"

definition order_time :: "binanceOrder \<Rightarrow> gtime" where
  "order_time r = (case bn_UpdateTime r of
     Some u \<Rightarrow> if 0 < u then unix_ms u else (case bn_Time r of Some t \<Rightarrow> if 0 < t then unix_ms t else 0 | None \<Rightarrow> 0)
   | None \<Rightarrow> (case bn_Time r of Some t \<Rightarrow> if 0 < t then unix_ms t else 0 | None \<Rightarrow> 0))"

text \<open>\<open>PrepareOrder\<close> and the function it returns, run at once, as \<open>CreateOrder\<close> does.\<close>

definition binance_CreateOrder :: "binance_env \<Rightarrow> SubmitOrderRequest \<Rightarrow> (binance_call, CreateOrderResult) wire" where
  "binance_CreateOrder E req =
     (if be_ws E then
        (if \<not> be_ws_ready E then fail (TextError ''ws trade executor not ready'')
         else ask (BinanceWS (so_ExternalOID req)) (be_ws_create E req))
      else case buildBinanceCreateOrderHTTPRequest req of
        Inl e \<Rightarrow> fail e
      | Inr raw \<Rightarrow> and_then (binance_request E ''POST'' ''/fapi/v1/order'' (buildOrderParams raw)) (\<lambda>r.
          ok \<lparr>cr_OrderID = format_int (bn_OrderId r), cr_TPSLSubmitted = False, cr_Time = order_time r\<rparr>))"

subsection \<open>Take profit and stop loss\<close>

definition no_open_position :: "ex_error \<Rightarrow> bool" where
  "no_open_position e = (case IsAPIError e of
     None \<Rightarrow> False
   | Some a \<Rightarrow> ae_Code a = -4509 \<or> lower_contains (ae_Message a) ''tif gte'' \<or> lower_contains (ae_Message a) ''open positions'')"

definition placeOneTPSLOrder ::
    "binance_env \<Rightarrow> string \<Rightarrow> string \<Rightarrow> string \<Rightarrow> float64 \<Rightarrow> PositionMode \<Rightarrow> string \<Rightarrow> string \<Rightarrow> (binance_call, unit) wire" where
  "placeOneTPSLOrder E smb side typ price posMode posSide label = do {
     r \<leftarrow> rawPlaceAlgoOrder E smb side typ price (if posMode = PositionModeHedge then posSide else []);
     ret (case r of Inr _ \<Rightarrow> Inr ()
        | Inl e \<Rightarrow> if no_open_position e then Inr () else Inl (Wrapped (''binance place '' @ label @ '' order'') e)) }"

definition binance_PlaceTPSL :: "binance_env \<Rightarrow> TPSLRequest \<Rightarrow> (binance_call, unit) wire" where
  "binance_PlaceTPSL E req =
     (if tr_Side req \<noteq> SideOpenLong \<and> tr_Side req \<noteq> SideOpenShort then fail (TextError ''invalid side for TP/SL placement'')
      else let side = (if tr_Side req = SideOpenLong then ''SELL'' else ''BUY'');
               posSide = (if tr_PositionMode req = 1 then (if tr_Side req = SideOpenLong then ''LONG'' else ''SHORT'') else [])
        in and_then
          (if f_pos (tr_TakeProfitPrice req)
           then placeOneTPSLOrder E (tr_Symbol req) side ''TAKE_PROFIT_MARKET'' (tr_TakeProfitPrice req) (tr_PositionMode req) posSide ''TP''
           else ok ())
          (\<lambda>_. if f_pos (tr_StopLossPrice req)
           then placeOneTPSLOrder E (tr_Symbol req) side ''STOP_MARKET'' (tr_StopLossPrice req) (tr_PositionMode req) posSide ''SL''
           else ok ()))"

subsection \<open>Cancelling and reading\<close>

definition binance_already_gone :: "ex_error \<Rightarrow> bool" where
  "binance_already_gone e = (case IsAPIError e of
     None \<Rightarrow> False
   | Some a \<Rightarrow> ae_Code a = -2011 \<or> lower_contains (ae_Message a) ''unknown order'' \<or> lower_contains (ae_Message a) ''filled'')"

definition binance_CancelOrder :: "binance_env \<Rightarrow> string \<Rightarrow> string \<Rightarrow> (binance_call, unit) wire" where
  "binance_CancelOrder E smb orderID =
     (if be_ws E then
        (if \<not> be_ws_ready E then fail (TextError ''ws trade executor not ready'')
         else ask (BinanceWS orderID) (be_ws_cancel E smb orderID))
      else case atoi orderID of
        None \<Rightarrow> fail (TextError ''invalid orderID type for binance'')
      | Some i \<Rightarrow> do {
          r \<leftarrow> binance_rawCancelOrder E smb i;
          ret (case r of Inr _ \<Rightarrow> Inr ()
             | Inl e \<Rightarrow> if binance_already_gone e then Inr () else Inl (Wrapped ''binance cancel order'' e)) })"

definition binance_CancelOrders :: "binance_env \<Rightarrow> string list \<Rightarrow> (binance_call, unit) wire" where
  "binance_CancelOrders E ids = each (binance_CancelOrder E []) ids"

definition mapBinanceSideAndMode :: "string \<Rightarrow> string \<Rightarrow> Side \<times> PositionMode" where
  "mapBinanceSideAndMode positionSide side =
     (if positionSide = ''LONG'' then (if side = ''SELL'' then SideCloseLong else SideOpenLong, PositionModeHedge)
      else if positionSide = ''SHORT'' then (if side = ''BUY'' then SideCloseShort else SideOpenShort, PositionModeHedge)
      else (if side = ''BUY'' then SideOpenLong else SideOpenShort, PositionModeOneWay))"

definition mapBinanceStatus :: "string \<Rightarrow> OrderState" where
  "mapBinanceStatus s =
     (if s = ''NEW'' then OrderStateNew
      else if s = ''PARTIALLY_FILLED'' then OrderStatePartiallyFilled
      else if s = ''FILLED'' then OrderStateFilled
      else if s = ''CANCELED'' \<or> s = ''EXPIRED'' then OrderStateCanceled
      else OrderStateNew)"

definition mapBinanceOrder :: "wire_lib \<Rightarrow> binanceOrder \<Rightarrow> OrderInfo" where
  "mapBinanceOrder L r = (case mapBinanceSideAndMode (bn_PositionSide r) (bn_Side r) of (side, posMode) \<Rightarrow>
     \<lparr>oi_OrderID = (if 0 < bn_OrderId r then format_int (bn_OrderId r) else []), oi_Symbol = bn_Symbol r,
      oi_Price = wl_float L (bn_Price r), oi_Vol = wl_float L (bn_OrigQty r), oi_DealAvgPrice = wl_float L (bn_AvgPrice r),
      oi_DealVol = wl_float L (bn_ExecutedQty r), oi_State = mapBinanceStatus (bn_Status r), oi_ExternalOID = bn_ClientOrderId r,
      oi_Side = side, oi_PositionMode = posMode, oi_CreateTime = (case bn_Time r of Some t \<Rightarrow> t | None \<Rightarrow> 0),
      oi_UpdateTime = (case bn_UpdateTime r of Some t \<Rightarrow> t | None \<Rightarrow> 0)\<rparr>)"

definition binance_GetOrder :: "binance_env \<Rightarrow> string \<Rightarrow> string \<Rightarrow> (binance_call, OrderInfo) wire" where
  "binance_GetOrder E smb orderID = (case atoi orderID of
     None \<Rightarrow> fail (TextError ''binance invalid order ID format'')
   | Some i \<Rightarrow> and_then (binance_rawGetOrder E smb i []) (\<lambda>r. ok (mapBinanceOrder (be_lib E) r)))"

definition binance_GetOrderByExternalID :: "binance_env \<Rightarrow> string \<Rightarrow> string \<Rightarrow> (binance_call, OrderInfo) wire" where
  "binance_GetOrderByExternalID E smb externalOrderID =
     and_then (binance_rawGetOrder E smb 0 externalOrderID) (\<lambda>r. ok (mapBinanceOrder (be_lib E) r))"

definition binance_GetOpenOrders :: "binance_env \<Rightarrow> string \<Rightarrow> (binance_call, OrderInfo list) wire" where
  "binance_GetOpenOrders E smb = and_then (binance_rawGetOpenOrders E smb) (\<lambda>l. ok (map (mapBinanceOrder (be_lib E)) l))"

subsection \<open>The contracts\<close>

interpretation binance_sides: side_codec
  "\<lambda>s. map_option (\<lambda>b. (hedge_side s, b)) (toBinanceSide s)" "\<lambda>w. fst (mapBinanceSideAndMode (fst w) (snd w))"
  by unfold_locales (auto simp: trade_sides_def hedge_side_def toBinanceSide_def mapBinanceSideAndMode_def)

text \<open>What is sent for a hedge order carries its side in both fields.\<close>

lemma binance_sent_sides:
  assumes "buildBinanceCreateOrderHTTPRequest req = Inr raw" "so_PositionMode req = PositionModeHedge"
  shows "mapBinanceSideAndMode (bc_PositionSide raw) (bc_Side raw) = (so_Side req, PositionModeHedge)"
  using assms
  by (cases "so_Side req") (auto simp: buildBinanceCreateOrderHTTPRequest_def toBinanceSide_def hedge_side_def mapBinanceSideAndMode_def
      split: prod.splits)

end
