(* ===== verification/BitgetOrders.thy ===== *)
theory BitgetOrders
  imports ExchangeWire
begin

text \<open>
  \<open>internal/infrastructure/exchange/bitget/order.go\<close> and the envelope of \<open>types.go\<close>: orders on
  Bitget. A call is its path and its parameters; the answers and the decoders are the environment.
\<close>

datatype bitget_call = BitgetPost string fields | BitgetGet string fields

record bitgetCreateOrderRequest =
  bq_Symbol :: string
  bq_ProductType :: string
  bq_MarginMode :: string
  bq_Side :: string
  bq_OrderType :: string
  bq_Size :: string
  bq_MarginCoin :: string
  bq_TradeSide :: string
  bq_Price :: string
  bq_ClientOid :: string
  bq_ReduceOnly :: string
  bq_PresetStopSurplusPrice :: string
  bq_PresetStopLossPrice :: string
  bq_Force :: string

text \<open>The order of the detail and of the list endpoint; they differ in the name of the state.\<close>

record bitgetOrder =
  bg_OrderID :: string
  bg_ClientOid :: string
  bg_Symbol :: string
  bg_Size :: string
  bg_Price :: string
  bg_PriceAvg :: string
  bg_BaseVolume :: string
  bg_State :: string
  bg_Side :: string
  bg_PosSide :: string
  bg_CTime :: string
  bg_UTime :: string

record 'a APIResponse =
  ar_Code :: string
  ar_Msg :: string
  ar_Data :: 'a

record close_failure =
  clf_Symbol :: string
  clf_ErrorMsg :: string
  clf_ErrorCode :: string

record bitget_env =
  bt_lib :: wire_lib
  bt_http :: "bitget_call \<Rightarrow> bitget_call list \<Rightarrow> ex_error + string"
  bt_sscan :: "string \<Rightarrow> int"
  bt_read_create :: "string \<Rightarrow> ex_error + string APIResponse"
  bt_read_unit :: "string \<Rightarrow> ex_error + unit APIResponse"
  bt_read_order :: "string \<Rightarrow> ex_error + bitgetOrder APIResponse"
  bt_read_orders :: "string \<Rightarrow> ex_error + bitgetOrder list APIResponse"
  bt_read_close :: "string \<Rightarrow> ex_error + close_failure list APIResponse"

definition PostCtx :: "bitget_env \<Rightarrow> string \<Rightarrow> fields \<Rightarrow> (bitget_call, string) wire" where
  "PostCtx E path m = ask (BitgetPost path m) (bt_http E (BitgetPost path m))"

definition GetCtx :: "bitget_env \<Rightarrow> string \<Rightarrow> fields \<Rightarrow> (bitget_call, string) wire" where
  "GetCtx E path m = ask (BitgetGet path m) (bt_http E (BitgetGet path m))"

definition bitget_ParseResponse ::
    "bitget_env \<Rightarrow> (string \<Rightarrow> ex_error + 'a APIResponse) \<Rightarrow> string \<Rightarrow> string \<Rightarrow> (bitget_call, 'a) wire" where
  "bitget_ParseResponse E read path bytes = (case read bytes of
     Inl e \<Rightarrow> fail (Wrapped (''parse '' @ path @ '' response'') e)
   | Inr r \<Rightarrow> if ar_Code r \<noteq> ''00000'' then fail (toAPIError (bt_sscan E (ar_Code r)) (ar_Msg r) path) else ok (ar_Data r))"

definition bitget_body :: "bitgetCreateOrderRequest \<Rightarrow> fields" where
  "bitget_body q =
     put_field ''force'' (bq_Force q) (put_field ''presetStopLossPrice'' (bq_PresetStopLossPrice q)
     (put_field ''presetStopSurplusPrice'' (bq_PresetStopSurplusPrice q) (put_field ''reduceOnly'' (bq_ReduceOnly q)
     (put_field ''clientOid'' (bq_ClientOid q) (put_field ''price'' (bq_Price q) (put_field ''tradeSide'' (bq_TradeSide q)
       [''symbol'' \<mapsto> bq_Symbol q, ''productType'' \<mapsto> bq_ProductType q, ''marginMode'' \<mapsto> bq_MarginMode q, ''side'' \<mapsto> bq_Side q,
        ''orderType'' \<mapsto> bq_OrderType q, ''size'' \<mapsto> bq_Size q, ''marginCoin'' \<mapsto> bq_MarginCoin q]))))))"

definition createRawOrder :: "bitget_env \<Rightarrow> bitgetCreateOrderRequest \<Rightarrow> (bitget_call, string) wire" where
  "createRawOrder E q = and_then (PostCtx E ''/api/v2/mix/order/place-order'' (bitget_body q))
     (bitget_ParseResponse E (bt_read_create E) ''create_order'')"

definition bitget_cancel_fields :: "string \<Rightarrow> string \<Rightarrow> fields" where
  "bitget_cancel_fields smb orderID = [''symbol'' \<mapsto> smb, ''productType'' \<mapsto> ''USDT-FUTURES'', ''orderId'' \<mapsto> orderID]"

definition cancelRawOrder :: "bitget_env \<Rightarrow> string \<Rightarrow> string \<Rightarrow> (bitget_call, unit) wire" where
  "cancelRawOrder E smb orderID =
     and_then (PostCtx E ''/api/v2/mix/order/cancel-order'' (bitget_cancel_fields smb orderID))
       (bitget_ParseResponse E (bt_read_unit E) ''cancel_order'')"

definition getRawOpenOrders :: "bitget_env \<Rightarrow> string \<Rightarrow> (bitget_call, bitgetOrder list) wire" where
  "getRawOpenOrders E smb =
     and_then (GetCtx E ''/api/v2/mix/order/orders-pending'' (put_field ''symbol'' smb [''productType'' \<mapsto> ''USDT-FUTURES'']))
       (bitget_ParseResponse E (bt_read_orders E) ''open_orders'')"

definition getRawOrderDetail :: "bitget_env \<Rightarrow> string \<Rightarrow> string \<Rightarrow> string \<Rightarrow> (bitget_call, bitgetOrder) wire" where
  "getRawOrderDetail E smb orderID clientOid =
     and_then (GetCtx E ''/api/v2/mix/order/detail'' (put_field ''clientOid'' clientOid (put_field ''orderId'' orderID
        [''productType'' \<mapsto> ''USDT-FUTURES'', ''symbol'' \<mapsto> smb])))
       (bitget_ParseResponse E (bt_read_order E) ''order_detail'')"

definition changeRawLeverage :: "bitget_env \<Rightarrow> fields \<Rightarrow> (bitget_call, unit) wire" where
  "changeRawLeverage E m = and_then (PostCtx E ''/api/v2/mix/account/set-leverage'' m)
     (bitget_ParseResponse E (bt_read_unit E) ''change_leverage'')"

subsection \<open>Sending orders\<close>

fun mapOrderTypeAndForce :: "ExOrderType \<Rightarrow> string \<times> string" where
  "mapOrderTypeAndForce ExMarket = (''market'', [])"
| "mapOrderTypeAndForce ExPostOnly = (''limit'', ''post_only'')"
| "mapOrderTypeAndForce ExIOC = (''limit'', ''ioc'')"
| "mapOrderTypeAndForce ExFOK = (''limit'', ''fok'')"
| "mapOrderTypeAndForce _ = (''limit'', ''gtc'')"

definition mapBitgetOrderSide :: "Side \<Rightarrow> bool \<Rightarrow> string \<times> string" where
  "mapBitgetOrderSide s isHedge =
     (if isHedge then (case s of
         SideOpenLong \<Rightarrow> (''buy'', ''open'')
       | SideCloseLong \<Rightarrow> (''sell'', ''close'')
       | SideOpenShort \<Rightarrow> (''sell'', ''open'')
       | SideCloseShort \<Rightarrow> (''buy'', ''close'')
       | _ \<Rightarrow> (''buy'', ''open''))
      else (if s = SideOpenShort \<or> s = SideCloseLong then ''sell'' else ''buy'', ''open''))"

definition bitget_request_of :: "wire_lib \<Rightarrow> SubmitOrderRequest \<Rightarrow> bitgetCreateOrderRequest" where
  "bitget_request_of L req =
     (let (orderType, force) = mapOrderTypeAndForce (so_Type req);
          isHedge = (so_PositionMode req = 1 \<or> so_PositionMode req = 0);
          (side, tradeSide) = mapBitgetOrderSide (so_Side req) isHedge
      in \<lparr>bq_Symbol = so_Symbol req, bq_ProductType = ''USDT-FUTURES'',
          bq_MarginMode = (if so_OpenType req = OpenTypeCross then ''crossed'' else ''isolated''), bq_Side = side,
          bq_OrderType = orderType, bq_Size = wl_format L (so_Vol req), bq_MarginCoin = ''USDT'',
          bq_TradeSide = (if isHedge then tradeSide else []),
          bq_Price = (if so_Type req \<noteq> ExMarket then wl_format L (so_Price req) else []), bq_ClientOid = so_ExternalOID req,
          bq_ReduceOnly = (if so_ReduceOnly req then ''YES'' else ''NO''),
          bq_PresetStopSurplusPrice = format_if_pos L (so_TakeProfitPrice req),
          bq_PresetStopLossPrice = format_if_pos L (so_StopLossPrice req), bq_Force = force\<rparr>)"

definition bitget_CreateOrder :: "bitget_env \<Rightarrow> SubmitOrderRequest \<Rightarrow> (bitget_call, CreateOrderResult) wire" where
  "bitget_CreateOrder E req = and_then (createRawOrder E (bitget_request_of (bt_lib E) req)) (\<lambda>i.
     ok \<lparr>cr_OrderID = (if i = [] \<and> so_ExternalOID req \<noteq> [] then so_ExternalOID req else i),
         cr_TPSLSubmitted = (f_pos (so_TakeProfitPrice req) \<or> f_pos (so_StopLossPrice req)), cr_Time = 0\<rparr>)"

subsection \<open>Reading orders\<close>

definition bitget_side :: "string \<Rightarrow> string \<Rightarrow> Side \<times> PositionMode" where
  "bitget_side posSide side =
     (if posSide = ''long'' then (if side = ''buy'' then SideOpenLong else SideCloseLong, PositionModeHedge)
      else if posSide = ''short'' then (if side = ''sell'' then SideOpenShort else SideCloseShort, PositionModeHedge)
      else (if side = ''buy'' then SideOpenLong else SideOpenShort, PositionModeOneWay))"

definition bitget_state :: "string \<Rightarrow> OrderState" where
  "bitget_state s =
     (if s = ''init'' \<or> s = ''live'' then OrderStateNew
      else if s = ''partially_filled'' then OrderStatePartiallyFilled
      else if s = ''filled'' then OrderStateFilled
      else if s = ''canceled'' then OrderStateCanceled
      else OrderStateNew)"

definition mapBitgetRawOrder :: "wire_lib \<Rightarrow> bitgetOrder \<Rightarrow> OrderInfo" where
  "mapBitgetRawOrder L r =
     \<lparr>oi_OrderID = bg_OrderID r, oi_Symbol = bg_Symbol r, oi_Price = wl_float L (bg_Price r), oi_Vol = wl_float L (bg_Size r),
      oi_DealAvgPrice = wl_float L (bg_PriceAvg r), oi_DealVol = wl_float L (bg_BaseVolume r), oi_State = bitget_state (bg_State r),
      oi_ExternalOID = bg_ClientOid r, oi_Side = fst (bitget_side (bg_PosSide r) (bg_Side r)),
      oi_PositionMode = snd (bitget_side (bg_PosSide r) (bg_Side r)),
      oi_CreateTime = ParseInt64 (bg_CTime r), oi_UpdateTime = ParseInt64 (bg_UTime r)\<rparr>"

definition bitget_GetOrder :: "bitget_env \<Rightarrow> string \<Rightarrow> string \<Rightarrow> (bitget_call, OrderInfo) wire" where
  "bitget_GetOrder E smb orderID = and_then (getRawOrderDetail E smb orderID []) (\<lambda>r. ok (mapBitgetRawOrder (bt_lib E) r))"

definition bitget_GetOrderByExternalID :: "bitget_env \<Rightarrow> string \<Rightarrow> string \<Rightarrow> (bitget_call, OrderInfo) wire" where
  "bitget_GetOrderByExternalID E smb externalOrderID =
     and_then (getRawOrderDetail E smb [] externalOrderID) (\<lambda>r. ok (mapBitgetRawOrder (bt_lib E) r))"

definition bitget_GetOpenOrders :: "bitget_env \<Rightarrow> string \<Rightarrow> (bitget_call, OrderInfo list) wire" where
  "bitget_GetOpenOrders E smb = and_then (getRawOpenOrders E smb) (\<lambda>l. ok (map (mapBitgetRawOrder (bt_lib E)) l))"

subsection \<open>Cancelling and closing\<close>

definition bitget_CancelOrder :: "bitget_env \<Rightarrow> string \<Rightarrow> string \<Rightarrow> (bitget_call, unit) wire" where
  "bitget_CancelOrder E smb orderID =
     (if smb = [] then and_then (wrapping_ex ''cancel order failed to locate order'' (bitget_GetOrder E [] orderID))
        (\<lambda>info. cancelRawOrder E (oi_Symbol info) orderID)
      else cancelRawOrder E smb orderID)"

definition bitget_CancelOrders :: "bitget_env \<Rightarrow> string list \<Rightarrow> (bitget_call, unit) wire" where
  "bitget_CancelOrders E ids = each (bitget_CancelOrder E []) ids"

definition bitget_CancelAllOpenOrders :: "bitget_env \<Rightarrow> string \<Rightarrow> (bitget_call, unit) wire" where
  "bitget_CancelAllOpenOrders E smb = and_then (bitget_GetOpenOrders E smb) (each (\<lambda>oi. bitget_CancelOrder E smb (oi_OrderID oi)))"

definition bitget_ClosePosition :: "bitget_env \<Rightarrow> string \<Rightarrow> Side \<Rightarrow> float64 \<Rightarrow> PositionMode \<Rightarrow> int \<Rightarrow> (bitget_call, unit) wire" where
  "bitget_ClosePosition E smb closeSide volume positionMode leverage =
     and_then (bitget_CreateOrder E \<lparr>so_Symbol = smb, so_Price = f0, so_Vol = volume, so_Leverage = leverage, so_Side = closeSide,
        so_Type = ExMarket, so_OpenType = OpenTypeIsolated, so_ExternalOID = [], so_PositionID = 0, so_PositionMode = positionMode,
        so_ReduceOnly = True, so_FlashClose = False, so_StopLossPrice = f0, so_TakeProfitPrice = f0, so_SkipRateLimit = False\<rparr>) (\<lambda>_. ok ())"

definition bitget_CloseAllPositions :: "bitget_env \<Rightarrow> string \<Rightarrow> (bitget_call, unit) wire" where
  "bitget_CloseAllPositions E smb =
     and_then (PostCtx E ''/api/v2/mix/order/close-positions'' [''symbol'' \<mapsto> smb, ''productType'' \<mapsto> ''USDT-FUTURES'']) (\<lambda>bytes.
     case bt_read_close E bytes of
       Inl e \<Rightarrow> fail (Wrapped ''parse close positions response'' e)
     | Inr r \<Rightarrow>
         if ar_Code r \<noteq> ''00000'' then fail (toAPIError (bt_sscan E (ar_Code r)) (ar_Msg r) ''close-positions'')
         else (case ar_Data r of
             [] \<Rightarrow> ok ()
           | x # _ \<Rightarrow> fail (TextError (''close position failure for '' @ clf_Symbol x @ '': '' @ clf_ErrorMsg x @ '' (code: '' @ clf_ErrorCode x @ '')''))))"

subsection \<open>Account settings\<close>

definition bitget_leverage_fields :: "ChangeLeverageRequest \<Rightarrow> fields" where
  "bitget_leverage_fields req =
     (let m = [''symbol'' \<mapsto> cl_Symbol req, ''productType'' \<mapsto> ''USDT-FUTURES'', ''marginCoin'' \<mapsto> ''USDT''];
          lev = format_int (cl_Leverage req) in
      if cl_OpenType req = Some OpenTypeCross then m(''leverage'' \<mapsto> lev)
      else (case cl_PositionType req of
          PositionTypeLong \<Rightarrow> m(''leverage'' \<mapsto> lev, ''holdSide'' \<mapsto> ''long'')
        | PositionTypeShort \<Rightarrow> m(''leverage'' \<mapsto> lev, ''holdSide'' \<mapsto> ''short'')
        | _ \<Rightarrow> m(''longLeverage'' \<mapsto> lev, ''shortLeverage'' \<mapsto> lev)))"

definition bitget_ChangeLeverage :: "bitget_env \<Rightarrow> ChangeLeverageRequest \<Rightarrow> (bitget_call, unit) wire" where
  "bitget_ChangeLeverage E req = changeRawLeverage E (bitget_leverage_fields req)"

definition bitget_SwitchPositionMode :: "bitget_env \<Rightarrow> string \<Rightarrow> PositionMode \<Rightarrow> (bitget_call, unit) wire" where
  "bitget_SwitchPositionMode E smb positionMode =
     and_then (PostCtx E ''/api/v2/mix/account/set-position-mode''
        [''posMode'' \<mapsto> (if positionMode = PositionModeOneWay then ''one_way_mode'' else ''hedge_mode''), ''productType'' \<mapsto> ''USDT-FUTURES''])
       (bitget_ParseResponse E (bt_read_unit E) ''set-position-mode'')"

definition bitget_SwitchMarginMode :: "bitget_env \<Rightarrow> string \<Rightarrow> MarginMode \<Rightarrow> int \<Rightarrow> Side \<Rightarrow> (bitget_call, unit) wire" where
  "bitget_SwitchMarginMode E smb marginMode leverage side =
     and_then (PostCtx E ''/api/v2/mix/account/set-margin-mode''
        [''symbol'' \<mapsto> smb, ''productType'' \<mapsto> ''USDT-FUTURES'', ''marginCoin'' \<mapsto> ''USDT'',
         ''marginMode'' \<mapsto> (if marginMode = MarginModeCross then ''crossed'' else ''isolated'')])
       (bitget_ParseResponse E (bt_read_unit E) ''set-margin-mode'')"

subsection \<open>The contracts\<close>

text \<open>The position side an exchange order has: the one it opens or closes.\<close>

definition side_name :: "Side \<Rightarrow> string" where
  "side_name s = (if s = SideOpenShort \<or> s = SideCloseShort then ''short'' else ''long'')"

interpretation bitget_sides: side_codec
  "\<lambda>s. Some (side_name s, fst (mapBitgetOrderSide s True))" "\<lambda>w. fst (bitget_side (fst w) (snd w))"
  by unfold_locales (auto simp: trade_sides_def side_name_def mapBitgetOrderSide_def bitget_side_def)

lemma cancel_raw_call:
  "run_state (cancelRawOrder E smb i) l = (r, l1) \<Longrightarrow> l1 = l @ [BitgetPost ''/api/v2/mix/order/cancel-order'' (bitget_cancel_fields smb i)]"
  by (auto simp: cancelRawOrder_def PostCtx_def bitget_ParseResponse_def split: sum.splits if_splits)

lemma open_orders_call:
  "run_state (bitget_GetOpenOrders E smb) l = (r, l1) \<Longrightarrow> \<exists>c. l1 = l @ [c]"
  by (auto simp: bitget_GetOpenOrders_def getRawOpenOrders_def GetCtx_def bitget_ParseResponse_def split: sum.splits if_splits)

lemma detail_call:
  "run_state (bitget_GetOrder E smb i) l = (r, l1) \<Longrightarrow> \<exists>c. l1 = l @ [c]"
  by (auto simp: bitget_GetOrder_def getRawOrderDetail_def GetCtx_def bitget_ParseResponse_def split: sum.splits if_splits)

definition bitget_cancels :: "string \<Rightarrow> bitget_call \<Rightarrow> bool" where
  "bitget_cancels i c \<longleftrightarrow> (\<exists>smb. c = BitgetPost ''/api/v2/mix/order/cancel-order'' (bitget_cancel_fields smb i))"

lemma bitget_cancel_calls:
  assumes "run_state (bitget_CancelOrder E smb i) l = (r, l1)"
  shows "\<exists>k. l1 = l @ k \<and> (r = Inr () \<longrightarrow> (\<exists>c \<in> set k. bitget_cancels i c))"
proof (cases "smb = []")
  case True
  then show ?thesis using assms
    by (auto simp: bitget_CancelOrder_def bitget_cancels_def dest!: detail_call cancel_raw_call split: prod.splits sum.splits)
next
  case False
  then show ?thesis using assms by (auto simp: bitget_CancelOrder_def bitget_cancels_def dest!: cancel_raw_call)
qed

interpretation bitget_canceller: order_canceller "bitget_GetOpenOrders E smb" "bitget_CancelOrder E smb" bitget_cancels for E smb
  by unfold_locales (use open_orders_call bitget_cancel_calls in blast)+

lemma bitget_all_cancelled:
  assumes "run_state (bitget_CancelAllOpenOrders E smb) l = (Inr (), l1)"
  shows "\<exists>os l2 k. run_state (bitget_GetOpenOrders E smb) l = (Inr os, l2) \<and> l1 = l2 @ k \<and>
    (\<forall>oi \<in> set os. \<exists>c \<in> set k. bitget_cancels (oi_OrderID oi) c)"
  using bitget_canceller.all_cancelled [of E smb l l1] assms by (auto simp: bitget_CancelAllOpenOrders_def)

end
