(* ===== verification/BitunixOrders.thy ===== *)
theory BitunixOrders
  imports ExchangeWire "HOL-Library.Multiset"
begin

text \<open>
  \<open>internal/infrastructure/exchange/bitunix/order.go\<close>: orders on Bitunix. A call is its path with
  its query or body; the answers, decoded, are the environment, and so is the order in which Go
  iterates the map that groups identifiers by symbol. A \<open>FlexTime\<close> is its milliseconds.
\<close>

datatype bitunix_call = BitunixPlace fields | BitunixCancel string "string list" | BitunixGet string fields

record 'a bitunix_answer =
  ba_Code :: int
  ba_Msg :: string
  ba_Data :: 'a

record bitunixOrder =
  bu_OrderID :: string
  bu_ClientID :: string
  bu_Symbol :: string
  bu_Side :: string
  bu_TradeSide :: string
  bu_Price :: string
  bu_Qty :: string
  bu_FilledQty :: string
  bu_TradeQty :: string
  bu_DealQty :: string
  bu_AvgPrice :: string
  bu_Status :: string
  bu_CTime :: int
  bu_MTime :: int

record bitunixHistoryPosition =
  bh_Side :: string
  bh_MaxQty :: string
  bh_Qty :: string
  bh_EntryPrice :: string
  bh_ClosePrice :: string
  bh_RealizedPNL :: string
  bh_Funding :: string
  bh_Fee :: string
  bh_CTime :: int
  bh_MTime :: int

record bitunix_env =
  bx_lib :: wire_lib
  bx_place :: "fields \<Rightarrow> bitunix_call list \<Rightarrow> ex_error + string bitunix_answer"
  bx_cancel :: "string \<Rightarrow> string list \<Rightarrow> bitunix_call list \<Rightarrow> ex_error + unit bitunix_answer"
  bx_detail :: "fields \<Rightarrow> bitunix_call list \<Rightarrow> ex_error + bitunixOrder bitunix_answer"
  bx_list :: "string \<Rightarrow> fields \<Rightarrow> bitunix_call list \<Rightarrow> ex_error + bitunixOrder list bitunix_answer"
  bx_positions :: "fields \<Rightarrow> bitunix_call list \<Rightarrow> ex_error + bitunixHistoryPosition list bitunix_answer"
  bx_iterate :: "(string \<times> string list) list \<Rightarrow> (string \<times> string list) list"

definition put_pos :: "string \<Rightarrow> int \<Rightarrow> fields \<Rightarrow> fields" where
  "put_pos k n m = (if 0 < n then m(k \<mapsto> format_int n) else m)"

definition check_code :: "string \<Rightarrow> 'a bitunix_answer \<Rightarrow> (bitunix_call, 'a) wire" where
  "check_code label r = (if ba_Code r \<noteq> 0
     then fail (TextError (label @ '' failed code '' @ format_int (ba_Code r) @ '': '' @ ba_Msg r)) else ok (ba_Data r))"

subsection \<open>The mappings\<close>

definition bitunix_mapOrderStatus :: "string \<Rightarrow> OrderState" where
  "bitunix_mapOrderStatus status =
     (let s = to_upper status in
      if s \<in> {''NEW'', ''ORDER_NEW'', ''PENDING''} then OrderStateNew
      else if s \<in> {''PART_FILLED'', ''PARTIALLY_FILLED''} then OrderStatePartiallyFilled
      else if s \<in> {''FILLED'', ''ORDER_FILLED''} then OrderStateFilled
      else if s \<in> {''CANCELED'', ''ORDER_CANCELED'', ''REJECTED'', ''EXPIRED'', ''PART_FILLED_CANCELED''} then OrderStateCanceled
      else OrderStateNew)"

definition bitunix_mapToDomainSide :: "string \<Rightarrow> string \<Rightarrow> Side" where
  "bitunix_mapToDomainSide side tradeSide =
     (let s = to_upper side; ts = to_upper tradeSide in
      if s = ''BUY'' then (if ts = ''CLOSE'' then SideCloseShort else SideOpenLong)
      else if s = ''SELL'' then (if ts = ''CLOSE'' then SideCloseLong else SideOpenShort)
      else SideUnknown)"

definition bitunix_mapOrderSide :: "Side \<Rightarrow> ex_error + string \<times> string" where
  "bitunix_mapOrderSide side = (case side of
     SideOpenLong \<Rightarrow> Inr (''BUY'', ''OPEN'')
   | SideCloseShort \<Rightarrow> Inr (''BUY'', ''CLOSE'')
   | SideOpenShort \<Rightarrow> Inr (''SELL'', ''OPEN'')
   | SideCloseLong \<Rightarrow> Inr (''SELL'', ''CLOSE'')
   | SideUnknown \<Rightarrow> Inl (TextError ''unknown order side'')
   | SideOther n \<Rightarrow> Inl (TextError ''unsupported order side''))"

fun bitunix_mapOrderType :: "ExOrderType \<Rightarrow> string \<times> string" where
  "bitunix_mapOrderType ExLimit = (''LIMIT'', ''GTC'')"
| "bitunix_mapOrderType ExPostOnly = (''LIMIT'', ''POST_ONLY'')"
| "bitunix_mapOrderType ExIOC = (''LIMIT'', ''IOC'')"
| "bitunix_mapOrderType ExFOK = (''LIMIT'', ''FOK'')"
| "bitunix_mapOrderType ExMarket = (''MARKET'', [])"

definition bitunix_tpsl :: "wire_lib \<Rightarrow> string \<Rightarrow> float64 \<Rightarrow> fields \<Rightarrow> fields" where
  "bitunix_tpsl L p price m = (if f_pos price
     then m(p @ ''Price'' \<mapsto> wl_format L price, p @ ''StopType'' \<mapsto> ''LAST_PRICE'', p @ ''OrderType'' \<mapsto> ''MARKET'') else m)"

definition bitunix_body :: "wire_lib \<Rightarrow> SubmitOrderRequest \<Rightarrow> string \<times> string \<Rightarrow> fields" where
  "bitunix_body L req sides =
     (let (side, tradeSide) = sides; (orderType, effect) = bitunix_mapOrderType (so_Type req);
          m = [''symbol'' \<mapsto> so_Symbol req, ''qty'' \<mapsto> wl_format L (so_Vol req), ''side'' \<mapsto> side, ''tradeSide'' \<mapsto> tradeSide,
               ''orderType'' \<mapsto> orderType];
          m1 = (if so_Type req \<noteq> ExMarket then m(''price'' \<mapsto> wl_format L (so_Price req), ''effect'' \<mapsto> effect) else m)
      in bitunix_tpsl L ''sl'' (so_StopLossPrice req) (bitunix_tpsl L ''tp'' (so_TakeProfitPrice req)
           (put_field ''clientId'' (so_ExternalOID req) m1)))"

definition bitunix_CreateOrder :: "bitunix_env \<Rightarrow> SubmitOrderRequest \<Rightarrow> (bitunix_call, CreateOrderResult) wire" where
  "bitunix_CreateOrder E req = (case bitunix_mapOrderSide (so_Side req) of
     Inl e \<Rightarrow> fail e
   | Inr sides \<Rightarrow> (let body = bitunix_body (bx_lib E) req sides in
       and_then (ask (BitunixPlace body) (bx_place E body)) (\<lambda>r. and_then (check_code ''place order'' r) (\<lambda>i.
         ok \<lparr>cr_OrderID = i, cr_TPSLSubmitted = (f_pos (so_TakeProfitPrice req) \<or> f_pos (so_StopLossPrice req)), cr_Time = 0\<rparr>))))"

subsection \<open>Reading orders\<close>

definition first_nonzero :: "float64 \<Rightarrow> float64 \<Rightarrow> float64" where
  "first_nonzero a b = (if f_eq a f0 then b else a)"

definition bitunix_order_info :: "wire_lib \<Rightarrow> bitunixOrder \<Rightarrow> OrderInfo" where
  "bitunix_order_info L r =
     \<lparr>oi_OrderID = bu_OrderID r, oi_Symbol = bu_Symbol r, oi_Price = wl_float L (bu_Price r), oi_Vol = wl_float L (bu_Qty r),
      oi_DealAvgPrice = wl_float L (bu_AvgPrice r),
      oi_DealVol = first_nonzero (first_nonzero (wl_float L (bu_TradeQty r)) (wl_float L (bu_FilledQty r))) (wl_float L (bu_DealQty r)),
      oi_State = bitunix_mapOrderStatus (bu_Status r), oi_ExternalOID = bu_ClientID r,
      oi_Side = bitunix_mapToDomainSide (bu_Side r) (bu_TradeSide r), oi_PositionMode = PositionModeHedge,
      oi_CreateTime = bu_CTime r, oi_UpdateTime = bu_MTime r\<rparr>"

definition bitunix_list :: "bitunix_env \<Rightarrow> string \<Rightarrow> string \<Rightarrow> fields \<Rightarrow> (bitunix_call, OrderInfo list) wire" where
  "bitunix_list E label path q = and_then (ask (BitunixGet path q) (bx_list E path q)) (\<lambda>r.
     and_then (check_code label r) (\<lambda>l. ok (map (bitunix_order_info (bx_lib E)) l)))"

definition bitunix_GetOpenOrders :: "bitunix_env \<Rightarrow> string \<Rightarrow> (bitunix_call, OrderInfo list) wire" where
  "bitunix_GetOpenOrders E smb =
     bitunix_list E ''get pending orders'' ''/api/v1/futures/trade/get_pending_orders'' (put_field ''symbol'' smb Map.empty)"

definition bitunix_GetHistoryOrders :: "bitunix_env \<Rightarrow> string \<Rightarrow> int \<Rightarrow> int \<Rightarrow> int \<Rightarrow> int \<Rightarrow> (bitunix_call, OrderInfo list) wire" where
  "bitunix_GetHistoryOrders E smb startTime endTime skip limit =
     bitunix_list E ''get history orders'' ''/api/v1/futures/trade/get_history_orders''
       (put_pos ''limit'' limit (put_pos ''skip'' skip (put_pos ''endTime'' endTime (put_pos ''startTime'' startTime
         (put_field ''symbol'' smb Map.empty)))))"

definition bitunix_rawGetOrderDetail :: "bitunix_env \<Rightarrow> string \<Rightarrow> (bitunix_call, bitunixOrder) wire" where
  "bitunix_rawGetOrderDetail E orderID =
     (let q = [''orderId'' \<mapsto> orderID] in and_then (ask (BitunixGet ''/api/v1/futures/trade/get_order_detail'' q) (bx_detail E q))
        (check_code ''get order detail''))"

text \<open>An order not found by its identifier is looked up in the history.\<close>

definition bitunix_GetOrder :: "bitunix_env \<Rightarrow> string \<Rightarrow> string \<Rightarrow> (bitunix_call, OrderInfo) wire" where
  "bitunix_GetOrder E smb orderID = do {
     r \<leftarrow> bitunix_rawGetOrderDetail E orderID;
     case r of Inr x \<Rightarrow> ok (bitunix_order_info (bx_lib E) x)
     | Inl e \<Rightarrow> do {
         h \<leftarrow> bitunix_GetHistoryOrders E smb 0 0 0 100;
         ret (case (case h of Inl _ \<Rightarrow> None | Inr l \<Rightarrow> find (\<lambda>x. oi_OrderID x = orderID) l) of None \<Rightarrow> Inl e | Some x \<Rightarrow> Inr x) }}"

definition bitunix_GetOrderByExternalID :: "bitunix_env \<Rightarrow> string \<Rightarrow> string \<Rightarrow> (bitunix_call, OrderInfo) wire" where
  "bitunix_GetOrderByExternalID E smb externalOrderID =
     in_open_or_history (bitunix_GetOpenOrders E smb) (bitunix_GetHistoryOrders E smb 0 0 0 100) externalOrderID"

subsection \<open>Cancelling\<close>

definition bitunix_rawCancelOrders :: "bitunix_env \<Rightarrow> string \<Rightarrow> string list \<Rightarrow> (bitunix_call, unit) wire" where
  "bitunix_rawCancelOrders E smb ids = and_then (ask (BitunixCancel smb ids) (bx_cancel E smb ids)) (check_code ''cancel orders'')"

definition bitunix_CancelOrder :: "bitunix_env \<Rightarrow> string \<Rightarrow> string \<Rightarrow> (bitunix_call, unit) wire" where
  "bitunix_CancelOrder E smb orderID =
     (if smb = [] then do {
        p \<leftarrow> bitunix_GetOpenOrders E [];
        bitunix_rawCancelOrders E
          (case (case p of Inl _ \<Rightarrow> None | Inr l \<Rightarrow> find (\<lambda>x. oi_OrderID x = orderID) l) of None \<Rightarrow> [] | Some x \<Rightarrow> oi_Symbol x) [orderID] }
      else bitunix_rawCancelOrders E smb [orderID])"

definition symbol_of :: "OrderInfo list \<Rightarrow> string \<Rightarrow> string" where
  "symbol_of pending i = (case find (\<lambda>x. oi_OrderID x = i) (rev pending) of None \<Rightarrow> [] | Some x \<Rightarrow> oi_Symbol x)"

text \<open>The groups, in the order their symbols appear first.\<close>

fun add_to_group :: "string \<Rightarrow> string \<Rightarrow> (string \<times> string list) list \<Rightarrow> (string \<times> string list) list" where
  "add_to_group smb i [] = [(smb, [i])]"
| "add_to_group smb i (g # gs) = (if fst g = smb then (smb, snd g @ [i]) # gs else g # add_to_group smb i gs)"

fun group_ids :: "bitunix_env \<Rightarrow> OrderInfo list \<Rightarrow> string list \<Rightarrow> (string \<times> string list) list \<Rightarrow>
    (bitunix_call, (string \<times> string list) list) wire" where
  "group_ids E pending [] gs = ok gs"
| "group_ids E pending (i # ids) gs = do {
     smb \<leftarrow> (if symbol_of pending i \<noteq> [] then ret (symbol_of pending i)
       else do { r \<leftarrow> bitunix_GetOrder E [] i; ret (case r of Inl _ \<Rightarrow> [] | Inr x \<Rightarrow> oi_Symbol x) });
     group_ids E pending ids (if smb = [] then gs else add_to_group smb i gs) }"

definition bitunix_CancelOrders :: "bitunix_env \<Rightarrow> string list \<Rightarrow> (bitunix_call, unit) wire" where
  "bitunix_CancelOrders E ids =
     (if ids = [] then ok ()
      else and_then (wrapping_ex ''fetch pending orders to cancel'' (bitunix_GetOpenOrders E [])) (\<lambda>pending.
        and_then (group_ids E pending ids []) (\<lambda>gs. each (\<lambda>(smb, l). bitunix_rawCancelOrders E smb l) (bx_iterate E gs))))"

definition bitunix_CancelAllOpenOrders :: "bitunix_env \<Rightarrow> string \<Rightarrow> (bitunix_call, unit) wire" where
  "bitunix_CancelAllOpenOrders E smb = and_then (bitunix_GetOpenOrders E smb) (each (\<lambda>oi. bitunix_CancelOrder E smb (oi_OrderID oi)))"

subsection \<open>Profit and loss of a closed position\<close>

definition calculatePnLRateAndEntry :: "float64 \<Rightarrow> float64 \<Rightarrow> float64 \<Rightarrow> bool \<Rightarrow> float64 \<times> float64" where
  "calculatePnLRateAndEntry exit totalPnL totalQty isLong =
     (let entry = (if f_pos totalQty
        then (if isLong then f_sub exit (f_div totalPnL totalQty) else f_add exit (f_div totalPnL totalQty)) else exit)
      in (entry, if f_pos entry
        then f_mul (f_div (if isLong then f_sub exit entry else f_sub entry exit) entry) (f_of_int 100) else f0))"

definition calculatePnLRate :: "float64 \<Rightarrow> float64 \<Rightarrow> bool \<Rightarrow> float64" where
  "calculatePnLRate entry exit isLong =
     (if f_le entry f0 then f0
      else f_mul (f_div (if isLong then f_sub exit entry else f_sub entry exit) entry) (f_of_int 100))"

definition bitunix_is_short :: "string \<Rightarrow> bool" where
  "bitunix_is_short s \<longleftrightarrow> equal_fold s ''SHORT'' \<or> equal_fold s ''SELL''"

definition matchClosedPosition :: "OrderInfo \<Rightarrow> bitunixHistoryPosition list \<Rightarrow> bitunixHistoryPosition option" where
  "matchClosedPosition info ps =
     find (\<lambda>p. bitunix_is_short (bh_Side p) = (oi_Side info = SideCloseShort \<or> oi_Side info = SideOpenShort) \<and>
       oi_CreateTime info \<le> bh_MTime p) ps"

definition parseClosedSize :: "wire_lib \<Rightarrow> bitunixHistoryPosition \<Rightarrow> float64 \<Rightarrow> float64" where
  "parseClosedSize L p dealVol = first_nonzero (first_nonzero (wl_float L (bh_MaxQty p)) (wl_float L (bh_Qty p))) dealVol"

definition parseExitPrice :: "wire_lib \<Rightarrow> bitunixHistoryPosition \<Rightarrow> float64 \<Rightarrow> float64 \<Rightarrow> float64" where
  "parseExitPrice L p avg price = first_nonzero (first_nonzero (wl_float L (bh_ClosePrice p)) avg) price"

definition calculateDurationMs :: "bitunixHistoryPosition \<Rightarrow> int \<Rightarrow> int" where
  "calculateDurationMs p createTime =
     (if bh_CTime p < bh_MTime p then i64 (bh_MTime p - bh_CTime p)
      else if createTime < bh_MTime p then i64 (bh_MTime p - createTime) else 0)"

definition bitunix_rawGetHistoryPositions :: "bitunix_env \<Rightarrow> string \<Rightarrow> int \<Rightarrow> (bitunix_call, bitunixHistoryPosition list) wire" where
  "bitunix_rawGetHistoryPositions E smb startTime =
     (let q = put_pos ''startTime'' startTime [''symbol'' \<mapsto> smb] in
      and_then (ask (BitunixGet ''/api/v1/futures/position/get_history_positions'' q) (bx_positions E q))
        (check_code ''get history positions''))"

definition bitunix_pnl_of :: "wire_lib \<Rightarrow> string \<Rightarrow> OrderInfo \<Rightarrow> bitunixHistoryPosition \<Rightarrow> ClosedPnLInfo" where
  "bitunix_pnl_of L smb info p =
     (let closedSize = parseClosedSize L p (oi_DealVol info); netPnL = wl_float L (bh_RealizedPNL p); fee = wl_float L (bh_Fee p);
          fundingFee = wl_float L (bh_Funding p); grossPnL = f_sub (f_add netPnL fee) fundingFee;
          exit = parseExitPrice L p (oi_DealAvgPrice info) (oi_Price info);
          isLong = (oi_Side info = SideCloseLong \<or> oi_Side info = SideOpenLong);
          entry = first_nonzero (wl_float L (bh_EntryPrice p)) (fst (calculatePnLRateAndEntry exit grossPnL closedSize isLong))
      in \<lparr>ci_Exchange = ''bitunix'', ci_Symbol = smb, ci_Status = oi_State info, ci_EntryPrice = entry, ci_ExitPrice = exit,
          ci_ClosedSizeContract = None, ci_ClosedSizeCoin = Some closedSize, ci_GrossPnL = grossPnL, ci_Fee = fee,
          ci_FundingFee = fundingFee, ci_DurationMs = calculateDurationMs p (oi_CreateTime info), ci_NetPnl = netPnL,
          ci_PnLRate = calculatePnLRate entry exit isLong\<rparr>)"

definition no_pnl :: "string \<Rightarrow> string \<Rightarrow> OrderState \<Rightarrow> ClosedPnLInfo" where
  "no_pnl exch smb s =
     \<lparr>ci_Exchange = exch, ci_Symbol = smb, ci_Status = s, ci_EntryPrice = f0, ci_ExitPrice = f0, ci_ClosedSizeContract = None,
      ci_ClosedSizeCoin = None, ci_GrossPnL = f0, ci_Fee = f0, ci_FundingFee = f0, ci_DurationMs = 0, ci_NetPnl = f0, ci_PnLRate = f0\<rparr>"

definition bitunix_GetOrderPNL :: "bitunix_env \<Rightarrow> string \<Rightarrow> string \<Rightarrow> (bitunix_call, ClosedPnLInfo) wire" where
  "bitunix_GetOrderPNL E smb orderID =
     and_then (wrapping_ex (''bitunix get order by ID '' @ orderID @ '' failed'') (bitunix_GetOrder E smb orderID)) (\<lambda>info.
       if oi_State info = OrderStateCanceled \<and> f_eq (oi_DealVol info) f0 then ok (no_pnl ''bitunix'' smb (oi_State info))
       else and_then (wrapping_ex ''query history positions''
           (bitunix_rawGetHistoryPositions E smb (max (oi_CreateTime info) 0))) (\<lambda>ps.
         case matchClosedPosition info ps of
           None \<Rightarrow> fail (TextError (''no matching closed position found for order '' @ orderID))
         | Some p \<Rightarrow> ok (bitunix_pnl_of (bx_lib E) smb info p)))"

subsection \<open>The contracts\<close>

definition bitunix_encode :: "Side \<Rightarrow> (string \<times> string) option" where
  "bitunix_encode s = (case bitunix_mapOrderSide s of Inl e \<Rightarrow> None | Inr w \<Rightarrow> Some w)"

interpretation bitunix_sides: side_codec bitunix_encode "\<lambda>w. bitunix_mapToDomainSide (fst w) (snd w)"
  by unfold_locales (auto simp: trade_sides_def bitunix_encode_def bitunix_mapOrderSide_def bitunix_mapToDomainSide_def
      to_upper_def upper_char_def)

definition bitunix_cancels :: "string \<Rightarrow> bitunix_call \<Rightarrow> bool" where
  "bitunix_cancels i c \<longleftrightarrow> (\<exists>smb ids. c = BitunixCancel smb ids \<and> i \<in> set ids)"

lemma bitunix_raw_cancel_call:
  "run_state (bitunix_rawCancelOrders E smb ids) l = (r, l1) \<Longrightarrow> l1 = l @ [BitunixCancel smb ids]"
  by (auto simp: bitunix_rawCancelOrders_def check_code_def split: sum.splits if_splits)

lemma bitunix_list_call: "run_state (bitunix_list E label path q) l = (r, l1) \<Longrightarrow> l1 = l @ [BitunixGet path q]"
  by (auto simp: bitunix_list_def check_code_def split: sum.splits if_splits)

lemma bitunix_open_call: "run_state (bitunix_GetOpenOrders E smb) l = (r, l1) \<Longrightarrow> \<exists>k. l1 = l @ k"
  by (auto simp: bitunix_GetOpenOrders_def dest: bitunix_list_call)

lemma bitunix_cancel_calls:
  assumes "run_state (bitunix_CancelOrder E smb i) l = (r, l1)"
  shows "\<exists>k. l1 = l @ k \<and> (\<exists>c \<in> set k. bitunix_cancels i c)"
  using assms
  by (cases "smb = []")
    (auto simp: bitunix_CancelOrder_def bitunix_cancels_def dest!: bitunix_raw_cancel_call bitunix_open_call split: prod.splits)

interpretation bitunix_canceller: order_canceller "bitunix_GetOpenOrders E smb" "bitunix_CancelOrder E smb" bitunix_cancels for E smb
  by unfold_locales (use bitunix_open_call bitunix_cancel_calls in blast)+

lemma bitunix_all_cancelled:
  assumes "run_state (bitunix_CancelAllOpenOrders E smb) l = (Inr (), l1)"
  shows "\<exists>os l2 k. run_state (bitunix_GetOpenOrders E smb) l = (Inr os, l2) \<and> l1 = l2 @ k \<and>
    (\<forall>oi \<in> set os. \<exists>c \<in> set k. bitunix_cancels (oi_OrderID oi) c)"
  using bitunix_canceller.all_cancelled [of E smb l l1] assms by (auto simp: bitunix_CancelAllOpenOrders_def)

subsection \<open>Cancelling many orders\<close>

definition in_group :: "(string \<times> string list) list \<Rightarrow> string \<Rightarrow> string \<Rightarrow> bool" where
  "in_group gs smb i \<longleftrightarrow> (\<exists>g \<in> set gs. fst g = smb \<and> i \<in> set (snd g))"

lemma in_group_add: "in_group (add_to_group smb i gs) smb i"
  by (induction gs) (auto simp: in_group_def)

lemma in_group_keep: "in_group gs s j \<Longrightarrow> in_group (add_to_group smb i gs) s j"
  by (induction gs) (auto simp: in_group_def)

lemma bitunix_order_call: "run_state (bitunix_GetOrder E smb i) l = (r, l1) \<Longrightarrow> \<exists>k. l1 = l @ k"
  by (auto simp: bitunix_GetOrder_def bitunix_rawGetOrderDetail_def bitunix_GetHistoryOrders_def check_code_def Let_def
      dest!: bitunix_list_call split: prod.splits sum.splits if_splits)

lemma group_ids_ok: "\<exists>gs' l1. run_state (group_ids E pending ids gs) l = (Inr gs', l1)"
  by (induction ids arbitrary: gs l) (auto split: prod.splits)

lemma group_ids_groups:
  "run_state (group_ids E pending ids gs) l = (Inr gs', l1) \<Longrightarrow>
     (\<exists>k. l1 = l @ k) \<and> (\<forall>s j. in_group gs s j \<longrightarrow> in_group gs' s j) \<and>
     (\<forall>i \<in> set ids. symbol_of pending i \<noteq> [] \<longrightarrow> in_group gs' (symbol_of pending i) i)"
proof (induction ids arbitrary: gs l)
  case (Cons i ids)
  define find_symbol where "find_symbol = (if symbol_of pending i \<noteq> [] then ret (symbol_of pending i)
    else do { r \<leftarrow> bitunix_GetOrder E [] i; ret (case r of Inl _ \<Rightarrow> [] | Inr x \<Rightarrow> oi_Symbol x) })"
  obtain smb l2 where one: "run_state find_symbol l = (smb, l2)" by fastforce
  let ?gs = "if smb = [] then gs else add_to_group smb i gs"
  have rest: "run_state (group_ids E pending ids ?gs) l2 = (Inr gs', l1)"
    using Cons.prems one by (simp add: find_symbol_def)
  have smb: "symbol_of pending i \<noteq> [] \<Longrightarrow> smb = symbol_of pending i" "\<exists>k. l2 = l @ k"
    using one by (auto simp: find_symbol_def dest!: bitunix_order_call split: if_splits prod.splits)
  have kept: "in_group gs s j \<Longrightarrow> in_group ?gs s j" for s j by (simp add: in_group_keep)
  have new: "symbol_of pending i \<noteq> [] \<Longrightarrow> in_group ?gs (symbol_of pending i) i" using smb(1) by (auto simp: in_group_add)
  note ih = Cons.IH [OF rest]
  have "\<exists>k. l1 = l @ k" using ih smb(2) by auto
  moreover have "\<forall>x \<in> set (i # ids). symbol_of pending x \<noteq> [] \<longrightarrow> in_group gs' (symbol_of pending x) x" using ih new by auto
  ultimately show ?case using ih kept by blast
qed auto

lemma each_group_cancelled:
  "run_state (each (\<lambda>(smb, l). bitunix_rawCancelOrders E smb l) gs) l = (Inr (), l1) \<Longrightarrow>
   l1 = l @ map (\<lambda>(smb, ids). BitunixCancel smb ids) gs"
proof (induction gs arbitrary: l)
  case (Cons g gs)
  obtain smb ids where g: "g = (smb, ids)" by (cases g)
  obtain l2 where "run_state (bitunix_rawCancelOrders E smb ids) l = (Inr (), l2)"
      and rest: "run_state (each (\<lambda>(smb, l). bitunix_rawCancelOrders E smb l) gs) l2 = (Inr (), l1)"
    using Cons.prems g by (auto split: prod.splits sum.splits)
  then show ?case using Cons.IH [OF rest] bitunix_raw_cancel_call g by fastforce
qed simp

text \<open>
  \<open>CancelOrders\<close> groups the identifiers by symbol. When it succeeds, and in whatever order the
  map of groups is iterated, every identifier that is among the open orders was cancelled by a
  call under the symbol it is listed with.
\<close>

lemma bitunix_bulk_cancelled:
  assumes "run_state (bitunix_CancelOrders E ids) l = (Inr (), l1)" "ids \<noteq> []" "\<And>gs. mset (bx_iterate E gs) = mset gs"
  shows "\<exists>pending l2 k. run_state (bitunix_GetOpenOrders E []) l = (Inr pending, l2) \<and> l1 = l2 @ k \<and>
    (\<forall>i \<in> set ids. symbol_of pending i \<noteq> [] \<longrightarrow> (\<exists>g. BitunixCancel (symbol_of pending i) g \<in> set k \<and> i \<in> set g))"
proof -
  obtain pending l2 where p: "run_state (bitunix_GetOpenOrders E []) l = (Inr pending, l2)"
    using assms(1,2) by (auto simp: bitunix_CancelOrders_def split: prod.splits sum.splits)
  obtain gs l3 where g: "run_state (group_ids E pending ids []) l2 = (Inr gs, l3)" using group_ids_ok by blast
  have e: "run_state (each (\<lambda>(smb, l). bitunix_rawCancelOrders E smb l) (bx_iterate E gs)) l3 = (Inr (), l1)"
    using assms(1,2) p g by (simp add: bitunix_CancelOrders_def)
  have l1: "l1 = l3 @ map (\<lambda>(smb, ids). BitunixCancel smb ids) (bx_iterate E gs)" by (rule each_group_cancelled [OF e])
  obtain k where k: "l3 = l2 @ k" using group_ids_groups [OF g] by blast
  have sent: "set (bx_iterate E gs) = set gs" using assms(3) by (metis set_mset_mset)
  have "\<exists>g. BitunixCancel (symbol_of pending i) g \<in> set (map (\<lambda>(smb, ids). BitunixCancel smb ids) (bx_iterate E gs)) \<and> i \<in> set g"
    if "i \<in> set ids" "symbol_of pending i \<noteq> []" for i
    using that group_ids_groups [OF g] sent by (force simp: in_group_def)
  then have "\<forall>i \<in> set ids. symbol_of pending i \<noteq> [] \<longrightarrow> (\<exists>g. BitunixCancel (symbol_of pending i) g \<in>
      set (k @ map (\<lambda>(smb, ids). BitunixCancel smb ids) (bx_iterate E gs)) \<and> i \<in> set g)" by (metis UnCI set_append)
  moreover have "l1 = l2 @ (k @ map (\<lambda>(smb, ids). BitunixCancel smb ids) (bx_iterate E gs))" using l1 k by simp
  ultimately show ?thesis using p by blast
qed

text \<open>Two open orders of two symbols, and a map iterated backwards.\<close>

definition bitunix_sample_order :: "string \<Rightarrow> string \<Rightarrow> bitunixOrder" where
  "bitunix_sample_order i smb =
     \<lparr>bu_OrderID = i, bu_ClientID = ''c'', bu_Symbol = smb, bu_Side = ''BUY'', bu_TradeSide = ''OPEN'', bu_Price = ''1'', bu_Qty = ''1'',
      bu_FilledQty = ''0'', bu_TradeQty = ''0'', bu_DealQty = ''0'', bu_AvgPrice = ''0'', bu_Status = ''NEW'', bu_CTime = 1, bu_MTime = 1\<rparr>"

definition bitunix_sample :: bitunix_env where
  "bitunix_sample =
     \<lparr>bx_lib = \<lparr>wl_float = (\<lambda>s. f0), wl_format = (\<lambda>x. ''0'')\<rparr>,
      bx_place = (\<lambda>m l. Inr \<lparr>ba_Code = 0, ba_Msg = [], ba_Data = ''9''\<rparr>),
      bx_cancel = (\<lambda>smb ids l. Inr \<lparr>ba_Code = 0, ba_Msg = [], ba_Data = ()\<rparr>),
      bx_detail = (\<lambda>m l. Inr \<lparr>ba_Code = 1, ba_Msg = ''no order'', ba_Data = bitunix_sample_order [] []\<rparr>),
      bx_list = (\<lambda>path m l. Inr \<lparr>ba_Code = 0, ba_Msg = [],
        ba_Data = [bitunix_sample_order ''1'' ''BTC'', bitunix_sample_order ''2'' ''ETH'', bitunix_sample_order ''3'' ''BTC'']\<rparr>),
      bx_positions = (\<lambda>m l. Inr \<lparr>ba_Code = 0, ba_Msg = [], ba_Data = []\<rparr>), bx_iterate = rev\<rparr>"

lemma bitunix_sample_run:
  "run_state (bitunix_CancelOrders bitunix_sample [''1'', ''2'', ''3'']) [] =
     (Inr (), [BitunixGet ''/api/v1/futures/trade/get_pending_orders'' Map.empty, BitunixCancel ''ETH'' [''2''], BitunixCancel ''BTC'' [''1'', ''3'']])"
  by (simp add: bitunix_CancelOrders_def bitunix_GetOpenOrders_def bitunix_list_def bitunix_sample_def bitunix_sample_order_def
      check_code_def bitunix_order_info_def symbol_of_def bitunix_rawCancelOrders_def put_field_def)

lemma bitunix_bulk_cancelled_witness:
  "\<exists>pending l2 k. run_state (bitunix_GetOpenOrders bitunix_sample []) [] = (Inr pending, l2) \<and>
    [BitunixGet ''/api/v1/futures/trade/get_pending_orders'' Map.empty, BitunixCancel ''ETH'' [''2''], BitunixCancel ''BTC'' [''1'', ''3'']] = l2 @ k \<and>
    (\<forall>i \<in> set [''1'', ''2'', ''3'']. symbol_of pending i \<noteq> [] \<longrightarrow> (\<exists>g. BitunixCancel (symbol_of pending i) g \<in> set k \<and> i \<in> set g))"
  by (rule bitunix_bulk_cancelled [OF bitunix_sample_run]) (simp_all add: bitunix_sample_def)

text \<open>An identifier whose symbol cannot be found is passed over, and the call succeeds.\<close>

lemma bitunix_unknown_skipped:
  assumes "run_state (bitunix_GetOpenOrders E []) l = (Inr pending, l2)" "symbol_of pending i = []"
    and "run_state (bitunix_GetOrder E [] i) l2 = (Inl e, l3)" "bx_iterate E [] = []"
  shows "run_state (bitunix_CancelOrders E [i]) l = (Inr (), l3)"
  using assms by (simp add: bitunix_CancelOrders_def)

end
