(* ===== verification/XtOrders.thy ===== *)
theory XtOrders
  imports ExchangeWire
begin

text \<open>
  \<open>internal/infrastructure/exchange/xt\<close>: \<open>order.go\<close>, \<open>position.go\<close>, \<open>trade.go\<close> and the symbols of
  \<open>market.go\<close>. A call is its method, path and parameters or body; the answers, decoded, are the
  environment. The three order records of the source have the same fields.
\<close>

record xtCreateOrderReq =
  xq_Symbol :: string
  xq_PositionSide :: string
  xq_OrderSide :: string
  xq_OrderType :: string
  xq_OrigQty :: int
  xq_Price :: float64
  xq_ClientOrderId :: string
  xq_TimeInForce :: string
  xq_ReduceOnly :: bool

datatype xt_call =
    XtCreate xtCreateOrderReq | XtCancel string string | XtCancelAll string
  | XtGet string fields | XtPost string fields

record 'a xt_answer =
  xa_ReturnCode :: int
  xa_MsgInfo :: string
  xa_Result :: 'a

record xtOrder =
  xo_OrderID :: string
  xo_ClientOrderId :: string
  xo_Symbol :: string
  xo_OrderSide :: string
  xo_PositionSide :: string
  xo_Price :: string
  xo_OrigQty :: string
  xo_ExecutedQty :: string
  xo_AvgPrice :: string
  xo_State :: string
  xo_CreatedTime :: int
  xo_UpdateTime :: int

record xtOpenPosition =
  xp_Symbol :: string
  xp_PositionSide :: string
  xp_PositionSize :: string
  xp_EntryPrice :: string
  xp_Leverage :: int

record xtHistoryPosition =
  xh_PositionSide :: string
  xh_CloseProfit :: string
  xh_ClosePositionSize :: string
  xh_CloseOpenPrice :: string
  xh_ClosePrice :: string
  xh_OpenTime :: int
  xh_CloseTime :: int
  xh_TotalFee :: string
  xh_TotalFundFee :: string

record xtBillItem =
  xb_Amount :: string
  xb_Symbol :: string
  xb_Type :: string

text \<open>\<open>xe_parse\<close> is \<open>strconv.ParseFloat\<close>, None an error.\<close>

record xt_env =
  xe_lib :: wire_lib
  xe_parse :: "string \<Rightarrow> float64 option"
  xe_send :: "xt_call \<Rightarrow> xt_call list \<Rightarrow> ex_error + string xt_answer"
  xe_order :: "fields \<Rightarrow> xt_call list \<Rightarrow> ex_error + xtOrder xt_answer"
  xe_orders :: "string \<Rightarrow> fields \<Rightarrow> xt_call list \<Rightarrow> ex_error + xtOrder list xt_answer"
  xe_positions :: "fields \<Rightarrow> xt_call list \<Rightarrow> ex_error + xtOpenPosition list xt_answer"
  xe_history :: "fields \<Rightarrow> xt_call list \<Rightarrow> ex_error + xtHistoryPosition list xt_answer"
  xe_bills :: "fields \<Rightarrow> xt_call list \<Rightarrow> ex_error + xtBillItem list xt_answer"

definition xt_check :: "string \<Rightarrow> 'a xt_answer \<Rightarrow> (xt_call, 'a) wire" where
  "xt_check label r = (if xa_ReturnCode r \<noteq> 0
     then fail (TextError (label @ '' error: code='' @ format_int (xa_ReturnCode r) @ '', msg='' @ xa_MsgInfo r)) else ok (xa_Result r))"

subsection \<open>Symbols, sides and states\<close>

definition toStandardSymbol :: "string \<Rightarrow> string" where
  "toStandardSymbol s = replace_all ''_'' [] (replace_all ''-'' [] (to_upper s))"

definition has_suffix :: "string \<Rightarrow> string \<Rightarrow> bool" where
  "has_suffix p s \<longleftrightarrow> length p \<le> length s \<and> drop (length s - length p) s = p"

definition cleanXTSymbol :: "string \<Rightarrow> string" where
  "cleanXTSymbol symbol =
     (let s = to_lower symbol in
      if str_contains s ''_'' then s
      else if has_suffix ''usdt'' s then take (length s - 4) s @ ''_usdt''
      else if has_suffix ''usdc'' s then take (length s - 4) s @ ''_usdc''
      else s)"

definition xt_mapOrderStatus :: "string \<Rightarrow> OrderState" where
  "xt_mapOrderStatus status =
     (let s = to_upper status in
      if s = ''NEW'' \<or> s = ''PENDING'' then OrderStateNew
      else if s = ''PARTIALLY_FILLED'' then OrderStatePartiallyFilled
      else if s = ''FILLED'' then OrderStateFilled
      else if s = ''CANCELED'' \<or> s = ''REJECTED'' \<or> s = ''EXPIRED'' then OrderStateCanceled
      else OrderStateNew)"

definition xt_mapToDomainSide :: "string \<Rightarrow> string \<Rightarrow> Side" where
  "xt_mapToDomainSide orderSide positionSide =
     (let s = to_upper orderSide; ps = to_upper positionSide in
      if ps = ''LONG'' then (if s = ''BUY'' then SideOpenLong else SideCloseLong)
      else if s = ''SELL'' then SideOpenShort else SideCloseShort)"

definition mapToExchangeSide :: "Side \<Rightarrow> string \<times> string" where
  "mapToExchangeSide side = (case side of
     SideOpenLong \<Rightarrow> (''BUY'', ''LONG'')
   | SideCloseLong \<Rightarrow> (''SELL'', ''LONG'')
   | SideOpenShort \<Rightarrow> (''SELL'', ''SHORT'')
   | SideCloseShort \<Rightarrow> (''BUY'', ''SHORT'')
   | _ \<Rightarrow> (''BUY'', ''LONG''))"

definition mapOrderToDomain :: "wire_lib \<Rightarrow> xtOrder \<Rightarrow> OrderInfo" where
  "mapOrderToDomain L r =
     \<lparr>oi_OrderID = xo_OrderID r, oi_Symbol = toStandardSymbol (xo_Symbol r), oi_Price = ToFloat64 L (xo_Price r),
      oi_Vol = ToFloat64 L (xo_OrigQty r), oi_DealAvgPrice = ToFloat64 L (xo_AvgPrice r), oi_DealVol = ToFloat64 L (xo_ExecutedQty r),
      oi_State = xt_mapOrderStatus (xo_State r), oi_ExternalOID = xo_ClientOrderId r,
      oi_Side = xt_mapToDomainSide (xo_OrderSide r) (xo_PositionSide r), oi_PositionMode = 0,
      oi_CreateTime = xo_CreatedTime r, oi_UpdateTime = xo_UpdateTime r\<rparr>"

subsection \<open>Sending and cancelling orders\<close>

definition xt_payload :: "SubmitOrderRequest \<Rightarrow> xtCreateOrderReq" where
  "xt_payload req =
     \<lparr>xq_Symbol = cleanXTSymbol (so_Symbol req), xq_PositionSide = snd (mapToExchangeSide (so_Side req)),
      xq_OrderSide = fst (mapToExchangeSide (so_Side req)), xq_OrderType = (if so_Type req = ExMarket then ''MARKET'' else ''LIMIT''),
      xq_OrigQty = f_to_i64 (so_Vol req), xq_Price = so_Price req, xq_ClientOrderId = so_ExternalOID req,
      xq_TimeInForce = (case so_Type req of ExPostOnly \<Rightarrow> ''GTX'' | ExIOC \<Rightarrow> ''IOC'' | ExFOK \<Rightarrow> ''FOK'' | _ \<Rightarrow> []),
      xq_ReduceOnly = so_ReduceOnly req\<rparr>"

definition xt_command :: "xt_env \<Rightarrow> string \<Rightarrow> xt_call \<Rightarrow> (xt_call, string) wire" where
  "xt_command E label c = and_then (ask c (xe_send E c)) (xt_check label)"

definition xt_CreateOrder :: "xt_env \<Rightarrow> SubmitOrderRequest \<Rightarrow> (xt_call, CreateOrderResult) wire" where
  "xt_CreateOrder E req = and_then (xt_command E ''create order API'' (XtCreate (xt_payload req)))
     (\<lambda>i. ok \<lparr>cr_OrderID = i, cr_TPSLSubmitted = False, cr_Time = 0\<rparr>)"

definition xt_CancelOrder :: "xt_env \<Rightarrow> string \<Rightarrow> string \<Rightarrow> (xt_call, unit) wire" where
  "xt_CancelOrder E smb orderID =
     and_then (xt_command E ''cancel order API'' (XtCancel (cleanXTSymbol smb) orderID)) (\<lambda>_. ok ())"

definition xt_CancelAllOpenOrders :: "xt_env \<Rightarrow> string \<Rightarrow> (xt_call, unit) wire" where
  "xt_CancelAllOpenOrders E smb =
     and_then (xt_command E ''cancel all open orders'' (XtCancelAll (cleanXTSymbol smb))) (\<lambda>_. ok ())"

subsection \<open>Reading orders\<close>

definition symbol_field :: "string \<Rightarrow> fields \<Rightarrow> fields" where
  "symbol_field smb m = (if smb \<noteq> [] then m(''symbol'' \<mapsto> cleanXTSymbol smb) else m)"

definition xt_GetOrder :: "xt_env \<Rightarrow> string \<Rightarrow> string \<Rightarrow> (xt_call, OrderInfo) wire" where
  "xt_GetOrder E smb orderID =
     (let q = [''symbol'' \<mapsto> cleanXTSymbol smb, ''orderId'' \<mapsto> orderID] in
      and_then (ask (XtGet ''/future/trade/v1/order/detail'' q) (xe_order E q)) (\<lambda>r.
      and_then (xt_check ''get order'' r) (\<lambda>x. ok (mapOrderToDomain (xe_lib E) x))))"

definition xt_list :: "xt_env \<Rightarrow> string \<Rightarrow> string \<Rightarrow> fields \<Rightarrow> (xt_call, OrderInfo list) wire" where
  "xt_list E label path q = and_then (ask (XtGet path q) (xe_orders E path q)) (\<lambda>r.
     and_then (xt_check label r) (\<lambda>l. ok (map (mapOrderToDomain (xe_lib E)) l)))"

definition xt_GetOpenOrders :: "xt_env \<Rightarrow> string \<Rightarrow> (xt_call, OrderInfo list) wire" where
  "xt_GetOpenOrders E smb = xt_list E ''get open orders'' ''/future/trade/v1/order/list'' (symbol_field smb Map.empty)"

definition xt_GetHistoryOrders :: "xt_env \<Rightarrow> string \<Rightarrow> int \<Rightarrow> (xt_call, OrderInfo list) wire" where
  "xt_GetHistoryOrders E smb limit =
     (let m = symbol_field smb [''direction'' \<mapsto> ''NEXT''] in
      xt_list E ''get history orders'' ''/future/trade/v1/order/list-history''
        (if 0 < limit then m(''limit'' \<mapsto> format_int limit) else m))"

definition xt_GetOrderByExternalID :: "xt_env \<Rightarrow> string \<Rightarrow> string \<Rightarrow> (xt_call, OrderInfo) wire" where
  "xt_GetOrderByExternalID E smb externalOrderID =
     in_open_or_history (xt_GetOpenOrders E smb) (xt_GetHistoryOrders E smb 100) externalOrderID"

text \<open>The result of a cancel is dropped, and an order that is not listed is passed over.\<close>

definition xt_symbol_of :: "OrderInfo list \<Rightarrow> string \<Rightarrow> string" where
  "xt_symbol_of pending i = (case find (\<lambda>x. oi_OrderID x = i) (rev pending) of None \<Rightarrow> [] | Some x \<Rightarrow> oi_Symbol x)"

definition dropping :: "('c, 'a) wire \<Rightarrow> ('c, unit) wire" where
  "dropping m = do { _ \<leftarrow> m; ok () }"

definition xt_CancelOrders :: "xt_env \<Rightarrow> string list \<Rightarrow> (xt_call, unit) wire" where
  "xt_CancelOrders E ids =
     (if ids = [] then ok ()
      else and_then (wrapping_ex ''fetch pending orders to cancel'' (xt_GetOpenOrders E [])) (\<lambda>pending.
        each (\<lambda>i. if xt_symbol_of pending i = [] then ok ()
          else dropping (xt_CancelOrder E (xt_symbol_of pending i) i)) ids))"

subsection \<open>Positions\<close>

definition xt_rawGetOpenPositions :: "xt_env \<Rightarrow> string \<Rightarrow> (xt_call, xtOpenPosition list) wire" where
  "xt_rawGetOpenPositions E smb =
     (let q = symbol_field smb Map.empty in
      and_then (ask (XtGet ''/future/user/v1/position'' q) (xe_positions E q)) (xt_check ''get positions API''))"

definition xt_position :: "wire_lib \<Rightarrow> xtOpenPosition \<Rightarrow> Position" where
  "xt_position L p =
     \<lparr>po_Symbol = toStandardSymbol (xp_Symbol p), po_HoldVolContract = ToFloat64 L (xp_PositionSize p), po_HoldVolCoin = f0,
      po_RawHoldVol = ToFloat64 L (xp_PositionSize p),
      po_PositionType = (if equal_fold (xp_PositionSide p) ''SHORT'' then PositionTypeShort else PositionTypeLong),
      po_OpenAvgPrice = ToFloat64 L (xp_EntryPrice p), po_HoldAvgPrice = ToFloat64 L (xp_EntryPrice p), po_CloseAvgPrice = f0,
      po_CloseProfitLoss = f0, po_Fee = f0, po_HoldFee = f0, po_Leverage = xp_Leverage p\<rparr>"

definition xt_GetOpenPositions :: "xt_env \<Rightarrow> string \<Rightarrow> (xt_call, Position list) wire" where
  "xt_GetOpenPositions E smb = and_then (xt_rawGetOpenPositions E smb) (\<lambda>l.
     ok (map (xt_position (xe_lib E)) (filter (\<lambda>p. \<not> f_eq (ToFloat64 (xe_lib E) (xp_PositionSize p)) f0) l)))"

definition xt_close_request :: "string \<Rightarrow> Side \<Rightarrow> float64 \<Rightarrow> SubmitOrderRequest" where
  "xt_close_request smb closeSide vol =
     \<lparr>so_Symbol = smb, so_Price = f0, so_Vol = vol, so_Leverage = 0, so_Side = closeSide, so_Type = ExMarket,
      so_OpenType = OpenTypeIsolated, so_ExternalOID = [], so_PositionID = 0, so_PositionMode = 0,
      so_ReduceOnly = True, so_FlashClose = False, so_StopLossPrice = f0, so_TakeProfitPrice = f0, so_SkipRateLimit = False\<rparr>"

definition xt_target :: "wire_lib \<Rightarrow> string \<Rightarrow> Side \<Rightarrow> xtOpenPosition list \<Rightarrow> float64" where
  "xt_target L smb closeSide ps =
     (case find (\<lambda>p. toStandardSymbol (xp_Symbol p) = toStandardSymbol smb \<and>
          equal_fold (xp_PositionSide p) (if closeSide = SideCloseShort then ''SHORT'' else ''LONG'')) ps of
        None \<Rightarrow> f0 | Some p \<Rightarrow> ToFloat64 L (xp_PositionSize p))"

definition xt_ClosePosition :: "xt_env \<Rightarrow> string \<Rightarrow> Side \<Rightarrow> float64 \<Rightarrow> PositionMode \<Rightarrow> int \<Rightarrow> (xt_call, unit) wire" where
  "xt_ClosePosition E smb closeSide volume positionMode leverage = and_then (xt_rawGetOpenPositions E smb) (\<lambda>ps.
     let target = xt_target (xe_lib E) smb closeSide ps in
     if f_eq target f0 then ok ()
     else and_then (xt_CreateOrder E (xt_close_request smb closeSide (if f_pos volume \<and> f_lt volume target then volume else target)))
       (\<lambda>_. ok ()))"

definition xt_CloseAllPositions :: "xt_env \<Rightarrow> string \<Rightarrow> (xt_call, unit) wire" where
  "xt_CloseAllPositions E smb = do {
     _ \<leftarrow> xt_CancelAllOpenOrders E smb;
     and_then (xt_GetOpenPositions E smb) (each (\<lambda>p. dropping (xt_ClosePosition E smb
       (if po_PositionType p = PositionTypeLong then SideCloseLong else SideCloseShort)
       (if f_eq (po_HoldVolContract p) f0 then po_HoldVolCoin p else po_HoldVolContract p) PositionModeHedge (po_Leverage p)))) }"

subsection \<open>Account settings (\<open>trade.go\<close>)\<close>

definition xt_ChangeLeverage :: "xt_env \<Rightarrow> ChangeLeverageRequest \<Rightarrow> (xt_call, unit) wire" where
  "xt_ChangeLeverage E req = each (\<lambda>ps.
     let c = XtPost ''/future/user/v1/position/adjust-leverage''
       [''symbol'' \<mapsto> cleanXTSymbol (cl_Symbol req), ''positionSide'' \<mapsto> ps, ''leverage'' \<mapsto> format_int (cl_Leverage req)]
     in and_then (wrapping_ex (''adjust leverage request error for '' @ ps) (ask c (xe_send E c))) (\<lambda>_. ok ())) [''LONG'', ''SHORT'']"

definition xt_SwitchMarginMode :: "xt_env \<Rightarrow> string \<Rightarrow> MarginMode \<Rightarrow> int \<Rightarrow> Side \<Rightarrow> (xt_call, unit) wire" where
  "xt_SwitchMarginMode E smb marginMode leverage side =
     (let c = XtPost ''/future/user/v1/position/change-type''
        [''symbol'' \<mapsto> cleanXTSymbol smb,
         ''positionSide'' \<mapsto> (if side = SideOpenLong \<or> side = SideCloseLong then ''LONG'' else ''SHORT''),
         ''positionType'' \<mapsto> (if marginMode = MarginModeIsolated then ''ISOLATED'' else ''CROSSED'')] in
      and_then (ask c (xe_send E c)) (\<lambda>r.
        if xa_ReturnCode r \<noteq> 0 \<and> \<not> str_contains (xa_MsgInfo r) ''identical'' \<and> \<not> str_contains (xa_MsgInfo r) ''no change''
        then fail (TextError (''change margin type API error: code='' @ format_int (xa_ReturnCode r) @ '', msg='' @ xa_MsgInfo r))
        else ok ()))"

subsection \<open>Profit and loss of a closed position\<close>

text \<open>
  The closed position of the side whose closing time is nearest to the order's, the first of equal
  ones, when it is within five minutes.
\<close>

definition abs64 :: "int \<Rightarrow> int" where
  "abs64 n = (if n < 0 then i64 (- n) else n)"

fun nearest :: "string \<Rightarrow> int \<Rightarrow> xtHistoryPosition list \<Rightarrow> int \<times> xtHistoryPosition option \<Rightarrow> int \<times> xtHistoryPosition option" where
  "nearest side t [] best = best"
| "nearest side t (p # ps) best =
     (let diff = abs64 (i64 (xh_CloseTime p - t)) in
      nearest side t ps (if equal_fold (xh_PositionSide p) side \<and> diff < fst best then (diff, Some p) else best))"

definition match_history :: "string \<Rightarrow> int \<Rightarrow> xtHistoryPosition list \<Rightarrow> xtHistoryPosition option" where
  "match_history side t ps = (case nearest side t ps (2 ^ 63 - 1, None) of
     (d, None) \<Rightarrow> None | (d, Some p) \<Rightarrow> if 300000 < d then None else Some p)"

definition fetchMatchedPositionHistory :: "xt_env \<Rightarrow> string \<Rightarrow> int \<Rightarrow> string \<Rightarrow> (xt_call, xtHistoryPosition) wire" where
  "fetchMatchedPositionHistory E smb createTime side =
     (let q = [''symbol'' \<mapsto> smb, ''startTime'' \<mapsto> format_int createTime, ''limit'' \<mapsto> ''50''] in
      and_then (wrapping_ex ''fetch position history''
        (ask (XtGet ''/future/trade/v1/position/list-history'' q) (xe_history E q))) (\<lambda>r.
      and_then (xt_check ''position history API'' r) (\<lambda>ps. case match_history side createTime ps of
        None \<Rightarrow> fail (TextError (''no matching position history found for symbol '' @ smb @ '' side '' @ side @ '' near time '' @ format_int createTime)) | Some p \<Rightarrow> ok p)))"

text \<open>The funding fee of the bill, None when there is none; its sign is always that of a payment.\<close>

definition is_funding_bill :: "string \<Rightarrow> xtBillItem \<Rightarrow> bool" where
  "is_funding_bill smb b \<longleftrightarrow> equal_fold (xb_Type b) ''FUND'' \<and>
     equal_fold (toStandardSymbol (xb_Symbol b)) (toStandardSymbol smb)"

definition getFundingFee :: "xt_env \<Rightarrow> string \<Rightarrow> int \<Rightarrow> (xt_call, float64 option) wire" where
  "getFundingFee E smb createTime =
     (if createTime = 0 then ok None
      else let q = [''symbol'' \<mapsto> cleanXTSymbol smb, ''startTime'' \<mapsto> format_int createTime,
                    ''endTime'' \<mapsto> format_int (i64 (createTime + 60000)), ''limit'' \<mapsto> ''50''] in
        and_then (wrapping_ex ''fetch balance bills'' (ask (XtGet ''/future/user/v1/balance/bills'' q) (xe_bills E q))) (\<lambda>r.
        and_then (xt_check ''balance bills API'' r) (\<lambda>bs. case find (is_funding_bill smb) bs of
          None \<Rightarrow> ok None
        | Some b \<Rightarrow> (case (if xb_Amount b = [] then Some f0 else xe_parse E (xb_Amount b)) of
            None \<Rightarrow> fail (TextError ''parse amount'') | Some v \<Rightarrow> ok (Some (f_neg (f_abs v)))))))"

definition xt_position_side :: "Side \<Rightarrow> string" where
  "xt_position_side s = (if s = SideCloseShort \<or> s = SideOpenShort then ''SHORT'' else ''LONG'')"

definition xt_pnl_rate :: "float64 \<Rightarrow> float64 \<Rightarrow> bool \<Rightarrow> float64" where
  "xt_pnl_rate entry exit isLong =
     (if f_pos entry then f_div (if isLong then f_sub exit entry else f_sub entry exit) entry else f0)"

definition xt_pnl_of :: "wire_lib \<Rightarrow> string \<Rightarrow> OrderInfo \<Rightarrow> xtHistoryPosition \<Rightarrow> float64 option \<Rightarrow> ClosedPnLInfo" where
  "xt_pnl_of L smb info p flow =
     (let entry = ToFloat64 L (xh_CloseOpenPrice p); exit = ToFloat64 L (xh_ClosePrice p); gross = ToFloat64 L (xh_CloseProfit p);
          fee = ToFloat64 L (xh_TotalFee p); funding = (case flow of Some v \<Rightarrow> v | None \<Rightarrow> ToFloat64 L (xh_TotalFundFee p))
      in \<lparr>ci_Exchange = ''xt'', ci_Symbol = toStandardSymbol smb, ci_Status = oi_State info, ci_EntryPrice = entry, ci_ExitPrice = exit,
          ci_ClosedSizeContract = Some (ToFloat64 L (xh_ClosePositionSize p)), ci_ClosedSizeCoin = None, ci_GrossPnL = gross, ci_Fee = fee,
          ci_FundingFee = funding, ci_DurationMs = i64 (xh_CloseTime p - xh_OpenTime p),
          ci_NetPnl = f_add (f_add gross fee) funding,
          ci_PnLRate = xt_pnl_rate entry exit (xt_position_side (oi_Side info) = ''LONG'')\<rparr>)"

text \<open>An error of the bills is logged, and the fee of the position's history stays.\<close>

definition xt_GetOrderPNL :: "xt_env \<Rightarrow> string \<Rightarrow> string \<Rightarrow> (xt_call, ClosedPnLInfo) wire" where
  "xt_GetOrderPNL E smb orderID = and_then (wrapping_ex ''fetch order'' (xt_GetOrder E smb orderID)) (\<lambda>info.
     if oi_State info = OrderStateCanceled \<and> f_eq (oi_DealVol info) f0
     then ok \<lparr>ci_Exchange = ''xt'', ci_Symbol = smb, ci_Status = OrderStateCanceled, ci_EntryPrice = f0, ci_ExitPrice = f0,
       ci_ClosedSizeContract = None, ci_ClosedSizeCoin = None, ci_GrossPnL = f0, ci_Fee = f0, ci_FundingFee = f0, ci_DurationMs = 0,
       ci_NetPnl = f0, ci_PnLRate = f0\<rparr>
     else and_then (fetchMatchedPositionHistory E (cleanXTSymbol smb) (oi_CreateTime info) (xt_position_side (oi_Side info))) (\<lambda>p. do {
       flow \<leftarrow> getFundingFee E smb (oi_CreateTime info);
       ok (xt_pnl_of (xe_lib E) smb info p (case flow of Inl _ \<Rightarrow> None | Inr v \<Rightarrow> v)) }))"

subsection \<open>The contracts\<close>

interpretation xt_sides: side_codec "\<lambda>s. Some (mapToExchangeSide s)" "\<lambda>w. xt_mapToDomainSide (fst w) (snd w)"
  by unfold_locales (auto simp: trade_sides_def mapToExchangeSide_def xt_mapToDomainSide_def to_upper_def upper_char_def)

lemma each_dropping: "fst (run_state (each (\<lambda>x. dropping (m x)) xs) l) = Inr ()"
  by (induction xs arbitrary: l) (auto simp: dropping_def split: prod.splits)

text \<open>\<open>CloseAllPositions\<close> fails when the positions cannot be listed, and for no other reason.\<close>

lemma xt_close_all_result:
  "fst (run_state (xt_CloseAllPositions E smb) l) =
   (case fst (run_state (xt_GetOpenPositions E smb) (snd (run_state (xt_CancelAllOpenOrders E smb) l))) of
      Inl e \<Rightarrow> Inl e | Inr ps \<Rightarrow> Inr ())"
  using each_dropping by (auto simp: xt_CloseAllPositions_def split: prod.splits sum.splits)

lemma nearest_found:
  "nearest side t ps best = (d, Some p) \<Longrightarrow>
     (p \<in> set ps \<and> equal_fold (xh_PositionSide p) side \<and> d = abs64 (i64 (xh_CloseTime p - t))) \<or> best = (d, Some p)"
  by (induction ps arbitrary: best) (fastforce simp: Let_def split: if_splits)+

lemma nearest_least:
  "nearest side t ps best = (d, r) \<Longrightarrow> d \<le> fst best \<and>
     (\<forall>p \<in> set ps. equal_fold (xh_PositionSide p) side \<longrightarrow> d \<le> abs64 (i64 (xh_CloseTime p - t)))"
proof (induction ps arbitrary: best)
  case (Cons p ps)
  let ?diff = "abs64 (i64 (xh_CloseTime p - t))"
  let ?b = "if equal_fold (xh_PositionSide p) side \<and> ?diff < fst best then (?diff, Some p) else best"
  have "nearest side t ps ?b = (d, r)" using Cons.prems by (simp add: Let_def)
  from Cons.IH [OF this] show ?case by (auto split: if_splits)
qed simp

text \<open>The matched position is of the side asked for, within five minutes, and none is nearer.\<close>

lemma xt_match:
  assumes "match_history side t ps = Some p"
  shows "p \<in> set ps \<and> equal_fold (xh_PositionSide p) side \<and> abs64 (i64 (xh_CloseTime p - t)) \<le> 300000 \<and>
    (\<forall>x \<in> set ps. equal_fold (xh_PositionSide x) side \<longrightarrow> abs64 (i64 (xh_CloseTime p - t)) \<le> abs64 (i64 (xh_CloseTime x - t)))"
proof -
  obtain d where d: "nearest side t ps (2 ^ 63 - 1, None) = (d, Some p)" "d \<le> 300000"
    using assms by (auto simp: match_history_def split: prod.splits option.splits if_splits)
  from nearest_found [OF d(1)] nearest_least [OF d(1)] d(2) show ?thesis by auto
qed

end
