(* ===== verification/PionexOrders.thy ===== *)
theory PionexOrders
  imports ExchangeWire "HOL-Library.Multiset"
begin

text \<open>
  \<open>internal/infrastructure/exchange/pionex/order.go\<close> and \<open>trade.go\<close>: orders on Pionex. The signed
  request is built here; the HMAC, the JSON encoder and decoder, the limiter and the exchange are
  the environment.
\<close>

subsection \<open>The signed request\<close>

record pionexSubmitOrderRequest =
  pq_ClientOrderID :: string
  pq_Symbol :: string
  pq_PositionSide :: string
  pq_Side :: string
  pq_Type :: string
  pq_Size :: string
  pq_Price :: string
  pq_ReduceOnly :: bool

datatype pionex_body =
    SubmitBody pionexSubmitOrderRequest | CancelBody string int | CancelAllBody string
  | LeverageBody string string | PositionModeBody string | MarginModeBody string string

record pionex_request =
  pr_method :: string
  pr_url :: string
  pr_body :: "pionex_body option"
  pr_signature :: string

record pionexOrder =
  px_OrderID :: string
  px_Symbol :: string
  px_PositionMode :: string
  px_Side :: string
  px_PositionSide :: string
  px_Price :: string
  px_OrigSize :: string
  px_Size :: string
  px_FilledSize :: string
  px_FilledAmount :: string
  px_Status :: string
  px_ClientOrderID :: string
  px_ReduceOnly :: bool
  px_CreateTime :: string
  px_UpdateTime :: string

record pionexPosition =
  pp_Symbol :: string
  pp_PositionSide :: string
  pp_NetSize :: string
  pp_AvgPrice :: string
  pp_Leverage :: string

record pionex_env =
  pe_lib :: wire_lib
  pe_baseURL :: string
  pe_acquire :: "string \<Rightarrow> pionex_request list \<Rightarrow> ex_error option"
  pe_now_ms :: "pionex_request list \<Rightarrow> int"
  pe_marshal :: "pionex_body \<Rightarrow> ex_error + string"
  pe_hmac_hex :: "string \<Rightarrow> string"
  pe_parse_url :: "string \<Rightarrow> ex_error option"
  pe_http :: "pionex_request \<Rightarrow> pionex_request list \<Rightarrow> ex_error + int \<times> string"
  pe_read_submit :: "string \<Rightarrow> ex_error + bool \<times> string"
  pe_read_base :: "string \<Rightarrow> ex_error + bool"
  pe_read_order :: "string \<Rightarrow> ex_error + bool \<times> pionexOrder"
  pe_read_orders :: "string \<Rightarrow> ex_error + bool \<times> pionexOrder list"
  pe_read_positions :: "string \<Rightarrow> ex_error + bool \<times> pionexPosition list"

text \<open>Byte order, as \<open>sort.Strings\<close> compares, and the query in the order of its keys.\<close>

fun str_le :: "string \<Rightarrow> string \<Rightarrow> bool" where
  "str_le [] t = True"
| "str_le (c # s) [] = False"
| "str_le (c # s) (d # t) = (if c = d then str_le s t else (of_char c :: nat) < of_char d)"

fun insert_key :: "string \<times> string \<Rightarrow> (string \<times> string) list \<Rightarrow> (string \<times> string) list" where
  "insert_key p [] = [p]"
| "insert_key p (x # xs) = (if str_le (fst p) (fst x) then p # x # xs else x # insert_key p xs)"

definition sort_keys :: "(string \<times> string) list \<Rightarrow> (string \<times> string) list" where
  "sort_keys ps = foldr insert_key ps []"

fun join_query :: "(string \<times> string) list \<Rightarrow> string" where
  "join_query [] = []"
| "join_query [p] = fst p @ ''='' @ snd p"
| "join_query (p # x # ps) = fst p @ ''='' @ snd p @ ''&'' @ join_query (x # ps)"

definition set_param :: "string \<Rightarrow> string \<Rightarrow> (string \<times> string) list \<Rightarrow> (string \<times> string) list" where
  "set_param k v ps = filter (\<lambda>p. fst p \<noteq> k) ps @ [(k, v)]"

definition signed_path :: "string \<Rightarrow> (string \<times> string) list \<Rightarrow> string" where
  "signed_path path ps = path @ ''?'' @ join_query (sort_keys ps)"

definition of_option :: "ex_error option \<Rightarrow> ('c, unit) wire" where
  "of_option e = (case e of None \<Rightarrow> ok () | Some x \<Rightarrow> fail x)"

definition rawRequestPrivate ::
    "pionex_env \<Rightarrow> string \<Rightarrow> string \<Rightarrow> (string \<times> string) list \<Rightarrow> (pionex_body \<times> string) option \<Rightarrow> (pionex_request, string) wire" where
  "rawRequestPrivate E method path params body = do {
     log \<leftarrow> gets (\<lambda>l. l);
     and_then (case pe_acquire E path log of None \<Rightarrow> ok () | Some e \<Rightarrow> fail (Wrapped ''rate limit acquire'' e)) (\<lambda>_.
       let pathURL = signed_path path (set_param ''timestamp'' (format_int (pe_now_ms E log)) params);
           message = to_upper method @ pathURL @ (case body of None \<Rightarrow> [] | Some (b, bytes) \<Rightarrow> bytes);
           req = \<lparr>pr_method = method, pr_url = pe_baseURL E @ pathURL, pr_body = map_option fst body,
                  pr_signature = pe_hmac_hex E message\<rparr>
       in and_then (of_option (pe_parse_url E (pe_baseURL E @ pathURL))) (\<lambda>_.
          and_then (ask req (pe_http E req)) (\<lambda>(status, bytes).
            if 300 \<le> status then fail (TextError (''http error '' @ format_int status @ '': '' @ bytes)) else ok bytes))) }"

definition send_body :: "pionex_env \<Rightarrow> string \<Rightarrow> string \<Rightarrow> pionex_body \<Rightarrow> (pionex_request, string) wire" where
  "send_body E method path b = (case pe_marshal E b of
     Inl e \<Rightarrow> fail e | Inr bytes \<Rightarrow> rawRequestPrivate E method path [] (Some (b, bytes)))"

text \<open>Decoding an answer, and the flag of success every answer has.\<close>

definition read_base :: "pionex_env \<Rightarrow> string \<Rightarrow> string \<Rightarrow> string \<Rightarrow> (pionex_request, unit) wire" where
  "read_base E prefix message bytes = (case pe_read_base E bytes of
     Inl e \<Rightarrow> fail (Wrapped prefix e) | Inr done \<Rightarrow> if done then ok () else fail (TextError message))"

definition read_data :: "(string \<Rightarrow> ex_error + bool \<times> 'a) \<Rightarrow> string \<Rightarrow> string \<Rightarrow> string \<Rightarrow> (pionex_request, 'a) wire" where
  "read_data read prefix message bytes = (case read bytes of
     Inl e \<Rightarrow> fail (Wrapped prefix e) | Inr (done, x) \<Rightarrow> if done then ok x else fail (TextError message))"

subsection \<open>Sending orders\<close>

definition pionex_mapOrderSide :: "PositionMode \<Rightarrow> Side \<Rightarrow> ex_error + string \<times> string \<times> bool" where
  "pionex_mapOrderSide positionMode side =
     (if positionMode = PositionModeHedge then (case side of
         SideOpenLong \<Rightarrow> Inr (''BUY'', ''LONG'', False)
       | SideCloseLong \<Rightarrow> Inr (''SELL'', ''LONG'', False)
       | SideOpenShort \<Rightarrow> Inr (''SELL'', ''SHORT'', False)
       | SideCloseShort \<Rightarrow> Inr (''BUY'', ''SHORT'', False)
       | _ \<Rightarrow> Inl (TextError ''unsupported order side for hedge mode''))
      else (case side of
         SideOpenLong \<Rightarrow> Inr (''BUY'', ''BOTH'', False)
       | SideCloseShort \<Rightarrow> Inr (''BUY'', ''BOTH'', True)
       | SideOpenShort \<Rightarrow> Inr (''SELL'', ''BOTH'', False)
       | SideCloseLong \<Rightarrow> Inr (''SELL'', ''BOTH'', True)
       | _ \<Rightarrow> Inl (TextError ''unsupported order side for one-way mode'')))"

fun pionex_mapOrderType :: "ExOrderType \<Rightarrow> string" where
  "pionex_mapOrderType ExLimit = ''LIMIT''"
| "pionex_mapOrderType ExMarket = ''MARKET_QTY''"
| "pionex_mapOrderType ExPostOnly = ''POSTONLY''"
| "pionex_mapOrderType ExIOC = ''IOC''"
| "pionex_mapOrderType ExFOK = ''FOK''"

definition pionex_request_of :: "wire_lib \<Rightarrow> SubmitOrderRequest \<Rightarrow> ex_error + pionexSubmitOrderRequest" where
  "pionex_request_of L req = (case pionex_mapOrderSide (so_PositionMode req) (so_Side req) of
     Inl e \<Rightarrow> Inl e
   | Inr (side, posSide, reduceOnly) \<Rightarrow> Inr
      \<lparr>pq_ClientOrderID = so_ExternalOID req, pq_Symbol = so_Symbol req, pq_PositionSide = posSide, pq_Side = side,
       pq_Type = pionex_mapOrderType (so_Type req), pq_Size = wl_format L (so_Vol req),
       pq_Price = (if so_Type req \<noteq> ExMarket then format_if_pos L (so_Price req) else []), pq_ReduceOnly = reduceOnly\<rparr>)"

definition pionex_CreateOrder :: "pionex_env \<Rightarrow> SubmitOrderRequest \<Rightarrow> (pionex_request, CreateOrderResult) wire" where
  "pionex_CreateOrder E req = (case pionex_request_of (pe_lib E) req of
     Inl e \<Rightarrow> fail e
   | Inr q \<Rightarrow> and_then (send_body E ''POST'' ''/uapi/v1/trade/order'' (SubmitBody q)) (\<lambda>bytes.
       and_then (read_data (pe_read_submit E) ''unmarshal pionex create order'' ''pionex create order failed'' bytes) (\<lambda>i.
         ok \<lparr>cr_OrderID = format_int (ToInt64 i), cr_TPSLSubmitted = False, cr_Time = 0\<rparr>)))"

definition pionex_CancelOrder :: "pionex_env \<Rightarrow> string \<Rightarrow> string \<Rightarrow> (pionex_request, unit) wire" where
  "pionex_CancelOrder E smb orderID = (case atoi orderID of
     None \<Rightarrow> fail (TextError ''invalid orderID'')
   | Some i \<Rightarrow> and_then (send_body E ''DELETE'' ''/uapi/v1/trade/order'' (CancelBody smb i))
       (read_base E ''unmarshal pionex cancel order'' ''pionex cancel order failed''))"

definition pionex_CancelOrders :: "pionex_env \<Rightarrow> string list \<Rightarrow> (pionex_request, unit) wire" where
  "pionex_CancelOrders E ids = each (pionex_CancelOrder E []) ids"

definition pionex_CancelAllOpenOrders :: "pionex_env \<Rightarrow> string \<Rightarrow> (pionex_request, unit) wire" where
  "pionex_CancelAllOpenOrders E smb = and_then (send_body E ''DELETE'' ''/uapi/v1/trade/allOrders'' (CancelAllBody smb))
     (read_base E ''unmarshal pionex cancel all open orders'' ''pionex cancel all open orders failed'')"

subsection \<open>Reading orders\<close>

definition pionex_mapOrderState :: "string \<Rightarrow> float64 \<Rightarrow> OrderState" where
  "pionex_mapOrderState status filled =
     (if status = ''OPEN'' then (if f_pos filled then OrderStatePartiallyFilled else OrderStateNew)
      else if status = ''FILLED'' then OrderStateFilled
      else if status = ''CANCELED'' then (if f_pos filled then OrderStatePartial else OrderStateCanceled)
      else OrderStateNew)"

definition mapHedgeOrderSide :: "string \<Rightarrow> string \<Rightarrow> Side" where
  "mapHedgeOrderSide side posSide =
     (if side = ''BUY'' \<and> posSide = ''LONG'' then SideOpenLong
      else if side = ''SELL'' \<and> posSide = ''LONG'' then SideCloseLong
      else if side = ''SELL'' \<and> posSide = ''SHORT'' then SideOpenShort
      else if side = ''BUY'' \<and> posSide = ''SHORT'' then SideCloseShort
      else SideUnknown)"

definition mapOneWayOrderSide :: "string \<Rightarrow> bool \<Rightarrow> Side" where
  "mapOneWayOrderSide side reduceOnly =
     (if side = ''BUY'' \<and> \<not> reduceOnly then SideOpenLong
      else if side = ''BUY'' \<and> reduceOnly then SideCloseShort
      else if side = ''SELL'' \<and> \<not> reduceOnly then SideOpenShort
      else if side = ''SELL'' \<and> reduceOnly then SideCloseLong
      else SideUnknown)"

definition mapOrderSideAndMode :: "string \<Rightarrow> string \<Rightarrow> string \<Rightarrow> bool \<Rightarrow> PositionMode \<times> Side" where
  "mapOrderSideAndMode side posSide posMode reduceOnly =
     (if posMode = ''OPENCLOSE'' then (PositionModeHedge, mapHedgeOrderSide side posSide)
      else (PositionModeOneWay, mapOneWayOrderSide side reduceOnly))"

definition mapCommonOrderInfo :: "wire_lib \<Rightarrow> pionexOrder \<Rightarrow> OrderInfo" where
  "mapCommonOrderInfo L r =
     (let orig0 = ToFloat64 L (px_OrigSize r); orig = (if f_eq orig0 f0 then ToFloat64 L (px_Size r) else orig0);
          filled = ToFloat64 L (px_FilledSize r);
          avg = (if f_pos filled then f_div (ToFloat64 L (px_FilledAmount r)) filled else f0);
          (posMode, side) = mapOrderSideAndMode (px_Side r) (px_PositionSide r) (px_PositionMode r) (px_ReduceOnly r)
      in \<lparr>oi_OrderID = format_int (ToInt64 (px_OrderID r)), oi_Symbol = px_Symbol r, oi_Price = ToFloat64 L (px_Price r),
          oi_Vol = orig, oi_DealAvgPrice = avg, oi_DealVol = filled, oi_State = pionex_mapOrderState (px_Status r) filled,
          oi_ExternalOID = px_ClientOrderID r, oi_Side = side, oi_PositionMode = posMode,
          oi_CreateTime = ToInt64 (px_CreateTime r), oi_UpdateTime = ToInt64 (px_UpdateTime r)\<rparr>)"

definition pionex_GetOrder :: "pionex_env \<Rightarrow> string \<Rightarrow> string \<Rightarrow> (pionex_request, OrderInfo) wire" where
  "pionex_GetOrder E smb orderID =
     and_then (rawRequestPrivate E ''GET'' ''/uapi/v1/trade/order'' [(''symbol'', smb), (''orderId'', orderID)] None) (\<lambda>bytes.
       and_then (read_data (pe_read_order E) ''unmarshal pionex order'' ''pionex get order failed'' bytes)
         (\<lambda>r. ok (mapCommonOrderInfo (pe_lib E) r)))"

definition pionex_GetOrderByExternalID :: "pionex_env \<Rightarrow> string \<Rightarrow> string \<Rightarrow> (pionex_request, OrderInfo) wire" where
  "pionex_GetOrderByExternalID E smb externalOrderID =
     and_then (rawRequestPrivate E ''GET'' ''/uapi/v1/trade/orderByClientOrderId''
        [(''symbol'', smb), (''clientOrderId'', externalOrderID)] None) (\<lambda>bytes.
       and_then (read_data (pe_read_order E) ''unmarshal pionex order'' ''pionex get order by client order ID failed'' bytes)
         (\<lambda>r. ok (mapCommonOrderInfo (pe_lib E) r)))"

definition symbol_params :: "string \<Rightarrow> (string \<times> string) list" where
  "symbol_params smb = (if smb \<noteq> [] then [(''symbol'', smb)] else [])"

definition pionex_GetOpenOrders :: "pionex_env \<Rightarrow> string \<Rightarrow> (pionex_request, OrderInfo list) wire" where
  "pionex_GetOpenOrders E smb =
     and_then (rawRequestPrivate E ''GET'' ''/uapi/v1/trade/openOrders'' (symbol_params smb) None) (\<lambda>bytes.
       and_then (read_data (pe_read_orders E) ''unmarshal pionex open orders'' ''pionex get open orders failed'' bytes)
         (\<lambda>l. ok (map (mapCommonOrderInfo (pe_lib E)) l)))"

subsection \<open>Positions\<close>

definition absFloat :: "float64 \<Rightarrow> float64" where
  "absFloat v = (if f_lt v f0 then f_neg v else v)"

definition pionex_mapPosition :: "wire_lib \<Rightarrow> pionexPosition \<Rightarrow> Position" where
  "pionex_mapPosition L r =
     (let net = ToFloat64 L (pp_NetSize r) in
      \<lparr>po_Symbol = pp_Symbol r, po_HoldVolContract = f0, po_HoldVolCoin = absFloat net, po_RawHoldVol = absFloat net,
       po_PositionType =
         (if pp_PositionSide r = ''LONG'' then PositionTypeLong
          else if pp_PositionSide r = ''SHORT'' then PositionTypeShort
          else if f_pos net then PositionTypeLong
          else if f_lt net f0 then PositionTypeShort else PositionTypeUnknown),
       po_OpenAvgPrice = ToFloat64 L (pp_AvgPrice r), po_HoldAvgPrice = ToFloat64 L (pp_AvgPrice r),
       po_CloseAvgPrice = f0, po_CloseProfitLoss = f0, po_Fee = f0, po_HoldFee = f0, po_Leverage = ToInt64 (pp_Leverage r)\<rparr>)"

definition pionex_GetOpenPositions :: "pionex_env \<Rightarrow> string \<Rightarrow> (pionex_request, Position list) wire" where
  "pionex_GetOpenPositions E smb =
     and_then (rawRequestPrivate E ''GET'' ''/uapi/v1/account/positions'' (symbol_params smb) None) (\<lambda>bytes.
       and_then (read_data (pe_read_positions E) ''unmarshal pionex positions'' ''pionex get open positions failed'' bytes)
         (\<lambda>l. ok (map (pionex_mapPosition (pe_lib E)) l)))"

text \<open>\<open>time.Now()\<close> of the client order identifier is the environment's clock.\<close>

definition close_request :: "string \<Rightarrow> Side \<Rightarrow> float64 \<Rightarrow> PositionMode \<Rightarrow> int \<Rightarrow> string \<Rightarrow> SubmitOrderRequest" where
  "close_request smb closeSide volume positionMode leverage oid =
     \<lparr>so_Symbol = smb, so_Price = f0, so_Vol = volume, so_Leverage = leverage, so_Side = closeSide, so_Type = ExMarket,
      so_OpenType = OpenTypeIsolated, so_ExternalOID = oid, so_PositionID = 0, so_PositionMode = positionMode,
      so_ReduceOnly = True, so_FlashClose = False, so_StopLossPrice = f0, so_TakeProfitPrice = f0, so_SkipRateLimit = False\<rparr>"

definition pionex_ClosePosition ::
    "pionex_env \<Rightarrow> string \<Rightarrow> Side \<Rightarrow> float64 \<Rightarrow> PositionMode \<Rightarrow> int \<Rightarrow> (pionex_request, unit) wire" where
  "pionex_ClosePosition E smb closeSide volume positionMode leverage = do {
     now \<leftarrow> gets (pe_now_ms E);
     and_then (pionex_CreateOrder E (close_request smb closeSide volume positionMode leverage
        (ExternalOrderID smb (62135596800 * second + now * millisecond) ''pionex''))) (\<lambda>_. ok ()) }"

definition pionex_CloseAllPositions :: "pionex_env \<Rightarrow> string \<Rightarrow> (pionex_request, unit) wire" where
  "pionex_CloseAllPositions E smb = and_then (pionex_GetOpenPositions E smb) (each (\<lambda>pos.
     let vol = (if f_eq (po_HoldVolCoin pos) f0 then po_HoldVolContract pos else po_HoldVolCoin pos) in
     if f_pos vol
     then pionex_ClosePosition E (po_Symbol pos)
       (if po_PositionType pos = PositionTypeLong then SideCloseLong else SideCloseShort) vol PositionModeHedge (po_Leverage pos)
     else ok ()))"

subsection \<open>The query does not depend on the order of the map\<close>

text \<open>Go iterates a map in any order; sorting the keys makes the signed text the same.\<close>

lemma str_le_refl: "str_le s s" by (induction s) simp_all

lemma str_le_total: "str_le s t \<or> str_le t s"
  by (induction s t rule: str_le.induct) (auto simp: not_less order_le_less)

lemma str_le_antisym: "str_le s t \<Longrightarrow> str_le t s \<Longrightarrow> s = t"
proof (induction s t rule: str_le.induct)
  case (1 t) then show ?case by (cases t) simp_all
qed (auto split: if_splits)

lemma str_le_trans: "str_le s t \<Longrightarrow> str_le t u \<Longrightarrow> str_le s u"
proof (induction s t arbitrary: u rule: str_le.induct)
  case (3 c s d t) then show ?case by (cases u) (auto split: if_splits)
qed auto

abbreviation key_le :: "string \<times> string \<Rightarrow> string \<times> string \<Rightarrow> bool" where
  "key_le p x \<equiv> str_le (fst p) (fst x)"

lemma mset_insert_key [simp]: "mset (insert_key p xs) = add_mset p (mset xs)"
  by (induction xs) auto

lemma set_insert_key [simp]: "set (insert_key p xs) = insert p (set xs)"
  by (metis mset_insert_key set_mset_add_mset_insert set_mset_mset)

lemma insert_key_sorted: "sorted_wrt key_le xs \<Longrightarrow> sorted_wrt key_le (insert_key p xs)"
  using str_le_total by (induction xs) (auto intro: str_le_trans)

lemma sort_keys_mset [simp]: "mset (sort_keys ps) = mset ps"
  by (induction ps) (simp_all add: sort_keys_def)

lemma sort_keys_sorted: "sorted_wrt key_le (sort_keys ps)"
  by (induction ps) (simp_all add: sort_keys_def insert_key_sorted)

lemma sorted_wrt_unique:
  assumes "sorted_wrt R xs" "sorted_wrt R ys" "mset xs = mset ys"
    and "\<And>a b. a \<in> set xs \<Longrightarrow> b \<in> set xs \<Longrightarrow> R a b \<Longrightarrow> R b a \<Longrightarrow> a = b"
  shows "xs = ys"
  using assms
proof (induction xs arbitrary: ys)
  case (Cons x xs)
  obtain y zs where ys: "ys = y # zs" using Cons.prems(3) by (cases ys) auto
  have sets: "set ys = set (x # xs)" using Cons.prems(3) by (metis mset_eq_setD)
  have "x = y"
  proof (rule ccontr)
    assume "x \<noteq> y"
    then have "y \<in> set xs" "x \<in> set zs" using sets ys by auto
    then have "R x y" "R y x" using Cons.prems(1,2) ys by auto
    then show False using Cons.prems(4) [of x y] \<open>y \<in> set xs\<close> \<open>x \<noteq> y\<close> by simp
  qed
  moreover have "xs = zs" using Cons.IH [of zs] Cons.prems ys \<open>x = y\<close> by simp
  ultimately show ?case using ys by simp
qed simp

lemma distinct_keys: "distinct (map fst ps) \<Longrightarrow> a \<in> set ps \<Longrightarrow> b \<in> set ps \<Longrightarrow> fst a = fst b \<Longrightarrow> a = b"
  by (meson distinct_map inj_onD)

lemma sort_keys_cong:
  assumes "mset ps = mset qs" "distinct (map fst ps)"
  shows "sort_keys ps = sort_keys qs"
proof (rule sorted_wrt_unique [OF sort_keys_sorted sort_keys_sorted])
  show "mset (sort_keys ps) = mset (sort_keys qs)" using assms(1) by simp
  have "set (sort_keys ps) = set ps" by (metis mset_eq_setD sort_keys_mset)
  then show "a = b" if "a \<in> set (sort_keys ps)" "b \<in> set (sort_keys ps)" "key_le a b" "key_le b a" for a b
    using distinct_keys [OF assms(2), of a b] that str_le_antisym by auto
qed

lemma signed_path_cong:
  "mset ps = mset qs \<Longrightarrow> distinct (map fst ps) \<Longrightarrow> signed_path path (set_param k v ps) = signed_path path (set_param k v qs)"
  unfolding signed_path_def set_param_def
  by (rule arg_cong [where f = "\<lambda>x. path @ ''?'' @ join_query x"], rule sort_keys_cong)
    (auto simp: distinct_map inj_on_def)

subsection \<open>The contracts\<close>

text \<open>The mode a Pionex account reports for a position mode.\<close>

definition mode_string :: "PositionMode \<Rightarrow> string" where
  "mode_string m = (if m = PositionModeHedge then ''OPENCLOSE'' else ''BUYSELL'')"

definition pionex_encode :: "PositionMode \<Rightarrow> Side \<Rightarrow> (string \<times> string \<times> bool) option" where
  "pionex_encode m s = (case pionex_mapOrderSide m s of Inl e \<Rightarrow> None | Inr w \<Rightarrow> Some w)"

interpretation pionex_sides: side_codec "pionex_encode m"
  "\<lambda>(side, posSide, reduceOnly). snd (mapOrderSideAndMode side posSide (mode_string m) reduceOnly)" for m
proof
  show "\<exists>w. pionex_encode m s = Some w \<and>
      (case w of (side, posSide, reduceOnly) \<Rightarrow> snd (mapOrderSideAndMode side posSide (mode_string m) reduceOnly)) = s"
    if "s \<in> trade_sides" for s
    using that by (cases "m = PositionModeHedge"; cases s)
      (simp_all add: trade_sides_def pionex_encode_def pionex_mapOrderSide_def mode_string_def
        mapOrderSideAndMode_def mapHedgeOrderSide_def mapOneWayOrderSide_def)
qed

lemma raw_call:
  assumes "run_state (rawRequestPrivate E m p ps b) l = (Inr bytes, l1)"
  shows "\<exists>r. l1 = l @ [r] \<and> pr_method r = m \<and> pr_body r = map_option fst b \<and>
    pr_url r = pe_baseURL E @ signed_path p (set_param ''timestamp'' (format_int (pe_now_ms E l)) ps)"
proof -
  define path where "path = signed_path p (set_param ''timestamp'' (format_int (pe_now_ms E l)) ps)"
  define msg where "msg = to_upper m @ path @ (case b of None \<Rightarrow> [] | Some (b, bytes) \<Rightarrow> bytes)"
  define req where "req = \<lparr>pr_method = m, pr_url = pe_baseURL E @ path, pr_body = map_option fst b, pr_signature = pe_hmac_hex E msg\<rparr>"
  have "run_state (and_then (of_option (pe_parse_url E (pe_baseURL E @ path))) (\<lambda>_.
      and_then (ask req (pe_http E req)) (\<lambda>(status, bytes).
        if 300 \<le> status then fail (TextError (''http error '' @ format_int status @ '': '' @ bytes)) else ok bytes))) l = (Inr bytes, l1)"
    using assms unfolding req_def msg_def path_def rawRequestPrivate_def Let_def gets_def by (cases "pe_acquire E p l") simp_all
  then have "l1 = l @ [req]" by (auto simp: of_option_def split: option.splits sum.splits prod.splits if_splits)
  then show ?thesis by (simp add: req_def path_def)
qed

lemma send_call:
  assumes "run_state (send_body E m p b) l = (Inr bytes, l1)"
  shows "\<exists>r. l1 = l @ [r] \<and> pr_method r = m \<and> pr_body r = Some b"
  using assms by (auto simp: send_body_def dest!: raw_call split: sum.splits)

lemma create_call:
  assumes "run_state (pionex_CreateOrder E req) l = (Inr res, l1)"
  shows "\<exists>q r. pionex_request_of (pe_lib E) req = Inr q \<and> l1 = l @ [r] \<and> pr_method r = ''POST'' \<and> pr_body r = Some (SubmitBody q)"
  using assms
  by (auto simp: pionex_CreateOrder_def read_data_def dest!: send_call split: sum.splits prod.splits if_splits)

text \<open>The request that closes a position: a market order of its size on its side.\<close>

definition pionex_closes :: "wire_lib \<Rightarrow> Position \<Rightarrow> pionex_request \<Rightarrow> bool" where
  "pionex_closes L pos r \<longleftrightarrow>
     (let long = (po_PositionType pos = PositionTypeLong) in
      \<exists>q. pr_body r = Some (SubmitBody q) \<and> pq_Symbol q = po_Symbol pos \<and> pq_Type q = ''MARKET_QTY'' \<and>
        pq_Side q = (if long then ''SELL'' else ''BUY'') \<and> pq_PositionSide q = (if long then ''LONG'' else ''SHORT'') \<and>
        pq_Size q = wl_format L (po_HoldVolCoin pos) \<and> \<not> pq_ReduceOnly q)"

definition open_size :: "Position \<Rightarrow> bool" where
  "open_size pos \<longleftrightarrow> f_pos (po_HoldVolCoin pos)"

lemma close_call:
  assumes "run_state (pionex_ClosePosition E smb (if long then SideCloseLong else SideCloseShort) v PositionModeHedge lev) l = (Inr (), l1)"
  shows "\<exists>q r. l1 = l @ [r] \<and> pr_body r = Some (SubmitBody q) \<and> pq_Symbol q = smb \<and> pq_Type q = ''MARKET_QTY'' \<and>
     pq_Side q = (if long then ''SELL'' else ''BUY'') \<and> pq_PositionSide q = (if long then ''LONG'' else ''SHORT'') \<and>
     pq_Size q = wl_format (pe_lib E) v \<and> \<not> pq_ReduceOnly q"
  using assms
  by (cases long)
    (auto simp: pionex_ClosePosition_def gets_def pionex_request_of_def pionex_mapOrderSide_def close_request_def
      dest!: create_call split: sum.splits prod.splits)

lemma pos_not_zero: "f_pos x \<Longrightarrow> \<not> f_eq x f0"
  by (cases x) (auto simp: f_pos_def f_lt_def f_eq_def)

text \<open>The loop of \<open>CloseAllPositions\<close> sends one closing order for every position with a size.\<close>

lemma each_closes:
  assumes "\<forall>pos \<in> set ps. po_HoldVolContract pos = f0"
    and "run_state (each (\<lambda>pos.
     let vol = (if f_eq (po_HoldVolCoin pos) f0 then po_HoldVolContract pos else po_HoldVolCoin pos) in
     if f_pos vol
     then pionex_ClosePosition E (po_Symbol pos)
       (if po_PositionType pos = PositionTypeLong then SideCloseLong else SideCloseShort) vol PositionModeHedge (po_Leverage pos)
     else ok ()) ps) l = (Inr (), l1)"
  shows "\<exists>k. l1 = l @ k \<and> list_all2 (pionex_closes (pe_lib E)) (filter open_size ps) k"
  using assms
proof (induction ps arbitrary: l)
  case (Cons pos ps)
  have zero: "\<not> f_pos f0" by (simp add: f_pos_def f_lt_def)
  show ?case
  proof (cases "open_size pos")
    case False
    then show ?thesis using Cons.prems Cons.IH [of l] zero by (auto simp: open_size_def Let_def split: if_splits)
  next
    case True
    then obtain l2 where one: "run_state (pionex_ClosePosition E (po_Symbol pos)
        (if po_PositionType pos = PositionTypeLong then SideCloseLong else SideCloseShort)
        (po_HoldVolCoin pos) PositionModeHedge (po_Leverage pos)) l = (Inr (), l2)"
      using Cons.prems(2) by (auto simp: open_size_def pos_not_zero Let_def split: prod.splits sum.splits)
    obtain r where r: "l2 = l @ [r]" "pionex_closes (pe_lib E) pos r"
      using close_call [OF one] by (auto simp: pionex_closes_def Let_def)
    obtain k where "l1 = l2 @ k" "list_all2 (pionex_closes (pe_lib E)) (filter open_size ps) k"
      using Cons.IH [of l2] Cons.prems one True pos_not_zero unfolding open_size_def Let_def by auto
    then have "l1 = l @ (r # k) \<and> list_all2 (pionex_closes (pe_lib E)) (filter open_size (pos # ps)) (r # k)"
      using r True by simp
    then show ?thesis by blast
  qed
qed simp

text \<open>
  A success of \<open>CloseAllPositions\<close> on Pionex has sent, after listing the positions, exactly one
  market order for every listed position that has a size, in the order of the list: for the whole
  size, selling a long position and buying back a short one, and no other call.
\<close>

lemma pionex_flatten:
  assumes "run_state (pionex_CloseAllPositions E smb) l = (Inr (), l1)"
  shows "\<exists>ps l2 k. run_state (pionex_GetOpenPositions E smb) l = (Inr ps, l2) \<and> l1 = l2 @ k \<and>
    list_all2 (pionex_closes (pe_lib E)) (filter open_size ps) k"
proof -
  obtain ps l2 where o: "run_state (pionex_GetOpenPositions E smb) l = (Inr ps, l2)"
    using assms by (auto simp: pionex_CloseAllPositions_def split: prod.splits sum.splits)
  have "\<forall>pos \<in> set ps. po_HoldVolContract pos = f0"
    using o by (auto simp: pionex_GetOpenPositions_def pionex_mapPosition_def Let_def split: prod.splits sum.splits)
  then show ?thesis using each_closes [of ps E l2 l1] assms o by (auto simp: pionex_CloseAllPositions_def)
qed

text \<open>A long position, one without a size and a short one.\<close>

definition pionex_sample_position :: "string \<Rightarrow> string \<Rightarrow> pionexPosition" where
  "pionex_sample_position smb net =
     \<lparr>pp_Symbol = smb, pp_PositionSide = ''BOTH'', pp_NetSize = net, pp_AvgPrice = ''1'', pp_Leverage = ''5''\<rparr>"

definition pionex_sample :: pionex_env where
  "pionex_sample =
     \<lparr>pe_lib = \<lparr>wl_float = (\<lambda>s. if s = ''2'' then FFin 2 else if s = ''-3'' then FFin (- 3) else f0),
                wl_format = (\<lambda>x. if x = FFin 2 then ''2'' else ''3'')\<rparr>,
      pe_baseURL = ''https://api'', pe_acquire = (\<lambda>p l. None), pe_now_ms = (\<lambda>l. 1700000000000 + int (length l)),
      pe_marshal = (\<lambda>b. Inr ''{}''), pe_hmac_hex = (\<lambda>s. ''00''), pe_parse_url = (\<lambda>u. None), pe_http = (\<lambda>r l. Inr (200, ''{}'')),
      pe_read_submit = (\<lambda>s. Inr (True, ''77'')), pe_read_base = (\<lambda>s. Inr True), pe_read_order = (\<lambda>s. Inl (TextError ''none'')),
      pe_read_orders = (\<lambda>s. Inr (True, [])),
      pe_read_positions = (\<lambda>s. Inr (True, [pionex_sample_position ''BTC'' ''2'', pionex_sample_position ''XRP'' ''0'',
        pionex_sample_position ''ETH'' ''-3'']))\<rparr>"

lemma raw_answers:
  assumes "pe_acquire E p l = None" "\<And>u. pe_parse_url E u = None" "\<And>r. pe_http E r l = Inr (200, bytes)"
  shows "\<exists>r. run_state (rawRequestPrivate E m p ps b) l = (Inr bytes, l @ [r])"
  using assms by (simp add: rawRequestPrivate_def gets_def of_option_def Let_def)

lemma pionex_sample_answers: "\<exists>r. run_state (rawRequestPrivate pionex_sample m p ps b) l = (Inr ''{}'', l @ [r])"
  by (rule raw_answers) (simp_all add: pionex_sample_def)

lemma pionex_sample_list:
  "\<exists>l1. run_state (pionex_GetOpenPositions pionex_sample smb) l = (Inr (map (pionex_mapPosition (pe_lib pionex_sample))
     [pionex_sample_position ''BTC'' ''2'', pionex_sample_position ''XRP'' ''0'', pionex_sample_position ''ETH'' ''-3'']), l1)"
proof -
  obtain r where "run_state (rawRequestPrivate pionex_sample ''GET'' ''/uapi/v1/account/positions'' (symbol_params smb) None) l = (Inr ''{}'', l @ [r])"
    using pionex_sample_answers by blast
  then show ?thesis by (simp add: pionex_GetOpenPositions_def read_data_def pionex_sample_def)
qed

lemma pionex_sample_closes:
  "side \<in> trade_sides \<Longrightarrow> \<exists>l1. run_state (pionex_ClosePosition pionex_sample smb side v PositionModeHedge lev) l = (Inr (), l1)"
proof -
  assume side: "side \<in> trade_sides"
  have marshal: "pe_marshal pionex_sample q = Inr ''{}''" and submit: "pe_read_submit pionex_sample s = Inr (True, ''77'')" for q s
    by (simp_all add: pionex_sample_def)
  obtain q where q: "pionex_request_of (pe_lib pionex_sample) (close_request smb side v PositionModeHedge lev
      (ExternalOrderID smb (62135596800 * second + pe_now_ms pionex_sample l * millisecond) ''pionex'')) = Inr q"
    using side by (auto simp: trade_sides_def pionex_request_of_def close_request_def pionex_mapOrderSide_def)
  obtain r where "run_state (rawRequestPrivate pionex_sample ''POST'' ''/uapi/v1/trade/order'' [] (Some (SubmitBody q, ''{}''))) l = (Inr ''{}'', l @ [r])"
    using pionex_sample_answers by blast
  then show ?thesis by (simp add: pionex_ClosePosition_def pionex_CreateOrder_def gets_def q [simplified] send_body_def marshal read_data_def submit)
qed

lemma pionex_sample_run: "fst (run_state (pionex_CloseAllPositions pionex_sample smb) l) = Inr ()"
proof -
  have loop: "fst (run_state (each (\<lambda>pos. if P pos then pionex_ClosePosition pionex_sample (f pos) (if g pos then SideCloseLong else SideCloseShort)
      (v pos) PositionModeHedge (h pos) else ok ()) ps) l) = Inr ()" for P f g v h and ps :: "Position list" and l
  proof (induction ps arbitrary: l)
    case (Cons p ps)
    obtain l1 where "run_state (pionex_ClosePosition pionex_sample (f p) (if g p then SideCloseLong else SideCloseShort)
        (v p) PositionModeHedge (h p)) l = (Inr (), l1)"
      using pionex_sample_closes [of "if g p then SideCloseLong else SideCloseShort"] by (fastforce simp: trade_sides_def)
    then show ?case using Cons.IH by simp
  qed simp
  obtain ps l1 where "run_state (pionex_GetOpenPositions pionex_sample smb) l = (Inr ps, l1)" using pionex_sample_list by blast
  then show ?thesis using loop by (simp add: pionex_CloseAllPositions_def Let_def)
qed

lemma pionex_sample_open:
  "map open_size (map (pionex_mapPosition (pe_lib pionex_sample))
     [pionex_sample_position ''BTC'' ''2'', pionex_sample_position ''XRP'' ''0'', pionex_sample_position ''ETH'' ''-3'']) = [True, False, True]"
  by (simp add: open_size_def pionex_mapPosition_def pionex_sample_position_def pionex_sample_def ToFloat64_def absFloat_def f_pos_def
      f_lt_def Let_def)

lemma pionex_flatten_witness:
  "\<exists>ps l2 k. run_state (pionex_GetOpenPositions pionex_sample ''BTC'') [] = (Inr ps, l2) \<and>
    snd (run_state (pionex_CloseAllPositions pionex_sample ''BTC'') []) = l2 @ k \<and>
    list_all2 (pionex_closes (pe_lib pionex_sample)) (filter open_size ps) k"
  by (rule pionex_flatten) (metis pionex_sample_run prod.collapse)

subsection \<open>Account settings (\<open>trade.go\<close>)\<close>

definition pionex_ChangeLeverage :: "pionex_env \<Rightarrow> ChangeLeverageRequest \<Rightarrow> (pionex_request, unit) wire" where
  "pionex_ChangeLeverage E req =
     and_then (send_body E ''POST'' ''/uapi/v1/account/leverage'' (LeverageBody (cl_Symbol req) (format_int (cl_Leverage req))))
       (read_base E ''unmarshal pionex change leverage'' ''pionex change leverage failed'')"

definition pionex_SwitchPositionMode :: "pionex_env \<Rightarrow> string \<Rightarrow> PositionMode \<Rightarrow> (pionex_request, unit) wire" where
  "pionex_SwitchPositionMode E smb positionMode =
     (if positionMode \<noteq> PositionModeOneWay \<and> positionMode \<noteq> PositionModeHedge
      then fail (TextError ''unsupported position mode'')
      else and_then (send_body E ''POST'' ''/uapi/v1/account/positionMode''
          (PositionModeBody (if positionMode = PositionModeOneWay then ''BUYSELL'' else ''OPENCLOSE'')))
        (read_base E ''unmarshal pionex switch position mode'' ''pionex switch position mode failed''))"

definition pionex_SwitchMarginMode :: "pionex_env \<Rightarrow> string \<Rightarrow> MarginMode \<Rightarrow> int \<Rightarrow> Side \<Rightarrow> (pionex_request, unit) wire" where
  "pionex_SwitchMarginMode E smb marginMode leverage side =
     (if marginMode \<noteq> MarginModeCross \<and> marginMode \<noteq> MarginModeIsolated
      then fail (TextError ''unsupported margin mode'')
      else and_then (send_body E ''POST'' ''/uapi/v1/trade/isolatedMode''
          (MarginModeBody smb (if marginMode = MarginModeCross then ''CROSS'' else ''ISOLATED'')))
        (read_base E ''unmarshal pionex switch margin mode'' ''pionex switch margin mode failed''))"

text \<open>The mode an account was switched to is the one its orders are read back with.\<close>

lemma pionex_mode_sent:
  assumes "run_state (pionex_SwitchPositionMode E smb m) l = (Inr (), l1)"
  shows "\<exists>r. l1 = l @ [r] \<and> pr_body r = Some (PositionModeBody (mode_string m))"
  using assms by (auto simp: pionex_SwitchPositionMode_def mode_string_def read_base_def dest!: send_call split: if_splits sum.splits prod.splits)

end
