(* ===== verification/GateOrders.thy ===== *)
theory GateOrders
  imports ExchangeWire
begin

text \<open>
  \<open>internal/infrastructure/exchange/gate/order.go\<close>: orders on Gate. The REST endpoints, with their
  JSON, are the environment. A size is signed: a sale is negative.
\<close>

record gateFuturesOrder =
  go_Contract :: string
  go_Size :: int
  go_Price :: string
  go_Close :: "bool option"
  go_ReduceOnly :: "bool option"
  go_Tif :: string
  go_Text :: string
  go_AutoSize :: string
  go_Id :: int
  go_CreateTime :: float64
  go_FinishTime :: float64
  go_FinishAs :: string
  go_Status :: string
  go_Left :: int
  go_FillPrice :: string
  go_TpslTpTriggerPrice :: string
  go_TpslSlTriggerPrice :: string
  go_TpslTpPriceType :: string
  go_TpslSlPriceType :: string

record gateFuturesOrderTimerange =
  gt_Id :: int
  gt_CreateTime :: float64
  gt_UpdateTime :: string
  gt_FinishTime :: string
  gt_FinishAs :: string
  gt_Status :: string
  gt_Contract :: string
  gt_Size :: string
  gt_Price :: string
  gt_Left :: string
  gt_FillPrice :: string
  gt_Text :: string

datatype gate_call =
    GateCreate string gateFuturesOrder | GateCancel string string | GateCancelAll string string
  | GateDetail string string | GateByStatus string string string | GateTimerange string string "int option"

text \<open>\<open>ge_parse\<close> is \<open>strconv.ParseFloat\<close>, None an error.\<close>

record gate_env =
  ge_lib :: wire_lib
  ge_parse :: "string \<Rightarrow> float64 option"
  ge_create :: "string \<Rightarrow> gateFuturesOrder \<Rightarrow> gate_call list \<Rightarrow> ex_error + gateFuturesOrder"
  ge_cancel :: "string \<Rightarrow> string \<Rightarrow> gate_call list \<Rightarrow> ex_error + unit"
  ge_cancel_all :: "string \<Rightarrow> string \<Rightarrow> gate_call list \<Rightarrow> ex_error + unit"
  ge_detail :: "string \<Rightarrow> string \<Rightarrow> gate_call list \<Rightarrow> ex_error + gateFuturesOrder"
  ge_by_status :: "string \<Rightarrow> string \<Rightarrow> string \<Rightarrow> gate_call list \<Rightarrow> ex_error + gateFuturesOrder list"
  ge_timerange :: "string \<Rightarrow> string \<Rightarrow> int option \<Rightarrow> gate_call list \<Rightarrow> ex_error + gateFuturesOrderTimerange list"

definition gate_rawCreateOrder :: "gate_env \<Rightarrow> string \<Rightarrow> gateFuturesOrder \<Rightarrow> (gate_call, gateFuturesOrder) wire" where
  "gate_rawCreateOrder E settle q = ask (GateCreate settle q) (ge_create E settle q)"

definition gate_rawCancelOrder :: "gate_env \<Rightarrow> string \<Rightarrow> string \<Rightarrow> (gate_call, unit) wire" where
  "gate_rawCancelOrder E settle orderID = ask (GateCancel settle orderID) (ge_cancel E settle orderID)"

definition gate_rawCancelAllOpenOrders :: "gate_env \<Rightarrow> string \<Rightarrow> string \<Rightarrow> (gate_call, unit) wire" where
  "gate_rawCancelAllOpenOrders E settle smb = ask (GateCancelAll settle smb) (ge_cancel_all E settle smb)"

definition gate_rawGetOrder :: "gate_env \<Rightarrow> string \<Rightarrow> string \<Rightarrow> (gate_call, gateFuturesOrder) wire" where
  "gate_rawGetOrder E settle orderID = ask (GateDetail settle orderID) (ge_detail E settle orderID)"

definition gate_rawGetOrdersByStatus :: "gate_env \<Rightarrow> string \<Rightarrow> string \<Rightarrow> string \<Rightarrow> (gate_call, gateFuturesOrder list) wire" where
  "gate_rawGetOrdersByStatus E settle smb status =
     (let s = (if settle = [] then ''usdt'' else settle) in ask (GateByStatus s smb status) (ge_by_status E s smb status))"

definition gate_rawGetOrdersTimerange :: "gate_env \<Rightarrow> string \<Rightarrow> string \<Rightarrow> gtime \<Rightarrow> (gate_call, gateFuturesOrderTimerange list) wire" where
  "gate_rawGetOrdersTimerange E settle smb fromTime =
     (let from = (if is_zero_time fromTime then None else Some ((fromTime - 62135596800 * second) div millisecond))
      in ask (GateTimerange settle smb from) (ge_timerange E settle smb from))"

subsection \<open>Building an order\<close>

definition gate_mapOrderPriceAndTif :: "wire_lib \<Rightarrow> ExOrderType \<Rightarrow> float64 \<Rightarrow> string \<times> string" where
  "gate_mapOrderPriceAndTif L reqType price =
     (if reqType = ExMarket then (''0'', ''ioc'')
      else (wl_format L price,
        case reqType of ExPostOnly \<Rightarrow> ''poc'' | ExIOC \<Rightarrow> ''ioc'' | ExFOK \<Rightarrow> ''fok'' | _ \<Rightarrow> ''gtc''))"

definition gate_mapOrderSizeAndClose :: "Side \<Rightarrow> float64 \<Rightarrow> PositionMode \<Rightarrow> bool \<Rightarrow> int \<times> string \<times> bool" where
  "gate_mapOrderSizeAndClose side vol positionMode reduceOnly =
     (let volInt = f_to_i64 vol in
      if positionMode = PositionModeHedge then (case side of
          SideOpenLong \<Rightarrow> (volInt, [], False)
        | SideOpenShort \<Rightarrow> (i64 (- volInt), [], False)
        | SideCloseLong \<Rightarrow> (0, ''close_long'', False)
        | SideCloseShort \<Rightarrow> (0, ''close_short'', False)
        | _ \<Rightarrow> (0, [], False))
      else
        (if side = SideOpenLong \<or> side = SideCloseShort then volInt
         else if side = SideOpenShort \<or> side = SideCloseLong then i64 (- volInt) else 0, [], reduceOnly))"

definition gate_mapSubmitOrder :: "wire_lib \<Rightarrow> SubmitOrderRequest \<Rightarrow> gateFuturesOrder" where
  "gate_mapSubmitOrder L req =
     (let (price, tif) = gate_mapOrderPriceAndTif L (so_Type req) (so_Price req);
          (size, autoSize, close) = gate_mapOrderSizeAndClose (so_Side req) (so_Vol req) (so_PositionMode req) (so_ReduceOnly req);
          tp = f_pos (so_TakeProfitPrice req); sl = f_pos (so_StopLossPrice req)
      in \<lparr>go_Contract = so_Symbol req, go_Size = size, go_Price = price,
          go_Close = (if autoSize = [] \<and> close then Some True else None),
          go_ReduceOnly = (if autoSize \<noteq> [] \<or> so_ReduceOnly req then Some True else None),
          go_Tif = tif, go_Text = (if so_ExternalOID req \<noteq> [] then ''t-'' @ so_ExternalOID req else []), go_AutoSize = autoSize,
          go_Id = 0, go_CreateTime = f0, go_FinishTime = f0, go_FinishAs = [], go_Status = [], go_Left = 0, go_FillPrice = [],
          go_TpslTpTriggerPrice = format_if_pos L (so_TakeProfitPrice req),
          go_TpslSlTriggerPrice = format_if_pos L (so_StopLossPrice req),
          go_TpslTpPriceType = (if tp then ''last'' else []), go_TpslSlPriceType = (if sl then ''last'' else [])\<rparr>)"

definition gate_CreateOrder :: "gate_env \<Rightarrow> SubmitOrderRequest \<Rightarrow> (gate_call, CreateOrderResult) wire" where
  "gate_CreateOrder E req = and_then (wrapping_ex ''gate.io create order'' (gate_rawCreateOrder E ''usdt'' (gate_mapSubmitOrder (ge_lib E) req)))
     (\<lambda>r. ok \<lparr>cr_OrderID = format_int (go_Id r),
        cr_TPSLSubmitted = (f_pos (so_TakeProfitPrice req) \<or> f_pos (so_StopLossPrice req)), cr_Time = 0\<rparr>)"

definition gate_CancelOrder :: "gate_env \<Rightarrow> string \<Rightarrow> string \<Rightarrow> (gate_call, unit) wire" where
  "gate_CancelOrder E smb orderID = wrapping_ex ''gate.io cancel order'' (gate_rawCancelOrder E ''usdt'' orderID)"

definition gate_CancelOrders :: "gate_env \<Rightarrow> string list \<Rightarrow> (gate_call, unit) wire" where
  "gate_CancelOrders E ids = each (\<lambda>i. wrapping_ex (''gate.io cancel bulk order '' @ i) (gate_rawCancelOrder E ''usdt'' i)) ids"

definition gate_CancelAllOpenOrders :: "gate_env \<Rightarrow> string \<Rightarrow> (gate_call, unit) wire" where
  "gate_CancelAllOpenOrders E smb =
     wrapping_ex (''gate.io cancel all open orders for '' @ smb) (gate_rawCancelAllOpenOrders E ''usdt'' smb)"

subsection \<open>Reading orders\<close>

definition gate_side :: "int \<Rightarrow> Side" where
  "gate_side s = (if 0 < s then SideOpenLong else if s < 0 then SideOpenShort else SideUnknown)"

definition cut_t :: "string \<Rightarrow> string" where
  "cut_t s = (if has_prefix ''t-'' s then drop 2 s else s)"

definition millis :: "float64 \<Rightarrow> int" where
  "millis t = f_to_i64 (f_mul t (f_of_int 1000))"

text \<open>The state of an order on the two endpoints; \<open>raw.Left < raw.Size\<close> compares signed sizes.\<close>

definition gate_state :: "string \<Rightarrow> string \<Rightarrow> int \<Rightarrow> int \<Rightarrow> OrderState" where
  "gate_state status finishAs left s =
     (if status = ''finished'' then
        (if finishAs = ''filled'' then OrderStateFilled
         else if finishAs = ''cancelled'' \<or> finishAs = ''ioc'' then OrderStateCanceled else OrderStateNew)
      else if status = ''open'' then (if left < s then OrderStatePartiallyFilled else OrderStateNew)
      else OrderStateNew)"

definition gate_timerange_state :: "string \<Rightarrow> string \<Rightarrow> int \<Rightarrow> int \<Rightarrow> OrderState" where
  "gate_timerange_state status finishAs left s =
     (if status = ''finished'' then (if finishAs = ''filled'' then OrderStateFilled else OrderStateCanceled)
      else if status = ''open'' then (if AbsInt64 left < AbsInt64 s then OrderStatePartiallyFilled else OrderStateNew)
      else OrderStateNew)"

definition gate_mapOrderInfo :: "wire_lib \<Rightarrow> gateFuturesOrder \<Rightarrow> OrderInfo" where
  "gate_mapOrderInfo L r =
     \<lparr>oi_OrderID = format_int (go_Id r), oi_Symbol = go_Contract r, oi_Price = wl_float L (go_Price r),
      oi_Vol = f_of_int (AbsInt64 (go_Size r)), oi_DealAvgPrice = wl_float L (go_FillPrice r),
      oi_DealVol = f_of_int (i64 (AbsInt64 (go_Size r) - AbsInt64 (go_Left r))),
      oi_State = gate_state (go_Status r) (go_FinishAs r) (go_Left r) (go_Size r), oi_ExternalOID = cut_t (go_Text r),
      oi_Side = gate_side (go_Size r), oi_PositionMode = 0,
      oi_CreateTime = millis (go_CreateTime r), oi_UpdateTime = millis (go_FinishTime r)\<rparr>"

definition parseTimerangeTimes :: "(string \<Rightarrow> float64 option) \<Rightarrow> string \<Rightarrow> string \<Rightarrow> int \<times> int" where
  "parseTimerangeTimes parse finishTime updateTime =
     (let finishMs = (if finishTime = [] then 0 else case parse finishTime of Some f \<Rightarrow> millis f | None \<Rightarrow> 0);
          updateMs = (if updateTime \<noteq> [] then (case parse updateTime of Some u \<Rightarrow> millis u | None \<Rightarrow> 0)
                      else if 0 < finishMs then finishMs else 0)
      in (finishMs, updateMs))"

definition number_int :: "string \<Rightarrow> int" where
  "number_int n = (if n = [] then 0 else case atoi n of Some i \<Rightarrow> i | None \<Rightarrow> 0)"

definition gate_mapOrderTimerangeInfo :: "gate_env \<Rightarrow> gateFuturesOrderTimerange \<Rightarrow> OrderInfo" where
  "gate_mapOrderTimerangeInfo E r =
     (let s = number_int (gt_Size r); left = number_int (gt_Left r); L = ge_lib E in
      \<lparr>oi_OrderID = format_int (gt_Id r), oi_Symbol = gt_Contract r, oi_Price = wl_float L (gt_Price r),
       oi_Vol = f_of_int (AbsInt64 s), oi_DealAvgPrice = wl_float L (gt_FillPrice r),
       oi_DealVol = f_of_int (i64 (AbsInt64 s - AbsInt64 left)),
       oi_State = gate_timerange_state (gt_Status r) (gt_FinishAs r) left s, oi_ExternalOID = cut_t (gt_Text r),
       oi_Side = gate_side s, oi_PositionMode = 0,
       oi_CreateTime = millis (gt_CreateTime r), oi_UpdateTime = snd (parseTimerangeTimes (ge_parse E) (gt_FinishTime r) (gt_UpdateTime r))\<rparr>)"

text \<open>The order by its identifier, and when that fails among the recent ones.\<close>

definition gate_GetOrder :: "gate_env \<Rightarrow> string \<Rightarrow> string \<Rightarrow> (gate_call, OrderInfo) wire" where
  "gate_GetOrder E smb orderID = do {
     r \<leftarrow> gate_rawGetOrder E ''usdt'' orderID;
     case r of Inr x \<Rightarrow> ok (gate_mapOrderInfo (ge_lib E) x)
     | Inl e \<Rightarrow> do {
         os \<leftarrow> gate_rawGetOrdersTimerange E ''usdt'' smb 0;
         ret (case os of Inl _ \<Rightarrow> Inl (Wrapped (''gate.io get order by ID '' @ orderID) e)
            | Inr l \<Rightarrow> (case find (\<lambda>x. format_int (gt_Id x) = orderID) l of
                None \<Rightarrow> Inl (Wrapped (''gate.io get order by ID '' @ orderID) e)
              | Some x \<Rightarrow> Inr (gate_mapOrderTimerangeInfo E x))) }}"

definition gate_text :: "string \<Rightarrow> string" where
  "gate_text externalOrderID = (if has_prefix ''t-'' externalOrderID then externalOrderID else ''t-'' @ externalOrderID)"

definition gate_GetOrderByExternalIDWithTime :: "gate_env \<Rightarrow> string \<Rightarrow> string \<Rightarrow> gtime \<Rightarrow> (gate_call, OrderInfo) wire" where
  "gate_GetOrderByExternalIDWithTime E smb externalOrderID startTime = do {
     let target = gate_text externalOrderID;
     r \<leftarrow> gate_rawGetOrder E ''usdt'' target;
     case r of Inr x \<Rightarrow> ok (gate_mapOrderInfo (ge_lib E) x)
     | Inl e \<Rightarrow> do {
         fin \<leftarrow> gate_rawGetOrdersByStatus E ''usdt'' smb ''finished'';
         case (case fin of Inl _ \<Rightarrow> None | Inr l \<Rightarrow> find (\<lambda>x. go_Text x = externalOrderID \<or> go_Text x = target) l) of
           Some x \<Rightarrow> ok (gate_mapOrderInfo (ge_lib E) x)
         | None \<Rightarrow> do {
             os \<leftarrow> gate_rawGetOrdersTimerange E ''usdt'' smb startTime;
             case (case os of Inl _ \<Rightarrow> None | Inr l \<Rightarrow> find (\<lambda>x. gt_Text x = externalOrderID \<or> gt_Text x = target) l) of
               Some x \<Rightarrow> ok (gate_mapOrderTimerangeInfo E x)
             | None \<Rightarrow> fail (Wrapped (''gate.io get order by external ID '' @ externalOrderID) e) }}}"

definition gate_GetOrderByExternalID :: "gate_env \<Rightarrow> string \<Rightarrow> string \<Rightarrow> (gate_call, OrderInfo) wire" where
  "gate_GetOrderByExternalID E smb externalOrderID = gate_GetOrderByExternalIDWithTime E smb externalOrderID 0"

definition gate_GetOpenOrders :: "gate_env \<Rightarrow> string \<Rightarrow> (gate_call, OrderInfo list) wire" where
  "gate_GetOpenOrders E smb = and_then (wrapping_ex (''gate.io list open orders for '' @ smb) (gate_rawGetOrdersByStatus E ''usdt'' smb ''open''))
     (\<lambda>l. ok (map (gate_mapOrderInfo (ge_lib E)) l))"

subsection \<open>What the two mappings disagree on\<close>

text \<open>
  An open order to sell which is filled in part has \<open>-size < -left < 0\<close>: by the order endpoint it
  is new, by the history endpoint partly filled. An order finished for another reason than a fill
  or a cancel is new (and never terminal) by the first, canceled by the second.
\<close>

lemma gate_short_partial:
  assumes "- (2 ^ 63) < s" "s < left" "left < 0"
  shows "gate_state ''open'' fa left s = OrderStateNew \<and> gate_timerange_state ''open'' fa left s = OrderStatePartiallyFilled"
  using assms by (simp add: gate_state_def gate_timerange_state_def AbsInt64_def i64_def)

lemma gate_long_states:
  assumes "0 \<le> left" "left \<le> s"
  shows "gate_state ''open'' fa left s = gate_timerange_state ''open'' fa left s"
  using assms by (simp add: gate_state_def gate_timerange_state_def AbsInt64_def)

lemma gate_finished_states:
  "gate_state ''finished'' fa left s = gate_timerange_state ''finished'' fa left s \<longleftrightarrow> fa = ''filled'' \<or> fa = ''cancelled'' \<or> fa = ''ioc''"
  by (simp add: gate_state_def gate_timerange_state_def)

lemma gate_external_id: "\<not> has_prefix ''t-'' i \<Longrightarrow> cut_t (gate_text i) = i"
  by (simp add: cut_t_def gate_text_def has_prefix_def)

end
