(* ===== verification/ExchangeLaws.thy ===== *)
theory ExchangeLaws
  imports OrderCalc OkxOrders BinanceOrders BitgetOrders BitunixOrders XtOrders PionexOrders GateOrders
begin

text \<open>
  What holds across the order adapters, and what the order manager makes of their answers: sides
  are read back as they were sent, a canceled order keeps or loses its fill, and the profit rate
  has or has not the unit of the others.
\<close>

text \<open>
  In hedge mode, an order's side is read back from the fields it was sent with as the side it
  had, on OKX, Binance, Bitunix, XT and Pionex; on Pionex in one-way mode too, by the mode the account
  reports.
\<close>

lemma sides_read_back:
  assumes "s \<in> trade_sides"
  shows "okx_side (mapOKXOrderSide s True) = s \<and>
    (\<exists>b. toBinanceSide s = Some b \<and> mapBinanceSideAndMode (hedge_side s) b = (s, PositionModeHedge)) \<and>
    (\<exists>a b. bitunix_mapOrderSide s = Inr (a, b) \<and> bitunix_mapToDomainSide a b = s) \<and>
    xt_mapToDomainSide (fst (mapToExchangeSide s)) (snd (mapToExchangeSide s)) = s \<and>
    (\<forall>m \<in> {PositionModeHedge, PositionModeOneWay}. \<exists>a b ro. pionex_mapOrderSide m s = Inr (a, b, ro) \<and>
       mapOrderSideAndMode a b (mode_string m) ro = (m, s))"
proof -
  have okx: "okx_side (mapOKXOrderSide s True) = s" using okx_sides.read_back [OF assms] by simp
  have binance: "\<exists>b. toBinanceSide s = Some b \<and> mapBinanceSideAndMode (hedge_side s) b = (s, PositionModeHedge)"
    using binance_sides.read_back [OF assms] by (auto simp: mapBinanceSideAndMode_def hedge_side_def split: if_splits)
  have bitunix: "\<exists>a b. bitunix_mapOrderSide s = Inr (a, b) \<and> bitunix_mapToDomainSide a b = s"
    using bitunix_sides.read_back [OF assms] by (auto simp: bitunix_encode_def split: sum.splits)
  have xt: "xt_mapToDomainSide (fst (mapToExchangeSide s)) (snd (mapToExchangeSide s)) = s"
    using xt_sides.read_back [OF assms] by simp
  have pionex: "\<exists>a b ro. pionex_mapOrderSide m s = Inr (a, b, ro) \<and> mapOrderSideAndMode a b (mode_string m) ro = (m, s)"
    if "m \<in> {PositionModeHedge, PositionModeOneWay}" for m
    using that pionex_sides.read_back [OF assms, of m]
    by (auto simp: pionex_encode_def mapOrderSideAndMode_def mode_string_def split: sum.splits)
  show ?thesis using okx binance bitunix xt pionex by blast
qed

lemma sides_read_back_witness:
  "okx_side (mapOKXOrderSide SideCloseShort True) = SideCloseShort \<and>
    (\<exists>a b. bitunix_mapOrderSide SideCloseShort = Inr (a, b) \<and> bitunix_mapToDomainSide a b = SideCloseShort)"
  using sides_read_back [of SideCloseShort] by (simp add: trade_sides_def)

subsection \<open>A fill of a canceled order\<close>

lemma classify_canceled:
  "oi_State x = OrderStateCanceled \<Longrightarrow> classifyOrderOutcome (Some x) = (OutcomeCanceledNoFill, oi_DealVol x, oi_DealAvgPrice x)"
  by (simp add: classifyOrderOutcome_def)

text \<open>
  An IOC order filled in part ends canceled on OKX, expired on Binance and part-filled-canceled
  on Bitunix. The adapters map all three to the state canceled, and the order manager then reports
  the outcome canceled-no-fill with the volume that was filled; only Pionex, which has a state for
  it, gives the outcome partially-filled.
\<close>

lemma partial_fill_lost:
  assumes "ok_State a = ''canceled''" "bn_Status b = ''EXPIRED''" "bu_Status c = ''PART_FILLED_CANCELED''"
    and "px_Status d = ''CANCELED''" "f_pos (ToFloat64 L (px_FilledSize d))"
  shows "(\<exists>avg. classifyOrderOutcome (Some (mapOkxOrder L a)) =
       (OutcomeCanceledNoFill, wl_float L (if ok_AccFillSz a = [] then ok_FillSz a else ok_AccFillSz a), avg)) \<and>
    (\<exists>avg. classifyOrderOutcome (Some (mapBinanceOrder L b)) = (OutcomeCanceledNoFill, wl_float L (bn_ExecutedQty b), avg)) \<and>
    fst (classifyOrderOutcome (Some (bitunix_order_info L c))) = OutcomeCanceledNoFill \<and>
    (\<exists>avg. classifyOrderOutcome (Some (mapCommonOrderInfo L d)) = (OutcomePartiallyFilled, ToFloat64 L (px_FilledSize d), avg))"
proof -
  have "oi_State (mapOkxOrder L a) = OrderStateCanceled" using assms(1) by (simp add: mapOkxOrder_def okx_state_def)
  moreover have "oi_State (mapBinanceOrder L b) = OrderStateCanceled"
    using assms(2) by (simp add: mapBinanceOrder_def mapBinanceStatus_def split: prod.splits)
  moreover have "oi_State (bitunix_order_info L c) = OrderStateCanceled"
    using assms(3) by (simp add: bitunix_order_info_def bitunix_mapOrderStatus_def to_upper_def upper_char_def)
  moreover have "classifyOrderOutcome (Some (mapCommonOrderInfo L d)) =
      (OutcomePartiallyFilled, ToFloat64 L (px_FilledSize d), f_div (ToFloat64 L (px_FilledAmount d)) (ToFloat64 L (px_FilledSize d)))"
    using assms(4,5) by (simp add: mapCommonOrderInfo_def pionex_mapOrderState_def classifyOrderOutcome_def Let_def split: prod.splits)
  ultimately show ?thesis
    by (simp add: classify_canceled mapOkxOrder_def mapBinanceOrder_def split: prod.splits)
qed

definition sample_lib :: wire_lib where
  "sample_lib = \<lparr>wl_float = (\<lambda>s. if s = ''5'' then FFin 5 else f0), wl_format = (\<lambda>x. ''0'')\<rparr>"

definition sample_okx :: okxOrder where
  "sample_okx = \<lparr>ok_InstID = ''BTC'', ok_OrdID = ''1'', ok_ClOrdID = ''c'', ok_Px = ''0'', ok_Sz = ''0'', ok_Side = ''buy'', ok_PosSide = ''long'',
     ok_State = ''canceled'', ok_AvgPx = ''0'', ok_UTime = ''1'', ok_CTime = ''1'', ok_FillSz = ''0'', ok_AccFillSz = ''5''\<rparr>"

definition sample_binance :: binanceOrder where
  "sample_binance = \<lparr>bn_OrderId = 1, bn_Symbol = ''BTC'', bn_Status = ''EXPIRED'', bn_ClientOrderId = ''c'', bn_Price = ''0'', bn_AvgPrice = ''0'',
     bn_OrigQty = ''0'', bn_ExecutedQty = ''5'', bn_PositionSide = ''LONG'', bn_Side = ''BUY'', bn_Time = None, bn_UpdateTime = None\<rparr>"

definition sample_pionex :: pionexOrder where
  "sample_pionex = \<lparr>px_OrderID = ''1'', px_Symbol = ''BTC'', px_PositionMode = ''OPENCLOSE'', px_Side = ''BUY'', px_PositionSide = ''LONG'',
     px_Price = ''0'', px_OrigSize = ''0'', px_Size = ''0'', px_FilledSize = ''5'', px_FilledAmount = ''5'', px_Status = ''CANCELED'',
     px_ClientOrderID = ''c'', px_ReduceOnly = False, px_CreateTime = ''1'', px_UpdateTime = ''1''\<rparr>"

lemma partial_fill_lost_witness:
  "(\<exists>avg. classifyOrderOutcome (Some (mapOkxOrder sample_lib sample_okx)) = (OutcomeCanceledNoFill, FFin 5, avg)) \<and>
   (\<exists>avg. classifyOrderOutcome (Some (mapBinanceOrder sample_lib sample_binance)) = (OutcomeCanceledNoFill, FFin 5, avg)) \<and>
   (\<exists>avg. classifyOrderOutcome (Some (mapCommonOrderInfo sample_lib sample_pionex)) = (OutcomePartiallyFilled, FFin 5, avg))"
  using partial_fill_lost [of sample_okx sample_binance "bitunix_sample_order ''1'' ''BTC''\<lparr>bu_Status := ''PART_FILLED_CANCELED''\<rparr>"
      sample_pionex sample_lib]
  by (simp add: sample_okx_def sample_binance_def sample_pionex_def sample_lib_def ToFloat64_def f_pos_def f_lt_def)

text \<open>The same on Bitget and XT, and on Gate for an order that is finished.\<close>

lemma others_lose_it:
  "bg_State a = ''canceled'' \<Longrightarrow> fst (classifyOrderOutcome (Some (mapBitgetRawOrder L a))) = OutcomeCanceledNoFill"
  "xo_State b = ''CANCELED'' \<Longrightarrow> fst (classifyOrderOutcome (Some (mapOrderToDomain L b))) = OutcomeCanceledNoFill"
  "go_Status c = ''finished'' \<Longrightarrow> go_FinishAs c = ''ioc'' \<Longrightarrow> fst (classifyOrderOutcome (Some (gate_mapOrderInfo L c))) = OutcomeCanceledNoFill"
  by (simp_all add: classifyOrderOutcome_def mapBitgetRawOrder_def bitget_state_def mapOrderToDomain_def xt_mapOrderStatus_def
      gate_mapOrderInfo_def gate_state_def to_upper_def upper_char_def)

text \<open>A short order on Gate that is filled in part counts as resting by one endpoint, as partly filled by the other.\<close>

lemma gate_endpoints_disagree:
  assumes "go_Status r = ''open''" "- (2 ^ 63) < go_Size r" "go_Size r < go_Left r" "go_Left r < 0"
  shows "fst (classifyOrderOutcome (Some (gate_mapOrderInfo L r))) = OutcomeResting \<and>
    gate_timerange_state (go_Status r) (go_FinishAs r) (go_Left r) (go_Size r) = OrderStatePartiallyFilled"
  using gate_short_partial [OF assms(2-4), of "go_FinishAs r"] assms(1)
  by (simp add: classifyOrderOutcome_def gate_mapOrderInfo_def)

subsection \<open>The unit of the profit rate\<close>

text \<open>
  The order manager takes the rate as a percentage. XT gives a fraction: a hundredth of what
  Bitunix gives for the same prices.
\<close>

lemma pnl_rate_units:
  "f_pos entry \<Longrightarrow> calculatePnLRate entry exit isLong = f_mul (xt_pnl_rate entry exit isLong) (f_of_int 100)"
  by (cases entry) (auto simp: calculatePnLRate_def xt_pnl_rate_def f_pos_def f_lt_def f_le_def f_eq_def)

end
