(* ===== verification/Spec2Isabelle.thy ===== *)
theory Spec2Isabelle
  imports DecMath Domain BookSyncLaws OrderLaws CombatMode FundingScanLimits PennyRuns PennyUniverseLaws WsManager WsClientLaws MarketStores TimeSync ExchangeLaws
begin

text \<open>
  A model of the trading core of the crypto-bot repository (Go, under \<open>src/\<close>).

  The bots decide what to trade; every order goes through the futures order manager
  (\<open>internal/trading/ordermanager/futures\<close>), a chain of handlers connected by an in-memory
  event bus (\<open>pkg/eventbus\<close>). Order books are kept in step with the exchange by the
  synchronizer (\<open>internal/infrastructure/store/orderbook\<close>). The funding bot scans for funding
  rates and sends its order intents through the reversion chain; the penny jumper watches the
  books for large walls. Market data and private updates come through websocket clients
  (\<open>pkg/ws\<close>) into the stores, and the time synchronisation gives the exchange's clock.

  \<^item> \<open>Prelude\<close>, \<open>Float64\<close>, \<open>GoStrings\<close>: Go's instants, int64 wrap-around, float64 with NaN,
    infinities and rounding, and the string functions the source uses.
  \<^item> \<open>DecMath\<close>: \<open>pkg/decmath/decmath.go\<close>. The decimal library is the record \<open>dec_lib\<close>, its
    documented laws the locale \<open>decimal_lib\<close>, \<open>exact_dec\<close> an instance.
  \<^item> \<open>Domain\<close>: sides, order states, books, trades, positions, requests.
  \<^item> \<open>LocalOrderBook\<close>: the book of one symbol; its invariant says that the cached best prices
    are the extreme ones.
  \<^item> \<open>BookSync\<close>: the worker of a symbol as operations on its state, with its running fetches
    and queued messages, and the synchronizer as a step relation. The locale
    \<open>worker_invariant\<close> carries a worker invariant to all reachable synchronizer states; it is
    used for the outstanding fetches and for the books. \<open>BookSyncLaws\<close>: snapshots and the replay of
    staged updates, versions, the bound of the staging buffer.
  \<^item> \<open>OrderEvents\<close>, \<open>OrderAggregate\<close>: the events of an order and the aggregate that records
    them, its lifecycle, its facts and the trade record built from it.
  \<^item> \<open>EventBus\<close>: publishing with deduplication; the key repository is a parameter with the
    laws of the locale \<open>dedup_repository\<close>.
  \<^item> \<open>CombatMode\<close>: the coordinator that switches the garbage collector off around a settlement.
  \<^item> \<open>OrderCalc\<close>, \<open>OrderManager\<close>, \<open>OrderPipeline\<close>: the pure parts of \<open>manager.go\<close>, its handlers
    as state monad actions, and the subscribers of \<open>execute.go\<close> with the running pipeline as a
    step relation \<open>om_step\<close>.
  \<^item> \<open>OrderFrames\<close>, \<open>OrderSafety\<close>, \<open>OrderDelivery\<close>, \<open>OrderRuns\<close>: what handlers cannot do (the locale
    \<open>pipeline_frame\<close>), the calls they log, how the mail and the bus log fit together, and what
    follows for every run. \<open>OrderStore\<close>: the orders the manager keeps are event sourced and only
    move forward. \<open>OrderLaws\<close>: the single handlers that call the exchange (execution, polling,
    deadlines, bailout, trailing stop).
  \<^item> \<open>Effects\<close>, \<open>GoSort\<close>, \<open>GoCache\<close>, \<open>GoFormat\<close>, \<open>RttStats\<close>: the state monad of the handlers, Go's
    stable sort, the expiring cache the bots use (laws in the locale \<open>go_cache\<close>, as it is
    a parameter), number formats, and the latency window two components share. \<open>OrderId\<close>: the
    identifiers the bots give their orders. \<open>TradeCalc\<close>: \<open>pkg/tradecalc/calc.go\<close>, with the proof that
    an IOC price crosses the book after rounding.
  \<^item> The funding bot (\<open>internal/bots/funding\<close>). \<open>FundingDomain\<close>: candidates, prices, take profit
    and stop loss, safety limits, depth imbalance (\<open>domain/\<close>). \<open>FundingAllocator\<close>: the margins of an
    account and the ranking. \<open>FundingConfig\<close>: the layers of the settings. \<open>FundingReversion\<close>: the
    chain of handlers from a scan to an order intent (\<open>application/reversion\<close>);
    \<open>FundingReversionLaws\<close>: an intent passed every check and carries its protection. \<open>Contracts\<close>,
    \<open>FundingScanner\<close>: contract limits, both scanners and the job that triggers the flow;
    \<open>FundingScannerLaws\<close>, \<open>FundingScanLimits\<close>: one entry per settlement, and a scan within the
    account's limits.
  \<^item> The penny jumper (\<open>internal/bots/penny_jumper\<close>). \<open>PennyDomain\<close>: walls, their events, the judges
    and the configuration; \<open>PennyStore\<close>: the depth store; \<open>PennyDetector\<close>: the wall detector;
    \<open>PennyRunner\<close>: the runner's handlers; \<open>PennyUniverse\<close>: the subscriptions and the bot's life cycle.
    \<open>PennyJournal\<close>, \<open>PennyLaws\<close>, \<open>PennyRuns\<close>: over every run the journal of a wall replays to the wall,
    and a wall is qualified only after a judgement; \<open>PennyUniverseLaws\<close>: the bot asks for the
    depths of its universe and has those that were not refused.
  \<^item> Websockets. \<open>WsDispatcher\<close>, \<open>WsPool\<close>, \<open>WsClient\<close>: \<open>pkg/ws\<close>, with the client's loop as a
    step function on what the environment answers and the dispatcher as a step relation over
    channels; \<open>WsManager\<close>: the reference counts of \<open>internal/infrastructure/ws/ws.go\<close>.
    \<open>WsClientLaws\<close>: the client reconnects, a request gets its response, and where a close or a
    subscription is lost.
  \<^item> \<open>MarketStores\<close>: the stores of \<open>internal/infrastructure/store\<close> and the price cache. \<open>TimeSync\<close>:
    the clock offset, its latency statistics and the wait that never ends early.

  Interfaces are locales (\<open>decimal_lib\<close>, \<open>dedup_repository\<close>, \<open>worker_invariant\<close>, \<open>pipeline_frame\<close> and
  those that extend them in the order and penny theories), each interpreted on the model's own definitions in
  the theory that provides them; the properties named \<open>C1\<close>, \<open>C2\<close>, ... in the text blocks rest on
  their facts.

  Bounds: the loops that retry take the number of retries the source passes to the backoff
  library (5 for polling an order, 10 for a bailout and for the closed profit), so no fuel is
  invented. The wait of \<open>TimeSync\<close> consumes a list of clock readings and is undefined (\<open>None\<close>) when
  they are used up; \<open>two_rounds\<close> shows that two rounds are enough for a target on a full
  millisecond. \<open>reconnects\<close> bounds the steps of the client's loop after the dialer answers.

  Not modelled: the requests and responses of the exchange adapters (HTTP, signing, JSON), the
  database, dependency injection, logging and notification texts, configuration files; the
  expiry of the order manager's caches after an hour; the handlers registered with the websocket
  pool; interleavings inside a handler or a locked section (each runs as one action; where the
  source releases its lock in between, as in the websocket pool, the manager and the dispatcher,
  the sections are separate definitions).
\<close>

end
